(* ===== verification/Prelude.thy ===== *)
theory Prelude
  imports Main "HOL-Library.AList"
begin

text \<open>
  What every component of the model shares: the JavaScript collections the code uses
  (\<open>Map\<close> and \<open>Set\<close>, both iterated in insertion order), numbers and JSON values,
  results that are either thrown or returned, character classes for the code's regular
  expressions, and reachability for the state machines.

  Strings are lists of code units restricted to 0..255 (type \<open>string\<close>); the code's
  regular expressions, identifiers and credentials are ASCII.
\<close>

named_theorems js_map_simps \<open>equations of the insertion-ordered map\<close>
named_theorems js_text_simps \<open>character classes and patterns\<close>
named_theorems step_defs \<open>definitions of the handlers of a state machine\<close>

subsection \<open>Insertion-ordered maps (class Map)\<close>

type_synonym ('k, 'v) js_map = "('k \<times> 'v) list"

definition jm_get :: "('k, 'v) js_map \<Rightarrow> 'k \<Rightarrow> 'v option" where
  "jm_get m k = map_of m k"

definition jm_set :: "'k \<Rightarrow> 'v \<Rightarrow> ('k, 'v) js_map \<Rightarrow> ('k, 'v) js_map" where
  "jm_set k v m = AList.update k v m"

definition jm_delete :: "'k \<Rightarrow> ('k, 'v) js_map \<Rightarrow> ('k, 'v) js_map" where
  "jm_delete k m = filter (\<lambda>(k', _). k' \<noteq> k) m"

definition jm_has :: "('k, 'v) js_map \<Rightarrow> 'k \<Rightarrow> bool" where
  "jm_has m k = (k \<in> set (map fst m))"

definition jm_keys :: "('k, 'v) js_map \<Rightarrow> 'k list" where
  "jm_keys m = map fst m"

definition jm_values :: "('k, 'v) js_map \<Rightarrow> 'v list" where
  "jm_values m = map snd m"

definition jm_size :: "('k, 'v) js_map \<Rightarrow> nat" where
  "jm_size m = length m"

definition jm_wf :: "('k, 'v) js_map \<Rightarrow> bool" where
  "jm_wf m = distinct (map fst m)"

lemma jm_get_Nil [simp]: "jm_get [] k = None"
  by (simp add: jm_get_def)

lemma jm_get_set [simp, js_map_simps]:
  "jm_get (jm_set k v m) k' = (if k' = k then Some v else jm_get m k')"
  by (simp add: jm_get_def jm_set_def update_conv')

lemma jm_get_delete [simp, js_map_simps]:
  "jm_get (jm_delete k m) k' = (if k' = k then None else jm_get m k')"
  by (induction m) (auto simp: jm_get_def jm_delete_def)

lemma jm_wf_Nil [simp]: "jm_wf []"
  by (simp add: jm_wf_def)

lemma jm_wf_set [simp]: "jm_wf m \<Longrightarrow> jm_wf (jm_set k v m)"
  by (simp add: jm_wf_def jm_set_def distinct_update)

lemma jm_wf_delete [simp]: "jm_wf m \<Longrightarrow> jm_wf (jm_delete k m)"
  unfolding jm_wf_def jm_delete_def by (induction m) auto

lemma jm_has_get: "jm_has m k = (jm_get m k \<noteq> None)"
  by (induction m) (auto simp: jm_has_def jm_get_def)

lemma jm_has_Nil [simp]: "\<not> jm_has [] k"
  by (simp add: jm_has_def)

lemma jm_has_set [simp]: "jm_has (jm_set k v m) k' = (k' = k \<or> jm_has m k')"
  by (simp add: jm_has_get)

lemma jm_has_delete [simp]: "jm_has (jm_delete k m) k' = (k' \<noteq> k \<and> jm_has m k')"
  by (simp add: jm_has_get)

lemma jm_has_mem: "jm_get m k = Some v \<Longrightarrow> jm_has m k"
  by (simp add: jm_has_get)

lemma jm_delete_absent: "jm_get m k = None \<Longrightarrow> jm_delete k m = m"
  by (induction m) (auto simp: jm_get_def jm_delete_def split: if_splits)

lemma jm_delete_set_absent: "jm_get m k = None \<Longrightarrow> jm_delete k (jm_set k v m) = m"
proof (induction m)
  case Nil
  then show ?case by (simp add: jm_set_def jm_delete_def)
next
  case (Cons p m)
  then show ?case
    by (cases p) (auto simp: jm_set_def jm_delete_def jm_get_def split: if_splits)
qed

lemma jm_value_mem: "jm_get m k = Some v \<Longrightarrow> v \<in> set (jm_values m)"
  by (induction m) (auto simp: jm_get_def jm_values_def split: if_splits)

lemma jm_wf_value_get:
  "jm_wf m \<Longrightarrow> v \<in> set (jm_values m) \<Longrightarrow> \<exists>k. jm_get m k = Some v"
  by (auto simp: jm_wf_def jm_values_def jm_get_def)

text \<open>The contract every keyed store of the model is used through.\<close>

locale dictionary =
  fixes empty :: 'm
    and get :: "'m \<Rightarrow> 'k \<Rightarrow> 'v option"
    and put :: "'k \<Rightarrow> 'v \<Rightarrow> 'm \<Rightarrow> 'm"
    and del :: "'k \<Rightarrow> 'm \<Rightarrow> 'm"
    and wf :: "'m \<Rightarrow> bool"
  assumes get_empty: "get empty k = None"
    and get_put: "wf m \<Longrightarrow> get (put k v m) k' = (if k' = k then Some v else get m k')"
    and get_del: "wf m \<Longrightarrow> get (del k m) k' = (if k' = k then None else get m k')"
    and wf_empty: "wf empty"
    and wf_put: "wf m \<Longrightarrow> wf (put k v m)"
    and wf_del: "wf m \<Longrightarrow> wf (del k m)"
begin

definition fold_del :: "'k list \<Rightarrow> 'm \<Rightarrow> 'm" where
  "fold_del ks m = fold del ks m"

lemma fold_del_wf: "wf m \<Longrightarrow> wf (fold_del ks m)"
  unfolding fold_del_def by (induction ks arbitrary: m) (auto simp: wf_del)

lemma fold_del_get:
  "wf m \<Longrightarrow> get (fold_del ks m) k = (if k \<in> set ks then None else get m k)"
proof (induction ks arbitrary: m)
  case Nil
  then show ?case by (simp add: fold_del_def)
next
  case (Cons a ks)
  then have "get (fold_del ks (del a m)) k = (if k \<in> set ks then None else get (del a m) k)"
    by (simp add: wf_del)
  with Cons.prems show ?case by (auto simp: fold_del_def get_del)
qed

end

interpretation jm: dictionary "[]" jm_get jm_set jm_delete jm_wf
  by unfold_locales simp_all

text \<open>Deleting a list of keys, as the code's loops over a session's token hashes do.\<close>

definition jm_delete_all :: "'k list \<Rightarrow> ('k, 'v) js_map \<Rightarrow> ('k, 'v) js_map" where
  "jm_delete_all ks m = fold jm_delete ks m"

lemma jm_delete_all_fold: "jm_delete_all ks m = jm.fold_del ks m"
  by (simp add: jm_delete_all_def jm.fold_del_def)

lemma jm_wf_delete_all [simp]: "jm_wf m \<Longrightarrow> jm_wf (jm_delete_all ks m)"
  by (simp add: jm_delete_all_fold jm.fold_del_wf)

lemma jm_get_delete_all [simp, js_map_simps]:
  "jm_wf m \<Longrightarrow> jm_get (jm_delete_all ks m) k = (if k \<in> set ks then None else jm_get m k)"
  by (simp add: jm_delete_all_fold jm.fold_del_get)

subsection \<open>Sums over the values of a map\<close>

definition jm_sum :: "('v \<Rightarrow> int) \<Rightarrow> ('k, 'v) js_map \<Rightarrow> int" where
  "jm_sum f m = sum_list (map f (jm_values m))"

lemma jm_sum_Nil [simp]: "jm_sum f [] = 0"
  by (simp add: jm_sum_def jm_values_def)

lemma jm_sum_Cons [simp]: "jm_sum f ((k, v) # m) = f v + jm_sum f m"
  by (simp add: jm_sum_def jm_values_def)

lemma jm_sum_set_fresh: "jm_get m k = None \<Longrightarrow> jm_sum f (jm_set k v m) = jm_sum f m + f v"
proof (induction m)
  case Nil
  then show ?case by (simp add: jm_set_def)
next
  case (Cons p m)
  then show ?case by (cases p) (auto simp: jm_set_def jm_get_def split: if_splits)
qed

lemma jm_sum_set_old:
  "jm_get m k = Some u \<Longrightarrow> jm_sum f (jm_set k v m) = jm_sum f m - f u + f v"
proof (induction m)
  case Nil
  then show ?case by simp
next
  case (Cons p m)
  then show ?case by (cases p) (auto simp: jm_set_def jm_get_def split: if_splits)
qed

lemma jm_sum_delete:
  "jm_wf m \<Longrightarrow> jm_get m k = Some u \<Longrightarrow> jm_sum f (jm_delete k m) = jm_sum f m - f u"
proof (induction m)
  case Nil
  then show ?case by simp
next
  case (Cons p m)
  obtain k' v' where p: "p = (k', v')" by (cases p)
  show ?case
  proof (cases "k' = k")
    case True
    with Cons.prems p have "jm_get m k = None"
      by (simp add: jm_wf_def jm_get_def map_of_eq_None_iff)
    then have "jm_delete k m = m" by (rule jm_delete_absent)
    with Cons.prems p True show ?thesis by (simp add: jm_get_def jm_delete_def)
  next
    case False
    with Cons p show ?thesis by (auto simp: jm_wf_def jm_get_def jm_delete_def)
  qed
qed

lemma jm_sum_nonneg: "(\<And>v. 0 \<le> f v) \<Longrightarrow> 0 \<le> jm_sum f m"
  by (induction m) (auto simp: jm_sum_def jm_values_def)

lemma jm_sum_cong: "(\<And>v. v \<in> set (jm_values m) \<Longrightarrow> f v = g v) \<Longrightarrow> jm_sum f m = jm_sum g m"
  unfolding jm_sum_def by (metis map_eq_conv)

lemma length_filter_values:
  "int (length (filter P (jm_values m))) = jm_sum (\<lambda>v. if P v then 1 else 0) m"
  by (induction m) (auto simp: jm_values_def jm_sum_def)

subsection \<open>Insertion-ordered sets (class Set)\<close>

definition js_add :: "'a \<Rightarrow> 'a list \<Rightarrow> 'a list" where
  "js_add x xs = (if x \<in> set xs then xs else xs @ [x])"

definition js_remove :: "'a \<Rightarrow> 'a list \<Rightarrow> 'a list" where
  "js_remove x xs = filter (\<lambda>y. y \<noteq> x) xs"

lemma set_js_add [simp]: "set (js_add x xs) = insert x (set xs)"
  by (auto simp: js_add_def)

lemma set_js_remove [simp]: "set (js_remove x xs) = set xs - {x}"
  by (auto simp: js_remove_def)

lemma distinct_js_add [simp]: "distinct xs \<Longrightarrow> distinct (js_add x xs)"
  by (simp add: js_add_def)

lemma distinct_js_remove [simp]: "distinct xs \<Longrightarrow> distinct (js_remove x xs)"
  by (simp add: js_remove_def)

subsection \<open>Numbers and JSON values\<close>

text \<open>
  A number is an integer, or something \<open>Number.isInteger\<close> rejects (a fraction,
  an infinity, not-a-number). JSON objects keep their fields in order.
\<close>

datatype number = Integer int | NonInteger

definition max_safe_integer :: int where
  "max_safe_integer = 2 ^ 53 - 1"

fun isSafeInteger :: "number \<Rightarrow> bool" where
  "isSafeInteger (Integer i) = (abs i \<le> max_safe_integer)"
| "isSafeInteger NonInteger = False"

datatype json =
    JNull
  | JBool bool
  | JNum number
  | JStr string
  | JArr "json list"
  | JObj "(string \<times> json) list"

fun json_object :: "json \<Rightarrow> bool" where
  "json_object (JObj _) = True"
| "json_object _ = False"

fun json_field :: "json \<Rightarrow> string \<Rightarrow> json option" where
  "json_field (JObj fs) k = map_of fs k"
| "json_field _ k = None"

fun json_keys :: "json \<Rightarrow> string list" where
  "json_keys (JObj fs) = map fst fs"
| "json_keys _ = []"

text \<open>
  The code compares \<open>Object.keys(value).sort().join(",")\<close> with a fixed list. The
  comparison of the joined text equals comparing the key lists only when no key holds a
  comma, so the joined text is what the model compares.
\<close>

fun insort_string :: "(nat list \<times> string) \<Rightarrow> (nat list \<times> string) list \<Rightarrow> (nat list \<times> string) list" where
  "insort_string x [] = [x]"
| "insort_string x (y # ys) =
     (if lexordp (<) (fst y) (fst x) then y # insort_string x ys else x # y # ys)"

definition sort_strings :: "string list \<Rightarrow> string list" where
  "sort_strings ss = map snd (foldr insort_string (map (\<lambda>s. (map of_char s, s)) ss) [])"

fun join_with :: "string \<Rightarrow> string list \<Rightarrow> string" where
  "join_with sep [] = []"
| "join_with sep [s] = s"
| "join_with sep (s # t # ss) = s @ sep @ join_with sep (t # ss)"

definition sorted_keys :: "json \<Rightarrow> string" where
  "sorted_keys v = join_with '','' (sort_strings (json_keys v))"

subsection \<open>State machines\<close>

text \<open>The states a machine can get into, and the rule its invariants are proved by.\<close>

inductive reachable :: "('s \<Rightarrow> bool) \<Rightarrow> ('s \<Rightarrow> 's \<Rightarrow> bool) \<Rightarrow> 's \<Rightarrow> bool"
  for init :: "'s \<Rightarrow> bool" and step :: "'s \<Rightarrow> 's \<Rightarrow> bool" where
  reachable_init: "init s \<Longrightarrow> reachable init step s"
| reachable_step: "reachable init step s \<Longrightarrow> step s t \<Longrightarrow> reachable init step t"

lemma reachable_mono:
  assumes "reachable init step s" and "\<And>a b. step a b \<Longrightarrow> step' a b"
  shows "reachable init step' s"
  using assms(1) by induction (auto intro: reachable.intros assms(2))

lemma reachable_rtranclp: "step\<^sup>*\<^sup>* s t \<Longrightarrow> reachable init step s \<Longrightarrow> reachable init step t"
  by (induction rule: rtranclp_induct) (auto intro: reachable_step)

locale step_invariant =
  fixes init :: "'s \<Rightarrow> bool" and step :: "'s \<Rightarrow> 's \<Rightarrow> bool" and inv :: "'s \<Rightarrow> bool"
  assumes inv_init: "init s \<Longrightarrow> inv s"
    and inv_step: "inv s \<Longrightarrow> step s t \<Longrightarrow> inv t"
begin

lemma reachable_inv: "reachable init step s \<Longrightarrow> inv s"
  by (induction rule: reachable.induct) (auto intro: inv_init inv_step)

lemma steps_inv: "step\<^sup>*\<^sup>* s t \<Longrightarrow> inv s \<Longrightarrow> inv t"
  by (induction rule: rtranclp_induct) (auto intro: inv_step)

end

end
