(* ===== verification/JsText.thy ===== *)
theory JsText
  imports Prelude
begin

text \<open>
  The text functions of the language and its standard library that the code relies on:
  character classes of its regular expressions, UTF-8 (\<open>Buffer.from\<close>), hexadecimal,
  \<open>encodeURIComponent\<close>, \<open>JSON.stringify\<close>, decimal numerals, \<open>trim\<close>,
  \<open>split\<close> and POSIX \<open>path.normalize\<close>; each with the inverse that shows it loses
  nothing, where the code depends on that.
\<close>

subsection \<open>Character classes\<close>

definition code :: "char \<Rightarrow> nat" where
  "code c = of_char c"

definition is_digit :: "char \<Rightarrow> bool" where
  "is_digit c = (48 \<le> code c \<and> code c \<le> 57)"

definition is_upper :: "char \<Rightarrow> bool" where
  "is_upper c = (65 \<le> code c \<and> code c \<le> 90)"

definition is_lower :: "char \<Rightarrow> bool" where
  "is_lower c = (97 \<le> code c \<and> code c \<le> 122)"

definition is_alnum :: "char \<Rightarrow> bool" where
  "is_alnum c = (is_digit c \<or> is_upper c \<or> is_lower c)"

definition is_lower_hex :: "char \<Rightarrow> bool" where
  "is_lower_hex c = (is_digit c \<or> 97 \<le> code c \<and> code c \<le> 102)"

text \<open>\<open>[A-Za-z0-9_-]\<close>, \<open>[A-Za-z0-9_.-]\<close> and \<open>[A-Za-z0-9._/-]\<close>.\<close>

definition is_base64url :: "char \<Rightarrow> bool" where
  "is_base64url c = (is_alnum c \<or> c = CHR ''_'' \<or> c = CHR ''-'')"

definition is_label_char :: "char \<Rightarrow> bool" where
  "is_label_char c = (is_base64url c \<or> c = CHR ''.'')"

definition is_path_char :: "char \<Rightarrow> bool" where
  "is_path_char c = (is_label_char c \<or> c = CHR ''/'')"

lemmas char_class_defs [js_text_simps] =
  code_def is_digit_def is_upper_def is_lower_def is_alnum_def is_lower_hex_def
  is_base64url_def is_label_char_def is_path_char_def

text \<open>The 43 base64url characters of a 256-bit credential: \<open>/^[A-Za-z0-9_-]{43}$/\<close>.\<close>

definition is_credential :: "string \<Rightarrow> bool" where
  "is_credential s = (length s = 43 \<and> list_all is_base64url s)"

text \<open>\<open>/^[a-z0-9][a-z0-9_-]{1,62}$/i\<close>, the identifiers of tenants and subjects.\<close>

definition is_safe_identifier :: "string \<Rightarrow> bool" where
  "is_safe_identifier s =
     (2 \<le> length s \<and> length s \<le> 63 \<and> is_alnum (hd s) \<and> list_all is_base64url (tl s))"

lemma is_base64url_not_colon: "is_base64url c \<Longrightarrow> c \<noteq> CHR '':''"
  by (auto simp: js_text_simps)

lemma is_safe_identifier_no_colon:
  assumes "is_safe_identifier s" shows "CHR '':'' \<notin> set s"
proof -
  obtain c cs where s: "s = c # cs" using assms
    by (cases s) (auto simp: is_safe_identifier_def)
  with assms have "is_base64url c" and "list_all is_base64url cs"
    by (auto simp: is_safe_identifier_def is_base64url_def)
  with s show ?thesis by (auto simp: list_all_iff dest: is_base64url_not_colon)
qed

subsection \<open>UTF-8 and hexadecimal\<close>

definition utf8_char :: "char \<Rightarrow> nat list" where
  "utf8_char c = (if code c < 128 then [code c] else [192 + code c div 64, 128 + code c mod 64])"

definition utf8 :: "string \<Rightarrow> nat list" where
  "utf8 s = concat (map utf8_char s)"

definition byteLength :: "string \<Rightarrow> nat" where
  "byteLength s = length (utf8 s)"

definition hex_digit :: "nat \<Rightarrow> char" where
  "hex_digit n = (if n < 10 then char_of (48 + n) else char_of (87 + n))"

definition hex_digit_upper :: "nat \<Rightarrow> char" where
  "hex_digit_upper n = (if n < 10 then char_of (48 + n) else char_of (55 + n))"

definition to_hex :: "nat list \<Rightarrow> string" where
  "to_hex bs = concat (map (\<lambda>b. [hex_digit (b div 16), hex_digit (b mod 16)]) bs)"

fun utf8_decode :: "nat list \<Rightarrow> string" where
  "utf8_decode [] = []"
| "utf8_decode (b # bs) =
     (if b < 128 then char_of b # utf8_decode bs
      else case bs of [] \<Rightarrow> [] | b' # bs' \<Rightarrow> char_of ((b - 192) * 64 + (b' - 128)) # utf8_decode bs')"

definition hex_value :: "char \<Rightarrow> nat" where
  "hex_value c = (if is_digit c then code c - 48 else if is_upper c then code c - 55 else code c - 87)"

fun from_hex :: "string \<Rightarrow> nat list" where
  "from_hex (a # b # cs) = (hex_value a * 16 + hex_value b) # from_hex cs"
| "from_hex _ = []"

lemma code_less: "code c < 256"
  by (simp add: code_def)

lemma char_of_code [simp]: "char_of (code c) = c"
  by (simp add: code_def)

lemma code_char_of [simp]: "n < 256 \<Longrightarrow> code (char_of n) = n"
  by (simp add: code_def)

lemma utf8_byte: "b \<in> set (utf8 s) \<Longrightarrow> b < 256"
proof (induction s)
  case Nil
  then show ?case by (simp add: utf8_def)
next
  case (Cons c s)
  have "code c div 64 < 4" using code_less [of c] by (auto simp: div_less_iff_less_mult)
  with Cons show ?case by (auto simp: utf8_def utf8_char_def split: if_splits)
qed

lemma utf8_roundtrip: "utf8_decode (utf8 s) = s"
proof (induction s)
  case Nil
  then show ?case by (simp add: utf8_def)
next
  case (Cons c s)
  have "code c div 64 * 64 + code c mod 64 = code c" by presburger
  with Cons show ?case by (simp add: utf8_def utf8_char_def)
qed

lemma hex_value_digit: "n < 16 \<Longrightarrow> hex_value (hex_digit n) = n"
  by (auto simp: hex_value_def hex_digit_def is_digit_def is_upper_def)

lemma hex_value_digit_upper: "n < 16 \<Longrightarrow> hex_value (hex_digit_upper n) = n"
  by (auto simp: hex_value_def hex_digit_upper_def is_digit_def is_upper_def)

lemma hex_digit_lower_hex: "n < 16 \<Longrightarrow> is_lower_hex (hex_digit n)"
  by (auto simp: hex_digit_def is_lower_hex_def is_digit_def)

lemma hex_digit_upper_alnum: "n < 16 \<Longrightarrow> is_alnum (hex_digit_upper n)"
  by (auto simp: hex_digit_upper_def is_alnum_def is_digit_def is_upper_def)

lemma from_hex_to_hex: "\<forall>b \<in> set bs. b < 256 \<Longrightarrow> from_hex (to_hex bs) = bs"
proof (induction bs)
  case Nil
  then show ?case by (simp add: to_hex_def)
next
  case (Cons b bs)
  have "b div 16 < 16" using Cons.prems by auto
  with Cons show ?case by (simp add: to_hex_def hex_value_digit)
qed

lemma to_hex_lower_hex: "\<forall>b \<in> set bs. b < 256 \<Longrightarrow> list_all is_lower_hex (to_hex bs)"
proof (induction bs)
  case Nil
  then show ?case by (simp add: to_hex_def)
next
  case (Cons b bs)
  have "b div 16 < 16" using Cons.prems by auto
  with Cons show ?case by (simp add: to_hex_def hex_digit_lower_hex)
qed

subsection \<open>encodeURIComponent\<close>

definition is_unreserved :: "char \<Rightarrow> bool" where
  "is_unreserved c = (is_alnum c \<or> c \<in> set ''-_.!~*()'' \<or> code c = 39)"

definition percent_byte :: "nat \<Rightarrow> string" where
  "percent_byte b = [CHR ''%'', hex_digit_upper (b div 16), hex_digit_upper (b mod 16)]"

definition encodeURIComponent :: "string \<Rightarrow> string" where
  "encodeURIComponent s =
     concat (map (\<lambda>c. if is_unreserved c then [c] else concat (map percent_byte (utf8_char c))) s)"

fun percent_decode :: "string \<Rightarrow> nat list" where
  "percent_decode [] = []"
| "percent_decode (c # cs) =
     (if c = CHR ''%'' then
        (case cs of a # b # ds \<Rightarrow> (hex_value a * 16 + hex_value b) # percent_decode ds | _ \<Rightarrow> [])
      else code c # percent_decode cs)"

lemma percent_decode_byte:
  "b < 256 \<Longrightarrow> percent_decode (percent_byte b @ cs) = b # percent_decode cs"
proof -
  assume "b < 256"
  then have "b div 16 < 16" by auto
  then show ?thesis by (simp add: percent_byte_def hex_value_digit_upper)
qed

lemma percent_decode_bytes:
  "\<forall>b \<in> set bs. b < 256 \<Longrightarrow>
   percent_decode (concat (map percent_byte bs) @ cs) = bs @ percent_decode cs"
  by (induction bs) (simp_all add: percent_decode_byte)

lemma is_unreserved_utf8: "is_unreserved c \<Longrightarrow> utf8_char c = [code c] \<and> c \<noteq> CHR ''%''"
  by (auto simp: is_unreserved_def utf8_char_def js_text_simps)

lemma utf8_char_byte: "\<forall>b \<in> set (utf8_char c). b < 256"
  using utf8_byte [of _ "[c]"] by (simp add: utf8_def)

lemma percent_decode_encode: "percent_decode (encodeURIComponent s) = utf8 s"
proof (induction s)
  case Nil
  then show ?case by (simp add: encodeURIComponent_def utf8_def)
next
  case (Cons c s)
  show ?case
  proof (cases "is_unreserved c")
    case True
    with Cons is_unreserved_utf8 [OF True] show ?thesis
      by (simp add: encodeURIComponent_def utf8_def)
  next
    case False
    with Cons utf8_char_byte [of c] show ?thesis
      by (simp add: encodeURIComponent_def utf8_def percent_decode_bytes)
  qed
qed

lemma encodeURIComponent_inj: "encodeURIComponent s = encodeURIComponent t \<Longrightarrow> s = t"
  by (metis percent_decode_encode utf8_roundtrip)

subsection \<open>Decimal numerals\<close>

fun show_nat :: "nat \<Rightarrow> string" where
  "show_nat n =
     (if n < 10 then [char_of (48 + n)] else show_nat (n div 10) @ [char_of (48 + n mod 10)])"

declare show_nat.simps [simp del]

definition show_int :: "int \<Rightarrow> string" where
  "show_int i = (if i < 0 then CHR ''-'' # show_nat (nat (- i)) else show_nat (nat i))"

definition digits_value :: "string \<Rightarrow> nat" where
  "digits_value s = foldl (\<lambda>n c. 10 * n + (code c - 48)) 0 s"

lemma is_digit_char_of: "(m::nat) < 10 \<Longrightarrow> is_digit (char_of (48 + m))"
  by (simp add: is_digit_def)

lemma show_nat_digits: "list_all is_digit (show_nat n)"
proof (induction n rule: show_nat.induct)
  case (1 n)
  show ?case
  proof (cases "n < 10")
    case True
    then show ?thesis by (subst show_nat.simps) (simp add: is_digit_char_of)
  next
    case False
    with 1 show ?thesis by (subst show_nat.simps) (simp add: is_digit_char_of)
  qed
qed

lemma digits_value_show_nat: "digits_value (show_nat n) = n"
proof (induction n rule: show_nat.induct)
  case (1 n)
  show ?case
  proof (cases "n < 10")
    case True
    then show ?thesis by (subst show_nat.simps) (simp add: digits_value_def)
  next
    case False
    have "10 * (n div 10) + n mod 10 = n" by presburger
    with 1 False show ?thesis by (subst show_nat.simps) (simp add: digits_value_def)
  qed
qed

lemma show_nat_inj: "show_nat m = show_nat n \<Longrightarrow> m = n"
  by (metis digits_value_show_nat)

lemma digits_value_snoc: "digits_value (s @ [c]) = 10 * digits_value s + (code c - 48)"
  by (simp add: digits_value_def)

lemma show_nat_snoc: "0 < n \<Longrightarrow> m < 10 \<Longrightarrow> show_nat (10 * n + m) = show_nat n @ [char_of (48 + m)]"
  by (subst show_nat.simps) simp

lemma show_digits_value:
  assumes "list_all is_digit s" and "s \<noteq> []" and "hd s \<noteq> CHR ''0''"
  shows "show_nat (digits_value s) = s \<and> 0 < digits_value s"
  using assms
proof (induction s rule: rev_induct)
  case (snoc c s)
  have digit: "code c - 48 < 10" "48 + (code c - 48) = code c" using snoc.prems by (auto simp: is_digit_def)
  show ?case
  proof (cases "s = []")
    case True
    have "code c \<noteq> 48"
    proof
      assume "code c = 48"
      then have "of_char c = (of_char (CHR ''0'') :: nat)" by (simp add: code_def)
      with True snoc.prems(3) show False by (simp only: of_char_eq_iff) simp
    qed
    with True digit show ?thesis by (subst show_nat.simps) (simp add: digits_value_def)
  next
    case False
    with snoc have s: "show_nat (digits_value s) = s \<and> 0 < digits_value s" by simp
    obtain m where m: "code c - 48 = m" "m < 10" "c = char_of (48 + m)"
      using digit char_of_code [of c] by metis
    with s show ?thesis unfolding digits_value_snoc m(1) by (simp add: show_nat_snoc)
  qed
qed simp

text \<open>\<open>/^[1-9][0-9]{0,n}$/\<close>, the canonical numerals of ports and request numbers.\<close>

definition is_canonical_numeral :: "nat \<Rightarrow> string \<Rightarrow> bool" where
  "is_canonical_numeral n s =
     (s \<noteq> [] \<and> length s \<le> Suc n \<and> is_digit (hd s) \<and> hd s \<noteq> CHR ''0'' \<and> list_all is_digit (tl s))"

lemma canonical_numeral_shown:
  "is_canonical_numeral k s \<Longrightarrow> show_nat (digits_value s) = s \<and> 1 \<le> digits_value s"
  using show_digits_value [of s] by (cases s) (auto simp: is_canonical_numeral_def)

subsection \<open>JSON.stringify\<close>

definition json_escape :: "char \<Rightarrow> string" where
  "json_escape c =
     (if code c = 34 then [char_of (92 :: nat), char_of (34 :: nat)]
      else if code c = 92 then [char_of (92 :: nat), char_of (92 :: nat)]
      else if code c = 8 then char_of (92 :: nat) # ''b''
      else if code c = 12 then char_of (92 :: nat) # ''f''
      else if code c = 10 then char_of (92 :: nat) # ''n''
      else if code c = 13 then char_of (92 :: nat) # ''r''
      else if code c = 9 then char_of (92 :: nat) # ''t''
      else if code c < 32 then
        char_of (92 :: nat) # ''u00'' @ [hex_digit (code c div 16), hex_digit (code c mod 16)]
      else [c])"

definition json_quote :: "string \<Rightarrow> string" where
  "json_quote s = [char_of (34 :: nat)] @ concat (map json_escape s) @ [char_of (34 :: nat)]"

fun show_number :: "number \<Rightarrow> string" where
  "show_number (Integer i) = show_int i"
| "show_number NonInteger = ''null''"

text \<open>
  Exact for every value the code serialises: its numbers are integers (\<open>NonInteger\<close>
  stands here for the infinities and not-a-number, which print as \<open>null\<close>).
\<close>

fun json_stringify :: "json \<Rightarrow> string" where
  "json_stringify JNull = ''null''"
| "json_stringify (JBool b) = (if b then ''true'' else ''false'')"
| "json_stringify (JNum n) = show_number n"
| "json_stringify (JStr s) = json_quote s"
| "json_stringify (JArr vs) = ''['' @ join_with '','' (map json_stringify vs) @ '']''"
| "json_stringify (JObj fs) =
     ''{'' @ join_with '','' (map (\<lambda>(k, v). json_quote k @ '':'' @ json_stringify v) fs) @ ''}''"

subsection \<open>trim, split, startsWith and POSIX paths\<close>

definition is_space :: "char \<Rightarrow> bool" where
  "is_space c = (9 \<le> code c \<and> code c \<le> 13 \<or> code c = 32 \<or> code c = 160)"

definition trim :: "string \<Rightarrow> string" where
  "trim s = rev (dropWhile is_space (rev (dropWhile is_space s)))"

fun split_on :: "char \<Rightarrow> string \<Rightarrow> string list" where
  "split_on sep [] = [[]]"
| "split_on sep (c # cs) =
     (if c = sep then [] # split_on sep cs
      else case split_on sep cs of [] \<Rightarrow> [[c]] | s # ss \<Rightarrow> (c # s) # ss)"

definition starts_with :: "string \<Rightarrow> string \<Rightarrow> bool" where
  "starts_with p s = (take (length p) s = p)"

definition isAbsolute :: "string \<Rightarrow> bool" where
  "isAbsolute p = (p \<noteq> [] \<and> hd p = CHR ''/'')"

definition normalize_segment :: "bool \<Rightarrow> string list \<Rightarrow> string \<Rightarrow> string list" where
  "normalize_segment allowAbove stack seg =
     (if seg = [] \<or> seg = ''.'' then stack
      else if seg = ''..'' then
        (if stack \<noteq> [] \<and> last stack \<noteq> ''..'' then butlast stack
         else if allowAbove then stack @ [''..''] else stack)
      else stack @ [seg])"

definition normalize_segments :: "bool \<Rightarrow> string \<Rightarrow> string list" where
  "normalize_segments allowAbove p = foldl (normalize_segment allowAbove) [] (split_on (CHR ''/'') p)"

definition normalize :: "string \<Rightarrow> string" where
  "normalize p =
     (if p = [] then ''.''
      else
        let segs = normalize_segments (\<not> isAbsolute p) p;
            trailing = (last p = CHR ''/'');
            body = join_with ''/'' segs
        in if segs = [] then (if isAbsolute p then ''/'' else if trailing then ''./'' else ''.'')
           else (if isAbsolute p then ''/'' else []) @ body @ (if trailing then ''/'' else []))"

lemma split_on_ne [simp]: "split_on sep s \<noteq> []"
  by (cases s) (auto split: list.splits)

lemma split_on_no_sep: "sep \<notin> set s \<Longrightarrow> split_on sep s = [s]"
  by (induction s) auto

lemma split_on_append_sep: "split_on sep (s @ sep # t) = split_on sep s @ split_on sep t"
  by (induction s) (auto split: list.splits)

lemma split_on_join:
  "ss \<noteq> [] \<Longrightarrow> \<forall>s \<in> set ss. sep \<notin> set s \<Longrightarrow> split_on sep (join_with [sep] ss) = ss"
proof (induction ss rule: induct_list012)
  case (3 s t ss)
  then show ?case by (simp add: split_on_append_sep split_on_no_sep)
qed (auto simp: split_on_no_sep)

lemma split_on_segment_no_sep: "s \<in> set (split_on sep t) \<Longrightarrow> sep \<notin> set s"
  by (induction t arbitrary: s) (auto split: if_splits list.splits)

end
