(* ===== verification/Types.thy ===== *)
theory Types
  imports JsText
begin

text \<open>
  The shared data of the orchestrator, from \<open>src/domain/types.ts\<close>,
  \<open>src/domain/errors.ts\<close> and \<open>src/runtime/runtime-adapter.ts\<close>: one record per
  interface, one datatype per union. Field names carry a prefix where two interfaces use
  the same name. \<open>thrown\<close> is what a \<open>throw\<close> raises: an
  \<open>OrchestratorError\<close>, or an \<open>Error\<close> with its message.
\<close>

datatype session_phase = Starting | Active | Burning | Failed

record tenant_context =
  ctx_tenantId :: string
  ctx_subject :: string

record session_quota =
  memoryMiB :: int
  cpuShares :: int
  pids :: int

record host_capacity = session_quota +
  maximumSessions :: int

record runtime_resource =
  containerId :: string
  containerName :: string
  networkNamespace :: string
  storageNamespace :: string
  signalingEndpoint :: string
  signalingSecret :: string
  tabControlEndpoint :: string

record tab_view =
  tab_id :: string
  tab_url :: string
  tab_createdAt :: string
  tab_active :: bool

record session_record =
  rec_id :: string
  rec_tenantId :: string
  rec_phase :: session_phase
  rec_createdAt :: string
  rec_quota :: session_quota
  rec_runtime :: runtime_resource
  rec_failure :: "string option"

record session_view =
  view_id :: string
  view_phase :: session_phase
  view_createdAt :: string
  view_quota :: session_quota
  view_failure :: "string option"

record ticket_issue_result =
  signalingTicket :: string
  ticketExpiresInSeconds :: int

record create_session_result = ticket_issue_result +
  created_session :: session_view

record token_exchange_result =
  signalingToken :: string
  tokenExpiresInSeconds :: int

record signaling_authorization =
  auth_sessionId :: string
  auth_tenantId :: string
  auth_runtime :: runtime_resource

datatype error_code =
    AUTH_REQUIRED
  | AUTH_INVALID
  | SESSION_NOT_FOUND
  | SESSION_LIMIT_REACHED
  | SIGNALING_CREDENTIAL_INVALID
  | SIGNALING_UNAVAILABLE
  | TAB_NOT_FOUND
  | TAB_LIMIT_REACHED
  | TAB_MINIMUM_REACHED
  | TAB_URL_INVALID
  | TAB_RUNTIME_UNAVAILABLE
  | RUNTIME_FAILURE
  | VALIDATION_FAILED

record orchestrator_error =
  err_code :: error_code
  err_message :: string
  err_statusCode :: nat

datatype thrown = Orchestrator orchestrator_error | PlainError string

definition orch :: "error_code \<Rightarrow> string \<Rightarrow> nat \<Rightarrow> thrown" where
  "orch c m s = Orchestrator \<lparr>err_code = c, err_message = m, err_statusCode = s\<rparr>"

definition errorMessage :: "thrown \<Rightarrow> string" where
  "errorMessage e = (case e of Orchestrator o' \<Rightarrow> err_message o' | PlainError m \<Rightarrow> m)"

record create_runtime_request =
  req_sessionId :: string
  req_tenantId :: string
  req_quota :: session_quota

record reconciliation_result =
  containersRemoved :: nat
  networksRemoved :: nat

datatype runtime_inspection = Running | RuntimeFailed string

text \<open>
  What the platform's \<open>new URL(text)\<close> yields. The parser itself is a parameter of
  every definition that uses it; \<open>None\<close> is its \<open>TypeError\<close>.
\<close>

record parsed_url =
  url_protocol :: string
  url_username :: string
  url_password :: string
  url_hostname :: string
  url_port :: string
  url_pathname :: string
  url_search :: string
  url_hash :: string
  url_href :: string

type_synonym url_parser = "string \<Rightarrow> parsed_url option"

text \<open>
  \<open>positiveInteger\<close>, which five files declare with the same body: an integer option of a
  constructor is accepted exactly when it is a positive safe integer.
\<close>

definition positiveInteger :: "number \<Rightarrow> string \<Rightarrow> thrown + int" where
  "positiveInteger value name =
     (case value of
        Integer i \<Rightarrow>
          if \<not> isSafeInteger value \<or> i \<le> 0
          then Inl (PlainError (name @ '' must be a positive integer'')) else Inr i
      | NonInteger \<Rightarrow> Inl (PlainError (name @ '' must be a positive integer'')))"

lemma positiveInteger_Inr:
  "positiveInteger v n = Inr i \<longleftrightarrow> v = Integer i \<and> 0 < i \<and> i \<le> max_safe_integer"
  by (auto simp: positiveInteger_def max_safe_integer_def split: number.splits if_splits)

text \<open>The operator \<open>??\<close>, and a field that is read as a string.\<close>

definition or_else :: "'a option \<Rightarrow> 'a \<Rightarrow> 'a" where
  "or_else x d = (case x of None \<Rightarrow> d | Some a \<Rightarrow> a)"

definition string_field :: "json \<Rightarrow> string \<Rightarrow> string option" where
  "string_field v k = (case json_field v k of Some (JStr s) \<Rightarrow> Some s | _ \<Rightarrow> None)"

lemma string_field_Some: "string_field v k = Some s \<longleftrightarrow> json_field v k = Some (JStr s)"
  by (auto simp: string_field_def split: option.splits json.splits)

text \<open>Sequencing of computations that may throw.\<close>

fun bind_result :: "thrown + 'a \<Rightarrow> ('a \<Rightarrow> thrown + 'b) \<Rightarrow> thrown + 'b" where
  "bind_result (Inl e) f = Inl e"
| "bind_result (Inr a) f = f a"

lemma bind_result_Inr:
  "bind_result r f = Inr b \<longleftrightarrow> (\<exists>a. r = Inr a \<and> f a = Inr b)"
  by (cases r) auto

lemma bind_result_Inl:
  "bind_result r f = Inl e \<longleftrightarrow> r = Inl e \<or> (\<exists>a. r = Inr a \<and> f a = Inl e)"
  by (cases r) auto

text \<open>\<open>values.map(f)\<close> where \<open>f\<close> may throw: the first exception ends it.\<close>

fun map_result :: "('a \<Rightarrow> thrown + 'b) \<Rightarrow> 'a list \<Rightarrow> thrown + 'b list" where
  "map_result f [] = Inr []"
| "map_result f (x # xs) = bind_result (f x) (\<lambda>y. bind_result (map_result f xs) (\<lambda>ys. Inr (y # ys)))"

lemma map_result_list_all2: "map_result f xs = Inr ys \<longleftrightarrow> list_all2 (\<lambda>x y. f x = Inr y) xs ys"
  by (induction xs arbitrary: ys) (auto simp: bind_result_Inr list_all2_Cons1)

instantiation session_phase :: linorder
begin

definition phase_rank :: "session_phase \<Rightarrow> nat" where
  "phase_rank p = (case p of Starting \<Rightarrow> 0 | Active \<Rightarrow> 1 | Burning \<Rightarrow> 2 | Failed \<Rightarrow> 3)"

definition less_eq_session_phase :: "session_phase \<Rightarrow> session_phase \<Rightarrow> bool" where
  "p \<le> q \<longleftrightarrow> phase_rank p \<le> phase_rank q"

definition less_session_phase :: "session_phase \<Rightarrow> session_phase \<Rightarrow> bool" where
  "p < q \<longleftrightarrow> phase_rank p < phase_rank q"

instance
  by standard
    (auto simp: less_eq_session_phase_def less_session_phase_def phase_rank_def
      split: session_phase.splits)

end

end
