(* ===== verification/SessionService.thy ===== *)
theory SessionService
  imports Types
begin

text \<open>
  Class \<open>SessionService\<close> of \<open>src/domain/session-service.ts\<close>. The service's
  \<open>Map\<close> fields are insertion-ordered maps. Two of its checks compare object identity
  (\<open>current !== record\<close>, \<open>... !== credentials\<close>), so a session record and a
  credentials object are stored with the reference they were allocated under.

  Every asynchronous method is cut at its \<open>await\<close>s: \<open>m_start\<close> is the part up to
  the first \<open>await\<close>, \<open>m_finish\<close> the part that runs when the awaited promise has
  settled. The theory SessionSystem interleaves the parts. Random values, UUIDs, the clock
  and SHA-256 are arguments.
\<close>

subsection \<open>State and configuration\<close>

type_synonym 'a obj = "nat \<times> 'a"

record credential_binding =
  cb_sessionKey :: string
  cb_expiresAt :: int

record session_credentials =
  pairingTicketHash :: "string option"
  signalingTokenHashes :: "string list"

record session_reservation =
  res_tenantId :: string
  res_quota :: session_quota

record service =
  sessions :: "(string, session_record obj) js_map"
  pairingTickets :: "(string, credential_binding) js_map"
  signalingTokens :: "(string, credential_binding) js_map"
  credentialsBySession :: "(string, session_credentials obj) js_map"
  reservations :: "(string, session_reservation) js_map"
  next_ref :: nat
  revocations :: "string list"

record service_options =
  opt_maximumSessionsPerTenant :: "number option"
  opt_quota :: "(number \<times> number \<times> number) option"
  opt_hostCapacity :: "(number \<times> number \<times> number \<times> number) option"
  opt_pairingTicketTTLSeconds :: "number option"
  opt_signalingTokenTTLSeconds :: "number option"

record service_config =
  maximumSessionsPerTenant :: int
  quota :: session_quota
  hostCapacity :: host_capacity
  pairingTicketTTLSeconds :: int
  signalingTokenTTLSeconds :: int

definition validateQuota :: "number \<times> number \<times> number \<Rightarrow> thrown + session_quota" where
  "validateQuota q = (case q of (m, c, p) \<Rightarrow>
     bind_result (positiveInteger m ''memory quota'') (\<lambda>m'.
     bind_result (positiveInteger c ''CPU shares'') (\<lambda>c'.
     bind_result (positiveInteger p ''PID quota'') (\<lambda>p'.
     Inr \<lparr>memoryMiB = m', cpuShares = c', pids = p'\<rparr>))))"

definition validateHostCapacity :: "number \<times> number \<times> number \<times> number \<Rightarrow> thrown + host_capacity" where
  "validateHostCapacity c = (case c of (n, m, s, p) \<Rightarrow>
     bind_result (positiveInteger n ''host session capacity'') (\<lambda>n'.
     bind_result (validateQuota (m, s, p)) (\<lambda>q.
     Inr (session_quota.extend q \<lparr>maximumSessions = n'\<rparr>))))"

definition fitsWithin :: "session_quota \<Rightarrow> host_capacity \<Rightarrow> bool" where
  "fitsWithin q c = (memoryMiB q \<le> memoryMiB c \<and> cpuShares q \<le> cpuShares c \<and> pids q \<le> pids c)"

definition default_quota :: "number \<times> number \<times> number" where
  "default_quota = (Integer 512, Integer 512, Integer 256)"

definition default_host_capacity :: "number \<times> number \<times> number \<times> number" where
  "default_host_capacity = (Integer 8, Integer 4096, Integer 4096, Integer 2048)"

definition or_default :: "'a option \<Rightarrow> 'a \<Rightarrow> 'a" where
  "or_default opt d = (case opt of None \<Rightarrow> d | Some a \<Rightarrow> a)"

definition new_service :: "service_options \<Rightarrow> thrown + service_config" where
  "new_service opts =
     bind_result (positiveInteger (or_default (opt_maximumSessionsPerTenant opts) (Integer 1)) ''session limit'') (\<lambda>ms.
     bind_result (validateQuota (or_default (opt_quota opts) default_quota)) (\<lambda>q.
     bind_result (validateHostCapacity (or_default (opt_hostCapacity opts) default_host_capacity)) (\<lambda>hc.
     if \<not> fitsWithin q hc then Inl (PlainError ''per-session quota exceeds host capacity'')
     else
     bind_result (positiveInteger (or_default (opt_pairingTicketTTLSeconds opts) (Integer 60)) ''pairing ticket TTL'') (\<lambda>pt.
     bind_result (positiveInteger (or_default (opt_signalingTokenTTLSeconds opts) (Integer 30)) ''signaling token TTL'') (\<lambda>st.
     Inr \<lparr>maximumSessionsPerTenant = ms, quota = q, hostCapacity = hc,
          pairingTicketTTLSeconds = pt, signalingTokenTTLSeconds = st\<rparr>)))))"

definition empty_service :: service where
  "empty_service = \<lparr>sessions = [], pairingTickets = [], signalingTokens = [],
     credentialsBySession = [], reservations = [], next_ref = 0, revocations = []\<rparr>"

subsection \<open>Helpers\<close>

definition session_key :: "string \<Rightarrow> string \<Rightarrow> string" where
  "session_key tenantId sid = tenantId @ '':'' @ sid"

definition record_key :: "session_record \<Rightarrow> string" where
  "record_key r = session_key (rec_tenantId r) (rec_id r)"

definition toSessionView :: "session_record \<Rightarrow> session_view" where
  "toSessionView r = \<lparr>view_id = rec_id r, view_phase = rec_phase r, view_createdAt = rec_createdAt r,
     view_quota = rec_quota r, view_failure = rec_failure r\<rparr>"

definition invalidSignalingCredential :: thrown where
  "invalidSignalingCredential =
     orch SIGNALING_CREDENTIAL_INVALID ''signaling credential is invalid or expired'' 401"

definition sessionNotFound :: thrown where
  "sessionNotFound = orch SESSION_NOT_FOUND ''session not found'' 404"

definition hashPresentedCredential :: "(string \<Rightarrow> string) \<Rightarrow> string \<Rightarrow> thrown + string" where
  "hashPresentedCredential hash value =
     (if \<not> is_credential value then Inl invalidSignalingCredential else Inr (hash value))"

definition no_allocation :: host_capacity where
  "no_allocation = \<lparr>memoryMiB = 0, cpuShares = 0, pids = 0, maximumSessions = 0\<rparr>"

definition add_quota :: "host_capacity \<Rightarrow> session_quota \<Rightarrow> host_capacity" where
  "add_quota acc q = \<lparr>memoryMiB = memoryMiB acc + memoryMiB q,
     cpuShares = cpuShares acc + cpuShares q, pids = pids acc + pids q,
     maximumSessions = maximumSessions acc + 1\<rparr>"

definition currentAllocation :: "service \<Rightarrow> host_capacity" where
  "currentAllocation s =
     foldl add_quota no_allocation
       (map (\<lambda>(_, r). rec_quota r) (jm_values (sessions s)) @ map res_quota (jm_values (reservations s)))"

definition tenantSessions :: "string \<Rightarrow> service \<Rightarrow> int" where
  "tenantSessions t s = int (length (filter (\<lambda>(_, r). rec_tenantId r = t) (jm_values (sessions s))))"

definition tenantReservations :: "string \<Rightarrow> service \<Rightarrow> int" where
  "tenantReservations t s = int (length (filter (\<lambda>r. res_tenantId r = t) (jm_values (reservations s))))"

definition reserve :: "service_config \<Rightarrow> string \<Rightarrow> string \<Rightarrow> service \<Rightarrow> thrown + service" where
  "reserve cfg sid tenantId s =
     (if tenantSessions tenantId s + tenantReservations tenantId s \<ge> maximumSessionsPerTenant cfg
      then Inl (orch SESSION_LIMIT_REACHED ''tenant session quota reached'' 409)
      else
        let allocation = currentAllocation s; q = quota cfg; cap = hostCapacity cfg in
        if maximumSessions allocation + 1 > maximumSessions cap
          \<or> memoryMiB allocation + memoryMiB q > memoryMiB cap
          \<or> cpuShares allocation + cpuShares q > cpuShares cap
          \<or> pids allocation + pids q > pids cap
        then Inl (orch SESSION_LIMIT_REACHED ''host session capacity reached'' 409)
        else Inr (s\<lparr>reservations := jm_set sid \<lparr>res_tenantId = tenantId, res_quota = q\<rparr> (reservations s)\<rparr>))"

definition drop_ticket :: "string option \<Rightarrow> (string, credential_binding) js_map \<Rightarrow> (string, credential_binding) js_map" where
  "drop_ticket h m = (case h of None \<Rightarrow> m | Some t \<Rightarrow> if t = [] then m else jm_delete t m)"

definition revokeCredentials :: "string \<Rightarrow> service \<Rightarrow> service" where
  "revokeCredentials key s =
     (case jm_get (credentialsBySession s) key of
        None \<Rightarrow> s
      | Some (_, c) \<Rightarrow>
          s\<lparr>pairingTickets := drop_ticket (pairingTicketHash c) (pairingTickets s),
            signalingTokens := jm_delete_all (signalingTokenHashes c) (signalingTokens s),
            credentialsBySession := jm_delete key (credentialsBySession s)\<rparr>)"

text \<open>The callback \<open>revokeSignalingConnections(record.id)\<close>, recorded in call order.\<close>

definition revokeSignalingConnections :: "string \<Rightarrow> service \<Rightarrow> service" where
  "revokeSignalingConnections sid s = s\<lparr>revocations := revocations s @ [sid]\<rparr>"

definition rotateSignalingTicket ::
  "service_config \<Rightarrow> (string \<Rightarrow> string) \<Rightarrow> int \<Rightarrow> string \<Rightarrow> string \<Rightarrow> service
   \<Rightarrow> (thrown + ticket_issue_result) \<times> service" where
  "rotateSignalingTicket cfg hash now ticket key s =
     (case jm_get (credentialsBySession s) key of
        None \<Rightarrow> (Inl (orch SIGNALING_UNAVAILABLE ''session credentials are unavailable'' 409), s)
      | Some (ref, c) \<Rightarrow>
          let ticketHash = hash ticket in
          (Inr \<lparr>signalingTicket = ticket, ticketExpiresInSeconds = pairingTicketTTLSeconds cfg\<rparr>,
           s\<lparr>pairingTickets :=
               jm_set ticketHash
                 \<lparr>cb_sessionKey = key, cb_expiresAt = now + pairingTicketTTLSeconds cfg * 1000\<rparr>
                 (drop_ticket (pairingTicketHash c) (pairingTickets s)),
             signalingTokens := jm_delete_all (signalingTokenHashes c) (signalingTokens s),
             credentialsBySession :=
               jm_set key (ref, \<lparr>pairingTicketHash = Some ticketHash, signalingTokenHashes = []\<rparr>)
                 (credentialsBySession s)\<rparr>))"

subsection \<open>create\<close>

definition create_start :: "service_config \<Rightarrow> tenant_context \<Rightarrow> string \<Rightarrow> service \<Rightarrow> thrown + service" where
  "create_start cfg ctx sid s = reserve cfg sid (ctx_tenantId ctx) s"

definition create_request :: "service_config \<Rightarrow> tenant_context \<Rightarrow> string \<Rightarrow> create_runtime_request" where
  "create_request cfg ctx sid =
     \<lparr>req_sessionId = sid, req_tenantId = ctx_tenantId ctx, req_quota = quota cfg\<rparr>"

definition delete_reservation :: "string \<Rightarrow> service \<Rightarrow> service" where
  "delete_reservation sid s = s\<lparr>reservations := jm_delete sid (reservations s)\<rparr>"

definition install_session :: "string \<Rightarrow> session_record \<Rightarrow> service \<Rightarrow> service" where
  "install_session key r s =
     s\<lparr>sessions := jm_set key (next_ref s, r) (sessions s),
       credentialsBySession :=
         jm_set key (Suc (next_ref s), \<lparr>pairingTicketHash = None, signalingTokenHashes = []\<rparr>)
           (credentialsBySession s),
       next_ref := Suc (Suc (next_ref s))\<rparr>"

definition create_finish ::
  "service_config \<Rightarrow> (string \<Rightarrow> string) \<Rightarrow> int \<Rightarrow> string \<Rightarrow> string \<Rightarrow> tenant_context \<Rightarrow> string
   \<Rightarrow> thrown + runtime_resource \<Rightarrow> service \<Rightarrow> (thrown + create_session_result) \<times> service" where
  "create_finish cfg hash now createdAt ticket ctx sid outcome s =
     (case outcome of
        Inl e \<Rightarrow> (Inl e, delete_reservation sid s)
      | Inr runtime \<Rightarrow>
          let r = \<lparr>rec_id = sid, rec_tenantId = ctx_tenantId ctx, rec_phase = Active,
                   rec_createdAt = createdAt, rec_quota = quota cfg, rec_runtime = runtime,
                   rec_failure = None\<rparr>;
              key = session_key (ctx_tenantId ctx) sid;
              (issued, s') = rotateSignalingTicket cfg hash now ticket key (install_session key r s)
          in (case issued of
                Inl e \<Rightarrow> (Inl e, delete_reservation sid s')
              | Inr t \<Rightarrow>
                  (Inr (ticket_issue_result.extend t \<lparr>created_session = toSessionView r\<rparr>),
                   delete_reservation sid s')))"

subsection \<open>observeRuntime\<close>

text \<open>\<open>Some\<close>: the record is returned without inspecting the runtime.\<close>

definition observe_start :: "session_record obj \<Rightarrow> session_record obj option" where
  "observe_start r = (if rec_phase (snd r) \<noteq> Active then Some r else None)"

definition observe_finish ::
  "string \<Rightarrow> session_record obj \<Rightarrow> thrown + runtime_inspection \<Rightarrow> service
   \<Rightarrow> (thrown + session_record obj) \<times> service" where
  "observe_finish key r inspection s =
     (case inspection of
        Inl e \<Rightarrow> (Inl e, s)
      | Inr i \<Rightarrow>
          (case jm_get (sessions s) key of
             None \<Rightarrow> (Inl sessionNotFound, s)
           | Some current \<Rightarrow>
               if fst current \<noteq> fst r \<or> rec_phase (snd current) \<noteq> Active then (Inr current, s)
               else case i of
                 Running \<Rightarrow> (Inr current, s)
               | RuntimeFailed failure \<Rightarrow>
                   let s1 = revokeSignalingConnections (rec_id (snd r)) (revokeCredentials key s);
                       failed = (next_ref s1, (snd r)\<lparr>rec_phase := Failed, rec_failure := Some failure\<rparr>)
                   in (Inr failed,
                       s1\<lparr>sessions := jm_set key failed (sessions s1), next_ref := Suc (next_ref s1)\<rparr>)))"

subsection \<open>get, issueSignalingTicket and the tab operations\<close>

definition lookup_session :: "tenant_context \<Rightarrow> string \<Rightarrow> service \<Rightarrow> thrown + session_record obj" where
  "lookup_session ctx sid s =
     (case jm_get (sessions s) (session_key (ctx_tenantId ctx) sid) of
        None \<Rightarrow> Inl sessionNotFound
      | Some r \<Rightarrow> Inr r)"

definition get_finish :: "session_record obj \<Rightarrow> session_view" where
  "get_finish observed = toSessionView (snd observed)"

definition issue_finish ::
  "service_config \<Rightarrow> (string \<Rightarrow> string) \<Rightarrow> int \<Rightarrow> string \<Rightarrow> string \<Rightarrow> session_record obj \<Rightarrow> service
   \<Rightarrow> (thrown + ticket_issue_result) \<times> service" where
  "issue_finish cfg hash now ticket key observed s =
     (if rec_phase (snd observed) \<noteq> Active
      then (Inl (orch SIGNALING_UNAVAILABLE ''session is not active'' 409), s)
      else rotateSignalingTicket cfg hash now ticket key s)"

definition activeRuntime_finish :: "session_record obj \<Rightarrow> thrown + runtime_resource" where
  "activeRuntime_finish observed =
     (if rec_phase (snd observed) \<noteq> Active
      then Inl (orch TAB_RUNTIME_UNAVAILABLE ''session tab runtime is not active'' 409)
      else Inr (rec_runtime (snd observed)))"

subsection \<open>exchangeSignalingTicket and authorizeSignalingToken\<close>

definition clear_pairing_ticket :: "string \<Rightarrow> string \<Rightarrow> service \<Rightarrow> service" where
  "clear_pairing_ticket key ticketHash s =
     (case jm_get (credentialsBySession s) key of
        Some (ref, c) \<Rightarrow>
          if pairingTicketHash c = Some ticketHash
          then s\<lparr>credentialsBySession :=
                   jm_set key (ref, c\<lparr>pairingTicketHash := None\<rparr>) (credentialsBySession s)\<rparr>
          else s
      | None \<Rightarrow> s)"

text \<open>Returns the binding, the reference of the credentials object and the record to observe.\<close>

definition exchange_start ::
  "(string \<Rightarrow> string) \<Rightarrow> int \<Rightarrow> string \<Rightarrow> service
   \<Rightarrow> (thrown + credential_binding \<times> nat \<times> session_record obj) \<times> service" where
  "exchange_start hash now ticket s =
     (case hashPresentedCredential hash ticket of
        Inl e \<Rightarrow> (Inl e, s)
      | Inr ticketHash \<Rightarrow>
          let s1 = s\<lparr>pairingTickets := jm_delete ticketHash (pairingTickets s)\<rparr> in
          (case jm_get (pairingTickets s) ticketHash of
             None \<Rightarrow> (Inl invalidSignalingCredential, s1)
           | Some b \<Rightarrow>
               let s2 = clear_pairing_ticket (cb_sessionKey b) ticketHash s1 in
               (case (jm_get (sessions s2) (cb_sessionKey b),
                      jm_get (credentialsBySession s2) (cb_sessionKey b)) of
                  (Some r, Some (cref, _)) \<Rightarrow>
                    if cb_expiresAt b \<le> now \<or> rec_phase (snd r) \<noteq> Active
                    then (Inl invalidSignalingCredential, s2)
                    else (Inr (b, cref, r), s2)
                | _ \<Rightarrow> (Inl invalidSignalingCredential, s2))))"

definition exchange_finish ::
  "service_config \<Rightarrow> (string \<Rightarrow> string) \<Rightarrow> int \<Rightarrow> string \<Rightarrow> credential_binding \<Rightarrow> nat
   \<Rightarrow> session_record obj \<Rightarrow> service \<Rightarrow> (thrown + token_exchange_result) \<times> service" where
  "exchange_finish cfg hash now token b cref observed s =
     (case jm_get (credentialsBySession s) (cb_sessionKey b) of
        None \<Rightarrow> (Inl invalidSignalingCredential, s)
      | Some (ref, c) \<Rightarrow>
          if rec_phase (snd observed) \<noteq> Active \<or> ref \<noteq> cref then (Inl invalidSignalingCredential, s)
          else
            let tokenHash = hash token in
            (Inr \<lparr>signalingToken = token, tokenExpiresInSeconds = signalingTokenTTLSeconds cfg\<rparr>,
             s\<lparr>credentialsBySession :=
                 jm_set (cb_sessionKey b)
                   (ref, c\<lparr>signalingTokenHashes := js_add tokenHash (signalingTokenHashes c)\<rparr>)
                   (credentialsBySession s),
               signalingTokens :=
                 jm_set tokenHash
                   \<lparr>cb_sessionKey = cb_sessionKey b,
                    cb_expiresAt = now + signalingTokenTTLSeconds cfg * 1000\<rparr>
                   (signalingTokens s)\<rparr>))"

definition forget_token :: "string \<Rightarrow> string \<Rightarrow> service \<Rightarrow> service" where
  "forget_token key tokenHash s =
     (case jm_get (credentialsBySession s) key of
        Some (ref, c) \<Rightarrow>
          s\<lparr>credentialsBySession :=
              jm_set key (ref, c\<lparr>signalingTokenHashes := js_remove tokenHash (signalingTokenHashes c)\<rparr>)
                (credentialsBySession s)\<rparr>
      | None \<Rightarrow> s)"

definition authorize_start ::
  "(string \<Rightarrow> string) \<Rightarrow> int \<Rightarrow> string \<Rightarrow> service
   \<Rightarrow> (thrown + credential_binding \<times> session_record obj) \<times> service" where
  "authorize_start hash now token s =
     (case hashPresentedCredential hash token of
        Inl e \<Rightarrow> (Inl e, s)
      | Inr tokenHash \<Rightarrow>
          let s1 = s\<lparr>signalingTokens := jm_delete tokenHash (signalingTokens s)\<rparr> in
          (case jm_get (signalingTokens s) tokenHash of
             None \<Rightarrow> (Inl invalidSignalingCredential, s1)
           | Some b \<Rightarrow>
               let s2 = forget_token (cb_sessionKey b) tokenHash s1 in
               (case jm_get (sessions s2) (cb_sessionKey b) of
                  None \<Rightarrow> (Inl invalidSignalingCredential, s2)
                | Some r \<Rightarrow>
                    if cb_expiresAt b \<le> now \<or> rec_phase (snd r) \<noteq> Active
                    then (Inl invalidSignalingCredential, s2)
                    else (Inr (b, r), s2))))"

definition authorize_finish :: "session_record obj \<Rightarrow> thrown + signaling_authorization" where
  "authorize_finish observed =
     (if rec_phase (snd observed) \<noteq> Active then Inl invalidSignalingCredential
      else Inr \<lparr>auth_sessionId = rec_id (snd observed), auth_tenantId = rec_tenantId (snd observed),
                auth_runtime = rec_runtime (snd observed)\<rparr>)"

subsection \<open>burn\<close>

definition burn_start ::
  "tenant_context \<Rightarrow> string \<Rightarrow> service \<Rightarrow> (thrown + session_record obj) \<times> service" where
  "burn_start ctx sid s =
     (let key = session_key (ctx_tenantId ctx) sid in
      case jm_get (sessions s) key of
        None \<Rightarrow> (Inl sessionNotFound, s)
      | Some r \<Rightarrow>
          let s1 = revokeSignalingConnections (rec_id (snd r)) (revokeCredentials key s);
              burning = (next_ref s1, (snd r)\<lparr>rec_phase := Burning, rec_failure := None\<rparr>)
          in (Inr r, s1\<lparr>sessions := jm_set key burning (sessions s1), next_ref := Suc (next_ref s1)\<rparr>))"

definition burn_finish ::
  "string \<Rightarrow> session_record obj \<Rightarrow> thrown + unit \<Rightarrow> service \<Rightarrow> (thrown + unit) \<times> service" where
  "burn_finish key r outcome s =
     (case outcome of
        Inr _ \<Rightarrow> (Inr (), s\<lparr>sessions := jm_delete key (sessions s)\<rparr>)
      | Inl _ \<Rightarrow>
          (Inl (orch RUNTIME_FAILURE ''session cleanup failed'' 503),
           s\<lparr>sessions :=
               jm_set key (next_ref s, (snd r)\<lparr>rec_phase := Failed, rec_failure := Some ''runtime cleanup failed''\<rparr>)
                 (sessions s),
             next_ref := Suc (next_ref s)\<rparr>))"

subsection \<open>The methods, run without interleaving\<close>

text \<open>
  Each method as one function, for a caller that runs it to its end before anything else
  happens: the parts in order, with the runtime adapter's answers as arguments. A rejected
  promise leaves the state its last part left.
\<close>

definition create_session ::
  "service_config \<Rightarrow> (string \<Rightarrow> string) \<Rightarrow> int \<Rightarrow> string \<Rightarrow> string \<Rightarrow> string
   \<Rightarrow> (create_runtime_request \<Rightarrow> thrown + runtime_resource) \<Rightarrow> tenant_context \<Rightarrow> service
   \<Rightarrow> (thrown + create_session_result) \<times> service" where
  "create_session cfg hash now createdAt ticket sid rt_create ctx s =
     (case create_start cfg ctx sid s of
        Inl e \<Rightarrow> (Inl e, s)
      | Inr s' \<Rightarrow> create_finish cfg hash now createdAt ticket ctx sid
                   (rt_create (create_request cfg ctx sid)) s')"

definition observeRuntime ::
  "(runtime_resource \<Rightarrow> thrown + runtime_inspection) \<Rightarrow> string \<Rightarrow> session_record obj \<Rightarrow> service
   \<Rightarrow> (thrown + session_record obj) \<times> service" where
  "observeRuntime inspect key r s =
     (case observe_start r of
        Some r' \<Rightarrow> (Inr r', s)
      | None \<Rightarrow> observe_finish key r (inspect (rec_runtime (snd r))) s)"

definition get_session ::
  "(runtime_resource \<Rightarrow> thrown + runtime_inspection) \<Rightarrow> tenant_context \<Rightarrow> string \<Rightarrow> service
   \<Rightarrow> (thrown + session_view) \<times> service" where
  "get_session inspect ctx sid s =
     (case lookup_session ctx sid s of
        Inl e \<Rightarrow> (Inl e, s)
      | Inr r \<Rightarrow>
          (case observeRuntime inspect (session_key (ctx_tenantId ctx) sid) r s of
             (Inl e, s') \<Rightarrow> (Inl e, s')
           | (Inr observed, s') \<Rightarrow> (Inr (get_finish observed), s')))"

definition issueSignalingTicket ::
  "service_config \<Rightarrow> (string \<Rightarrow> string) \<Rightarrow> int \<Rightarrow> string
   \<Rightarrow> (runtime_resource \<Rightarrow> thrown + runtime_inspection) \<Rightarrow> tenant_context \<Rightarrow> string \<Rightarrow> service
   \<Rightarrow> (thrown + ticket_issue_result) \<times> service" where
  "issueSignalingTicket cfg hash now ticket inspect ctx sid s =
     (case lookup_session ctx sid s of
        Inl e \<Rightarrow> (Inl e, s)
      | Inr r \<Rightarrow>
          (case observeRuntime inspect (session_key (ctx_tenantId ctx) sid) r s of
             (Inl e, s') \<Rightarrow> (Inl e, s')
           | (Inr observed, s') \<Rightarrow>
               issue_finish cfg hash now ticket (session_key (ctx_tenantId ctx) sid) observed s'))"

definition activeRuntime ::
  "(runtime_resource \<Rightarrow> thrown + runtime_inspection) \<Rightarrow> tenant_context \<Rightarrow> string \<Rightarrow> service
   \<Rightarrow> (thrown + runtime_resource) \<times> service" where
  "activeRuntime inspect ctx sid s =
     (case lookup_session ctx sid s of
        Inl e \<Rightarrow> (Inl e, s)
      | Inr r \<Rightarrow>
          (case observeRuntime inspect (session_key (ctx_tenantId ctx) sid) r s of
             (Inl e, s') \<Rightarrow> (Inl e, s')
           | (Inr observed, s') \<Rightarrow> (activeRuntime_finish observed, s')))"

text \<open>\<open>listTabs\<close>, \<open>createTab\<close>, \<open>activateTab\<close>, \<open>navigateTab\<close> and \<open>deleteTab\<close>
  differ only in the adapter's operation, the argument \<open>use\<close>.\<close>

definition tab_operation ::
  "(runtime_resource \<Rightarrow> thrown + runtime_inspection) \<Rightarrow> (runtime_resource \<Rightarrow> thrown + 'a)
   \<Rightarrow> tenant_context \<Rightarrow> string \<Rightarrow> service \<Rightarrow> (thrown + 'a) \<times> service" where
  "tab_operation inspect use ctx sid s =
     (case activeRuntime inspect ctx sid s of
        (Inl e, s') \<Rightarrow> (Inl e, s')
      | (Inr rt, s') \<Rightarrow> (use rt, s'))"

text \<open>\<open>exchangeSignalingTicket\<close> reads the clock twice, before and after the observation.\<close>

definition exchangeSignalingTicket ::
  "service_config \<Rightarrow> (string \<Rightarrow> string) \<Rightarrow> int \<Rightarrow> int \<Rightarrow> string
   \<Rightarrow> (runtime_resource \<Rightarrow> thrown + runtime_inspection) \<Rightarrow> string \<Rightarrow> service
   \<Rightarrow> (thrown + token_exchange_result) \<times> service" where
  "exchangeSignalingTicket cfg hash now now' token inspect ticket s =
     (case exchange_start hash now ticket s of
        (Inl e, s1) \<Rightarrow> (Inl e, s1)
      | (Inr (b, cref, r), s1) \<Rightarrow>
          (case observeRuntime inspect (cb_sessionKey b) r s1 of
             (Inl e, s2) \<Rightarrow> (Inl e, s2)
           | (Inr observed, s2) \<Rightarrow> exchange_finish cfg hash now' token b cref observed s2))"

definition authorizeSignalingToken ::
  "(string \<Rightarrow> string) \<Rightarrow> int \<Rightarrow> (runtime_resource \<Rightarrow> thrown + runtime_inspection) \<Rightarrow> string
   \<Rightarrow> service \<Rightarrow> (thrown + signaling_authorization) \<times> service" where
  "authorizeSignalingToken hash now inspect token s =
     (case authorize_start hash now token s of
        (Inl e, s1) \<Rightarrow> (Inl e, s1)
      | (Inr (b, r), s1) \<Rightarrow>
          (case observeRuntime inspect (cb_sessionKey b) r s1 of
             (Inl e, s2) \<Rightarrow> (Inl e, s2)
           | (Inr observed, s2) \<Rightarrow> (authorize_finish observed, s2)))"

definition burn_session ::
  "(runtime_resource \<Rightarrow> thrown + unit) \<Rightarrow> tenant_context \<Rightarrow> string \<Rightarrow> service \<Rightarrow> (thrown + unit) \<times> service" where
  "burn_session destroy ctx sid s =
     (case burn_start ctx sid s of
        (Inl e, s') \<Rightarrow> (Inl e, s')
      | (Inr r, s') \<Rightarrow>
          burn_finish (session_key (ctx_tenantId ctx) sid) r (destroy (rec_runtime (snd r))) s')"

end
