(* ===== verification/SessionInvariant.thy ===== *)
theory SessionInvariant
  imports SessionService
begin

text \<open>
  The consistency of the service's five maps, and that every part of every method keeps it.
  The credential maps are read through an abstraction: \<open>ticket_key\<close> and
  \<open>token_key\<close> say which session a hash opens, and each operation on the concrete maps
  is characterised by its effect on those two partial functions.
\<close>

subsection \<open>The abstraction\<close>

definition ticket_key :: "service \<Rightarrow> string \<Rightarrow> string option" where
  "ticket_key s h = map_option cb_sessionKey (jm_get (pairingTickets s) h)"

definition token_key :: "service \<Rightarrow> string \<Rightarrow> string option" where
  "token_key s h = map_option cb_sessionKey (jm_get (signalingTokens s) h)"

definition ticket_of :: "service \<Rightarrow> string \<Rightarrow> string option" where
  "ticket_of s k =
     (case jm_get (credentialsBySession s) k of Some (_, c) \<Rightarrow> pairingTicketHash c | None \<Rightarrow> None)"

definition tokens_of :: "service \<Rightarrow> string \<Rightarrow> string list" where
  "tokens_of s k =
     (case jm_get (credentialsBySession s) k of Some (_, c) \<Rightarrow> signalingTokenHashes c | None \<Rightarrow> [])"

definition has_credentials :: "service \<Rightarrow> string \<Rightarrow> bool" where
  "has_credentials s k = (jm_get (credentialsBySession s) k \<noteq> None)"

definition session_active :: "service \<Rightarrow> string \<Rightarrow> bool" where
  "session_active s k =
     (case jm_get (sessions s) k of Some r \<Rightarrow> rec_phase (snd r) = Active | None \<Rightarrow> False)"

lemmas abstraction_defs =
  ticket_key_def token_key_def ticket_of_def tokens_of_def has_credentials_def session_active_def

lemma abstraction_frame [simp]:
  "ticket_key (s\<lparr>sessions := a\<rparr>) = ticket_key s" "token_key (s\<lparr>sessions := a\<rparr>) = token_key s"
  "ticket_of (s\<lparr>sessions := a\<rparr>) = ticket_of s" "tokens_of (s\<lparr>sessions := a\<rparr>) = tokens_of s"
  "has_credentials (s\<lparr>sessions := a\<rparr>) = has_credentials s"
  "ticket_key (s\<lparr>reservations := b\<rparr>) = ticket_key s" "token_key (s\<lparr>reservations := b\<rparr>) = token_key s"
  "ticket_of (s\<lparr>reservations := b\<rparr>) = ticket_of s" "tokens_of (s\<lparr>reservations := b\<rparr>) = tokens_of s"
  "has_credentials (s\<lparr>reservations := b\<rparr>) = has_credentials s"
  "session_active (s\<lparr>reservations := b\<rparr>) = session_active s"
  "ticket_key (s\<lparr>next_ref := n\<rparr>) = ticket_key s" "token_key (s\<lparr>next_ref := n\<rparr>) = token_key s"
  "ticket_of (s\<lparr>next_ref := n\<rparr>) = ticket_of s" "tokens_of (s\<lparr>next_ref := n\<rparr>) = tokens_of s"
  "has_credentials (s\<lparr>next_ref := n\<rparr>) = has_credentials s"
  "session_active (s\<lparr>next_ref := n\<rparr>) = session_active s"
  "ticket_key (s\<lparr>revocations := l\<rparr>) = ticket_key s" "token_key (s\<lparr>revocations := l\<rparr>) = token_key s"
  "ticket_of (s\<lparr>revocations := l\<rparr>) = ticket_of s" "tokens_of (s\<lparr>revocations := l\<rparr>) = tokens_of s"
  "has_credentials (s\<lparr>revocations := l\<rparr>) = has_credentials s"
  "session_active (s\<lparr>revocations := l\<rparr>) = session_active s"
  by (simp_all add: abstraction_defs fun_eq_iff)

text \<open>The abstract effect of revoking, and of adding one credential.\<close>

definition forget_key :: "('h \<rightharpoonup> 'k) \<Rightarrow> 'k \<Rightarrow> ('h \<rightharpoonup> 'k)" where
  "forget_key m k = (\<lambda>h. if m h = Some k then None else m h)"

lemma forget_key_other: "m h \<noteq> Some k \<Longrightarrow> forget_key m k h = m h"
  by (simp add: forget_key_def)

lemma forget_key_not [simp]: "forget_key m k h \<noteq> Some k"
  by (simp add: forget_key_def)

subsection \<open>The invariant\<close>

definition maps_wf :: "service \<Rightarrow> bool" where
  "maps_wf s \<longleftrightarrow> jm_wf (sessions s) \<and> jm_wf (pairingTickets s) \<and> jm_wf (signalingTokens s)
     \<and> jm_wf (credentialsBySession s) \<and> jm_wf (reservations s)"

definition credentials_ok :: "service \<Rightarrow> bool" where
  "credentials_ok s \<longleftrightarrow> (\<forall>k. has_credentials s k = session_active s k)"

definition tickets_ok :: "service \<Rightarrow> bool" where
  "tickets_ok s \<longleftrightarrow> (\<forall>h k. ticket_key s h = Some k \<longleftrightarrow> ticket_of s k = Some h) \<and> (\<forall>k. ticket_of s k \<noteq> Some [])"

definition tokens_ok :: "service \<Rightarrow> bool" where
  "tokens_ok s \<longleftrightarrow> (\<forall>h k. token_key s h = Some k \<longleftrightarrow> h \<in> set (tokens_of s k))"

definition record_ok :: "service_config \<Rightarrow> string \<Rightarrow> session_record \<Rightarrow> bool" where
  "record_ok cfg k r \<longleftrightarrow> record_key r = k \<and> rec_quota r = quota cfg \<and> CHR '':'' \<notin> set (rec_tenantId r)"

definition records_ok :: "service_config \<Rightarrow> service \<Rightarrow> bool" where
  "records_ok cfg s \<longleftrightarrow> (\<forall>k r. jm_get (sessions s) k = Some r \<longrightarrow> record_ok cfg k (snd r))"

definition reservations_ok :: "service_config \<Rightarrow> service \<Rightarrow> bool" where
  "reservations_ok cfg s \<longleftrightarrow> (\<forall>i v. jm_get (reservations s) i = Some v \<longrightarrow> res_quota v = quota cfg)"

definition service_inv :: "service_config \<Rightarrow> service \<Rightarrow> bool" where
  "service_inv cfg s \<longleftrightarrow> maps_wf s \<and> credentials_ok s \<and> tickets_ok s \<and> tokens_ok s
     \<and> records_ok cfg s \<and> reservations_ok cfg s"

lemmas service_inv_defs =
  service_inv_def maps_wf_def credentials_ok_def tickets_ok_def tokens_ok_def
  records_ok_def reservations_ok_def

lemma service_inv_empty: "service_inv cfg empty_service"
  by (simp add: service_inv_defs empty_service_def abstraction_defs)

lemma service_inv_wf:
  assumes "service_inv cfg s"
  shows "jm_wf (sessions s)" "jm_wf (pairingTickets s)" "jm_wf (signalingTokens s)"
    "jm_wf (credentialsBySession s)" "jm_wf (reservations s)"
  using assms by (simp_all add: service_inv_def maps_wf_def)

lemma ticket_active:
  assumes "service_inv cfg s" and "ticket_key s h = Some k" shows "session_active s k"
proof -
  from assms have "ticket_of s k = Some h" by (simp add: service_inv_def tickets_ok_def)
  then have "has_credentials s k"
    by (cases "jm_get (credentialsBySession s) k") (simp_all add: ticket_of_def has_credentials_def)
  with assms(1) show ?thesis by (simp add: service_inv_def credentials_ok_def)
qed

lemma token_active:
  assumes "service_inv cfg s" and "token_key s h = Some k" shows "session_active s k"
proof -
  from assms have "h \<in> set (tokens_of s k)" by (simp add: service_inv_def tokens_ok_def)
  then have "has_credentials s k"
    by (cases "jm_get (credentialsBySession s) k") (simp_all add: tokens_of_def has_credentials_def)
  with assms(1) show ?thesis by (simp add: service_inv_def credentials_ok_def)
qed

lemma ticket_of_unique:
  "service_inv cfg s \<Longrightarrow> ticket_of s k = Some h \<Longrightarrow> ticket_of s k' = Some h \<Longrightarrow> k = k'"
  by (metis option.inject service_inv_def tickets_ok_def)

lemma tokens_of_unique:
  "service_inv cfg s \<Longrightarrow> h \<in> set (tokens_of s k) \<Longrightarrow> h \<in> set (tokens_of s k') \<Longrightarrow> k = k'"
  by (metis option.inject service_inv_def tokens_ok_def)

lemma no_credentials: "\<not> has_credentials s k \<Longrightarrow> jm_get (credentialsBySession s) k = None"
  by (simp only: has_credentials_def not_not)

lemma record_okD: "service_inv cfg s \<Longrightarrow> jm_get (sessions s) k = Some r \<Longrightarrow> record_ok cfg k (snd r)"
  unfolding service_inv_def records_ok_def by blast

text \<open>Session keys determine tenant and identifier when tenants hold no colon.\<close>

lemma session_key_inj:
  assumes "session_key t i = session_key u j" and "CHR '':'' \<notin> set t" and "CHR '':'' \<notin> set u"
  shows "t = u \<and> i = j"
proof -
  have split: "takeWhile (\<lambda>c. c \<noteq> CHR '':'') (session_key v x) = v" if "CHR '':'' \<notin> set v" for v x
    using that unfolding session_key_def by (induction v) auto
  from split [OF assms(2), of i] split [OF assms(3), of j] assms(1) have "t = u" by simp
  with assms(1) show ?thesis by (simp add: session_key_def)
qed

subsection \<open>Revoking\<close>

lemma revoke_frame [simp]:
  "sessions (revokeCredentials key s) = sessions s"
  "reservations (revokeCredentials key s) = reservations s"
  "next_ref (revokeCredentials key s) = next_ref s"
  "revocations (revokeCredentials key s) = revocations s"
  by (simp_all add: revokeCredentials_def split: option.splits prod.splits)

lemma revoke_credentials:
  "jm_get (credentialsBySession (revokeCredentials key s)) k =
     (if k = key then None else jm_get (credentialsBySession s) k)"
  by (auto simp: revokeCredentials_def split: option.splits prod.splits)

lemma revoke_ticket_key:
  assumes "service_inv cfg s"
  shows "ticket_key (revokeCredentials key s) = forget_key (ticket_key s) key"
proof (rule ext)
  fix h
  have tk: "\<And>h k. ticket_key s h = Some k \<longleftrightarrow> ticket_of s k = Some h" and ne: "ticket_of s key \<noteq> Some []"
    using assms by (simp_all add: service_inv_def tickets_ok_def)
  show "ticket_key (revokeCredentials key s) h = forget_key (ticket_key s) key h"
  proof (cases "jm_get (credentialsBySession s) key")
    case None
    then have "ticket_of s key = None" by (simp add: ticket_of_def)
    with tk [of h key] None show ?thesis by (simp add: revokeCredentials_def forget_key_def)
  next
    case (Some rc)
    then have of_key: "ticket_of s key = pairingTicketHash (snd rc)"
      by (simp add: ticket_of_def split: prod.splits)
    with tk [of h key] ne Some show ?thesis
      by (auto simp: revokeCredentials_def forget_key_def drop_ticket_def ticket_key_def
          split: prod.splits option.splits)
  qed
qed

lemma revoke_token_key:
  assumes "service_inv cfg s"
  shows "token_key (revokeCredentials key s) = forget_key (token_key s) key"
proof (rule ext)
  fix h
  have tk: "token_key s h = Some key \<longleftrightarrow> h \<in> set (tokens_of s key)"
    using assms by (simp add: service_inv_def tokens_ok_def)
  show "token_key (revokeCredentials key s) h = forget_key (token_key s) key h"
  proof (cases "jm_get (credentialsBySession s) key")
    case None
    then have "tokens_of s key = []" by (simp add: tokens_of_def)
    with tk None show ?thesis by (simp add: revokeCredentials_def forget_key_def)
  next
    case (Some rc)
    then have "tokens_of s key = signalingTokenHashes (snd rc)"
      by (simp add: tokens_of_def split: prod.splits)
    with tk Some service_inv_wf [OF assms] show ?thesis
      by (auto simp: revokeCredentials_def forget_key_def token_key_def split: prod.splits)
  qed
qed

lemma revoke_ticket_of: "ticket_of (revokeCredentials key s) k = (if k = key then None else ticket_of s k)"
  by (simp add: ticket_of_def revoke_credentials)

lemma revoke_tokens_of: "tokens_of (revokeCredentials key s) k = (if k = key then [] else tokens_of s k)"
  by (simp add: tokens_of_def revoke_credentials)

lemma revoke_has: "has_credentials (revokeCredentials key s) k = (k \<noteq> key \<and> has_credentials s k)"
  by (simp add: has_credentials_def revoke_credentials)

lemma revoke_wf: "maps_wf s \<Longrightarrow> maps_wf (revokeCredentials key s)"
  by (auto simp: maps_wf_def revokeCredentials_def drop_ticket_def split: option.splits prod.splits)

lemmas revoke_simps = revoke_ticket_of revoke_tokens_of revoke_has

subsection \<open>Every part keeps the invariant\<close>

lemma service_inv_cong:
  assumes "service_inv cfg s" and "sessions s' = sessions s" and "pairingTickets s' = pairingTickets s"
    and "signalingTokens s' = signalingTokens s" and "credentialsBySession s' = credentialsBySession s"
    and "reservations s' = reservations s"
  shows "service_inv cfg s'"
  using assms by (simp add: service_inv_defs abstraction_defs)

text \<open>A session leaves the active phase together with its credentials.\<close>

lemma inv_deactivate:
  assumes inv: "service_inv cfg s" and r: "record_ok cfg key r" "rec_phase r \<noteq> Active"
    and s': "s' = (revokeCredentials key s)\<lparr>revocations := l, sessions := jm_set key (n, r) (sessions s),
      next_ref := m\<rparr>"
  shows "service_inv cfg s'"
proof -
  let ?r = "revokeCredentials key s"
  have same: "ticket_key s' = ticket_key ?r" "token_key s' = token_key ?r" "ticket_of s' = ticket_of ?r"
    "tokens_of s' = tokens_of ?r" "has_credentials s' = has_credentials ?r"
    by (simp_all add: s' abstraction_defs fun_eq_iff)
  have "maps_wf s'"
    using revoke_wf [of s key] inv by (simp add: s' service_inv_def maps_wf_def)
  moreover have "credentials_ok s'"
    using inv r by (simp add: credentials_ok_def same revoke_simps service_inv_def)
      (simp add: s' session_active_def)
  moreover have "tickets_ok s'"
    using inv by (auto simp: tickets_ok_def same revoke_simps revoke_ticket_key [OF inv]
        forget_key_def service_inv_def dest: ticket_of_unique [OF inv])
  moreover have "tokens_ok s'"
    using inv by (auto simp: tokens_ok_def same revoke_simps revoke_token_key [OF inv]
        forget_key_def service_inv_def dest: tokens_of_unique [OF inv])
  moreover have "records_ok cfg s'" and "reservations_ok cfg s'"
    using inv r by (simp_all add: s' records_ok_def reservations_ok_def service_inv_def)
  ultimately show ?thesis by (simp add: service_inv_def)
qed

lemma inv_observe_finish:
  assumes "service_inv cfg s" and "record_ok cfg key (snd r)"
  shows "service_inv cfg (snd (observe_finish key r insp s))"
proof -
  have "record_ok cfg key ((snd r)\<lparr>rec_phase := Failed, rec_failure := Some f\<rparr>)" for f
    using assms(2) by (simp add: record_ok_def record_key_def)
  then have "service_inv cfg ((revokeCredentials key s)\<lparr>revocations := l,
      sessions := jm_set key (n, (snd r)\<lparr>rec_phase := Failed, rec_failure := Some f\<rparr>) (sessions s),
      next_ref := m\<rparr>)" for f n m l
    by (intro inv_deactivate [OF assms(1) _ _ refl]) simp_all
  with assms show ?thesis
    by (auto simp: observe_finish_def revokeSignalingConnections_def Let_def
        split: sum.splits option.splits runtime_inspection.splits)
qed

lemma inv_burn_start:
  assumes "service_inv cfg s"
  shows "service_inv cfg (snd (burn_start ctx sid s))"
proof (cases "jm_get (sessions s) (session_key (ctx_tenantId ctx) sid)")
  case None
  with assms show ?thesis by (simp add: burn_start_def Let_def)
next
  case (Some r)
  let ?k = "session_key (ctx_tenantId ctx) sid"
  have "record_ok cfg ?k (snd r)" by (rule record_okD [OF assms Some])
  then have "record_ok cfg ?k ((snd r)\<lparr>rec_phase := Burning, rec_failure := None\<rparr>)"
    by (simp add: record_ok_def record_key_def)
  with Some show ?thesis
    by (auto simp: burn_start_def Let_def revokeSignalingConnections_def
        intro!: inv_deactivate [OF assms _ _ refl])
qed

lemma inv_burn_finish:
  assumes inv: "service_inv cfg s" and "record_ok cfg key (snd r)" and idle: "\<not> session_active s key"
  shows "service_inv cfg (snd (burn_finish key r outcome s))"
proof -
  have nc: "\<not> has_credentials s key" using inv idle by (simp add: service_inv_def credentials_ok_def)
  have rok: "record_ok cfg key ((snd r)\<lparr>rec_phase := Failed, rec_failure := Some f\<rparr>)" for f
    using assms(2) by (simp add: record_ok_def record_key_def)
  show ?thesis
  proof (cases outcome)
    case (Inl e)
    have "revokeCredentials key s = s" using no_credentials [OF nc] by (simp add: revokeCredentials_def)
    with Inl inv_deactivate [OF inv rok _ refl, where n = "next_ref s" and m = "Suc (next_ref s)" and l = "revocations s"]
    show ?thesis by (simp add: burn_finish_def)
  next
    case (Inr u)
    have "session_active (s\<lparr>sessions := jm_delete key (sessions s)\<rparr>) = session_active s"
      using idle by (auto simp: session_active_def fun_eq_iff)
    with inv Inr show ?thesis by (simp add: burn_finish_def service_inv_defs)
  qed
qed

lemma inv_reserve:
  assumes "service_inv cfg s" and "reserve cfg sid t s = Inr s'"
  shows "service_inv cfg s'"
  using assms by (auto simp: reserve_def Let_def service_inv_defs split: if_splits)

lemma inv_delete_reservation:
  assumes "service_inv cfg s" shows "service_inv cfg (delete_reservation sid s)"
  using assms by (simp add: delete_reservation_def service_inv_defs)

lemma inv_install:
  assumes inv: "service_inv cfg s" and new: "jm_get (sessions s) key = None"
    and r: "record_ok cfg key r" "rec_phase r = Active"
  shows "service_inv cfg (install_session key r s)"
proof -
  let ?s = "install_session key r s"
  have "\<not> session_active s key" using new by (simp add: session_active_def)
  then have nc: "\<not> has_credentials s key" using inv by (simp add: service_inv_def credentials_ok_def)
  then have none: "ticket_of s key = None" "tokens_of s key = []"
    using no_credentials [OF nc] by (simp_all add: ticket_of_def tokens_of_def)
  have abs: "ticket_key ?s = ticket_key s" "token_key ?s = token_key s"
    "ticket_of ?s = ticket_of s" "tokens_of ?s = tokens_of s"
    "has_credentials ?s = (\<lambda>k. k = key \<or> has_credentials s k)"
    using none by (auto simp: install_session_def abstraction_defs fun_eq_iff)
  have "maps_wf ?s" using inv by (simp add: install_session_def service_inv_def maps_wf_def)
  moreover have "credentials_ok ?s"
    using inv r by (simp add: credentials_ok_def abs service_inv_def)
      (simp add: install_session_def session_active_def)
  moreover have "tickets_ok ?s" "tokens_ok ?s"
    using inv by (simp_all add: tickets_ok_def tokens_ok_def abs service_inv_def)
  moreover have "records_ok cfg ?s" "reservations_ok cfg ?s"
    using inv r by (simp_all add: install_session_def records_ok_def reservations_ok_def service_inv_def)
  ultimately show ?thesis by (simp add: service_inv_def)
qed

text \<open>Rotating the ticket of a session: the old credentials go, one new ticket comes.\<close>

lemma rotate_none:
  "\<not> has_credentials s key \<Longrightarrow>
   rotateSignalingTicket cfg hash now t key s =
     (Inl (orch SIGNALING_UNAVAILABLE ''session credentials are unavailable'' 409), s)"
  using no_credentials [of s key] by (simp add: rotateSignalingTicket_def)

lemma rotate_frame [simp]:
  "sessions (snd (rotateSignalingTicket cfg hash now t key s)) = sessions s"
  "reservations (snd (rotateSignalingTicket cfg hash now t key s)) = reservations s"
  "next_ref (snd (rotateSignalingTicket cfg hash now t key s)) = next_ref s"
  "revocations (snd (rotateSignalingTicket cfg hash now t key s)) = revocations s"
  by (simp_all add: rotateSignalingTicket_def Let_def split: option.splits prod.splits)

lemma rotate_abs:
  assumes inv: "service_inv cfg s" and has: "has_credentials s key"
    and s': "s' = snd (rotateSignalingTicket cf hash now t key s)"
  shows "ticket_key s' = (forget_key (ticket_key s) key)(hash t \<mapsto> key)"
    and "token_key s' = forget_key (token_key s) key"
    and "ticket_of s' = (ticket_of s)(key \<mapsto> hash t)"
    and "tokens_of s' = (tokens_of s)(key := [])"
    and "has_credentials s' = has_credentials s"
    and "maps_wf s'"
proof -
  from has obtain ref c where c: "jm_get (credentialsBySession s) key = Some (ref, c)"
    by (auto simp: has_credentials_def)
  have s'': "s' = s\<lparr>pairingTickets := jm_set (hash t)
        \<lparr>cb_sessionKey = key, cb_expiresAt = now + pairingTicketTTLSeconds cf * 1000\<rparr>
        (drop_ticket (pairingTicketHash c) (pairingTickets s)),
      signalingTokens := jm_delete_all (signalingTokenHashes c) (signalingTokens s),
      credentialsBySession := jm_set key
        (ref, \<lparr>pairingTicketHash = Some (hash t), signalingTokenHashes = []\<rparr>) (credentialsBySession s)\<rparr>"
    using c by (simp add: s' rotateSignalingTicket_def Let_def)
  have of_key: "ticket_of s key = pairingTicketHash c" "tokens_of s key = signalingTokenHashes c"
    using c by (simp_all add: ticket_of_def tokens_of_def)
  have tk: "\<And>h. ticket_key s h = Some key \<longleftrightarrow> pairingTicketHash c = Some h"
    and tn: "\<And>h. token_key s h = Some key \<longleftrightarrow> h \<in> set (signalingTokenHashes c)"
    and ne: "pairingTicketHash c \<noteq> Some []"
    using inv of_key by (metis service_inv_def tickets_ok_def, metis service_inv_def tokens_ok_def,
        metis service_inv_def tickets_ok_def)
  have dropped: "map_option cb_sessionKey (jm_get (drop_ticket (pairingTicketHash c) (pairingTickets s)) h)
      = forget_key (ticket_key s) key h" for h
  proof (cases "pairingTicketHash c = Some h")
    case True
    with ne have "h \<noteq> []" by auto
    with True tk [of h] show ?thesis by (simp add: drop_ticket_def forget_key_def)
  next
    case False
    with tk [of h] show ?thesis
      by (auto simp: drop_ticket_def forget_key_def ticket_key_def split: option.splits)
  qed
  then show "ticket_key s' = (forget_key (ticket_key s) key)(hash t \<mapsto> key)"
    by (auto simp: s'' fun_eq_iff ticket_key_def)
  show "token_key s' = forget_key (token_key s) key"
    using tn service_inv_wf [OF inv] by (auto simp: s'' fun_eq_iff token_key_def forget_key_def)
  show "ticket_of s' = (ticket_of s)(key \<mapsto> hash t)" "tokens_of s' = (tokens_of s)(key := [])"
    "has_credentials s' = has_credentials s"
    using c by (auto simp: s'' fun_eq_iff ticket_of_def tokens_of_def has_credentials_def)
  show "maps_wf s'"
    using inv by (simp add: s'' service_inv_def maps_wf_def drop_ticket_def split: option.splits)
qed

lemma inv_rotate:
  assumes inv: "service_inv cfg s" and fresh: "ticket_key s (hash t) = None" and ne: "hash t \<noteq> []"
  shows "service_inv cfg (snd (rotateSignalingTicket c hash now t key s))"
proof (cases "has_credentials s key")
  case False
  with inv show ?thesis by (simp add: rotate_none)
next
  case True
  let ?s = "snd (rotateSignalingTicket c hash now t key s)"
  note abs = rotate_abs [OF inv True refl, where cf = c and hash = hash and now = now and t = t]
  have tk: "\<And>h k. ticket_key s h = Some k \<longleftrightarrow> ticket_of s k = Some h"
    and tn: "\<And>h k. token_key s h = Some k \<longleftrightarrow> h \<in> set (tokens_of s k)"
    and tne: "\<And>k. ticket_of s k \<noteq> Some []"
    using inv by (simp_all add: service_inv_def tickets_ok_def tokens_ok_def)
  have "ticket_key ?s h = Some k \<longleftrightarrow> ticket_of ?s k = Some h" for h k
    using fresh tk [of h k] tk [of "hash t" k]
    by (cases "k = key") (auto simp: abs forget_key_def)
  then have "tickets_ok ?s" using ne tne by (simp add: tickets_ok_def abs)
  moreover have "token_key ?s h = Some k \<longleftrightarrow> h \<in> set (tokens_of ?s k)" for h k
    using tn [of h k] by (cases "k = key") (auto simp: abs forget_key_def)
  then have "tokens_ok ?s" by (simp add: tokens_ok_def)
  moreover have "session_active ?s = session_active s" by (simp add: session_active_def fun_eq_iff)
  then have "credentials_ok ?s" using inv by (simp add: credentials_ok_def abs service_inv_def)
  moreover have "records_ok cfg ?s" "reservations_ok cfg ?s"
    using inv by (simp_all add: records_ok_def reservations_ok_def service_inv_def)
  ultimately show ?thesis using abs by (simp add: service_inv_def)
qed

lemma inv_issue_finish:
  assumes "service_inv cfg s" and "ticket_key s (hash t) = None" and "hash t \<noteq> []"
  shows "service_inv cfg (snd (issue_finish c hash now t key observed s))"
  using assms by (simp add: issue_finish_def inv_rotate)

text \<open>Exchanging and authorising consume one credential.\<close>

lemma exchange_start_abs:
  assumes inv: "service_inv cfg s" and s': "s' = snd (exchange_start hash now t s)"
    and cred: "is_credential t"
  shows "ticket_key s' = (ticket_key s)(hash t := None)"
    and "token_key s' = token_key s" and "has_credentials s' = has_credentials s"
    and "ticket_of s' = (\<lambda>k. if ticket_of s k = Some (hash t) then None else ticket_of s k)"
    and "tokens_of s' = tokens_of s" and "sessions s' = sessions s"
    and "reservations s' = reservations s" and "next_ref s' = next_ref s"
    and "revocations s' = revocations s" and "maps_wf s'"
proof -
  have tk: "\<And>k. ticket_key s (hash t) = Some k \<longleftrightarrow> ticket_of s k = Some (hash t)"
    using inv by (simp add: service_inv_def tickets_ok_def)
  let ?s1 = "s\<lparr>pairingTickets := jm_delete (hash t) (pairingTickets s)\<rparr>"
  have s'': "s' = (case jm_get (pairingTickets s) (hash t) of None \<Rightarrow> ?s1
      | Some b \<Rightarrow> clear_pairing_ticket (cb_sessionKey b) (hash t) ?s1)"
    using cred by (auto simp: s' exchange_start_def hashPresentedCredential_def Let_def
        split: option.splits prod.splits)
  show "ticket_key s' = (ticket_key s)(hash t := None)"
    by (auto simp: s'' clear_pairing_ticket_def ticket_key_def fun_eq_iff split: option.splits prod.splits)
  show "token_key s' = token_key s" "has_credentials s' = has_credentials s"
    "tokens_of s' = tokens_of s" "sessions s' = sessions s" "reservations s' = reservations s"
    "next_ref s' = next_ref s" "revocations s' = revocations s"
    by (auto simp: s'' clear_pairing_ticket_def token_key_def has_credentials_def tokens_of_def
        fun_eq_iff split: option.splits prod.splits)
  show "maps_wf s'"
    using inv by (simp add: s'' clear_pairing_ticket_def service_inv_def maps_wf_def
        split: option.splits prod.splits)
  show "ticket_of s' = (\<lambda>k. if ticket_of s k = Some (hash t) then None else ticket_of s k)"
  proof (cases "jm_get (pairingTickets s) (hash t)")
    case None
    then have "ticket_of s k \<noteq> Some (hash t)" for k using tk [of k] by (auto simp: ticket_key_def)
    with None show ?thesis by (auto simp: s'' ticket_of_def fun_eq_iff)
  next
    case (Some b)
    then have only: "ticket_of s k = Some (hash t) \<longleftrightarrow> k = cb_sessionKey b" for k
      using tk [of k] by (auto simp: ticket_key_def)
    show ?thesis
    proof (rule ext)
      fix k
      show "ticket_of s' k = (if ticket_of s k = Some (hash t) then None else ticket_of s k)"
        using only [of k] only [of "cb_sessionKey b"] Some
        by (auto simp: s'' clear_pairing_ticket_def ticket_of_def split: option.splits prod.splits if_splits)
    qed
  qed
qed

lemma inv_exchange_start:
  assumes inv: "service_inv cfg s" shows "service_inv cfg (snd (exchange_start hash now t s))"
proof (cases "is_credential t")
  case False
  with inv show ?thesis by (simp add: exchange_start_def hashPresentedCredential_def)
next
  case True
  let ?s = "snd (exchange_start hash now t s)"
  note abs = exchange_start_abs [OF inv refl True, where hash = hash and now = now]
  have "tickets_ok ?s" "tokens_ok ?s"
    using inv by (auto simp: tickets_ok_def tokens_ok_def abs service_inv_def)
  moreover have "session_active ?s = session_active s" by (simp add: session_active_def fun_eq_iff abs)
  then have "credentials_ok ?s" using inv by (simp add: credentials_ok_def abs service_inv_def)
  moreover have "records_ok cfg ?s" "reservations_ok cfg ?s"
    using inv by (simp_all add: records_ok_def reservations_ok_def service_inv_def abs)
  ultimately show ?thesis using abs by (simp add: service_inv_def)
qed

lemma authorize_start_abs:
  assumes inv: "service_inv cfg s" and s': "s' = snd (authorize_start hash now t s)"
    and cred: "is_credential t"
  shows "token_key s' = (token_key s)(hash t := None)"
    and "ticket_key s' = ticket_key s" and "has_credentials s' = has_credentials s"
    and "ticket_of s' = ticket_of s"
    and "set (tokens_of s' k) = set (tokens_of s k) - {hash t}" and "sessions s' = sessions s"
    and "reservations s' = reservations s" and "next_ref s' = next_ref s"
    and "revocations s' = revocations s" and "maps_wf s'"
proof -
  let ?s1 = "s\<lparr>signalingTokens := jm_delete (hash t) (signalingTokens s)\<rparr>"
  have s'': "s' = (case jm_get (signalingTokens s) (hash t) of None \<Rightarrow> ?s1
      | Some b \<Rightarrow> forget_token (cb_sessionKey b) (hash t) ?s1)"
    using cred by (auto simp: s' authorize_start_def hashPresentedCredential_def Let_def
        split: option.splits prod.splits)
  show "token_key s' = (token_key s)(hash t := None)"
    by (auto simp: s'' forget_token_def token_key_def fun_eq_iff split: option.splits prod.splits)
  show "ticket_key s' = ticket_key s" "has_credentials s' = has_credentials s"
    "ticket_of s' = ticket_of s" "sessions s' = sessions s" "reservations s' = reservations s"
    "next_ref s' = next_ref s" "revocations s' = revocations s"
    by (auto simp: s'' forget_token_def ticket_key_def has_credentials_def ticket_of_def
        fun_eq_iff split: option.splits prod.splits)
  show "maps_wf s'"
    using inv by (simp add: s'' forget_token_def service_inv_def maps_wf_def
        split: option.splits prod.splits)
  have tk: "token_key s (hash t) = Some k \<longleftrightarrow> hash t \<in> set (tokens_of s k)"
    using inv by (simp add: service_inv_def tokens_ok_def)
  show "set (tokens_of s' k) = set (tokens_of s k) - {hash t}"
  proof (cases "token_key s (hash t) = Some k")
    case True
    then show ?thesis
      by (auto simp: s'' forget_token_def tokens_of_def token_key_def split: option.splits prod.splits)
  next
    case False
    then have "tokens_of s' k = tokens_of s k"
      by (auto simp: s'' forget_token_def tokens_of_def token_key_def split: option.splits prod.splits)
    with False tk show ?thesis by simp
  qed
qed

lemma inv_authorize_start:
  assumes inv: "service_inv cfg s" shows "service_inv cfg (snd (authorize_start hash now t s))"
proof (cases "is_credential t")
  case False
  with inv show ?thesis by (simp add: authorize_start_def hashPresentedCredential_def)
next
  case True
  let ?s = "snd (authorize_start hash now t s)"
  note abs = authorize_start_abs [OF inv refl True, where hash = hash and now = now]
  have "tickets_ok ?s" "tokens_ok ?s"
    using inv by (auto simp: tickets_ok_def tokens_ok_def abs service_inv_def)
  moreover have "session_active ?s = session_active s" by (simp add: session_active_def fun_eq_iff abs)
  then have "credentials_ok ?s" using inv by (simp add: credentials_ok_def abs service_inv_def)
  moreover have "records_ok cfg ?s" "reservations_ok cfg ?s"
    using inv by (simp_all add: records_ok_def reservations_ok_def service_inv_def abs)
  ultimately show ?thesis using abs by (simp add: service_inv_def)
qed

lemma exchange_finish_abs:
  assumes inv: "service_inv cfg s" and ok: "exchange_finish c hash now t b cref r s = (Inr res, s')"
  shows "token_key s' = (token_key s)(hash t \<mapsto> cb_sessionKey b)"
    and "ticket_key s' = ticket_key s" and "has_credentials s' = has_credentials s"
    and "ticket_of s' = ticket_of s"
    and "set (tokens_of s' k) = set (tokens_of s k) \<union> (if k = cb_sessionKey b then {hash t} else {})"
    and "sessions s' = sessions s" and "reservations s' = reservations s"
    and "next_ref s' = next_ref s" and "revocations s' = revocations s" and "maps_wf s'"
    and "session_active s (cb_sessionKey b)"
    and "res = \<lparr>signalingToken = t, tokenExpiresInSeconds = signalingTokenTTLSeconds c\<rparr>"
proof -
  from ok obtain ref cr where cr: "jm_get (credentialsBySession s) (cb_sessionKey b) = Some (ref, cr)"
    and s': "s' = s\<lparr>credentialsBySession := jm_set (cb_sessionKey b)
          (ref, cr\<lparr>signalingTokenHashes := js_add (hash t) (signalingTokenHashes cr)\<rparr>)
          (credentialsBySession s),
        signalingTokens := jm_set (hash t) \<lparr>cb_sessionKey = cb_sessionKey b,
          cb_expiresAt = now + signalingTokenTTLSeconds c * 1000\<rparr> (signalingTokens s)\<rparr>"
    and res: "res = \<lparr>signalingToken = t, tokenExpiresInSeconds = signalingTokenTTLSeconds c\<rparr>"
    by (auto simp: exchange_finish_def Let_def split: option.splits prod.splits if_splits)
  have "has_credentials s (cb_sessionKey b)" by (simp add: has_credentials_def cr)
  with inv show "session_active s (cb_sessionKey b)" by (simp add: service_inv_def credentials_ok_def)
  show "res = \<lparr>signalingToken = t, tokenExpiresInSeconds = signalingTokenTTLSeconds c\<rparr>" by (rule res)
  show "token_key s' = (token_key s)(hash t \<mapsto> cb_sessionKey b)" "ticket_key s' = ticket_key s"
    "has_credentials s' = has_credentials s" "ticket_of s' = ticket_of s"
    "sessions s' = sessions s" "reservations s' = reservations s"
    "next_ref s' = next_ref s" "revocations s' = revocations s"
    using cr by (auto simp: s' token_key_def ticket_key_def has_credentials_def ticket_of_def fun_eq_iff)
  show "set (tokens_of s' k) = set (tokens_of s k) \<union> (if k = cb_sessionKey b then {hash t} else {})"
    using cr by (auto simp: s' tokens_of_def)
  show "maps_wf s'" using inv by (simp add: s' service_inv_def maps_wf_def)
qed

lemma exchange_finish_Inl: "exchange_finish c hash now t b cref r s = (Inl e, s') \<Longrightarrow>
    s' = s \<and> e = invalidSignalingCredential"
  by (auto simp: exchange_finish_def Let_def split: option.splits prod.splits if_splits)

lemma inv_exchange_finish:
  assumes inv: "service_inv cfg s" and fresh: "token_key s (hash t) = None"
  shows "service_inv cfg (snd (exchange_finish c hash now t b cref r s))"
proof (cases "exchange_finish c hash now t b cref r s")
  case (Pair x s')
  show ?thesis
  proof (cases x)
    case (Inl e)
    with Pair inv exchange_finish_Inl [of c hash now t b cref r s e s'] show ?thesis by simp
  next
    case (Inr res)
    note abs = exchange_finish_abs [OF inv Pair [unfolded Inr]]
    have tn: "token_key s h = Some k \<longleftrightarrow> h \<in> set (tokens_of s k)" for h k
      using inv by (simp add: service_inv_def tokens_ok_def)
    have "token_key s' h = Some k \<longleftrightarrow> h \<in> set (tokens_of s' k)" for h k
      using fresh tn [of h k] tn [of "hash t" k] by (auto simp: abs)
    then have "tokens_ok s'" by (simp add: tokens_ok_def)
    moreover have "tickets_ok s'" using inv by (simp add: tickets_ok_def abs service_inv_def)
    moreover have "session_active s' = session_active s" by (simp add: session_active_def fun_eq_iff abs)
    then have "credentials_ok s'" using inv by (simp add: credentials_ok_def abs service_inv_def)
    moreover have "records_ok cfg s'" "reservations_ok cfg s'"
      using inv by (simp_all add: records_ok_def reservations_ok_def service_inv_def abs)
    ultimately show ?thesis using abs Pair by (simp add: service_inv_def)
  qed
qed

text \<open>Creating a session under a key that is not in use.\<close>

lemma create_finish_ok:
  assumes "create_finish cfg hash now ca t ctx sid (Inr rt) s = (x, s')"
  shows "x = Inr (ticket_issue_result.extend
      \<lparr>signalingTicket = t, ticketExpiresInSeconds = pairingTicketTTLSeconds cfg\<rparr>
      \<lparr>created_session = \<lparr>view_id = sid, view_phase = Active, view_createdAt = ca,
          view_quota = quota cfg, view_failure = None\<rparr>\<rparr>)"
    and "s' = delete_reservation sid (snd (rotateSignalingTicket cfg hash now t
      (session_key (ctx_tenantId ctx) sid)
      (install_session (session_key (ctx_tenantId ctx) sid)
        \<lparr>rec_id = sid, rec_tenantId = ctx_tenantId ctx, rec_phase = Active, rec_createdAt = ca,
         rec_quota = quota cfg, rec_runtime = rt, rec_failure = None\<rparr> s)))"
  using assms
  by (auto simp: create_finish_def Let_def rotateSignalingTicket_def install_session_def toSessionView_def
      split: option.splits prod.splits)

lemma install_abs:
  assumes "service_inv cfg s" and "jm_get (sessions s) key = None"
  shows "ticket_key (install_session key r s) = ticket_key s"
    and "token_key (install_session key r s) = token_key s"
  by (simp_all add: install_session_def abstraction_defs fun_eq_iff)

lemma inv_create_finish:
  assumes inv: "service_inv cfg s" and new: "jm_get (sessions s) (session_key (ctx_tenantId ctx) sid) = None"
    and fresh: "ticket_key s (hash t) = None" "hash t \<noteq> []" and safe: "CHR '':'' \<notin> set (ctx_tenantId ctx)"
  shows "service_inv cfg (snd (create_finish cfg hash now ca t ctx sid outcome s))"
proof (cases outcome)
  case (Inl e)
  with inv show ?thesis by (simp add: create_finish_def inv_delete_reservation)
next
  case (Inr rt)
  let ?k = "session_key (ctx_tenantId ctx) sid"
  let ?r = "\<lparr>rec_id = sid, rec_tenantId = ctx_tenantId ctx, rec_phase = Active, rec_createdAt = ca,
      rec_quota = quota cfg, rec_runtime = rt, rec_failure = None\<rparr>"
  obtain x s' where x: "create_finish cfg hash now ca t ctx sid (Inr rt) s = (x, s')" by fastforce
  have "record_ok cfg ?k ?r" using safe by (simp add: record_ok_def record_key_def)
  then have inst: "service_inv cfg (install_session ?k ?r s)" by (intro inv_install [OF inv new]) simp_all
  have "ticket_key (install_session ?k ?r s) (hash t) = None"
    using fresh by (simp add: install_abs [OF inv new])
  with inst fresh have "service_inv cfg (delete_reservation sid
      (snd (rotateSignalingTicket cfg hash now t ?k (install_session ?k ?r s))))"
    by (intro inv_delete_reservation inv_rotate)
  with create_finish_ok(2) [OF x] x Inr show ?thesis by simp
qed

end
