(* ===== verification/SessionSystem.thy ===== *)
theory SessionSystem
  imports SessionInvariant "HOL-Library.Multiset"
begin

text \<open>
  The service under concurrency. A method that has reached an \<open>await\<close> is a pending task;
  a step starts a method, or runs one pending task to its next \<open>await\<close>. Tasks may be
  resumed in any order and awaited promises may settle with any outcome, so every
  interleaving the event loop can produce is a run (and some it cannot: the model lets
  other tasks run between the settling of \<open>observeRuntime\<close> and its caller).

  \<open>used_ids\<close> and \<open>issued\<close> are history: \<open>randomUUID\<close> returns an identifier it has
  not returned before, and the hash of a new 256-bit credential is one not issued before.
  With \<open>serial\<close> a session is not burned again while a burn of it is pending.
\<close>

datatype caller =
    CGet
  | CIssue string
  | CTab
  | CExchange credential_binding nat
  | CAuthorize

datatype task =
    TCreate tenant_context string
  | TInspect string "session_record obj" caller
  | TResume "thrown + session_record obj" caller
  | TDestroy string "session_record obj"

record system =
  svc :: service
  tasks :: "task multiset"
  used_ids :: "string set"
  issued :: "string set"

definition initial_system :: "system \<Rightarrow> bool" where
  "initial_system y \<longleftrightarrow> y = \<lparr>svc = empty_service, tasks = {#}, used_ids = {}, issued = {}\<rparr>"

definition begin_observe :: "string \<Rightarrow> session_record obj \<Rightarrow> caller \<Rightarrow> task" where
  "begin_observe key r c =
     (case observe_start r of Some r' \<Rightarrow> TResume (Inr r') c | None \<Rightarrow> TInspect key r c)"

definition plain_caller :: "caller \<Rightarrow> bool" where
  "plain_caller c \<longleftrightarrow> c = CGet \<or> c = CTab \<or> c = CAuthorize"

inductive service_step ::
  "bool \<Rightarrow> service_config \<Rightarrow> (string \<Rightarrow> string) \<Rightarrow> system \<Rightarrow> system \<Rightarrow> bool"
  for serial :: bool and cfg :: service_config and hash :: "string \<Rightarrow> string" where
  create_begin:
    "sid \<notin> used_ids y \<Longrightarrow> is_safe_identifier (ctx_tenantId ctx) \<Longrightarrow>
     create_start cfg ctx sid (svc y) = Inr s' \<Longrightarrow>
     service_step serial cfg hash y
       (y\<lparr>svc := s', tasks := add_mset (TCreate ctx sid) (tasks y), used_ids := insert sid (used_ids y)\<rparr>)"
| create_end:
    "TCreate ctx sid \<in># tasks y \<Longrightarrow> hash t \<notin> issued y \<Longrightarrow> hash t \<noteq> [] \<Longrightarrow>
     service_step serial cfg hash y
       (y\<lparr>svc := snd (create_finish cfg hash now ca t ctx sid outcome (svc y)),
         tasks := tasks y - {#TCreate ctx sid#}, issued := insert (hash t) (issued y)\<rparr>)"
| observe_begin:
    "lookup_session ctx sid (svc y) = Inr r \<Longrightarrow>
     c = CGet \<or> c = CTab \<or> c = CIssue (session_key (ctx_tenantId ctx) sid) \<Longrightarrow>
     service_step serial cfg hash y
       (y\<lparr>tasks := add_mset (begin_observe (session_key (ctx_tenantId ctx) sid) r c) (tasks y)\<rparr>)"
| observe_end:
    "TInspect key r c \<in># tasks y \<Longrightarrow> observe_finish key r insp (svc y) = (res, s') \<Longrightarrow>
     service_step serial cfg hash y
       (y\<lparr>svc := s', tasks := add_mset (TResume res c) (tasks y - {#TInspect key r c#})\<rparr>)"
| exchange_begin:
    "exchange_start hash now t (svc y) = (res, s') \<Longrightarrow>
     service_step serial cfg hash y
       (y\<lparr>svc := s', tasks := (case res of Inl e \<Rightarrow> tasks y
          | Inr (b, cref, r) \<Rightarrow> add_mset (begin_observe (cb_sessionKey b) r (CExchange b cref)) (tasks y))\<rparr>)"
| authorize_begin:
    "authorize_start hash now t (svc y) = (res, s') \<Longrightarrow>
     service_step serial cfg hash y
       (y\<lparr>svc := s', tasks := (case res of Inl e \<Rightarrow> tasks y
          | Inr (b, r) \<Rightarrow> add_mset (begin_observe (cb_sessionKey b) r CAuthorize) (tasks y))\<rparr>)"
| resume_issue:
    "TResume (Inr r) (CIssue key) \<in># tasks y \<Longrightarrow> hash t \<notin> issued y \<Longrightarrow> hash t \<noteq> [] \<Longrightarrow>
     service_step serial cfg hash y
       (y\<lparr>svc := snd (issue_finish cfg hash now t key r (svc y)),
         tasks := tasks y - {#TResume (Inr r) (CIssue key)#}, issued := insert (hash t) (issued y)\<rparr>)"
| resume_exchange:
    "TResume (Inr r) (CExchange b cref) \<in># tasks y \<Longrightarrow> hash t \<notin> issued y \<Longrightarrow> hash t \<noteq> [] \<Longrightarrow>
     service_step serial cfg hash y
       (y\<lparr>svc := snd (exchange_finish cfg hash now t b cref r (svc y)),
         tasks := tasks y - {#TResume (Inr r) (CExchange b cref)#},
         issued := insert (hash t) (issued y)\<rparr>)"
| resume_plain:
    "TResume res c \<in># tasks y \<Longrightarrow> plain_caller c \<or> (\<exists>e. res = Inl e) \<Longrightarrow>
     service_step serial cfg hash y (y\<lparr>tasks := tasks y - {#TResume res c#}\<rparr>)"
| burn_begin:
    "burn_start ctx sid (svc y) = (Inr r, s') \<Longrightarrow>
     serial \<longrightarrow> (\<forall>r'. TDestroy (session_key (ctx_tenantId ctx) sid) r' \<notin># tasks y) \<Longrightarrow>
     service_step serial cfg hash y
       (y\<lparr>svc := s', tasks := add_mset (TDestroy (session_key (ctx_tenantId ctx) sid) r) (tasks y)\<rparr>)"
| burn_end:
    "TDestroy key r \<in># tasks y \<Longrightarrow>
     service_step serial cfg hash y
       (y\<lparr>svc := snd (burn_finish key r outcome (svc y)), tasks := tasks y - {#TDestroy key r#}\<rparr>)"

abbreviation service_reachable ::
  "bool \<Rightarrow> service_config \<Rightarrow> (string \<Rightarrow> string) \<Rightarrow> system \<Rightarrow> bool" where
  "service_reachable serial cfg hash \<equiv> reachable initial_system (service_step serial cfg hash)"

lemma service_reachable_weaken:
  "service_reachable True cfg hash y \<Longrightarrow> service_reachable False cfg hash y"
  by (erule reachable_mono) (auto elim!: service_step.cases intro: service_step.intros)

subsection \<open>The invariant of the system\<close>

fun is_create :: "task \<Rightarrow> bool" where
  "is_create (TCreate ctx sid) = True"
| "is_create _ = False"

definition pending_ids :: "task multiset \<Rightarrow> string set" where
  "pending_ids ts = {sid. \<exists>ctx. TCreate ctx sid \<in># ts}"

definition known_record :: "service_config \<Rightarrow> task multiset \<Rightarrow> string set \<Rightarrow> string \<Rightarrow> session_record \<Rightarrow> bool" where
  "known_record cfg ts used key r \<longleftrightarrow> record_ok cfg key r \<and> rec_id r \<in> used - pending_ids ts"

fun task_ok :: "service_config \<Rightarrow> service \<Rightarrow> task multiset \<Rightarrow> string set \<Rightarrow> task \<Rightarrow> bool" where
  "task_ok cfg s ts used (TCreate ctx sid) \<longleftrightarrow>
     CHR '':'' \<notin> set (ctx_tenantId ctx) \<and> sid \<in> used
     \<and> jm_get (reservations s) sid = Some \<lparr>res_tenantId = ctx_tenantId ctx, res_quota = quota cfg\<rparr>
     \<and> sid \<notin> pending_ids (ts - {#TCreate ctx sid#})"
| "task_ok cfg s ts used (TInspect key r c) \<longleftrightarrow> known_record cfg ts used key (snd r)"
| "task_ok cfg s ts used (TResume res c) \<longleftrightarrow> True"
| "task_ok cfg s ts used (TDestroy key r) \<longleftrightarrow>
     known_record cfg ts used key (snd r) \<and> \<not> session_active s key"

definition sessions_known :: "service \<Rightarrow> task multiset \<Rightarrow> string set \<Rightarrow> bool" where
  "sessions_known s ts used \<longleftrightarrow>
     (\<forall>k r. jm_get (sessions s) k = Some r \<longrightarrow> rec_id (snd r) \<in> used - pending_ids ts)"

definition reservations_pending :: "service \<Rightarrow> task multiset \<Rightarrow> bool" where
  "reservations_pending s ts \<longleftrightarrow> (\<forall>i. jm_get (reservations s) i \<noteq> None \<longrightarrow> i \<in> pending_ids ts)"

definition hashes_issued :: "service \<Rightarrow> string set \<Rightarrow> bool" where
  "hashes_issued s iss \<longleftrightarrow>
     (\<forall>h k. ticket_key s h = Some k \<longrightarrow> h \<in> iss) \<and> (\<forall>h k. token_key s h = Some k \<longrightarrow> h \<in> iss)"

definition core_inv ::
  "service_config \<Rightarrow> service \<Rightarrow> task multiset \<Rightarrow> string set \<Rightarrow> string set \<Rightarrow> bool" where
  "core_inv cfg s ts used iss \<longleftrightarrow> service_inv cfg s \<and> sessions_known s ts used
     \<and> reservations_pending s ts \<and> (\<forall>t. t \<in># ts \<longrightarrow> task_ok cfg s ts used t) \<and> hashes_issued s iss"

definition system_inv :: "service_config \<Rightarrow> system \<Rightarrow> bool" where
  "system_inv cfg y \<longleftrightarrow> core_inv cfg (svc y) (tasks y) (used_ids y) (issued y)"

lemma core_invD:
  assumes "core_inv cfg s ts used iss"
  shows "service_inv cfg s" "sessions_known s ts used" "reservations_pending s ts"
    "t \<in># ts \<Longrightarrow> task_ok cfg s ts used t" "hashes_issued s iss"
  using assms unfolding core_inv_def by blast+

lemma system_inv_init: "initial_system y \<Longrightarrow> system_inv cfg y"
  using service_inv_empty [of cfg]
  by (simp add: system_inv_def core_inv_def initial_system_def sessions_known_def
      reservations_pending_def hashes_issued_def)
    (simp add: empty_service_def ticket_key_def token_key_def)

lemma in_mset_diff_neq: "a \<noteq> b \<Longrightarrow> a \<in># M - {#b#} \<longleftrightarrow> a \<in># M"
  unfolding count_greater_zero_iff [symmetric] by simp

lemma pending_ids_add [simp]:
  "pending_ids (add_mset (TCreate ctx sid) ts) = insert sid (pending_ids ts)"
  "\<not> is_create t \<Longrightarrow> pending_ids (add_mset t ts) = pending_ids ts"
  by (auto simp: pending_ids_def)

lemma pending_ids_diff [simp]: "\<not> is_create t \<Longrightarrow> pending_ids (ts - {#t#}) = pending_ids ts"
proof -
  assume t: "\<not> is_create t"
  have "TCreate ctx sid \<in># ts - {#t#} \<longleftrightarrow> TCreate ctx sid \<in># ts" for ctx sid
    using t by (metis in_mset_diff_neq is_create.simps(1))
  then show ?thesis by (simp add: pending_ids_def)
qed

lemma pending_ids_diff_subset: "pending_ids (ts - {#t#}) \<subseteq> pending_ids ts"
  by (auto simp: pending_ids_def dest: in_diffD)

lemma task_ok_tasks:
  assumes "task_ok cfg s ts used t" and "pending_ids ts' = pending_ids ts"
    and "pending_ids (ts' - {#t#}) \<subseteq> pending_ids (ts - {#t#})"
  shows "task_ok cfg s ts' used t"
  using assms by (cases t) (auto simp: known_record_def)

lemma core_add:
  assumes "core_inv cfg s ts used iss" and "\<not> is_create t" and "task_ok cfg s ts used t"
  shows "core_inv cfg s (add_mset t ts) used iss"
proof -
  have sub: "pending_ids (add_mset t ts - {#u#}) \<subseteq> pending_ids (ts - {#u#})" for u
    using assms(2) by (cases "u = t") simp_all
  have "task_ok cfg s (add_mset t ts) used u" if "u \<in># add_mset t ts" for u
    using that assms by (intro task_ok_tasks [OF _ _ sub]) (auto simp: core_inv_def)
  with assms show ?thesis
    by (simp add: core_inv_def sessions_known_def reservations_pending_def)
qed

lemma core_remove:
  assumes "core_inv cfg s ts used iss" and "\<not> is_create t"
  shows "core_inv cfg s (ts - {#t#}) used iss"
proof -
  have sub: "pending_ids (ts - {#t#} - {#u#}) \<subseteq> pending_ids (ts - {#u#})" for u
    using pending_ids_diff_subset [of "ts - {#u#}" t] by (simp add: add_mset_commute)
  have "task_ok cfg s (ts - {#t#}) used u" if "u \<in># ts - {#t#}" for u
    using in_diffD [OF that] assms by (intro task_ok_tasks [OF _ _ sub]) (auto simp: core_inv_def)
  with assms show ?thesis
    by (simp add: core_inv_def sessions_known_def reservations_pending_def)
qed

lemma core_frame:
  assumes "core_inv cfg s ts used iss" and "service_inv cfg s'" and "sessions_known s' ts used"
    and "reservations s' = reservations s" and "\<And>k. session_active s' k \<Longrightarrow> session_active s k"
    and "hashes_issued s' iss'"
  shows "core_inv cfg s' ts used iss'"
proof -
  have "task_ok cfg s' ts used t" if "t \<in># ts" for t
  proof -
    have "task_ok cfg s ts used t" using that assms(1) by (simp add: core_inv_def)
    with assms(4,5) show ?thesis by (cases t) auto
  qed
  with assms show ?thesis by (simp add: core_inv_def reservations_pending_def)
qed

subsection \<open>Steps that only take credentials and activity away\<close>

definition shrinks :: "service \<Rightarrow> service \<Rightarrow> bool" where
  "shrinks s s' \<longleftrightarrow> reservations s' = reservations s
     \<and> (\<forall>k. session_active s' k \<longrightarrow> session_active s k)
     \<and> (\<forall>h k. ticket_key s' h = Some k \<longrightarrow> ticket_key s h = Some k)
     \<and> (\<forall>h k. token_key s' h = Some k \<longrightarrow> token_key s h = Some k)"

text \<open>What a step may do to the sessions: at one key, install or remove a record.\<close>

definition rewrites_at :: "string \<Rightarrow> string \<Rightarrow> service \<Rightarrow> service \<Rightarrow> bool" where
  "rewrites_at key sid s s' \<longleftrightarrow>
     (\<forall>k r. jm_get (sessions s') k = Some r \<longrightarrow>
        jm_get (sessions s) k = Some r \<or> k = key \<and> rec_id (snd r) = sid)"

lemma shrinks_refl [simp]: "shrinks s s"
  by (simp add: shrinks_def)

lemma forget_key_le [dest]: "forget_key m k h = Some v \<Longrightarrow> m h = Some v"
  by (simp add: forget_key_def split: if_splits)

lemma core_shrink:
  assumes inv: "core_inv cfg s ts used iss" and "service_inv cfg s'" and sh: "shrinks s s'"
    and rw: "rewrites_at key sid s s'" and known: "sid \<in> used - pending_ids ts"
  shows "core_inv cfg s' ts used iss"
proof (rule core_frame [OF inv])
  show "service_inv cfg s'" by (rule assms)
  show "sessions_known s' ts used"
  proof -
    have "sessions_known s ts used" using inv by (simp add: core_inv_def)
    with rw known show ?thesis unfolding sessions_known_def rewrites_at_def by metis
  qed
  show "reservations s' = reservations s" "\<And>k. session_active s' k \<Longrightarrow> session_active s k"
    using sh by (simp_all add: shrinks_def)
  have "hashes_issued s iss" using inv by (simp add: core_inv_def)
  then show "hashes_issued s' iss" using sh unfolding hashes_issued_def shrinks_def by blast
qed

lemma observe_finish_shrinks:
  assumes inv: "service_inv cfg s" and s': "s' = snd (observe_finish key r insp s)"
  shows "shrinks s s'" and "rewrites_at key (rec_id (snd r)) s s'"
proof -
  have "shrinks s s' \<and> rewrites_at key (rec_id (snd r)) s s'"
    using revoke_ticket_key [OF inv, of key] revoke_token_key [OF inv, of key]
    by (auto simp: s' observe_finish_def revokeSignalingConnections_def Let_def shrinks_def rewrites_at_def
        session_active_def split: sum.splits option.splits runtime_inspection.splits if_splits)
  then show "shrinks s s'" and "rewrites_at key (rec_id (snd r)) s s'" by blast+
qed

lemma burn_start_shrinks:
  assumes inv: "service_inv cfg s" and b: "burn_start ctx sid s = (Inr r, s')"
  shows "shrinks s s'" and "rewrites_at (session_key (ctx_tenantId ctx) sid) (rec_id (snd r)) s s'"
    and "jm_get (sessions s) (session_key (ctx_tenantId ctx) sid) = Some r"
    and "\<not> session_active s' (session_key (ctx_tenantId ctx) sid)"
proof -
  let ?k = "session_key (ctx_tenantId ctx) sid"
  from b have r: "jm_get (sessions s) ?k = Some r"
    and s': "s' = (revokeSignalingConnections (rec_id (snd r)) (revokeCredentials ?k s))
      \<lparr>sessions := jm_set ?k (next_ref s, (snd r)\<lparr>rec_phase := Burning, rec_failure := None\<rparr>) (sessions s),
       next_ref := Suc (next_ref s)\<rparr>"
    by (auto simp: burn_start_def Let_def revokeSignalingConnections_def split: option.splits)
  show "jm_get (sessions s) ?k = Some r" by (rule r)
  show "shrinks s s'" "rewrites_at ?k (rec_id (snd r)) s s'" "\<not> session_active s' ?k"
    using revoke_ticket_key [OF inv, of ?k] revoke_token_key [OF inv, of ?k]
    by (auto simp: s' revokeSignalingConnections_def shrinks_def rewrites_at_def session_active_def)
qed

lemma burn_finish_shrinks:
  assumes s': "s' = snd (burn_finish key r outcome s)"
  shows "shrinks s s'" and "rewrites_at key (rec_id (snd r)) s s'" and "\<not> session_active s' key"
  by (auto simp: s' burn_finish_def shrinks_def rewrites_at_def session_active_def split: sum.splits)

lemma exchange_start_shrinks:
  assumes inv: "service_inv cfg s" and e: "exchange_start hash now t s = (res, s')"
  shows "shrinks s s'" and "sessions s' = sessions s"
proof -
  have "shrinks s s' \<and> sessions s' = sessions s"
  proof (cases "is_credential t")
    case False
    with e show ?thesis by (auto simp: exchange_start_def hashPresentedCredential_def)
  next
    case True
    note abs = exchange_start_abs [OF inv refl True, where hash = hash and now = now, unfolded e snd_conv]
    show ?thesis by (auto simp: shrinks_def abs session_active_def split: if_splits)
  qed
  then show "shrinks s s'" and "sessions s' = sessions s" by blast+
qed

lemma authorize_start_shrinks:
  assumes inv: "service_inv cfg s" and e: "authorize_start hash now t s = (res, s')"
  shows "shrinks s s'" and "sessions s' = sessions s"
proof -
  have "shrinks s s' \<and> sessions s' = sessions s"
  proof (cases "is_credential t")
    case False
    with e show ?thesis by (auto simp: authorize_start_def hashPresentedCredential_def)
  next
    case True
    note abs = authorize_start_abs [OF inv refl True, where hash = hash and now = now, unfolded e snd_conv]
    show ?thesis by (auto simp: shrinks_def abs session_active_def split: if_splits)
  qed
  then show "shrinks s s'" and "sessions s' = sessions s" by blast+
qed

lemma hashPresented_Inr:
  "hashPresentedCredential hash t = Inr h \<longleftrightarrow> is_credential t \<and> h = hash t"
  by (auto simp: hashPresentedCredential_def)

lemma exchange_start_record:
  "exchange_start hash now t s = (Inr (b, cref, r), s') \<Longrightarrow>
   jm_get (sessions s') (cb_sessionKey b) = Some r \<and> rec_phase (snd r) = Active
   \<and> now < cb_expiresAt b \<and> jm_get (pairingTickets s) (hash t) = Some b"
  by (auto simp: exchange_start_def Let_def hashPresented_Inr
      split: sum.splits option.splits prod.splits if_splits)

lemma authorize_start_record:
  "authorize_start hash now t s = (Inr (b, r), s') \<Longrightarrow>
   jm_get (sessions s') (cb_sessionKey b) = Some r \<and> rec_phase (snd r) = Active
   \<and> now < cb_expiresAt b \<and> jm_get (signalingTokens s) (hash t) = Some b"
  by (auto simp: authorize_start_def Let_def hashPresented_Inr
      split: sum.splits option.splits prod.splits if_splits)

subsection \<open>The steps that create sessions\<close>

lemma pending_used: "core_inv cfg s ts used iss \<Longrightarrow> sid \<in> pending_ids ts \<Longrightarrow> sid \<in> used"
  by (force simp: core_inv_def pending_ids_def)

lemma create_start_Inr:
  "create_start cfg ctx sid s = Inr s' \<Longrightarrow>
   s' = s\<lparr>reservations := jm_set sid \<lparr>res_tenantId = ctx_tenantId ctx, res_quota = quota cfg\<rparr> (reservations s)\<rparr>"
  by (auto simp: create_start_def reserve_def Let_def split: if_splits)

lemma core_create_begin:
  assumes inv: "core_inv cfg s ts used iss" and new: "sid \<notin> used"
    and safe: "is_safe_identifier (ctx_tenantId ctx)" and c: "create_start cfg ctx sid s = Inr s'"
  shows "core_inv cfg s' (add_mset (TCreate ctx sid) ts) (insert sid used) iss"
proof -
  note s' = create_start_Inr [OF c]
  have np: "sid \<notin> pending_ids ts" using pending_used [OF inv] new by blast
  have "task_ok cfg s' (add_mset (TCreate ctx sid) ts) (insert sid used) t"
    if t: "t \<in># add_mset (TCreate ctx sid) ts" for t
  proof (cases "t = TCreate ctx sid")
    case True
    with np is_safe_identifier_no_colon [OF safe] show ?thesis by (simp add: s')
  next
    case False
    with t inv have ok: "task_ok cfg s ts used t" by (simp add: core_inv_def)
    show ?thesis
    proof (cases t)
      case (TCreate ctx' sid')
      with ok new have "sid' \<noteq> sid" by auto
      with ok TCreate show ?thesis by (simp add: s')
    next
      case (TInspect k r c)
      with ok new show ?thesis by (auto simp: known_record_def)
    next
      case (TDestroy k r)
      with ok new show ?thesis by (auto simp: known_record_def s')
    qed simp
  qed
  moreover have "service_inv cfg s'"
    using inv c by (auto simp: core_inv_def create_start_def intro: inv_reserve)
  moreover have "sessions_known s' (add_mset (TCreate ctx sid) ts) (insert sid used)"
  proof -
    have "sessions_known s ts used" using inv by (simp add: core_inv_def)
    with new show ?thesis by (fastforce simp: s' sessions_known_def)
  qed
  moreover have "reservations_pending s' (add_mset (TCreate ctx sid) ts)"
    using inv by (auto simp: s' core_inv_def reservations_pending_def)
  moreover have "hashes_issued s' iss" using inv by (simp add: s' core_inv_def hashes_issued_def)
  ultimately show ?thesis by (simp add: core_inv_def)
qed

lemma create_finish_effects:
  assumes inv: "service_inv cfg s" and new: "jm_get (sessions s) (session_key (ctx_tenantId ctx) sid) = None"
    and safe: "CHR '':'' \<notin> set (ctx_tenantId ctx)"
    and s': "s' = snd (create_finish cfg hash now ca t ctx sid outcome s)"
  shows "reservations s' = jm_delete sid (reservations s)"
    and "jm_get (sessions s') k = Some r \<Longrightarrow>
      jm_get (sessions s) k = Some r \<or> k = session_key (ctx_tenantId ctx) sid \<and> rec_id (snd r) = sid"
    and "session_active s' k \<Longrightarrow> session_active s k \<or> k = session_key (ctx_tenantId ctx) sid"
    and "ticket_key s' h = Some k \<Longrightarrow> ticket_key s h = Some k \<or> h = hash t"
    and "token_key s' h = Some k \<Longrightarrow> token_key s h = Some k"
proof -
  let ?k = "session_key (ctx_tenantId ctx) sid"
  have "reservations s' = jm_delete sid (reservations s)
    \<and> (\<forall>k r. jm_get (sessions s') k = Some r \<longrightarrow>
        jm_get (sessions s) k = Some r \<or> k = ?k \<and> rec_id (snd r) = sid)
    \<and> (\<forall>k. session_active s' k \<longrightarrow> session_active s k \<or> k = ?k)
    \<and> (\<forall>h k. ticket_key s' h = Some k \<longrightarrow> ticket_key s h = Some k \<or> h = hash t)
    \<and> (\<forall>h k. token_key s' h = Some k \<longrightarrow> token_key s h = Some k)"
  proof (cases outcome)
    case (Inl e)
    then show ?thesis by (simp add: s' create_finish_def delete_reservation_def)
  next
    case (Inr rt)
    let ?r = "\<lparr>rec_id = sid, rec_tenantId = ctx_tenantId ctx, rec_phase = Active, rec_createdAt = ca,
      rec_quota = quota cfg, rec_runtime = rt, rec_failure = None\<rparr>"
    let ?i = "install_session ?k ?r s"
    have "record_ok cfg ?k ?r" using safe by (simp add: record_ok_def record_key_def)
    then have inst: "service_inv cfg ?i" by (intro inv_install [OF inv new]) simp_all
    have has: "has_credentials ?i ?k" by (simp add: has_credentials_def install_session_def)
    obtain x where x: "create_finish cfg hash now ca t ctx sid (Inr rt) s = (x, s')"
      using s' Inr by (cases "create_finish cfg hash now ca t ctx sid (Inr rt) s") auto
    note fin = create_finish_ok(2) [OF x]
    note abs = rotate_abs [OF inst has refl, where cf = cfg and hash = hash and now = now and t = t]
    have sess: "sessions s' = jm_set ?k (next_ref s, ?r) (sessions s)"
      by (simp add: fin delete_reservation_def install_session_def)
    moreover have "reservations s' = jm_delete sid (reservations s)"
      by (simp add: fin delete_reservation_def install_session_def)
    moreover have "session_active s' k \<longrightarrow> session_active s k \<or> k = ?k" for k
      by (simp add: session_active_def sess)
    moreover have "ticket_key s' h = Some k \<longrightarrow> ticket_key s h = Some k \<or> h = hash t"
      and "token_key s' h = Some k \<longrightarrow> token_key s h = Some k" for h k
      by (auto simp: fin delete_reservation_def abs install_abs [OF inv new] split: if_splits)
    ultimately show ?thesis by simp
  qed
  then show "reservations s' = jm_delete sid (reservations s)"
    and "jm_get (sessions s') k = Some r \<Longrightarrow> jm_get (sessions s) k = Some r \<or> k = ?k \<and> rec_id (snd r) = sid"
    and "session_active s' k \<Longrightarrow> session_active s k \<or> k = ?k"
    and "ticket_key s' h = Some k \<Longrightarrow> ticket_key s h = Some k \<or> h = hash t"
    and "token_key s' h = Some k \<Longrightarrow> token_key s h = Some k" by blast+
qed

lemma record_key_id:
  "record_ok cfg (session_key t i) r \<Longrightarrow> CHR '':'' \<notin> set t \<Longrightarrow> rec_tenantId r = t \<and> rec_id r = i"
  unfolding record_ok_def record_key_def by (metis session_key_inj)

lemma pending_key_free:
  assumes inv: "core_inv cfg s ts used iss" and c: "TCreate ctx sid \<in># ts"
  shows "jm_get (sessions s) (session_key (ctx_tenantId ctx) sid) = None"
proof (rule ccontr)
  assume "jm_get (sessions s) (session_key (ctx_tenantId ctx) sid) \<noteq> None"
  then obtain r where r: "jm_get (sessions s) (session_key (ctx_tenantId ctx) sid) = Some r" by auto
  from inv have sinv: "service_inv cfg s" and known: "sessions_known s ts used"
    and "task_ok cfg s ts used (TCreate ctx sid)"
    using c by (auto simp: core_inv_def)
  then have "rec_id (snd r) = sid" using record_key_id [OF record_okD [OF sinv r]] by simp
  moreover have "rec_id (snd r) \<notin> pending_ids ts" using known r unfolding sessions_known_def by blast
  ultimately show False using c by (auto simp: pending_ids_def)
qed

lemma core_create_end:
  assumes inv: "core_inv cfg s ts used iss" and c: "TCreate ctx sid \<in># ts"
    and fresh: "hash t \<notin> iss" "hash t \<noteq> []"
    and s': "s' = snd (create_finish cfg hash now ca t ctx sid outcome s)"
  shows "core_inv cfg s' (ts - {#TCreate ctx sid#}) used (insert (hash t) iss)"
proof -
  let ?k = "session_key (ctx_tenantId ctx) sid" and ?ts = "ts - {#TCreate ctx sid#}"
  note ok = core_invD(4) [OF inv c] and sinv = core_invD(1) [OF inv]
  then have safe: "CHR '':'' \<notin> set (ctx_tenantId ctx)" and used: "sid \<in> used"
    and gone: "sid \<notin> pending_ids ?ts" by auto
  have pend: "sid \<in> pending_ids ts" using c by (auto simp: pending_ids_def)
  have sub: "pending_ids ?ts \<subseteq> pending_ids ts" by (rule pending_ids_diff_subset)
  have others: "pending_ids ts - {sid} \<subseteq> pending_ids ?ts"
    by (auto simp: pending_ids_def) (metis in_mset_diff_neq task.inject(1))
  note new = pending_key_free [OF inv c]
  note eff = create_finish_effects [OF sinv new safe s']
  have none: "ticket_key s (hash t) = None"
    using inv fresh by (cases "ticket_key s (hash t)") (auto simp: core_inv_def hashes_issued_def)
  have key_ne: "k \<noteq> ?k" if "known_record cfg ts used k (snd r)" for k and r :: "session_record obj"
    using that pend record_key_id [OF _ safe, of cfg sid "snd r"] by (auto simp: known_record_def)
  have "task_ok cfg s' ?ts used u" if u: "u \<in># ?ts" for u
  proof -
    have oku: "task_ok cfg s ts used u" using in_diffD [OF u] inv by (simp add: core_inv_def)
    show ?thesis
    proof (cases u)
      case (TCreate ctx' sid')
      with u gone have "sid' \<noteq> sid" by (auto simp: pending_ids_def)
      with oku TCreate show ?thesis
        using pending_ids_diff_subset [of "ts - {#TCreate ctx' sid'#}" "TCreate ctx sid"]
        by (auto simp: eff add_mset_commute)
    next
      case (TInspect k r c)
      with oku sub show ?thesis by (auto simp: known_record_def)
    next
      case (TDestroy k r)
      with oku sub key_ne [of k r] eff(3) [of k] show ?thesis by (auto simp: known_record_def)
    qed simp
  qed
  moreover have "service_inv cfg s'"
    unfolding s' by (intro inv_create_finish sinv new none fresh(2) safe)
  moreover have "sessions_known s' ?ts used"
  proof -
    have "sessions_known s ts used" using inv by (simp add: core_inv_def)
    then show ?thesis using eff(2) sub used gone unfolding sessions_known_def by blast
  qed
  moreover have "reservations_pending s' ?ts"
    using inv others by (auto simp: core_inv_def reservations_pending_def eff(1))
  moreover have "hashes_issued s' (insert (hash t) iss)"
  proof -
    have "hashes_issued s iss" using inv by (simp add: core_inv_def)
    then show ?thesis using eff(4,5) unfolding hashes_issued_def by blast
  qed
  ultimately show ?thesis by (simp add: core_inv_def)
qed

subsection \<open>Every step keeps the system invariant\<close>

lemma core_begin_observe:
  assumes inv: "core_inv cfg s ts used iss" and r: "jm_get (sessions s) key = Some r"
  shows "core_inv cfg s (add_mset (begin_observe key r c) ts) used iss"
proof -
  from inv have "service_inv cfg s" and "sessions_known s ts used" by (simp_all add: core_inv_def)
  then have "known_record cfg ts used key (snd r)"
    using record_okD r unfolding known_record_def sessions_known_def by blast
  then show ?thesis
    by (intro core_add [OF inv]) (auto simp: begin_observe_def split: option.splits)
qed

lemma core_issue:
  assumes inv: "core_inv cfg s ts used iss" and fresh: "hash t \<notin> iss" "hash t \<noteq> []"
    and s': "s' = snd (issue_finish cfg hash now t key r s)"
  shows "core_inv cfg s' ts used (insert (hash t) iss)"
proof -
  from inv have sinv: "service_inv cfg s" and known: "sessions_known s ts used"
    and iss: "hashes_issued s iss" by (simp_all add: core_inv_def)
  have none: "ticket_key s (hash t) = None"
    using iss fresh by (cases "ticket_key s (hash t)") (auto simp: hashes_issued_def)
  have frame: "sessions s' = sessions s" "reservations s' = reservations s"
    by (simp_all add: s' issue_finish_def)
  have "(ticket_key s' h = Some k \<longrightarrow> ticket_key s h = Some k \<or> h = hash t)
      \<and> (token_key s' h = Some k \<longrightarrow> token_key s h = Some k)" for h k
  proof (cases "has_credentials s key")
    case True
    from rotate_abs [OF sinv True refl, where cf = cfg and hash = hash and now = now and t = t]
    show ?thesis by (auto simp: s' issue_finish_def split: if_splits)
  next
    case False
    then show ?thesis by (simp add: s' issue_finish_def rotate_none)
  qed
  with iss have "hashes_issued s' (insert (hash t) iss)" unfolding hashes_issued_def by blast
  moreover have "service_inv cfg s'" unfolding s' by (intro inv_issue_finish sinv none fresh(2))
  ultimately show ?thesis
    using known by (intro core_frame [OF inv]) (simp_all add: frame sessions_known_def session_active_def)
qed

lemma core_exchange_finish:
  assumes inv: "core_inv cfg s ts used iss" and fresh: "hash t \<notin> iss"
    and s': "s' = snd (exchange_finish cfg hash now t b cref r s)"
  shows "core_inv cfg s' ts used (insert (hash t) iss)"
proof -
  from inv have sinv: "service_inv cfg s" and known: "sessions_known s ts used"
    and iss: "hashes_issued s iss" by (simp_all add: core_inv_def)
  have none: "token_key s (hash t) = None"
    using iss fresh by (cases "token_key s (hash t)") (auto simp: hashes_issued_def)
  have "sessions s' = sessions s \<and> reservations s' = reservations s
      \<and> (\<forall>h k. ticket_key s' h = Some k \<longrightarrow> ticket_key s h = Some k)
      \<and> (\<forall>h k. token_key s' h = Some k \<longrightarrow> token_key s h = Some k \<or> h = hash t)"
  proof (cases "exchange_finish cfg hash now t b cref r s")
    case (Pair x s2)
    show ?thesis
    proof (cases x)
      case (Inl e)
      with Pair s' exchange_finish_Inl [of cfg hash now t b cref r s e s2] show ?thesis by simp
    next
      case (Inr res)
      with Pair s' exchange_finish_abs [OF sinv Pair [unfolded Inr]] show ?thesis by auto
    qed
  qed
  note eff = this
  then have "hashes_issued s' (insert (hash t) iss)" using iss unfolding hashes_issued_def by blast
  moreover have "service_inv cfg s'" unfolding s' by (intro inv_exchange_finish sinv none)
  ultimately show ?thesis
    using known eff by (intro core_frame [OF inv]) (simp_all add: sessions_known_def session_active_def)
qed

lemma core_shrink_same:
  assumes inv: "core_inv cfg s ts used iss" and "service_inv cfg s'" and sh: "shrinks s s'"
    and same: "sessions s' = sessions s"
  shows "core_inv cfg s' ts used iss"
proof (rule core_frame [OF inv])
  show "sessions_known s' ts used" using inv same by (simp add: core_inv_def sessions_known_def)
  show "reservations s' = reservations s" "\<And>k. session_active s' k \<Longrightarrow> session_active s k"
    using sh by (simp_all add: shrinks_def)
  have "hashes_issued s iss" using inv by (simp add: core_inv_def)
  then show "hashes_issued s' iss" using sh unfolding hashes_issued_def shrinks_def by blast
qed (rule assms)

lemma system_step:
  assumes "system_inv cfg y" and "service_step serial cfg hash y z"
  shows "system_inv cfg z"
  using assms(2,1)
proof (cases rule: service_step.cases)
  case (create_begin sid ctx s')
  with assms(1) show ?thesis by (simp add: system_inv_def core_create_begin)
next
  case (create_end ctx sid t now ca outcome)
  with assms(1) show ?thesis by (simp add: system_inv_def core_create_end [OF _ _ _ _ refl])
next
  case (observe_begin ctx sid r c)
  with assms(1) show ?thesis
    by (auto simp: system_inv_def lookup_session_def core_begin_observe split: option.splits)
next
  case (observe_end key r c insp res s')
  from assms(1) have inv: "core_inv cfg (svc y) (tasks y) (used_ids y) (issued y)"
    by (simp add: system_inv_def)
  have known: "known_record cfg (tasks y) (used_ids y) key (snd r)"
    using core_invD(4) [OF inv observe_end(2)] by simp
  have s': "s' = snd (observe_finish key r insp (svc y))" using observe_end by simp
  have "service_inv cfg s'"
    using known inv_observe_finish [OF core_invD(1) [OF inv]] by (simp add: s' known_record_def)
  then have "core_inv cfg s' (tasks y) (used_ids y) (issued y)"
    using known observe_finish_shrinks [OF core_invD(1) [OF inv] s']
    by (intro core_shrink [OF inv]) (auto simp: known_record_def)
  then show ?thesis
    by (simp add: system_inv_def observe_end(1) core_add core_remove)
next
  case (exchange_begin now t res s')
  from assms(1) have inv: "core_inv cfg (svc y) (tasks y) (used_ids y) (issued y)"
    by (simp add: system_inv_def)
  have "service_inv cfg s'"
    using inv_exchange_start [OF core_invD(1) [OF inv], of hash now t] exchange_begin by simp
  then have "core_inv cfg s' (tasks y) (used_ids y) (issued y)"
    using exchange_start_shrinks [OF core_invD(1) [OF inv] exchange_begin(2)]
    by (intro core_shrink_same [OF inv])
  with exchange_begin exchange_start_record [of hash now t "svc y"] show ?thesis
    by (auto simp: system_inv_def split: sum.splits intro: core_begin_observe)
next
  case (authorize_begin now t res s')
  from assms(1) have inv: "core_inv cfg (svc y) (tasks y) (used_ids y) (issued y)"
    by (simp add: system_inv_def)
  have "service_inv cfg s'"
    using inv_authorize_start [OF core_invD(1) [OF inv], of hash now t] authorize_begin by simp
  then have "core_inv cfg s' (tasks y) (used_ids y) (issued y)"
    using authorize_start_shrinks [OF core_invD(1) [OF inv] authorize_begin(2)]
    by (intro core_shrink_same [OF inv])
  with authorize_begin authorize_start_record [of hash now t "svc y"] show ?thesis
    by (auto simp: system_inv_def split: sum.splits intro: core_begin_observe)
next
  case (resume_issue r key t now)
  with assms(1) show ?thesis by (simp add: system_inv_def core_remove core_issue)
next
  case (resume_exchange r b cref t now)
  with assms(1) show ?thesis by (simp add: system_inv_def core_remove core_exchange_finish)
next
  case (resume_plain res c)
  with assms(1) show ?thesis by (simp add: system_inv_def core_remove)
next
  case (burn_begin ctx sid r s')
  from assms(1) have inv: "core_inv cfg (svc y) (tasks y) (used_ids y) (issued y)"
    by (simp add: system_inv_def)
  note eff = burn_start_shrinks [OF core_invD(1) [OF inv] burn_begin(2)]
  let ?k = "session_key (ctx_tenantId ctx) sid"
  have known: "known_record cfg (tasks y) (used_ids y) ?k (snd r)"
    using record_okD [OF core_invD(1) [OF inv] eff(3)] core_invD(2) [OF inv] eff(3)
    unfolding known_record_def sessions_known_def by blast
  have "service_inv cfg s'"
    using inv_burn_start [OF core_invD(1) [OF inv], of ctx sid] burn_begin by simp
  then have "core_inv cfg s' (tasks y) (used_ids y) (issued y)"
    using known by (intro core_shrink [OF inv _ eff(1,2)]) (auto simp: known_record_def)
  with known eff(4) show ?thesis by (simp add: system_inv_def burn_begin(1) core_add)
next
  case (burn_end key r outcome)
  from assms(1) have inv: "core_inv cfg (svc y) (tasks y) (used_ids y) (issued y)"
    by (simp add: system_inv_def)
  have ok: "known_record cfg (tasks y) (used_ids y) key (snd r)" "\<not> session_active (svc y) key"
    using core_invD(4) [OF inv burn_end(2)] by simp_all
  let ?s = "snd (burn_finish key r outcome (svc y))"
  have "service_inv cfg ?s"
    using ok inv_burn_finish [OF core_invD(1) [OF inv]] by (simp add: known_record_def)
  then have "core_inv cfg ?s (tasks y) (used_ids y) (issued y)"
    using ok by (intro core_shrink [OF inv _ burn_finish_shrinks(1,2)]) (auto simp: known_record_def)
  then show ?thesis by (simp add: system_inv_def burn_end(1) core_remove)
qed

interpretation session_system: step_invariant initial_system "service_step serial cfg hash" "system_inv cfg"
  for serial cfg hash
  by unfold_locales (simp_all add: system_inv_init system_step)

lemma reachable_service_inv: "service_reachable serial cfg hash y \<Longrightarrow> service_inv cfg (svc y)"
  using session_system.reachable_inv [of serial cfg hash y] by (simp add: system_inv_def core_inv_def)

end
