(* ===== verification/SessionQuota.thy ===== *)
theory SessionQuota
  imports SessionSystem
begin

text \<open>
  The session quotas under concurrency. \<open>load g s\<close> weighs every session and reservation
  by its tenant; the per-tenant count and the host count are instances. The bounds hold in
  every run in which a session is not burned again while a burn of it is pending.
\<close>

definition load :: "(string \<Rightarrow> int) \<Rightarrow> service \<Rightarrow> int" where
  "load g s = jm_sum (\<lambda>(_, r). g (rec_tenantId r)) (sessions s) + jm_sum (\<lambda>v. g (res_tenantId v)) (reservations s)"

definition of_tenant :: "string \<Rightarrow> string \<Rightarrow> int" where
  "of_tenant t u = (if u = t then 1 else 0)"

definition within_quota :: "service_config \<Rightarrow> service \<Rightarrow> bool" where
  "within_quota cfg s \<longleftrightarrow>
     (\<forall>t. tenantSessions t s + tenantReservations t s \<le> maximumSessionsPerTenant cfg)
     \<and> maximumSessions (currentAllocation s) \<le> maximumSessions (hostCapacity cfg)
     \<and> memoryMiB (currentAllocation s) \<le> memoryMiB (hostCapacity cfg)
     \<and> cpuShares (currentAllocation s) \<le> cpuShares (hostCapacity cfg)
     \<and> pids (currentAllocation s) \<le> pids (hostCapacity cfg)"

lemma load_tenant: "tenantSessions t s + tenantReservations t s = load (of_tenant t) s"
proof -
  have "jm_sum (\<lambda>v. if (case v of (_, r) \<Rightarrow> rec_tenantId r = t) then 1 else 0) (sessions s)
      = jm_sum (\<lambda>(_, r). of_tenant t (rec_tenantId r)) (sessions s)"
    by (rule jm_sum_cong) (auto simp: of_tenant_def)
  moreover have "jm_sum (\<lambda>v. if res_tenantId v = t then 1 else 0) (reservations s)
      = jm_sum (\<lambda>v. of_tenant t (res_tenantId v)) (reservations s)"
    by (rule jm_sum_cong) (auto simp: of_tenant_def)
  ultimately show ?thesis
    by (simp only: tenantSessions_def tenantReservations_def length_filter_values load_def)
qed

lemma foldl_add_quota:
  "\<forall>x \<in> set xs. x = q \<Longrightarrow>
   foldl add_quota acc xs =
     \<lparr>memoryMiB = memoryMiB acc + int (length xs) * memoryMiB q,
      cpuShares = cpuShares acc + int (length xs) * cpuShares q,
      pids = pids acc + int (length xs) * pids q,
      maximumSessions = maximumSessions acc + int (length xs)\<rparr>"
  by (induction xs arbitrary: acc) (auto simp: add_quota_def algebra_simps)

lemma jm_sum_one: "(\<And>v. f v = 1) \<Longrightarrow> jm_sum f m = int (length (jm_values m))"
  by (induction m) (auto simp: jm_sum_def jm_values_def)

lemma load_count: "load (\<lambda>_. 1) s = int (length (jm_values (sessions s)) + length (jm_values (reservations s)))"
proof -
  have "jm_sum (\<lambda>(_, r). 1) (sessions s) = int (length (jm_values (sessions s)))"
    by (rule jm_sum_one) auto
  moreover have "jm_sum (\<lambda>_. 1) (reservations s) = int (length (jm_values (reservations s)))"
    by (rule jm_sum_one) simp
  ultimately show ?thesis by (simp add: load_def)
qed

lemma session_quotas:
  assumes "service_inv cfg s" and "v \<in> set (jm_values (sessions s))"
  shows "rec_quota (snd v) = quota cfg"
proof -
  obtain k where "jm_get (sessions s) k = Some v"
    using jm_wf_value_get [OF service_inv_wf(1) [OF assms(1)] assms(2)] by blast
  from record_okD [OF assms(1) this] show ?thesis by (simp add: record_ok_def)
qed

lemma currentAllocation_load:
  assumes inv: "service_inv cfg s"
  shows "currentAllocation s =
    \<lparr>memoryMiB = load (\<lambda>_. 1) s * memoryMiB (quota cfg), cpuShares = load (\<lambda>_. 1) s * cpuShares (quota cfg),
     pids = load (\<lambda>_. 1) s * pids (quota cfg), maximumSessions = load (\<lambda>_. 1) s\<rparr>"
proof -
  let ?xs = "map (\<lambda>(_, r). rec_quota r) (jm_values (sessions s)) @ map res_quota (jm_values (reservations s))"
  have "res_quota v = quota cfg" if "v \<in> set (jm_values (reservations s))" for v
    using jm_wf_value_get [OF service_inv_wf(5) [OF inv] that] inv
    by (auto simp: service_inv_def reservations_ok_def)
  with session_quotas [OF inv] have "\<forall>x \<in> set ?xs. x = quota cfg" by fastforce
  from foldl_add_quota [OF this, of no_allocation] show ?thesis
    by (simp add: currentAllocation_def no_allocation_def load_count)
qed

definition load_le :: "service \<Rightarrow> service \<Rightarrow> bool" where
  "load_le s' s \<longleftrightarrow> (\<forall>g. (\<forall>u. 0 \<le> g u) \<longrightarrow> load g s' \<le> load g s)"

definition keeps_sessions :: "service \<Rightarrow> service \<Rightarrow> bool" where
  "keeps_sessions s s' \<longleftrightarrow> (\<forall>k. jm_has (sessions s) k \<longrightarrow> jm_has (sessions s') k)"

definition positive_config :: "service_config \<Rightarrow> bool" where
  "positive_config cfg \<longleftrightarrow> 0 < maximumSessionsPerTenant cfg \<and> 0 < maximumSessions (hostCapacity cfg)
     \<and> 0 < memoryMiB (quota cfg) \<and> 0 < cpuShares (quota cfg) \<and> 0 < pids (quota cfg)
     \<and> 0 < pairingTicketTTLSeconds cfg \<and> 0 < signalingTokenTTLSeconds cfg
     \<and> fitsWithin (quota cfg) (hostCapacity cfg)"

lemma new_service_positive: "new_service opts = Inr cfg \<Longrightarrow> positive_config cfg"
  by (auto simp: new_service_def validateQuota_def validateHostCapacity_def bind_result_Inr
      positiveInteger_Inr positive_config_def session_quota.defs split: prod.splits if_splits)

lemma within_quota_le:
  assumes inv: "service_inv cfg s" "service_inv cfg s'" and pos: "positive_config cfg"
    and le: "load_le s' s" and w: "within_quota cfg s"
  shows "within_quota cfg s'"
proof -
  have t: "load (of_tenant t) s' \<le> load (of_tenant t) s" for t
    using le by (simp add: load_le_def of_tenant_def)
  have n: "load (\<lambda>_. 1) s' \<le> load (\<lambda>_. 1) s" using le by (simp add: load_le_def)
  have mul: "load (\<lambda>_. 1) s' * q \<le> c" if "load (\<lambda>_. 1) s * q \<le> c" "0 < q" for q c
    using that n by (meson less_imp_le mult_right_mono order_trans)
  have "load (of_tenant u) s' \<le> maximumSessionsPerTenant cfg" for u
    using w t [of u] unfolding within_quota_def load_tenant by (meson order_trans)
  moreover have "load (\<lambda>_. 1) s' \<le> maximumSessions (hostCapacity cfg)"
    using w n unfolding within_quota_def currentAllocation_load [OF inv(1)] by simp
  moreover have "load (\<lambda>_. 1) s' * memoryMiB (quota cfg) \<le> memoryMiB (hostCapacity cfg)"
    "load (\<lambda>_. 1) s' * cpuShares (quota cfg) \<le> cpuShares (hostCapacity cfg)"
    "load (\<lambda>_. 1) s' * pids (quota cfg) \<le> pids (hostCapacity cfg)"
    using w pos by (auto intro!: mul simp: within_quota_def positive_config_def currentAllocation_load [OF inv(1)])
  ultimately show ?thesis
    unfolding within_quota_def load_tenant currentAllocation_load [OF inv(2)] by simp
qed

lemma record_ok_same: "record_ok cfg k r \<Longrightarrow> record_ok cfg k r' \<Longrightarrow> rec_tenantId r = rec_tenantId r'"
  unfolding record_ok_def record_key_def by (metis session_key_inj)

lemma jm_sum_replace:
  assumes inv: "service_inv cfg s" and r: "jm_get (sessions s) k = Some r0" and ok: "record_ok cfg k r1"
  shows "jm_sum (\<lambda>(_, r). g (rec_tenantId r)) (jm_set k (n, r1) (sessions s))
    = jm_sum (\<lambda>(_, r). g (rec_tenantId r)) (sessions s)"
  using record_ok_same [OF record_okD [OF inv r] ok]
  by (cases r0) (simp add: jm_sum_set_old [OF r])

lemma load_same: "sessions s' = sessions s \<Longrightarrow> reservations s' = reservations s \<Longrightarrow> load_le s' s \<and> keeps_sessions s s'"
  by (simp add: load_le_def load_def keeps_sessions_def)

lemma observe_finish_load:
  assumes inv: "service_inv cfg s" and ok: "record_ok cfg key (snd r)"
  shows "load_le (snd (observe_finish key r insp s)) s
    \<and> keeps_sessions s (snd (observe_finish key r insp s))"
proof -
  have "record_ok cfg key ((snd r)\<lparr>rec_phase := Failed, rec_failure := Some f\<rparr>)" for f
    using ok by (simp add: record_ok_def record_key_def)
  then show ?thesis
    by (auto simp: observe_finish_def revokeSignalingConnections_def Let_def load_le_def load_def
        keeps_sessions_def jm_sum_replace [OF inv]
        split: sum.splits option.splits runtime_inspection.splits)
qed

lemma burn_start_load:
  assumes inv: "service_inv cfg s" and b: "burn_start ctx sid s = (Inr r, s')"
  shows "load_le s' s \<and> keeps_sessions s s'
    \<and> jm_has (sessions s') (session_key (ctx_tenantId ctx) sid)"
proof -
  let ?k = "session_key (ctx_tenantId ctx) sid"
  from b have r: "jm_get (sessions s) ?k = Some r"
    and s': "sessions s' = jm_set ?k (next_ref s, (snd r)\<lparr>rec_phase := Burning, rec_failure := None\<rparr>) (sessions s)"
      "reservations s' = reservations s"
    by (auto simp: burn_start_def Let_def revokeSignalingConnections_def split: option.splits)
  have "record_ok cfg ?k ((snd r)\<lparr>rec_phase := Burning, rec_failure := None\<rparr>)"
    using record_okD [OF inv r] by (simp add: record_ok_def record_key_def)
  then show ?thesis by (simp add: load_le_def load_def keeps_sessions_def s' jm_sum_replace [OF inv r])
qed

lemma burn_finish_load:
  assumes inv: "service_inv cfg s" and ok: "record_ok cfg key (snd r)"
    and here: "jm_has (sessions s) key"
  shows "load_le (snd (burn_finish key r outcome s)) s"
proof -
  from here obtain r0 where r0: "jm_get (sessions s) key = Some r0" by (auto simp: jm_has_get)
  have "record_ok cfg key ((snd r)\<lparr>rec_phase := Failed, rec_failure := Some f\<rparr>)" for f
    using ok by (simp add: record_ok_def record_key_def)
  then show ?thesis
    by (auto simp: burn_finish_def load_le_def load_def jm_sum_replace [OF inv r0]
        jm_sum_delete [OF service_inv_wf(1) [OF inv] r0] split: sum.splits prod.splits)
qed

lemma create_finish_load:
  assumes inv: "service_inv cfg s" and new: "jm_get (sessions s) (session_key (ctx_tenantId ctx) sid) = None"
    and res: "jm_get (reservations s) sid = Some \<lparr>res_tenantId = ctx_tenantId ctx, res_quota = quota cfg\<rparr>"
  shows "load_le (snd (create_finish cfg hash now ca t ctx sid outcome s)) s
    \<and> keeps_sessions s (snd (create_finish cfg hash now ca t ctx sid outcome s))"
proof (cases outcome)
  case (Inl e)
  then show ?thesis
    by (simp add: create_finish_def delete_reservation_def load_le_def load_def keeps_sessions_def
        jm_sum_delete [OF service_inv_wf(5) [OF inv] res])
next
  case (Inr rt)
  obtain x s' where x: "create_finish cfg hash now ca t ctx sid (Inr rt) s = (x, s')" by fastforce
  show ?thesis
    by (simp add: Inr x create_finish_ok(2) [OF x] delete_reservation_def install_session_def
        load_le_def load_def keeps_sessions_def jm_sum_delete [OF service_inv_wf(5) [OF inv] res]
        jm_sum_set_fresh [OF new])
qed

lemma reserve_quota:
  assumes inv: "service_inv cfg s" and free: "jm_get (reservations s) sid = None"
    and ok: "reserve cfg sid t s = Inr s'"
  shows "within_quota cfg s \<Longrightarrow> within_quota cfg s'" and "keeps_sessions s s'"
proof -
  let ?v = "\<lparr>res_tenantId = t, res_quota = quota cfg\<rparr>"
  have s': "s' = s\<lparr>reservations := jm_set sid ?v (reservations s)\<rparr>"
    and lim: "load (of_tenant t) s < maximumSessionsPerTenant cfg"
    "maximumSessions (currentAllocation s) + 1 \<le> maximumSessions (hostCapacity cfg)"
    "memoryMiB (currentAllocation s) + memoryMiB (quota cfg) \<le> memoryMiB (hostCapacity cfg)"
    "cpuShares (currentAllocation s) + cpuShares (quota cfg) \<le> cpuShares (hostCapacity cfg)"
    "pids (currentAllocation s) + pids (quota cfg) \<le> pids (hostCapacity cfg)"
    using ok by (auto simp: reserve_def Let_def load_tenant [symmetric] split: if_splits)
  have grow: "load g s' = load g s + g t" for g
    by (simp add: s' load_def jm_sum_set_fresh [OF free])
  note alloc = currentAllocation_load [OF inv] currentAllocation_load [OF inv_reserve [OF inv ok]]
  have u: "load (of_tenant u) s' \<le> maximumSessionsPerTenant cfg"
    if "within_quota cfg s" for u
    using that lim(1) by (cases "u = t") (auto simp: grow of_tenant_def within_quota_def load_tenant)
  show "within_quota cfg s'" if w: "within_quota cfg s"
    using lim(2-) u [OF w] unfolding within_quota_def load_tenant alloc
    by (simp add: grow distrib_right)
  show "keeps_sessions s s'" by (simp add: s' keeps_sessions_def)
qed

subsection \<open>Serial burns\<close>

fun destroy_key :: "task \<Rightarrow> string option" where
  "destroy_key (TDestroy key r) = Some key"
| "destroy_key _ = None"

definition destroys :: "string \<Rightarrow> task multiset \<Rightarrow> nat" where
  "destroys key ts = size (filter_mset (\<lambda>t. destroy_key t = Some key) ts)"

text \<open>At most one destruction is pending per session, and its session is still listed.\<close>

definition burns_serial :: "service \<Rightarrow> task multiset \<Rightarrow> bool" where
  "burns_serial s ts \<longleftrightarrow> (\<forall>key. destroys key ts \<le> (if jm_has (sessions s) key then 1 else 0))"

lemma destroys_add [simp]:
  "destroys key (add_mset t ts) = (if destroy_key t = Some key then Suc (destroys key ts) else destroys key ts)"
  by (simp add: destroys_def)

lemma destroys_diff:
  "t \<in># ts \<Longrightarrow> destroys key ts = destroys key (ts - {#t#}) + (if destroy_key t = Some key then 1 else 0)"
  by (auto dest!: multi_member_split)

lemma destroy_key_Some: "destroy_key t = Some key \<longleftrightarrow> (\<exists>r. t = TDestroy key r)"
  by (cases t) auto

lemma destroys_zero: "(\<forall>r. TDestroy key r \<notin># ts) \<Longrightarrow> destroys key ts = 0"
  by (auto simp: destroys_def destroy_key_Some size_eq_0_iff_empty filter_mset_eq_conv)

lemma destroys_begin_observe [simp]: "destroy_key (begin_observe k r c) = None"
  by (simp add: begin_observe_def split: option.splits)

lemma burns_serial_keep:
  assumes "burns_serial s ts" and "keeps_sessions s s'" and le: "\<And>key. destroys key ts' \<le> destroys key ts"
  shows "burns_serial s' ts'"
  unfolding burns_serial_def
proof
  fix key
  have "destroys key ts \<le> (if jm_has (sessions s) key then 1 else 0)"
    using assms(1) unfolding burns_serial_def by blast
  moreover have "jm_has (sessions s) key \<Longrightarrow> jm_has (sessions s') key"
    using assms(2) unfolding keeps_sessions_def by blast
  ultimately show "destroys key ts' \<le> (if jm_has (sessions s') key then 1 else 0)"
    using le [of key] by (auto split: if_splits)
qed

definition quota_inv :: "service_config \<Rightarrow> system \<Rightarrow> bool" where
  "quota_inv cfg y \<longleftrightarrow> system_inv cfg y
     \<and> (positive_config cfg \<longrightarrow> within_quota cfg (svc y) \<and> burns_serial (svc y) (tasks y))"

lemma quota_inv_init: "initial_system y \<Longrightarrow> quota_inv cfg y"
  using system_inv_init [of y cfg]
  by (auto simp: quota_inv_def initial_system_def within_quota_def burns_serial_def destroys_def
      empty_service_def tenantSessions_def tenantReservations_def currentAllocation_def no_allocation_def
      positive_config_def jm_values_def fitsWithin_def)

lemma quota_keep:
  assumes inv: "quota_inv cfg y" and z: "system_inv cfg z"
    and le: "load_le (svc z) (svc y) \<and> keeps_sessions (svc y) (svc z)"
    and d: "\<And>key. destroys key (tasks z) \<le> destroys key (tasks y)"
  shows "quota_inv cfg z"
proof -
  have "service_inv cfg (svc y)" "service_inv cfg (svc z)"
    using inv z by (auto simp: quota_inv_def system_inv_def core_inv_def)
  with inv z le show ?thesis
    unfolding quota_inv_def by (meson burns_serial_keep d within_quota_le)
qed

lemma destroys_swap:
  "t \<in># ts \<Longrightarrow> destroy_key u = None \<Longrightarrow> destroys key (add_mset u (ts - {#t#})) \<le> destroys key ts"
  by (simp add: destroys_diff [of t ts])

lemma destroys_less: "t \<in># ts \<Longrightarrow> destroys key (ts - {#t#}) \<le> destroys key ts"
  by (simp add: destroys_diff [of t ts])

lemma quota_create_begin:
  assumes inv: "quota_inv cfg y" and z: "system_inv cfg (y\<lparr>svc := s', tasks := add_mset (TCreate ctx sid) (tasks y),
      used_ids := insert sid (used_ids y)\<rparr>)"
    and new: "sid \<notin> used_ids y" and c: "create_start cfg ctx sid (svc y) = Inr s'"
  shows "quota_inv cfg (y\<lparr>svc := s', tasks := add_mset (TCreate ctx sid) (tasks y),
      used_ids := insert sid (used_ids y)\<rparr>)"
proof -
  have core: "core_inv cfg (svc y) (tasks y) (used_ids y) (issued y)"
    using inv by (simp add: quota_inv_def system_inv_def)
  have "jm_get (reservations (svc y)) sid = None"
    using core_invD(3) [OF core] pending_used [OF core] new unfolding reservations_pending_def by blast
  from reserve_quota [OF core_invD(1) [OF core] this c [unfolded create_start_def]] inv z
  show ?thesis by (auto simp: quota_inv_def intro: burns_serial_keep)
qed

lemma quota_burn_begin:
  assumes inv: "quota_inv cfg y" and b: "burn_start ctx sid (svc y) = (Inr r, s')"
    and alone: "\<forall>r'. TDestroy (session_key (ctx_tenantId ctx) sid) r' \<notin># tasks y"
    and z: "system_inv cfg (y\<lparr>svc := s', tasks := add_mset (TDestroy (session_key (ctx_tenantId ctx) sid) r) (tasks y)\<rparr>)"
  shows "quota_inv cfg (y\<lparr>svc := s', tasks := add_mset (TDestroy (session_key (ctx_tenantId ctx) sid) r) (tasks y)\<rparr>)"
proof -
  let ?k = "session_key (ctx_tenantId ctx) sid"
  have sinv: "service_inv cfg (svc y)" "service_inv cfg s'"
    using inv z by (simp_all add: quota_inv_def system_inv_def core_inv_def)
  note eff = burn_start_load [OF sinv(1) b]
  have "burns_serial s' (add_mset (TDestroy ?k r) (tasks y))" if "burns_serial (svc y) (tasks y)"
  proof -
    have "burns_serial s' (tasks y)" using burns_serial_keep [OF that] eff by blast
    then have "destroys key (tasks y) \<le> (if jm_has (sessions s') key then 1 else 0)" for key
      by (simp add: burns_serial_def)
    then have "destroys key (add_mset (TDestroy ?k r) (tasks y)) \<le> (if jm_has (sessions s') key then 1 else 0)" for key
      using eff destroys_zero [OF alone] by (cases "key = ?k") auto
    then show ?thesis by (simp add: burns_serial_def)
  qed
  with inv z eff show ?thesis
    unfolding quota_inv_def by (auto intro: within_quota_le [OF sinv])
qed

lemma quota_burn_end:
  assumes inv: "quota_inv cfg y" and d: "TDestroy key r \<in># tasks y"
    and z: "system_inv cfg (y\<lparr>svc := snd (burn_finish key r outcome (svc y)), tasks := tasks y - {#TDestroy key r#}\<rparr>)"
  shows "quota_inv cfg (y\<lparr>svc := snd (burn_finish key r outcome (svc y)), tasks := tasks y - {#TDestroy key r#}\<rparr>)"
proof -
  let ?s = "snd (burn_finish key r outcome (svc y))"
  have core: "core_inv cfg (svc y) (tasks y) (used_ids y) (issued y)"
    and sinv: "service_inv cfg ?s"
    using inv z by (simp_all add: quota_inv_def system_inv_def core_inv_def)
  have rok: "record_ok cfg key (snd r)" using core_invD(4) [OF core d] by (simp add: known_record_def)
  have ok: "within_quota cfg ?s \<and> burns_serial ?s (tasks y - {#TDestroy key r#})" if "positive_config cfg"
  proof -
    from inv that have w: "within_quota cfg (svc y)" and bs: "burns_serial (svc y) (tasks y)"
      by (simp_all add: quota_inv_def)
    have cnt: "destroys k (tasks y - {#TDestroy key r#})
        \<le> (if k \<noteq> key \<and> jm_has (sessions (svc y)) k then 1 else 0)" for k
      using spec [OF bs [unfolded burns_serial_def], of k] destroys_diff [OF d, of k]
      by (cases "k = key") (simp_all split: if_splits)
    have "jm_has (sessions (svc y)) key"
      using spec [OF bs [unfolded burns_serial_def], of key] destroys_diff [OF d, of key]
      by (simp split: if_splits)
    from within_quota_le [OF core_invD(1) [OF core] sinv that burn_finish_load [OF core_invD(1) [OF core] rok this] w]
    have "within_quota cfg ?s" .
    moreover have "jm_has (sessions ?s) k = jm_has (sessions (svc y)) k" if "k \<noteq> key" for k
      using that by (simp add: burn_finish_def split: sum.splits)
    then have "destroys k (tasks y - {#TDestroy key r#}) \<le> (if jm_has (sessions ?s) k then 1 else 0)" for k
      using cnt [of k] by (cases "k = key") (auto split: if_splits)
    then have "burns_serial ?s (tasks y - {#TDestroy key r#})" by (simp add: burns_serial_def)
    ultimately show ?thesis by blast
  qed
  with z show ?thesis by (simp add: quota_inv_def)
qed

text \<open>The remaining steps change neither sessions nor reservations, or only shrink them.\<close>

lemma exchange_finish_frame:
  "sessions (snd (exchange_finish cfg hash now t b cref r s)) = sessions s"
  "reservations (snd (exchange_finish cfg hash now t b cref r s)) = reservations s"
  by (auto simp: exchange_finish_def Let_def split: option.splits prod.splits)

lemma quota_step:
  assumes inv: "quota_inv cfg y" and step: "service_step True cfg hash y z"
  shows "quota_inv cfg z"
proof -
  have sys: "system_inv cfg y" and z: "system_inv cfg z"
    using inv system_step [OF _ step] by (simp_all add: quota_inv_def)
  then have core: "core_inv cfg (svc y) (tasks y) (used_ids y) (issued y)"
    by (simp add: system_inv_def)
  note sinv = core_invD(1) [OF core] and keep = quota_keep [OF inv z]
  from step show ?thesis
  proof (cases rule: service_step.cases)
    case (create_begin sid ctx s')
    with z show ?thesis by (simp add: quota_create_begin [OF inv])
  next
    case (create_end ctx sid t now ca outcome)
    have "jm_get (reservations (svc y)) sid = Some \<lparr>res_tenantId = ctx_tenantId ctx, res_quota = quota cfg\<rparr>"
      using core_invD(4) [OF core create_end(2)] by simp
    with create_finish_load [OF sinv pending_key_free [OF core create_end(2)]] create_end show ?thesis
      by (intro keep) (simp_all add: destroys_less)
  next
    case (observe_begin ctx sid r c)
    then show ?thesis by (intro keep) (simp_all add: load_same)
  next
    case (observe_end key r c insp res s')
    have "record_ok cfg key (snd r)"
      using core_invD(4) [OF core observe_end(2)] by (simp add: known_record_def)
    from observe_finish_load [OF sinv this, of insp] observe_end show ?thesis
      by (intro keep) (simp_all add: destroys_less)
  next
    case (exchange_begin now t res s')
    then show ?thesis
      using exchange_start_shrinks [OF sinv exchange_begin(2)]
      by (intro keep) (auto simp: shrinks_def load_same split: sum.splits)
  next
    case (authorize_begin now t res s')
    then show ?thesis
      using authorize_start_shrinks [OF sinv authorize_begin(2)]
      by (intro keep) (auto simp: shrinks_def load_same split: sum.splits)
  next
    case (resume_issue r key t now)
    then show ?thesis by (intro keep) (simp_all add: issue_finish_def load_same destroys_less)
  next
    case (resume_exchange r b cref t now)
    then show ?thesis by (intro keep) (simp_all add: exchange_finish_frame load_same destroys_less)
  next
    case (resume_plain res c)
    then show ?thesis by (intro keep) (simp_all add: load_same destroys_less)
  next
    case (burn_begin ctx sid r s')
    with z show ?thesis by (simp add: quota_burn_begin [OF inv])
  next
    case (burn_end key r outcome)
    with z show ?thesis by (simp add: quota_burn_end [OF inv])
  qed
qed

interpretation quota_system: step_invariant initial_system "service_step True cfg hash" "quota_inv cfg"
  for cfg hash
  by unfold_locales (simp_all add: quota_inv_init quota_step)

lemma reachable_quota:
  "service_reachable True cfg hash y \<Longrightarrow> positive_config cfg \<Longrightarrow> within_quota cfg (svc y)"
  using quota_system.reachable_inv [of cfg hash y] by (simp add: quota_inv_def)

end
