(* ===== verification/SessionProperties.thy ===== *)
theory SessionProperties
  imports SessionQuota
begin

text \<open>
  The properties of the session service: what holds of every interleaving of its methods,
  and what each method does. The example states at the end are concrete runs.
\<close>

subsection \<open>Spent credentials stay spent\<close>

definition spent_ticket :: "service_config \<Rightarrow> string \<Rightarrow> system \<Rightarrow> bool" where
  "spent_ticket cfg h y \<longleftrightarrow> system_inv cfg y \<and> h \<in> issued y \<and> ticket_key (svc y) h = None"

definition spent_token :: "service_config \<Rightarrow> string \<Rightarrow> system \<Rightarrow> bool" where
  "spent_token cfg h y \<longleftrightarrow> system_inv cfg y \<and> h \<in> issued y \<and> token_key (svc y) h = None"

text \<open>A step adds to the credential maps at most one credential, whose hash is new.\<close>

definition adds_fresh :: "system \<Rightarrow> system \<Rightarrow> bool" where
  "adds_fresh y z \<longleftrightarrow> issued y \<subseteq> issued z
     \<and> (\<forall>h k. ticket_key (svc z) h = Some k \<longrightarrow> ticket_key (svc y) h = Some k \<or> h \<notin> issued y)
     \<and> (\<forall>h k. token_key (svc z) h = Some k \<longrightarrow> token_key (svc y) h = Some k \<or> h \<notin> issued y)"

lemma shrinks_adds_fresh:
  "shrinks (svc y) (svc z) \<Longrightarrow> issued z = issued y \<Longrightarrow> adds_fresh y z"
  by (simp add: shrinks_def adds_fresh_def)

lemma issue_adds:
  assumes inv: "service_inv cfg s" and s': "s' = snd (issue_finish cf hash now t key r s)"
  shows "ticket_key s' h = Some k \<Longrightarrow> ticket_key s h = Some k \<or> h = hash t"
    and "token_key s' h = Some k \<Longrightarrow> token_key s h = Some k"
proof -
  have "(ticket_key s' h = Some k \<longrightarrow> ticket_key s h = Some k \<or> h = hash t)
      \<and> (token_key s' h = Some k \<longrightarrow> token_key s h = Some k)"
  proof (cases "has_credentials s key")
    case True
    from rotate_abs [OF inv True refl, where cf = cf and hash = hash and now = now and t = t]
    show ?thesis by (auto simp: s' issue_finish_def split: if_splits)
  next
    case False
    then show ?thesis by (simp add: s' issue_finish_def rotate_none)
  qed
  then show "ticket_key s' h = Some k \<Longrightarrow> ticket_key s h = Some k \<or> h = hash t"
    and "token_key s' h = Some k \<Longrightarrow> token_key s h = Some k" by blast+
qed

lemma exchange_adds:
  assumes inv: "service_inv cfg s" and s': "s' = snd (exchange_finish cf hash now t b cref r s)"
  shows "ticket_key s' h = Some k \<Longrightarrow> ticket_key s h = Some k"
    and "token_key s' h = Some k \<Longrightarrow> token_key s h = Some k \<or> h = hash t"
proof -
  have "(ticket_key s' h = Some k \<longrightarrow> ticket_key s h = Some k)
      \<and> (token_key s' h = Some k \<longrightarrow> token_key s h = Some k \<or> h = hash t)"
  proof (cases "exchange_finish cf hash now t b cref r s")
    case (Pair x s2)
    show ?thesis
    proof (cases x)
      case (Inl e)
      with Pair s' exchange_finish_Inl [of cf hash now t b cref r s e s2] show ?thesis by simp
    next
      case (Inr res)
      with Pair s' exchange_finish_abs [OF inv Pair [unfolded Inr]] show ?thesis by auto
    qed
  qed
  then show "ticket_key s' h = Some k \<Longrightarrow> ticket_key s h = Some k"
    and "token_key s' h = Some k \<Longrightarrow> token_key s h = Some k \<or> h = hash t" by blast+
qed

lemma step_adds_fresh:
  assumes sys: "system_inv cfg y" and step: "service_step serial cfg hash y z"
  shows "adds_fresh y z"
proof -
  have core: "core_inv cfg (svc y) (tasks y) (used_ids y) (issued y)"
    using sys by (simp add: system_inv_def)
  note sinv = core_invD(1) [OF core]
  from step show ?thesis
  proof (cases rule: service_step.cases)
    case (create_begin sid ctx s')
    then show ?thesis using create_start_Inr [OF create_begin(4)] by (simp add: adds_fresh_def)
  next
    case (create_end ctx sid t now ca outcome)
    have "CHR '':'' \<notin> set (ctx_tenantId ctx)" using core_invD(4) [OF core create_end(2)] by simp
    note eff = create_finish_effects(4,5) [OF sinv pending_key_free [OF core create_end(2)] this refl]
    show ?thesis
      unfolding adds_fresh_def create_end(1)
      using create_end(3) by (auto dest: eff)
  next
    case (observe_begin ctx sid r c)
    then show ?thesis by (simp add: adds_fresh_def)
  next
    case (observe_end key r c insp res s')
    then show ?thesis using observe_finish_shrinks(1) [OF sinv refl, of key r insp]
      by (intro shrinks_adds_fresh) simp_all
  next
    case (exchange_begin now t res s')
    then show ?thesis using exchange_start_shrinks(1) [OF sinv exchange_begin(2)]
      by (intro shrinks_adds_fresh) simp_all
  next
    case (authorize_begin now t res s')
    then show ?thesis using authorize_start_shrinks(1) [OF sinv authorize_begin(2)]
      by (intro shrinks_adds_fresh) simp_all
  next
    case (resume_issue r key t now)
    then show ?thesis using issue_adds [OF sinv refl, of cfg hash now t key r]
      unfolding adds_fresh_def by auto
  next
    case (resume_exchange r b cref t now)
    then show ?thesis using exchange_adds [OF sinv refl, of cfg hash now t b cref r]
      unfolding adds_fresh_def by auto
  next
    case (resume_plain res c)
    then show ?thesis by (simp add: adds_fresh_def)
  next
    case (burn_begin ctx sid r s')
    then show ?thesis using burn_start_shrinks(1) [OF sinv burn_begin(2)]
      by (intro shrinks_adds_fresh) simp_all
  next
    case (burn_end key r outcome)
    then show ?thesis using burn_finish_shrinks(1) [OF refl, where key = key and r = r and outcome = outcome and s = "svc y"]
      by (intro shrinks_adds_fresh) simp_all
  qed
qed

interpretation spent_tickets: step_invariant "spent_ticket cfg h" "service_step serial cfg hash" "spent_ticket cfg h"
  for cfg h serial hash
proof
  fix y z
  assume y: "spent_ticket cfg h y" and step: "service_step serial cfg hash y z"
  then have "adds_fresh y z" and "system_inv cfg z"
    using step_adds_fresh system_step by (auto simp: spent_ticket_def)
  with y show "spent_ticket cfg h z"
    unfolding spent_ticket_def adds_fresh_def by (metis not_None_eq option.distinct(1) subsetD)
qed

interpretation spent_tokens: step_invariant "spent_token cfg h" "service_step serial cfg hash" "spent_token cfg h"
  for cfg h serial hash
proof
  fix y z
  assume y: "spent_token cfg h y" and step: "service_step serial cfg hash y z"
  then have "adds_fresh y z" and "system_inv cfg z"
    using step_adds_fresh system_step by (auto simp: spent_token_def)
  with y show "spent_token cfg h z"
    unfolding spent_token_def adds_fresh_def by (metis not_None_eq option.distinct(1) subsetD)
qed

lemma reachable_system: "service_reachable serial cfg hash y \<Longrightarrow> system_inv cfg y"
  by (rule session_system.reachable_inv)

lemma reachable_issued:
  assumes "service_reachable serial cfg hash y"
  shows "ticket_key (svc y) h = Some k \<Longrightarrow> h \<in> issued y"
    and "token_key (svc y) h = Some k \<Longrightarrow> h \<in> issued y"
  using core_invD(5) [OF reachable_system [OF assms, unfolded system_inv_def]]
  by (auto simp: hashes_issued_def)

lemma exchange_unknown:
  "ticket_key s (hash t) = None \<Longrightarrow> fst (exchange_start hash now t s) = Inl invalidSignalingCredential"
  by (simp add: exchange_start_def hashPresentedCredential_def ticket_key_def Let_def)

lemma authorize_unknown:
  "token_key s (hash t) = None \<Longrightarrow> fst (authorize_start hash now t s) = Inl invalidSignalingCredential"
  by (simp add: authorize_start_def hashPresentedCredential_def token_key_def Let_def)

subsection \<open>Concrete runs\<close>

text \<open>Example configurations and states, for the witnesses and for the run that breaks the quota.\<close>

definition ex_config :: service_config where
  "ex_config = \<lparr>maximumSessionsPerTenant = 1, quota = \<lparr>memoryMiB = 512, cpuShares = 512, pids = 256\<rparr>,
     hostCapacity = \<lparr>memoryMiB = 4096, cpuShares = 4096, pids = 2048, maximumSessions = 8\<rparr>,
     pairingTicketTTLSeconds = 60, signalingTokenTTLSeconds = 30\<rparr>"

definition ex_hash :: "string \<Rightarrow> string" where
  "ex_hash t = CHR ''#'' # t"

definition ex_ctx :: tenant_context where
  "ex_ctx = \<lparr>ctx_tenantId = ''acme'', ctx_subject = ''user''\<rparr>"

definition ex_key :: "string \<Rightarrow> string" where
  "ex_key sid = session_key (ctx_tenantId ex_ctx) sid"

definition ex_runtime :: runtime_resource where
  "ex_runtime = \<lparr>containerId = ''c1'', containerName = ''n1'', networkNamespace = ''net1'',
     storageNamespace = ''st1'', signalingEndpoint = ''ws://127.0.0.1:1/signaling'',
     signalingSecret = ''s'', tabControlEndpoint = ''http://127.0.0.1:1/tabs''\<rparr>"

definition ex_credential :: "char \<Rightarrow> string" where
  "ex_credential c = replicate 43 c"

definition ex_reserved :: "string \<Rightarrow> service \<Rightarrow> service" where
  "ex_reserved sid s = projr (create_start ex_config ex_ctx sid s)"

definition ex_created :: "string \<Rightarrow> char \<Rightarrow> service \<Rightarrow> service" where
  "ex_created sid c s = snd (create_finish ex_config ex_hash 0 ''t0'' (ex_credential c) ex_ctx sid (Inr ex_runtime)
     (ex_reserved sid s))"

definition ex_first :: service where
  "ex_first = ex_created ''s1'' (CHR ''A'') empty_service"

definition ex_burning :: "string \<Rightarrow> service \<Rightarrow> service" where
  "ex_burning sid s = snd (burn_start ex_ctx sid s)"

definition ex_record :: "string \<Rightarrow> service \<Rightarrow> session_record obj" where
  "ex_record sid s = the (jm_get (sessions s) (ex_key sid))"

definition ex_system :: system where
  "ex_system = \<lparr>svc = ex_first, tasks = {#}, used_ids = {''s1''}, issued = {ex_hash (ex_credential (CHR ''A''))}\<rparr>"

lemma ex_create_reachable:
  assumes r: "service_reachable b ex_config ex_hash \<lparr>svc = s, tasks = ts, used_ids = u, issued = i\<rparr>"
    and "sid \<notin> u" and "create_start ex_config ex_ctx sid s = Inr (ex_reserved sid s)"
    and "ex_hash (ex_credential c) \<notin> i"
  shows "service_reachable b ex_config ex_hash \<lparr>svc = ex_created sid c s, tasks = ts, used_ids = insert sid u,
    issued = insert (ex_hash (ex_credential c)) i\<rparr>"
proof -
  let ?m = "\<lparr>svc = ex_reserved sid s, tasks = add_mset (TCreate ex_ctx sid) ts, used_ids = insert sid u, issued = i\<rparr>"
  have safe: "is_safe_identifier (ctx_tenantId ex_ctx)" by code_simp
  from service_step.create_begin [of sid "\<lparr>svc = s, tasks = ts, used_ids = u, issued = i\<rparr>" ex_ctx ex_config, OF _ safe]
    assms have "service_step b ex_config ex_hash \<lparr>svc = s, tasks = ts, used_ids = u, issued = i\<rparr> ?m" by simp
  then have m: "service_reachable b ex_config ex_hash ?m" by (rule reachable_step [OF r])
  from service_step.create_end [of ex_ctx sid ?m ex_hash "ex_credential c" b ex_config 0 "''t0''" "Inr ex_runtime"]
    assms(4) have "service_step b ex_config ex_hash ?m \<lparr>svc = ex_created sid c s, tasks = ts,
      used_ids = insert sid u, issued = insert (ex_hash (ex_credential c)) i\<rparr>"
    by (simp add: ex_created_def ex_hash_def)
  then show ?thesis by (rule reachable_step [OF m])
qed

lemma ex_system_reachable: "service_reachable b ex_config ex_hash ex_system"
proof -
  have "service_reachable b ex_config ex_hash \<lparr>svc = empty_service, tasks = {#}, used_ids = {}, issued = {}\<rparr>"
    by (rule reachable_init) (simp add: initial_system_def)
  moreover have "create_start ex_config ex_ctx ''s1'' empty_service = Inr (ex_reserved ''s1'' empty_service)"
    by code_simp
  ultimately show ?thesis
    using ex_create_reachable [of b empty_service "{#}" "{}" "{}" "''s1''" "CHR ''A''"]
    by (simp add: ex_system_def ex_first_def)
qed

lemma ex_burn_reachable:
  assumes r: "service_reachable False ex_config ex_hash \<lparr>svc = s, tasks = ts, used_ids = u, issued = i\<rparr>"
    and b: "burn_start ex_ctx sid s = (Inr (ex_record sid s), ex_burning sid s)"
  shows "service_reachable False ex_config ex_hash \<lparr>svc = ex_burning sid s,
    tasks = add_mset (TDestroy (ex_key sid) (ex_record sid s)) ts, used_ids = u, issued = i\<rparr>"
proof -
  let ?y = "\<lparr>svc = s, tasks = ts, used_ids = u, issued = i\<rparr>"
  have "burn_start ex_ctx sid (svc ?y) = (Inr (ex_record sid s), ex_burning sid s)" using b by simp
  from service_step.burn_begin [OF this] have "service_step False ex_config ex_hash ?y
      (?y\<lparr>svc := ex_burning sid s, tasks := add_mset (TDestroy (session_key (ctx_tenantId ex_ctx) sid) (ex_record sid s)) (tasks ?y)\<rparr>)"
    by simp
  then show ?thesis using reachable_step [OF r] by (simp add: ex_key_def)
qed

lemma ex_destroyed_reachable:
  assumes r: "service_reachable False ex_config ex_hash
      \<lparr>svc = s, tasks = add_mset (TDestroy key v) ts, used_ids = u, issued = i\<rparr>"
  shows "service_reachable False ex_config ex_hash
    \<lparr>svc = snd (burn_finish key v outcome s), tasks = ts, used_ids = u, issued = i\<rparr>"
proof -
  let ?y = "\<lparr>svc = s, tasks = add_mset (TDestroy key v) ts, used_ids = u, issued = i\<rparr>"
  from service_step.burn_end [of key v ?y False ex_config ex_hash outcome]
  have "service_step False ex_config ex_hash ?y
    \<lparr>svc = snd (burn_finish key v outcome s), tasks = ts, used_ids = u, issued = i\<rparr>" by simp
  then show ?thesis by (rule reachable_step [OF r])
qed

text \<open>The ticket of \<open>s1\<close> is exchanged for a token.\<close>

definition ex_started :: "(credential_binding \<times> nat \<times> session_record obj) \<times> service" where
  "ex_started = (case exchange_start ex_hash 1 (ex_credential (CHR ''A'')) ex_first of (x, s) \<Rightarrow> (projr x, s))"

definition ex_paired :: service where
  "ex_paired = (case ex_started of ((b, cref, r), s) \<Rightarrow>
     snd (exchange_finish ex_config ex_hash 2 (ex_credential (CHR ''T'')) b cref r s))"

definition ex_paired_system :: system where
  "ex_paired_system = \<lparr>svc = ex_paired, tasks = {#}, used_ids = {''s1''},
     issued = {ex_hash (ex_credential (CHR ''T'')), ex_hash (ex_credential (CHR ''A''))}\<rparr>"

lemma ex_paired_reachable: "service_reachable False ex_config ex_hash ex_paired_system"
proof -
  obtain b cref r s where st: "ex_started = ((b, cref, r), s)" by (cases ex_started) auto
  have "case exchange_start ex_hash 1 (ex_credential (CHR ''A'')) (svc ex_system) of (x, s) \<Rightarrow> \<not> isl x" by code_simp
  with st have e: "exchange_start ex_hash 1 (ex_credential (CHR ''A'')) (svc ex_system) = (Inr (b, cref, r), s)"
    by (auto simp: ex_started_def ex_system_def split: prod.splits) (metis sum.collapse(2))
  have bo: "begin_observe (cb_sessionKey b) r (CExchange b cref) = TInspect (cb_sessionKey b) r (CExchange b cref)"
    using exchange_start_record [OF e] by (simp add: begin_observe_def observe_start_def)
  let ?y1 = "ex_system\<lparr>svc := s, tasks := {#TInspect (cb_sessionKey b) r (CExchange b cref)#}\<rparr>"
  let ?y2 = "ex_system\<lparr>svc := s, tasks := {#TResume (Inr r) (CExchange b cref)#}\<rparr>"
  have "service_step False ex_config ex_hash ex_system ?y1"
    using service_step.exchange_begin [OF e] by (simp add: bo) (simp add: ex_system_def)
  from reachable_step [OF ex_system_reachable this] have y1: "service_reachable False ex_config ex_hash ?y1" .
  have "observe_finish (cb_sessionKey b) r (Inr Running) (svc ?y1) = (Inr r, s)"
    using exchange_start_record [OF e] by (simp add: observe_finish_def)
  from service_step.observe_end [of _ _ "CExchange b cref", OF _ this]
  have "service_step False ex_config ex_hash ?y1 ?y2" by simp
  from reachable_step [OF y1 this] have y2: "service_reachable False ex_config ex_hash ?y2" .
  have new: "ex_hash (ex_credential (CHR ''T'')) \<notin> issued ?y2" "ex_hash (ex_credential (CHR ''T'')) \<noteq> []"
    by (simp_all add: ex_system_def ex_hash_def ex_credential_def)
  have "TResume (Inr r) (CExchange b cref) \<in># tasks ?y2" by simp
  from service_step.resume_exchange [of r b cref ?y2 ex_hash "ex_credential (CHR ''T'')" False ex_config 2, OF this new]
  have "service_step False ex_config ex_hash ?y2 ex_paired_system"
    by (simp add: ex_paired_system_def ex_paired_def st) (simp add: ex_system_def)
  from reachable_step [OF y2 this] show ?thesis .
qed

text \<open>Two burns of \<open>s1\<close> overlap; between their ends the tenant creates \<open>s2\<close>.\<close>

definition ex_burned_once :: service where
  "ex_burned_once = snd (burn_finish (ex_key ''s1'') (ex_record ''s1'' ex_first) (Inr ()) (ex_burning ''s1'' (ex_burning ''s1'' ex_first)))"

definition ex_second :: service where
  "ex_second = ex_created ''s2'' (CHR ''B'') ex_burned_once"

definition ex_resurrected :: service where
  "ex_resurrected = snd (burn_finish (ex_key ''s1'') (ex_record ''s1'' (ex_burning ''s1'' ex_first))
     (Inl (PlainError ''docker'')) ex_second)"

subsection \<open>Every interleaving\<close>

text \<open>
  C1. In every run of the service, however its methods interleave, a stored pairing ticket or
  signaling token belongs to a session that is listed and active, a session has credentials
  exactly while it is active, and no two stored tickets open the same session. So nothing
  opens a session that was burned, is being burned or has failed.
\<close>

theorem credentials_only_for_active_sessions:
  assumes "service_reachable False cfg hash y"
  shows "(\<forall>h b. jm_get (pairingTickets (svc y)) h = Some b \<longrightarrow> session_active (svc y) (cb_sessionKey b))
    \<and> (\<forall>h b. jm_get (signalingTokens (svc y)) h = Some b \<longrightarrow> session_active (svc y) (cb_sessionKey b))
    \<and> (\<forall>k. has_credentials (svc y) k = session_active (svc y) k)
    \<and> (\<forall>h h' k. ticket_key (svc y) h = Some k \<longrightarrow> ticket_key (svc y) h' = Some k \<longrightarrow> h = h')"
proof (intro conjI allI)
  fix h h' b k
  have inv: "service_inv cfg (svc y)" by (rule reachable_service_inv [OF assms])
  show "jm_get (pairingTickets (svc y)) h = Some b \<longrightarrow> session_active (svc y) (cb_sessionKey b)"
    using ticket_active [OF inv, of h "cb_sessionKey b"] by (auto simp: ticket_key_def)
  show "jm_get (signalingTokens (svc y)) h = Some b \<longrightarrow> session_active (svc y) (cb_sessionKey b)"
    using token_active [OF inv, of h "cb_sessionKey b"] by (auto simp: token_key_def)
  show "has_credentials (svc y) k = session_active (svc y) k"
    using inv by (simp add: service_inv_def credentials_ok_def)
  show "ticket_key (svc y) h = Some k \<longrightarrow> ticket_key (svc y) h' = Some k \<longrightarrow> h = h'"
    using inv by (simp add: service_inv_def tickets_ok_def)
qed

theorem credentials_only_for_active_sessions_witness:
  "jm_get (pairingTickets ex_first) (ex_hash (ex_credential (CHR ''A''))) =
     Some \<lparr>cb_sessionKey = ex_key ''s1'', cb_expiresAt = 60000\<rparr>
   \<and> session_active ex_first (ex_key ''s1'')"
proof -
  have get: "jm_get (pairingTickets (svc ex_system)) (ex_hash (ex_credential (CHR ''A''))) =
     Some \<lparr>cb_sessionKey = ex_key ''s1'', cb_expiresAt = 60000\<rparr>" by code_simp
  with credentials_only_for_active_sessions [OF ex_system_reachable]
  have "session_active (svc ex_system) (cb_sessionKey \<lparr>cb_sessionKey = ex_key ''s1'', cb_expiresAt = 60000\<rparr>)"
    by blast
  with get show ?thesis by (simp add: ex_system_def)
qed

text \<open>
  C3. A pairing ticket is exchanged at most once: after an exchange that got past the checks,
  no later state of any run accepts the same ticket, whatever ran in between.
\<close>

theorem pairing_ticket_single_use:
  assumes run: "service_reachable False cfg hash y"
    and first: "exchange_start hash now t (svc y) = (Inr v, s')"
    and later: "(service_step False cfg hash)\<^sup>*\<^sup>* (y\<lparr>svc := s', tasks := ts\<rparr>) z"
    and started: "ts = (case v of (b, cref, r) \<Rightarrow>
      add_mset (begin_observe (cb_sessionKey b) r (CExchange b cref)) (tasks y))"
  shows "fst (exchange_start hash now' t (svc z)) = Inl invalidSignalingCredential"
proof -
  let ?y = "y\<lparr>svc := s', tasks := ts\<rparr>"
  have inv: "service_inv cfg (svc y)" by (rule reachable_service_inv [OF run])
  obtain b cref r where v: "v = (b, cref, r)" by (cases v)
  note rec = exchange_start_record [OF first [unfolded v]]
  have "service_step False cfg hash y ?y"
    using service_step.exchange_begin [OF first] by (simp add: v started)
  then have "system_inv cfg ?y" by (rule system_step [OF reachable_system [OF run]])
  moreover have "is_credential t" using first by (rule_tac ccontr) (simp add: exchange_start_def hashPresentedCredential_def)
  then have "ticket_key s' (hash t) = None"
    using exchange_start_abs(1) [OF inv refl, of t hash now] by (simp add: first)
  moreover have "hash t \<in> issued y"
    using reachable_issued(1) [OF run, of "hash t"] rec by (simp add: ticket_key_def)
  ultimately have "spent_ticket cfg (hash t) ?y" by (simp add: spent_ticket_def)
  from spent_tickets.steps_inv [OF later this] show ?thesis
    by (intro exchange_unknown) (simp add: spent_ticket_def)
qed

theorem pairing_ticket_single_use_witness:
  "fst (exchange_start ex_hash 2 (ex_credential (CHR ''A''))
     (snd (exchange_start ex_hash 1 (ex_credential (CHR ''A'')) ex_first))) = Inl invalidSignalingCredential"
proof -
  let ?x = "exchange_start ex_hash 1 (ex_credential (CHR ''A'')) (svc ex_system)"
  have "case fst ?x of Inr v \<Rightarrow> True | Inl e \<Rightarrow> False" by code_simp
  then have "?x = (Inr (projr (fst ?x)), snd ?x)" by (cases ?x) (auto split: sum.splits)
  from pairing_ticket_single_use [OF ex_system_reachable this rtranclp.rtrancl_refl refl]
  show ?thesis by (simp add: ex_system_def)
qed

text \<open>
  C4. A signaling token is authorised at most once: after an authorisation that got past the
  checks, no later state of any run accepts the same token.
\<close>

theorem signaling_token_single_use:
  assumes run: "service_reachable False cfg hash y"
    and first: "authorize_start hash now t (svc y) = (Inr v, s')"
    and started: "ts = (case v of (b, r) \<Rightarrow>
      add_mset (begin_observe (cb_sessionKey b) r CAuthorize) (tasks y))"
    and later: "(service_step False cfg hash)\<^sup>*\<^sup>* (y\<lparr>svc := s', tasks := ts\<rparr>) z"
  shows "fst (authorize_start hash now' t (svc z)) = Inl invalidSignalingCredential"
proof -
  let ?y = "y\<lparr>svc := s', tasks := ts\<rparr>"
  have inv: "service_inv cfg (svc y)" by (rule reachable_service_inv [OF run])
  obtain b r where v: "v = (b, r)" by (cases v)
  note rec = authorize_start_record [OF first [unfolded v]]
  have "service_step False cfg hash y ?y"
    using service_step.authorize_begin [OF first] by (simp add: v started)
  then have "system_inv cfg ?y" by (rule system_step [OF reachable_system [OF run]])
  moreover have "is_credential t" using first by (rule_tac ccontr) (simp add: authorize_start_def hashPresentedCredential_def)
  then have "token_key s' (hash t) = None"
    using authorize_start_abs(1) [OF inv refl, of t hash now] by (simp add: first)
  moreover have "hash t \<in> issued y"
    using reachable_issued(2) [OF run, of "hash t"] rec by (simp add: token_key_def)
  ultimately have "spent_token cfg (hash t) ?y" by (simp add: spent_token_def)
  from spent_tokens.steps_inv [OF later this] show ?thesis
    by (intro authorize_unknown) (simp add: spent_token_def)
qed

theorem signaling_token_single_use_witness:
  "fst (authorize_start ex_hash 4 (ex_credential (CHR ''T''))
     (snd (authorize_start ex_hash 3 (ex_credential (CHR ''T'')) ex_paired))) = Inl invalidSignalingCredential"
proof -
  let ?x = "authorize_start ex_hash 3 (ex_credential (CHR ''T'')) (svc ex_paired_system)"
  have "\<not> isl (fst ?x)" by code_simp
  then have "?x = (Inr (projr (fst ?x)), snd ?x)" by (cases ?x) auto
  from signaling_token_single_use [OF ex_paired_reachable this refl rtranclp.rtrancl_refl]
  show ?thesis by (simp add: ex_paired_system_def)
qed

text \<open>
  C2. Burning revokes for good: once a burn has started, every ticket and every token that
  opened the session is refused in every later state of every run, the session is listed as
  burning, its live connections have been revoked, and other sessions keep their credentials.
\<close>

theorem burn_revokes_for_good:
  assumes run: "service_reachable False cfg hash y"
    and burn: "burn_start ctx sid (svc y) = (Inr r, s')"
    and key: "key = session_key (ctx_tenantId ctx) sid"
    and later: "(service_step False cfg hash)\<^sup>*\<^sup>* (y\<lparr>svc := s', tasks := add_mset (TDestroy key r) (tasks y)\<rparr>) z"
  shows "(\<forall>t now. ticket_key (svc y) (hash t) = Some key \<longrightarrow>
      fst (exchange_start hash now t (svc z)) = Inl invalidSignalingCredential)
    \<and> (\<forall>t now. token_key (svc y) (hash t) = Some key \<longrightarrow>
      fst (authorize_start hash now t (svc z)) = Inl invalidSignalingCredential)
    \<and> revocations s' = revocations (svc y) @ [rec_id (snd r)] \<and> \<not> session_active s' key
    \<and> (\<forall>k h. k \<noteq> key \<longrightarrow> (ticket_key s' h = Some k) = (ticket_key (svc y) h = Some k)
      \<and> (token_key s' h = Some k) = (token_key (svc y) h = Some k)
      \<and> jm_get (sessions s') k = jm_get (sessions (svc y)) k)"
proof -
  let ?y = "y\<lparr>svc := s', tasks := add_mset (TDestroy key r) (tasks y)\<rparr>"
  have inv: "service_inv cfg (svc y)" by (rule reachable_service_inv [OF run])
  have "service_step False cfg hash y ?y"
    using service_step.burn_begin [OF burn] by (simp add: key)
  then have sys: "system_inv cfg ?y" by (rule system_step [OF reachable_system [OF run]])
  have s': "s' = (revokeSignalingConnections (rec_id (snd r)) (revokeCredentials key (svc y)))
      \<lparr>sessions := jm_set key (next_ref (svc y), (snd r)\<lparr>rec_phase := Burning, rec_failure := None\<rparr>) (sessions (svc y)),
       next_ref := Suc (next_ref (svc y))\<rparr>"
    using burn by (auto simp: key burn_start_def Let_def revokeSignalingConnections_def split: option.splits)
  then have tk: "ticket_key s' = forget_key (ticket_key (svc y)) key"
    and tn: "token_key s' = forget_key (token_key (svc y)) key"
    by (simp_all add: revokeSignalingConnections_def revoke_ticket_key [OF inv] revoke_token_key [OF inv])
  have tickets: "fst (exchange_start hash now t (svc z)) = Inl invalidSignalingCredential"
    if h: "ticket_key (svc y) (hash t) = Some key" for t now
  proof -
    have "spent_ticket cfg (hash t) ?y"
      using sys h reachable_issued(1) [OF run h] by (simp add: spent_ticket_def tk forget_key_def)
    from spent_tickets.steps_inv [OF later this] show ?thesis
      by (intro exchange_unknown) (simp add: spent_ticket_def)
  qed
  have tokens: "fst (authorize_start hash now t (svc z)) = Inl invalidSignalingCredential"
    if h: "token_key (svc y) (hash t) = Some key" for t now
  proof -
    have "spent_token cfg (hash t) ?y"
      using sys h reachable_issued(2) [OF run h] by (simp add: spent_token_def tn forget_key_def)
    from spent_tokens.steps_inv [OF later this] show ?thesis
      by (intro authorize_unknown) (simp add: spent_token_def)
  qed
  have "(ticket_key s' h = Some k) = (ticket_key (svc y) h = Some k)
      \<and> (token_key s' h = Some k) = (token_key (svc y) h = Some k)" if "k \<noteq> key" for h k
    using that unfolding tk tn forget_key_def by auto
  with tickets tokens show ?thesis
    by (simp add: s' revokeSignalingConnections_def session_active_def)
qed

theorem burn_revokes_for_good_witness:
  "fst (authorize_start ex_hash 4 (ex_credential (CHR ''T'')) (snd (burn_start ex_ctx ''s1'' ex_paired)))
     = Inl invalidSignalingCredential
   \<and> token_key ex_paired (ex_hash (ex_credential (CHR ''T''))) = Some (ex_key ''s1'')"
proof -
  let ?x = "burn_start ex_ctx ''s1'' (svc ex_paired_system)"
  have "\<not> isl (fst ?x)" by code_simp
  then have "?x = (Inr (projr (fst ?x)), snd ?x)" by (cases ?x) auto
  note revoked = burn_revokes_for_good [OF ex_paired_reachable this refl rtranclp.rtrancl_refl]
  have key: "token_key (svc ex_paired_system) (ex_hash (ex_credential (CHR ''T''))) = Some (ex_key ''s1'')" by code_simp
  with revoked have "fst (authorize_start ex_hash 4 (ex_credential (CHR ''T'')) (snd ?x)) = Inl invalidSignalingCredential"
    by (simp add: ex_key_def)
  with key show ?thesis by (simp add: ex_paired_system_def)
qed

text \<open>
  Issuing a new ticket revokes what the session had: afterwards the new ticket is the only
  ticket that opens the session and no token does, and every earlier ticket is refused in every
  later state of every run.
\<close>

lemma issued_ticket_replaces_older_credentials:
  assumes run: "service_reachable False cfg hash y"
    and pending: "TResume (Inr r) (CIssue key) \<in># tasks y"
    and fresh: "hash t \<notin> issued y" "hash t \<noteq> []"
    and ok: "issue_finish cfg hash now t key r (svc y) = (Inr res, s')"
    and later: "(service_step False cfg hash)\<^sup>*\<^sup>* (y\<lparr>svc := s', tasks := tasks y - {#TResume (Inr r) (CIssue key)#},
      issued := insert (hash t) (issued y)\<rparr>) z"
  shows "(\<forall>h. ticket_key s' h = Some key \<longleftrightarrow> h = hash t) \<and> (\<forall>h. token_key s' h \<noteq> Some key)
    \<and> (\<forall>u now'. ticket_key (svc y) (hash u) = Some key \<longrightarrow>
        fst (exchange_start hash now' u (svc z)) = Inl invalidSignalingCredential)"
proof -
  let ?y = "y\<lparr>svc := s', tasks := tasks y - {#TResume (Inr r) (CIssue key)#},
      issued := insert (hash t) (issued y)\<rparr>"
  have inv: "service_inv cfg (svc y)" by (rule reachable_service_inv [OF run])
  have has: "has_credentials (svc y) key"
    using ok by (rule_tac ccontr) (auto simp: issue_finish_def rotate_none split: if_splits)
  have s': "s' = snd (rotateSignalingTicket cfg hash now t key (svc y))"
    using ok by (auto simp: issue_finish_def split: if_splits)
  note abs = rotate_abs [OF inv has s']
  have none: "ticket_key (svc y) (hash t) = None"
    using reachable_issued(1) [OF run, of "hash t"] fresh by (cases "ticket_key (svc y) (hash t)") auto
  have "service_step False cfg hash y ?y"
    using service_step.resume_issue [of r key y hash t False cfg now, OF pending fresh] ok by simp
  then have sys: "system_inv cfg ?y" by (rule system_step [OF reachable_system [OF run]])
  have "fst (exchange_start hash now' u (svc z)) = Inl invalidSignalingCredential"
    if h: "ticket_key (svc y) (hash u) = Some key" for u now'
  proof -
    have "spent_ticket cfg (hash u) ?y"
      using sys h none reachable_issued(1) [OF run h] by (auto simp: spent_ticket_def abs forget_key_def)
    from spent_tickets.steps_inv [OF later this] show ?thesis
      by (intro exchange_unknown) (simp add: spent_ticket_def)
  qed
  then show ?thesis by (auto simp: abs forget_key_def)
qed

definition ex_issuing_system :: system where
  "ex_issuing_system = ex_paired_system\<lparr>tasks := {#TResume (Inr (ex_record ''s1'' ex_paired)) (CIssue (ex_key ''s1''))#}\<rparr>"

lemma ex_issuing_reachable: "service_reachable False ex_config ex_hash ex_issuing_system"
proof -
  let ?r = "ex_record ''s1'' ex_paired" and ?c = "CIssue (ex_key ''s1'')"
  let ?y1 = "ex_paired_system\<lparr>tasks := {#TInspect (ex_key ''s1'') ?r ?c#}\<rparr>"
  have look: "lookup_session ex_ctx ''s1'' (svc ex_paired_system) = Inr ?r" by code_simp
  have bo: "begin_observe (ex_key ''s1'') ?r ?c = TInspect (ex_key ''s1'') ?r ?c" by code_simp
  have st1: "service_step False ex_config ex_hash ex_paired_system ?y1"
    using service_step.observe_begin [OF look, of ?c]
    by (simp add: bo [unfolded ex_key_def] ex_key_def) (simp add: ex_paired_system_def)
  have y1: "service_reachable False ex_config ex_hash ?y1"
    by (rule reachable_step) (rule ex_paired_reachable, rule st1)
  have "observe_finish (ex_key ''s1'') ?r (Inr Running) (svc ?y1) = (Inr ?r, svc ex_paired_system)" by code_simp
  then have "service_step False ex_config ex_hash ?y1
      (?y1\<lparr>svc := svc ex_paired_system, tasks := add_mset (TResume (Inr ?r) ?c) (tasks ?y1 - {#TInspect (ex_key ''s1'') ?r ?c#})\<rparr>)"
    by (intro service_step.observe_end) simp_all
  then have st2: "service_step False ex_config ex_hash ?y1 ex_issuing_system"
    by (simp add: ex_issuing_system_def)
  show ?thesis by (rule reachable_step) (rule y1, rule st2)
qed

lemma issued_ticket_replaces_older_credentials_witness:
  "token_key ex_paired (ex_hash (ex_credential (CHR ''T''))) = Some (ex_key ''s1'')
   \<and> token_key (snd (issue_finish ex_config ex_hash 5 (ex_credential (CHR ''U'')) (ex_key ''s1'')
       (ex_record ''s1'' ex_paired) ex_paired)) (ex_hash (ex_credential (CHR ''T''))) \<noteq> Some (ex_key ''s1'')"
proof -
  let ?x = "issue_finish ex_config ex_hash 5 (ex_credential (CHR ''U'')) (ex_key ''s1'')
       (ex_record ''s1'' ex_paired) (svc ex_issuing_system)"
  have "\<not> isl (fst ?x)" by code_simp
  then have ok: "?x = (Inr (projr (fst ?x)), snd ?x)" by (cases ?x) auto
  have pending: "TResume (Inr (ex_record ''s1'' ex_paired)) (CIssue (ex_key ''s1'')) \<in># tasks ex_issuing_system"
    by (simp add: ex_issuing_system_def)
  have new: "ex_hash (ex_credential (CHR ''U'')) \<notin> issued ex_issuing_system" "ex_hash (ex_credential (CHR ''U'')) \<noteq> []"
    by (simp_all add: ex_issuing_system_def ex_paired_system_def ex_hash_def ex_credential_def)
  note replaced = issued_ticket_replaces_older_credentials [where hash = ex_hash and t = "ex_credential (CHR ''U'')",
    OF ex_issuing_reachable pending new ok rtranclp.rtrancl_refl]
  have "svc ex_issuing_system = ex_paired" by (simp add: ex_issuing_system_def ex_paired_system_def)
  with replaced have "token_key (snd (issue_finish ex_config ex_hash 5 (ex_credential (CHR ''U'')) (ex_key ''s1'')
       (ex_record ''s1'' ex_paired) ex_paired)) (ex_hash (ex_credential (CHR ''T''))) \<noteq> Some (ex_key ''s1'')"
    by (elim conjE) simp
  moreover have "token_key ex_paired (ex_hash (ex_credential (CHR ''T''))) = Some (ex_key ''s1'')" by code_simp
  ultimately show ?thesis by blast
qed

text \<open>
  C5. While burns of one session do not overlap, every state of every run respects the quotas:
  no tenant has more sessions and reservations than its limit, and the host's sessions, memory,
  CPU shares and processes stay within its capacity. The configuration is any the constructor
  accepts.
\<close>

theorem quotas_respected:
  assumes "new_service opts = Inr cfg" and "service_reachable True cfg hash y"
  shows "within_quota cfg (svc y)"
  by (rule reachable_quota [OF assms(2) new_service_positive [OF assms(1)]])

definition ex_options :: service_options where
  "ex_options = \<lparr>opt_maximumSessionsPerTenant = None, opt_quota = None, opt_hostCapacity = None,
     opt_pairingTicketTTLSeconds = None, opt_signalingTokenTTLSeconds = None\<rparr>"

lemma ex_options_config: "new_service ex_options = Inr ex_config"
  by code_simp

theorem quotas_respected_witness:
  "within_quota ex_config (svc ex_system) \<and> tenantSessions ''acme'' (svc ex_system) = 1"
proof
  show "within_quota ex_config (svc ex_system)"
    by (rule quotas_respected [OF ex_options_config ex_system_reachable])
  show "tenantSessions ''acme'' (svc ex_system) = 1" by code_simp
qed

text \<open>
  Overlapping burns break the quota. A second burn of a session may start while the runtime
  is still being destroyed. If the first destruction succeeds the tenant may create a new
  session; when the second destruction then fails, \<open>burn\<close> lists the removed session again
  as failed, and the tenant holds two sessions under a limit of one.
\<close>

lemma overlapping_burns_exceed_quota:
  "\<exists>y. service_reachable False ex_config ex_hash y
     \<and> tenantSessions ''acme'' (svc y) = 2 \<and> maximumSessionsPerTenant ex_config = 1"
proof -
  let ?i1 = "{ex_hash (ex_credential (CHR ''A''))}"
  let ?b1 = "ex_burning ''s1'' ex_first"
  let ?d1 = "TDestroy (ex_key ''s1'') (ex_record ''s1'' ex_first)"
  let ?d2 = "TDestroy (ex_key ''s1'') (ex_record ''s1'' ?b1)"
  have "burn_start ex_ctx ''s1'' ex_first = (Inr (ex_record ''s1'' ex_first), ?b1)" by code_simp
  from ex_burn_reachable [OF ex_system_reachable [unfolded ex_system_def] this]
  have 1: "service_reachable False ex_config ex_hash
    \<lparr>svc = ?b1, tasks = {#?d1#}, used_ids = {''s1''}, issued = ?i1\<rparr>" by simp
  have "burn_start ex_ctx ''s1'' ?b1 = (Inr (ex_record ''s1'' ?b1), ex_burning ''s1'' ?b1)" by code_simp
  from ex_burn_reachable [OF 1 this]
  have "service_reachable False ex_config ex_hash
    \<lparr>svc = ex_burning ''s1'' ?b1, tasks = add_mset ?d1 {#?d2#}, used_ids = {''s1''}, issued = ?i1\<rparr>"
    by (simp add: add_mset_commute)
  from ex_destroyed_reachable [OF this, of "Inr ()"]
  have 2: "service_reachable False ex_config ex_hash
    \<lparr>svc = ex_burned_once, tasks = {#?d2#}, used_ids = {''s1''}, issued = ?i1\<rparr>"
    by (simp add: ex_burned_once_def)
  have "create_start ex_config ex_ctx ''s2'' ex_burned_once = Inr (ex_reserved ''s2'' ex_burned_once)" by code_simp
  then have 3: "service_reachable False ex_config ex_hash
    \<lparr>svc = ex_second, tasks = {#?d2#}, used_ids = {''s2'', ''s1''},
     issued = insert (ex_hash (ex_credential (CHR ''B''))) ?i1\<rparr>"
    using ex_create_reachable [OF 2, of "''s2''" "CHR ''B''"]
    by (simp add: ex_second_def) (simp add: ex_hash_def ex_credential_def)
  from ex_destroyed_reachable [OF 3, of "Inl (PlainError ''docker'')"]
  have "service_reachable False ex_config ex_hash
    \<lparr>svc = ex_resurrected, tasks = {#}, used_ids = {''s2'', ''s1''},
     issued = insert (ex_hash (ex_credential (CHR ''B''))) ?i1\<rparr>"
    by (simp add: ex_resurrected_def)
  moreover have "tenantSessions ''acme'' ex_resurrected = 2" by code_simp
  ultimately show ?thesis by (intro exI) (auto simp: ex_config_def)
qed

subsection \<open>Single methods\<close>

lemma observed_running:
  "jm_get (sessions s) key = Some r \<Longrightarrow> rec_phase (snd r) = Active \<Longrightarrow> inspect (rec_runtime (snd r)) = Inr Running \<Longrightarrow>
   observeRuntime inspect key r s = (Inr r, s)"
  by (simp add: observeRuntime_def observe_start_def observe_finish_def)

text \<open>
  Observing a failed runtime. When the runtime of the listed, active session is found
  failed, the session is listed as failed with the runtime's message, its credentials are gone,
  its connections are revoked and nothing else changes. When the session was replaced or removed
  meanwhile, the observation changes nothing.
\<close>

lemma observed_failure_revokes:
  assumes inv: "service_inv cfg s"
    and res: "observe_finish key r (Inr (RuntimeFailed f)) s = (res, s')"
  shows "(if jm_get (sessions s) key = None then res = Inl sessionNotFound \<and> s' = s
     else let current = the (jm_get (sessions s) key) in
       if fst current \<noteq> fst r \<or> rec_phase (snd current) \<noteq> Active then res = Inr current \<and> s' = s
       else (\<exists>n. jm_get (sessions s') key = Some (n, (snd r)\<lparr>rec_phase := Failed, rec_failure := Some f\<rparr>))
         \<and> \<not> has_credentials s' key
         \<and> (\<forall>h. ticket_key s' h \<noteq> Some key \<and> token_key s' h \<noteq> Some key)
         \<and> revocations s' = revocations s @ [rec_id (snd r)] \<and> reservations s' = reservations s
         \<and> (\<forall>k. k \<noteq> key \<longrightarrow> jm_get (sessions s') k = jm_get (sessions s) k
             \<and> has_credentials s' k = has_credentials s k))"
proof (cases "jm_get (sessions s) key")
  case None
  with res show ?thesis by (auto simp: observe_finish_def)
next
  case (Some current)
  show ?thesis
  proof (cases "fst current \<noteq> fst r \<or> rec_phase (snd current) \<noteq> Active")
    case True
    with res Some show ?thesis by (auto simp: observe_finish_def Let_def)
  next
    case False
    let ?f = "(next_ref s, (snd r)\<lparr>rec_phase := Failed, rec_failure := Some f\<rparr>)"
    have s': "s' = (revokeCredentials key s)\<lparr>revocations := revocations s @ [rec_id (snd r)],
        sessions := jm_set key ?f (sessions s), next_ref := Suc (next_ref s)\<rparr>"
      using res Some False by (simp add: observe_finish_def Let_def revokeSignalingConnections_def split: if_splits)
    have "ticket_key s' h \<noteq> Some key \<and> token_key s' h \<noteq> Some key" for h
      unfolding s' by (simp add: revoke_ticket_key [OF inv] revoke_token_key [OF inv])
    moreover have "has_credentials s' k = (k \<noteq> key \<and> has_credentials s k)" for k
      by (simp add: s' revoke_has)
    ultimately show ?thesis using Some False by (simp add: Let_def s')
  qed
qed

lemma observed_failure_revokes_witness:
  "\<not> has_credentials (snd (observe_finish (ex_key ''s1'') (ex_record ''s1'' ex_paired)
     (Inr (RuntimeFailed ''exited'')) ex_paired)) (ex_key ''s1'')
   \<and> has_credentials ex_paired (ex_key ''s1'')"
proof -
  have inv: "service_inv ex_config ex_paired"
    using reachable_service_inv [OF ex_paired_reachable] by (simp add: ex_paired_system_def)
  let ?x = "observe_finish (ex_key ''s1'') (ex_record ''s1'' ex_paired) (Inr (RuntimeFailed ''exited'')) ex_paired"
  have "?x = (fst ?x, snd ?x)" by simp
  note seen = observed_failure_revokes [OF inv this]
  have "jm_has (sessions ex_paired) (ex_key ''s1'')" by code_simp
  then have "jm_get (sessions ex_paired) (ex_key ''s1'') \<noteq> None" by (simp only: jm_has_get not_False_eq_True)
  moreover have "the (jm_get (sessions ex_paired) (ex_key ''s1'')) = ex_record ''s1'' ex_paired"
    by (simp add: ex_record_def)
  moreover have "rec_phase (snd (ex_record ''s1'' ex_paired)) = Active" by code_simp
  ultimately have "\<not> has_credentials (snd ?x) (ex_key ''s1'')"
    using seen by (simp only: if_False Let_def simp_thms)
  moreover have "has_credentials ex_paired (ex_key ''s1'')" by code_simp
  ultimately show ?thesis by simp
qed

text \<open>
  A creation that the runtime rejects leaves the service exactly as it was: the reservation
  is given back, no session, ticket or token exists that did not before, and the error is the
  runtime's own.
\<close>

lemma failed_create_restores_service:
  assumes "rt_create (create_request cfg ctx sid) = Inl e" and "jm_get (reservations s) sid = None"
  shows "create_session cfg hash now ca t sid rt_create ctx s =
    (Inl (case create_start cfg ctx sid s of Inl e' \<Rightarrow> e' | Inr _ \<Rightarrow> e), s)"
proof (cases "create_start cfg ctx sid s")
  case (Inl e')
  then show ?thesis by (simp add: create_session_def)
next
  case (Inr s')
  with create_start_Inr [OF Inr] assms show ?thesis
    by (simp add: create_session_def create_finish_def delete_reservation_def jm_delete_set_absent)
qed

lemma failed_create_restores_service_witness:
  "create_session ex_config ex_hash 0 ''t0'' (ex_credential (CHR ''A'')) ''s1'' (\<lambda>_. Inl (PlainError ''docker'')) ex_ctx
     empty_service = (Inl (PlainError ''docker''), empty_service)"
proof -
  have "create_start ex_config ex_ctx ''s1'' empty_service = Inr (ex_reserved ''s1'' empty_service)" by code_simp
  moreover have "jm_get (reservations empty_service) ''s1'' = None" by (simp add: empty_service_def)
  ultimately show ?thesis
    using failed_create_restores_service [of "\<lambda>_. Inl (PlainError ''docker'')" ex_config ex_ctx "''s1''" "PlainError ''docker''"]
    by simp
qed

text \<open>
  An expired credential opens nothing, and presenting it consumes it: at or after its
  expiry, exchanging a ticket and authorising a token fail with the same error as an unknown
  credential, and the credential is no longer stored.
\<close>

lemma expired_credentials_rejected:
  shows "(\<forall>b. jm_get (pairingTickets s) (hash t) = Some b \<longrightarrow> cb_expiresAt b \<le> now \<longrightarrow> is_credential t \<longrightarrow>
      (case exchange_start hash now t s of (res, s') \<Rightarrow>
         res = Inl invalidSignalingCredential \<and> jm_get (pairingTickets s') (hash t) = None))
    \<and> (\<forall>b. jm_get (signalingTokens s) (hash t) = Some b \<longrightarrow> cb_expiresAt b \<le> now \<longrightarrow> is_credential t \<longrightarrow>
      (case authorize_start hash now t s of (res, s') \<Rightarrow>
         res = Inl invalidSignalingCredential \<and> jm_get (signalingTokens s') (hash t) = None))"
  by (auto simp: exchange_start_def authorize_start_def hashPresentedCredential_def Let_def
      clear_pairing_ticket_def forget_token_def split: option.splits prod.splits)

lemma expired_credentials_rejected_witness:
  "fst (exchange_start ex_hash 60000 (ex_credential (CHR ''A'')) ex_first) = Inl invalidSignalingCredential
   \<and> \<not> isl (fst (exchange_start ex_hash 59999 (ex_credential (CHR ''A'')) ex_first))"
proof -
  have "jm_get (pairingTickets ex_first) (ex_hash (ex_credential (CHR ''A''))) =
     Some \<lparr>cb_sessionKey = ex_key ''s1'', cb_expiresAt = 60000\<rparr>" by code_simp
  moreover have "is_credential (ex_credential (CHR ''A''))" by code_simp
  ultimately have "fst (exchange_start ex_hash 60000 (ex_credential (CHR ''A'')) ex_first) = Inl invalidSignalingCredential"
    using conjunct1 [OF expired_credentials_rejected [of ex_first ex_hash "ex_credential (CHR ''A'')" 60000]]
    by (auto split: prod.splits)
  moreover have "\<not> isl (fst (exchange_start ex_hash 59999 (ex_credential (CHR ''A'')) ex_first))" by code_simp
  ultimately show ?thesis by blast
qed

text \<open>
  C6. Pairing end to end: the ticket a creation returns, exchanged before it expires while the
  runtime is running, yields a token, and that token, authorised before it expires, yields
  exactly the created session, its tenant and its runtime.
\<close>

theorem pairing_end_to_end:
  assumes credentials: "is_credential t" "is_credential u"
    and time: "now1 < now + pairingTicketTTLSeconds cfg * 1000" "now3 < now2 + signalingTokenTTLSeconds cfg * 1000"
    and up: "inspect rt = Inr Running"
    and create: "create_finish cfg hash now ca t ctx sid (Inr rt) s = (x, s1)"
    and exchange: "exchangeSignalingTicket cfg hash now1 now2 u inspect t s1 = (y, s2)"
    and authorize: "authorizeSignalingToken hash now3 inspect u s2 = (z, s3)"
  shows "y = Inr \<lparr>signalingToken = u, tokenExpiresInSeconds = signalingTokenTTLSeconds cfg\<rparr>
    \<and> z = Inr \<lparr>auth_sessionId = sid, auth_tenantId = ctx_tenantId ctx, auth_runtime = rt\<rparr>"
proof -
  let ?k = "session_key (ctx_tenantId ctx) sid"
  let ?r = "\<lparr>rec_id = sid, rec_tenantId = ctx_tenantId ctx, rec_phase = Active, rec_createdAt = ca,
      rec_quota = quota cfg, rec_runtime = rt, rec_failure = None\<rparr>"
  have s1: "jm_get (sessions s1) ?k = Some (next_ref s, ?r)"
    "jm_get (pairingTickets s1) (hash t) =
       Some \<lparr>cb_sessionKey = ?k, cb_expiresAt = now + pairingTicketTTLSeconds cfg * 1000\<rparr>"
    "jm_get (credentialsBySession s1) ?k =
       Some (Suc (next_ref s), \<lparr>pairingTicketHash = Some (hash t), signalingTokenHashes = []\<rparr>)"
    by (simp_all add: create_finish_ok(2) [OF create] delete_reservation_def rotateSignalingTicket_def
        install_session_def Let_def)
  let ?b = "\<lparr>cb_sessionKey = ?k, cb_expiresAt = now + pairingTicketTTLSeconds cfg * 1000\<rparr>"
  define s1' where "s1' = clear_pairing_ticket ?k (hash t) (s1\<lparr>pairingTickets := jm_delete (hash t) (pairingTickets s1)\<rparr>)"
  have cleared: "jm_get (sessions s1') ?k = Some (next_ref s, ?r)"
    "jm_get (credentialsBySession s1') ?k =
       Some (Suc (next_ref s), \<lparr>pairingTicketHash = None, signalingTokenHashes = []\<rparr>)"
    using s1 by (simp_all add: s1'_def clear_pairing_ticket_def)
  have start: "exchange_start hash now1 t s1 = (Inr (?b, Suc (next_ref s), (next_ref s, ?r)), s1')"
    using s1 cleared credentials time
    by (simp add: exchange_start_def hashPresentedCredential_def Let_def s1'_def [symmetric])
  have "observeRuntime inspect ?k (next_ref s, ?r) s1' = (Inr (next_ref s, ?r), s1')"
    using cleared up by (intro observed_running) simp_all
  with start exchange have fin: "exchange_finish cfg hash now2 u ?b (Suc (next_ref s)) (next_ref s, ?r) s1' = (y, s2)"
    by (simp add: exchangeSignalingTicket_def)
  let ?b2 = "\<lparr>cb_sessionKey = ?k, cb_expiresAt = now2 + signalingTokenTTLSeconds cfg * 1000\<rparr>"
  from fin cleared have y: "y = Inr \<lparr>signalingToken = u, tokenExpiresInSeconds = signalingTokenTTLSeconds cfg\<rparr>"
    and s2: "jm_get (sessions s2) ?k = Some (next_ref s, ?r)" "jm_get (signalingTokens s2) (hash u) = Some ?b2"
    by (auto simp: exchange_finish_def Let_def)
  define s2' where "s2' = forget_token ?k (hash u) (s2\<lparr>signalingTokens := jm_delete (hash u) (signalingTokens s2)\<rparr>)"
  have here: "jm_get (sessions s2') ?k = Some (next_ref s, ?r)"
    using s2 by (simp add: s2'_def forget_token_def split: option.splits prod.splits)
  have "authorize_start hash now3 u s2 = (Inr (?b2, (next_ref s, ?r)), s2')"
    using s2 here credentials time
    by (simp add: authorize_start_def hashPresentedCredential_def Let_def s2'_def [symmetric])
  moreover have "observeRuntime inspect ?k (next_ref s, ?r) s2' = (Inr (next_ref s, ?r), s2')"
    using here up by (intro observed_running) simp_all
  ultimately show ?thesis using authorize y by (auto simp: authorizeSignalingToken_def authorize_finish_def)
qed

theorem pairing_end_to_end_witness:
  "let (x, s1) = create_finish ex_config ex_hash 0 ''t0'' (ex_credential (CHR ''A'')) ex_ctx ''s1'' (Inr ex_runtime) empty_service;
       (y, s2) = exchangeSignalingTicket ex_config ex_hash 1 2 (ex_credential (CHR ''T'')) (\<lambda>_. Inr Running) (ex_credential (CHR ''A'')) s1;
       (z, s3) = authorizeSignalingToken ex_hash 3 (\<lambda>_. Inr Running) (ex_credential (CHR ''T'')) s2
   in z = Inr \<lparr>auth_sessionId = ''s1'', auth_tenantId = ''acme'', auth_runtime = ex_runtime\<rparr>"
proof -
  have cred: "is_credential (ex_credential (CHR ''A''))" "is_credential (ex_credential (CHR ''T''))" by code_simp+
  have time: "(1 :: int) < 0 + pairingTicketTTLSeconds ex_config * 1000" "(3 :: int) < 2 + signalingTokenTTLSeconds ex_config * 1000"
    by (simp_all add: ex_config_def)
  obtain x s1 where c: "create_finish ex_config ex_hash 0 ''t0'' (ex_credential (CHR ''A'')) ex_ctx ''s1'' (Inr ex_runtime)
      empty_service = (x, s1)" by fastforce
  obtain y s2 where e: "exchangeSignalingTicket ex_config ex_hash 1 2 (ex_credential (CHR ''T'')) (\<lambda>_. Inr Running)
      (ex_credential (CHR ''A'')) s1 = (y, s2)" by fastforce
  obtain z s3 where a: "authorizeSignalingToken ex_hash 3 (\<lambda>_. Inr Running) (ex_credential (CHR ''T'')) s2 = (z, s3)"
    by fastforce
  show ?thesis
    using pairing_end_to_end [OF cred time refl c e a] by (simp add: c e a) (simp add: ex_ctx_def)
qed

lemma burn_session_frame:
  assumes inv: "service_inv cfg s" and s': "s' = snd (burn_session destroy ctx sid s)"
    and k: "k \<noteq> session_key (ctx_tenantId ctx) sid"
  shows "jm_get (sessions s') k = jm_get (sessions s) k"
    and "ticket_key s h = Some k \<Longrightarrow> ticket_key s' h = Some k"
    and "token_key s h = Some k \<Longrightarrow> token_key s' h = Some k"
proof -
  let ?k = "session_key (ctx_tenantId ctx) sid"
  have "jm_get (sessions s') k = jm_get (sessions s) k
    \<and> (ticket_key s' = ticket_key s \<or> ticket_key s' = ticket_key (revokeCredentials ?k s))
    \<and> (token_key s' = token_key s \<or> token_key s' = token_key (revokeCredentials ?k s))"
    using k by (simp add: s' burn_session_def burn_start_def burn_finish_def Let_def revokeSignalingConnections_def
        split: option.splits sum.splits prod.splits)
  with k show "jm_get (sessions s') k = jm_get (sessions s) k"
    and "ticket_key s h = Some k \<Longrightarrow> ticket_key s' h = Some k"
    and "token_key s h = Some k \<Longrightarrow> token_key s' h = Some k"
    by (auto simp: revoke_ticket_key [OF inv] revoke_token_key [OF inv] forget_key_def)
qed

text \<open>
  Tenant isolation. Whatever identifier a tenant names, the service finds only a session of
  that tenant with that very identifier, and the tenant's burn leaves every session, ticket and
  token of every other tenant as it was. Tenant names are those that authentication accepts.
\<close>

lemma tenants_are_isolated:
  assumes inv: "service_inv cfg s" and safe: "is_safe_identifier (ctx_tenantId ctx)"
  shows "(\<forall>r. lookup_session ctx sid s = Inr r \<longrightarrow>
      rec_tenantId (snd r) = ctx_tenantId ctx \<and> rec_id (snd r) = sid)
    \<and> (\<forall>k r. jm_get (sessions s) k = Some r \<longrightarrow> rec_tenantId (snd r) \<noteq> ctx_tenantId ctx \<longrightarrow>
        jm_get (sessions (snd (burn_session destroy ctx sid s))) k = Some r
        \<and> (\<forall>h. ticket_key s h = Some k \<longrightarrow> ticket_key (snd (burn_session destroy ctx sid s)) h = Some k)
        \<and> (\<forall>h. token_key s h = Some k \<longrightarrow> token_key (snd (burn_session destroy ctx sid s)) h = Some k))"
proof -
  let ?k = "session_key (ctx_tenantId ctx) sid"
  have own: "rec_tenantId (snd r) = ctx_tenantId ctx \<and> rec_id (snd r) = sid" if "jm_get (sessions s) ?k = Some r" for r
    by (rule record_key_id [OF record_okD [OF inv that] is_safe_identifier_no_colon [OF safe]])
  have "rec_tenantId (snd r) = ctx_tenantId ctx \<and> rec_id (snd r) = sid" if "lookup_session ctx sid s = Inr r" for r
    using own that by (simp add: lookup_session_def split: option.splits)
  moreover have "k \<noteq> ?k" if "jm_get (sessions s) k = Some r" "rec_tenantId (snd r) \<noteq> ctx_tenantId ctx" for k r
    using own that by blast
  moreover have "jm_get (sessions (snd (burn_session destroy ctx sid s))) k = Some r
      \<and> (\<forall>h. ticket_key s h = Some k \<longrightarrow> ticket_key (snd (burn_session destroy ctx sid s)) h = Some k)
      \<and> (\<forall>h. token_key s h = Some k \<longrightarrow> token_key (snd (burn_session destroy ctx sid s)) h = Some k)"
    if "jm_get (sessions s) k = Some r" "k \<noteq> ?k" for k r
    using burn_session_frame [OF inv refl that(2), where destroy = destroy] that(1) by simp
  ultimately show ?thesis by blast
qed

definition ex_other :: tenant_context where
  "ex_other = \<lparr>ctx_tenantId = ''globex'', ctx_subject = ''user''\<rparr>"

lemma tenants_are_isolated_witness:
  "jm_get (sessions (snd (burn_session (\<lambda>_. Inr ()) ex_other ''s1'' ex_paired))) (ex_key ''s1'')
     = Some (ex_record ''s1'' ex_paired)"
proof -
  have inv: "service_inv ex_config ex_paired"
    using reachable_service_inv [OF ex_paired_reachable] by (simp add: ex_paired_system_def)
  have safe: "is_safe_identifier (ctx_tenantId ex_other)" by code_simp
  have "jm_get (sessions ex_paired) (ex_key ''s1'') = Some (ex_record ''s1'' ex_paired)" by code_simp
  moreover have "rec_tenantId (snd (ex_record ''s1'' ex_paired)) \<noteq> ctx_tenantId ex_other" by code_simp
  ultimately show ?thesis using tenants_are_isolated [OF inv safe] by blast
qed

end
