(* ===== verification/TabSpec.thy ===== *)
theory TabSpec
  imports Types
begin

text \<open>
  What the tabs of a session promise, whichever component keeps them: a list of tabs in
  creation order, of which exactly one is active. The locale \<open>tab_store\<close> is the contract;
  the in-memory runtime and the tab controller of the session supervisor both interpret it.
\<close>

datatype tab_command =
    CreateTab string string string
  | ActivateTab string
  | NavigateTab string string
  | RemoveTab string

definition tab_ids :: "tab_view list \<Rightarrow> string list" where
  "tab_ids vs = map tab_id vs"

definition activate_only :: "string \<Rightarrow> tab_view list \<Rightarrow> tab_view list" where
  "activate_only i vs = map (\<lambda>v. v\<lparr>tab_active := (tab_id v = i)\<rparr>) vs"

definition find_tab :: "string \<Rightarrow> tab_view list \<Rightarrow> tab_view option" where
  "find_tab i vs = find (\<lambda>v. tab_id v = i) vs"

fun first_active :: "tab_view list \<Rightarrow> tab_view list" where
  "first_active [] = []"
| "first_active (v # vs) = v\<lparr>tab_active := True\<rparr> # vs"

text \<open>
  The abstract commands. \<open>CreateTab i url at\<close> appends an active tab and deactivates the
  others; \<open>None\<close> is refusal, which must leave the tabs alone.
\<close>

fun tab_spec :: "nat \<Rightarrow> tab_command \<Rightarrow> tab_view list \<Rightarrow> tab_view list option" where
  "tab_spec limit (CreateTab i url at) vs =
     (if limit \<le> length vs then None
      else Some (map (\<lambda>v. v\<lparr>tab_active := False\<rparr>) vs
        @ [\<lparr>tab_id = i, tab_url = url, tab_createdAt = at, tab_active = True\<rparr>]))"
| "tab_spec limit (ActivateTab i) vs =
     (if i \<notin> set (tab_ids vs) then None else Some (activate_only i vs))"
| "tab_spec limit (NavigateTab i url) vs =
     (if i \<notin> set (tab_ids vs) then None
      else Some (map (\<lambda>v. if tab_id v = i then v\<lparr>tab_url := url\<rparr> else v) vs))"
| "tab_spec limit (RemoveTab i) vs =
     (if i \<notin> set (tab_ids vs) \<or> length vs = 1 then None
      else
        let rest = filter (\<lambda>v. tab_id v \<noteq> i) vs in
        Some (if list_ex (\<lambda>v. tab_id v = i \<and> tab_active v) vs then first_active rest else rest))"

fun fresh_tab :: "tab_view list \<Rightarrow> tab_command \<Rightarrow> bool" where
  "fresh_tab vs (CreateTab i url at) = (i \<notin> set (tab_ids vs))"
| "fresh_tab vs c = True"

definition tabs_ok :: "nat \<Rightarrow> tab_view list \<Rightarrow> bool" where
  "tabs_ok limit vs \<longleftrightarrow> 1 \<le> length vs \<and> length vs \<le> limit \<and> distinct (tab_ids vs)
     \<and> length (filter tab_active vs) = 1"

lemma tab_ids_simps [simp]:
  "tab_ids [] = []" "tab_ids (v # vs) = tab_id v # tab_ids vs" "tab_ids (vs @ ws) = tab_ids vs @ tab_ids ws"
  "length (tab_ids vs) = length vs"
  by (simp_all add: tab_ids_def)

lemma tab_ids_map [simp]: "(\<And>v. tab_id (f v) = tab_id v) \<Longrightarrow> tab_ids (map f vs) = tab_ids vs"
  by (simp add: tab_ids_def)

lemma tab_ids_activate [simp]: "tab_ids (activate_only i vs) = tab_ids vs"
  by (simp add: activate_only_def)

lemma tab_ids_first [simp]: "tab_ids (first_active vs) = tab_ids vs"
  by (cases vs) simp_all

lemma filter_deactivated [simp]: "filter tab_active (map (\<lambda>v. v\<lparr>tab_active := False\<rparr>) vs) = []"
  by (induction vs) simp_all

lemma one_active_selected:
  "distinct (tab_ids vs) \<Longrightarrow> i \<in> set (tab_ids vs) \<Longrightarrow> length (filter tab_active (activate_only i vs)) = 1"
proof (induction vs)
  case (Cons v vs)
  have none: "filter tab_active (activate_only i vs) = []" if "i \<notin> set (tab_ids vs)"
    using that unfolding activate_only_def tab_ids_def by (induction vs) auto
  show ?case
  proof (cases "tab_id v = i")
    case True
    with Cons.prems none show ?thesis by (simp add: activate_only_def)
  next
    case False
    with Cons show ?thesis by (simp add: activate_only_def)
  qed
qed simp

lemma filter_active_url:
  "length (filter (tab_active \<circ> (\<lambda>v. if tab_id v = i then v\<lparr>tab_url := u\<rparr> else v)) vs)
   = length (filter tab_active vs)"
  by (induction vs) auto

lemma one_active_member:
  "length (filter tab_active vs) = 1 \<Longrightarrow> distinct (tab_ids vs) \<Longrightarrow> v \<in> set vs \<Longrightarrow> tab_active v \<Longrightarrow>
   filter tab_active (filter (\<lambda>w. tab_id w \<noteq> tab_id v) vs) = []"
proof (induction vs)
  case (Cons w vs)
  show ?case
  proof (cases "tab_active w")
    case True
    then have none: "filter tab_active vs = []" using Cons.prems by simp
    with Cons.prems True have "v = w" by (auto simp: filter_empty_conv)
    with none show ?thesis by (auto simp: filter_empty_conv)
  next
    case False
    with Cons.prems have v: "v \<in> set vs" by auto
    with Cons.prems have "tab_id w \<noteq> tab_id v" by (auto simp: tab_ids_def)
    with Cons False v show ?thesis by simp
  qed
qed simp

lemma inactive_removed:
  "\<not> list_ex (\<lambda>v. tab_id v = i \<and> tab_active v) vs \<Longrightarrow>
   filter tab_active (filter (\<lambda>v. tab_id v \<noteq> i) vs) = filter tab_active vs"
  by (induction vs) auto

lemma rest_nonempty: "distinct (tab_ids vs) \<Longrightarrow> length vs \<noteq> 1 \<Longrightarrow> vs \<noteq> [] \<Longrightarrow> filter (\<lambda>v. tab_id v \<noteq> i) vs \<noteq> []"
  by (cases vs; cases "tl vs") auto

lemma first_active_count:
  "filter tab_active vs = [] \<Longrightarrow> vs \<noteq> [] \<Longrightarrow> length (filter tab_active (first_active vs)) = 1"
  by (cases vs) (auto split: if_splits)

lemma tab_ids_filter: "distinct (tab_ids vs) \<Longrightarrow> distinct (tab_ids (filter P vs))"
  by (simp add: tab_ids_def distinct_map_filter)

lemma length_first_active [simp]: "length (first_active vs) = length vs"
  by (cases vs) simp_all

lemma tab_spec_shrinks:
  "tab_spec limit c vs = Some ws \<Longrightarrow> (\<And>i url at. c \<noteq> CreateTab i url at) \<Longrightarrow> length ws \<le> length vs"
  by (cases c) (auto simp: Let_def activate_only_def split: if_splits)

lemma tab_spec_ok:
  assumes ok: "tabs_ok limit vs" and fresh: "fresh_tab vs c" and spec: "tab_spec limit c vs = Some ws"
  shows "tabs_ok limit ws"
proof (cases c)
  case (CreateTab i url at)
  with assms show ?thesis by (auto simp: tabs_ok_def split: if_splits)
next
  case (ActivateTab i)
  with ok spec one_active_selected [of vs i] show ?thesis
    by (auto simp: tabs_ok_def activate_only_def split: if_splits)
next
  case (NavigateTab i url)
  with ok spec show ?thesis by (auto simp: tabs_ok_def filter_active_url split: if_splits)
next
  case (RemoveTab i)
  let ?rest = "filter (\<lambda>v. tab_id v \<noteq> i) vs"
  have one: "length (filter tab_active vs) = 1" and dist: "distinct (tab_ids vs)" and ne: "vs \<noteq> []"
    using ok by (auto simp: tabs_ok_def)
  have many: "length vs \<noteq> 1" using RemoveTab spec by (auto split: if_splits)
  note rest = rest_nonempty [OF dist many ne, of i]
  have "length ?rest \<le> length vs" by (rule length_filter_le)
  then have len: "length ?rest \<le> limit" using ok unfolding tabs_ok_def by linarith
  have pos: "Suc 0 \<le> length ?rest" using rest by (simp add: Suc_le_eq)
  show ?thesis
  proof (cases "list_ex (\<lambda>v. tab_id v = i \<and> tab_active v) vs")
    case True
    then obtain v where v: "v \<in> set vs" "tab_active v" "tab_id v = i" by (auto simp: list_ex_iff)
    with one_active_member [OF one dist v(1,2)] have "filter tab_active ?rest = []" by simp
    with True RemoveTab spec rest first_active_count [of ?rest] tab_ids_filter [OF dist] len pos show ?thesis
      by (auto simp: tabs_ok_def Let_def split: if_splits)
  next
    case False
    with RemoveTab spec one tab_ids_filter [OF dist] len pos inactive_removed [OF False] show ?thesis
      by (auto simp: tabs_ok_def Let_def split: if_splits)
  qed
qed

text \<open>
  The contract of a component that keeps the tabs. \<open>canon\<close> is what a command means once
  its URL has been checked and normalised, \<open>None\<close> when the URL is not accepted. A command
  that is answered does what the specification says; one that is refused leaves the tabs alone.
\<close>

locale tab_store =
  fixes limit :: nat
    and view :: "'s \<Rightarrow> tab_view list"
    and ready :: "'s \<Rightarrow> bool"
    and canon :: "tab_command \<Rightarrow> tab_command option"
    and run :: "tab_command \<Rightarrow> 's \<Rightarrow> bool \<times> 's"
  assumes run_done: "ready s \<Longrightarrow> canon c = Some d \<Longrightarrow> fresh_tab (view s) d \<Longrightarrow> run c s = (True, s') \<Longrightarrow>
      tab_spec limit d (view s) = Some (view s')"
    and run_refused: "ready s \<Longrightarrow> canon c = Some d \<Longrightarrow> fresh_tab (view s) d \<Longrightarrow> run c s = (False, s') \<Longrightarrow>
      view s' = view s"
    and run_ready: "ready s \<Longrightarrow> canon c = Some d \<Longrightarrow> fresh_tab (view s) d \<Longrightarrow> run c s = (b, s') \<Longrightarrow> ready s'"
begin

lemma run_ok:
  assumes "ready s" "canon c = Some d" "fresh_tab (view s) d" "tabs_ok limit (view s)"
  shows "tabs_ok limit (view (snd (run c s)))" and "ready (snd (run c s))"
proof -
  obtain b s' where r: "run c s = (b, s')" by fastforce
  show "tabs_ok limit (view (snd (run c s)))"
    using r assms run_done [of s c d s'] run_refused [of s c d s'] tab_spec_ok [of limit "view s" d "view s'"]
    by (cases b) simp_all
  show "ready (snd (run c s))" using r assms run_ready [of s c d b s'] by simp
qed

end

end
