(* ===== verification/RuntimeTabs.thy ===== *)
theory RuntimeTabs
  imports TabSpec
begin

text \<open>
  Class \<open>InMemoryRuntime\<close> of \<open>src/runtime/in-memory-runtime.ts\<close>: the adapter
  without containers. Random identifiers, the clock and the platform's URL parser are
  arguments. A tab map is mutated in place; the map of maps holds it under its container.
\<close>

record in_memory =
  resources :: "(string, runtime_resource) js_map"
  runtime_tabs :: "(string, (string, tab_view) js_map) js_map"

definition home_url :: string where
  "home_url = ''fireball://home''"

definition mem_tabNotFound :: thrown where
  "mem_tabNotFound = orch TAB_NOT_FOUND ''tab not found'' 404"

definition invalidTabUrl :: thrown where
  "invalidTabUrl = orch TAB_URL_INVALID ''tab URL is invalid'' 400"

definition web_url :: "parsed_url \<Rightarrow> bool" where
  "web_url u = ((url_protocol u = ''http:'' \<or> url_protocol u = ''https:'')
     \<and> url_username u = [] \<and> url_password u = [] \<and> url_hostname u \<noteq> [])"

definition validateTabUrl :: "url_parser \<Rightarrow> string \<Rightarrow> thrown + string" where
  "validateTabUrl parse value =
     (if value = home_url then Inr value
      else if byteLength value > 4096 then Inl invalidTabUrl
      else case parse value of
          None \<Rightarrow> Inl invalidTabUrl
        | Some url \<Rightarrow> if \<not> web_url url then Inl invalidTabUrl else Inr (url_href url))"

definition mem_create ::
  "string \<Rightarrow> string \<Rightarrow> string \<Rightarrow> string \<Rightarrow> create_runtime_request \<Rightarrow> in_memory \<Rightarrow> runtime_resource \<times> in_memory" where
  "mem_create nonce secret tabId createdAt request s =
     (let r = \<lparr>containerId = ''mock-'' @ nonce, containerName = ''fireball-'' @ req_sessionId request,
               networkNamespace = ''net-'' @ nonce, storageNamespace = ''tmpfs-'' @ nonce,
               signalingEndpoint = ''ws://127.0.0.1:1/internal/v1/signaling'',
               signalingSecret = secret,
               tabControlEndpoint = ''http://127.0.0.1:1/internal/v1/tabs''\<rparr>
      in (r, s\<lparr>resources := jm_set (containerId r) r (resources s),
              runtime_tabs := jm_set (containerId r)
                [(tabId, \<lparr>tab_id = tabId, tab_url = home_url, tab_createdAt = createdAt, tab_active = True\<rparr>)]
                (runtime_tabs s)\<rparr>))"

definition mem_destroy :: "runtime_resource \<Rightarrow> in_memory \<Rightarrow> in_memory" where
  "mem_destroy r s = s\<lparr>resources := jm_delete (containerId r) (resources s),
     runtime_tabs := jm_delete (containerId r) (runtime_tabs s)\<rparr>"

definition mem_inspect :: "runtime_resource \<Rightarrow> in_memory \<Rightarrow> runtime_inspection" where
  "mem_inspect r s = (if jm_has (resources s) (containerId r) then Running
     else RuntimeFailed ''runtime container is missing'')"

definition mem_reconcile :: "in_memory \<Rightarrow> reconciliation_result \<times> in_memory" where
  "mem_reconcile s =
     (let n = jm_size (resources s) in
      (\<lparr>containersRemoved = n, networksRemoved = n\<rparr>, \<lparr>resources = [], runtime_tabs = []\<rparr>))"

definition runtimeTabs :: "runtime_resource \<Rightarrow> in_memory \<Rightarrow> thrown + (string, tab_view) js_map" where
  "runtimeTabs r s =
     (case jm_get (runtime_tabs s) (containerId r) of
        None \<Rightarrow> Inl (orch TAB_RUNTIME_UNAVAILABLE ''tab runtime is unavailable'' 503)
      | Some tabs \<Rightarrow> Inr tabs)"

definition put_tabs :: "runtime_resource \<Rightarrow> (string, tab_view) js_map \<Rightarrow> in_memory \<Rightarrow> in_memory" where
  "put_tabs r tabs s = s\<lparr>runtime_tabs := jm_set (containerId r) tabs (runtime_tabs s)\<rparr>"

definition mem_listTabs :: "runtime_resource \<Rightarrow> in_memory \<Rightarrow> thrown + tab_view list" where
  "mem_listTabs r s = bind_result (runtimeTabs r s) (\<lambda>tabs. Inr (jm_values tabs))"

text \<open>\<open>for (const [id, tab] of tabs) tabs.set(id, f(id, tab))\<close>: setting an existing key while
  iterating neither adds nor moves an entry.\<close>

definition update_each :: "('k \<Rightarrow> 'v \<Rightarrow> 'v) \<Rightarrow> ('k, 'v) js_map \<Rightarrow> ('k, 'v) js_map" where
  "update_each f tabs = map (\<lambda>(i, v). (i, f i v)) tabs"

text \<open>The other tabs are deactivated before the new tab's URL is checked.\<close>

definition mem_createTab ::
  "url_parser \<Rightarrow> string \<Rightarrow> string \<Rightarrow> runtime_resource \<Rightarrow> string option \<Rightarrow> in_memory
   \<Rightarrow> (thrown + tab_view) \<times> in_memory" where
  "mem_createTab parse tabId createdAt r url s =
     (case runtimeTabs r s of
        Inl e \<Rightarrow> (Inl e, s)
      | Inr tabs \<Rightarrow>
          if jm_size tabs \<ge> 4
          then (Inl (orch TAB_LIMIT_REACHED ''session tab limit reached'' 409), s)
          else
            let inactive = update_each (\<lambda>_ tab. tab\<lparr>tab_active := False\<rparr>) tabs;
                s1 = put_tabs r inactive s
            in (case validateTabUrl parse (case url of None \<Rightarrow> home_url | Some u \<Rightarrow> u) of
                  Inl e \<Rightarrow> (Inl e, s1)
                | Inr href \<Rightarrow>
                    let tab = \<lparr>tab_id = tabId, tab_url = href, tab_createdAt = createdAt, tab_active = True\<rparr>
                    in (Inr tab, put_tabs r (jm_set tabId tab inactive) s1)))"

definition mem_activateTab ::
  "runtime_resource \<Rightarrow> string \<Rightarrow> in_memory \<Rightarrow> (thrown + tab_view) \<times> in_memory" where
  "mem_activateTab r tabId s =
     (case runtimeTabs r s of
        Inl e \<Rightarrow> (Inl e, s)
      | Inr tabs \<Rightarrow>
          (case jm_get tabs tabId of
             None \<Rightarrow> (Inl mem_tabNotFound, s)
           | Some selected \<Rightarrow>
               (Inr (selected\<lparr>tab_active := True\<rparr>),
                put_tabs r (update_each (\<lambda>i tab. tab\<lparr>tab_active := (i = tabId)\<rparr>) tabs) s)))"

definition mem_navigateTab ::
  "url_parser \<Rightarrow> runtime_resource \<Rightarrow> string \<Rightarrow> string \<Rightarrow> in_memory \<Rightarrow> (thrown + tab_view) \<times> in_memory" where
  "mem_navigateTab parse r tabId url s =
     (case runtimeTabs r s of
        Inl e \<Rightarrow> (Inl e, s)
      | Inr tabs \<Rightarrow>
          (case jm_get tabs tabId of
             None \<Rightarrow> (Inl mem_tabNotFound, s)
           | Some previous \<Rightarrow>
               (case validateTabUrl parse url of
                  Inl e \<Rightarrow> (Inl e, s)
                | Inr href \<Rightarrow>
                    let tab = previous\<lparr>tab_url := href\<rparr> in (Inr tab, put_tabs r (jm_set tabId tab tabs) s))))"

text \<open>With at least two tabs, one is left to activate when the active tab is deleted.\<close>

definition mem_deleteTab :: "runtime_resource \<Rightarrow> string \<Rightarrow> in_memory \<Rightarrow> (thrown + unit) \<times> in_memory" where
  "mem_deleteTab r tabId s =
     (case runtimeTabs r s of
        Inl e \<Rightarrow> (Inl e, s)
      | Inr tabs \<Rightarrow>
          (case jm_get tabs tabId of
             None \<Rightarrow> (Inl mem_tabNotFound, s)
           | Some selected \<Rightarrow>
               if jm_size tabs = 1
               then (Inl (orch TAB_MINIMUM_REACHED ''a session must retain one tab'' 409), s)
               else
                 let rest = jm_delete tabId tabs in
                 if \<not> tab_active selected then (Inr (), put_tabs r rest s)
                 else (case rest of
                     [] \<Rightarrow> (Inl (PlainError ''undefined is not iterable''), put_tabs r rest s)
                   | (fallbackId, fallback) # _ \<Rightarrow>
                       (Inr (), put_tabs r (jm_set fallbackId (fallback\<lparr>tab_active := True\<rparr>) rest) s))))"

subsection \<open>The tabs of one runtime\<close>

definition mem_view :: "runtime_resource \<Rightarrow> in_memory \<Rightarrow> tab_view list" where
  "mem_view r s = (case jm_get (runtime_tabs s) (containerId r) of None \<Rightarrow> [] | Some tabs \<Rightarrow> jm_values tabs)"

text \<open>Every tab is stored under its own identifier.\<close>

definition keyed :: "(string, tab_view) js_map \<Rightarrow> bool" where
  "keyed tabs = (jm_wf tabs \<and> list_all (\<lambda>(i, v). tab_id v = i) tabs)"

definition mem_ready :: "runtime_resource \<Rightarrow> in_memory \<Rightarrow> bool" where
  "mem_ready r s = (case jm_get (runtime_tabs s) (containerId r) of None \<Rightarrow> False | Some tabs \<Rightarrow> keyed tabs)"

fun mem_canon :: "url_parser \<Rightarrow> tab_command \<Rightarrow> tab_command option" where
  "mem_canon parse (CreateTab i url at) =
     (case validateTabUrl parse url of Inr href \<Rightarrow> Some (CreateTab i href at) | Inl _ \<Rightarrow> None)"
| "mem_canon parse (NavigateTab i url) =
     (case validateTabUrl parse url of Inr href \<Rightarrow> Some (NavigateTab i href) | Inl _ \<Rightarrow> None)"
| "mem_canon parse c = Some c"

fun mem_run :: "url_parser \<Rightarrow> runtime_resource \<Rightarrow> tab_command \<Rightarrow> in_memory \<Rightarrow> bool \<times> in_memory" where
  "mem_run parse r (CreateTab i url at) s = (case mem_createTab parse i at r (Some url) s of (res, s') \<Rightarrow> (\<not> isl res, s'))"
| "mem_run parse r (ActivateTab i) s = (case mem_activateTab r i s of (res, s') \<Rightarrow> (\<not> isl res, s'))"
| "mem_run parse r (NavigateTab i url) s = (case mem_navigateTab parse r i url s of (res, s') \<Rightarrow> (\<not> isl res, s'))"
| "mem_run parse r (RemoveTab i) s = (case mem_deleteTab r i s of (res, s') \<Rightarrow> (\<not> isl res, s'))"

lemma jm_values_simps [simp]: "jm_values [] = []" "jm_values ((k, v) # m) = v # jm_values m"
  by (simp_all add: jm_values_def)

lemma jm_size_values: "jm_size m = length (jm_values m)"
  by (simp add: jm_size_def jm_values_def)

lemma jm_values_fresh: "jm_get m k = None \<Longrightarrow> jm_values (jm_set k v m) = jm_values m @ [v]"
  by (induction m) (auto simp: jm_set_def jm_get_def jm_values_def split: if_splits)

lemma keyed_ids: "keyed tabs \<Longrightarrow> tab_ids (jm_values tabs) = jm_keys tabs"
  by (auto simp: keyed_def tab_ids_def jm_values_def jm_keys_def list_all_iff)

lemma keyed_get: "keyed tabs \<Longrightarrow> jm_get tabs i = None \<longleftrightarrow> i \<notin> set (tab_ids (jm_values tabs))"
  by (simp add: keyed_ids jm_get_def map_of_eq_None_iff jm_keys_def)

lemma keyed_get_Some: "keyed tabs \<Longrightarrow> jm_get tabs i = Some v \<Longrightarrow> tab_id v = i \<and> v \<in> set (jm_values tabs)"
  using jm_value_mem [of tabs i v] by (auto simp: keyed_def jm_get_def list_all_iff dest: map_of_SomeD)

lemma keyed_update: "keyed tabs \<Longrightarrow> (\<And>i v. tab_id (f i v) = tab_id v) \<Longrightarrow> keyed (update_each f tabs)"
  by (auto simp: keyed_def jm_wf_def update_each_def list_all_iff comp_def case_prod_beta)

lemma update_each_values:
  "keyed tabs \<Longrightarrow> jm_values (update_each f tabs) = map (\<lambda>v. f (tab_id v) v) (jm_values tabs)"
  by (auto simp: keyed_def jm_values_def update_each_def list_all_iff)

lemma jm_set_list_all: "list_all P m \<Longrightarrow> P (k, v) \<Longrightarrow> list_all P (jm_set k v m)"
  unfolding jm_set_def by (induction m) auto

lemma keyed_set: "keyed tabs \<Longrightarrow> tab_id v = i \<Longrightarrow> keyed (jm_set i v tabs)"
  by (simp add: keyed_def jm_set_list_all)

lemma keyed_Cons: "keyed ((i, v) # tabs) \<Longrightarrow> tab_id v = i \<and> keyed tabs \<and> i \<notin> set (tab_ids (jm_values tabs))"
proof -
  assume k: "keyed ((i, v) # tabs)"
  then have rest: "keyed tabs" by (simp add: keyed_def jm_wf_def)
  from k show ?thesis by (simp add: keyed_ids [OF rest]) (simp add: keyed_def jm_wf_def jm_keys_def)
qed

lemma keyed_delete: "keyed tabs \<Longrightarrow> keyed (jm_delete i tabs)"
  by (auto simp: keyed_def list_all_iff jm_delete_def)
    (metis jm_delete_def jm_wf_delete)

lemma delete_values: "keyed tabs \<Longrightarrow> jm_values (jm_delete i tabs) = filter (\<lambda>v. tab_id v \<noteq> i) (jm_values tabs)"
  by (induction tabs) (auto simp: keyed_def jm_wf_def jm_delete_def jm_values_def)

lemma keyed_distinct: "keyed tabs \<Longrightarrow> distinct (tab_ids (jm_values tabs))"
  by (simp add: keyed_ids) (simp add: keyed_def jm_wf_def jm_keys_def)

lemma keyed_unique:
  assumes k: "keyed tabs" and get: "jm_get tabs i = Some v" and w: "w \<in> set (jm_values tabs)" "tab_id w = i"
  shows "w = v"
proof -
  have "inj_on tab_id (set (jm_values tabs))"
    using keyed_distinct [OF k] by (simp add: tab_ids_def distinct_map)
  with keyed_get_Some [OF k get] w show ?thesis by (auto dest: inj_onD)
qed

lemma set_values:
  "keyed tabs \<Longrightarrow> jm_get tabs i = Some u \<Longrightarrow>
   jm_values (jm_set i v tabs) = map (\<lambda>w. if tab_id w = i then v else w) (jm_values tabs)"
proof (induction tabs)
  case (Cons p tabs)
  obtain k w where p: "p = (k, w)" by (cases p)
  have rest: "keyed tabs" using Cons.prems by (auto simp: keyed_def jm_wf_def p)
  show ?case
  proof (cases "k = i")
    case True
    have "tab_id x \<noteq> i" if "x \<in> set (jm_values tabs)" for x
      using that keyed_Cons [OF Cons.prems(1) [unfolded p]] True unfolding tab_ids_def by (metis imageI set_map)
    then have "map (\<lambda>w. if tab_id w = i then v else w) (jm_values tabs) = jm_values tabs"
      by (simp add: map_idI)
    with True Cons.prems show ?thesis by (simp add: p jm_set_def keyed_def)
  next
    case False
    with Cons rest show ?thesis by (auto simp: p jm_set_def keyed_def jm_get_def)
  qed
qed simp

subsection \<open>The in-memory runtime keeps the tab contract\<close>

lemma mem_readyD:
  assumes "mem_ready r s"
  obtains tabs where "jm_get (runtime_tabs s) (containerId r) = Some tabs" "keyed tabs" "mem_view r s = jm_values tabs"
    "runtimeTabs r s = Inr tabs"
  using assms by (auto simp: mem_ready_def mem_view_def runtimeTabs_def split: option.splits)

lemma put_tabs_view [simp]: "mem_view r (put_tabs r tabs s) = jm_values tabs"
  by (simp add: mem_view_def put_tabs_def)

lemma put_tabs_ready [simp]: "mem_ready r (put_tabs r tabs s) = keyed tabs"
  by (simp add: mem_ready_def put_tabs_def)

lemma mem_create_refines:
  assumes ready: "mem_ready r s" and url: "validateTabUrl parse url = Inr href"
    and fresh: "i \<notin> set (tab_ids (mem_view r s))"
  shows "case mem_createTab parse i at r (Some url) s of
      (Inl e, s') \<Rightarrow> s' = s \<and> tab_spec 4 (CreateTab i href at) (mem_view r s) = None
    | (Inr tab, s') \<Rightarrow> mem_ready r s' \<and> tab_spec 4 (CreateTab i href at) (mem_view r s) = Some (mem_view r s')"
proof -
  obtain tabs where t: "keyed tabs" "mem_view r s = jm_values tabs" "runtimeTabs r s = Inr tabs"
    using ready by (rule mem_readyD)
  let ?off = "update_each (\<lambda>_ tab. tab\<lparr>tab_active := False\<rparr>) tabs"
  have off: "keyed ?off" "jm_values ?off = map (\<lambda>v. v\<lparr>tab_active := False\<rparr>) (jm_values tabs)"
    using t(1) by (simp_all add: keyed_update update_each_values)
  have "jm_get ?off i = None" using fresh t by (simp add: keyed_get [OF off(1)] off(2))
  with t url off show ?thesis
    by (simp add: mem_createTab_def Let_def jm_size_values keyed_set jm_values_fresh)
qed

lemma mem_activate_refines:
  assumes ready: "mem_ready r s"
  shows "case mem_activateTab r i s of
      (Inl e, s') \<Rightarrow> s' = s \<and> tab_spec 4 (ActivateTab i) (mem_view r s) = None
    | (Inr tab, s') \<Rightarrow> mem_ready r s' \<and> tab_spec 4 (ActivateTab i) (mem_view r s) = Some (mem_view r s')"
proof -
  obtain tabs where t: "keyed tabs" "mem_view r s = jm_values tabs" "runtimeTabs r s = Inr tabs"
    using ready by (rule mem_readyD)
  with keyed_get [OF t(1), of i] show ?thesis
    by (auto simp: mem_activateTab_def keyed_update update_each_values activate_only_def split: option.splits)
qed

lemma mem_navigate_refines:
  assumes ready: "mem_ready r s" and url: "validateTabUrl parse url = Inr href"
  shows "case mem_navigateTab parse r i url s of
      (Inl e, s') \<Rightarrow> s' = s \<and> tab_spec 4 (NavigateTab i href) (mem_view r s) = None
    | (Inr tab, s') \<Rightarrow> mem_ready r s' \<and> tab_spec 4 (NavigateTab i href) (mem_view r s) = Some (mem_view r s')"
proof -
  obtain tabs where t: "keyed tabs" "mem_view r s = jm_values tabs" "runtimeTabs r s = Inr tabs"
    using ready by (rule mem_readyD)
  show ?thesis
  proof (cases "jm_get tabs i")
    case None
    with t keyed_get [OF t(1), of i] show ?thesis by (simp add: mem_navigateTab_def)
  next
    case (Some v)
    have v: "tab_id v = i" "v \<in> set (jm_values tabs)" using keyed_get_Some [OF t(1) Some] by simp_all
    have "map (\<lambda>w. if tab_id w = i then v\<lparr>tab_url := href\<rparr> else w) (jm_values tabs)
        = map (\<lambda>w. if tab_id w = i then w\<lparr>tab_url := href\<rparr> else w) (jm_values tabs)"
      using keyed_unique [OF t(1) Some] by auto
    with t url Some v keyed_get [OF t(1), of i] show ?thesis
      by (simp add: mem_navigateTab_def Let_def keyed_set set_values [OF t(1) Some])
  qed
qed

lemma activate_head_values:
  "keyed ((k, w) # rest) \<Longrightarrow>
   jm_values (jm_set k (w\<lparr>tab_active := True\<rparr>) ((k, w) # rest)) = first_active (jm_values ((k, w) # rest))"
  by (simp add: jm_set_def)

lemma mem_delete_refines:
  assumes ready: "mem_ready r s"
  shows "case mem_deleteTab r i s of
      (Inl e, s') \<Rightarrow> s' = s \<and> tab_spec 4 (RemoveTab i) (mem_view r s) = None
    | (Inr tab, s') \<Rightarrow> mem_ready r s' \<and> tab_spec 4 (RemoveTab i) (mem_view r s) = Some (mem_view r s')"
proof -
  obtain tabs where t: "keyed tabs" "mem_view r s = jm_values tabs" "runtimeTabs r s = Inr tabs"
    using ready by (rule mem_readyD)
  show ?thesis
  proof (cases "jm_get tabs i")
    case None
    with t keyed_get [OF t(1), of i] show ?thesis by (simp add: mem_deleteTab_def)
  next
    case (Some v)
    note v = keyed_get_Some [OF t(1) Some]
    note dist = keyed_distinct [OF t(1)]
    have mem: "i \<in> set (tab_ids (jm_values tabs))" using v by (auto simp: tab_ids_def)
    have act: "list_ex (\<lambda>w. tab_id w = i \<and> tab_active w) (jm_values tabs) = tab_active v"
      using v keyed_unique [OF t(1) Some] unfolding list_ex_iff by blast
    let ?rest = "jm_delete i tabs"
    have rest: "keyed ?rest" "jm_values ?rest = filter (\<lambda>w. tab_id w \<noteq> i) (jm_values tabs)"
      using t(1) by (simp_all add: keyed_delete delete_values)
    show ?thesis
    proof (cases "jm_size tabs = 1")
      case True
      with t Some show ?thesis by (simp add: mem_deleteTab_def jm_size_values)
    next
      case many: False
      have "jm_values tabs \<noteq> []" using v by auto
      then have "jm_values ?rest \<noteq> []"
        using rest_nonempty [OF dist, of i] many by (simp add: rest jm_size_values)
      then obtain k w rs where cons: "?rest = (k, w) # rs"
        by (cases ?rest) auto
      have first: "jm_values (jm_set k (w\<lparr>tab_active := True\<rparr>) ((k, w) # rs)) = first_active (jm_values ?rest)"
        using rest(1) unfolding cons by (rule activate_head_values)
      have "keyed (jm_set k (w\<lparr>tab_active := True\<rparr>) ((k, w) # rs))"
        using rest(1) keyed_Cons [of k w rs] unfolding cons by (intro keyed_set) simp_all
      moreover have "first_active (filter (\<lambda>w. tab_id w \<noteq> i) (jm_values tabs)) = w\<lparr>tab_active := True\<rparr> # jm_values rs"
        unfolding rest(2) [symmetric] by (simp add: cons)
      ultimately show ?thesis
        using t Some many mem act first rest cons
        by (simp add: mem_deleteTab_def Let_def jm_size_values)
    qed
  qed
qed

interpretation mem_store: tab_store 4 "mem_view r" "mem_ready r" "mem_canon parse" "mem_run parse r"
  for parse r
proof
  fix s c d s' b
  assume ready: "mem_ready r s" and canon: "mem_canon parse c = Some d" and fresh: "fresh_tab (mem_view r s) d"
  have main: "(case mem_run parse r c s of
      (True, s') \<Rightarrow> mem_ready r s' \<and> tab_spec 4 d (mem_view r s) = Some (mem_view r s')
    | (False, s') \<Rightarrow> s' = s)"
  proof (cases c)
    case (CreateTab i url at)
    with canon obtain href where u: "validateTabUrl parse url = Inr href" "d = CreateTab i href at"
      by (auto split: sum.splits)
    with mem_create_refines [OF ready u(1), of i at] fresh CreateTab show ?thesis
      by (auto split: prod.splits sum.splits)
  next
    case (ActivateTab i)
    with canon mem_activate_refines [OF ready, of i] show ?thesis by (auto split: prod.splits sum.splits)
  next
    case (NavigateTab i url)
    with canon obtain href where u: "validateTabUrl parse url = Inr href" "d = NavigateTab i href"
      by (auto split: sum.splits)
    with mem_navigate_refines [OF ready u(1), of i] NavigateTab show ?thesis
      by (auto split: prod.splits sum.splits)
  next
    case (RemoveTab i)
    with canon mem_delete_refines [OF ready, of i] show ?thesis by (auto split: prod.splits sum.splits)
  qed
  show "mem_run parse r c s = (True, s') \<Longrightarrow> tab_spec 4 d (mem_view r s) = Some (mem_view r s')"
    and "mem_run parse r c s = (False, s') \<Longrightarrow> mem_view r s' = mem_view r s"
    and "mem_run parse r c s = (b, s') \<Longrightarrow> mem_ready r s'"
    using main ready by (auto split: bool.splits)
qed

end
