(* ===== verification/TabControl.thy ===== *)
theory TabControl
  imports RuntimeTabs
begin

text \<open>
  \<open>session/tab-control.mjs\<close>: the tab controller of the session supervisor, the driver of
  the native tab runtime with its line protocol, and the URL rules. The URL parser, random
  identifiers and the clock are arguments. \<open>undefined\<close> is \<open>None\<close>.
\<close>

subsection \<open>URLs\<close>

datatype tab_control_error = TabControlError string string | ControlFailure string

definition INTERNAL_HOME :: string where
  "INTERNAL_HOME = ''file:///usr/share/fireball-session/home.html''"

definition PUBLIC_HOME :: string where
  "PUBLIC_HOME = ''fireball://home''"

definition MAXIMUM_URL_BYTES :: nat where
  "MAXIMUM_URL_BYTES = 4096"

definition urlInvalid :: tab_control_error where
  "urlInvalid = TabControlError ''TAB_URL_INVALID'' ''tab URL is invalid''"

definition normalizeTabUrl :: "url_parser \<Rightarrow> string option \<Rightarrow> tab_control_error + string" where
  "normalizeTabUrl parse value =
     (case value of
        None \<Rightarrow> Inr INTERNAL_HOME
      | Some v \<Rightarrow>
          if v = PUBLIC_HOME \<or> v = INTERNAL_HOME then Inr INTERNAL_HOME
          else if byteLength v > MAXIMUM_URL_BYTES then Inl urlInvalid
          else case parse v of
              None \<Rightarrow> Inl urlInvalid
            | Some u \<Rightarrow> if \<not> web_url u then Inl urlInvalid else Inr (url_href u))"

definition publicTabUrl :: "string \<Rightarrow> string" where
  "publicTabUrl url = (if url = INTERNAL_HOME then PUBLIC_HOME else url)"

definition encodeUrl :: "url_parser \<Rightarrow> string \<Rightarrow> tab_control_error + string" where
  "encodeUrl parse url =
     (case normalizeTabUrl parse (Some url) of Inl e \<Rightarrow> Inl e | Inr u \<Rightarrow> Inr (to_hex (utf8 u)))"

subsection \<open>TabController\<close>

record tab_entry =
  entry_id :: string
  entry_url :: string
  entry_createdAt :: string

record tab_controller =
  controller_tabs :: "(string, tab_entry) js_map"
  activeTabId :: string
  maximumTabs :: nat

definition new_controller ::
  "string \<Rightarrow> string \<Rightarrow> number \<Rightarrow> string \<Rightarrow> tab_control_error + tab_controller" where
  "new_controller initialId initialUrl maxTabs createdAt =
     (case maxTabs of
        Integer n \<Rightarrow>
          if \<not> isSafeInteger maxTabs \<or> n < 1 \<or> n > 8
          then Inl (ControlFailure ''maximum tabs must be between 1 and 8'')
          else Inr \<lparr>controller_tabs =
              [(initialId, \<lparr>entry_id = initialId, entry_url = publicTabUrl initialUrl, entry_createdAt = createdAt\<rparr>)],
            activeTabId = initialId, maximumTabs = nat n\<rparr>
      | NonInteger \<Rightarrow> Inl (ControlFailure ''maximum tabs must be between 1 and 8''))"

definition with_active :: "bool \<Rightarrow> tab_entry \<Rightarrow> tab_view" where
  "with_active b t = \<lparr>tab_id = entry_id t, tab_url = entry_url t, tab_createdAt = entry_createdAt t, tab_active = b\<rparr>"

definition list_tabs :: "tab_controller \<Rightarrow> tab_view list" where
  "list_tabs c = map (\<lambda>t. with_active (entry_id t = activeTabId c) t) (jm_values (controller_tabs c))"

definition controller_tab :: "string \<Rightarrow> tab_controller \<Rightarrow> tab_control_error + tab_entry" where
  "controller_tab i c =
     (case jm_get (controller_tabs c) i of
        None \<Rightarrow> Inl (TabControlError ''TAB_NOT_FOUND'' ''tab not found'')
      | Some t \<Rightarrow> Inr t)"

text \<open>
  The driver a controller is given: each call resolves or rejects. The controller's operations
  are queued by \<open>#serialize\<close>, so each runs to its end before the next starts.
\<close>

record tab_driver =
  drive_create :: "string \<Rightarrow> string \<Rightarrow> tab_control_error + unit"
  drive_activate :: "string \<Rightarrow> tab_control_error + unit"
  drive_navigate :: "string \<Rightarrow> string \<Rightarrow> tab_control_error + unit"
  drive_remove :: "string \<Rightarrow> string \<Rightarrow> tab_control_error + unit"

definition controller_create ::
  "url_parser \<Rightarrow> tab_driver \<Rightarrow> string \<Rightarrow> string \<Rightarrow> string option \<Rightarrow> tab_controller
   \<Rightarrow> (tab_control_error + tab_view) \<times> tab_controller" where
  "controller_create parse driver uuid createdAt url c =
     (if jm_size (controller_tabs c) \<ge> maximumTabs c
      then (Inl (TabControlError ''TAB_LIMIT_REACHED'' ''session tab limit reached''), c)
      else case normalizeTabUrl parse url of
          Inl e \<Rightarrow> (Inl e, c)
        | Inr runtimeUrl \<Rightarrow>
            (case drive_create driver uuid runtimeUrl of
               Inl e \<Rightarrow> (Inl e, c)
             | Inr _ \<Rightarrow>
                 let t = \<lparr>entry_id = uuid, entry_url = publicTabUrl runtimeUrl, entry_createdAt = createdAt\<rparr>
                 in (Inr (with_active True t),
                     c\<lparr>controller_tabs := jm_set uuid t (controller_tabs c), activeTabId := uuid\<rparr>)))"

definition controller_activate ::
  "tab_driver \<Rightarrow> string \<Rightarrow> tab_controller \<Rightarrow> (tab_control_error + tab_view) \<times> tab_controller" where
  "controller_activate driver i c =
     (case controller_tab i c of
        Inl e \<Rightarrow> (Inl e, c)
      | Inr t \<Rightarrow>
          if i = activeTabId c then (Inr (with_active True t), c)
          else case drive_activate driver i of
              Inl e \<Rightarrow> (Inl e, c)
            | Inr _ \<Rightarrow> (Inr (with_active True t), c\<lparr>activeTabId := i\<rparr>))"

definition controller_navigate ::
  "url_parser \<Rightarrow> tab_driver \<Rightarrow> string \<Rightarrow> string option \<Rightarrow> tab_controller
   \<Rightarrow> (tab_control_error + tab_view) \<times> tab_controller" where
  "controller_navigate parse driver i url c =
     (case controller_tab i c of
        Inl e \<Rightarrow> (Inl e, c)
      | Inr previous \<Rightarrow>
          (case normalizeTabUrl parse url of
             Inl e \<Rightarrow> (Inl e, c)
           | Inr runtimeUrl \<Rightarrow>
               (case drive_navigate driver i runtimeUrl of
                  Inl e \<Rightarrow> (Inl e, c)
                | Inr _ \<Rightarrow>
                    let t = previous\<lparr>entry_url := publicTabUrl runtimeUrl\<rparr>
                    in (Inr (with_active (i = activeTabId c) t),
                        c\<lparr>controller_tabs := jm_set i t (controller_tabs c)\<rparr>))))"

text \<open>
  \<open>[...keys()].find(candidate => candidate !== id)\<close>. With two tabs it is never
  \<open>undefined\<close>; the empty string stands for that case.
\<close>

definition fallback_tab :: "string \<Rightarrow> tab_controller \<Rightarrow> string" where
  "fallback_tab i c =
     (if i = activeTabId c
      then (case find (\<lambda>k. k \<noteq> i) (jm_keys (controller_tabs c)) of None \<Rightarrow> [] | Some k \<Rightarrow> k)
      else activeTabId c)"

definition controller_remove ::
  "tab_driver \<Rightarrow> string \<Rightarrow> tab_controller \<Rightarrow> (tab_control_error + unit) \<times> tab_controller" where
  "controller_remove driver i c =
     (case controller_tab i c of
        Inl e \<Rightarrow> (Inl e, c)
      | Inr _ \<Rightarrow>
          if jm_size (controller_tabs c) = 1
          then (Inl (TabControlError ''TAB_MINIMUM_REACHED'' ''a session must retain one tab''), c)
          else case drive_remove driver i (fallback_tab i c) of
              Inl e \<Rightarrow> (Inl e, c)
            | Inr _ \<Rightarrow>
                (Inr (), c\<lparr>activeTabId := fallback_tab i c, controller_tabs := jm_delete i (controller_tabs c)\<rparr>))"

subsection \<open>NativeTabDriver\<close>

datatype driver_outcome = Resolved | Rejected tab_control_error

datatype ready_state = ReadyPending | ReadyResolved | ReadyRejected string

text \<open>
  \<open>settled\<close> lists the promises returned to callers in the order they settle;
  \<open>written\<close> is what reached the child's standard input, \<open>child_gone\<close> says that the
  child has an exit code or signal, \<open>killed\<close> counts the SIGTERMs.
\<close>

record native_driver =
  pending :: "string list"
  nextRequest :: nat
  ready_promise :: ready_state
  settled :: "(string \<times> driver_outcome) list"
  written :: "string list"
  stdin_destroyed :: bool
  child_gone :: bool
  killed :: nat

definition new_driver :: native_driver where
  "new_driver = \<lparr>pending = [], nextRequest = 1, ready_promise = ReadyPending, settled = [], written = [],
     stdin_destroyed = False, child_gone = False, killed = 0\<rparr>"

definition settle_ready :: "ready_state \<Rightarrow> native_driver \<Rightarrow> native_driver" where
  "settle_ready r d = (if ready_promise d = ReadyPending then d\<lparr>ready_promise := r\<rparr> else d)"

definition runtime_unavailable :: tab_control_error where
  "runtime_unavailable = TabControlError ''TAB_RUNTIME_UNAVAILABLE'' ''tab runtime is unavailable''"

definition command_line :: "string \<Rightarrow> string \<Rightarrow> string list \<Rightarrow> string" where
  "command_line type request args = type @ '' '' @ request @ '' '' @ join_with '' '' args @ [CHR 0x0A]"

definition command :: "string \<Rightarrow> string list \<Rightarrow> native_driver \<Rightarrow> (tab_control_error + string) \<times> native_driver" where
  "command type args d =
     (if child_gone d \<or> stdin_destroyed d then (Inl runtime_unavailable, d)
      else
        let request = show_nat (nextRequest d) in
        (Inr request,
         d\<lparr>nextRequest := Suc (nextRequest d), pending := pending d @ [request],
           written := written d @ [command_line type request args]\<rparr>))"

text \<open>The four commands; a URL that \<open>encodeUrl\<close> refuses throws before anything is written.\<close>

definition native_create :: "url_parser \<Rightarrow> string \<Rightarrow> string \<Rightarrow> native_driver \<Rightarrow> (tab_control_error + string) \<times> native_driver" where
  "native_create parse i url d =
     (case encodeUrl parse url of Inl e \<Rightarrow> (Inl e, d) | Inr h \<Rightarrow> command ''CREATE'' [i, h] d)"

definition native_activate :: "string \<Rightarrow> native_driver \<Rightarrow> (tab_control_error + string) \<times> native_driver" where
  "native_activate i d = command ''ACTIVATE'' [i] d"

definition native_navigate :: "url_parser \<Rightarrow> string \<Rightarrow> string \<Rightarrow> native_driver \<Rightarrow> (tab_control_error + string) \<times> native_driver" where
  "native_navigate parse i url d =
     (case encodeUrl parse url of Inl e \<Rightarrow> (Inl e, d) | Inr h \<Rightarrow> command ''NAVIGATE'' [i, h] d)"

definition native_remove :: "string \<Rightarrow> string \<Rightarrow> native_driver \<Rightarrow> (tab_control_error + string) \<times> native_driver" where
  "native_remove i fallback d = command ''DELETE'' [i, fallback] d"

definition driver_shutdown :: "native_driver \<Rightarrow> native_driver" where
  "driver_shutdown d = (if stdin_destroyed d then d
     else d\<lparr>written := written d @ [''SHUTDOWN 1'' @ [CHR 0x0A]]\<rparr>)"

definition settle :: "string \<Rightarrow> driver_outcome \<Rightarrow> native_driver \<Rightarrow> native_driver" where
  "settle request outcome d =
     d\<lparr>pending := filter (\<lambda>r. r \<noteq> request) (pending d), settled := settled d @ [(request, outcome)]\<rparr>"

text \<open>The timer of a request: cleared when the request settles, so it fires only while pending.\<close>

definition command_timeout :: "string \<Rightarrow> native_driver \<Rightarrow> native_driver" where
  "command_timeout request d =
     (if request \<notin> set (pending d) then d
      else settle request (Rejected (TabControlError ''TAB_RUNTIME_UNAVAILABLE'' ''tab runtime command timed out'')) d)"

text \<open>The callback of \<open>write\<close>: rejecting a promise that has settled does nothing.\<close>

definition write_failed :: "string \<Rightarrow> native_driver \<Rightarrow> native_driver" where
  "write_failed request d =
     (if request \<notin> set (pending d) then d
      else settle request (Rejected (TabControlError ''TAB_RUNTIME_UNAVAILABLE'' ''tab runtime command failed'')) d)"

definition driver_fail :: "string \<Rightarrow> native_driver \<Rightarrow> native_driver" where
  "driver_fail message d =
     (let d' = settle_ready (ReadyRejected message) d in
      d'\<lparr>settled := settled d' @ map (\<lambda>r. (r, Rejected runtime_unavailable)) (pending d'),
         pending := [], killed := (if child_gone d' then killed d' else Suc (killed d'))\<rparr>)"

datatype driver_line = ReadyLine string | OkLine string | ErrLine string | BadLine

definition is_uuid_text :: "string \<Rightarrow> bool" where
  "is_uuid_text s = (length s = 36 \<and> list_all (\<lambda>c. is_lower_hex c \<or> c = CHR ''-'') s)"

text \<open>The optional code of a response, \<open>(?: ([A-Z_]{3,64}))?\<close>.\<close>

definition is_response_tail :: "string \<Rightarrow> bool" where
  "is_response_tail s =
     (s = [] \<or> (hd s = CHR '' '' \<and> 4 \<le> length s \<and> length s \<le> 65
        \<and> list_all (\<lambda>c. is_upper c \<or> c = CHR ''_'') (tl s)))"

definition parse_response :: "(string \<Rightarrow> driver_line) \<Rightarrow> string \<Rightarrow> driver_line" where
  "parse_response result s =
     (let n = takeWhile is_digit s; rest = dropWhile is_digit s in
      if is_canonical_numeral 15 n \<and> is_response_tail rest then result n else BadLine)"

definition parse_line :: "string \<Rightarrow> driver_line" where
  "parse_line line =
     (if starts_with ''READY '' line \<and> is_uuid_text (drop 6 line) then ReadyLine (drop 6 line)
      else if starts_with ''OK '' line then parse_response OkLine (drop 3 line)
      else if starts_with ''ERR '' line then parse_response ErrLine (drop 4 line)
      else BadLine)"

definition handleLine :: "string \<Rightarrow> string \<Rightarrow> native_driver \<Rightarrow> native_driver" where
  "handleLine expectedInitialTabId line d =
     (case parse_line line of
        ReadyLine i \<Rightarrow>
          if i = expectedInitialTabId then settle_ready ReadyResolved d
          else settle_ready (ReadyRejected ''native tab runtime returned an unexpected initial tab'') d
      | BadLine \<Rightarrow> driver_fail ''native tab runtime returned malformed output'' d
      | OkLine n \<Rightarrow> if n \<notin> set (pending d) then d else settle n Resolved d
      | ErrLine n \<Rightarrow>
          if n \<notin> set (pending d) then d
          else settle n (Rejected (TabControlError ''TAB_RUNTIME_FAILURE'' ''tab runtime rejected the operation'')) d)"

text \<open>The timer of \<open>waitUntilReady\<close>.\<close>

definition ready_timeout :: "native_driver \<Rightarrow> native_driver" where
  "ready_timeout d = settle_ready (ReadyRejected ''native tab runtime readiness timed out'') d"

text \<open>Everything that can happen to a driver, in any order.\<close>

inductive driver_step :: "string \<Rightarrow> native_driver \<Rightarrow> native_driver \<Rightarrow> bool" for expected :: string where
  do_command: "driver_step expected d (snd (command type args d))"
| do_line: "driver_step expected d (handleLine expected line d)"
| do_timeout: "driver_step expected d (command_timeout request d)"
| do_write_failed: "driver_step expected d (write_failed request d)"
| do_fail: "driver_step expected d (driver_fail message d)"
| do_exit: "driver_step expected d (driver_fail message (d\<lparr>child_gone := True\<rparr>))"
| do_destroy: "driver_step expected d (d\<lparr>stdin_destroyed := True\<rparr>)"
| do_shutdown: "driver_step expected d (driver_shutdown d)"
| do_ready_timeout: "driver_step expected d (ready_timeout d)"

inductive_cases driver_stepE: "driver_step expected d e"

subsection \<open>The controller keeps the tab contract\<close>

definition entries_keyed :: "(string, tab_entry) js_map \<Rightarrow> bool" where
  "entries_keyed m = (jm_wf m \<and> list_all (\<lambda>(i, t). entry_id t = i) m)"

definition controller_ready :: "nat \<Rightarrow> tab_controller \<Rightarrow> bool" where
  "controller_ready limit c = (entries_keyed (controller_tabs c) \<and> jm_has (controller_tabs c) (activeTabId c)
     \<and> maximumTabs c = limit)"

fun controller_canon :: "url_parser \<Rightarrow> tab_command \<Rightarrow> tab_command option" where
  "controller_canon parse (CreateTab i url at) =
     (case normalizeTabUrl parse (Some url) of Inr u \<Rightarrow> Some (CreateTab i (publicTabUrl u) at) | Inl _ \<Rightarrow> None)"
| "controller_canon parse (NavigateTab i url) =
     (case normalizeTabUrl parse (Some url) of Inr u \<Rightarrow> Some (NavigateTab i (publicTabUrl u)) | Inl _ \<Rightarrow> None)"
| "controller_canon parse c = Some c"

fun controller_run :: "url_parser \<Rightarrow> tab_driver \<Rightarrow> tab_command \<Rightarrow> tab_controller \<Rightarrow> bool \<times> tab_controller" where
  "controller_run parse driver (CreateTab i url at) c =
     (case controller_create parse driver i at (Some url) c of (res, c') \<Rightarrow> (\<not> isl res, c'))"
| "controller_run parse driver (ActivateTab i) c = (case controller_activate driver i c of (res, c') \<Rightarrow> (\<not> isl res, c'))"
| "controller_run parse driver (NavigateTab i url) c =
     (case controller_navigate parse driver i (Some url) c of (res, c') \<Rightarrow> (\<not> isl res, c'))"
| "controller_run parse driver (RemoveTab i) c = (case controller_remove driver i c of (res, c') \<Rightarrow> (\<not> isl res, c'))"

text \<open>
  A run of the controller: each command comes with what the native runtime answers to it, which
  may differ from one command to the next. An omitted URL is \<open>PUBLIC_HOME\<close>, the default.
\<close>

fun controller_runs :: "url_parser \<Rightarrow> (tab_driver \<times> tab_command) list \<Rightarrow> tab_controller \<Rightarrow> tab_controller" where
  "controller_runs parse [] c = c"
| "controller_runs parse ((driver, cmd) # cmds) c = controller_runs parse cmds (snd (controller_run parse driver cmd c))"

lemma with_active_simps [simp]:
  "tab_id (with_active b t) = entry_id t" "tab_url (with_active b t) = entry_url t"
  "tab_createdAt (with_active b t) = entry_createdAt t" "tab_active (with_active b t) = b"
  "(with_active b t)\<lparr>tab_active := b'\<rparr> = with_active b' t"
  "(with_active b t)\<lparr>tab_url := u\<rparr> = with_active b (t\<lparr>entry_url := u\<rparr>)"
  by (simp_all add: with_active_def)

lemma list_ids: "tab_ids (list_tabs c) = map entry_id (jm_values (controller_tabs c))"
  by (simp add: list_tabs_def tab_ids_def comp_def)

lemma entries_keys: "entries_keyed m \<Longrightarrow> map entry_id (jm_values m) = jm_keys m"
  by (auto simp: entries_keyed_def jm_values_def jm_keys_def list_all_iff)

lemma entries_get: "entries_keyed m \<Longrightarrow> jm_get m i = None \<longleftrightarrow> i \<notin> set (map entry_id (jm_values m))"
  by (simp only: entries_keys) (simp add: jm_get_def map_of_eq_None_iff jm_keys_def)

lemma entries_Cons: "entries_keyed ((i, t) # m) \<Longrightarrow> entry_id t = i \<and> entries_keyed m \<and> i \<notin> set (map entry_id (jm_values m))"
proof -
  assume k: "entries_keyed ((i, t) # m)"
  then have rest: "entries_keyed m" by (simp add: entries_keyed_def jm_wf_def)
  from k show ?thesis by (simp only: entries_keys [OF rest]) (simp add: entries_keyed_def jm_wf_def jm_keys_def)
qed

lemma entries_get_Some: "entries_keyed m \<Longrightarrow> jm_get m i = Some t \<Longrightarrow> entry_id t = i"
  by (auto simp: entries_keyed_def jm_get_def list_all_iff dest: map_of_SomeD)

lemma entries_set: "entries_keyed m \<Longrightarrow> entry_id t = i \<Longrightarrow> entries_keyed (jm_set i t m)"
  by (simp add: entries_keyed_def jm_set_list_all)

lemma entries_delete: "entries_keyed m \<Longrightarrow> entries_keyed (jm_delete i m)"
  by (auto simp: entries_keyed_def list_all_iff jm_delete_def) (metis jm_delete_def jm_wf_delete)

lemma entries_delete_values: "entries_keyed m \<Longrightarrow> jm_values (jm_delete i m) = filter (\<lambda>t. entry_id t \<noteq> i) (jm_values m)"
  by (induction m) (auto simp: entries_keyed_def jm_wf_def jm_delete_def jm_values_def)

lemma entries_set_values:
  "entries_keyed m \<Longrightarrow> jm_get m i = Some u \<Longrightarrow>
   jm_values (jm_set i (u\<lparr>entry_url := v\<rparr>) m) = map (\<lambda>w. if entry_id w = i then w\<lparr>entry_url := v\<rparr> else w) (jm_values m)"
proof (induction m)
  case (Cons p m)
  obtain k w where p: "p = (k, w)" by (cases p)
  note c = entries_Cons [OF Cons.prems(1) [unfolded p]]
  show ?case
  proof (cases "k = i")
    case True
    with c have "entry_id x \<noteq> i" if "x \<in> set (jm_values m)" for x
      using that by (metis imageI set_map)
    then have "map (\<lambda>w. if entry_id w = i then w\<lparr>entry_url := v\<rparr> else w) (jm_values m) = jm_values m"
      by (simp add: map_idI)
    with True Cons.prems c show ?thesis by (auto simp: p jm_set_def jm_get_def)
  next
    case False
    with Cons c show ?thesis by (auto simp: p jm_set_def jm_get_def)
  qed
qed simp

lemma controller_ids: "controller_ready n c \<Longrightarrow> controller_tab i c = Inl e \<Longrightarrow> i \<notin> set (tab_ids (list_tabs c))"
  by (auto simp: controller_ready_def controller_tab_def list_ids entries_get split: option.splits)

lemma controller_tab_Inr:
  "controller_ready n c \<Longrightarrow> controller_tab i c = Inr t \<Longrightarrow>
   jm_get (controller_tabs c) i = Some t \<and> entry_id t = i \<and> i \<in> set (tab_ids (list_tabs c))"
proof -
  assume r: "controller_ready n c" and t: "controller_tab i c = Inr t"
  then have k: "entries_keyed (controller_tabs c)" and g: "jm_get (controller_tabs c) i = Some t"
    by (auto simp: controller_ready_def controller_tab_def split: option.splits)
  from entries_get [OF k, of i] g show ?thesis by (simp add: entries_get_Some [OF k g] list_ids)
qed

lemma list_length: "length (list_tabs c) = jm_size (controller_tabs c)"
  by (simp add: list_tabs_def jm_size_values)

lemma controller_create_refines:
  assumes ready: "controller_ready n c" and url: "normalizeTabUrl parse (Some url) = Inr u"
    and fresh: "i \<notin> set (tab_ids (list_tabs c))"
  shows "case controller_create parse driver i at (Some url) c of
      (Inl e, c') \<Rightarrow> c' = c
    | (Inr tab, c') \<Rightarrow> controller_ready n c' \<and> tab_spec n (CreateTab i (publicTabUrl u) at) (list_tabs c) = Some (list_tabs c')"
proof -
  have k: "entries_keyed (controller_tabs c)" and m: "maximumTabs c = n"
    using ready by (simp_all add: controller_ready_def)
  have none: "jm_get (controller_tabs c) i = None" using fresh by (simp add: list_ids entries_get [OF k])
  have "entry_id t \<noteq> i" if "t \<in> set (jm_values (controller_tabs c))" for t
    using fresh that by (auto simp: list_ids)
  then show ?thesis
    using ready url m
    by (auto simp: controller_create_def Let_def controller_ready_def entries_set list_length
        list_tabs_def jm_values_fresh [OF none] jm_size_values split: sum.splits)
qed

lemma controller_activate_refines:
  assumes ready: "controller_ready n c"
  shows "case controller_activate driver i c of
      (Inl e, c') \<Rightarrow> c' = c
    | (Inr tab, c') \<Rightarrow> controller_ready n c' \<and> tab_spec n (ActivateTab i) (list_tabs c) = Some (list_tabs c')"
proof (cases "controller_tab i c")
  case (Inl e)
  then show ?thesis by (simp add: controller_activate_def)
next
  case (Inr t)
  note t = controller_tab_Inr [OF ready Inr]
  have act: "activate_only i (list_tabs c) = map (\<lambda>t. with_active (entry_id t = i) t) (jm_values (controller_tabs c))"
    by (simp add: activate_only_def list_tabs_def)
  with Inr t ready show ?thesis
    by (auto simp: controller_activate_def controller_ready_def jm_has_mem list_tabs_def split: sum.splits)
qed

lemma controller_navigate_refines:
  assumes ready: "controller_ready n c" and url: "normalizeTabUrl parse (Some url) = Inr u"
  shows "case controller_navigate parse driver i (Some url) c of
      (Inl e, c') \<Rightarrow> c' = c
    | (Inr tab, c') \<Rightarrow> controller_ready n c' \<and> tab_spec n (NavigateTab i (publicTabUrl u)) (list_tabs c) = Some (list_tabs c')"
proof (cases "controller_tab i c")
  case (Inl e)
  then show ?thesis by (simp add: controller_navigate_def)
next
  case (Inr t)
  note t = controller_tab_Inr [OF ready Inr]
  have k: "entries_keyed (controller_tabs c)" using ready by (simp add: controller_ready_def)
  let ?c = "c\<lparr>controller_tabs := jm_set i (t\<lparr>entry_url := publicTabUrl u\<rparr>) (controller_tabs c)\<rparr>"
  have "list_tabs ?c = map (\<lambda>v. if tab_id v = i then v\<lparr>tab_url := publicTabUrl u\<rparr> else v) (list_tabs c)"
    using entries_set_values [OF k, of i t "publicTabUrl u"] t by (simp add: list_tabs_def)
  moreover have "controller_ready n ?c" using ready t by (simp add: controller_ready_def entries_set)
  ultimately show ?thesis
    using Inr t url by (simp add: controller_navigate_def Let_def split: sum.splits)
qed

lemma entries_removed:
  "entries_keyed m \<Longrightarrow>
   filter (\<lambda>v. tab_id v \<noteq> i) (map (\<lambda>t. with_active (entry_id t = a) t) (jm_values m))
   = map (\<lambda>t. with_active (entry_id t = a) t) (jm_values (jm_delete i m))"
  by (simp add: entries_delete_values filter_map comp_def)

lemma distinct_constant:
  assumes "distinct (map f xs)" "xs \<noteq> []" "\<And>x. x \<in> set xs \<Longrightarrow> f x = i" shows "length xs = 1"
proof (cases xs)
  case (Cons a ys)
  show ?thesis
  proof (cases ys)
    case (Cons b zs)
    with \<open>xs = a # ys\<close> assms(1) assms(3) [of a] assms(3) [of b] show ?thesis by simp
  qed (simp add: Cons)
qed (simp add: assms)

lemma controller_remove_refines:
  assumes ready: "controller_ready n c"
  shows "case controller_remove driver i c of
      (Inl e, c') \<Rightarrow> c' = c
    | (Inr tab, c') \<Rightarrow> controller_ready n c' \<and> tab_spec n (RemoveTab i) (list_tabs c) = Some (list_tabs c')"
proof (cases "controller_tab i c")
  case (Inl e)
  then show ?thesis by (simp add: controller_remove_def)
next
  case (Inr t)
  note t = controller_tab_Inr [OF ready Inr]
  let ?m = "controller_tabs c" and ?f = "fallback_tab i c"
  have k: "entries_keyed ?m" using ready by (simp add: controller_ready_def)
  let ?c = "c\<lparr>activeTabId := ?f, controller_tabs := jm_delete i ?m\<rparr>"
  have goal: "controller_ready n ?c \<and> tab_spec n (RemoveTab i) (list_tabs c) = Some (list_tabs ?c)"
    if many: "jm_size ?m \<noteq> 1"
  proof (cases "i = activeTabId c")
    case False
    then have f: "?f = activeTabId c" by (simp add: fallback_tab_def)
    have "\<not> list_ex (\<lambda>v. tab_id v = i \<and> tab_active v) (list_tabs c)"
      using False by (auto simp: list_ex_iff list_tabs_def)
    then show ?thesis
      using many t ready False
      by (simp add: f Let_def list_length controller_ready_def entries_delete)
        (simp add: list_tabs_def entries_removed [OF k])
  next
    case True
    obtain w where w: "w \<in> set (jm_values ?m)" "entry_id w = i"
      using t by (auto simp: list_ids)
    have ne: "jm_delete i ?m \<noteq> []"
    proof
      assume "jm_delete i ?m = []"
      then have all: "entry_id x = i" if "x \<in> set (jm_values ?m)" for x
        using that entries_delete_values [OF k, of i, symmetric] by (simp add: filter_empty_conv)
      have "distinct (map entry_id (jm_values ?m))"
        using k by (simp only: entries_keys) (simp add: entries_keyed_def jm_wf_def jm_keys_def)
      moreover have "jm_values ?m \<noteq> []" using w by auto
      ultimately have "length (jm_values ?m) = 1"
        by (rule distinct_constant [where f = entry_id and i = i]) (rule all)
      with many show False by (simp add: jm_size_values)
    qed
    then obtain b y rest where rest: "jm_delete i ?m = (b, y) # rest" by (cases "jm_delete i ?m") auto
    have yk: "entry_id y = b" and out: "b \<notin> set (map entry_id (jm_values rest))"
      using entries_Cons [of b y rest] entries_delete [OF k, of i] rest by auto
    have "find (\<lambda>j. j \<noteq> i) (jm_keys m') = Some b" if "jm_delete i m' = (b, y) # rest" for m' :: "(string, tab_entry) js_map"
      using that by (induction m') (auto simp: jm_delete_def jm_keys_def split: if_splits)
    with rest True have f: "?f = b" by (simp add: fallback_tab_def)
    have "list_ex (\<lambda>v. tab_id v = i \<and> tab_active v) (list_tabs c)"
      using w True by (auto simp: list_ex_iff list_tabs_def)
    moreover have "first_active (filter (\<lambda>v. tab_id v \<noteq> i) (list_tabs c)) = list_tabs ?c"
    proof -
      have no: "entry_id x \<noteq> i" if "x \<in> set (jm_values (jm_delete i ?m))" for x
        using that by (simp add: entries_delete_values [OF k])
      have tail: "map (\<lambda>t. with_active (entry_id t = i) t) (jm_values rest)
          = map (\<lambda>t. with_active (entry_id t = b) t) (jm_values rest)"
      proof (rule map_cong [OF refl])
        fix x assume x: "x \<in> set (jm_values rest)"
        then have "entry_id x \<noteq> b" using out by (metis imageI set_map)
        with no [of x] x rest show "with_active (entry_id x = i) x = with_active (entry_id x = b) x" by simp
      qed
      show ?thesis
        using tail yk by (simp add: list_tabs_def f entries_removed [OF k] rest True [symmetric])
    qed
    ultimately show ?thesis
      using many t ready f rest yk entries_delete [OF k, of i]
      by (simp add: Let_def list_length controller_ready_def entries_delete) (simp add: jm_has_def)
  qed
  with Inr show ?thesis by (simp add: controller_remove_def split: sum.splits)
qed

interpretation controller_store: tab_store n list_tabs "controller_ready n" "controller_canon parse" "controller_run parse driver"
  for n parse driver
proof
  fix s c d s' b
  assume ready: "controller_ready n s" and canon: "controller_canon parse c = Some d" and fresh: "fresh_tab (list_tabs s) d"
  have main: "(case controller_run parse driver c s of
      (True, s') \<Rightarrow> controller_ready n s' \<and> tab_spec n d (list_tabs s) = Some (list_tabs s')
    | (False, s') \<Rightarrow> s' = s)"
  proof (cases c)
    case (CreateTab i url at)
    with canon obtain u where u: "normalizeTabUrl parse (Some url) = Inr u" "d = CreateTab i (publicTabUrl u) at"
      by (auto split: sum.splits)
    with controller_create_refines [OF ready u(1), where driver = driver and i = i and at = at] fresh CreateTab show ?thesis
      by (auto split: prod.splits sum.splits)
  next
    case (ActivateTab i)
    with canon controller_activate_refines [OF ready, where driver = driver and i = i] show ?thesis by (auto split: prod.splits sum.splits)
  next
    case (NavigateTab i url)
    with canon obtain u where u: "normalizeTabUrl parse (Some url) = Inr u" "d = NavigateTab i (publicTabUrl u)"
      by (auto split: sum.splits)
    with controller_navigate_refines [OF ready u(1), where driver = driver and i = i] NavigateTab show ?thesis
      by (auto split: prod.splits sum.splits)
  next
    case (RemoveTab i)
    with canon controller_remove_refines [OF ready, where driver = driver and i = i] show ?thesis by (auto split: prod.splits sum.splits)
  qed
  show "controller_run parse driver c s = (True, s') \<Longrightarrow> tab_spec n d (list_tabs s) = Some (list_tabs s')"
    and "controller_run parse driver c s = (False, s') \<Longrightarrow> list_tabs s' = list_tabs s"
    and "controller_run parse driver c s = (b, s') \<Longrightarrow> controller_ready n s'"
    using main ready by (auto split: bool.splits)
qed

text \<open>
  Every command, whatever its URL and whatever identifier a new tab gets, keeps the controller
  in order, and one that is refused changes nothing.
\<close>

lemma controller_tabs_ok: "controller_ready n c \<Longrightarrow> tabs_ok n (list_tabs c) \<longleftrightarrow> jm_size (controller_tabs c) \<le> n"
proof -
  assume r: "controller_ready n c"
  then have k: "entries_keyed (controller_tabs c)" and a: "jm_has (controller_tabs c) (activeTabId c)"
    by (simp_all add: controller_ready_def)
  have ids: "tab_ids (list_tabs c) = jm_keys (controller_tabs c)" by (simp only: list_ids entries_keys [OF k])
  have dist: "distinct (tab_ids (list_tabs c))" using k by (simp add: ids entries_keyed_def jm_wf_def jm_keys_def)
  have active: "activate_only (activeTabId c) (list_tabs c) = list_tabs c"
    by (simp add: activate_only_def list_tabs_def)
  have "activeTabId c \<in> set (tab_ids (list_tabs c))" using a by (simp add: ids jm_has_def jm_keys_def)
  from one_active_selected [OF dist this] have one: "length (filter tab_active (list_tabs c)) = 1" by (simp only: active)
  then have "list_tabs c \<noteq> []" by auto
  with one dist show ?thesis by (auto simp: tabs_ok_def list_length [symmetric] Suc_le_eq)
qed

lemma jm_size_set: "jm_size (jm_set i t m) = (if jm_has m i then jm_size m else Suc (jm_size m))"
  by (induction m) (auto simp: jm_size_def jm_set_def jm_has_def)

lemma controller_create_keeps:
  assumes ready: "controller_ready n c" and size: "jm_size (controller_tabs c) \<le> n"
  shows "case controller_create parse driver i at url c of
      (Inl e, c') \<Rightarrow> c' = c
    | (Inr tab, c') \<Rightarrow> controller_ready n c' \<and> jm_size (controller_tabs c') \<le> n"
  using assms
  by (auto simp: controller_create_def Let_def controller_ready_def entries_set jm_size_set split: sum.splits)

lemma controller_navigate_keeps:
  assumes ready: "controller_ready n c"
  shows "case controller_navigate parse driver i (Some url) c of
      (Inl e, c') \<Rightarrow> c' = c
    | (Inr tab, c') \<Rightarrow> controller_ready n c' \<and> jm_size (controller_tabs c') \<le> jm_size (controller_tabs c)"
proof (cases "normalizeTabUrl parse (Some url)")
  case (Inl e)
  then show ?thesis by (simp add: controller_navigate_def split: sum.splits)
next
  case (Inr u)
  with controller_navigate_refines [OF ready Inr, where driver = driver and i = i]
    tab_spec_shrinks [of n "NavigateTab i (publicTabUrl u)" "list_tabs c"] show ?thesis
    by (auto simp: list_length [symmetric] simp del: tab_spec.simps split: prod.splits sum.splits)
qed

lemma controller_run_keeps:
  assumes ready: "controller_ready n c" and size: "jm_size (controller_tabs c) \<le> n"
    and run: "controller_run parse driver cmd c = (b, c')"
  shows "controller_ready n c' \<and> jm_size (controller_tabs c') \<le> n \<and> (\<not> b \<longrightarrow> c' = c)"
proof -
  have smaller: "length (list_tabs c') \<le> n" if "tab_spec n cmd (list_tabs c) = Some (list_tabs c')" "\<And>i url at. cmd \<noteq> CreateTab i url at"
    using tab_spec_shrinks [OF that] size by (simp add: list_length)
  show ?thesis
  proof (cases cmd)
    case (CreateTab i url at)
    with run ready size controller_create_keeps [OF ready size, where parse = parse and driver = driver and i = i and at = at and url = "Some url"]
    show ?thesis by (auto split: prod.splits sum.splits)
  next
    case (ActivateTab i)
    with run ready size smaller controller_activate_refines [OF ready, where driver = driver and i = i]
    show ?thesis by (auto simp: list_length [symmetric] simp del: tab_spec.simps split: prod.splits sum.splits)
  next
    case (NavigateTab i url)
    with run ready size controller_navigate_keeps [OF ready, where parse = parse and driver = driver and i = i and url = url]
    show ?thesis by (auto split: prod.splits sum.splits)
  next
    case (RemoveTab i)
    with run ready size smaller controller_remove_refines [OF ready, where driver = driver and i = i]
    show ?thesis by (auto simp: list_length [symmetric] simp del: tab_spec.simps split: prod.splits sum.splits)
  qed
qed

lemma controller_runs_keep:
  "controller_ready n c \<Longrightarrow> jm_size (controller_tabs c) \<le> n \<Longrightarrow>
   controller_ready n (controller_runs parse cmds c) \<and> jm_size (controller_tabs (controller_runs parse cmds c)) \<le> n"
proof (induction parse cmds c rule: controller_runs.induct)
  case (2 parse driver cmd cmds c)
  then show ?case
    using controller_run_keeps [of n c parse driver cmd "fst (controller_run parse driver cmd c)" "snd (controller_run parse driver cmd c)"]
    by simp
qed simp

lemma controller_refuses_bad_urls: "controller_canon parse cmd = None \<Longrightarrow> \<not> fst (controller_run parse driver cmd c)"
  by (cases cmd) (auto simp: controller_create_def controller_navigate_def split: sum.splits)

subsection \<open>The driver settles every request once\<close>

definition requests :: "native_driver \<Rightarrow> string list" where
  "requests d = pending d @ map fst (settled d)"

definition driver_inv :: "native_driver \<Rightarrow> bool" where
  "driver_inv d \<longleftrightarrow> distinct (requests d) \<and> set (requests d) = show_nat ` {1..<nextRequest d} \<and> 1 \<le> nextRequest d"

lemma settle_inv: "driver_inv d \<Longrightarrow> r \<in> set (pending d) \<Longrightarrow> driver_inv (settle r out d)"
  by (auto simp: driver_inv_def requests_def settle_def)

lemma settle_ready_frame [simp]:
  "pending (settle_ready r d) = pending d" "settled (settle_ready r d) = settled d"
  "nextRequest (settle_ready r d) = nextRequest d" "written (settle_ready r d) = written d"
  "child_gone (settle_ready r d) = child_gone d" "killed (settle_ready r d) = killed d"
  "stdin_destroyed (settle_ready r d) = stdin_destroyed d"
  by (simp_all add: settle_ready_def)

lemma driver_inv_cong:
  "driver_inv d \<Longrightarrow> pending e = pending d \<Longrightarrow> settled e = settled d \<Longrightarrow> nextRequest e = nextRequest d \<Longrightarrow> driver_inv e"
  by (simp add: driver_inv_def requests_def)

lemma driver_fail_inv: "driver_inv d \<Longrightarrow> driver_inv (driver_fail m d)"
  by (auto simp: driver_fail_def driver_inv_def requests_def Let_def comp_def)

lemma command_inv: "driver_inv d \<Longrightarrow> driver_inv (snd (command type args d))"
proof -
  assume inv: "driver_inv d"
  then have new: "show_nat (nextRequest d) \<notin> set (requests d)" by (auto simp: driver_inv_def dest: show_nat_inj)
  have "{1..<Suc (nextRequest d)} = insert (nextRequest d) {1..<nextRequest d}"
    using inv by (auto simp: driver_inv_def)
  with inv new show ?thesis
    by (auto simp: command_def Let_def driver_inv_def requests_def)
qed

lemma handleLine_inv: "driver_inv d \<Longrightarrow> driver_inv (handleLine expected line d)"
  by (auto simp: handleLine_def driver_fail_inv settle_inv split: driver_line.splits
      intro: driver_inv_cong)

lemma driver_inv_step: "driver_inv d \<Longrightarrow> driver_step expected d e \<Longrightarrow> driver_inv e"
proof (erule driver_stepE)
  assume inv: "driver_inv d"
  show "driver_inv e" if "e = snd (command type args d)" for type args using inv that by (simp add: command_inv)
  show "driver_inv e" if "e = handleLine expected line d" for line using inv that by (simp add: handleLine_inv)
  show "driver_inv e" if "e = command_timeout r d" for r
    using inv that by (simp add: command_timeout_def settle_inv)
  show "driver_inv e" if "e = write_failed r d" for r
    using inv that by (simp add: write_failed_def settle_inv)
  show "driver_inv e" if "e = driver_fail m d" for m using inv that by (simp add: driver_fail_inv)
  show "driver_inv e" if "e = driver_fail m (d\<lparr>child_gone := True\<rparr>)" for m
    unfolding that by (rule driver_fail_inv, rule driver_inv_cong [OF inv]) simp_all
  show "driver_inv e" if "e = d\<lparr>stdin_destroyed := True\<rparr>"
    unfolding that by (rule driver_inv_cong [OF inv]) simp_all
  show "driver_inv e" if "e = driver_shutdown d"
    unfolding that by (rule driver_inv_cong [OF inv]) (simp_all add: driver_shutdown_def)
  show "driver_inv e" if "e = ready_timeout d"
    unfolding that by (rule driver_inv_cong [OF inv]) (simp_all add: ready_timeout_def)
qed

lemma driver_inv_new: "driver_inv new_driver"
  by (simp add: driver_inv_def requests_def new_driver_def)

interpretation driver_system: step_invariant "\<lambda>d. d = new_driver" "driver_step expected" driver_inv for expected
  using driver_inv_new by unfold_locales (simp, rule driver_inv_step)

end
