(* ===== verification/TabProperties.thy ===== *)
theory TabProperties
  imports TabControl
begin

text \<open>
  The properties of the tab components: the tab controller, the in-memory runtime, their
  agreement, and the line protocol between the supervisor and the native tab runtime.
\<close>

definition ex_url :: "string \<Rightarrow> parsed_url" where
  "ex_url href = \<lparr>url_protocol = ''https:'', url_username = [], url_password = [], url_hostname = ''example.org'',
     url_port = [], url_pathname = ''/'', url_search = [], url_hash = [], url_href = href\<rparr>"

text \<open>A parser that knows one text and normalises it.\<close>

definition ex_parse :: url_parser where
  "ex_parse text = (if text = ''https://example.org'' then Some (ex_url ''https://example.org/'') else None)"

definition ex_driver :: tab_driver where
  "ex_driver = \<lparr>drive_create = \<lambda>_ _. Inr (), drive_activate = \<lambda>_. Inr (),
     drive_navigate = \<lambda>_ _. Inr (), drive_remove = \<lambda>_ _. Inr ()\<rparr>"

text \<open>
  C7. Whatever commands a session's tab controller is given, with whatever URLs and identifiers,
  and whatever the native runtime answers to each, the session has between one tab and its limit,
  no two tabs share an identifier, and exactly one tab is active. In every state so reached a
  command that is refused, for its URL, the limit, the last tab, an unknown tab or by the native
  runtime, leaves the controller as it was; a URL that the rules do not accept is refused; and a
  command that is answered does what the specification of the tabs says, as long as a new tab's
  identifier is not in use.
\<close>

theorem controller_keeps_one_active_tab:
  assumes new: "new_controller i url (Integer n) at = Inr c0"
    and c: "c = controller_runs parse cmds c0"
  shows "tabs_ok (nat n) (list_tabs c)
    \<and> (\<forall>driver cmd. \<not> fst (controller_run parse driver cmd c) \<longrightarrow> snd (controller_run parse driver cmd c) = c)
    \<and> (\<forall>driver cmd. controller_canon parse cmd = None \<longrightarrow> \<not> fst (controller_run parse driver cmd c))
    \<and> (\<forall>driver cmd d. fst (controller_run parse driver cmd c) \<longrightarrow> controller_canon parse cmd = Some d \<longrightarrow>
         fresh_tab (list_tabs c) d \<longrightarrow>
         tab_spec (nat n) d (list_tabs c) = Some (list_tabs (snd (controller_run parse driver cmd c))))"
proof -
  from new have c0: "c0 = \<lparr>controller_tabs = [(i, \<lparr>entry_id = i, entry_url = publicTabUrl url, entry_createdAt = at\<rparr>)],
      activeTabId = i, maximumTabs = nat n\<rparr>" and n: "1 \<le> nat n"
    by (auto simp: new_controller_def split: if_splits)
  have "controller_ready (nat n) c0" by (simp add: c0 controller_ready_def entries_keyed_def jm_wf_def jm_has_def)
  moreover have "jm_size (controller_tabs c0) \<le> nat n" using n by (simp add: c0 jm_size_def)
  ultimately have ready: "controller_ready (nat n) c" and size: "jm_size (controller_tabs c) \<le> nat n"
    using controller_runs_keep unfolding c by blast+
  have answered: "tab_spec (nat n) d (list_tabs c) = Some (list_tabs (snd (controller_run parse driver cmd c)))"
    if "fst (controller_run parse driver cmd c)" "controller_canon parse cmd = Some d" "fresh_tab (list_tabs c) d" for driver cmd d
    using controller_store.run_done [OF ready that(2,3), of driver] that(1) by (cases "controller_run parse driver cmd c") simp
  have refused: "snd (controller_run parse driver cmd c) = c" if "\<not> fst (controller_run parse driver cmd c)" for driver cmd
    using controller_run_keeps [OF ready size, of parse driver cmd] that by (cases "controller_run parse driver cmd c") simp
  show ?thesis
    using controller_tabs_ok [OF ready] size answered refused controller_refuses_bad_urls by blast
qed

definition ex_refusing_driver :: tab_driver where
  "ex_refusing_driver = ex_driver\<lparr>drive_remove := \<lambda>_ _. Inl runtime_unavailable\<rparr>"

text \<open>A run with a refused URL, an accepted one, a refusal by the native runtime and the last tab's removal.\<close>

definition ex_commands :: "(tab_driver \<times> tab_command) list" where
  "ex_commands = [(ex_driver, CreateTab ''x'' ''ftp://example.org'' ''t1''), (ex_driver, CreateTab ''b'' ''https://example.org'' ''t1''),
     (ex_refusing_driver, RemoveTab ''b''), (ex_driver, RemoveTab ''a''), (ex_driver, RemoveTab ''b'')]"

theorem controller_keeps_one_active_tab_witness:
  "case new_controller ''a'' INTERNAL_HOME (Integer 4) ''t0'' of
     Inr c \<Rightarrow> tabs_ok 4 (list_tabs (controller_runs ex_parse ex_commands c))
       \<and> list_tabs (controller_runs ex_parse ex_commands c)
         = [\<lparr>tab_id = ''b'', tab_url = ''https://example.org/'', tab_createdAt = ''t1'', tab_active = True\<rparr>]
   | Inl e \<Rightarrow> False"
proof -
  let ?a = "\<lparr>entry_id = ''a'', entry_url = PUBLIC_HOME, entry_createdAt = ''t0''\<rparr>"
  let ?c = "\<lparr>controller_tabs = [(''a'', ?a)], activeTabId = ''a'', maximumTabs = 4\<rparr>"
  have c: "new_controller ''a'' INTERNAL_HOME (Integer 4) ''t0'' = Inr ?c" by code_simp
  have "list_tabs (controller_runs ex_parse ex_commands ?c)
      = [\<lparr>tab_id = ''b'', tab_url = ''https://example.org/'', tab_createdAt = ''t1'', tab_active = True\<rparr>]" by code_simp
  with controller_keeps_one_active_tab [OF c refl, of ex_parse ex_commands] show ?thesis by (simp add: c)
qed

lemma controller_total:
  assumes "controller_ready n c" and "controller_canon parse cmd = Some d"
    and "drive_create driver = (\<lambda>_ _. Inr ())" "drive_activate driver = (\<lambda>_. Inr ())"
    "drive_navigate driver = (\<lambda>_ _. Inr ())" "drive_remove driver = (\<lambda>_ _. Inr ())"
  shows "fst (controller_run parse driver cmd c) = (tab_spec n d (list_tabs c) \<noteq> None)"
proof (cases cmd)
  case (CreateTab i url at)
  with assms show ?thesis
    by (auto simp: controller_create_def Let_def list_length controller_ready_def split: sum.splits prod.splits if_splits)
next
  case (ActivateTab i)
  with assms controller_ids [OF assms(1), of i] controller_tab_Inr [OF assms(1), of i] show ?thesis
    by (cases "controller_tab i c") (auto simp: controller_activate_def)
next
  case (NavigateTab i url)
  with assms controller_ids [OF assms(1), of i] controller_tab_Inr [OF assms(1), of i] show ?thesis
    by (cases "controller_tab i c") (auto simp: controller_navigate_def Let_def split: sum.splits)
next
  case (RemoveTab i)
  with assms controller_ids [OF assms(1), of i] controller_tab_Inr [OF assms(1), of i] show ?thesis
    by (cases "controller_tab i c") (auto simp: controller_remove_def Let_def list_length)
qed

lemma mem_total:
  assumes ready: "mem_ready r s" and canon: "mem_canon parse cmd = Some d" and fresh: "fresh_tab (mem_view r s) d"
  shows "fst (mem_run parse r cmd s) = (tab_spec 4 d (mem_view r s) \<noteq> None)"
proof (cases cmd)
  case (CreateTab i url at)
  with canon obtain href where u: "validateTabUrl parse url = Inr href" "d = CreateTab i href at" by (auto split: sum.splits)
  with mem_create_refines [OF ready u(1), of i at] fresh CreateTab show ?thesis
    by (auto split: prod.splits sum.splits if_splits)
next
  case (ActivateTab i)
  with canon mem_activate_refines [OF ready, of i] show ?thesis by (auto split: prod.splits sum.splits)
next
  case (NavigateTab i url)
  with canon obtain href where u: "validateTabUrl parse url = Inr href" "d = NavigateTab i href" by (auto split: sum.splits)
  with mem_navigate_refines [OF ready u(1), of i] NavigateTab show ?thesis
    by (auto split: prod.splits sum.splits if_splits)
next
  case (RemoveTab i)
  with canon mem_delete_refines [OF ready, of i] show ?thesis by (auto split: prod.splits sum.splits)
qed


text \<open>
  C8. The in-memory runtime behaves like a session's tab controller with four tabs: from equal
  tabs, a command whose URL both accept and normalise alike is answered or refused by both, and
  leaves equal tabs. The controller's driver is one that accepts every command.
\<close>

theorem in_memory_runtime_matches_controller:
  assumes mem: "mem_ready r s" and ctl: "controller_ready 4 c" and same: "mem_view r s = list_tabs c"
    and accepts: "drive_create driver = (\<lambda>_ _. Inr ())" "drive_activate driver = (\<lambda>_. Inr ())"
      "drive_navigate driver = (\<lambda>_ _. Inr ())" "drive_remove driver = (\<lambda>_ _. Inr ())"
    and canon: "mem_canon parse cmd = Some d" "controller_canon parse cmd = Some d"
    and fresh: "fresh_tab (list_tabs c) d"
  shows "fst (mem_run parse r cmd s) = fst (controller_run parse driver cmd c)
    \<and> mem_view r (snd (mem_run parse r cmd s)) = list_tabs (snd (controller_run parse driver cmd c))"
proof -
  obtain b s' where m: "mem_run parse r cmd s = (b, s')" by fastforce
  obtain b' c' where k: "controller_run parse driver cmd c = (b', c')" by fastforce
  have fresh': "fresh_tab (mem_view r s) d" using fresh same by simp
  have "b = b'"
    using mem_total [OF mem canon(1) fresh'] controller_total [OF ctl canon(2) accepts] m k same by simp
  then show ?thesis
    using mem_store.run_done [OF mem canon(1) fresh', of s'] mem_store.run_refused [OF mem canon(1) fresh', of s']
      controller_store.run_done [OF ctl canon(2) fresh, where driver = driver and s' = c']
      controller_store.run_refused [OF ctl canon(2) fresh, where driver = driver and s' = c'] m k same
    by (cases b) auto
qed

definition ex_mem :: in_memory where
  "ex_mem = snd (mem_create ''1'' ''secret'' ''a'' ''t0'' \<lparr>req_sessionId = ''s'', req_tenantId = ''acme'',
     req_quota = \<lparr>memoryMiB = 1, cpuShares = 1, pids = 1\<rparr>\<rparr> \<lparr>resources = [], runtime_tabs = []\<rparr>)"

definition ex_mem_runtime :: runtime_resource where
  "ex_mem_runtime = hd (jm_values (resources ex_mem))"

definition ex_controller :: tab_controller where
  "ex_controller = \<lparr>controller_tabs = [(''a'', \<lparr>entry_id = ''a'', entry_url = PUBLIC_HOME, entry_createdAt = ''t0''\<rparr>)],
      activeTabId = ''a'', maximumTabs = 4\<rparr>"

theorem in_memory_runtime_matches_controller_witness:
  "mem_view ex_mem_runtime (snd (mem_run ex_parse ex_mem_runtime (CreateTab ''b'' ''https://example.org'' ''t1'') ex_mem))
   = list_tabs (snd (controller_run ex_parse ex_driver (CreateTab ''b'' ''https://example.org'' ''t1'') ex_controller))"
proof -
  have mem: "mem_ready ex_mem_runtime ex_mem" and ctl: "controller_ready 4 ex_controller"
    and same: "mem_view ex_mem_runtime ex_mem = list_tabs ex_controller"
    and canon: "mem_canon ex_parse (CreateTab ''b'' ''https://example.org'' ''t1'') = Some (CreateTab ''b'' ''https://example.org/'' ''t1'')"
      "controller_canon ex_parse (CreateTab ''b'' ''https://example.org'' ''t1'') = Some (CreateTab ''b'' ''https://example.org/'' ''t1'')"
    and fresh: "fresh_tab (list_tabs ex_controller) (CreateTab ''b'' ''https://example.org/'' ''t1'')"
    by code_simp+
  have accepts: "drive_create ex_driver = (\<lambda>_ _. Inr ())" "drive_activate ex_driver = (\<lambda>_. Inr ())"
    "drive_navigate ex_driver = (\<lambda>_ _. Inr ())" "drive_remove ex_driver = (\<lambda>_ _. Inr ())"
    by (simp_all add: ex_driver_def)
  from in_memory_runtime_matches_controller [OF mem ctl same accepts canon fresh] show ?thesis by blast
qed

text \<open>
  The in-memory runtime deactivates its tabs before it checks a new tab's URL: a creation
  refused for its URL leaves the session with no active tab.
\<close>

lemma refused_creation_deactivates_tabs:
  "\<exists>e. fst (mem_createTab ex_parse ''b'' ''t1'' ex_mem_runtime (Some ''ftp://example.org'') ex_mem) = Inl e
     \<and> filter tab_active (mem_view ex_mem_runtime ex_mem) \<noteq> []
     \<and> filter tab_active (mem_view ex_mem_runtime
         (snd (mem_createTab ex_parse ''b'' ''t1'' ex_mem_runtime (Some ''ftp://example.org'') ex_mem))) = []"
proof -
  let ?x = "mem_createTab ex_parse ''b'' ''t1'' ex_mem_runtime (Some ''ftp://example.org'') ex_mem"
  have "isl (fst ?x)" and "filter tab_active (mem_view ex_mem_runtime ex_mem) \<noteq> []"
    and "filter tab_active (mem_view ex_mem_runtime (snd ?x)) = []" by code_simp+
  then show ?thesis by (cases "fst ?x") auto
qed

subsection \<open>The line protocol\<close>

text \<open>
  C9. Every request the driver sends is settled at most once and is never lost: in every order
  of commands, responses, timeouts, write errors, exits and failures, the requests made so far
  are exactly those pending and those settled, no request is both, and none is settled twice.
  After a failure nothing is pending.
\<close>

theorem driver_settles_each_request_once:
  assumes "reachable (\<lambda>d. d = new_driver) (driver_step expected) d"
  shows "distinct (pending d @ map fst (settled d))
    \<and> set (pending d @ map fst (settled d)) = show_nat ` {1..<nextRequest d}
    \<and> pending (driver_fail message d) = []"
  using driver_system.reachable_inv [OF assms] by (simp add: driver_inv_def requests_def driver_fail_def Let_def)

definition ex_native :: native_driver where
  "ex_native = handleLine ''x'' ''OK 1'' (snd (native_remove ''a'' ''b'' (snd (native_activate ''b'' new_driver))))"

theorem driver_settles_each_request_once_witness:
  "set (pending ex_native @ map fst (settled ex_native)) = show_nat ` {1..<nextRequest ex_native}
   \<and> pending ex_native = [''2''] \<and> settled ex_native = [(''1'', Resolved)]"
proof -
  have "reachable (\<lambda>d. d = new_driver) (driver_step ''x'') ex_native"
    unfolding ex_native_def native_remove_def native_activate_def
    by (rule reachable_step, rule reachable_step, rule reachable_step, rule reachable_init, rule refl)
      (rule driver_step.intros)+
  note once = driver_settles_each_request_once [OF this]
  have "pending ex_native = [''2'']" "settled ex_native = [(''1'', Resolved)]" by code_simp+
  with once show ?thesis by blast
qed

lemma lower_hex_plain: "is_lower_hex c \<or> c = CHR ''-'' \<Longrightarrow> c \<noteq> CHR '' '' \<and> c \<noteq> CHR 0x0A"
  by (auto simp: js_text_simps)

lemma digit_plain: "is_digit c \<Longrightarrow> c \<noteq> CHR '' '' \<and> c \<noteq> CHR 0x0A"
  by (auto simp: js_text_simps)

lemma list_all_plain:
  "list_all P s \<Longrightarrow> (\<And>c. P c \<Longrightarrow> c \<noteq> CHR '' '' \<and> c \<noteq> CHR 0x0A) \<Longrightarrow> CHR '' '' \<notin> set s \<and> CHR 0x0A \<notin> set s"
  by (auto simp: list_all_iff)

text \<open>
  A creation on the wire says what was meant. The line for a tab with a UUID-like identifier
  and an accepted URL is the command, the request number, the identifier and the URL's bytes in
  hexadecimal, separated by spaces and ended by the only newline; decoding the last field gives
  the normalised URL back, whatever characters it has.
\<close>

lemma created_tab_line_roundtrip:
  assumes cmd: "native_create parse i url d = (Inr n, d')" and uuid: "is_uuid_text i"
  shows "\<exists>u line. normalizeTabUrl parse (Some url) = Inr u \<and> written d' = written d @ [line @ [CHR 0x0A]]
    \<and> split_on (CHR '' '') line = [''CREATE'', n, i, to_hex (utf8 u)]
    \<and> CHR 0x0A \<notin> set line \<and> utf8_decode (from_hex (to_hex (utf8 u))) = u"
proof -
  obtain u where u: "normalizeTabUrl parse (Some url) = Inr u"
    and c: "command ''CREATE'' [i, to_hex (utf8 u)] d = (Inr n, d')"
    using cmd by (auto simp: native_create_def encodeUrl_def split: sum.splits)
  let ?h = "to_hex (utf8 u)"
  let ?line = "join_with '' '' [''CREATE'', n, i, ?h]"
  have bytes: "\<forall>b \<in> set (utf8 u). b < 256" by (simp add: utf8_byte)
  have n: "n = show_nat (nextRequest d)" and w: "written d' = written d @ [?line @ [CHR 0x0A]]"
    using c by (auto simp: command_def Let_def command_line_def split: if_splits)
  have plain: "CHR '' '' \<notin> set n \<and> CHR 0x0A \<notin> set n" "CHR '' '' \<notin> set i \<and> CHR 0x0A \<notin> set i"
    "CHR '' '' \<notin> set ?h \<and> CHR 0x0A \<notin> set ?h"
    using list_all_plain [OF show_nat_digits digit_plain] list_all_plain [OF _ lower_hex_plain, where s = i]
      list_all_plain [of is_lower_hex ?h] to_hex_lower_hex [OF bytes] uuid lower_hex_plain
    by (auto simp: n is_uuid_text_def)
  then have "split_on (CHR '' '') ?line = [''CREATE'', n, i, ?h]"
    by (intro split_on_join) auto
  moreover have "CHR 0x0A \<notin> set ?line" using plain by simp
  moreover have "utf8_decode (from_hex ?h) = u" by (simp add: from_hex_to_hex [OF bytes] utf8_roundtrip)
  ultimately show ?thesis using u w by blast
qed

lemma created_tab_line_roundtrip_witness:
  "\<exists>u line. written (snd (native_create ex_parse (replicate 36 (CHR ''a'')) ''https://example.org'' new_driver)) = [line @ [CHR 0x0A]]
     \<and> split_on (CHR '' '') line = [''CREATE'', ''1'', replicate 36 (CHR ''a''), to_hex (utf8 u)] \<and> u = ''https://example.org/''"
proof -
  let ?i = "replicate 36 (CHR ''a'')"
  let ?x = "native_create ex_parse ?i ''https://example.org'' new_driver"
  have "fst ?x = Inr ''1''" by code_simp
  then have x: "?x = (Inr ''1'', snd ?x)" by (metis prod.collapse)
  have uuid: "is_uuid_text ?i" by code_simp
  have "normalizeTabUrl ex_parse (Some ''https://example.org'') = Inr ''https://example.org/''" by code_simp
  moreover have "written new_driver = []" by (simp add: new_driver_def)
  ultimately show ?thesis using created_tab_line_roundtrip [OF x uuid] by auto
qed

end
