(* ===== verification/DockerTransport.thy ===== *)
theory DockerTransport
  imports Types
begin

text \<open>
  \<open>src/runtime/docker-engine-transport.ts\<close>: one call to the Docker Engine over its Unix
  socket. What the engine and the network do is the argument \<open>exchange\<close>, which answers a
  request and changes the world \<open>'w\<close>; it ends with a response, read to its end, or with an
  \<open>error\<close> event (a failed connection, or the time-out's \<open>destroy\<close>).
\<close>

datatype http_method = GET | POST | PUT | DELETE

datatype http_target = SocketPath string | HostPort string string string

record http_request =
  http_target :: http_target
  http_method :: http_method
  http_path :: string
  http_headers :: "(string \<times> string) list"
  http_payload :: "string option"

datatype http_outcome = HttpResponse "nat option" "nat list list" | HttpError string

type_synonym 'w exchange = "http_request \<Rightarrow> 'w \<Rightarrow> http_outcome \<times> 'w"

record docker_request =
  dr_method :: http_method
  dr_path :: string
  dr_accepted :: "nat list"
  dr_body :: "json option"

type_synonym 'w transport = "docker_request \<Rightarrow> 'w \<Rightarrow> (thrown + json) \<times> 'w"

definition new_transport :: "string \<Rightarrow> number \<Rightarrow> thrown + string" where
  "new_transport socketPath timeoutDuration =
     (if \<not> isAbsolute socketPath then Inl (PlainError ''Docker socket path must be absolute'')
      else case timeoutDuration of
          Integer i \<Rightarrow> if \<not> isSafeInteger timeoutDuration \<or> i \<le> 0
            then Inl (PlainError ''Docker Engine timeout must be a positive integer'') else Inr socketPath
        | NonInteger \<Rightarrow> Inl (PlainError ''Docker Engine timeout must be a positive integer''))"

definition dockerErrorMessage :: "json \<Rightarrow> string" where
  "dockerErrorMessage value =
     (case json_field value ''message'' of
        Some (JStr m) \<Rightarrow> if m = [] then ''Docker Engine request failed'' else m
      | _ \<Rightarrow> ''Docker Engine request failed'')"

definition engine_request :: "string \<Rightarrow> docker_request \<Rightarrow> http_request" where
  "engine_request socketPath input =
     (let payload = map_option json_stringify (dr_body input) in
      \<lparr>http_target = SocketPath socketPath, http_method = dr_method input, http_path = dr_path input,
       http_headers = (case payload of None \<Rightarrow> []
         | Some p \<Rightarrow> [(''content-type'', ''application/json''), (''content-length'', show_nat (byteLength p))]),
       http_payload = payload\<rparr>)"

definition engine_answer :: "(nat list \<Rightarrow> json option) \<Rightarrow> nat list \<Rightarrow> http_outcome \<Rightarrow> thrown + json" where
  "engine_answer json_parse accepted outcome =
     (case outcome of
        HttpError message \<Rightarrow> Inl (orch RUNTIME_FAILURE message 503)
      | HttpResponse status chunks \<Rightarrow>
          (case (if concat chunks = [] then Some (JObj []) else json_parse (concat chunks)) of
             None \<Rightarrow> Inl (orch RUNTIME_FAILURE ''Docker Engine returned invalid JSON'' 503)
           | Some parsed \<Rightarrow>
               if (case status of None \<Rightarrow> 500 | Some n \<Rightarrow> n) \<notin> set accepted
               then Inl (orch RUNTIME_FAILURE (dockerErrorMessage parsed) 503)
               else Inr parsed))"

definition transport_call :: "string \<Rightarrow> (nat list \<Rightarrow> json option) \<Rightarrow> 'w exchange \<Rightarrow> 'w transport" where
  "transport_call socketPath json_parse exchange input w =
     (case exchange (engine_request socketPath input) w of
        (outcome, w') \<Rightarrow> (engine_answer json_parse (dr_accepted input) outcome, w'))"

text \<open>A transport with its history: every request and what came of it.\<close>

definition recording :: "'w transport \<Rightarrow> ('w \<times> (docker_request \<times> (thrown + json)) list) transport" where
  "recording call r wl =
     (case call r (fst wl) of (res, w') \<Rightarrow> (res, (w', snd wl @ [(r, res)])))"

lemma transport_call_accepted:
  assumes "transport_call socketPath json_parse exchange input w = (Inr v, w')"
  shows "\<exists>status chunks. exchange (engine_request socketPath input) w = (HttpResponse status chunks, w')
    \<and> (case status of None \<Rightarrow> 500 | Some n \<Rightarrow> n) \<in> set (dr_accepted input)"
  using assms by (auto simp: transport_call_def engine_answer_def split: prod.splits http_outcome.splits option.splits if_splits)

end
