(* ===== verification/SeccompProfile.thy ===== *)
theory SeccompProfile
  imports Types "HOL-Library.Word"
begin

text \<open>
  \<open>src/runtime/seccomp-profile.ts\<close>: reading and checking the reviewed seccomp profile. The
  opened file is what the two \<open>stat\<close> calls and the read saw of it; SHA-256 and
  \<open>JSON.parse\<close> are arguments. The bit test of the mode is on 32-bit words, as in JavaScript.
\<close>

unbundle bit_operations_syntax

record file_stat =
  st_is_file :: bool
  st_size :: int
  st_uid :: int
  st_mode :: "32 word"
  st_dev :: int
  st_ino :: int
  st_mtimeMs :: int
  st_ctimeMs :: int

record opened_file =
  stat_before :: file_stat
  file_bytes :: "nat list"
  stat_after :: file_stat

definition EXPECTED_PROFILE_SHA256 :: string where
  "EXPECTED_PROFILE_SHA256 = ''25677234a3bd7b0e0c249f15d980a3e92a4aa2972c42d9cbad6f247461cfd714''"

definition MAXIMUM_PROFILE_BYTES :: int where
  "MAXIMUM_PROFILE_BYTES = 128 * 1024"

text \<open>\<open>/^\/[A-Za-z0-9._/-]+$/\<close>.\<close>

definition is_plain_absolute_path :: "string \<Rightarrow> bool" where
  "is_plain_absolute_path p = (2 \<le> length p \<and> hd p = CHR ''/'' \<and> list_all is_path_char (tl p))"

definition safe_host_path :: "string \<Rightarrow> bool" where
  "safe_host_path p = (isAbsolute p \<and> normalize p = p \<and> is_plain_absolute_path p \<and> length p \<le> 4096)"

definition expected_arch_map :: json where
  "expected_arch_map = JArr
     [JObj [(''architecture'', JStr ''SCMP_ARCH_X86_64''), (''subArchitectures'', JNull)],
      JObj [(''architecture'', JStr ''SCMP_ARCH_AARCH64''), (''subArchitectures'', JNull)]]"

definition validateProfileShape :: "json \<Rightarrow> thrown + unit" where
  "validateProfileShape document =
     (if \<not> json_object document then Inl (PlainError ''session seccomp profile is not an object'')
      else if json_field document ''defaultAction'' \<noteq> Some (JStr ''SCMP_ACT_ERRNO'')
        \<or> json_field document ''defaultErrnoRet'' \<noteq> Some (JNum (Integer 1))
      then Inl (PlainError ''session seccomp profile is not deny-by-default'')
      else
        (case json_field document ''syscalls'' of
           Some (JArr calls) \<Rightarrow>
             if length calls < 30 then Inl (PlainError ''session seccomp profile syscall policy is incomplete'')
             else if map_option json_stringify (json_field document ''archMap'') \<noteq> Some (json_stringify expected_arch_map)
             then Inl (PlainError ''session seccomp profile architecture policy is invalid'')
             else Inr ()
         | _ \<Rightarrow> Inl (PlainError ''session seccomp profile syscall policy is incomplete'')))"

text \<open>\<open>file\<close> is \<open>Inl\<close> when \<open>open\<close> fails, as it does on a symbolic link.\<close>

definition readSessionSeccompProfile ::
  "(nat list \<Rightarrow> string) \<Rightarrow> (nat list \<Rightarrow> json option) \<Rightarrow> string \<Rightarrow> bool \<Rightarrow> thrown + opened_file \<Rightarrow> thrown + string" where
  "readSessionSeccompProfile sha256 json_parse path requireRootOwner file =
     (if \<not> safe_host_path path
      then Inl (PlainError ''session seccomp profile must be a safe absolute host path'')
      else bind_result file (\<lambda>f.
        let before = stat_before f; after = stat_after f in
        if \<not> st_is_file before \<or> st_size before \<le> 0 \<or> st_size before > MAXIMUM_PROFILE_BYTES
        then Inl (PlainError ''session seccomp profile must be a bounded regular file'')
        else if requireRootOwner \<and> st_uid before \<noteq> 0
        then Inl (PlainError ''session seccomp profile must be owned by root'')
        else if st_mode before AND 0x12 \<noteq> 0
        then Inl (PlainError ''session seccomp profile must not be group/world writable'')
        else if st_dev before \<noteq> st_dev after \<or> st_ino before \<noteq> st_ino after
          \<or> st_size before \<noteq> st_size after \<or> st_mtimeMs before \<noteq> st_mtimeMs after
          \<or> st_ctimeMs before \<noteq> st_ctimeMs after
        then Inl (PlainError ''session seccomp profile changed while it was read'')
        else if sha256 (file_bytes f) \<noteq> EXPECTED_PROFILE_SHA256
        then Inl (PlainError ''session seccomp profile checksum does not match the reviewed Fireball policy'')
        else
          (case json_parse (file_bytes f) of
             None \<Rightarrow> Inl (PlainError ''invalid JSON'')
           | Some document \<Rightarrow>
               bind_result (validateProfileShape document) (\<lambda>_. Inr (json_stringify document)))))"

lemma validateProfileShape_Inr:
  "validateProfileShape d = Inr u \<longleftrightarrow>
     json_object d \<and> json_field d ''defaultAction'' = Some (JStr ''SCMP_ACT_ERRNO'')
     \<and> json_field d ''defaultErrnoRet'' = Some (JNum (Integer 1))
     \<and> (\<exists>calls. json_field d ''syscalls'' = Some (JArr calls) \<and> 30 \<le> length calls)
     \<and> map_option json_stringify (json_field d ''archMap'') = Some (json_stringify expected_arch_map)"
  by (auto simp: validateProfileShape_def split: option.splits json.splits)

end
