(* ===== verification/DockerRuntime.thy ===== *)
theory DockerRuntime
  imports DockerTransport SeccompProfile RuntimeTabs
begin

text \<open>
  Class \<open>DockerEngineRuntime\<close> of \<open>src/runtime/docker-engine-runtime.ts\<close>. Operations
  pass the world \<open>'w\<close> of the transport through explicitly. The code reads the engine's
  answers at their documented types: a string field that holds something else counts as
  absent. \<open>JSON.parse\<close>, \<open>new URL\<close> and \<open>Date\<close> are arguments. Waiting between health
  checks changes nothing but time and is not modelled.
\<close>

subsection \<open>Options\<close>

record docker_options =
  opt_socketPath :: string
  opt_apiVersion :: string
  opt_image :: string
  opt_instanceId :: string
  opt_appArmorProfile :: "string option"
  opt_seccompProfile :: "string option"
  opt_iceServersFile :: "string option"
  opt_requestTimeoutMs :: "number option"
  opt_startupHealthAttempts :: "number option"
  opt_startupHealthIntervalMs :: "number option"

record docker_runtime =
  apiVersion :: string
  session_image :: string
  instanceId :: string
  appArmorProfile :: "string option"
  seccompProfile :: "string option"
  iceServersFile :: "string option"
  startupHealthAttempts :: nat
  startupHealthIntervalMs :: int
  controlRequestTimeoutMs :: int

definition INTERNAL_SIGNALING_PORT :: string where "INTERNAL_SIGNALING_PORT = ''8444/tcp''"
definition SIGNALING_HOST :: string where "SIGNALING_HOST = ''127.0.0.1''"
definition ICE_SERVERS_CONTAINER_PATH :: string where
  "ICE_SERVERS_CONTAINER_PATH = ''/run/fireball-secrets/ice-servers.json''"

text \<open>\<open>/^\d+\.\d+$/\<close>.\<close>

definition is_numeric_version :: "string \<Rightarrow> bool" where
  "is_numeric_version s =
     (let major = takeWhile is_digit s; rest = dropWhile is_digit s in
      major \<noteq> [] \<and> rest \<noteq> [] \<and> hd rest = CHR ''.'' \<and> tl rest \<noteq> [] \<and> list_all is_digit (tl rest))"

definition isSafeLabelValue :: "string \<Rightarrow> bool" where
  "isSafeLabelValue s = (1 \<le> length s \<and> length s \<le> 64 \<and> is_alnum (hd s) \<and> list_all is_label_char (tl s))"

definition isSafeSecurityProfile :: "string \<Rightarrow> bool" where
  "isSafeSecurityProfile s = (1 \<le> length s \<and> length s \<le> 128 \<and> is_alnum (hd s) \<and> list_all is_label_char (tl s))"

definition validateSeccompProfile :: "(string \<Rightarrow> json option) \<Rightarrow> string \<Rightarrow> thrown + unit" where
  "validateSeccompProfile json_text value =
     (if value = [] \<or> length value > 128 * 1024 \<or> CHR 0x00 \<in> set value
      then Inl (PlainError ''session seccomp profile is invalid'')
      else case json_text value of
          None \<Rightarrow> Inl (PlainError ''session seccomp profile is invalid'')
        | Some document \<Rightarrow>
            (case validateProfileShape document of
               Inl _ \<Rightarrow> Inl (PlainError ''session seccomp profile is invalid'')
             | Inr _ \<Rightarrow> Inr ()))"

definition check :: "bool \<Rightarrow> string \<Rightarrow> thrown + unit" where
  "check b message = (if b then Inr () else Inl (PlainError message))"

text \<open>The last check is that of the transport the constructor makes when it is given none.\<close>

definition new_docker_runtime ::
  "(string \<Rightarrow> json option) \<Rightarrow> docker_options \<Rightarrow> bool \<Rightarrow> thrown + docker_runtime" where
  "new_docker_runtime json_text opts own_transport =
     bind_result (check (is_numeric_version (opt_apiVersion opts)) ''Docker API version must be numeric'') (\<lambda>_.
     bind_result (check (trim (opt_image opts) \<noteq> [] \<and> length (opt_image opts) \<le> 255) ''session image must be non-empty'') (\<lambda>_.
     bind_result (check (isSafeLabelValue (opt_instanceId opts)) ''orchestrator instance id is invalid'') (\<lambda>_.
     bind_result (check (case opt_appArmorProfile opts of None \<Rightarrow> True | Some p \<Rightarrow> isSafeSecurityProfile p)
       ''session AppArmor profile is invalid'') (\<lambda>_.
     bind_result (case opt_seccompProfile opts of None \<Rightarrow> Inr () | Some p \<Rightarrow> validateSeccompProfile json_text p) (\<lambda>_.
     bind_result (check (case opt_iceServersFile opts of None \<Rightarrow> True | Some p \<Rightarrow> safe_host_path p)
       ''session ICE servers file must be a safe absolute host path'') (\<lambda>_.
     bind_result (positiveInteger (or_else (opt_startupHealthAttempts opts) (Integer 60)) ''startup health attempts'') (\<lambda>attempts.
     bind_result (positiveInteger (or_else (opt_startupHealthIntervalMs opts) (Integer 1000)) ''startup health interval'') (\<lambda>interval.
     bind_result (positiveInteger (or_else (opt_requestTimeoutMs opts) (Integer 30000)) ''Docker Engine request timeout'') (\<lambda>timeout.
     bind_result (if own_transport then new_transport (opt_socketPath opts) (Integer timeout) else Inr []) (\<lambda>_.
     Inr \<lparr>apiVersion = opt_apiVersion opts, session_image = opt_image opts, instanceId = opt_instanceId opts,
          appArmorProfile = opt_appArmorProfile opts, seccompProfile = opt_seccompProfile opts,
          iceServersFile = opt_iceServersFile opts, startupHealthAttempts = nat attempts,
          startupHealthIntervalMs = interval, controlRequestTimeoutMs = timeout\<rparr>))))))))))"

subsection \<open>Requests to the engine\<close>

definition engine_path :: "docker_runtime \<Rightarrow> string \<Rightarrow> string" where
  "engine_path d suffix = ''/v'' @ apiVersion d @ suffix"

definition call :: "'w transport \<Rightarrow> http_method \<Rightarrow> string \<Rightarrow> nat list \<Rightarrow> json option \<Rightarrow> 'w \<Rightarrow> (thrown + json) \<times> 'w" where
  "call transport method path accepted body w =
     transport \<lparr>dr_method = method, dr_path = path, dr_accepted = accepted, dr_body = body\<rparr> w"

definition isolationLabels :: "create_runtime_request \<Rightarrow> string \<Rightarrow> json" where
  "isolationLabels input instance_id = JObj
     [(''dev.fireball.managed'', JStr ''true''), (''dev.fireball.instance'', JStr instance_id),
      (''dev.fireball.session'', JStr (req_sessionId input)), (''dev.fireball.tenant'', JStr (req_tenantId input))]"

definition ownership_labels :: "string \<Rightarrow> json" where
  "ownership_labels instance_id =
     JArr [JStr ''dev.fireball.managed=true'', JStr (''dev.fireball.instance='' @ instance_id)]"

definition ownershipFilter :: "string \<Rightarrow> string" where
  "ownershipFilter instance_id = encodeURIComponent (json_stringify (JObj [(''label'', ownership_labels instance_id)]))"

definition runtimeFilter :: "string \<Rightarrow> string \<Rightarrow> string" where
  "runtimeFilter container_id instance_id = encodeURIComponent (json_stringify
     (JObj [(''id'', JArr [JStr container_id]), (''label'', ownership_labels instance_id)]))"

definition network_name :: "create_runtime_request \<Rightarrow> string" where
  "network_name input = ''fireball-net-'' @ req_sessionId input"

definition container_name :: "create_runtime_request \<Rightarrow> string" where
  "container_name input = ''fireball-'' @ req_sessionId input"

definition network_request :: "docker_runtime \<Rightarrow> create_runtime_request \<Rightarrow> json" where
  "network_request d input = JObj
     [(''Name'', JStr (network_name input)), (''CheckDuplicate'', JBool True), (''Internal'', JBool False),
      (''Labels'', isolationLabels input (instanceId d))]"

definition container_request :: "docker_runtime \<Rightarrow> string \<Rightarrow> create_runtime_request \<Rightarrow> json" where
  "container_request d secret input = JObj
     [(''Image'', JStr (session_image d)),
      (''Labels'', isolationLabels input (instanceId d)),
      (''Env'', JArr (JStr (''FIREBALL_INTERNAL_SIGNALING_SECRET='' @ secret)
         # (case iceServersFile d of None \<Rightarrow> []
            | Some _ \<Rightarrow> [JStr (''FIREBALL_ICE_SERVERS_FILE='' @ ICE_SERVERS_CONTAINER_PATH)]))),
      (''ExposedPorts'', JObj [(INTERNAL_SIGNALING_PORT, JObj [])]),
      (''HostConfig'', JObj
         [(''AutoRemove'', JBool False),
          (''RestartPolicy'', JObj [(''Name'', JStr ''no''), (''MaximumRetryCount'', JNum (Integer 0))]),
          (''Memory'', JNum (Integer (memoryMiB (req_quota input) * 1024 * 1024))),
          (''CpuShares'', JNum (Integer (cpuShares (req_quota input)))),
          (''PidsLimit'', JNum (Integer (pids (req_quota input)))),
          (''NetworkMode'', JStr (network_name input)),
          (''ReadonlyRootfs'', JBool True),
          (''CapDrop'', JArr [JStr ''ALL'']),
          (''SecurityOpt'', JArr (JStr ''no-new-privileges:true''
             # (case appArmorProfile d of None \<Rightarrow> [] | Some p \<Rightarrow> [JStr (''apparmor='' @ p)])
             @ (case seccompProfile d of None \<Rightarrow> [] | Some p \<Rightarrow> [JStr (''seccomp='' @ p)]))),
          (''Tmpfs'', JObj [(''/run/fireball-session'',
             JStr ''rw,noexec,nosuid,nodev,size=256m,mode=0700,uid=10001,gid=10001'')]),
          (''Mounts'', JArr (case iceServersFile d of None \<Rightarrow> []
             | Some f \<Rightarrow> [JObj [(''Type'', JStr ''bind''), (''Source'', JStr f),
                 (''Target'', JStr ICE_SERVERS_CONTAINER_PATH), (''ReadOnly'', JBool True),
                 (''BindOptions'', JObj [(''Propagation'', JStr ''rprivate'')])]])),
          (''PortBindings'', JObj [(INTERNAL_SIGNALING_PORT,
             JArr [JObj [(''HostIp'', JStr ''127.0.0.1''), (''HostPort'', JStr [])]])])])]"

subsection \<open>Reading the engine's answers\<close>

text \<open>\<open>value?.field\<close>: undefined and null give undefined.\<close>

fun optional_field :: "json option \<Rightarrow> string \<Rightarrow> json option" where
  "optional_field None k = None"
| "optional_field (Some v) k = json_field v k"

fun optional_first :: "json option \<Rightarrow> json option" where
  "optional_first (Some (JArr (v # vs))) = Some v"
| "optional_first _ = None"

fun string_value :: "json option \<Rightarrow> string" where
  "string_value (Some (JStr s)) = s"
| "string_value _ = []"

definition published_binding :: "json \<Rightarrow> json option" where
  "published_binding inspection =
     optional_first (optional_field (optional_field (json_field inspection ''NetworkSettings'') ''Ports'')
       INTERNAL_SIGNALING_PORT)"

definition publishedSignalingPort :: "json \<Rightarrow> thrown + nat" where
  "publishedSignalingPort inspection =
     (let binding = published_binding inspection in
      case optional_field binding ''HostPort'' of
        Some (JStr raw) \<Rightarrow>
          if optional_field binding ''HostIp'' \<noteq> Some (JStr ''127.0.0.1'') \<or> \<not> is_canonical_numeral 4 raw
          then Inl (PlainError ''Docker did not publish the internal signaling port'')
          else if digits_value raw > 65535 then Inl (PlainError ''Docker returned an invalid signaling port'')
          else Inr (digits_value raw)
      | _ \<Rightarrow> Inl (PlainError ''Docker did not publish the internal signaling port''))"

definition health_status :: "json \<Rightarrow> json option" where
  "health_status inspection = optional_field (optional_field (json_field inspection ''State'') ''Health'') ''Status''"

definition health_request :: "docker_runtime \<Rightarrow> string \<Rightarrow> docker_request" where
  "health_request d cid =
     \<lparr>dr_method = GET, dr_path = engine_path d (''/containers/'' @ encodeURIComponent cid @ ''/json''),
      dr_accepted = [200], dr_body = None\<rparr>"

text \<open>The message of the \<open>TypeError\<close> that reading a property of null throws.\<close>

definition null_access :: "string \<Rightarrow> string" where
  "null_access field = ''Cannot read properties of null (reading '' @ [CHR 0x27] @ field @ [CHR 0x27] @ '')''"

text \<open>The loop of \<open>waitForHealthy\<close>, by the number of attempts left.\<close>

fun waitForHealthy :: "docker_runtime \<Rightarrow> 'w transport \<Rightarrow> string \<Rightarrow> nat \<Rightarrow> 'w \<Rightarrow> (thrown + json) \<times> 'w" where
  "waitForHealthy d transport cid 0 w = (Inl (PlainError ''session container startup health check timed out''), w)"
| "waitForHealthy d transport cid (Suc left) w =
     (case transport (health_request d cid) w of
        (Inl e, w') \<Rightarrow> (Inl e, w')
      | (Inr inspection, w') \<Rightarrow>
          if inspection = JNull then (Inl (PlainError (null_access ''State'')), w')
          else if health_status inspection = Some (JStr ''healthy'') then (Inr inspection, w')
          else if health_status inspection \<noteq> Some (JStr ''starting'')
          then (Inl (PlainError (if health_status inspection = Some (JStr ''unhealthy'')
                 then ''session container failed its startup health check''
                 else ''session image does not expose a Docker health check'')), w')
          else waitForHealthy d transport cid left w')"

subsection \<open>create and destroy\<close>

definition runtime_resource_of ::
  "create_runtime_request \<Rightarrow> string \<Rightarrow> string \<Rightarrow> nat \<Rightarrow> runtime_resource" where
  "runtime_resource_of input secret cid port =
     \<lparr>containerId = cid, containerName = container_name input, networkNamespace = network_name input,
      storageNamespace = ''/run/fireball-session:'' @ cid,
      signalingEndpoint = ''ws://'' @ SIGNALING_HOST @ '':'' @ show_nat port @ ''/internal/v1/signaling'',
      signalingSecret = secret,
      tabControlEndpoint = ''http://'' @ SIGNALING_HOST @ '':'' @ show_nat port @ ''/internal/v1/tabs''\<rparr>"

definition create_network_request :: "docker_runtime \<Rightarrow> create_runtime_request \<Rightarrow> docker_request" where
  "create_network_request d input =
     \<lparr>dr_method = POST, dr_path = engine_path d ''/networks/create'', dr_accepted = [201],
      dr_body = Some (network_request d input)\<rparr>"

definition create_container_request :: "docker_runtime \<Rightarrow> string \<Rightarrow> create_runtime_request \<Rightarrow> docker_request" where
  "create_container_request d secret input =
     \<lparr>dr_method = POST,
      dr_path = engine_path d (''/containers/create?name='' @ encodeURIComponent (container_name input)),
      dr_accepted = [201], dr_body = Some (container_request d secret input)\<rparr>"

definition start_request :: "docker_runtime \<Rightarrow> string \<Rightarrow> docker_request" where
  "start_request d cid =
     \<lparr>dr_method = POST, dr_path = engine_path d (''/containers/'' @ cid @ ''/start''), dr_accepted = [204], dr_body = None\<rparr>"

text \<open>
  The body of the \<open>try\<close>: whether the container was created, the identifier the engine gave
  it, and the outcome.
\<close>

definition start_container ::
  "docker_runtime \<Rightarrow> 'w transport \<Rightarrow> string \<Rightarrow> create_runtime_request \<Rightarrow> 'w
   \<Rightarrow> (bool \<times> string option \<times> (thrown + runtime_resource)) \<times> 'w" where
  "start_container d transport secret input w =
     (case transport (create_container_request d secret input) w of
        (Inl e, w1) \<Rightarrow> ((False, None, Inl e), w1)
      | (Inr response, w1) \<Rightarrow>
          let cid = string_value (json_field response ''Id'') in
          if response = JNull then ((True, None, Inl (PlainError (null_access ''Id''))), w1)
          else if cid = [] then ((True, None, Inl (PlainError ''Docker did not return a container id'')), w1)
          else
            (case transport (start_request d cid) w1 of
               (Inl e, w2) \<Rightarrow> ((True, Some cid, Inl e), w2)
             | (Inr _, w2) \<Rightarrow>
                 (case waitForHealthy d transport cid (startupHealthAttempts d) w2 of
                    (Inl e, w3) \<Rightarrow> ((True, Some cid, Inl e), w3)
                  | (Inr inspection, w3) \<Rightarrow>
                      (case publishedSignalingPort inspection of
                         Inl e \<Rightarrow> ((True, Some cid, Inl e), w3)
                       | Inr port \<Rightarrow> ((True, Some cid, Inr (runtime_resource_of input secret cid port)), w3)))))"

definition delete_container_request :: "docker_runtime \<Rightarrow> string \<Rightarrow> docker_request" where
  "delete_container_request d reference =
     \<lparr>dr_method = DELETE, dr_path = engine_path d (''/containers/'' @ encodeURIComponent reference @ ''?force=true&v=true''),
      dr_accepted = [204, 404], dr_body = None\<rparr>"

definition delete_network_request :: "docker_runtime \<Rightarrow> string \<Rightarrow> docker_request" where
  "delete_network_request d name =
     \<lparr>dr_method = DELETE, dr_path = engine_path d (''/networks/'' @ name), dr_accepted = [204, 404], dr_body = None\<rparr>"

text \<open>\<open>.catch(error => failures.push(errorMessage(error)))\<close>.\<close>

definition collect_failure :: "thrown + json \<Rightarrow> string list" where
  "collect_failure res = (case res of Inl e \<Rightarrow> [errorMessage e] | Inr _ \<Rightarrow> [])"

text \<open>The \<open>catch\<close> block; the network has always been created when it runs.\<close>

definition rollback ::
  "docker_runtime \<Rightarrow> 'w transport \<Rightarrow> create_runtime_request \<Rightarrow> bool \<Rightarrow> string option \<Rightarrow> thrown \<Rightarrow> 'w \<Rightarrow> thrown \<times> 'w" where
  "rollback d transport input containerCreated cid error w =
     (let (failures1, w1) =
            (if containerCreated
             then (case transport (delete_container_request d (or_else cid (container_name input))) w of
                     (res, w') \<Rightarrow> (collect_failure res, w'))
             else ([], w));
          (failures2, w2) =
            (case transport (delete_network_request d (network_name input)) w1 of
               (res, w') \<Rightarrow> (collect_failure res, w'));
          failures = failures1 @ failures2
      in (if failures \<noteq> []
          then orch RUNTIME_FAILURE (errorMessage error @ ''; rollback failed: '' @ join_with ''; '' failures) 503
          else (case error of Orchestrator _ \<Rightarrow> error | PlainError m \<Rightarrow> orch RUNTIME_FAILURE m 503), w2))"

definition docker_create ::
  "docker_runtime \<Rightarrow> 'w transport \<Rightarrow> string \<Rightarrow> create_runtime_request \<Rightarrow> 'w
   \<Rightarrow> (thrown + runtime_resource) \<times> 'w" where
  "docker_create d transport secret input w =
     (case transport (create_network_request d input) w of
        (Inl e, w1) \<Rightarrow> (Inl e, w1)
      | (Inr _, w1) \<Rightarrow>
          (case start_container d transport secret input w1 of
             ((containerCreated, cid, Inr resource), w2) \<Rightarrow> (Inr resource, w2)
           | ((containerCreated, cid, Inl error), w2) \<Rightarrow>
               (case rollback d transport input containerCreated cid error w2 of
                  (e, w3) \<Rightarrow> (Inl e, w3))))"

definition docker_destroy ::
  "docker_runtime \<Rightarrow> 'w transport \<Rightarrow> runtime_resource \<Rightarrow> 'w \<Rightarrow> (thrown + unit) \<times> 'w" where
  "docker_destroy d transport resource w =
     (case call transport DELETE (engine_path d (''/containers/'' @ containerId resource @ ''?force=true&v=true''))
             [204, 404] None w of
        (res1, w1) \<Rightarrow>
          (case call transport DELETE (engine_path d (''/networks/'' @ networkNamespace resource)) [204, 404] None w1 of
             (res2, w2) \<Rightarrow>
               let failures = collect_failure res1 @ collect_failure res2 in
               (if failures \<noteq> [] then Inl (orch RUNTIME_FAILURE (join_with ''; '' failures) 503) else Inr (), w2)))"

subsection \<open>inspect and reconcile\<close>

definition has_label :: "json \<Rightarrow> string \<Rightarrow> string \<Rightarrow> bool" where
  "has_label summary k v = (optional_field (json_field summary ''Labels'') k = Some (JStr v))"

definition isOwnedRuntime :: "json \<Rightarrow> string \<Rightarrow> bool" where
  "isOwnedRuntime summary instance_id =
     (has_label summary ''dev.fireball.managed'' ''true'' \<and> has_label summary ''dev.fireball.instance'' instance_id)"

definition invalid_status :: thrown where
  "invalid_status = orch RUNTIME_FAILURE ''Docker Engine returned an invalid runtime status'' 503"

definition stopped_states :: "string list" where
  "stopped_states = [''created'', ''paused'', ''restarting'', ''removing'', ''exited'', ''dead'']"

definition classify_status :: "docker_runtime \<Rightarrow> string \<Rightarrow> json \<Rightarrow> thrown + runtime_inspection" where
  "classify_status d cid response =
     (case response of
        JArr values \<Rightarrow>
          let exact = filter (\<lambda>v. json_object v \<and> json_field v ''Id'' = Some (JStr cid)) values in
          if exact = [] then Inr (RuntimeFailed ''runtime container is missing'')
          else if length exact \<noteq> 1 \<or> \<not> isOwnedRuntime (hd exact) (instanceId d) then Inl invalid_status
          else
            let state = string_value (json_field (hd exact) ''State'') in
            if state = ''running'' then Inr Running
            else if state \<in> set stopped_states then Inr (RuntimeFailed ''runtime stopped unexpectedly'')
            else Inl invalid_status
      | _ \<Rightarrow> Inl invalid_status)"

definition docker_inspect ::
  "docker_runtime \<Rightarrow> 'w transport \<Rightarrow> runtime_resource \<Rightarrow> 'w \<Rightarrow> (thrown + runtime_inspection) \<times> 'w" where
  "docker_inspect d transport resource w =
     (case call transport GET (engine_path d (''/containers/json?all=true&filters=''
             @ runtimeFilter (containerId resource) (instanceId d))) [200] None w of
        (Inl e, w') \<Rightarrow> (Inl e, w')
      | (Inr response, w') \<Rightarrow> (classify_status d (containerId resource) response, w'))"

text \<open>\<open>/^[A-Za-z0-9_.:-]{1,128}$/\<close>.\<close>

definition is_managed_id :: "string \<Rightarrow> bool" where
  "is_managed_id s = (1 \<le> length s \<and> length s \<le> 128 \<and> list_all (\<lambda>c. is_label_char c \<or> c = CHR '':'') s)"

definition managedResourceId :: "json \<Rightarrow> string \<Rightarrow> string option" where
  "managedResourceId resource instance_id =
     (if \<not> json_object resource then None
      else case json_field resource ''Id'' of
          Some (JStr i) \<Rightarrow>
            if \<not> isOwnedRuntime resource instance_id \<or> \<not> is_managed_id i then None else Some i
        | _ \<Rightarrow> None)"

definition list_managed ::
  "docker_runtime \<Rightarrow> 'w transport \<Rightarrow> string \<Rightarrow> string \<Rightarrow> 'w \<Rightarrow> (thrown + json list) \<times> 'w" where
  "list_managed d transport suffix message w =
     (case call transport GET (engine_path d (suffix @ ownershipFilter (instanceId d))) [200] None w of
        (Inl e, w') \<Rightarrow> (Inl e, w')
      | (Inr (JArr vs), w') \<Rightarrow> (Inr vs, w')
      | (Inr _, w') \<Rightarrow> (Inl (orch RUNTIME_FAILURE message 503), w'))"

definition listManagedContainers :: "docker_runtime \<Rightarrow> 'w transport \<Rightarrow> 'w \<Rightarrow> (thrown + json list) \<times> 'w" where
  "listManagedContainers d transport w =
     list_managed d transport ''/containers/json?all=true&filters='' ''Docker Engine returned an invalid container list'' w"

definition listManagedNetworks :: "docker_runtime \<Rightarrow> 'w transport \<Rightarrow> 'w \<Rightarrow> (thrown + json list) \<times> 'w" where
  "listManagedNetworks d transport w =
     list_managed d transport ''/networks?filters='' ''Docker Engine returned an invalid network list'' w"

text \<open>The two loops of \<open>reconcile\<close>: one deletion per managed resource, counted or reported.\<close>

fun remove_managed ::
  "docker_runtime \<Rightarrow> 'w transport \<Rightarrow> (string \<Rightarrow> docker_request) \<Rightarrow> string \<Rightarrow> json list \<Rightarrow> nat \<Rightarrow> string list \<Rightarrow> 'w
   \<Rightarrow> (nat \<times> string list) \<times> 'w" where
  "remove_managed d transport request kind [] n failures w = ((n, failures), w)"
| "remove_managed d transport request kind (v # vs) n failures w =
     (case managedResourceId v (instanceId d) of
        None \<Rightarrow> remove_managed d transport request kind vs n failures w
      | Some i \<Rightarrow>
          (case transport (request i) w of
             (Inr _, w') \<Rightarrow> remove_managed d transport request kind vs (Suc n) failures w'
           | (Inl e, w') \<Rightarrow>
               remove_managed d transport request kind vs n (failures @ [kind @ '' '' @ i @ '': '' @ errorMessage e]) w'))"

definition docker_reconcile ::
  "docker_runtime \<Rightarrow> 'w transport \<Rightarrow> 'w \<Rightarrow> (thrown + reconciliation_result) \<times> 'w" where
  "docker_reconcile d transport w =
     (case listManagedContainers d transport w of
        (Inl e, w1) \<Rightarrow> (Inl e, w1)
      | (Inr containers, w1) \<Rightarrow>
          (case remove_managed d transport (delete_container_request d) ''container'' containers 0 [] w1 of
             ((n, failures), w2) \<Rightarrow>
               (case listManagedNetworks d transport w2 of
                  (Inl e, w3) \<Rightarrow> (Inl e, w3)
                | (Inr networks, w3) \<Rightarrow>
                    (case remove_managed d transport (\<lambda>i. delete_network_request d (encodeURIComponent i)) ''network''
                            networks 0 failures w3 of
                       ((m, failures'), w4) \<Rightarrow>
                         (if failures' \<noteq> []
                          then Inl (orch RUNTIME_FAILURE (''runtime reconciliation failed: '' @ join_with ''; '' failures') 503)
                          else Inr \<lparr>containersRemoved = n, networksRemoved = m\<rparr>, w4)))))"

subsection \<open>The tab control endpoint\<close>

definition invalidTabRuntimeResponse :: thrown where
  "invalidTabRuntimeResponse = orch TAB_RUNTIME_UNAVAILABLE ''tab runtime returned an invalid response'' 503"

definition tabRuntimeUnavailable :: thrown where
  "tabRuntimeUnavailable = orch TAB_RUNTIME_UNAVAILABLE ''tab runtime is unavailable'' 503"

definition validateTabControlResource :: "url_parser \<Rightarrow> runtime_resource \<Rightarrow> thrown + parsed_url" where
  "validateTabControlResource parse resource =
     (case (parse (tabControlEndpoint resource), parse (signalingEndpoint resource)) of
        (Some endpoint, Some signaling) \<Rightarrow>
          if url_protocol endpoint \<noteq> ''http:'' \<or> url_hostname endpoint \<noteq> SIGNALING_HOST
            \<or> url_username endpoint \<noteq> [] \<or> url_password endpoint \<noteq> []
            \<or> url_pathname endpoint \<noteq> ''/internal/v1/tabs'' \<or> url_search endpoint \<noteq> [] \<or> url_hash endpoint \<noteq> []
            \<or> \<not> is_canonical_numeral 4 (url_port endpoint) \<or> digits_value (url_port endpoint) > 65535
            \<or> url_protocol signaling \<noteq> ''ws:'' \<or> url_hostname signaling \<noteq> url_hostname endpoint
            \<or> url_port signaling \<noteq> url_port endpoint \<or> url_username signaling \<noteq> [] \<or> url_password signaling \<noteq> []
            \<or> url_pathname signaling \<noteq> ''/internal/v1/signaling'' \<or> url_search signaling \<noteq> [] \<or> url_hash signaling \<noteq> []
            \<or> \<not> is_credential (signalingSecret resource)
          then Inl invalidTabRuntimeResponse else Inr endpoint
      | _ \<Rightarrow> Inl invalidTabRuntimeResponse)"

definition isPublicTabUrl :: "url_parser \<Rightarrow> string \<Rightarrow> bool" where
  "isPublicTabUrl parse value =
     (value = home_url \<or> (case parse value of None \<Rightarrow> False | Some u \<Rightarrow> web_url u \<and> url_href u = value))"

text \<open>\<open>new Date(Date.parse(value)).toISOString()\<close>, \<open>None\<close> when the time is not finite.\<close>

type_synonym date_printer = "string \<Rightarrow> string option"

definition isCanonicalTimestamp :: "date_printer \<Rightarrow> string \<Rightarrow> bool" where
  "isCanonicalTimestamp reprint value = (reprint value = Some value)"

text \<open>A version 4 UUID, \<open>/^[0-9a-f]{8}-[0-9a-f]{4}-4[0-9a-f]{3}-[89ab][0-9a-f]{3}-[0-9a-f]{12}$/\<close>.\<close>

definition is_uuid_v4 :: "string \<Rightarrow> bool" where
  "is_uuid_v4 s =
     (let parts = split_on (CHR ''-'') s in
      map length parts = [8, 4, 4, 4, 12] \<and> list_all (list_all is_lower_hex) parts
      \<and> hd (parts ! 2) = CHR ''4'' \<and> hd (parts ! 3) \<in> set ''89ab'')"

definition parseTabView :: "url_parser \<Rightarrow> date_printer \<Rightarrow> json option \<Rightarrow> thrown + tab_view" where
  "parseTabView parse reprint value =
     (case value of
        None \<Rightarrow> Inl invalidTabRuntimeResponse
      | Some v \<Rightarrow>
          if \<not> json_object v \<or> sorted_keys v \<noteq> ''active,createdAt,id,url'' then Inl invalidTabRuntimeResponse
          else
            (case (json_field v ''id'', json_field v ''url'', json_field v ''createdAt'', json_field v ''active'') of
               (Some (JStr i), Some (JStr u), Some (JStr at), Some (JBool active)) \<Rightarrow>
                 if \<not> is_uuid_v4 i \<or> \<not> isPublicTabUrl parse u \<or> \<not> isCanonicalTimestamp reprint at
                 then Inl invalidTabRuntimeResponse
                 else Inr \<lparr>tab_id = i, tab_url = u, tab_createdAt = at, tab_active = active\<rparr>
             | _ \<Rightarrow> Inl invalidTabRuntimeResponse))"

definition tab_error_bindings :: "(string \<times> nat \<times> error_code \<times> string) list" where
  "tab_error_bindings =
     [(''TAB_NOT_FOUND'', 404, TAB_NOT_FOUND, ''tab not found''),
      (''TAB_LIMIT_REACHED'', 409, TAB_LIMIT_REACHED, ''session tab limit reached''),
      (''TAB_MINIMUM_REACHED'', 409, TAB_MINIMUM_REACHED, ''a session must retain one tab''),
      (''TAB_URL_INVALID'', 400, TAB_URL_INVALID, ''tab URL is invalid'')]"

definition parseTabRuntimeError :: "(nat list \<Rightarrow> json option) \<Rightarrow> nat option \<Rightarrow> nat list \<Rightarrow> thrown" where
  "parseTabRuntimeError json_parse status source =
     (case json_parse source of
        None \<Rightarrow> invalidTabRuntimeResponse
      | Some document \<Rightarrow>
          (case json_field document ''error'' of
             Some err \<Rightarrow>
               if \<not> json_object document \<or> join_with '','' (json_keys document) \<noteq> ''error''
                 \<or> \<not> json_object err \<or> sorted_keys err \<noteq> ''code,message''
               then invalidTabRuntimeResponse
               else
                 (case (json_field err ''code'', json_field err ''message'') of
                    (Some (JStr code'), Some (JStr _)) \<Rightarrow>
                      (case map_of tab_error_bindings code' of
                         Some (expected, c, message) \<Rightarrow>
                           if status \<noteq> Some expected then invalidTabRuntimeResponse else orch c message expected
                       | None \<Rightarrow> invalidTabRuntimeResponse)
                  | _ \<Rightarrow> invalidTabRuntimeResponse)
           | None \<Rightarrow> invalidTabRuntimeResponse))"

text \<open>
  The response's chunks, up to 64 KiB together; a longer response is destroyed. \<open>None\<close> is the
  \<open>error\<close> event that follows.
\<close>

fun read_limited :: "nat \<Rightarrow> nat \<Rightarrow> nat list list \<Rightarrow> nat list option" where
  "read_limited limit got [] = Some []"
| "read_limited limit got (chunk # chunks) =
     (if got + length chunk > limit then None
      else map_option (\<lambda>rest. chunk @ rest) (read_limited limit (got + length chunk) chunks))"

definition control_http_request ::
  "parsed_url \<Rightarrow> runtime_resource \<Rightarrow> http_method \<Rightarrow> string \<Rightarrow> json option \<Rightarrow> http_request" where
  "control_http_request endpoint resource method suffix body =
     (let encoded = map_option json_stringify body in
      \<lparr>http_target = HostPort ''http:'' (url_hostname endpoint) (url_port endpoint), http_method = method,
       http_path = url_pathname endpoint @ suffix,
       http_headers = [(''authorization'', ''Bearer '' @ signalingSecret resource), (''connection'', ''close'')]
         @ (case encoded of None \<Rightarrow> []
            | Some b \<Rightarrow> [(''content-type'', ''application/json''), (''content-length'', show_nat (byteLength b))]),
       http_payload = encoded\<rparr>)"

definition control_answer :: "(nat list \<Rightarrow> json option) \<Rightarrow> nat \<Rightarrow> http_outcome \<Rightarrow> thrown + json option" where
  "control_answer json_parse expectedStatus outcome =
     (case outcome of
        HttpError _ \<Rightarrow> Inl tabRuntimeUnavailable
      | HttpResponse status chunks \<Rightarrow>
          (case read_limited (64 * 1024) 0 chunks of
             None \<Rightarrow> Inl tabRuntimeUnavailable
           | Some source \<Rightarrow>
               if status = Some expectedStatus then
                 (if expectedStatus = 204 then (if source \<noteq> [] then Inl invalidTabRuntimeResponse else Inr None)
                  else case json_parse source of
                      None \<Rightarrow> Inl invalidTabRuntimeResponse
                    | Some v \<Rightarrow> Inr (Some v))
               else Inl (parseTabRuntimeError json_parse status source)))"

definition controlRequest ::
  "url_parser \<Rightarrow> (nat list \<Rightarrow> json option) \<Rightarrow> 'w exchange \<Rightarrow> runtime_resource \<Rightarrow> http_method \<Rightarrow> string
   \<Rightarrow> json option \<Rightarrow> nat \<Rightarrow> 'w \<Rightarrow> (thrown + json option) \<times> 'w" where
  "controlRequest parse json_parse exchange resource method suffix body expectedStatus w =
     (case validateTabControlResource parse resource of
        Inl e \<Rightarrow> (Inl e, w)
      | Inr endpoint \<Rightarrow>
          (case exchange (control_http_request endpoint resource method suffix body) w of
             (outcome, w') \<Rightarrow> (control_answer json_parse expectedStatus outcome, w')))"

definition parse_tab_list :: "url_parser \<Rightarrow> date_printer \<Rightarrow> json option \<Rightarrow> thrown + tab_view list" where
  "parse_tab_list parse reprint body =
     (case optional_field body ''tabs'' of
        Some (JArr values) \<Rightarrow>
          bind_result
            (foldr (\<lambda>v acc. bind_result (parseTabView parse reprint (Some v)) (\<lambda>tab.
               bind_result acc (\<lambda>tabs. Inr (tab # tabs)))) values (Inr []))
            (\<lambda>tabs.
               if length tabs < 1 \<or> length tabs > 4
                 \<or> length (remdups (map tab_id tabs)) \<noteq> length tabs
                 \<or> length (filter tab_active tabs) \<noteq> 1
               then Inl invalidTabRuntimeResponse else Inr tabs)
      | _ \<Rightarrow> Inl invalidTabRuntimeResponse)"

definition docker_listTabs ::
  "url_parser \<Rightarrow> date_printer \<Rightarrow> (nat list \<Rightarrow> json option) \<Rightarrow> 'w exchange \<Rightarrow> runtime_resource \<Rightarrow> 'w
   \<Rightarrow> (thrown + tab_view list) \<times> 'w" where
  "docker_listTabs parse reprint json_parse exchange resource w =
     (case controlRequest parse json_parse exchange resource GET [] None 200 w of
        (Inl e, w') \<Rightarrow> (Inl e, w')
      | (Inr body, w') \<Rightarrow> (parse_tab_list parse reprint body, w'))"

definition parse_tab_body :: "url_parser \<Rightarrow> date_printer \<Rightarrow> json option \<Rightarrow> thrown + tab_view" where
  "parse_tab_body parse reprint body =
     (case body of
        None \<Rightarrow> Inl invalidTabRuntimeResponse
      | Some v \<Rightarrow> if \<not> json_object v then Inl invalidTabRuntimeResponse
          else parseTabView parse reprint (json_field v ''tab''))"

definition docker_createTab ::
  "url_parser \<Rightarrow> date_printer \<Rightarrow> (nat list \<Rightarrow> json option) \<Rightarrow> 'w exchange \<Rightarrow> runtime_resource \<Rightarrow> string option \<Rightarrow> 'w
   \<Rightarrow> (thrown + tab_view) \<times> 'w" where
  "docker_createTab parse reprint json_parse exchange resource url w =
     (case controlRequest parse json_parse exchange resource POST []
             (Some (JObj (case url of None \<Rightarrow> [] | Some u \<Rightarrow> [(''url'', JStr u)]))) 201 w of
        (Inl e, w') \<Rightarrow> (Inl e, w')
      | (Inr body, w') \<Rightarrow> (parse_tab_body parse reprint body, w'))"

definition docker_activateTab ::
  "url_parser \<Rightarrow> date_printer \<Rightarrow> (nat list \<Rightarrow> json option) \<Rightarrow> 'w exchange \<Rightarrow> runtime_resource \<Rightarrow> string \<Rightarrow> 'w
   \<Rightarrow> (thrown + tab_view) \<times> 'w" where
  "docker_activateTab parse reprint json_parse exchange resource tabId w =
     (case controlRequest parse json_parse exchange resource PUT (''/'' @ encodeURIComponent tabId @ ''/active'') None 200 w of
        (Inl e, w') \<Rightarrow> (Inl e, w')
      | (Inr body, w') \<Rightarrow> (parse_tab_body parse reprint body, w'))"

definition docker_navigateTab ::
  "url_parser \<Rightarrow> date_printer \<Rightarrow> (nat list \<Rightarrow> json option) \<Rightarrow> 'w exchange \<Rightarrow> runtime_resource \<Rightarrow> string \<Rightarrow> string \<Rightarrow> 'w
   \<Rightarrow> (thrown + tab_view) \<times> 'w" where
  "docker_navigateTab parse reprint json_parse exchange resource tabId url w =
     (case controlRequest parse json_parse exchange resource PUT (''/'' @ encodeURIComponent tabId @ ''/navigation'')
             (Some (JObj [(''url'', JStr url)])) 200 w of
        (Inl e, w') \<Rightarrow> (Inl e, w')
      | (Inr body, w') \<Rightarrow> (parse_tab_body parse reprint body, w'))"

definition docker_deleteTab ::
  "url_parser \<Rightarrow> (nat list \<Rightarrow> json option) \<Rightarrow> 'w exchange \<Rightarrow> runtime_resource \<Rightarrow> string \<Rightarrow> 'w \<Rightarrow> (thrown + unit) \<times> 'w" where
  "docker_deleteTab parse json_parse exchange resource tabId w =
     (case controlRequest parse json_parse exchange resource DELETE (''/'' @ encodeURIComponent tabId) None 204 w of
        (Inl e, w') \<Rightarrow> (Inl e, w')
      | (Inr _, w') \<Rightarrow> (Inr (), w'))"

end
