(* ===== verification/DockerProperties.thy ===== *)
theory DockerProperties
  imports DockerRuntime
begin

text \<open>
  The properties of the Docker runtime: what its operations ask of the engine, in terms of the
  history of requests and answers that \<open>recording\<close> keeps, and what they make of the answers.
\<close>

type_synonym history = "(docker_request \<times> (thrown + json)) list"

definition deletes :: "history \<Rightarrow> docker_request list" where
  "deletes log = map fst (filter (\<lambda>(r, _). dr_method r = DELETE) log)"

lemma deletes_simps [simp]:
  "deletes [] = []" "deletes (log @ log') = deletes log @ deletes log'"
  "deletes ((r, res) # log) = (if dr_method r = DELETE then r # deletes log else deletes log)"
  by (simp_all add: deletes_def)

lemma health_request_get [simp]: "dr_method (health_request d cid) = GET"
  by (simp add: health_request_def)

lemma recording_simp:
  "recording transport r (w, log) = (fst (transport r w), (snd (transport r w), log @ [(r, fst (transport r w))]))"
  by (simp add: recording_def split: prod.splits)

lemma call_recording:
  "call (recording transport) m p a b (w, log) =
     (let r = \<lparr>dr_method = m, dr_path = p, dr_accepted = a, dr_body = b\<rparr>; x = transport r w
      in (fst x, (snd x, log @ [(r, fst x)])))"
  by (simp add: call_def recording_simp Let_def)

text \<open>A request to the engine, written out.\<close>

definition engine_call :: "docker_runtime \<Rightarrow> http_method \<Rightarrow> string \<Rightarrow> nat list \<Rightarrow> json option \<Rightarrow> docker_request" where
  "engine_call d m path accepted body =
     \<lparr>dr_method = m, dr_path = ''/v'' @ apiVersion d @ path, dr_accepted = accepted, dr_body = body\<rparr>"

lemma engine_calls:
  "health_request d cid = engine_call d GET (''/containers/'' @ encodeURIComponent cid @ ''/json'') [200] None"
  "create_network_request d input = engine_call d POST ''/networks/create'' [201] (Some (network_request d input))"
  "create_container_request d secret input = engine_call d POST
     (''/containers/create?name='' @ encodeURIComponent (''fireball-'' @ req_sessionId input)) [201] (Some (container_request d secret input))"
  "start_request d cid = engine_call d POST (''/containers/'' @ cid @ ''/start'') [204] None"
  "delete_container_request d cid = engine_call d DELETE (''/containers/'' @ encodeURIComponent cid @ ''?force=true&v=true'') [204, 404] None"
  "delete_network_request d name = engine_call d DELETE (''/networks/'' @ name) [204, 404] None"
  by (simp_all add: engine_call_def health_request_def create_network_request_def create_container_request_def start_request_def
      delete_container_request_def delete_network_request_def engine_path_def container_name_def)

text \<open>The state of health in an inspection that the code acts on.\<close>

definition health_is :: "string \<Rightarrow> thrown + json \<Rightarrow> bool" where
  "health_is status answer \<longleftrightarrow> (\<exists>v state health. answer = Inr v \<and> json_field v ''State'' = Some state
     \<and> json_field state ''Health'' = Some health \<and> json_field health ''Status'' = Some (JStr status))"

lemma optional_field_Some: "optional_field x k = Some y \<longleftrightarrow> (\<exists>v. x = Some v \<and> json_field v k = Some y)"
  by (cases x) simp_all

lemma health_is_status: "health_is st (Inr v) \<longleftrightarrow> health_status v = Some (JStr st)"
  by (auto simp: health_is_def health_status_def optional_field_Some)

text \<open>
  Why a creation failed, as its last call tells: that call failed, or its answer is one the code refuses. The messages
  are those of the code.
\<close>

definition failure_cause :: "docker_runtime \<Rightarrow> docker_request \<times> (thrown + json) \<Rightarrow> thrown \<Rightarrow> bool" where
  "failure_cause d last_call cause \<longleftrightarrow>
     (case last_call of
        (r, Inl e) \<Rightarrow> cause = e
      | (r, Inr v) \<Rightarrow>
          if dr_method r = GET then
            v = JNull \<and> cause = PlainError (null_access ''State'')
            \<or> health_is ''unhealthy'' (Inr v) \<and> cause = PlainError ''session container failed its startup health check''
            \<or> v \<noteq> JNull \<and> \<not> health_is ''healthy'' (Inr v) \<and> \<not> health_is ''starting'' (Inr v) \<and> \<not> health_is ''unhealthy'' (Inr v)
              \<and> cause = PlainError ''session image does not expose a Docker health check''
            \<or> health_is ''starting'' (Inr v) \<and> cause = PlainError ''session container startup health check timed out''
            \<or> health_is ''healthy'' (Inr v) \<and> cause \<in> {PlainError ''Docker did not publish the internal signaling port'',
                PlainError ''Docker returned an invalid signaling port''}
          else
            v = JNull \<and> cause = PlainError (null_access ''Id'')
            \<or> v \<noteq> JNull \<and> (\<forall>i. json_field v ''Id'' = Some (JStr i) \<longrightarrow> i = []) \<and> cause = PlainError ''Docker did not return a container id''
            \<or> startupHealthAttempts d = 0 \<and> cause = PlainError ''session container startup health check timed out'')"

text \<open>
  The health checks ask for nothing but inspections of the container, at most one per attempt, until one does not answer
  that it is starting.
\<close>

definition still_starting :: "docker_runtime \<Rightarrow> string \<Rightarrow> history \<Rightarrow> bool" where
  "still_starting d cid checks \<longleftrightarrow> (\<forall>(r, a) \<in> set checks. r = health_request d cid \<and> health_is ''starting'' a)"

lemma health_history:
  "waitForHealthy d (recording transport) cid n (w, log) = (res, (w', log')) \<Longrightarrow>
   n = 0 \<and> log' = log \<and> res = Inl (PlainError ''session container startup health check timed out'')
   \<or> (\<exists>checks a. log' = log @ checks @ [(health_request d cid, a)] \<and> length checks < n \<and> still_starting d cid checks
        \<and> (case res of Inr v \<Rightarrow> a = Inr v \<and> health_is ''healthy'' a
            | Inl e \<Rightarrow> failure_cause d (health_request d cid, a) e \<and> \<not> health_is ''healthy'' a))"
proof (induction n arbitrary: w log)
  case 0
  then show ?case by auto
next
  case (Suc n)
  let ?r = "health_request d cid"
  let ?x = "transport ?r w"
  show ?case
  proof (cases "fst ?x")
    case (Inl e)
    with Suc.prems have "res = Inl e \<and> log' = log @ [(?r, Inl e)]" by (auto simp: recording_simp Let_def)
    then show ?thesis by (intro disjI2 exI [of _ "[]"]) (simp add: still_starting_def failure_cause_def health_is_def)
  next
    case (Inr v)
    show ?thesis
    proof (cases "v \<noteq> JNull \<and> health_status v = Some (JStr ''starting'')")
      case True
      with Suc.prems Inr have "waitForHealthy d (recording transport) cid n (snd ?x, log @ [(?r, Inr v)]) = (res, (w', log'))"
        by (auto simp: recording_simp Let_def)
      from Suc.IH [OF this] show ?thesis
      proof (elim disjE exE conjE)
        assume "n = 0" "log' = log @ [(?r, Inr v)]" "res = Inl (PlainError ''session container startup health check timed out'')"
        with True show ?thesis
          by (intro disjI2 exI [of _ "[]"] exI [of _ "Inr v"]) (simp add: still_starting_def failure_cause_def health_is_status)
      next
        fix checks a
        assume "log' = (log @ [(?r, Inr v)]) @ checks @ [(?r, a)]" "length checks < n" "still_starting d cid checks"
          "case res of Inr v \<Rightarrow> a = Inr v \<and> health_is ''healthy'' a | Inl e \<Rightarrow> failure_cause d (?r, a) e \<and> \<not> health_is ''healthy'' a"
        with True show ?thesis
          by (intro disjI2 exI [of _ "(?r, Inr v) # checks"] exI [of _ a]) (simp add: still_starting_def health_is_status)
      qed
    next
      case False
      then have stop: "v = JNull \<or> v \<noteq> JNull \<and> health_status v \<noteq> Some (JStr ''starting'')" by blast
      have null: "health_status JNull = None" by (simp add: health_status_def)
      have log: "log' = log @ [(?r, Inr v)]" and res: "res =
          (if v = JNull then Inl (PlainError (null_access ''State''))
           else if health_status v = Some (JStr ''healthy'') then Inr v
           else Inl (PlainError (if health_status v = Some (JStr ''unhealthy'')
                 then ''session container failed its startup health check''
                 else ''session image does not expose a Docker health check'')))"
        using Suc.prems Inr stop by (auto simp: recording_simp split: if_splits)
      have "case res of Inr u \<Rightarrow> u = v \<and> health_is ''healthy'' (Inr v)
          | Inl e \<Rightarrow> failure_cause d (?r, Inr v) e \<and> \<not> health_is ''healthy'' (Inr v)"
        unfolding res using stop null by (auto simp: failure_cause_def health_is_status)
      with log have "log' = log @ [(?r, Inr v)]" and "case res of Inr u \<Rightarrow> u = v \<and> health_is ''healthy'' (Inr v)
          | Inl e \<Rightarrow> failure_cause d (?r, Inr v) e \<and> \<not> health_is ''healthy'' (Inr v)" by blast+
      then show ?thesis by (intro disjI2 exI [of _ "[]"] exI [of _ "Inr v"]) (auto simp: still_starting_def split: sum.splits)
    qed
  qed
qed

lemma starting_deletes: "still_starting d cid checks \<Longrightarrow> deletes checks = []"
  by (auto simp: still_starting_def deletes_def filter_empty_conv)

text \<open>What a creation's history says of the container: its identifier, or its name without one.\<close>

definition container_reference :: "create_runtime_request \<Rightarrow> json \<Rightarrow> string" where
  "container_reference input v =
     (let cid = string_value (json_field v ''Id'') in if cid = [] then container_name input else cid)"

lemma checks_create_nothing: "still_starting d cid checks \<Longrightarrow> (create_container_request d secret input, res) \<notin> set checks"
  by (auto simp: still_starting_def engine_calls engine_call_def)

lemma published_port:
  assumes "publishedSignalingPort v = Inr port"
  shows "\<exists>settings ports binding rest. json_field v ''NetworkSettings'' = Some settings \<and> json_field settings ''Ports'' = Some ports
    \<and> json_field ports ''8444/tcp'' = Some (JArr (binding # rest)) \<and> json_field binding ''HostIp'' = Some (JStr ''127.0.0.1'')
    \<and> json_field binding ''HostPort'' = Some (JStr (show_nat port)) \<and> 1 \<le> port \<and> port \<le> 65535"
proof -
  obtain raw where raw: "optional_field (published_binding v) ''HostPort'' = Some (JStr raw)"
    "optional_field (published_binding v) ''HostIp'' = Some (JStr ''127.0.0.1'')"
    "is_canonical_numeral 4 raw" "port = digits_value raw" "port \<le> 65535"
    using assms by (auto simp: publishedSignalingPort_def Let_def split: option.splits json.splits if_splits)
  then obtain binding where b: "published_binding v = Some binding" "json_field binding ''HostPort'' = Some (JStr raw)"
    "json_field binding ''HostIp'' = Some (JStr ''127.0.0.1'')" by (auto simp: optional_field_Some)
  have first: "\<exists>rest. x = Some (JArr (y # rest))" if "optional_first x = Some y" for x y
    using that by (cases x rule: optional_first.cases) auto
  from b(1) first obtain rest where "optional_field (optional_field (json_field v ''NetworkSettings'') ''Ports'') ''8444/tcp''
      = Some (JArr (binding # rest))" by (auto simp: published_binding_def INTERNAL_SIGNALING_PORT_def)
  with b raw canonical_numeral_shown [OF raw(3)] show ?thesis by (auto simp: optional_field_Some)
qed

lemma unpublished_port:
  "publishedSignalingPort v = Inl e \<Longrightarrow> e \<in> {PlainError ''Docker did not publish the internal signaling port'',
     PlainError ''Docker returned an invalid signaling port''}"
  by (auto simp: publishedSignalingPort_def Let_def split: option.splits json.splits if_splits)

lemma string_value_nonempty: "string_value x \<noteq> [] \<Longrightarrow> x = Some (JStr (string_value x))"
  by (cases x rule: string_value.cases) simp_all

text \<open>The calls of the \<open>try\<close> block when it succeeds.\<close>

definition started_history ::
  "docker_runtime \<Rightarrow> string \<Rightarrow> create_runtime_request \<Rightarrow> history \<Rightarrow> runtime_resource \<Rightarrow> bool" where
  "started_history d secret input hs r \<longleftrightarrow>
     (\<exists>v u checks inspection cid port.
        hs = [(create_container_request d secret input, Inr v), (start_request d cid, Inr u)] @ checks
          @ [(health_request d cid, Inr inspection)]
        \<and> json_field v ''Id'' = Some (JStr cid) \<and> cid \<noteq> [] \<and> still_starting d cid checks
        \<and> length checks < startupHealthAttempts d \<and> health_is ''healthy'' (Inr inspection)
        \<and> publishedSignalingPort inspection = Inr port \<and> r = runtime_resource_of input secret cid port)"

lemma start_history:
  assumes "start_container d (recording transport) secret input (w, log) = ((created, cid, res), (w', log'))"
  shows "\<exists>hs. log' = log @ hs \<and> hs \<noteq> [] \<and> deletes hs = []
    \<and> (\<forall>v. (create_container_request d secret input, Inr v) \<in> set hs \<longrightarrow>
         created \<and> or_else cid (container_name input) = container_reference input v)
    \<and> (created \<longrightarrow> (\<exists>v. (create_container_request d secret input, Inr v) \<in> set hs))
    \<and> (\<forall>e. res = Inl e \<longrightarrow> failure_cause d (last hs) e)
    \<and> (\<forall>r. res = Inr r \<longrightarrow> started_history d secret input hs r)"
proof -
  let ?c = "create_container_request d secret input"
  let ?x = "transport ?c w"
  have del: "dr_method ?c = POST" by (simp add: create_container_request_def)
  show ?thesis
  proof (cases "fst ?x")
    case (Inl e)
    with assms show ?thesis by (auto simp: start_container_def recording_simp del failure_cause_def)
  next
    case (Inr v)
    let ?cid = "string_value (json_field v ''Id'')"
    let ?log1 = "log @ [(?c, Inr v)]"
    show ?thesis
    proof (cases "v = JNull \<or> ?cid = []")
      case True
      with assms Inr have "log' = ?log1" "created" "cid = None" "res = Inl (PlainError (if v = JNull then null_access ''Id''
          else ''Docker did not return a container id''))"
        by (auto simp: start_container_def recording_simp Let_def split: if_splits)
      moreover have "container_reference input v = container_name input"
        using True by (auto simp: container_reference_def)
      moreover have "\<forall>i. json_field v ''Id'' = Some (JStr i) \<longrightarrow> i = []" using True by auto
      ultimately show ?thesis by (intro exI [of _ "[(?c, Inr v)]"]) (auto simp: del or_else_def failure_cause_def)
    next
      case False
      let ?s = "start_request d ?cid"
      let ?y = "transport ?s (snd ?x)"
      have ref: "container_reference input v = ?cid" using False by (simp add: container_reference_def Let_def)
      have ne: "?s \<noteq> ?c" "dr_method ?s = POST" "health_request d i \<noteq> ?c" for i
        by (simp_all add: create_container_request_def start_request_def health_request_def)
      show ?thesis
      proof (cases "fst ?y")
        case (Inl e)
        with assms Inr False have "log' = ?log1 @ [(?s, Inl e)]" "created" "cid = Some ?cid" "res = Inl e"
          by (auto simp: start_container_def recording_simp Let_def)
        then show ?thesis
          by (intro exI [of _ "[(?c, Inr v), (?s, Inl e)]"]) (auto simp: del ne ref or_else_def failure_cause_def)
      next
        case (Inr u)
        let ?log2 = "?log1 @ [(?s, Inr u)]"
        obtain h w3 log3 where h: "waitForHealthy d (recording transport) ?cid (startupHealthAttempts d) (snd ?y, ?log2) = (h, (w3, log3))"
          by (metis prod_cases3)
        have "start_container d (recording transport) secret input (w, log) = ((True, Some ?cid,
            (case h of Inl e \<Rightarrow> Inl e | Inr i \<Rightarrow> (case publishedSignalingPort i of Inl e \<Rightarrow> Inl e
              | Inr port \<Rightarrow> Inr (runtime_resource_of input secret ?cid port)))), (w3, log3))"
          using \<open>fst ?x = Inr v\<close> Inr False h
          by (simp add: start_container_def recording_simp Let_def split: sum.split)
        with assms have out: "created" "cid = Some ?cid" "log' = log3"
          and res: "res = (case h of Inl e \<Rightarrow> Inl e | Inr i \<Rightarrow> (case publishedSignalingPort i of Inl e \<Rightarrow> Inl e
              | Inr port \<Rightarrow> Inr (runtime_resource_of input secret ?cid port)))"
          by simp_all
        have cid: "json_field v ''Id'' = Some (JStr ?cid)" using False by (intro string_value_nonempty) blast
        consider (none) "startupHealthAttempts d = 0" "log3 = ?log2"
            "h = Inl (PlainError ''session container startup health check timed out'')"
          | (some) checks a where "log3 = ?log2 @ checks @ [(health_request d ?cid, a)]" "length checks < startupHealthAttempts d"
            "still_starting d ?cid checks" "case h of Inr v \<Rightarrow> a = Inr v \<and> health_is ''healthy'' a
              | Inl e \<Rightarrow> failure_cause d (health_request d ?cid, a) e \<and> \<not> health_is ''healthy'' a"
          using health_history [OF h] by (elim disjE exE conjE)
        then show ?thesis
        proof cases
          case none
          with out res show ?thesis
            by (intro exI [of _ "[(?c, Inr v), (?s, Inr u)]"]) (auto simp: del ne ne(1) [symmetric] ref or_else_def failure_cause_def)
        next
          case some
          let ?hs = "[(?c, Inr v), (?s, Inr u)] @ checks @ [(health_request d ?cid, a)]"
          have clean: "deletes ?hs = []" using starting_deletes [OF some(3)] del ne by simp
          have "(?c, Inr v') \<notin> set (checks @ [(health_request d ?cid, a)])" for v'
            using checks_create_nothing [OF some(3)] ne(3) [symmetric] by auto
          then have made: "v' = v" if "(?c, Inr v') \<in> set ?hs" for v'
            using that ne(1) [symmetric] by auto
          have fails: "failure_cause d (last ?hs) e" if "res = Inl e" for e
            using that res some(4) unpublished_port
            by (cases h) (auto simp: failure_cause_def split: sum.splits)
          have starts: "started_history d secret input ?hs r" if "res = Inr r" for r
          proof -
            from that res obtain i port where i: "h = Inr i" "publishedSignalingPort i = Inr port"
              "r = runtime_resource_of input secret ?cid port" by (auto split: sum.splits)
            with some(4) have "a = Inr i" "health_is ''healthy'' (Inr i)" by auto
            with some(2,3) i cid False show ?thesis
              unfolding started_history_def
              by (intro exI [of _ v] exI [of _ u] exI [of _ checks] exI [of _ i] exI [of _ ?cid] exI [of _ port]) simp
          qed
          have log: "log' = log @ ?hs" using out(3) some(1) by simp
          have ok: "created \<and> or_else cid (container_name input) = container_reference input v'"
            if "(?c, Inr v') \<in> set ?hs" for v' using made [OF that] out(1,2) ref by (simp add: or_else_def)
          have mem: "(?c, Inr v) \<in> set ?hs" by simp
          have "?hs \<noteq> []" by simp
          moreover have "\<forall>v'. (?c, Inr v') \<in> set ?hs \<longrightarrow> created \<and> or_else cid (container_name input) = container_reference input v'"
            by (intro allI impI) (rule ok)
          moreover have "created \<longrightarrow> (\<exists>v. (?c, Inr v) \<in> set ?hs)" by (rule impI, rule exI, rule mem)
          moreover have "\<forall>e. res = Inl e \<longrightarrow> failure_cause d (last ?hs) e" by (intro allI impI) (rule fails)
          moreover have "\<forall>r. res = Inr r \<longrightarrow> started_history d secret input ?hs r" by (intro allI impI) (rule starts)
          ultimately show ?thesis by (intro exI [of _ ?hs] conjI log clean)
        qed
      qed
    qed
  qed
qed

text \<open>What the \<open>catch\<close> block asks for, and what it throws.\<close>

definition call_failures :: "history \<Rightarrow> string list" where
  "call_failures log = concat (map (\<lambda>(r, a). case a of Inl e \<Rightarrow> [errorMessage e] | Inr _ \<Rightarrow> []) log)"

lemma rollback_history:
  assumes "rollback d (recording transport) input created cid e (w, log) = (e', (w', log'))"
  shows "\<exists>hs. log' = log @ hs \<and> map fst hs =
      (if created then [delete_container_request d (or_else cid (container_name input))] else [])
        @ [delete_network_request d (network_name input)]
    \<and> e' = (if call_failures hs = [] then (case e of Orchestrator _ \<Rightarrow> e | PlainError m \<Rightarrow> orch RUNTIME_FAILURE m 503)
        else orch RUNTIME_FAILURE (errorMessage e @ ''; rollback failed: '' @ join_with ''; '' (call_failures hs)) 503)"
  using assms
  by (auto simp: rollback_def recording_simp Let_def call_failures_def collect_failure_def split: if_splits sum.splits)

text \<open>
  C10. A failed creation cleans up after itself and says what went wrong. Whenever creating a runtime fails after its
  network was created, whatever the engine answers, the calls are those of the creation and then those of the rollback:
  the forced deletion of the container, if it was created, under the identifier the engine gave it or else under its
  name, and the deletion of the network. The error has the cause that the creation's last call shows, with the failures
  of the rollback appended when there are any.
\<close>

theorem failed_creation_rolls_back:
  assumes fail: "docker_create d (recording transport) secret input (w, []) = (Inl e, (w', log))"
    and network: "(create_network_request d input, Inr n) \<in> set log"
  shows "\<exists>n' made undone cause. log = (create_network_request d input, Inr n') # made @ undone
    \<and> made \<noteq> [] \<and> deletes made = [] \<and> failure_cause d (last made) cause
    \<and> (\<forall>v. (create_container_request d secret input, Inr v) \<in> set made \<longrightarrow>
         map fst undone =
           [engine_call d DELETE (''/containers/'' @ encodeURIComponent (container_reference input v) @ ''?force=true&v=true'') [204, 404] None,
            engine_call d DELETE (''/networks/fireball-net-'' @ req_sessionId input) [204, 404] None])
    \<and> ((\<forall>v. (create_container_request d secret input, Inr v) \<notin> set made) \<longrightarrow>
         map fst undone = [engine_call d DELETE (''/networks/fireball-net-'' @ req_sessionId input) [204, 404] None])
    \<and> e = (if call_failures undone = [] then (case cause of Orchestrator _ \<Rightarrow> cause | PlainError m \<Rightarrow> orch RUNTIME_FAILURE m 503)
        else orch RUNTIME_FAILURE (errorMessage cause @ ''; rollback failed: '' @ join_with ''; '' (call_failures undone)) 503)"
proof -
  let ?n = "create_network_request d input"
  let ?c = "create_container_request d secret input"
  show ?thesis
  proof (cases "fst (transport ?n w)")
    case (Inl e1)
    with fail network show ?thesis by (auto simp: docker_create_def recording_simp)
  next
    case (Inr v1)
    let ?log1 = "[(?n, Inr v1)]"
    obtain created cid res w2 log2 where
      st: "start_container d (recording transport) secret input (snd (transport ?n w), ?log1) = ((created, cid, res), (w2, log2))"
      by (metis prod_cases5 surj_pair)
    with fail Inr obtain err where res: "res = Inl err"
      by (cases res) (simp_all add: docker_create_def recording_simp)
    from start_history [OF st] res obtain made where m: "log2 = ?log1 @ made" "made \<noteq> []" "deletes made = []"
      "\<forall>v. (?c, Inr v) \<in> set made \<longrightarrow> created \<and> or_else cid (container_name input) = container_reference input v"
      "created \<longrightarrow> (\<exists>v. (?c, Inr v) \<in> set made)" "failure_cause d (last made) err" by blast
    obtain e' w3 log3 where rb: "rollback d (recording transport) input created cid err (w2, log2) = (e', (w3, log3))"
      by (metis prod_cases3)
    from rollback_history [OF rb] obtain undone where u: "log3 = log2 @ undone" "map fst undone =
        (if created then [delete_container_request d (or_else cid (container_name input))] else [])
          @ [delete_network_request d (network_name input)]"
      "e' = (if call_failures undone = [] then (case err of Orchestrator _ \<Rightarrow> err | PlainError m \<Rightarrow> orch RUNTIME_FAILURE m 503)
        else orch RUNTIME_FAILURE (errorMessage err @ ''; rollback failed: '' @ join_with ''; '' (call_failures undone)) 503)" by blast
    from fail Inr st res rb have "log = log3" and "e = e'" by (simp_all add: docker_create_def recording_simp)
    with m u show ?thesis
      by (intro exI [of _ v1] exI [of _ made] exI [of _ undone] exI [of _ err]) (auto simp: engine_calls(5,6) network_name_def)
  qed
qed

subsection \<open>An engine to run against\<close>

text \<open>
  A scripted engine for the witnesses: it answers the requests of a run one after the other.
\<close>

definition scripted :: "(thrown + json) list transport" where
  "scripted r ws = (case ws of [] \<Rightarrow> (Inl (PlainError ''no more answers''), []) | a # rest \<Rightarrow> (a, rest))"

definition ex_docker :: docker_runtime where
  "ex_docker = \<lparr>apiVersion = ''1.45'', session_image = ''fireball/session'', instanceId = ''node-1'', appArmorProfile = None,
     seccompProfile = None, iceServersFile = None, startupHealthAttempts = 3, startupHealthIntervalMs = 1000,
     controlRequestTimeoutMs = 30000\<rparr>"

definition ex_input :: create_runtime_request where
  "ex_input = \<lparr>req_sessionId = ''s1'', req_tenantId = ''acme'', req_quota = \<lparr>memoryMiB = 512, cpuShares = 512, pids = 256\<rparr>\<rparr>"

definition ex_id :: json where
  "ex_id = JObj [(''Id'', JStr ''abc'')]"

definition ex_health :: "string \<Rightarrow> json" where
  "ex_health st = JObj [(''State'', JObj [(''Health'', JObj [(''Status'', JStr st)])]),
     (''NetworkSettings'', JObj [(''Ports'', JObj [(''8444/tcp'',
        JArr [JObj [(''HostIp'', JStr ''127.0.0.1''), (''HostPort'', JStr ''49153'')]])])])]"

definition ex_ok :: json where
  "ex_ok = JObj []"

text \<open>The engine of a run in which the container turns out unhealthy and cannot be removed.\<close>

definition ex_unhealthy :: "(thrown + json) list" where
  "ex_unhealthy = [Inr ex_ok, Inr ex_id, Inr ex_ok, Inr (ex_health ''starting''), Inr (ex_health ''unhealthy''), Inl (PlainError ''busy''), Inr ex_ok]"

theorem failed_creation_rolls_back_witness:
  "let run = docker_create ex_docker (recording scripted) ''secret'' ex_input (ex_unhealthy, []);
       e = orch RUNTIME_FAILURE ''session container failed its startup health check; rollback failed: busy'' 503 in
   fst run = Inl e
   \<and> deletes (snd (snd run)) = [engine_call ex_docker DELETE ''/containers/abc?force=true&v=true'' [204, 404] None,
        engine_call ex_docker DELETE ''/networks/fireball-net-s1'' [204, 404] None]
   \<and> (\<exists>made undone cause. failure_cause ex_docker (last made) cause
        \<and> e = (if call_failures undone = [] then (case cause of Orchestrator _ \<Rightarrow> cause | PlainError m \<Rightarrow> orch RUNTIME_FAILURE m 503)
        else orch RUNTIME_FAILURE (errorMessage cause @ ''; rollback failed: '' @ join_with ''; '' (call_failures undone)) 503))"
proof -
  let ?run = "docker_create ex_docker (recording scripted) ''secret'' ex_input (ex_unhealthy, [])"
  let ?e = "orch RUNTIME_FAILURE ''session container failed its startup health check; rollback failed: busy'' 503"
  have err: "fst ?run = Inl ?e"
    and dels: "deletes (snd (snd ?run)) = [engine_call ex_docker DELETE ''/containers/abc?force=true&v=true'' [204, 404] None,
        engine_call ex_docker DELETE ''/networks/fireball-net-s1'' [204, 404] None]"
    and net: "(create_network_request ex_docker ex_input, Inr ex_ok) \<in> set (snd (snd ?run))" by code_simp+
  from err have run: "?run = (Inl ?e, (fst (snd ?run), snd (snd ?run)))" by (metis prod.collapse)
  have "\<exists>made undone cause. failure_cause ex_docker (last made) cause
        \<and> ?e = (if call_failures undone = [] then (case cause of Orchestrator _ \<Rightarrow> cause | PlainError m \<Rightarrow> orch RUNTIME_FAILURE m 503)
        else orch RUNTIME_FAILURE (errorMessage cause @ ''; rollback failed: '' @ join_with ''; '' (call_failures undone)) 503)"
    using failed_creation_rolls_back [OF run net] by (elim exE conjE) (intro exI conjI; assumption)
  with err dels show ?thesis unfolding Let_def by (intro conjI)
qed

text \<open>
  C11. A creation that succeeds has asked for no deletion, has seen the container healthy, and
  names exactly what it made: the container the engine identified, the session's network, and
  endpoints on the loopback port that the healthy container publishes.
\<close>

theorem successful_creation_describes_the_container:
  assumes ok: "docker_create d (recording transport) secret input (w, []) = (Inr r, (w', log))"
  shows "\<exists>n v u checks inspection cid settings ports binding rest port.
      log = [(engine_call d POST ''/networks/create'' [201] (Some (network_request d input)), Inr n),
             (engine_call d POST (''/containers/create?name='' @ encodeURIComponent (''fireball-'' @ req_sessionId input)) [201]
                (Some (container_request d secret input)), Inr v),
             (engine_call d POST (''/containers/'' @ cid @ ''/start'') [204] None, Inr u)]
          @ checks @ [(engine_call d GET (''/containers/'' @ encodeURIComponent cid @ ''/json'') [200] None, Inr inspection)]
      \<and> json_field v ''Id'' = Some (JStr cid) \<and> cid \<noteq> []
      \<and> (\<forall>(q, a) \<in> set checks. q = engine_call d GET (''/containers/'' @ encodeURIComponent cid @ ''/json'') [200] None
           \<and> health_is ''starting'' a)
      \<and> length checks < startupHealthAttempts d \<and> health_is ''healthy'' (Inr inspection)
      \<and> json_field inspection ''NetworkSettings'' = Some settings \<and> json_field settings ''Ports'' = Some ports
      \<and> json_field ports ''8444/tcp'' = Some (JArr (binding # rest)) \<and> json_field binding ''HostIp'' = Some (JStr ''127.0.0.1'')
      \<and> json_field binding ''HostPort'' = Some (JStr (show_nat port)) \<and> 1 \<le> port \<and> port \<le> 65535
      \<and> containerId r = cid \<and> containerName r = ''fireball-'' @ req_sessionId input
      \<and> networkNamespace r = ''fireball-net-'' @ req_sessionId input \<and> storageNamespace r = ''/run/fireball-session:'' @ cid
      \<and> signalingEndpoint r = ''ws://127.0.0.1:'' @ show_nat port @ ''/internal/v1/signaling'' \<and> signalingSecret r = secret
      \<and> tabControlEndpoint r = ''http://127.0.0.1:'' @ show_nat port @ ''/internal/v1/tabs''"
proof -
  let ?n = "create_network_request d input"
  obtain n where net: "fst (transport ?n w) = Inr n"
    using ok by (cases "fst (transport ?n w)") (auto simp: docker_create_def recording_simp)
  let ?log1 = "[(?n, Inr n)]"
  obtain created cid' res w2 log2 where
    st: "start_container d (recording transport) secret input (snd (transport ?n w), ?log1) = ((created, cid', res), (w2, log2))"
    by (metis prod_cases5 surj_pair)
  with ok net have res: "res = Inr r" "log = log2"
    by (cases res, auto simp: docker_create_def recording_simp split: prod.splits)+
  from start_history [OF st] res obtain hs where hs: "log = ?log1 @ hs" "started_history d secret input hs r" by blast
  then obtain v u checks inspection cid port where h: "hs = [(create_container_request d secret input, Inr v), (start_request d cid, Inr u)]
      @ checks @ [(health_request d cid, Inr inspection)]"
    and p: "publishedSignalingPort inspection = Inr port" and r: "r = runtime_resource_of input secret cid port"
    and facts: "json_field v ''Id'' = Some (JStr cid)" "cid \<noteq> []" "still_starting d cid checks"
      "length checks < startupHealthAttempts d" "health_is ''healthy'' (Inr inspection)"
    unfolding started_history_def by blast
  from published_port [OF p] obtain settings ports binding rest where port:
    "json_field inspection ''NetworkSettings'' = Some settings" "json_field settings ''Ports'' = Some ports"
    "json_field ports ''8444/tcp'' = Some (JArr (binding # rest))" "json_field binding ''HostIp'' = Some (JStr ''127.0.0.1'')"
    "json_field binding ''HostPort'' = Some (JStr (show_nat port))" "1 \<le> port" "port \<le> 65535" by (elim exE conjE)
  have log: "log = [(engine_call d POST ''/networks/create'' [201] (Some (network_request d input)), Inr n),
             (engine_call d POST (''/containers/create?name='' @ encodeURIComponent (''fireball-'' @ req_sessionId input)) [201]
                (Some (container_request d secret input)), Inr v),
             (engine_call d POST (''/containers/'' @ cid @ ''/start'') [204] None, Inr u)]
          @ checks @ [(engine_call d GET (''/containers/'' @ encodeURIComponent cid @ ''/json'') [200] None, Inr inspection)]"
    by (simp only: hs(1) h engine_calls append_Cons append_Nil)
  note starting = facts(3) [unfolded still_starting_def engine_calls]
  have made: "containerId r = cid" "containerName r = ''fireball-'' @ req_sessionId input"
    "networkNamespace r = ''fireball-net-'' @ req_sessionId input" "storageNamespace r = ''/run/fireball-session:'' @ cid"
    "signalingEndpoint r = ''ws://127.0.0.1:'' @ show_nat port @ ''/internal/v1/signaling''" "signalingSecret r = secret"
    "tabControlEndpoint r = ''http://127.0.0.1:'' @ show_nat port @ ''/internal/v1/tabs''"
    by (simp_all add: r runtime_resource_of_def container_name_def network_name_def SIGNALING_HOST_def)
  show ?thesis
    by (intro exI conjI) (rule log facts(1,2) starting facts(4,5) port made)+
qed

definition ex_healthy :: "(thrown + json) list" where
  "ex_healthy = [Inr ex_ok, Inr ex_id, Inr ex_ok, Inr (ex_health ''starting''), Inr (ex_health ''healthy'')]"

theorem successful_creation_describes_the_container_witness:
  "let run = docker_create ex_docker (recording scripted) ''secret'' ex_input (ex_healthy, []);
       r = runtime_resource_of ex_input ''secret'' ''abc'' 49153 in
   fst run = Inr r
   \<and> (\<exists>checks :: history. \<exists>cid port. length checks < startupHealthAttempts ex_docker \<and> containerId r = cid \<and> cid \<noteq> []
        \<and> port \<le> 65535 \<and> tabControlEndpoint r = ''http://127.0.0.1:'' @ show_nat port @ ''/internal/v1/tabs'')"
proof -
  let ?run = "docker_create ex_docker (recording scripted) ''secret'' ex_input (ex_healthy, [])"
  have health: "health_status (ex_health st) = Some (JStr st)" "ex_health st \<noteq> JNull" for st
    by (simp_all add: ex_health_def health_status_def)
  have port: "publishedSignalingPort (ex_health ''healthy'') = Inr 49153"
    by (simp add: publishedSignalingPort_def published_binding_def ex_health_def INTERNAL_SIGNALING_PORT_def
        is_canonical_numeral_def digits_value_def code_def is_digit_def)
  have attempts: "startupHealthAttempts ex_docker = Suc (Suc (Suc 0))" by (simp add: ex_docker_def)
  have res: "fst ?run = Inr (runtime_resource_of ex_input ''secret'' ''abc'' 49153)"
    by (simp add: docker_create_def recording_simp scripted_def ex_healthy_def start_container_def Let_def
        attempts health port) (simp add: ex_id_def)
  then have run: "?run = (Inr (runtime_resource_of ex_input ''secret'' ''abc'' 49153),
      (fst (snd ?run), snd (snd ?run)))" by (metis prod.collapse)
  let ?r = "runtime_resource_of ex_input ''secret'' ''abc'' 49153"
  obtain checks :: history and cid port where "length checks < startupHealthAttempts ex_docker" "containerId ?r = cid" "cid \<noteq> []"
    "port \<le> 65535" "tabControlEndpoint ?r = ''http://127.0.0.1:'' @ show_nat port @ ''/internal/v1/tabs''"
    using successful_creation_describes_the_container [OF run] by (elim exE conjE) (rule that)
  then have "\<exists>checks :: history. \<exists>cid port. length checks < startupHealthAttempts ex_docker \<and> containerId ?r = cid \<and> cid \<noteq> []
        \<and> port \<le> 65535 \<and> tabControlEndpoint ?r = ''http://127.0.0.1:'' @ show_nat port @ ''/internal/v1/tabs''"
    by (intro exI conjI)
  with res show ?thesis unfolding Let_def by (intro conjI)
qed

text \<open>
  Destroying a runtime always asks for both deletions, the container's first, whatever the
  engine answers to it, and it succeeds exactly when both are answered; otherwise it reports
  every failure.
\<close>

lemma destroy_attempts_both_deletions:
  "case docker_destroy d (recording transport) r (w, []) of (res, (_, log)) \<Rightarrow>
     map (dr_method \<circ> fst) log = [DELETE, DELETE]
     \<and> map (dr_path \<circ> fst) log =
         [engine_path d (''/containers/'' @ containerId r @ ''?force=true&v=true''),
          engine_path d (''/networks/'' @ networkNamespace r)]
     \<and> (isl res = list_ex (\<lambda>(_, a). isl a) log)
     \<and> (\<forall>e. res = Inl e \<longrightarrow> errorMessage e = join_with ''; '' (concat (map (collect_failure \<circ> snd) log)))"
  by (auto simp: docker_destroy_def call_def recording_simp Let_def collect_failure_def errorMessage_def orch_def
      split: sum.splits)

definition ex_destroyed :: runtime_resource where
  "ex_destroyed = \<lparr>containerId = ''abc'', containerName = ''n'', networkNamespace = ''net'', storageNamespace = ''st'',
     signalingEndpoint = [], signalingSecret = [], tabControlEndpoint = []\<rparr>"

lemma destroy_attempts_both_deletions_witness:
  "map (dr_path \<circ> fst) (snd (snd (docker_destroy ex_docker (recording scripted) ex_destroyed
     ([Inl (PlainError ''busy''), Inr JNull], []))))
   = [engine_path ex_docker ''/containers/abc?force=true&v=true'', engine_path ex_docker ''/networks/net'']
   \<and> errorMessage (projl (fst (docker_destroy ex_docker (recording scripted) ex_destroyed
     ([Inl (PlainError ''busy''), Inr JNull], [])))) = ''busy''"
  using destroy_attempts_both_deletions [where d = ex_docker and transport = scripted and r = ex_destroyed
    and w = "[Inl (PlainError ''busy''), Inr JNull]"]
  by (simp add: docker_destroy_def call_def recording_simp scripted_def collect_failure_def errorMessage_def
      orch_def ex_destroyed_def)

text \<open>
  What this orchestrator owns of a listing: the resources with its two labels and an identifier of 1 to 128 letters,
  digits and \<open>_.:-\<close>, in the order of the listing.
\<close>

definition id_char :: "char \<Rightarrow> bool" where
  "id_char c \<longleftrightarrow> 48 \<le> code c \<and> code c \<le> 57 \<or> 65 \<le> code c \<and> code c \<le> 90 \<or> 97 \<le> code c \<and> code c \<le> 122 \<or> c \<in> set ''_.:-''"

definition owned_ids :: "docker_runtime \<Rightarrow> json list \<Rightarrow> string list" where
  "owned_ids d vs = concat (map (\<lambda>v.
     case json_field v ''Id'' of
       Some (JStr i) \<Rightarrow>
         if (\<exists>labels. json_field v ''Labels'' = Some labels \<and> json_field labels ''dev.fireball.managed'' = Some (JStr ''true'')
               \<and> json_field labels ''dev.fireball.instance'' = Some (JStr (instanceId d)))
           \<and> 1 \<le> length i \<and> length i \<le> 128 \<and> list_all id_char i
         then [i] else []
     | _ \<Rightarrow> []) vs)"

lemma id_chars: "is_label_char c \<or> c = CHR '':'' \<longleftrightarrow> id_char c"
  by (auto simp: id_char_def is_label_char_def is_base64url_def is_alnum_def is_digit_def is_upper_def is_lower_def)

lemma managed_ids:
  "(case json_field v ''Id'' of
      Some (JStr i) \<Rightarrow>
        if (\<exists>labels. json_field v ''Labels'' = Some labels \<and> json_field labels ''dev.fireball.managed'' = Some (JStr ''true'')
              \<and> json_field labels ''dev.fireball.instance'' = Some (JStr inst))
          \<and> 1 \<le> length i \<and> length i \<le> 128 \<and> list_all id_char i
        then [i] else []
    | _ \<Rightarrow> []) = (case managedResourceId v inst of None \<Rightarrow> [] | Some i \<Rightarrow> [i])"
proof (cases "\<exists>i. json_field v ''Id'' = Some (JStr i)")
  case False
  then show ?thesis by (auto simp: managedResourceId_def split: option.splits json.splits)
next
  case True
  then obtain i where i: "json_field v ''Id'' = Some (JStr i)" by blast
  then have obj: "json_object v" by (cases v) auto
  have "isOwnedRuntime v inst \<longleftrightarrow> (\<exists>labels. json_field v ''Labels'' = Some labels
      \<and> json_field labels ''dev.fireball.managed'' = Some (JStr ''true'') \<and> json_field labels ''dev.fireball.instance'' = Some (JStr inst))"
    by (auto simp: isOwnedRuntime_def has_label_def optional_field_Some)
  moreover have "is_managed_id i \<longleftrightarrow> 1 \<le> length i \<and> length i \<le> 128 \<and> list_all id_char i"
    by (simp add: is_managed_id_def id_chars)
  ultimately show ?thesis using i obj by (simp add: managedResourceId_def)
qed

lemma owned_ids_Nil: "owned_ids d [] = []" by (simp add: owned_ids_def)

lemma owned_ids_Cons:
  "owned_ids d (v # vs) = (case managedResourceId v (instanceId d) of None \<Rightarrow> [] | Some i \<Rightarrow> [i]) @ owned_ids d vs"
  by (simp add: owned_ids_def managed_ids)

text \<open>The messages of the deletions that failed.\<close>

definition removal_failures :: "string \<Rightarrow> string list \<Rightarrow> history \<Rightarrow> string list" where
  "removal_failures kind ids log =
     concat (map (\<lambda>(i, r, a). case a of Inl e \<Rightarrow> [kind @ '' '' @ i @ '': '' @ errorMessage e] | Inr _ \<Rightarrow> []) (zip ids log))"

lemma remove_managed_history:
  "remove_managed d (recording transport) request kind vs n failures (w, log) = ((m, failures'), (w', log')) \<Longrightarrow>
   \<exists>hs. log' = log @ hs \<and> map fst hs = map request (owned_ids d vs)
     \<and> failures' = failures @ removal_failures kind (owned_ids d vs) hs
     \<and> (removal_failures kind (owned_ids d vs) hs = [] \<longrightarrow> m = n + length (owned_ids d vs))"
proof (induction vs arbitrary: n failures w log)
  case Nil
  then show ?case by (simp add: owned_ids_Nil removal_failures_def)
next
  case (Cons v vs)
  show ?case
  proof (cases "managedResourceId v (instanceId d)")
    case None
    with Cons show ?thesis by (simp add: owned_ids_Cons)
  next
    case (Some i)
    obtain a w1 where tr: "transport (request i) w = (a, w1)" by fastforce
    let ?f = "case a of Inl e \<Rightarrow> [kind @ '' '' @ i @ '': '' @ errorMessage e] | Inr _ \<Rightarrow> []"
    have step: "remove_managed d (recording transport) request kind vs (n + (if isl a then 0 else 1)) (failures @ ?f)
        (w1, log @ [(request i, a)]) = ((m, failures'), (w', log'))"
      using Cons.prems Some tr by (cases a) (auto simp: recording_simp)
    from Cons.IH [OF step] obtain hs where hs: "log' = log @ [(request i, a)] @ hs"
      "map fst hs = map request (owned_ids d vs)" "failures' = failures @ ?f @ removal_failures kind (owned_ids d vs) hs"
      "removal_failures kind (owned_ids d vs) hs = [] \<longrightarrow> m = n + (if isl a then 0 else 1) + length (owned_ids d vs)" by auto
    have "removal_failures kind (owned_ids d (v # vs)) ((request i, a) # hs) = ?f @ removal_failures kind (owned_ids d vs) hs"
      by (cases a) (simp_all add: removal_failures_def owned_ids_Cons Some)
    with hs Some show ?thesis
      by (intro exI [of _ "[(request i, a)] @ hs"]) (cases a; simp add: owned_ids_Cons)
  qed
qed

text \<open>The two listings, filtered by the labels of this orchestrator.\<close>

definition listing :: "docker_runtime \<Rightarrow> string \<Rightarrow> docker_request" where
  "listing d path = engine_call d GET (path @ ''filters='' @ encodeURIComponent (json_stringify (JObj
     [(''label'', JArr [JStr ''dev.fireball.managed=true'', JStr (''dev.fireball.instance='' @ instanceId d)])]))) [200] None"

lemma list_managed_history:
  assumes "list_managed d (recording transport) (path @ ''filters='') msg (w, log) = (res, (w', log'))"
  shows "\<exists>a. log' = log @ [(listing d path, a)] \<and> (\<forall>vs. res = Inr vs \<longleftrightarrow> a = Inr (JArr vs))"
proof -
  have r: "listing d path = \<lparr>dr_method = GET, dr_path = engine_path d ((path @ ''filters='') @ ownershipFilter (instanceId d)),
      dr_accepted = [200], dr_body = None\<rparr>"
    by (simp add: listing_def engine_call_def engine_path_def ownershipFilter_def ownership_labels_def)
  obtain a w1 where tr: "transport (listing d path) w = (a, w1)" by fastforce
  have "log' = log @ [(listing d path, a)]" and "\<forall>vs. res = Inr vs \<longleftrightarrow> a = Inr (JArr vs)"
    using assms tr by (auto simp: list_managed_def call_recording Let_def r split: sum.splits json.splits)
  then show ?thesis by blast
qed

lemmas list_containers_history =
  list_managed_history [where path = "''/containers/json?all=true&''", simplified append_Cons append_Nil]

lemmas list_networks_history =
  list_managed_history [where path = "''/networks?''", simplified append_Cons append_Nil]

text \<open>
  C12. Reconciliation deletes exactly what this orchestrator owns. Whatever the engine answers, the calls are the listing
  of the containers, the forced deletion of each listed container that has the managed label, this instance's label and a
  well-formed identifier, then the same for the networks, and no other; a failed deletion does not keep the others from being tried, and
  only a listing that fails or is no list ends the run early. The result counts the resources when every deletion was
  answered, and otherwise names each failure.
\<close>

theorem reconcile_deletes_only_owned:
  assumes run: "docker_reconcile d (recording transport) (w, []) = (res, (w', log))"
  shows "(\<exists>a. log = [(listing d ''/containers/json?all=true&'', a)] \<and> (\<forall>vs. a \<noteq> Inr (JArr vs)) \<and> isl res)
    \<or> (\<exists>cs hs a. log = (listing d ''/containers/json?all=true&'', Inr (JArr cs)) # hs @ [(listing d ''/networks?'', a)]
         \<and> map fst hs = map (\<lambda>i. engine_call d DELETE (''/containers/'' @ encodeURIComponent i @ ''?force=true&v=true'') [204, 404] None)
             (owned_ids d cs)
         \<and> (\<forall>vs. a \<noteq> Inr (JArr vs)) \<and> isl res)
    \<or> (\<exists>cs hs ns gs. log = (listing d ''/containers/json?all=true&'', Inr (JArr cs)) # hs
           @ (listing d ''/networks?'', Inr (JArr ns)) # gs
         \<and> map fst hs = map (\<lambda>i. engine_call d DELETE (''/containers/'' @ encodeURIComponent i @ ''?force=true&v=true'') [204, 404] None)
             (owned_ids d cs)
         \<and> map fst gs = map (\<lambda>i. engine_call d DELETE (''/networks/'' @ encodeURIComponent i) [204, 404] None) (owned_ids d ns)
         \<and> res = (let failures = removal_failures ''container'' (owned_ids d cs) hs @ removal_failures ''network'' (owned_ids d ns) gs in
             if failures = [] then Inr \<lparr>containersRemoved = length (owned_ids d cs), networksRemoved = length (owned_ids d ns)\<rparr>
             else Inl (orch RUNTIME_FAILURE (''runtime reconciliation failed: '' @ join_with ''; '' failures) 503)))"
    (is "?first \<or> ?second \<or> ?third")
proof -
  obtain r1 w1 l1 where c: "listManagedContainers d (recording transport) (w, []) = (r1, (w1, l1))" by (metis prod_cases3)
  from list_containers_history c [unfolded listManagedContainers_def] obtain a where
    l1: "l1 = [(listing d ''/containers/json?all=true&'', a)]" "\<forall>vs. r1 = Inr vs \<longleftrightarrow> a = Inr (JArr vs)" by fastforce
  show ?thesis
  proof (cases r1)
    case (Inl e)
    with run c l1 have ?first by (auto simp: docker_reconcile_def)
    then show ?thesis by blast
  next
    case (Inr cs)
    with l1 have a: "a = Inr (JArr cs)" by blast
    obtain n f w2 l2 where rc: "remove_managed d (recording transport) (delete_container_request d) ''container'' cs 0 [] (w1, l1)
        = ((n, f), (w2, l2))" by (metis surj_pair)
    from remove_managed_history [OF rc] obtain hs where hs: "l2 = l1 @ hs"
      "map fst hs = map (delete_container_request d) (owned_ids d cs)" "f = removal_failures ''container'' (owned_ids d cs) hs"
      "f = [] \<longrightarrow> n = length (owned_ids d cs)" by auto
    obtain r3 w3 l3 where k: "listManagedNetworks d (recording transport) (w2, l2) = (r3, (w3, l3))" by (metis prod_cases3)
    from list_networks_history k [unfolded listManagedNetworks_def] obtain b where
      l3: "l3 = l2 @ [(listing d ''/networks?'', b)]" "\<forall>vs. r3 = Inr vs \<longleftrightarrow> b = Inr (JArr vs)" by fastforce
    have dels: "map fst hs = map (\<lambda>i. engine_call d DELETE (''/containers/'' @ encodeURIComponent i @ ''?force=true&v=true'') [204, 404] None)
        (owned_ids d cs)" using hs(2) by (simp only: engine_calls(5) [abs_def])
    show ?thesis
    proof (cases r3)
      case (Inl e)
      with run c Inr rc k have "log = l3" "isl res" by (auto simp: docker_reconcile_def)
      with l1 l3 hs(1) a dels Inl have ?second by (intro exI [of _ cs] exI [of _ hs] exI [of _ b]) auto
      then show ?thesis by blast
    next
      case (Inr ns)
      with l3 have b: "b = Inr (JArr ns)" by blast
      obtain m f' w4 l4 where rn: "remove_managed d (recording transport) (\<lambda>i. delete_network_request d (encodeURIComponent i))
          ''network'' ns 0 f (w3, l3) = ((m, f'), (w4, l4))" by (metis surj_pair)
      from remove_managed_history [OF rn] obtain gs where gs: "l4 = l3 @ gs"
        "map fst gs = map (\<lambda>i. delete_network_request d (encodeURIComponent i)) (owned_ids d ns)"
        "f' = f @ removal_failures ''network'' (owned_ids d ns) gs"
        "removal_failures ''network'' (owned_ids d ns) gs = [] \<longrightarrow> m = length (owned_ids d ns)" by auto
      from run c \<open>r1 = Inr cs\<close> rc k Inr rn have fin: "log = l4" "res = (if f' \<noteq> []
          then Inl (orch RUNTIME_FAILURE (''runtime reconciliation failed: '' @ join_with ''; '' f') 503)
          else Inr \<lparr>containersRemoved = n, networksRemoved = m\<rparr>)" by (auto simp: docker_reconcile_def)
      have gdels: "map fst gs = map (\<lambda>i. engine_call d DELETE (''/networks/'' @ encodeURIComponent i) [204, 404] None) (owned_ids d ns)"
        using gs(2) by (simp only: engine_calls(6))
      have log: "log = (listing d ''/containers/json?all=true&'', Inr (JArr cs)) # hs @ (listing d ''/networks?'', Inr (JArr ns)) # gs"
        using fin(1) gs(1) l3(1) hs(1) l1(1) a b by simp
      have "res = (let failures = removal_failures ''container'' (owned_ids d cs) hs @ removal_failures ''network'' (owned_ids d ns) gs in
          if failures = [] then Inr \<lparr>containersRemoved = length (owned_ids d cs), networksRemoved = length (owned_ids d ns)\<rparr>
          else Inl (orch RUNTIME_FAILURE (''runtime reconciliation failed: '' @ join_with ''; '' failures) 503))"
        using fin(2) hs(3,4) gs(3,4) by (simp add: Let_def)
      with log dels gdels have ?third by blast
      then show ?thesis by blast
    qed
  qed
qed

definition ex_owned :: json where
  "ex_owned = JObj [(''Id'', JStr ''abc''), (''State'', JStr ''running''),
     (''Labels'', JObj [(''dev.fireball.managed'', JStr ''true''), (''dev.fireball.instance'', JStr ''node-1'')])]"

definition ex_foreign :: json where
  "ex_foreign = JObj [(''Id'', JStr ''xyz''),
     (''Labels'', JObj [(''dev.fireball.managed'', JStr ''true''), (''dev.fireball.instance'', JStr ''node-2'')])]"

definition ex_listing :: "(thrown + json) list" where
  "ex_listing = [Inr (JArr [ex_foreign, ex_owned]), Inr ex_ok, Inr (JArr [ex_foreign])]"

theorem reconcile_deletes_only_owned_witness:
  "let run = docker_reconcile ex_docker (recording scripted) (ex_listing, []) in
   fst run = Inr \<lparr>containersRemoved = 1, networksRemoved = 0\<rparr>
   \<and> (\<exists>cs hs. map fst hs = map (\<lambda>i. engine_call ex_docker DELETE (''/containers/'' @ encodeURIComponent i @ ''?force=true&v=true'') [204, 404] None)
             (owned_ids ex_docker cs) \<and> hs \<noteq> [] \<and> set hs \<subseteq> set (snd (snd run)))"
proof -
  let ?run = "docker_reconcile ex_docker (recording scripted) (ex_listing, [])"
  have res: "fst ?run = Inr \<lparr>containersRemoved = 1, networksRemoved = 0\<rparr>" by code_simp
  then have run: "?run = (Inr \<lparr>containersRemoved = 1, networksRemoved = 0\<rparr>, (fst (snd ?run), snd (snd ?run)))"
    by (metis prod.collapse)
  from reconcile_deletes_only_owned [OF run] obtain cs hs ns gs where
    log: "snd (snd ?run) = (listing ex_docker ''/containers/json?all=true&'', Inr (JArr cs)) # hs
           @ (listing ex_docker ''/networks?'', Inr (JArr ns)) # gs"
    and dels: "map fst hs = map (\<lambda>i. engine_call ex_docker DELETE (''/containers/'' @ encodeURIComponent i @ ''?force=true&v=true'') [204, 404] None)
             (owned_ids ex_docker cs)"
    and counts: "Inr \<lparr>containersRemoved = 1, networksRemoved = 0\<rparr> =
      (let failures = removal_failures ''container'' (owned_ids ex_docker cs) hs @ removal_failures ''network'' (owned_ids ex_docker ns) gs in
          if failures = [] then Inr \<lparr>containersRemoved = length (owned_ids ex_docker cs), networksRemoved = length (owned_ids ex_docker ns)\<rparr>
          else Inl (orch RUNTIME_FAILURE (''runtime reconciliation failed: '' @ join_with ''; '' failures) 503))"
    by (elim disjE exE conjE) simp_all
  from counts have "length (owned_ids ex_docker cs) = 1" by (simp add: Let_def split: if_splits)
  with arg_cong [OF dels, of length] have "hs \<noteq> []" by auto
  with res dels log show ?thesis by (auto simp: Let_def)
qed

text \<open>
  C13. The status of a runtime is read soundly: whatever list the engine returns, a runtime is
  reported running only when exactly one listed container has its identifier, that container
  carries this orchestrator's labels, and its state is running; it is reported missing only when
  no listed container has its identifier.
\<close>

theorem inspection_is_sound:
  "(classify_status d cid response = Inr Running \<longrightarrow>
     (\<exists>vs v. response = JArr vs \<and> filter (\<lambda>v. json_object v \<and> json_field v ''Id'' = Some (JStr cid)) vs = [v]
        \<and> isOwnedRuntime v (instanceId d) \<and> json_field v ''State'' = Some (JStr ''running'')))
   \<and> (classify_status d cid response = Inr (RuntimeFailed ''runtime container is missing'') \<longrightarrow>
     (\<exists>vs. response = JArr vs \<and> (\<forall>v \<in> set vs. json_field v ''Id'' \<noteq> Some (JStr cid))))"
proof (cases response)
  case (JArr vs)
  let ?m = "filter (\<lambda>v. json_object v \<and> json_field v ''Id'' = Some (JStr cid)) vs"
  have obj: "json_field v k = Some x \<Longrightarrow> json_object v" for v k x by (cases v) auto
  have str: "string_value x = s \<Longrightarrow> s \<noteq> [] \<Longrightarrow> x = Some (JStr s)" for x s
    by (cases x rule: string_value.cases) auto
  show ?thesis
  proof (cases ?m)
    case Nil
    then show ?thesis using JArr obj by (auto simp: classify_status_def filter_empty_conv)
  next
    case (Cons v rest)
    with JArr str [of "json_field v ''State''" "''running''"] show ?thesis
      by (auto simp: classify_status_def Let_def split: if_splits)
  qed
qed (simp_all add: classify_status_def)

theorem inspection_is_sound_witness:
  "classify_status ex_docker ''abc'' (JArr [ex_foreign, ex_owned]) = Inr Running
   \<and> isOwnedRuntime ex_owned ''node-1''"
proof -
  have run: "classify_status ex_docker ''abc'' (JArr [ex_foreign, ex_owned]) = Inr Running" by code_simp
  have f: "filter (\<lambda>v. json_object v \<and> json_field v ''Id'' = Some (JStr ''abc'')) [ex_foreign, ex_owned] = [ex_owned]"
    by code_simp
  have i: "instanceId ex_docker = ''node-1''" by (simp add: ex_docker_def)
  from mp [OF conjunct1 [OF inspection_is_sound [of ex_docker "''abc''" "JArr [ex_foreign, ex_owned]"]] run]
  obtain vs v where vs: "JArr [ex_foreign, ex_owned] = JArr vs"
    and m: "filter (\<lambda>v. json_object v \<and> json_field v ''Id'' = Some (JStr ''abc'')) vs = [v]"
    and o: "isOwnedRuntime v (instanceId ex_docker)" by blast
  from vs have "vs = [ex_foreign, ex_owned]" by (simp only: json.inject)
  with m f have "v = ex_owned" by (simp only: list.inject)
  with o i run show ?thesis by (simp only: simp_thms)
qed

subsection \<open>The tab runtime's answers\<close>

lemma foldr_bind_Inr:
  "foldr (\<lambda>v acc. bind_result (f v) (\<lambda>a. bind_result acc (\<lambda>as. Inr (a # as)))) vs (Inr []) = Inr rs \<Longrightarrow>
   \<forall>r \<in> set rs. \<exists>v \<in> set vs. f v = Inr r"
proof (induction vs arbitrary: rs)
  case (Cons v vs)
  from Cons.prems obtain a as where r: "f v = Inr a" "rs = a # as"
    and rest: "foldr (\<lambda>v acc. bind_result (f v) (\<lambda>a. bind_result acc (\<lambda>as. Inr (a # as)))) vs (Inr []) = Inr as"
    by (auto simp: bind_result_Inr)
  from Cons.IH [OF rest] r show ?case by auto
qed simp

lemma parseTabView_Inr:
  assumes "parseTabView parse reprint (Some v) = Inr t"
  shows "is_uuid_v4 (tab_id t) \<and> isPublicTabUrl parse (tab_url t) \<and> isCanonicalTimestamp reprint (tab_createdAt t)"
proof -
  let ?i = "json_field v ''id''" and ?u = "json_field v ''url''" and ?at = "json_field v ''createdAt''"
    and ?a = "json_field v ''active''"
  have fields: "(case (?i, ?u, ?at, ?a) of
      (Some (JStr i), Some (JStr u), Some (JStr at), Some (JBool active)) \<Rightarrow>
        if \<not> is_uuid_v4 i \<or> \<not> isPublicTabUrl parse u \<or> \<not> isCanonicalTimestamp reprint at
        then Inl invalidTabRuntimeResponse
        else Inr \<lparr>tab_id = i, tab_url = u, tab_createdAt = at, tab_active = active\<rparr>
    | _ \<Rightarrow> Inl invalidTabRuntimeResponse) = Inr t"
    using assms by (simp add: parseTabView_def split: if_splits)
  then obtain i where i: "?i = Some (JStr i)" by (cases ?i; cases "the ?i") simp_all
  note f1 = fields [unfolded i, simplified]
  obtain u where u: "?u = Some (JStr u)" using f1 by (cases ?u; cases "the ?u") simp_all
  note f2 = f1 [unfolded u, simplified]
  obtain a where a: "?at = Some (JStr a)" using f2 by (cases ?at; cases "the ?at") simp_all
  note f3 = f2 [unfolded a, simplified]
  obtain b where b: "?a = Some (JBool b)" using f3 by (cases ?a; cases "the ?a") simp_all
  show ?thesis using f3 [unfolded b, simplified] by (auto split: if_splits)
qed

text \<open>
  C14. The list of tabs that a session shows is well formed whatever its container answers: the
  orchestrator returns between one and four tabs with distinct version 4 identifiers, exactly
  one of them active, each at the home page or a normalised credential-free web URL; and all it asked was one
  \<open>GET\<close> of the tabs' path on the loopback interface, with the session's own secret.
\<close>

theorem listed_tabs_are_well_formed:
  assumes "docker_listTabs parse reprint json_parse exchange r w = (Inr tabs, w')"
  shows "tabs_ok 4 tabs
    \<and> (\<forall>t \<in> set tabs. is_uuid_v4 (tab_id t) \<and> isPublicTabUrl parse (tab_url t))
    \<and> (\<exists>endpoint. validateTabControlResource parse r = Inr endpoint \<and> url_hostname endpoint = ''127.0.0.1''
         \<and> w' = snd (exchange \<lparr>http_target = HostPort ''http:'' ''127.0.0.1'' (url_port endpoint), http_method = GET,
             http_path = ''/internal/v1/tabs'',
             http_headers = [(''authorization'', ''Bearer '' @ signalingSecret r), (''connection'', ''close'')],
             http_payload = None\<rparr> w))"
proof -
  from assms obtain body where c: "controlRequest parse json_parse exchange r GET [] None 200 w = (Inr body, w')"
    and p: "parse_tab_list parse reprint body = Inr tabs"
    by (auto simp: docker_listTabs_def split: sum.splits prod.splits)
  from c obtain endpoint where e: "validateTabControlResource parse r = Inr endpoint"
    by (auto simp: controlRequest_def split: sum.splits)
  then have host: "url_hostname endpoint = ''127.0.0.1''" "url_pathname endpoint = ''/internal/v1/tabs''"
    by (auto simp: validateTabControlResource_def SIGNALING_HOST_def split: option.splits if_splits)
  with c e have asked: "w' = snd (exchange \<lparr>http_target = HostPort ''http:'' ''127.0.0.1'' (url_port endpoint), http_method = GET,
             http_path = ''/internal/v1/tabs'',
             http_headers = [(''authorization'', ''Bearer '' @ signalingSecret r), (''connection'', ''close'')],
             http_payload = None\<rparr> w)"
    by (simp add: controlRequest_def control_http_request_def split: prod.splits)
  from p obtain vs where "optional_field body ''tabs'' = Some (JArr vs)"
    unfolding parse_tab_list_def by (simp split: option.splits json.splits)
  with p have all: "foldr (\<lambda>v acc. bind_result (parseTabView parse reprint (Some v)) (\<lambda>tab.
         bind_result acc (\<lambda>tabs. Inr (tab # tabs)))) vs (Inr []) = Inr tabs"
    and ok: "1 \<le> length tabs" "length tabs \<le> 4" "length (remdups (map tab_id tabs)) = length tabs"
      "length (filter tab_active tabs) = 1"
    by (auto simp: parse_tab_list_def bind_result_Inr Suc_le_eq split: if_splits)
  have "distinct (map tab_id tabs)" using ok(3) by (metis length_map length_remdups_eq remdups_id_iff_distinct)
  with ok have "tabs_ok 4 tabs" by (simp add: tabs_ok_def tab_ids_def)
  moreover have "\<forall>t \<in> set tabs. is_uuid_v4 (tab_id t) \<and> isPublicTabUrl parse (tab_url t)"
    using foldr_bind_Inr [OF all] parseTabView_Inr by blast
  ultimately show ?thesis using e host asked by blast
qed

definition ex_uuid :: string where
  "ex_uuid = ''00000000-0000-4000-8000-000000000000''"

definition ex_tabs_body :: json where
  "ex_tabs_body = JObj [(''tabs'', JArr [JObj [(''id'', JStr ex_uuid), (''url'', JStr ''fireball://home''),
     (''createdAt'', JStr ''2026-01-01T00:00:00.000Z''), (''active'', JBool True)]])]"

definition ex_endpoint :: "string \<Rightarrow> string \<Rightarrow> parsed_url" where
  "ex_endpoint protocol path = \<lparr>url_protocol = protocol, url_username = [], url_password = [], url_hostname = ''127.0.0.1'',
     url_port = ''9000'', url_pathname = path, url_search = [], url_hash = [], url_href = []\<rparr>"

definition ex_endpoint_parse :: url_parser where
  "ex_endpoint_parse text =
     (if text = ''http://127.0.0.1:9000/internal/v1/tabs'' then Some (ex_endpoint ''http:'' ''/internal/v1/tabs'')
      else if text = ''ws://127.0.0.1:9000/internal/v1/signaling'' then Some (ex_endpoint ''ws:'' ''/internal/v1/signaling'')
      else None)"

definition ex_resource :: runtime_resource where
  "ex_resource = \<lparr>containerId = ''abc'', containerName = ''n'', networkNamespace = ''net'', storageNamespace = ''st'',
     signalingEndpoint = ''ws://127.0.0.1:9000/internal/v1/signaling'', signalingSecret = replicate 43 (CHR ''s''),
     tabControlEndpoint = ''http://127.0.0.1:9000/internal/v1/tabs''\<rparr>"

definition ex_tab_exchange :: "unit exchange" where
  "ex_tab_exchange r w = (HttpResponse (Some 200) [[1], [2]], ())"

definition ex_tab_json :: "nat list \<Rightarrow> json option" where
  "ex_tab_json bytes = (if bytes = [1, 2] then Some ex_tabs_body else None)"

theorem listed_tabs_are_well_formed_witness:
  "tabs_ok 4 (projr (fst (docker_listTabs ex_endpoint_parse Some ex_tab_json ex_tab_exchange ex_resource ())))"
proof -
  let ?t = "\<lparr>tab_id = ex_uuid, tab_url = ''fireball://home'', tab_createdAt = ''2026-01-01T00:00:00.000Z'', tab_active = True\<rparr>"
  have endpoint: "validateTabControlResource ex_endpoint_parse ex_resource = Inr (ex_endpoint ''http:'' ''/internal/v1/tabs'')"
  proof -
    have "is_credential (replicate 43 (CHR ''s''))" and "is_canonical_numeral 4 ''9000''" by code_simp+
    moreover have "digits_value ''9000'' = 9000" by (simp add: digits_value_def code_def)
    ultimately show ?thesis
      by (simp add: validateTabControlResource_def ex_endpoint_parse_def ex_resource_def ex_endpoint_def SIGNALING_HOST_def)
  qed
  have answer: "control_answer ex_tab_json 200 (HttpResponse (Some 200) [[1], [2]]) = Inr (Some ex_tabs_body)"
    by (simp add: control_answer_def ex_tab_json_def)
  have list: "parse_tab_list ex_endpoint_parse Some (Some ex_tabs_body) = Inr [?t]" by code_simp
  have run: "docker_listTabs ex_endpoint_parse Some ex_tab_json ex_tab_exchange ex_resource () = (Inr [?t], ())"
    by (simp add: docker_listTabs_def controlRequest_def endpoint ex_tab_exchange_def answer list del: One_nat_def)
  from listed_tabs_are_well_formed [OF run] run show ?thesis by simp
qed

end
