(* ===== verification/Auth.thy ===== *)
theory Auth
  imports SessionInvariant
begin

text \<open>
  \<open>src/auth\<close>: the development authenticator and the OIDC authenticator, and the contract
  both fulfil as a locale. \<open>jose\<close> is third-party code: \<open>jwtVerify\<close> and
  \<open>createRemoteJWKSet\<close> are arguments. \<open>jwtVerify\<close> yields the token's payload, or
  \<open>None\<close> when it throws (it never throws an \<open>OrchestratorError\<close>).
\<close>

subsection \<open>The contract of an authenticator\<close>

text \<open>The header is \<open>headers.authorization\<close>, \<open>None\<close> when it is undefined.\<close>

type_synonym authenticate = "string option \<Rightarrow> thrown + tenant_context"

definition auth_refusal :: "thrown \<Rightarrow> bool" where
  "auth_refusal e = (\<exists>c m. e = orch c m 401 \<and> c \<in> {AUTH_REQUIRED, AUTH_INVALID})"

locale authenticator =
  fixes authenticate :: authenticate
  assumes safe_tenant: "authenticate h = Inr c \<Longrightarrow> is_safe_identifier (ctx_tenantId c)"
    and named_subject: "authenticate h = Inr c \<Longrightarrow> ctx_subject c \<noteq> [] \<and> length (ctx_subject c) \<le> 512"
    and missing_header: "authenticate None = Inl e \<Longrightarrow> \<exists>m. e = orch AUTH_REQUIRED m 401"
    and needs_header: "authenticate None \<noteq> Inr c"
    and refusal: "authenticate h = Inl e \<Longrightarrow> auth_refusal e"
begin

lemma header_required: "\<exists>m. authenticate None = Inl (orch AUTH_REQUIRED m 401)"
  using missing_header needs_header by (cases "authenticate None") blast+

text \<open>
  What the session service relies on: an authenticated tenant's sessions are stored under keys
  that no other tenant can name.
\<close>

lemma tenant_no_colon: "authenticate h = Inr c \<Longrightarrow> CHR '':'' \<notin> set (ctx_tenantId c)"
  by (rule is_safe_identifier_no_colon [OF safe_tenant])

lemma session_keys_separate:
  assumes "authenticate h = Inr c" and "authenticate h' = Inr c'"
    and "session_key (ctx_tenantId c) i = session_key (ctx_tenantId c') j"
  shows "ctx_tenantId c = ctx_tenantId c' \<and> i = j"
  using session_key_inj [OF assms(3) tenant_no_colon [OF assms(1)] tenant_no_colon [OF assms(2)]] by simp

end

subsection \<open>DevelopmentAuthenticator\<close>

definition new_development_authenticator :: "string \<Rightarrow> thrown + unit" where
  "new_development_authenticator environment =
     (if environment \<noteq> ''development'' \<and> environment \<noteq> ''test''
      then Inl (PlainError ''DevelopmentAuthenticator is forbidden outside development/test'') else Inr ())"

definition dev_prefix :: string where "dev_prefix = ''Bearer dev:''"

text \<open>
  \<open>const [tenantId, subject, extra] = ...split(":")\<close>: a missing part is undefined and
  is not a safe identifier.
\<close>

definition dev_authenticate :: authenticate where
  "dev_authenticate header =
     (case header of
        Some value \<Rightarrow>
          if \<not> starts_with dev_prefix value
          then Inl (orch AUTH_REQUIRED ''development bearer token required'' 401)
          else
            (case split_on (CHR '':'') (drop (length dev_prefix) value) of
               [tenantId, subject] \<Rightarrow>
                 if \<not> is_safe_identifier tenantId \<or> \<not> is_safe_identifier subject
                 then Inl (orch AUTH_INVALID ''invalid development bearer token'' 401)
                 else Inr \<lparr>ctx_tenantId = tenantId, ctx_subject = subject\<rparr>
             | _ \<Rightarrow> Inl (orch AUTH_INVALID ''invalid development bearer token'' 401))
      | None \<Rightarrow> Inl (orch AUTH_REQUIRED ''development bearer token required'' 401))"

subsection \<open>OidcAuthenticator\<close>

record oidc_options =
  oidc_issuer :: string
  oidc_audience :: string
  oidc_jwksUrl :: string
  oidc_tenantClaim :: "string option"
  oidc_algorithms :: "string list option"
  oidc_clockToleranceSeconds :: "number option"

record 'k oidc =
  issuer :: string
  audience :: string
  tenantClaim :: string
  algorithms :: "string list"
  clockToleranceSeconds :: int
  keyResolver :: 'k

definition DEFAULT_ALGORITHMS :: "string list" where
  "DEFAULT_ALGORITHMS = [''RS256'', ''PS256'', ''ES256'']"

definition requireHttpsURL :: "url_parser \<Rightarrow> string \<Rightarrow> string \<Rightarrow> thrown + parsed_url" where
  "requireHttpsURL parse value name =
     (case parse value of
        None \<Rightarrow> Inl (PlainError (name @ '' must be a valid HTTPS URL''))
      | Some url \<Rightarrow>
          if url_protocol url \<noteq> ''https:'' \<or> url_username url \<noteq> [] \<or> url_password url \<noteq> [] \<or> url_hash url \<noteq> []
          then Inl (PlainError (name @ '' must be a valid HTTPS URL'')) else Inr url)"

definition requireNonEmpty :: "string \<Rightarrow> string \<Rightarrow> thrown + string" where
  "requireNonEmpty value name =
     (let normalized = trim value in
      if normalized = [] \<or> length normalized > 512 then Inl (PlainError (name @ '' must be non-empty''))
      else Inr normalized)"

text \<open>\<open>/^[A-Za-z][A-Za-z0-9_.:-]{0,127}$/\<close>.\<close>

definition requireClaimName :: "string \<Rightarrow> thrown + string" where
  "requireClaimName value =
     (if value = [] \<or> length value > 128 \<or> \<not> (is_upper (hd value) \<or> is_lower (hd value))
        \<or> \<not> list_all (\<lambda>c. is_label_char c \<or> c = CHR '':'') (tl value)
      then Inl (PlainError ''OIDC tenant claim is invalid'') else Inr value)"

text \<open>\<open>[...new Set(values)]\<close> keeps the first of equal values.\<close>

definition set_values :: "'a list \<Rightarrow> 'a list" where
  "set_values values = foldl (\<lambda>acc v. js_add v acc) [] values"

definition validateAlgorithms :: "string list \<Rightarrow> thrown + string list" where
  "validateAlgorithms values =
     (if values = [] \<or> list_ex (\<lambda>v. v \<notin> set DEFAULT_ALGORITHMS) values
      then Inl (PlainError ''OIDC algorithms must be a non-empty subset of RS256, PS256, and ES256'')
      else Inr (set_values values))"

definition nonNegativeInteger :: "number \<Rightarrow> string \<Rightarrow> thrown + int" where
  "nonNegativeInteger value name =
     (case value of
        Integer i \<Rightarrow> if \<not> isSafeInteger value \<or> i < 0
          then Inl (PlainError (name @ '' must be a non-negative integer'')) else Inr i
      | NonInteger \<Rightarrow> Inl (PlainError (name @ '' must be a non-negative integer'')))"

definition new_oidc ::
  "url_parser \<Rightarrow> (parsed_url \<Rightarrow> 'k) \<Rightarrow> oidc_options \<Rightarrow> 'k option \<Rightarrow> thrown + 'k oidc" where
  "new_oidc parse createRemoteJWKSet opts resolver =
     bind_result (requireHttpsURL parse (oidc_issuer opts) ''OIDC issuer'') (\<lambda>_.
     bind_result (requireNonEmpty (oidc_audience opts) ''OIDC audience'') (\<lambda>aud.
     bind_result (requireClaimName (or_else (oidc_tenantClaim opts) ''tenant_id'')) (\<lambda>claim.
     bind_result (validateAlgorithms (or_else (oidc_algorithms opts) DEFAULT_ALGORITHMS)) (\<lambda>algs.
     bind_result (nonNegativeInteger (or_else (oidc_clockToleranceSeconds opts) (Integer 5)) ''clock tolerance'') (\<lambda>tol.
     bind_result (requireHttpsURL parse (oidc_jwksUrl opts) ''OIDC JWKS URL'') (\<lambda>jwks.
     Inr \<lparr>issuer = oidc_issuer opts, audience = aud, tenantClaim = claim, algorithms = algs,
          clockToleranceSeconds = tol, keyResolver = or_else resolver (createRemoteJWKSet jwks)\<rparr>))))))"

record 'k jwt_options =
  jwt_keys :: 'k
  jwt_issuer :: string
  jwt_audience :: string
  jwt_algorithms :: "string list"
  jwt_requiredClaims :: "string list"
  jwt_clockTolerance :: int

type_synonym 'k jwt_verify = "string \<Rightarrow> 'k jwt_options \<Rightarrow> json option"

definition verify_options :: "'k oidc \<Rightarrow> 'k jwt_options" where
  "verify_options a = \<lparr>jwt_keys = keyResolver a, jwt_issuer = issuer a, jwt_audience = audience a,
     jwt_algorithms = algorithms a, jwt_requiredClaims = [''sub'', tenantClaim a],
     jwt_clockTolerance = clockToleranceSeconds a\<rparr>"

definition is_token_char :: "char \<Rightarrow> bool" where
  "is_token_char c = (is_alnum c \<or> c \<in> set ''._~-'')"

definition invalidToken :: thrown where
  "invalidToken = orch AUTH_INVALID ''bearer token is invalid'' 401"

definition bearer_prefix :: string where "bearer_prefix = ''Bearer ''"

text \<open>\<open>/^Bearer ([A-Za-z0-9._~-]+)$/\<close>.\<close>

definition bearerToken :: "string option \<Rightarrow> thrown + string" where
  "bearerToken authorization =
     (case authorization of
        None \<Rightarrow> Inl (orch AUTH_REQUIRED ''bearer token required'' 401)
      | Some value \<Rightarrow>
          if value = [] then Inl (orch AUTH_REQUIRED ''bearer token required'' 401)
          else
            let token = drop (length bearer_prefix) value in
            if \<not> starts_with bearer_prefix value \<or> token = [] \<or> \<not> list_all is_token_char token
            then Inl invalidToken else Inr token)"

definition isSafeSubject :: "string \<Rightarrow> bool" where
  "isSafeSubject s = (s \<noteq> [] \<and> length s \<le> 512)"

definition payload_context :: "'k oidc \<Rightarrow> json \<Rightarrow> thrown + tenant_context" where
  "payload_context a payload =
     (case (string_field payload (tenantClaim a), string_field payload ''sub'') of
        (Some tenantId, Some subject) \<Rightarrow>
          if \<not> is_safe_identifier tenantId \<or> \<not> isSafeSubject subject then Inl invalidToken
          else Inr \<lparr>ctx_tenantId = tenantId, ctx_subject = subject\<rparr>
      | _ \<Rightarrow> Inl invalidToken)"

definition oidc_authenticate :: "'k jwt_verify \<Rightarrow> 'k oidc \<Rightarrow> authenticate" where
  "oidc_authenticate jwtVerify a header =
     bind_result (bearerToken header) (\<lambda>token.
       case jwtVerify token (verify_options a) of
         None \<Rightarrow> Inl invalidToken
       | Some payload \<Rightarrow> payload_context a payload)"

subsection \<open>Both fulfil the contract\<close>

lemma auth_refusalI [intro]:
  "auth_refusal (orch AUTH_REQUIRED m 401)" "auth_refusal (orch AUTH_INVALID m 401)"
  by (auto simp: auth_refusal_def)

lemma dev_authenticate_Inr:
  "dev_authenticate h = Inr c \<longleftrightarrow>
     (\<exists>rest. h = Some (dev_prefix @ rest) \<and> split_on (CHR '':'') rest = [ctx_tenantId c, ctx_subject c]
        \<and> is_safe_identifier (ctx_tenantId c) \<and> is_safe_identifier (ctx_subject c))"
proof
  assume "dev_authenticate h = Inr c"
  then obtain v where h: "h = Some v" and p: "starts_with dev_prefix v"
    and r: "(case split_on (CHR '':'') (drop (length dev_prefix) v) of
        [t, s] \<Rightarrow> if \<not> is_safe_identifier t \<or> \<not> is_safe_identifier s
          then Inl (orch AUTH_INVALID ''invalid development bearer token'' 401)
          else Inr \<lparr>ctx_tenantId = t, ctx_subject = s\<rparr>
      | _ \<Rightarrow> Inl (orch AUTH_INVALID ''invalid development bearer token'' 401)) = Inr c"
    by (auto simp: dev_authenticate_def split: option.splits if_splits)
  have "v = dev_prefix @ drop (length dev_prefix) v"
    using p by (metis append_take_drop_id starts_with_def)
  with h r show "\<exists>rest. h = Some (dev_prefix @ rest) \<and> split_on (CHR '':'') rest = [ctx_tenantId c, ctx_subject c]
        \<and> is_safe_identifier (ctx_tenantId c) \<and> is_safe_identifier (ctx_subject c)"
    by (auto split: list.splits if_splits)
qed (auto simp: dev_authenticate_def starts_with_def)

lemma dev_authenticate_Inl: "dev_authenticate h = Inl e \<Longrightarrow> auth_refusal e"
  by (auto simp: dev_authenticate_def split: option.splits list.splits if_splits)

lemma is_safe_identifier_length: "is_safe_identifier s \<Longrightarrow> s \<noteq> [] \<and> length s \<le> 512"
  by (auto simp: is_safe_identifier_def)

interpretation dev: authenticator dev_authenticate
proof
  show "ctx_subject c \<noteq> [] \<and> length (ctx_subject c) \<le> 512" if "dev_authenticate h = Inr c" for h c
    using that is_safe_identifier_length by (auto simp: dev_authenticate_Inr)
  show "\<exists>m. e = orch AUTH_REQUIRED m 401" if "dev_authenticate None = Inl e" for e
    using that unfolding dev_authenticate_def by auto
qed (auto simp: dev_authenticate_Inr dest: dev_authenticate_Inl)

lemma bearerToken_Inr:
  "bearerToken h = Inr token \<longleftrightarrow> h = Some (bearer_prefix @ token) \<and> token \<noteq> [] \<and> list_all is_token_char token"
  by (auto simp: bearerToken_def starts_with_def Let_def bearer_prefix_def split: option.splits if_splits)
    (metis append_take_drop_id append_Cons append_Nil)

lemma payload_context_Inr:
  "payload_context a payload = Inr c \<longleftrightarrow>
     json_field payload (tenantClaim a) = Some (JStr (ctx_tenantId c))
     \<and> json_field payload ''sub'' = Some (JStr (ctx_subject c))
     \<and> is_safe_identifier (ctx_tenantId c) \<and> isSafeSubject (ctx_subject c)"
  by (cases c) (auto simp: payload_context_def simp flip: string_field_Some split: option.splits)

lemma oidc_authenticate_Inr:
  "oidc_authenticate jwtVerify a h = Inr c \<longleftrightarrow>
     (\<exists>token payload. bearerToken h = Inr token \<and> jwtVerify token (verify_options a) = Some payload
        \<and> payload_context a payload = Inr c)"
  by (auto simp: oidc_authenticate_def bind_result_Inr split: option.splits)

lemma oidc_accepts:
  "oidc_authenticate jwtVerify a h = Inr c \<longleftrightarrow>
    (\<exists>token payload. h = Some (''Bearer '' @ token) \<and> token \<noteq> [] \<and> list_all is_token_char token
      \<and> jwtVerify token (verify_options a) = Some payload
      \<and> json_field payload (tenantClaim a) = Some (JStr (ctx_tenantId c))
      \<and> json_field payload ''sub'' = Some (JStr (ctx_subject c))
      \<and> is_safe_identifier (ctx_tenantId c) \<and> ctx_subject c \<noteq> [] \<and> length (ctx_subject c) \<le> 512)"
  unfolding oidc_authenticate_Inr bearerToken_Inr payload_context_Inr isSafeSubject_def bearer_prefix_def by blast

lemma bearerToken_Inl: "bearerToken h = Inl e \<Longrightarrow> auth_refusal e"
  by (auto simp: bearerToken_def invalidToken_def Let_def split: option.splits if_splits)

lemma payload_context_Inl: "payload_context a payload = Inl e \<Longrightarrow> auth_refusal e"
  by (auto simp: payload_context_def invalidToken_def split: option.splits if_splits)

lemma oidc_authenticate_Inl: "oidc_authenticate jwtVerify a h = Inl e \<Longrightarrow> auth_refusal e"
proof -
  assume refused: "oidc_authenticate jwtVerify a h = Inl e"
  show ?thesis
  proof (cases "bearerToken h")
    case (Inl e')
    with refused bearerToken_Inl [OF Inl] show ?thesis by (simp add: oidc_authenticate_def)
  next
    case (Inr token)
    with refused show ?thesis
      by (cases "jwtVerify token (verify_options a)")
        (auto simp: oidc_authenticate_def invalidToken_def dest: payload_context_Inl)
  qed
qed

interpretation oidc: authenticator "oidc_authenticate jwtVerify a" for jwtVerify :: "'k jwt_verify" and a :: "'k oidc"
proof
  show "\<exists>m. e = orch AUTH_REQUIRED m 401" if "oidc_authenticate jwtVerify a None = Inl e" for e
    using that unfolding oidc_authenticate_def bearerToken_def by auto
qed (auto simp: oidc_authenticate_Inr payload_context_Inr bearerToken_Inr isSafeSubject_def dest: oidc_authenticate_Inl)

subsection \<open>Accepted configurations\<close>

text \<open>A text that is an HTTPS URL without credentials and fragment.\<close>

definition https_endpoint :: "url_parser \<Rightarrow> string \<Rightarrow> parsed_url \<Rightarrow> bool" where
  "https_endpoint parse v url \<longleftrightarrow> parse v = Some url \<and> url_protocol url = ''https:'' \<and> url_username url = []
     \<and> url_password url = [] \<and> url_hash url = []"

lemma requireHttpsURL_Inr: "requireHttpsURL parse v n = Inr url \<longleftrightarrow> https_endpoint parse v url"
  by (auto simp: requireHttpsURL_def https_endpoint_def split: option.splits if_splits)

lemma requireNonEmpty_Inr: "requireNonEmpty v n = Inr t \<longleftrightarrow> t = trim v \<and> t \<noteq> [] \<and> length t \<le> 512"
  by (auto simp: requireNonEmpty_def Let_def)

lemma set_values_props: "set (set_values vs) = set vs \<and> distinct (set_values vs)"
proof -
  have "set (foldl (\<lambda>acc v. js_add v acc) acc vs) = set acc \<union> set vs
      \<and> (distinct acc \<longrightarrow> distinct (foldl (\<lambda>acc v. js_add v acc) acc vs))" for acc
    by (induction vs arbitrary: acc) auto
  from this [of "[]"] show ?thesis by (simp add: set_values_def)
qed

lemma validateAlgorithms_Inr:
  assumes "validateAlgorithms vs = Inr algs"
  shows "set algs = set vs \<and> set algs \<subseteq> {''RS256'', ''PS256'', ''ES256''} \<and> algs \<noteq> [] \<and> distinct algs"
proof -
  from assms have "algs = set_values vs" "vs \<noteq> []" "set vs \<subseteq> set DEFAULT_ALGORITHMS"
    unfolding validateAlgorithms_def by (auto simp: list_ex_iff split: if_splits)
  with set_values_props [of vs] show ?thesis
    by (metis DEFAULT_ALGORITHMS_def empty_set list.simps(15) set_empty)
qed

lemma nonNegativeInteger_Inr: "nonNegativeInteger v n = Inr i \<Longrightarrow> v = Integer i \<and> 0 \<le> i"
  by (auto simp: nonNegativeInteger_def split: number.splits if_splits)

lemma new_oidc_Inr:
  assumes "new_oidc parse createRemoteJWKSet opts resolver = Inr a"
  obtains iss jwks where "https_endpoint parse (oidc_issuer opts) iss" and "https_endpoint parse (oidc_jwksUrl opts) jwks"
    and "issuer a = oidc_issuer opts" and "audience a = trim (oidc_audience opts)" and "audience a \<noteq> []"
    and "tenantClaim a = or_else (oidc_tenantClaim opts) ''tenant_id''"
    and "set (algorithms a) = set (or_else (oidc_algorithms opts) DEFAULT_ALGORITHMS)"
    and "set (algorithms a) \<subseteq> {''RS256'', ''PS256'', ''ES256''}" and "algorithms a \<noteq> []" and "distinct (algorithms a)"
    and "or_else (oidc_clockToleranceSeconds opts) (Integer 5) = Integer (clockToleranceSeconds a)" and "0 \<le> clockToleranceSeconds a"
    and "keyResolver a = or_else resolver (createRemoteJWKSet jwks)"
  using assms unfolding new_oidc_def
  by (auto simp: bind_result_Inr requireHttpsURL_Inr requireNonEmpty_Inr requireClaimName_def split: if_splits
      dest!: validateAlgorithms_Inr nonNegativeInteger_Inr)

subsection \<open>Properties\<close>

text \<open>
  C15. What an accepted request proves, for either authenticator and every pair of requests: the
  tenant is a safe identifier, the subject is named, and the keys that two accepted requests
  reach sessions by agree only for the same tenant and the same session identifier; a refused
  request is always answered 401.
\<close>

theorem authenticated_tenants_cannot_collide:
  assumes auth: "auth \<in> {dev_authenticate, oidc_authenticate jwtVerify a}"
    and auth': "auth' \<in> {dev_authenticate, oidc_authenticate jwtVerify a}"
  shows "(\<forall>h c. auth h = Inr c \<longrightarrow> is_safe_identifier (ctx_tenantId c) \<and> ctx_subject c \<noteq> [])
    \<and> (\<forall>h e. auth h = Inl e \<longrightarrow> (\<exists>c m. e = orch c m 401))
    \<and> (\<forall>h h' c c' i j. auth h = Inr c \<longrightarrow> auth' h' = Inr c' \<longrightarrow>
         session_key (ctx_tenantId c) i = session_key (ctx_tenantId c') j \<longrightarrow> ctx_tenantId c = ctx_tenantId c' \<and> i = j)"
proof -
  have both: "authenticator x" if "x \<in> {dev_authenticate, oidc_authenticate jwtVerify a}" for x
    using that dev.authenticator_axioms oidc.authenticator_axioms by blast
  have colon: "CHR '':'' \<notin> set (ctx_tenantId c)" if "authenticator x" "x h = Inr c" for x h c
    by (rule authenticator.tenant_no_colon [OF that])
  show ?thesis
    using authenticator.safe_tenant [OF both [OF auth]] authenticator.named_subject [OF both [OF auth]]
      authenticator.refusal [OF both [OF auth], unfolded auth_refusal_def]
      colon [OF both [OF auth]] colon [OF both [OF auth']] session_key_inj by blast
qed

definition ex_oidc :: "unit oidc" where
  "ex_oidc = \<lparr>issuer = ''https://issuer.example/'', audience = ''fireball-docker'', tenantClaim = ''tenant_id'',
     algorithms = DEFAULT_ALGORITHMS, clockToleranceSeconds = 5, keyResolver = ()\<rparr>"

text \<open>A verifier that accepts one token, when it is asked for the configured audience.\<close>

definition ex_verify :: "unit jwt_verify" where
  "ex_verify token opts =
     (if token = ''a.b.c'' \<and> jwt_audience opts = ''fireball-docker''
      then Some (JObj [(''tenant_id'', JStr ''acme''), (''sub'', JStr ''alice@example.com'')]) else None)"

theorem authenticated_tenants_cannot_collide_witness:
  "oidc_authenticate ex_verify ex_oidc (Some ''Bearer a.b.c'')
     = Inr \<lparr>ctx_tenantId = ''acme'', ctx_subject = ''alice@example.com''\<rparr>
   \<and> dev_authenticate (Some ''Bearer dev:acme2:bob'') = Inr \<lparr>ctx_tenantId = ''acme2'', ctx_subject = ''bob''\<rparr>
   \<and> (\<forall>i j. session_key ''acme'' i \<noteq> session_key ''acme2'' j)"
proof -
  have o: "oidc_authenticate ex_verify ex_oidc (Some ''Bearer a.b.c'')
     = Inr \<lparr>ctx_tenantId = ''acme'', ctx_subject = ''alice@example.com''\<rparr>" by code_simp
  have d: "dev_authenticate (Some ''Bearer dev:acme2:bob'') = Inr \<lparr>ctx_tenantId = ''acme2'', ctx_subject = ''bob''\<rparr>"
    by code_simp
  have keys: "\<forall>h h' c c' i j. oidc_authenticate ex_verify ex_oidc h = Inr c \<longrightarrow> dev_authenticate h' = Inr c' \<longrightarrow>
      session_key (ctx_tenantId c) i = session_key (ctx_tenantId c') j \<longrightarrow> ctx_tenantId c = ctx_tenantId c' \<and> i = j"
    by (rule authenticated_tenants_cannot_collide
      [where auth = "oidc_authenticate ex_verify ex_oidc" and auth' = dev_authenticate and jwtVerify = ex_verify and a = ex_oidc,
       THEN conjunct2, THEN conjunct2])
      simp_all
  have "session_key ''acme'' i \<noteq> session_key ''acme2'' j" for i j
    using keys [rule_format, OF o d, of i j] by auto
  with o d show ?thesis by blast
qed

text \<open>
  C16. The OIDC authenticator accepts exactly the bearer tokens that the verifier accepts under the restrictions of the
  options it was constructed with, and whose tenant and subject claims are safe; the tenant and subject are those two
  claims. The verifier is given the resolver of the options or else the keys of their JWKS URL, their issuer, their
  trimmed audience, exactly their algorithms, as required claims the subject and their tenant claim, and their tolerance, each with its default.
  The issuer and the JWKS URL are HTTPS URLs without credentials, and the algorithms are one or more of the three asymmetric ones.
\<close>

theorem oidc_accepts_exactly_verified_tokens:
  assumes "new_oidc parse createRemoteJWKSet opts resolver = Inr a"
  shows "\<exists>iss jwks algs tol. https_endpoint parse (oidc_issuer opts) iss \<and> https_endpoint parse (oidc_jwksUrl opts) jwks
    \<and> set algs = set (case oidc_algorithms opts of None \<Rightarrow> [''RS256'', ''PS256'', ''ES256''] | Some configured \<Rightarrow> configured)
    \<and> set algs \<subseteq> {''RS256'', ''PS256'', ''ES256''} \<and> algs \<noteq> [] \<and> distinct algs
    \<and> (case oidc_clockToleranceSeconds opts of None \<Rightarrow> tol = 5 | Some t \<Rightarrow> t = Integer tol) \<and> 0 \<le> tol
    \<and> (\<forall>h c. oidc_authenticate jwtVerify a h = Inr c \<longleftrightarrow>
        (\<exists>token payload. h = Some (''Bearer '' @ token) \<and> token \<noteq> [] \<and> list_all is_token_char token
          \<and> jwtVerify token
              \<lparr>jwt_keys = (case resolver of None \<Rightarrow> createRemoteJWKSet jwks | Some keys \<Rightarrow> keys),
               jwt_issuer = oidc_issuer opts, jwt_audience = trim (oidc_audience opts), jwt_algorithms = algs,
               jwt_requiredClaims = [''sub'', case oidc_tenantClaim opts of None \<Rightarrow> ''tenant_id'' | Some claim \<Rightarrow> claim],
               jwt_clockTolerance = tol\<rparr> = Some payload
          \<and> json_field payload (case oidc_tenantClaim opts of None \<Rightarrow> ''tenant_id'' | Some claim \<Rightarrow> claim) = Some (JStr (ctx_tenantId c))
          \<and> json_field payload ''sub'' = Some (JStr (ctx_subject c))
          \<and> is_safe_identifier (ctx_tenantId c) \<and> ctx_subject c \<noteq> [] \<and> length (ctx_subject c) \<le> 512))"
proof -
  from assms obtain iss jwks where urls: "https_endpoint parse (oidc_issuer opts) iss" "https_endpoint parse (oidc_jwksUrl opts) jwks"
    and iss: "issuer a = oidc_issuer opts" and aud: "audience a = trim (oidc_audience opts)"
    and claim: "tenantClaim a = (case oidc_tenantClaim opts of None \<Rightarrow> ''tenant_id'' | Some claim \<Rightarrow> claim)"
    and algs: "set (algorithms a) = set (case oidc_algorithms opts of None \<Rightarrow> [''RS256'', ''PS256'', ''ES256''] | Some configured \<Rightarrow> configured)"
      "set (algorithms a) \<subseteq> {''RS256'', ''PS256'', ''ES256''}" "algorithms a \<noteq> []" "distinct (algorithms a)"
    and tol: "case oidc_clockToleranceSeconds opts of None \<Rightarrow> clockToleranceSeconds a = 5 | Some t \<Rightarrow> t = Integer (clockToleranceSeconds a)"
      "0 \<le> clockToleranceSeconds a"
    and keys: "keyResolver a = (case resolver of None \<Rightarrow> createRemoteJWKSet jwks | Some keys \<Rightarrow> keys)"
    by (rule new_oidc_Inr) (auto simp: or_else_def DEFAULT_ALGORITHMS_def split: option.splits)
  have opts: "verify_options a = \<lparr>jwt_keys = (case resolver of None \<Rightarrow> createRemoteJWKSet jwks | Some keys \<Rightarrow> keys),
      jwt_issuer = oidc_issuer opts, jwt_audience = trim (oidc_audience opts), jwt_algorithms = algorithms a,
      jwt_requiredClaims = [''sub'', case oidc_tenantClaim opts of None \<Rightarrow> ''tenant_id'' | Some claim \<Rightarrow> claim],
      jwt_clockTolerance = clockToleranceSeconds a\<rparr>"
    by (simp only: verify_options_def iss aud claim keys)
  show ?thesis
    by (rule exI [of _ iss], rule exI [of _ jwks], rule exI [of _ "algorithms a"], rule exI [of _ "clockToleranceSeconds a"],
        intro conjI urls algs tol allI, rule oidc_accepts [of jwtVerify a, unfolded opts claim])
qed

definition ex_oidc_options :: oidc_options where
  "ex_oidc_options = \<lparr>oidc_issuer = ''https://issuer.example/'', oidc_audience = '' fireball-docker '',
     oidc_jwksUrl = ''https://issuer.example/jwks.json'', oidc_tenantClaim = None, oidc_algorithms = None,
     oidc_clockToleranceSeconds = None\<rparr>"

definition ex_https :: url_parser where
  "ex_https text = (if starts_with ''https://issuer.example/'' text
     then Some \<lparr>url_protocol = ''https:'', url_username = [], url_password = [], url_hostname = ''issuer.example'',
       url_port = [], url_pathname = drop 22 text, url_search = [], url_hash = [], url_href = text\<rparr> else None)"

theorem oidc_accepts_exactly_verified_tokens_witness:
  "new_oidc ex_https (\<lambda>_. ()) ex_oidc_options None = Inr ex_oidc
   \<and> (\<forall>c. oidc_authenticate ex_verify ex_oidc (Some ''Bearer a b'') \<noteq> Inr c)"
proof -
  have new: "new_oidc ex_https (\<lambda>_. ()) ex_oidc_options None = Inr ex_oidc" by code_simp
  have "token = ''a b''" if "''Bearer a b'' = ''Bearer '' @ token" for token using that by simp
  have "\<not> list_all is_token_char ''a b''" by code_simp
  have "oidc_authenticate ex_verify ex_oidc (Some ''Bearer a b'') \<noteq> Inr c" for c
  proof -
    obtain P where accepts: "\<forall>h c. oidc_authenticate ex_verify ex_oidc h = Inr c \<longleftrightarrow>
        (\<exists>token payload. h = Some (''Bearer '' @ token) \<and> token \<noteq> [] \<and> list_all is_token_char token \<and> P c token (payload :: json))"
      using oidc_accepts_exactly_verified_tokens [OF new, where jwtVerify = ex_verify]
      by (elim exE conjE) (rule that)
    from \<open>\<And>token. ''Bearer a b'' = ''Bearer '' @ token \<Longrightarrow> token = ''a b''\<close> \<open>\<not> list_all is_token_char ''a b''\<close>
    show ?thesis unfolding accepts [rule_format] by blast
  qed
  with new show ?thesis by blast
qed

end
