(* ===== verification/Registry.thy ===== *)
theory Registry
  imports Types
begin

text \<open>
  Class \<open>SignalingConnectionRegistry\<close> of \<open>src/signaling/connection-registry.ts\<close>. The
  function that \<open>register\<close> returns keeps the \<open>Set\<close> it added the closer to, so sets are
  objects with references. A closer is known by an identifier \<open>'c\<close>; what calling it does is
  the argument \<open>run\<close> of \<open>revoke\<close>, an operation on the whole program state \<open>'s\<close>.
\<close>

record 'c registry =
  connections :: "(string, nat) js_map"
  connection_sets :: "(nat, 'c list) js_map"
  next_set :: nat

definition new_registry :: "'c registry" where
  "new_registry = \<lparr>connections = [], connection_sets = [], next_set = 0\<rparr>"

definition set_members :: "nat \<Rightarrow> 'c registry \<Rightarrow> 'c list" where
  "set_members ref r = (case jm_get (connection_sets r) ref of None \<Rightarrow> [] | Some cs \<Rightarrow> cs)"

text \<open>The closure that \<open>register\<close> returns: its session, the set and the closer it captured.\<close>

record 'c registration =
  reg_session :: string
  reg_set :: nat
  reg_close :: 'c

definition register :: "string \<Rightarrow> 'c \<Rightarrow> 'c registry \<Rightarrow> 'c registration \<times> 'c registry" where
  "register sessionId close r =
     (let (ref, r1) =
        (case jm_get (connections r) sessionId of
           Some ref \<Rightarrow> (ref, r)
         | None \<Rightarrow> (next_set r, r\<lparr>next_set := Suc (next_set r),
                        connection_sets := jm_set (next_set r) [] (connection_sets r)\<rparr>))
      in (\<lparr>reg_session = sessionId, reg_set = ref, reg_close = close\<rparr>,
          r1\<lparr>connection_sets := jm_set ref (js_add close (set_members ref r1)) (connection_sets r1),
             connections := jm_set sessionId ref (connections r1)\<rparr>))"

definition unregister :: "'c registration \<Rightarrow> 'c registry \<Rightarrow> 'c registry" where
  "unregister h r =
     (let cs = js_remove (reg_close h) (set_members (reg_set h) r);
          r1 = r\<lparr>connection_sets := jm_set (reg_set h) cs (connection_sets r)\<rparr>
      in if cs = [] then r1\<lparr>connections := jm_delete (reg_session h) (connections r1)\<rparr> else r1)"

text \<open>
  The loop of \<open>revoke\<close> over the live set: a closer that an earlier one removed from the set is
  not called. What a closer throws is swallowed. No closer of the program registers another.
\<close>

fun close_each :: "('s \<Rightarrow> 'c registry) \<Rightarrow> ('c \<Rightarrow> 's \<Rightarrow> 's) \<Rightarrow> nat \<Rightarrow> 'c list \<Rightarrow> 's \<Rightarrow> 's" where
  "close_each reg run ref [] s = s"
| "close_each reg run ref (c # cs) s =
     close_each reg run ref cs (if c \<in> set (set_members ref (reg s)) then run c s else s)"

definition revoke ::
  "('s \<Rightarrow> 'c registry) \<Rightarrow> ('c registry \<Rightarrow> 's \<Rightarrow> 's) \<Rightarrow> ('c \<Rightarrow> 's \<Rightarrow> 's) \<Rightarrow> string \<Rightarrow> 's \<Rightarrow> 's" where
  "revoke reg put run sessionId s =
     (case jm_get (connections (reg s)) sessionId of
        None \<Rightarrow> s
      | Some ref \<Rightarrow>
          close_each reg run ref (set_members ref (reg s))
            (put ((reg s)\<lparr>connections := jm_delete sessionId (connections (reg s))\<rparr>) s))"

definition registry_count :: "string \<Rightarrow> 'c registry \<Rightarrow> nat" where
  "registry_count sessionId r =
     (case jm_get (connections r) sessionId of None \<Rightarrow> 0 | Some ref \<Rightarrow> length (set_members ref r))"

subsection \<open>What a registry holds\<close>

definition registered :: "string \<Rightarrow> 'c registry \<Rightarrow> 'c list" where
  "registered sid r = (case jm_get (connections r) sid of None \<Rightarrow> [] | Some ref \<Rightarrow> set_members ref r)"

definition registry_inv :: "'c registry \<Rightarrow> bool" where
  "registry_inv r \<longleftrightarrow>
     (\<forall>sid ref. jm_get (connections r) sid = Some ref \<longrightarrow> ref < next_set r \<and> set_members ref r \<noteq> [])
     \<and> (\<forall>sid sid' ref. jm_get (connections r) sid = Some ref \<longrightarrow> jm_get (connections r) sid' = Some ref \<longrightarrow> sid = sid')
     \<and> (\<forall>ref. distinct (set_members ref r)) \<and> (\<forall>ref. next_set r \<le> ref \<longrightarrow> set_members ref r = [])"

text \<open>
  A registration is genuine when its set, as long as it is in the map, is in it under the
  registration's session; it is current while its session still has that set.
\<close>

definition genuine :: "'c registration \<Rightarrow> 'c registry \<Rightarrow> bool" where
  "genuine h r \<longleftrightarrow> reg_set h < next_set r
     \<and> (\<forall>sid. jm_get (connections r) sid = Some (reg_set h) \<longrightarrow> sid = reg_session h)"

definition current :: "'c registration \<Rightarrow> 'c registry \<Rightarrow> bool" where
  "current h r \<longleftrightarrow> jm_get (connections r) (reg_session h) = Some (reg_set h)"

named_theorems registry_simps

lemma set_members_simps [registry_simps]:
  "set_members ref (r\<lparr>connections := m\<rparr>) = set_members ref r"
  "set_members ref (r\<lparr>next_set := n\<rparr>) = set_members ref r"
  "set_members ref (r\<lparr>connection_sets := cs\<rparr>) = (case jm_get cs ref of None \<Rightarrow> [] | Some c \<Rightarrow> c)"
  "(case jm_get (connection_sets r) ref of None \<Rightarrow> [] | Some c \<Rightarrow> c) = set_members ref r"
  by (simp_all add: set_members_def)

lemma registered_new [simp]: "registered sid new_registry = []"
  by (simp add: registered_def new_registry_def)

lemma registry_inv_new: "registry_inv new_registry"
  by (simp add: registry_inv_def new_registry_def set_members_def)

lemma registry_inv_member:
  "registry_inv r \<Longrightarrow> jm_get (connections r) sid = Some ref \<Longrightarrow> ref < next_set r \<and> set_members ref r \<noteq> []"
  by (simp add: registry_inv_def)

lemma registry_inv_unique:
  "registry_inv r \<Longrightarrow> jm_get (connections r) sid = Some ref \<Longrightarrow> jm_get (connections r) sid' = Some ref \<Longrightarrow> sid = sid'"
  unfolding registry_inv_def by blast

lemma register_inv:
  assumes inv: "registry_inv r" shows "registry_inv (snd (register sid c r))"
proof (cases "jm_get (connections r) sid")
  case None
  have fresh: "jm_get (connections r) s \<noteq> Some (next_set r)" for s using registry_inv_member [OF inv] by blast
  have "set_members ref r = []" if "next_set r \<le> ref" for ref using inv that by (simp add: registry_inv_def)
  with inv None fresh show ?thesis
    unfolding registry_inv_def register_def by (auto simp: registry_simps js_add_def less_Suc_eq_le intro: less_imp_le split: if_splits)
next
  case (Some ref)
  then have "ref < next_set r" using registry_inv_member [OF inv] by blast
  with inv Some show ?thesis
    unfolding registry_inv_def register_def by (auto simp: registry_simps js_add_def split: if_splits)
qed

lemma register_registered:
  assumes inv: "registry_inv r"
  shows "registered sid' (snd (register sid c r)) = (if sid' = sid then js_add c (registered sid r) else registered sid' r)"
proof (cases "jm_get (connections r) sid")
  case None
  have "jm_get (connections r) s \<noteq> Some (next_set r)" for s using registry_inv_member [OF inv] by blast
  with None show ?thesis
    by (cases "jm_get (connections r) sid'") (auto simp: registered_def register_def registry_simps)
next
  case (Some ref)
  then have other: "jm_get (connections r) sid' \<noteq> Some ref" if "sid' \<noteq> sid"
    using registry_inv_unique [OF inv] that by blast
  show ?thesis
  proof (cases "sid' = sid")
    case True
    with Some show ?thesis by (simp add: registered_def register_def registry_simps)
  next
    case False
    with Some other [OF False] show ?thesis
      by (cases "jm_get (connections r) sid'") (simp_all add: registered_def register_def registry_simps)
  qed
qed

lemma register_handle:
  assumes inv: "registry_inv r"
  shows "current (fst (register sid c r)) (snd (register sid c r))"
    and "genuine (fst (register sid c r)) (snd (register sid c r))"
    and "reg_session (fst (register sid c r)) = sid" "reg_close (fst (register sid c r)) = c"
proof -
  have fresh: "jm_get (connections r) s \<noteq> Some (next_set r)" for s using registry_inv_member [OF inv] by blast
  show "current (fst (register sid c r)) (snd (register sid c r))"
    "reg_session (fst (register sid c r)) = sid" "reg_close (fst (register sid c r)) = c"
    by (auto simp: current_def register_def split: option.splits)
  show "genuine (fst (register sid c r)) (snd (register sid c r))"
    using fresh registry_inv_member [OF inv] registry_inv_unique [OF inv]
    by (cases "jm_get (connections r) sid") (auto simp: genuine_def register_def)
qed

lemma genuine_register:
  assumes inv: "registry_inv r" and h: "genuine h r"
  shows "genuine h (snd (register sid c r))"
proof -
  have "ref < next_set r" if "jm_get (connections r) s = Some ref" for s ref
    using registry_inv_member [OF inv that] by blast
  with h show ?thesis by (cases "jm_get (connections r) sid") (auto simp: genuine_def register_def)
qed

lemma genuine_unregister: "genuine h r \<Longrightarrow> genuine h (unregister h' r)"
  by (auto simp: genuine_def unregister_def Let_def)

lemma unregister_inv:
  assumes inv: "registry_inv r" and h: "genuine h r"
  shows "registry_inv (unregister h r)"
  using inv h unfolding registry_inv_def genuine_def unregister_def Let_def
  by (auto simp: registry_simps js_remove_def split: if_splits)

lemma unregister_current:
  assumes inv: "registry_inv r" and cur: "current h r"
  shows "registered sid (unregister h r) =
    (if sid = reg_session h then js_remove (reg_close h) (registered sid r) else registered sid r)"
proof (cases "sid = reg_session h")
  case True
  with cur show ?thesis
    by (auto simp: registered_def current_def unregister_def Let_def registry_simps js_remove_def)
next
  case False
  then have "jm_get (connections r) sid \<noteq> Some (reg_set h)"
    using registry_inv_unique [OF inv] cur unfolding current_def by blast
  with False show ?thesis
    by (auto simp: registered_def unregister_def Let_def registry_simps split: option.splits)
qed

lemma revoked_inv: "registry_inv r \<Longrightarrow> registry_inv (r\<lparr>connections := jm_delete sid (connections r)\<rparr>)"
  by (auto simp: registry_inv_def registry_simps)

lemma revoked_registered:
  "registered sid' (r\<lparr>connections := jm_delete sid (connections r)\<rparr>) = (if sid' = sid then [] else registered sid' r)"
  by (auto simp: registered_def registry_simps split: option.splits)

lemma genuine_revoked: "genuine h r \<Longrightarrow> genuine h (r\<lparr>connections := jm_delete sid (connections r)\<rparr>)"
  by (auto simp: genuine_def)

text \<open>Unregistering after the session was revoked leaves what the registry holds unchanged.\<close>

lemma unregister_revoked:
  assumes h: "genuine h r" and gone: "registered (reg_session h) r = []" and inv: "registry_inv r"
  shows "registered sid (unregister h r) = registered sid r"
proof -
  have "jm_get (connections r) (reg_session h) = None"
    using gone registry_inv_member [OF inv] by (auto simp: registered_def split: option.splits)
  with h have "jm_get (connections r) s \<noteq> Some (reg_set h)" for s by (auto simp: genuine_def)
  then show ?thesis
    using \<open>jm_get (connections r) (reg_session h) = None\<close>
    by (auto simp: registered_def unregister_def Let_def registry_simps split: option.splits)
qed

lemma registered_distinct: "registry_inv r \<Longrightarrow> distinct (registered sid r)"
  by (auto simp: registry_inv_def registered_def split: option.splits)

lemma registry_count_registered: "registry_count sid r = length (registered sid r)"
  by (auto simp: registry_count_def registered_def split: option.splits)

subsection \<open>The contract: a set of live connections\<close>

definition live :: "'c registry \<Rightarrow> (string \<times> 'c) set" where
  "live r = {(sid, c). c \<in> set (registered sid r)}"

definition valid_registration :: "'c registration \<Rightarrow> 'c registry \<Rightarrow> bool" where
  "valid_registration h r \<longleftrightarrow> genuine h r \<and> (current h r \<or> registered (reg_session h) r = [])"

definition registration_pair :: "'c registration \<Rightarrow> string \<times> 'c" where
  "registration_pair h = (reg_session h, reg_close h)"

locale live_connections =
  fixes ok :: "'r \<Rightarrow> bool" and members :: "'r \<Rightarrow> (string \<times> 'c) set"
    and enroll :: "string \<Rightarrow> 'c \<Rightarrow> 'r \<Rightarrow> 'h \<times> 'r" and withdraw :: "'h \<Rightarrow> 'r \<Rightarrow> 'r"
    and valid :: "'h \<Rightarrow> 'r \<Rightarrow> bool" and entry :: "'h \<Rightarrow> string \<times> 'c"
  assumes enroll_ok: "ok r \<Longrightarrow> ok (snd (enroll sid c r))"
    and enroll_members: "ok r \<Longrightarrow> members (snd (enroll sid c r)) = insert (sid, c) (members r)"
    and enroll_valid: "ok r \<Longrightarrow> valid (fst (enroll sid c r)) (snd (enroll sid c r))"
    and enroll_entry: "ok r \<Longrightarrow> entry (fst (enroll sid c r)) = (sid, c)"
    and withdraw_ok: "ok r \<Longrightarrow> valid h r \<Longrightarrow> ok (withdraw h r)"
    and withdraw_members: "ok r \<Longrightarrow> valid h r \<Longrightarrow> members (withdraw h r) = members r - {entry h}"
begin

lemma enroll_withdraw:
  assumes "ok r" and "(sid, c) \<notin> members r"
  shows "members (withdraw (fst (enroll sid c r)) (snd (enroll sid c r))) = members r"
  using assms withdraw_members [OF enroll_ok enroll_valid] by (simp add: enroll_members enroll_entry)

end

lemma live_unregister:
  assumes inv: "registry_inv r" and h: "valid_registration h r"
  shows "live (unregister h r) = live r - {registration_pair h}"
proof (cases "current h r")
  case True
  with unregister_current [OF inv True] show ?thesis
    by (auto simp: live_def registration_pair_def split: if_splits)
next
  case False
  with h have gone: "registered (reg_session h) r = []" and g: "genuine h r" by (auto simp: valid_registration_def)
  have "registered sid (unregister h r) = registered sid r" for sid by (rule unregister_revoked [OF g gone inv])
  with gone show ?thesis by (auto simp: live_def registration_pair_def)
qed

interpretation connection_registry: live_connections registry_inv live register unregister valid_registration registration_pair
proof
  fix r :: "'c registry" and sid c assume inv: "registry_inv r"
  show "registry_inv (snd (register sid c r))" by (rule register_inv [OF inv])
  show "live (snd (register sid c r)) = insert (sid, c) (live r)"
    by (auto simp: live_def register_registered [OF inv] split: if_splits)
  show "valid_registration (fst (register sid c r)) (snd (register sid c r))"
    using register_handle [OF inv] by (simp add: valid_registration_def)
  show "registration_pair (fst (register sid c r)) = (sid, c)"
    using register_handle [OF inv] by (simp add: registration_pair_def)
next
  fix h :: "'c registration" and r :: "'c registry" assume inv: "registry_inv r" and h: "valid_registration h r"
  show "registry_inv (unregister h r)" using inv h by (simp add: valid_registration_def unregister_inv)
  show "live (unregister h r) = live r - {registration_pair h}" by (rule live_unregister [OF inv h])
qed

subsection \<open>Revocation\<close>

text \<open>
  What the closers of a session do: each notes that it was called, and may unregister its own
  registration, as the relay's shutdown does.
\<close>

definition closers_unregister_themselves ::
  "('s \<Rightarrow> 'c registry) \<Rightarrow> ('c \<Rightarrow> 's \<Rightarrow> 's) \<Rightarrow> ('s \<Rightarrow> 'c list) \<Rightarrow> ('c \<Rightarrow> 'c registration option) \<Rightarrow> bool" where
  "closers_unregister_themselves reg run called own \<longleftrightarrow>
     (\<forall>c s. called (run c s) = called s @ [c]
        \<and> reg (run c s) = (case own c of None \<Rightarrow> reg s | Some h \<Rightarrow> unregister h (reg s)))"

lemma set_members_unregister:
  "set (set_members ref (unregister h reg)) =
     (if ref = reg_set h then set (set_members ref reg) - {reg_close h} else set (set_members ref reg))"
  by (auto simp: unregister_def Let_def registry_simps js_remove_def filter_empty_conv)

lemma jm_get_unregister_gone:
  "jm_get (connections r) (reg_session h) = None \<Longrightarrow> jm_get (connections (unregister h r)) sid = jm_get (connections r) sid"
  by (auto simp: unregister_def Let_def)

lemma close_each_calls_all:
  assumes closers: "closers_unregister_themselves reg run called own"
    and inv: "registry_inv (reg s)" and gone: "jm_get (connections (reg s)) sid = None" and dist: "distinct cs"
    and mem: "set cs \<subseteq> set (set_members ref (reg s))"
    and own: "\<And>c h. c \<in> set cs \<Longrightarrow> own c = Some h \<Longrightarrow> genuine h (reg s) \<and> registration_pair h = (sid, c)"
  shows "called (close_each reg run ref cs s) = called s @ cs
    \<and> registry_inv (reg (close_each reg run ref cs s))
    \<and> (\<forall>sid'. jm_get (connections (reg (close_each reg run ref cs s))) sid' = jm_get (connections (reg s)) sid')
    \<and> (\<forall>sid'. registered sid' (reg (close_each reg run ref cs s)) = registered sid' (reg s))
    \<and> (\<forall>h. genuine h (reg s) \<longrightarrow> genuine h (reg (close_each reg run ref cs s)))"
  using inv gone dist mem own
proof (induction cs arbitrary: s)
  case Nil
  then show ?case by simp
next
  case (Cons c cs)
  note step = closers [unfolded closers_unregister_themselves_def, rule_format, of c s]
  let ?r = "reg (run c s)"
  have own_c: "genuine h (reg s)" "reg_session h = sid" "reg_close h = c" if "own c = Some h" for h
    using Cons.prems(5) [of c h] that by (auto simp: registration_pair_def)
  have get: "jm_get (connections ?r) sid' = jm_get (connections (reg s)) sid'" for sid'
    using step Cons.prems(2) own_c jm_get_unregister_gone by (auto split: option.splits)
  have empty: "registered sid (reg s) = []" using Cons.prems(2) by (simp add: registered_def)
  have kept: "registered sid' ?r = registered sid' (reg s)" for sid'
    using step own_c unregister_revoked [OF _ _ Cons.prems(1)] empty by (auto split: option.splits)
  have inv': "registry_inv ?r"
    using step own_c unregister_inv [OF Cons.prems(1)] Cons.prems(1) by (auto split: option.splits)
  have gen: "genuine h ?r" if "genuine h (reg s)" for h
    using step that genuine_unregister by (auto split: option.splits)
  have sub: "set cs \<subseteq> set (set_members ref ?r)"
    using step own_c Cons.prems(3,4)
    by (auto simp: set_members_unregister split: option.splits)
  have gone: "jm_get (connections ?r) sid = None" using get Cons.prems(2) by simp
  have dist: "distinct cs" using Cons.prems(3) by simp
  have own': "genuine h ?r \<and> registration_pair h = (sid, c')" if "c' \<in> set cs" "own c' = Some h" for c' h
    using Cons.prems(5) [of c' h] that gen by simp
  have "close_each reg run ref (c # cs) s = close_each reg run ref cs (run c s)" using Cons.prems(4) by simp
  with Cons.IH [of "run c s", OF inv' gone dist sub own'] gen step [THEN conjunct1] get kept show ?case by auto
qed

lemma revoke_calls_all:
  assumes inv: "registry_inv (reg s)" and lens: "\<And>r s. reg (put r s) = r" "\<And>r s. called (put r s) = called s"
    and closers: "closers_unregister_themselves reg run called own"
    and own: "\<And>c h. c \<in> set (registered sid (reg s)) \<Longrightarrow> own c = Some h \<Longrightarrow> current h (reg s) \<and> registration_pair h = (sid, c)"
  shows "called (revoke reg put run sid s) = called s @ registered sid (reg s)
    \<and> registry_inv (reg (revoke reg put run sid s))
    \<and> (\<forall>sid'. registered sid' (reg (revoke reg put run sid s)) = (if sid' = sid then [] else registered sid' (reg s)))
    \<and> (\<forall>h. valid_registration h (reg s) \<longrightarrow> valid_registration h (reg (revoke reg put run sid s)))"
proof (cases "jm_get (connections (reg s)) sid")
  case None
  with inv show ?thesis by (simp add: revoke_def registered_def)
next
  case (Some ref)
  let ?s = "put ((reg s)\<lparr>connections := jm_delete sid (connections (reg s))\<rparr>) s"
  have members: "registered sid (reg s) = set_members ref (reg s)" using Some by (simp add: registered_def)
  have genuine: "genuine h (reg ?s)" if "c \<in> set (set_members ref (reg s))" "own c = Some h" for c h
  proof -
    from own [of c h] that members have "current h (reg s)" "reg_session h = sid" by (auto simp: registration_pair_def)
    with registry_inv_member [OF inv] registry_inv_unique [OF inv] have "genuine h (reg s)"
      unfolding genuine_def current_def by blast
    then show ?thesis by (simp add: lens genuine_revoked)
  qed
  have rev: "revoke reg put run sid s = close_each reg run ref (set_members ref (reg s)) ?s" using Some by (simp add: revoke_def)
  have start: "registry_inv (reg ?s)" "jm_get (connections (reg ?s)) sid = None" "distinct (set_members ref (reg s))"
    "set (set_members ref (reg s)) \<subseteq> set (set_members ref (reg ?s))"
    using inv by (simp_all add: lens revoked_inv registry_simps) (simp add: registry_inv_def)
  have own': "genuine h (reg ?s) \<and> registration_pair h = (sid, c)" if "c \<in> set (set_members ref (reg s))" "own c = Some h" for c h
    using genuine [OF that] own [of c h] that members by simp
  note all = close_each_calls_all [OF closers start own', folded rev]
  have reg': "registered sid' (reg (revoke reg put run sid s)) = (if sid' = sid then [] else registered sid' (reg s))" for sid'
    using all by (simp add: lens revoked_registered)
  have "valid_registration h (reg (revoke reg put run sid s))" if "valid_registration h (reg s)" for h
  proof -
    from that have g: "genuine h (reg s)" by (simp add: valid_registration_def)
    have "genuine h (reg (revoke reg put run sid s))" using all genuine_revoked [OF g, of sid] by (simp add: lens)
    moreover have "reg_session h \<noteq> sid \<Longrightarrow> current h (reg s) \<Longrightarrow> current h (reg (revoke reg put run sid s))"
      using all by (simp add: lens current_def)
    ultimately show ?thesis using that reg' [of "reg_session h"] by (auto simp: valid_registration_def)
  qed
  with all reg' show ?thesis by (simp add: lens members)
qed

text \<open>
  C17. The registry keeps exactly the live connections: registering adds the connection to its
  session, unregistering a connection that is still live, or whose session was revoked, takes out
  that connection and no other, a fresh connection that registers and unregisters leaves no trace,
  and the count of a session is the number of its connections. Revoking a session calls the closer of each of its
  connections once, in the order of registration, and no other closer, and takes out exactly the connections of
  that session, whether or not the closers unregister themselves meanwhile; every registration can still be undone afterwards.
\<close>

theorem registry_keeps_live_connections:
  assumes inv: "registry_inv (reg s)" and h: "valid_registration h (reg s)" and fresh: "c \<notin> set (registered sid (reg s))"
    and lens: "\<And>r s. reg (put r s) = r" "\<And>r s. called (put r s) = called s"
    and closers: "closers_unregister_themselves reg run called own"
    and own: "\<And>c h. c \<in> set (registered sid (reg s)) \<Longrightarrow> own c = Some h \<Longrightarrow> current h (reg s) \<and> registration_pair h = (sid, c)"
  shows "live (snd (register sid c (reg s))) = insert (sid, c) (live (reg s))
    \<and> live (unregister h (reg s)) = live (reg s) - {(reg_session h, reg_close h)}
    \<and> live (unregister (fst (register sid c (reg s))) (snd (register sid c (reg s)))) = live (reg s)
    \<and> registry_count sid (reg s) = card {c. (sid, c) \<in> live (reg s)}
    \<and> registry_inv (snd (register sid c (reg s))) \<and> registry_inv (unregister h (reg s))
    \<and> called (revoke reg put run sid s) = called s @ registered sid (reg s) \<and> distinct (registered sid (reg s))
    \<and> set (registered sid (reg s)) = {c. (sid, c) \<in> live (reg s)}
    \<and> live (reg (revoke reg put run sid s)) = {(sid', c) \<in> live (reg s). sid' \<noteq> sid}
    \<and> registry_inv (reg (revoke reg put run sid s)) \<and> valid_registration h (reg (revoke reg put run sid s))"
proof -
  have count: "registry_count sid (reg s) = card {c. (sid, c) \<in> live (reg s)}"
    using distinct_card [OF registered_distinct [OF inv, of sid]] by (simp add: live_def registry_count_registered)
  have new: "(sid, c) \<notin> live (reg s)" using fresh by (simp add: live_def)
  note revoked = revoke_calls_all [where reg = reg and s = s and put = put and called = called and run = run and own = own and sid = sid, OF inv lens closers own]
  have "live (reg (revoke reg put run sid s)) = {(sid', c) \<in> live (reg s). sid' \<noteq> sid}"
    using revoked by (auto simp: live_def split: if_splits)
  moreover have "set (registered sid (reg s)) = {c. (sid, c) \<in> live (reg s)}" by (auto simp: live_def)
  ultimately show ?thesis
    using connection_registry.enroll_members [OF inv] connection_registry.withdraw_members [OF inv h]
      connection_registry.enroll_withdraw [OF inv] connection_registry.enroll_ok [OF inv]
      connection_registry.withdraw_ok [OF inv h] registered_distinct [OF inv] revoked h new count
    by (simp add: registration_pair_def)
qed

text \<open>A state of a registry and a log, whose closers unregister the registration of session \<open>a\<close>.\<close>

definition ex_run :: "nat registration \<Rightarrow> nat \<Rightarrow> nat registry \<times> nat list \<Rightarrow> nat registry \<times> nat list" where
  "ex_run h c s = (if c = 5 then unregister h (fst s) else fst s, snd s @ [c])"

theorem registry_keeps_live_connections_witness:
  "let (h, r) = register ''a'' (5 :: nat) new_registry;
       r2 = snd (register ''b'' 6 r);
       s = revoke fst (\<lambda>r s. (r, snd s)) (ex_run h) ''a'' (r2, [])
   in live r2 = {(''a'', 5), (''b'', 6)} \<and> live (fst s) = {(''b'', 6)} \<and> snd s = [5] \<and> live (unregister h r) = {}"
proof -
  let ?r = "snd (register ''a'' (5 :: nat) new_registry)" and ?h = "fst (register ''a'' (5 :: nat) new_registry)"
  let ?r2 = "snd (register ''b'' 6 ?r)"
  have inv: "registry_inv ?r" by (rule register_inv [OF registry_inv_new])
  have inv2: "registry_inv ?r2" by (rule register_inv [OF inv])
  have l: "live ?r = {(''a'', 5)}"
    using connection_registry.enroll_members [OF registry_inv_new, of "''a''" "5 :: nat"] by (simp add: live_def)
  have p: "reg_session ?h = ''a''" "reg_close ?h = 5" by (simp_all only: register_handle [OF registry_inv_new])
  have regs: "registered ''a'' ?r2 = [5]" "registered ''b'' ?r2 = [6]" by code_simp+
  have l2: "live ?r2 = {(''a'', 5), (''b'', 6)}"
    using connection_registry.enroll_members [OF inv, of "''b''" "6 :: nat"] l by auto
  have cur: "current ?h ?r2" unfolding current_def by code_simp
  have genuine: "genuine ?h ?r2" by (rule genuine_register [OF inv register_handle(2) [OF registry_inv_new]])
  have h: "valid_registration ?h ?r2" using genuine cur by (simp add: valid_registration_def)
  have "7 \<notin> set (registered ''a'' ?r2)" by (simp add: regs)
  note all = registry_keeps_live_connections [where reg = fst and s = "(?r2, [])" and h = ?h and c = 7 and sid = "''a''"
      and put = "\<lambda>r s. (r, snd s)" and called = snd and run = "ex_run ?h" and own = "\<lambda>c. if c = 5 then Some ?h else None",
      unfolded fst_conv, OF inv2 h this]
  have closers: "closers_unregister_themselves fst (ex_run ?h) snd (\<lambda>c. if c = 5 then Some ?h else None)"
    by (simp add: closers_unregister_themselves_def ex_run_def)
  have "live (unregister ?h ?r) = {}"
    using connection_registry.withdraw_members [OF inv connection_registry.enroll_valid [OF registry_inv_new]] l p
    by (simp add: registration_pair_def)
  then show ?thesis
    using all closers regs cur p l2 by (auto simp: Let_def split_beta registration_pair_def split: if_splits)
qed

text \<open>
  A registration whose session was revoked and has registered another connection since must not be
  used: its closure deletes the newer set. No relay does this, because its closer unregisters
  while the session is being revoked.
\<close>

lemma stale_unregister_drops_newer_connection:
  "let (h, r1) = register ''a'' (1 :: nat) new_registry;
       r2 = r1\<lparr>connections := jm_delete ''a'' (connections r1)\<rparr>;
       r3 = snd (register ''a'' 2 r2)
   in registered ''a'' r3 = [2] \<and> registered ''a'' (unregister h r3) = []"
  by code_simp

end
