(* ===== verification/Sockets.thy ===== *)
theory Sockets
  imports Types
begin

text \<open>
  WebSockets as the relay code uses them. The package \<open>ws\<close> is third-party code; what is
  modelled is the part of its documented interface that the code reads and calls:
  \<open>readyState\<close>, \<open>bufferedAmount\<close> (which \<open>send\<close> raises by the size of the frame
  and the network lowers), \<open>send\<close>, \<open>close\<close> and \<open>terminate\<close> (which leave the
  socket closing). Calls are recorded in order. \<open>raw_data\<close> is its \<open>RawData\<close>: a buffer
  or an \<open>ArrayBuffer\<close>, which the code treats alike, or a list of fragments.
\<close>

datatype raw_data = Bytes "nat list" | Fragments "nat list list"

fun rawDataToBuffer :: "raw_data \<Rightarrow> nat list" where
  "rawDataToBuffer (Bytes bs) = bs"
| "rawDataToBuffer (Fragments fs) = concat fs"

fun rawDataByteLength :: "raw_data \<Rightarrow> nat" where
  "rawDataByteLength (Bytes bs) = length bs"
| "rawDataByteLength (Fragments fs) = foldl (\<lambda>sum f. sum + length f) 0 fs"

lemma rawDataByteLength_buffer: "rawDataByteLength d = length (rawDataToBuffer d)"
proof (cases d)
  case (Fragments fs)
  have "foldl (\<lambda>sum f. sum + length f) n fs = n + length (concat fs)" for n
    by (induction fs arbitrary: n) auto
  with Fragments show ?thesis by simp
qed simp

datatype socket_state = CONNECTING | OPEN | CLOSING | CLOSED

datatype socket_action = SendFrame "nat list" bool | CloseFrame nat string | TerminateSocket

record socket =
  readyState :: socket_state
  bufferedAmount :: nat
  actions :: "socket_action list"

definition socket_send :: "raw_data \<Rightarrow> bool \<Rightarrow> socket \<Rightarrow> socket" where
  "socket_send data isBinary s =
     s\<lparr>bufferedAmount := bufferedAmount s + rawDataByteLength data,
       actions := actions s @ [SendFrame (rawDataToBuffer data) isBinary]\<rparr>"

definition socket_close :: "nat \<Rightarrow> string \<Rightarrow> socket \<Rightarrow> socket" where
  "socket_close n reason s = s\<lparr>readyState := CLOSING, actions := actions s @ [CloseFrame n reason]\<rparr>"

definition socket_terminate :: "socket \<Rightarrow> socket" where
  "socket_terminate s =
     (if readyState s = CLOSED then s
      else s\<lparr>readyState := CLOSING, actions := actions s @ [TerminateSocket]\<rparr>)"

definition closeSocket :: "nat \<Rightarrow> string \<Rightarrow> socket \<Rightarrow> socket" where
  "closeSocket n reason s =
     (if readyState s = OPEN then socket_close n reason s
      else if readyState s = CONNECTING then socket_terminate s
      else s)"

text \<open>The frames that were sent, in order.\<close>

fun action_frame :: "socket_action \<Rightarrow> (nat list \<times> bool) option" where
  "action_frame (SendFrame d b) = Some (d, b)"
| "action_frame _ = None"

definition frames :: "socket \<Rightarrow> (nat list \<times> bool) list" where
  "frames s = List.map_filter action_frame (actions s)"

lemma map_filter_append: "List.map_filter f (xs @ ys) = List.map_filter f xs @ List.map_filter f ys"
  by (simp add: List.map_filter_def)

named_theorems socket_simps

lemma frames_send [socket_simps]: "frames (socket_send d b s) = frames s @ [(rawDataToBuffer d, b)]"
  by (simp add: frames_def socket_send_def map_filter_append map_filter_simps)

lemma frames_closeSocket [socket_simps]: "frames (closeSocket c m s) = frames s"
  by (simp add: frames_def closeSocket_def socket_close_def socket_terminate_def map_filter_append map_filter_simps)

lemma frames_terminate [socket_simps]: "frames (socket_terminate s) = frames s"
  by (simp add: frames_def socket_terminate_def map_filter_append map_filter_simps)

lemma closeSocket_state [socket_simps]:
  "readyState (closeSocket c m s) \<noteq> OPEN" "readyState (closeSocket c m s) \<noteq> CONNECTING"
  by (auto simp: closeSocket_def socket_close_def socket_terminate_def)

lemma terminate_state [socket_simps]:
  "readyState (socket_terminate s) = CLOSING \<or> readyState (socket_terminate s) = CLOSED"
  "readyState (socket_terminate s) \<noteq> OPEN" "readyState (socket_terminate s) \<noteq> CONNECTING"
  by (simp_all add: socket_terminate_def)

lemma bufferedAmount_closeSocket [socket_simps]:
  "bufferedAmount (closeSocket c m s) = bufferedAmount s" "bufferedAmount (socket_terminate s) = bufferedAmount s"
  by (simp_all add: closeSocket_def socket_close_def socket_terminate_def)

lemma closeSocket_idem: "closeSocket c' m' (closeSocket c m s) = closeSocket c m s"
  using closeSocket_state [of c m s] by (simp add: closeSocket_def)

text \<open>What the network does to a socket: it drains the queue and closes the connection.\<close>

definition socket_later :: "socket \<Rightarrow> socket \<Rightarrow> bool" where
  "socket_later s t \<longleftrightarrow> actions t = actions s \<and> bufferedAmount t \<le> bufferedAmount s
     \<and> (readyState t = readyState s \<or> readyState t \<in> {CLOSING, CLOSED} \<and> readyState s \<noteq> CLOSED)"

lemma socket_later_frames: "socket_later s t \<Longrightarrow> frames t = frames s"
  by (simp add: socket_later_def frames_def)

lemma socket_later_not_open: "socket_later s t \<Longrightarrow> readyState s \<noteq> OPEN \<Longrightarrow> readyState t \<noteq> OPEN"
  by (auto simp: socket_later_def)

end
