(* ===== verification/Connector.thy ===== *)
theory Connector
  imports Sockets "HOL-Library.Sublist"
begin

text \<open>
  Class \<open>WebSocketSignalingConnector\<close> of \<open>src/signaling/upstream-connector.ts\<close>: one
  connection to the signaling endpoint of a session container. \<open>handshake\<close> is the state that
  the callbacks of one \<open>connect\<close> share, and \<open>handshake_event\<close> runs the callback of one
  event. \<open>JSON.parse\<close> and \<open>new URL\<close> are arguments.
\<close>

subsection \<open>Configuration and target\<close>

record connector =
  connectTimeoutMs :: int
  maxPayloadBytes :: int

definition new_connector :: "number option \<Rightarrow> number option \<Rightarrow> thrown + connector" where
  "new_connector timeout payload =
     bind_result (positiveInteger (or_else timeout (Integer 3000)) ''connect timeout'') (\<lambda>t.
     bind_result (positiveInteger (or_else payload (Integer (64 * 1024))) ''maximum payload'') (\<lambda>p.
     Inr \<lparr>connectTimeoutMs = t, maxPayloadBytes = p\<rparr>))"

definition signalingUnavailable :: thrown where
  "signalingUnavailable = orch SIGNALING_UNAVAILABLE ''internal signaling channel is unavailable'' 503"

definition validateTarget :: "url_parser \<Rightarrow> runtime_resource \<Rightarrow> thrown + unit" where
  "validateTarget parse runtime =
     (case parse (signalingEndpoint runtime) of
        None \<Rightarrow> Inl signalingUnavailable
      | Some endpoint \<Rightarrow>
          if url_protocol endpoint \<noteq> ''ws:'' \<or> url_username endpoint \<noteq> [] \<or> url_password endpoint \<noteq> []
            \<or> url_pathname endpoint \<noteq> ''/internal/v1/signaling'' \<or> url_search endpoint \<noteq> [] \<or> url_hash endpoint \<noteq> []
            \<or> \<not> is_credential (signalingSecret runtime)
          then Inl signalingUnavailable else Inr ())"

definition isAuthenticatedFrame :: "(nat list \<Rightarrow> json option) \<Rightarrow> raw_data \<Rightarrow> bool" where
  "isAuthenticatedFrame json_parse data =
     (case json_parse (rawDataToBuffer data) of
        None \<Rightarrow> False
      | Some v \<Rightarrow> json_object v \<and> length (json_keys v) = 1 \<and> json_field v ''type'' = Some (JStr ''authenticated''))"

subsection \<open>State\<close>

datatype signaling_event = MessageEvent raw_data bool | CloseEvent | ErrorEvent

datatype connect_result = ConnectPending | ConnectResolved | ConnectRejected thrown

text \<open>
  \<open>hs_handshaking\<close>: the timer and the listeners of \<open>abort\<close>, \<open>open\<close> and
  \<open>unexpected-response\<close> are in place; \<open>hs_listening\<close>: those of \<open>message\<close> are;
  \<open>hs_on_error\<close> and \<open>hs_on_close\<close>: the two \<open>once\<close> listeners are. \<open>hs_delivered\<close>
  records the calls of the handlers, \<open>hs_unhandled\<close> an \<open>error\<close> event without a listener,
  which ends the process.
\<close>

record handshake =
  hs_socket :: socket
  hs_settled :: bool
  hs_authenticated :: bool
  hs_activated :: bool
  hs_result :: connect_result
  hs_bufferedEvents :: "signaling_event list"
  hs_bufferedBytes :: nat
  hs_handshaking :: bool
  hs_listening :: bool
  hs_on_error :: bool
  hs_on_close :: bool
  hs_delivered :: "signaling_event list"
  hs_unhandled :: bool

definition new_handshake :: handshake where
  "new_handshake = \<lparr>hs_socket = \<lparr>readyState = CONNECTING, bufferedAmount = 0, actions = []\<rparr>,
     hs_settled = False, hs_authenticated = False, hs_activated = False, hs_result = ConnectPending,
     hs_bufferedEvents = [], hs_bufferedBytes = 0, hs_handshaking = True, hs_listening = True,
     hs_on_error = True, hs_on_close = True, hs_delivered = [], hs_unhandled = False\<rparr>"

text \<open>\<open>connect\<close> up to the listeners: what it throws at once, or the state it waits in.\<close>

definition connect_start :: "url_parser \<Rightarrow> runtime_resource \<Rightarrow> bool \<Rightarrow> thrown + handshake" where
  "connect_start parse runtime abort_requested =
     bind_result (validateTarget parse runtime) (\<lambda>_.
       if abort_requested then Inl signalingUnavailable else Inr new_handshake)"

subsection \<open>Callbacks\<close>

definition cleanupHandshake :: "handshake \<Rightarrow> handshake" where
  "cleanupHandshake h = h\<lparr>hs_handshaking := False\<rparr>"

definition handshake_fail :: "handshake \<Rightarrow> handshake" where
  "handshake_fail h =
     (if hs_settled h then h
      else (cleanupHandshake (h\<lparr>hs_settled := True\<rparr>))
        \<lparr>hs_listening := False, hs_on_error := False, hs_on_close := False,
         hs_socket := socket_terminate (hs_socket h), hs_result := ConnectRejected signalingUnavailable\<rparr>)"

definition secret_frame :: "string \<Rightarrow> raw_data" where
  "secret_frame secret = Bytes (utf8 (json_stringify (JObj [(''type'', JStr ''authenticate''), (''secret'', JStr secret)])))"

definition hs_onOpen :: "string \<Rightarrow> handshake \<Rightarrow> handshake" where
  "hs_onOpen secret h = h\<lparr>hs_socket := socket_send (secret_frame secret) False (hs_socket h)\<rparr>"

definition hs_deliver :: "signaling_event \<Rightarrow> handshake \<Rightarrow> handshake" where
  "hs_deliver e h = h\<lparr>hs_delivered := hs_delivered h @ [e]\<rparr>"

definition hs_push :: "signaling_event \<Rightarrow> handshake \<Rightarrow> handshake" where
  "hs_push e h = h\<lparr>hs_bufferedEvents := hs_bufferedEvents h @ [e]\<rparr>"

definition hs_onMessage ::
  "connector \<Rightarrow> (nat list \<Rightarrow> json option) \<Rightarrow> raw_data \<Rightarrow> bool \<Rightarrow> handshake \<Rightarrow> handshake" where
  "hs_onMessage cfg json_parse data isBinary h =
     (if \<not> hs_authenticated h then
        (if isBinary \<or> \<not> isAuthenticatedFrame json_parse data then handshake_fail h
         else if hs_settled h then h
         else (cleanupHandshake h)\<lparr>hs_authenticated := True, hs_settled := True, hs_result := ConnectResolved\<rparr>)
      else if hs_activated h then hs_deliver (MessageEvent data isBinary) h
      else
        let payload = rawDataToBuffer data in
        if length (hs_bufferedEvents h) \<ge> 16
          \<or> int (hs_bufferedBytes h + length payload) > maxPayloadBytes cfg * 4
        then (hs_push ErrorEvent h)\<lparr>hs_socket := socket_terminate (hs_socket h)\<rparr>
        else (hs_push (MessageEvent (Bytes payload) isBinary) h)
               \<lparr>hs_bufferedBytes := hs_bufferedBytes h + length payload\<rparr>)"

definition hs_onError :: "handshake \<Rightarrow> handshake" where
  "hs_onError h =
     (if \<not> hs_authenticated h then handshake_fail h
      else if hs_activated h then hs_deliver ErrorEvent h else hs_push ErrorEvent h)"

definition hs_onClose :: "handshake \<Rightarrow> handshake" where
  "hs_onClose h =
     (if \<not> hs_authenticated h then handshake_fail h
      else if hs_activated h then hs_deliver CloseEvent h else hs_push CloseEvent h)"

text \<open>\<open>activate\<close> of the connection that \<open>connect\<close> resolves to.\<close>

definition hs_activate :: "handshake \<Rightarrow> thrown + handshake" where
  "hs_activate h =
     (if hs_activated h then Inl (PlainError ''signaling connection is already active'')
      else Inr (h\<lparr>hs_activated := True, hs_delivered := hs_delivered h @ hs_bufferedEvents h,
                  hs_bufferedEvents := [], hs_bufferedBytes := 0\<rparr>))"

text \<open>
  The events of one connection. \<open>HSendFailed\<close> is the callback of \<open>send\<close> with an error;
  \<open>HActivate\<close> is the gateway's call, which it can only make once \<open>connect\<close> has resolved.
\<close>

datatype handshake_input =
    HOpen | HMessage raw_data bool | HError | HClose | HTimeout | HAbort | HUnexpectedResponse
  | HSendFailed | HActivate

fun handshake_event ::
  "connector \<Rightarrow> (nat list \<Rightarrow> json option) \<Rightarrow> string \<Rightarrow> handshake_input \<Rightarrow> handshake \<Rightarrow> handshake" where
  "handshake_event cfg json_parse secret HOpen h =
     (let h1 = h\<lparr>hs_socket := (hs_socket h)\<lparr>readyState := OPEN\<rparr>\<rparr> in
      if hs_handshaking h \<and> readyState (hs_socket h) = CONNECTING then hs_onOpen secret h1 else h)"
| "handshake_event cfg json_parse secret (HMessage data isBinary) h =
     (if hs_listening h then hs_onMessage cfg json_parse data isBinary h else h)"
| "handshake_event cfg json_parse secret HError h =
     (if hs_on_error h then hs_onError (h\<lparr>hs_on_error := False\<rparr>) else h\<lparr>hs_unhandled := True\<rparr>)"
| "handshake_event cfg json_parse secret HClose h =
     (if hs_on_close h then hs_onClose (h\<lparr>hs_on_close := False\<rparr>) else h)"
| "handshake_event cfg json_parse secret HTimeout h = (if hs_handshaking h then handshake_fail h else h)"
| "handshake_event cfg json_parse secret HAbort h = (if hs_handshaking h then handshake_fail h else h)"
| "handshake_event cfg json_parse secret HUnexpectedResponse h = (if hs_handshaking h then handshake_fail h else h)"
| "handshake_event cfg json_parse secret HSendFailed h = handshake_fail h"
| "handshake_event cfg json_parse secret HActivate h =
     (if hs_result h = ConnectResolved then (case hs_activate h of Inl _ \<Rightarrow> h | Inr h' \<Rightarrow> h') else h)"

definition handshake_run ::
  "connector \<Rightarrow> (nat list \<Rightarrow> json option) \<Rightarrow> string \<Rightarrow> handshake_input list \<Rightarrow> handshake \<Rightarrow> handshake" where
  "handshake_run cfg json_parse secret inputs h = foldl (\<lambda>h i. handshake_event cfg json_parse secret i h) h inputs"

subsection \<open>Invariant\<close>

definition is_message :: "signaling_event \<Rightarrow> bool" where
  "is_message e = (case e of MessageEvent _ _ \<Rightarrow> True | _ \<Rightarrow> False)"

fun event_bytes :: "signaling_event \<Rightarrow> nat" where
  "event_bytes (MessageEvent d _) = rawDataByteLength d"
| "event_bytes _ = 0"

text \<open>Settled exactly once, in a state that fits the result; bounded buffering; one secret sent.\<close>

definition handshake_inv :: "connector \<Rightarrow> string \<Rightarrow> handshake \<Rightarrow> bool" where
  "handshake_inv cfg secret h \<longleftrightarrow>
     (case hs_result h of
        ConnectPending \<Rightarrow> \<not> hs_settled h \<and> \<not> hs_authenticated h \<and> hs_handshaking h \<and> hs_listening h
      | ConnectResolved \<Rightarrow> hs_settled h \<and> hs_authenticated h \<and> \<not> hs_handshaking h \<and> hs_listening h
      | ConnectRejected e \<Rightarrow> e = signalingUnavailable \<and> hs_settled h \<and> \<not> hs_authenticated h \<and> \<not> hs_handshaking h
          \<and> \<not> hs_listening h \<and> \<not> hs_on_error h \<and> \<not> hs_on_close h
          \<and> readyState (hs_socket h) \<in> {CLOSING, CLOSED})
     \<and> (hs_authenticated h \<or> \<not> hs_activated h \<and> hs_bufferedEvents h = [] \<and> hs_delivered h = [] \<and> hs_bufferedBytes h = 0)
     \<and> (hs_activated h \<longrightarrow> hs_bufferedEvents h = []) \<and> (\<not> hs_activated h \<longrightarrow> hs_delivered h = [])
     \<and> length (filter is_message (hs_bufferedEvents h)) \<le> 16
     \<and> sum_list (map event_bytes (hs_bufferedEvents h)) = hs_bufferedBytes h
     \<and> int (hs_bufferedBytes h) \<le> maxPayloadBytes cfg * 4
     \<and> (\<exists>n \<le> 1. frames (hs_socket h) = replicate n (rawDataToBuffer (secret_frame secret), False))
     \<and> (readyState (hs_socket h) = CONNECTING \<longrightarrow> frames (hs_socket h) = [])"

lemma event_bytes_copy [simp]: "event_bytes (MessageEvent (Bytes bs) b) = length bs"
  by simp

lemma inv_new: "0 < maxPayloadBytes cfg \<Longrightarrow> handshake_inv cfg secret new_handshake"
  by (auto simp: handshake_inv_def new_handshake_def frames_def map_filter_simps)

lemma inv_fail: "handshake_inv cfg secret h \<Longrightarrow> handshake_inv cfg secret (handshake_fail h)"
  by (cases "hs_result h")
    (auto simp: handshake_inv_def handshake_fail_def cleanupHandshake_def socket_simps)

lemma inv_frame:
  assumes inv: "handshake_inv cfg secret h"
    and same: "hs_socket h' = hs_socket h" "hs_settled h' = hs_settled h" "hs_authenticated h' = hs_authenticated h"
      "hs_activated h' = hs_activated h" "hs_result h' = hs_result h" "hs_bufferedEvents h' = hs_bufferedEvents h"
      "hs_bufferedBytes h' = hs_bufferedBytes h" "hs_handshaking h' = hs_handshaking h" "hs_listening h' = hs_listening h"
      "hs_delivered h' = hs_delivered h"
    and off: "hs_on_error h' \<longrightarrow> hs_on_error h" "hs_on_close h' \<longrightarrow> hs_on_close h"
  shows "handshake_inv cfg secret h'"
  using inv off unfolding handshake_inv_def same by (auto split: connect_result.splits)

lemma inv_deliver:
  assumes inv: "handshake_inv cfg secret h" and on: "hs_activated h"
  shows "handshake_inv cfg secret (hs_deliver e h)"
  using inv on by (auto simp: handshake_inv_def hs_deliver_def split: connect_result.splits)

lemma inv_push:
  assumes inv: "handshake_inv cfg secret h" and e: "hs_authenticated h" "\<not> hs_activated h" "\<not> is_message e" "event_bytes e = 0"
  shows "handshake_inv cfg secret (hs_push e h)"
  using inv e by (auto simp: handshake_inv_def hs_push_def split: connect_result.splits)

lemma inv_push_message:
  assumes inv: "handshake_inv cfg secret h" and on: "hs_authenticated h" "\<not> hs_activated h"
    and room: "length (hs_bufferedEvents h) < 16" "int (hs_bufferedBytes h + length bs) \<le> maxPayloadBytes cfg * 4"
  shows "handshake_inv cfg secret ((hs_push (MessageEvent (Bytes bs) b) h)\<lparr>hs_bufferedBytes := hs_bufferedBytes h + length bs\<rparr>)"
proof -
  have "length (filter is_message (hs_bufferedEvents h)) < 16"
    using room(1) le_less_trans [OF length_filter_le] by blast
  with inv on room(2) show ?thesis
    by (auto simp: handshake_inv_def hs_push_def is_message_def split: connect_result.splits)
qed

lemma inv_terminate:
  "handshake_inv cfg secret h \<Longrightarrow> handshake_inv cfg secret (h\<lparr>hs_socket := socket_terminate (hs_socket h)\<rparr>)"
  by (auto simp: handshake_inv_def socket_simps split: connect_result.splits)

lemma inv_onMessage:
  assumes inv: "handshake_inv cfg secret h" and l: "hs_listening h"
  shows "handshake_inv cfg secret (hs_onMessage cfg json_parse data isBinary h)"
proof (cases "hs_authenticated h")
  case False
  show ?thesis
  proof (cases "isBinary \<or> \<not> isAuthenticatedFrame json_parse data")
    case True
    with False inv_fail [OF inv] show ?thesis by (simp add: hs_onMessage_def)
  next
    case frame: False
    then show ?thesis using False inv l
      by (cases "hs_result h") (auto simp: hs_onMessage_def handshake_inv_def cleanupHandshake_def)
  qed
next
  case True
  have "handshake_inv cfg secret ((hs_push ErrorEvent h)\<lparr>hs_socket := socket_terminate (hs_socket h)\<rparr>)" if "\<not> hs_activated h"
    using inv_terminate [OF inv_push [OF inv True that]] by (simp add: hs_push_def is_message_def)
  with True inv_deliver [OF inv] inv_push_message [OF inv True] show ?thesis
    by (auto simp: hs_onMessage_def Let_def)
qed

lemma inv_activate:
  assumes inv: "handshake_inv cfg secret h" and resolved: "hs_result h = ConnectResolved" and a: "hs_activate h = Inr h'"
  shows "handshake_inv cfg secret h'"
proof -
  have "0 \<le> int (hs_bufferedBytes h)" by simp
  also have "\<dots> \<le> maxPayloadBytes cfg * 4" using inv by (simp add: handshake_inv_def)
  finally show ?thesis
    using inv resolved a by (auto simp: handshake_inv_def hs_activate_def split: if_splits)
qed

lemma inv_open:
  assumes inv: "handshake_inv cfg secret h"
  shows "handshake_inv cfg secret (handshake_event cfg json_parse secret HOpen h)"
proof (cases "hs_handshaking h \<and> readyState (hs_socket h) = CONNECTING")
  case True
  then have "frames (hs_socket h) = []" using inv by (simp add: handshake_inv_def)
  then have "\<exists>n \<le> 1. frames (hs_socket (handshake_event cfg json_parse secret HOpen h))
      = replicate n (rawDataToBuffer (secret_frame secret), False)"
    using True by (intro exI [of _ 1]) (simp add: hs_onOpen_def socket_send_def frames_def map_filter_append map_filter_simps)
  with inv True show ?thesis
    by (cases "hs_result h") (auto simp: handshake_inv_def hs_onOpen_def socket_send_def)
qed (use inv in auto)

lemma inv_event:
  assumes inv: "handshake_inv cfg secret h"
  shows "handshake_inv cfg secret (handshake_event cfg json_parse secret i h)"
proof (cases i)
  case HError
  let ?h = "h\<lparr>hs_on_error := False\<rparr>"
  have "handshake_inv cfg secret ?h" by (rule inv_frame [OF inv]) simp_all
  moreover have "handshake_inv cfg secret (h\<lparr>hs_unhandled := True\<rparr>)" by (rule inv_frame [OF inv]) simp_all
  ultimately show ?thesis
    using HError inv_fail [of cfg secret ?h] inv_deliver [of cfg secret ?h] inv_push [of cfg secret ?h ErrorEvent]
    by (simp add: hs_onError_def is_message_def)
next
  case HClose
  let ?h = "h\<lparr>hs_on_close := False\<rparr>"
  have "handshake_inv cfg secret ?h" by (rule inv_frame [OF inv]) simp_all
  then show ?thesis
    using inv HClose inv_fail [of cfg secret ?h] inv_deliver [of cfg secret ?h] inv_push [of cfg secret ?h CloseEvent]
    by (simp add: hs_onClose_def is_message_def)
next
  case HActivate
  with inv show ?thesis by (auto split: sum.splits intro: inv_activate)
qed (use inv inv_fail inv_onMessage inv_open in \<open>auto simp del: handshake_event.simps(1)\<close>)

lemma inv_run: "handshake_inv cfg secret h \<Longrightarrow> handshake_inv cfg secret (handshake_run cfg json_parse secret is h)"
  by (induction "is" arbitrary: h) (auto simp: handshake_run_def intro: inv_event)

subsection \<open>Properties\<close>

lemma settled_event:
  "hs_settled h \<Longrightarrow> hs_settled (handshake_event cfg json_parse secret i h)
     \<and> hs_result (handshake_event cfg json_parse secret i h) = hs_result h"
  by (cases i)
    (auto simp: hs_onOpen_def hs_onMessage_def hs_onError_def hs_onClose_def hs_deliver_def hs_push_def hs_activate_def
      handshake_fail_def Let_def split: sum.splits)

lemma settled_run:
  "hs_settled h \<Longrightarrow> hs_result (handshake_run cfg json_parse secret is h) = hs_result h"
  using settled_event by (induction "is" arbitrary: h) (auto simp: handshake_run_def)

lemma handshake_run_append:
  "handshake_run cfg jp secret (xs @ ys) h = handshake_run cfg jp secret ys (handshake_run cfg jp secret xs h)"
  by (simp add: handshake_run_def)

lemma handshake_run_Cons:
  "handshake_run cfg jp secret (x # xs) h = handshake_run cfg jp secret xs (handshake_event cfg jp secret x h)"
  "handshake_run cfg jp secret [] h = h"
  by (simp_all add: handshake_run_def)

lemma new_connector_Inr: "new_connector t p = Inr cfg \<Longrightarrow> 0 < maxPayloadBytes cfg"
  by (auto simp: new_connector_def bind_result_Inr positiveInteger_Inr)

text \<open>
  C18. Whatever happens to an upstream connection, in every order of its events: connecting is
  settled at most once and for good; all that was ever written to the socket is the one frame
  with the secret, and only after the socket opened; a rejected attempt has terminated its socket
  and never calls a handler; and before activation at most 16 messages of together four times the
  maximum payload are held.
\<close>

theorem connector_settles_once_within_bounds:
  assumes cfg: "new_connector timeout payload = Inr cfg"
  shows "let h = handshake_run cfg json_parse secret inputs new_handshake in
    (hs_result h \<noteq> ConnectPending \<longrightarrow> (\<forall>more. hs_result (handshake_run cfg json_parse secret more h) = hs_result h))
    \<and> frames (hs_socket h) \<in> {[], [(rawDataToBuffer (secret_frame secret), False)]}
    \<and> (\<forall>e. hs_result h = ConnectRejected e \<longrightarrow>
         e = signalingUnavailable \<and> readyState (hs_socket h) \<in> {CLOSING, CLOSED} \<and> hs_delivered h = [])
    \<and> length (filter is_message (hs_bufferedEvents h)) \<le> 16
    \<and> int (sum_list (map event_bytes (hs_bufferedEvents h))) \<le> maxPayloadBytes cfg * 4"
proof -
  define h where "h = handshake_run cfg json_parse secret inputs new_handshake"
  have inv: "handshake_inv cfg secret h"
    unfolding h_def by (rule inv_run [OF inv_new [OF new_connector_Inr [OF cfg]]])
  have sent: "\<exists>n \<le> 1. frames (hs_socket h) = replicate n (rawDataToBuffer (secret_frame secret), False)"
    using inv by (simp add: handshake_inv_def)
  then have "frames (hs_socket h) \<in> {[], [(rawDataToBuffer (secret_frame secret), False)]}"
    by (auto simp: le_Suc_eq)
  moreover have "hs_settled h" if "hs_result h \<noteq> ConnectPending"
    using inv that by (auto simp: handshake_inv_def split: connect_result.splits)
  ultimately show ?thesis using inv settled_run [of h] unfolding h_def [symmetric] Let_def
    by (auto simp: handshake_inv_def split: connect_result.splits)
qed

definition ex_connector :: connector where
  "ex_connector = \<lparr>connectTimeoutMs = 3000, maxPayloadBytes = 4\<rparr>"

text \<open>A parser that knows one text: the bytes \<open>[1]\<close> stand for the authenticated frame.\<close>

definition ex_frame_json :: "nat list \<Rightarrow> json option" where
  "ex_frame_json bs = (if bs = [1] then Some (JObj [(''type'', JStr ''authenticated'')]) else None)"

theorem connector_settles_once_within_bounds_witness:
  "new_connector (Some (Integer 3000)) (Some (Integer 4)) = Inr ex_connector
   \<and> hs_result (handshake_run ex_connector ex_frame_json ''s'' [HOpen, HMessage (Bytes [2]) False] new_handshake)
       = ConnectRejected signalingUnavailable
   \<and> (\<forall>more. hs_result (handshake_run ex_connector ex_frame_json ''s'' more
         (handshake_run ex_connector ex_frame_json ''s'' [HOpen, HMessage (Bytes [2]) False] new_handshake))
       = ConnectRejected signalingUnavailable)"
proof -
  have cfg: "new_connector (Some (Integer 3000)) (Some (Integer 4)) = Inr ex_connector"
    by (simp add: new_connector_def or_else_def positiveInteger_def max_safe_integer_def ex_connector_def)
  have r: "hs_result (handshake_run ex_connector ex_frame_json ''s'' [HOpen, HMessage (Bytes [2]) False] new_handshake)
       = ConnectRejected signalingUnavailable"
    by (simp add: handshake_run_Cons new_handshake_def hs_onOpen_def hs_onMessage_def isAuthenticatedFrame_def
      ex_frame_json_def handshake_fail_def cleanupHandshake_def)
  from cfg r connector_settles_once_within_bounds [OF cfg, where json_parse = ex_frame_json and secret = "''s''"
      and inputs = "[HOpen, HMessage (Bytes [2]) False]"] show ?thesis by (simp add: Let_def)
qed

fun event_payload :: "signaling_event \<Rightarrow> (nat list \<times> bool) option" where
  "event_payload (MessageEvent d b) = Some (rawDataToBuffer d, b)"
| "event_payload _ = None"

lemma run_activated:
  assumes "hs_authenticated h" "hs_activated h" "hs_listening h"
  shows "hs_delivered (handshake_run cfg jp secret (map (\<lambda>(d, b). HMessage d b) ms) h)
    = hs_delivered h @ map (\<lambda>(d, b). MessageEvent d b) ms"
  using assms
  by (induction ms arbitrary: h) (auto simp: handshake_run_Cons hs_onMessage_def hs_deliver_def)

lemma run_buffering:
  assumes "hs_authenticated h" "\<not> hs_activated h" "hs_listening h" "hs_result h = ConnectResolved"
    and "length (hs_bufferedEvents h) + length ms \<le> 16"
    and "int (hs_bufferedBytes h + sum_list (map (\<lambda>(d, b). rawDataByteLength d) ms)) \<le> maxPayloadBytes cfg * 4"
  shows "\<exists>h'. handshake_run cfg jp secret (map (\<lambda>(d, b). HMessage d b) ms) h = h'
    \<and> hs_authenticated h' \<and> \<not> hs_activated h' \<and> hs_listening h' \<and> hs_result h' = ConnectResolved
    \<and> hs_delivered h' = hs_delivered h
    \<and> hs_bufferedEvents h' = hs_bufferedEvents h @ map (\<lambda>(d, b). MessageEvent (Bytes (rawDataToBuffer d)) b) ms"
  using assms
proof (induction ms arbitrary: h)
  case Nil
  then show ?case by (simp add: handshake_run_Cons)
next
  case (Cons m ms)
  obtain d b where m: "m = (d, b)" by fastforce
  let ?h = "(hs_push (MessageEvent (Bytes (rawDataToBuffer d)) b) h)\<lparr>hs_bufferedBytes := hs_bufferedBytes h + rawDataByteLength d\<rparr>"
  have "handshake_event cfg jp secret (HMessage d b) h = ?h"
    using Cons.prems m by (simp add: hs_onMessage_def Let_def rawDataByteLength_buffer)
  moreover have "\<exists>h'. handshake_run cfg jp secret (map (\<lambda>(d, b). HMessage d b) ms) ?h = h'
    \<and> hs_authenticated h' \<and> \<not> hs_activated h' \<and> hs_listening h' \<and> hs_result h' = ConnectResolved
    \<and> hs_delivered h' = hs_delivered ?h
    \<and> hs_bufferedEvents h' = hs_bufferedEvents ?h @ map (\<lambda>(d, b). MessageEvent (Bytes (rawDataToBuffer d)) b) ms"
    using Cons.prems m by (intro Cons.IH) (simp_all add: hs_push_def)
  ultimately show ?case using m by (simp add: handshake_run_Cons hs_push_def)
qed

lemma run_authenticated:
  assumes "isAuthenticatedFrame jp auth"
  shows "\<exists>h. handshake_run cfg jp secret [HOpen, HMessage auth False] new_handshake = h
    \<and> hs_authenticated h \<and> \<not> hs_activated h \<and> hs_listening h \<and> hs_result h = ConnectResolved
    \<and> hs_delivered h = [] \<and> hs_bufferedEvents h = [] \<and> hs_bufferedBytes h = 0"
  using assms by (simp add: handshake_run_Cons new_handshake_def hs_onOpen_def hs_onMessage_def cleanupHandshake_def)

text \<open>
  With few enough frames before the activation, and none of the other events, every frame is handed
  over at the activation or after it.
\<close>

lemma handoff_within_bounds:
  assumes auth: "isAuthenticatedFrame json_parse auth"
    and room: "length before \<le> 16" "int (sum_list (map (\<lambda>(d, b). rawDataByteLength d) before)) \<le> maxPayloadBytes cfg * 4"
  shows "map event_payload (hs_delivered (handshake_run cfg json_parse secret
      (HOpen # HMessage auth False # map (\<lambda>(d, b). HMessage d b) before @ HActivate # map (\<lambda>(d, b). HMessage d b) after)
      new_handshake))
    = map (\<lambda>(d, b). Some (rawDataToBuffer d, b)) (before @ after)"
proof -
  let ?msgs = "map (\<lambda>(d, b). HMessage d b)"
  obtain h1 where h1: "handshake_run cfg json_parse secret [HOpen, HMessage auth False] new_handshake = h1"
    "hs_authenticated h1" "\<not> hs_activated h1" "hs_listening h1" "hs_result h1 = ConnectResolved" "hs_delivered h1 = []"
    "hs_bufferedEvents h1 = []" "hs_bufferedBytes h1 = 0" using run_authenticated [OF auth] by blast
  obtain h2 where h2: "handshake_run cfg json_parse secret (?msgs before) h1 = h2"
    "hs_authenticated h2" "\<not> hs_activated h2" "hs_listening h2" "hs_result h2 = ConnectResolved" "hs_delivered h2 = []"
    "hs_bufferedEvents h2 = map (\<lambda>(d, b). MessageEvent (Bytes (rawDataToBuffer d)) b) before"
    using run_buffering [of h1 before cfg json_parse secret] h1 room by auto
  have activate_once: "handshake_run cfg json_parse secret [HActivate] x = handshake_event cfg json_parse secret HActivate x" for x
    by (simp only: handshake_run_Cons)
  define h3 where "h3 = handshake_event cfg json_parse secret HActivate h2"
  then have h3: "hs_authenticated h3" "hs_activated h3" "hs_listening h3"
    "hs_delivered h3 = map (\<lambda>(d, b). MessageEvent (Bytes (rawDataToBuffer d)) b) before"
    using h2 by (simp_all add: hs_activate_def)
  have "handshake_run cfg json_parse secret ([HOpen, HMessage auth False] @ ?msgs before @ [HActivate] @ ?msgs after) new_handshake
      = handshake_run cfg json_parse secret (?msgs after) h3"
    by (simp only: handshake_run_append h1(1) h2(1) h3_def activate_once)
  then have "handshake_run cfg json_parse secret (HOpen # HMessage auth False # ?msgs before @ HActivate # ?msgs after) new_handshake
      = handshake_run cfg json_parse secret (?msgs after) h3" by (simp only: append_Cons append_Nil)
  moreover have "map event_payload (map (\<lambda>(d, b). MessageEvent (Bytes (rawDataToBuffer d)) b) xs)
      = map (\<lambda>(d, b). Some (rawDataToBuffer d, b)) xs"
    "map event_payload (map (\<lambda>(d, b). MessageEvent d b) xs) = map (\<lambda>(d, b). Some (rawDataToBuffer d, b)) xs" for xs
    by (induction xs) auto
  ultimately show ?thesis using run_activated [OF h3(1-3), of cfg json_parse secret after] by (simp add: h3(4))
qed

subsection \<open>Frames handed over under every order of events\<close>

fun input_frame :: "handshake_input \<Rightarrow> (nat list \<times> bool) option" where
  "input_frame (HMessage d b) = Some (rawDataToBuffer d, b)"
| "input_frame _ = None"

text \<open>The frames that a sequence of events receives, and those among the events handed to the gateway.\<close>

definition received :: "handshake_input list \<Rightarrow> (nat list \<times> bool) list" where
  "received inputs = List.map_filter input_frame inputs"

definition payloads :: "signaling_event list \<Rightarrow> (nat list \<times> bool) list" where
  "payloads events = List.map_filter event_payload events"




lemma received_one [simp]:
  "received [HMessage d b] = [(rawDataToBuffer d, b)]" "input_frame i = None \<Longrightarrow> received [i] = []"
  by (simp_all add: received_def map_filter_simps)


lemma payloads_one [simp]:
  "payloads [] = []" "payloads [MessageEvent d b] = [(rawDataToBuffer d, b)]" "payloads [ErrorEvent] = []" "payloads [CloseEvent] = []"
  by (simp_all add: payloads_def map_filter_simps)












text \<open>
  After \<open>fail\<close> the socket has no \<open>error\<close> listener, yet \<open>fail\<close> terminates it. When the
  package reports the termination of a connecting socket as an \<open>error\<close> event, nobody handles it.
\<close>

lemma aborted_connect_leaves_error_unhandled:
  "hs_unhandled (handshake_run cfg json_parse secret [HAbort, HError] new_handshake)
   \<and> actions (hs_socket (handshake_run cfg json_parse secret [HAbort] new_handshake)) = [TerminateSocket]"
  by (simp add: handshake_run_Cons new_handshake_def handshake_fail_def cleanupHandshake_def socket_terminate_def)

end
