(* ===== verification/Gateway.thy ===== *)
theory Gateway
  imports Registry Connector
begin

text \<open>
  Class \<open>SignalingGateway\<close> of \<open>src/signaling/signaling-gateway.ts\<close>. The local
  variables of one call of \<open>handle\<close> are a \<open>relay\<close>; the gateway is all relays with the
  registry they share. A relay's closers are known by the relay and the attempt that registered
  them. \<open>connectUpstream\<close> is cut at its two \<open>await\<close>s; an attempt that waits in it is kept
  in \<open>rl_attempts\<close>. \<open>gateway_step\<close> interleaves all callbacks in every order.
\<close>

subsection \<open>Configuration and frames\<close>

record gateway_options =
  authenticationTimeoutMs :: int
  maximumBufferedBytes :: int

definition new_gateway_options :: "number option \<Rightarrow> number option \<Rightarrow> thrown + gateway_options" where
  "new_gateway_options timeout limit =
     bind_result (positiveInteger (or_else timeout (Integer 5000)) ''authentication timeout'') (\<lambda>t.
     bind_result (positiveInteger (or_else limit (Integer (1024 * 1024))) ''maximum buffered bytes'') (\<lambda>b.
     Inr \<lparr>authenticationTimeoutMs = t, maximumBufferedBytes = b\<rparr>))"

definition parseAuthenticationFrame :: "(nat list \<Rightarrow> json option) \<Rightarrow> raw_data \<Rightarrow> bool \<Rightarrow> string option" where
  "parseAuthenticationFrame json_parse data isBinary =
     (if isBinary then None
      else case json_parse (rawDataToBuffer data) of
          None \<Rightarrow> None
        | Some v \<Rightarrow>
            if \<not> json_object v \<or> sorted_keys v \<noteq> ''token,type'' \<or> json_field v ''type'' \<noteq> Some (JStr ''authenticate'')
            then None
            else (case string_field v ''token'' of
                None \<Rightarrow> None
              | Some token \<Rightarrow> if is_credential token then Some token else None))"

definition ready_frame :: "string \<Rightarrow> raw_data" where
  "ready_frame sessionId =
     Bytes (utf8 (json_stringify (JObj [(''type'', JStr ''ready''), (''sessionId'', JStr sessionId)])))"

subsection \<open>State\<close>

datatype relay_phase = RelayAuthenticating | RelayConnecting | RelayRelaying | RelayClosed

text \<open>Where an attempt waits; a \<open>connect\<close> was given an abort signal that had fired or not.\<close>

datatype attempt = Authorizing string | ConnectingTo signaling_authorization bool

type_synonym closer = "nat \<times> nat"

record relay =
  rl_phase :: relay_phase
  rl_client :: socket
  rl_upstream :: "nat option"
  rl_upstreams :: "nat \<rightharpoonup> socket"
  rl_unregister :: "closer registration option"
  rl_aborted :: bool
  rl_timer :: bool
  rl_attempts :: "nat \<rightharpoonup> attempt"
  rl_next :: nat
  rl_dropped :: "socket list"

record gateway =
  relays :: "nat \<rightharpoonup> relay"
  registry :: "closer registry"

definition new_relay :: "socket \<Rightarrow> relay" where
  "new_relay client = \<lparr>rl_phase = RelayAuthenticating, rl_client = client, rl_upstream = None,
     rl_upstreams = Map.empty, rl_unregister = None, rl_aborted = False, rl_timer = True,
     rl_attempts = Map.empty, rl_next = 0, rl_dropped = []\<rparr>"

definition new_gateway :: gateway where
  "new_gateway = \<lparr>relays = Map.empty, registry = new_registry\<rparr>"

subsection \<open>shutdown and forward\<close>

definition close_relay :: "nat \<Rightarrow> string \<Rightarrow> relay \<Rightarrow> relay" where
  "close_relay n reason r =
     (let r1 = r\<lparr>rl_phase := RelayClosed, rl_timer := False, rl_aborted := True,
                rl_client := closeSocket n reason (rl_client r)\<rparr>
      in case rl_upstream r of
           None \<Rightarrow> r1
         | Some k \<Rightarrow> r1\<lparr>rl_upstreams := (rl_upstreams r)(k := map_option (closeSocket n reason) (rl_upstreams r k))\<rparr>)"

definition shutdown :: "nat \<Rightarrow> nat \<Rightarrow> string \<Rightarrow> gateway \<Rightarrow> gateway" where
  "shutdown i n reason g =
     (case relays g i of
        None \<Rightarrow> g
      | Some r \<Rightarrow>
          if rl_phase r = RelayClosed then g
          else g\<lparr>registry := (case rl_unregister r of None \<Rightarrow> registry g | Some h \<Rightarrow> unregister h (registry g)),
                 relays := (relays g)(i \<mapsto> close_relay n reason r)\<rparr>)"

datatype peer = ClientPeer | UpstreamPeer nat

definition peer_socket :: "peer \<Rightarrow> relay \<Rightarrow> socket option" where
  "peer_socket p r = (case p of ClientPeer \<Rightarrow> Some (rl_client r) | UpstreamPeer k \<Rightarrow> rl_upstreams r k)"

definition put_peer :: "peer \<Rightarrow> socket \<Rightarrow> relay \<Rightarrow> relay" where
  "put_peer p s r =
     (case p of ClientPeer \<Rightarrow> r\<lparr>rl_client := s\<rparr> | UpstreamPeer k \<Rightarrow> r\<lparr>rl_upstreams := (rl_upstreams r)(k \<mapsto> s)\<rparr>)"

definition forward :: "gateway_options \<Rightarrow> nat \<Rightarrow> peer \<Rightarrow> raw_data \<Rightarrow> bool \<Rightarrow> gateway \<Rightarrow> gateway" where
  "forward cfg i p data isBinary g =
     (case relays g i of
        None \<Rightarrow> g
      | Some r \<Rightarrow>
          (case peer_socket p r of
             None \<Rightarrow> g
           | Some s \<Rightarrow>
               if readyState s \<noteq> OPEN then shutdown i 1011 ''relay peer unavailable'' g
               else if int (bufferedAmount s + rawDataByteLength data) > maximumBufferedBytes cfg
               then shutdown i 1013 ''relay backpressure limit'' g
               else g\<lparr>relays := (relays g)(i \<mapsto> put_peer p (socket_send data isBinary s) r)\<rparr>))"

subsection \<open>Client events\<close>

text \<open>A valid first frame starts a call of \<open>connectUpstream\<close>, which waits for the authorisation.\<close>

definition client_message ::
  "gateway_options \<Rightarrow> (nat list \<Rightarrow> json option) \<Rightarrow> nat \<Rightarrow> raw_data \<Rightarrow> bool \<Rightarrow> gateway \<Rightarrow> gateway" where
  "client_message cfg json_parse i data isBinary g =
     (case relays g i of
        None \<Rightarrow> g
      | Some r \<Rightarrow>
          (case rl_phase r of
             RelayAuthenticating \<Rightarrow>
               (case parseAuthenticationFrame json_parse data isBinary of
                  None \<Rightarrow> shutdown i 1008 ''authentication failed'' g
                | Some token \<Rightarrow>
                    g\<lparr>relays := (relays g)(i \<mapsto>
                       r\<lparr>rl_attempts := (rl_attempts r)(rl_next r \<mapsto> Authorizing token), rl_next := Suc (rl_next r)\<rparr>)\<rparr>)
           | RelayConnecting \<Rightarrow> shutdown i 1008 ''wait for relay readiness'' g
           | RelayRelaying \<Rightarrow>
               (case rl_upstream r of None \<Rightarrow> g | Some k \<Rightarrow> forward cfg i (UpstreamPeer k) data isBinary g)
           | RelayClosed \<Rightarrow> g))"

definition client_close :: "nat \<Rightarrow> gateway \<Rightarrow> gateway" where
  "client_close i g = shutdown i 1000 ''client disconnected'' g"

definition client_error :: "nat \<Rightarrow> gateway \<Rightarrow> gateway" where
  "client_error i g = shutdown i 1011 ''client connection failed'' g"

definition authentication_timeout :: "nat \<Rightarrow> gateway \<Rightarrow> gateway" where
  "authentication_timeout i g = shutdown i 1008 ''authentication timeout'' g"

definition write_error :: "nat \<Rightarrow> gateway \<Rightarrow> gateway" where
  "write_error i g = shutdown i 1011 ''relay write failed'' g"

subsection \<open>connectUpstream\<close>

definition end_attempt :: "nat \<Rightarrow> nat \<Rightarrow> gateway \<Rightarrow> gateway" where
  "end_attempt i n g =
     (case relays g i of None \<Rightarrow> g
      | Some r \<Rightarrow> g\<lparr>relays := (relays g)(i \<mapsto> r\<lparr>rl_attempts := (rl_attempts r)(n := None)\<rparr>)\<rparr>)"

text \<open>From the answer of \<open>authorizeSignalingToken\<close> to the call of \<open>connect\<close>.\<close>

definition authorized :: "nat \<Rightarrow> nat \<Rightarrow> thrown + signaling_authorization \<Rightarrow> gateway \<Rightarrow> gateway" where
  "authorized i n result g =
     (case relays g i of
        None \<Rightarrow> g
      | Some r \<Rightarrow>
          (case result of
             Inl (Orchestrator _) \<Rightarrow> shutdown i 1008 ''authentication failed'' (end_attempt i n g)
           | Inl (PlainError _) \<Rightarrow> shutdown i 1011 ''authentication unavailable'' (end_attempt i n g)
           | Inr auth \<Rightarrow>
               (case register (auth_sessionId auth) (i, n) (registry g) of
                  (handle, registry') \<Rightarrow>
                    g\<lparr>registry := registry',
                      relays := (relays g)(i \<mapsto>
                        r\<lparr>rl_phase := RelayConnecting, rl_timer := False, rl_unregister := Some handle,
                          rl_attempts := (rl_attempts r)(n \<mapsto> ConnectingTo auth (rl_aborted r))\<rparr>)\<rparr>)))"

text \<open>The handlers that \<open>activate\<close> is given.\<close>

definition upstream_event :: "gateway_options \<Rightarrow> nat \<Rightarrow> signaling_event \<Rightarrow> gateway \<Rightarrow> gateway" where
  "upstream_event cfg i e g =
     (case e of
        MessageEvent data isBinary \<Rightarrow> forward cfg i ClientPeer data isBinary g
      | CloseEvent \<Rightarrow> shutdown i 1011 ''upstream closed'' g
      | ErrorEvent \<Rightarrow> shutdown i 1011 ''upstream failed'' g)"

text \<open>
  From the answer of \<open>connect\<close> to the end: the socket of the connection and the events it
  holds, which \<open>activate\<close> hands to the handlers.
\<close>

definition connected ::
  "gateway_options \<Rightarrow> nat \<Rightarrow> nat \<Rightarrow> string \<Rightarrow> thrown + socket \<times> signaling_event list \<Rightarrow> gateway \<Rightarrow> gateway" where
  "connected cfg i n sessionId result g0 =
     (let g = end_attempt i n g0 in
      case relays g i of
        None \<Rightarrow> g
      | Some r \<Rightarrow>
          (case result of
             Inl _ \<Rightarrow> shutdown i 1011 ''upstream unavailable'' g
           | Inr (s, buffered) \<Rightarrow>
               if rl_aborted r
               then g\<lparr>relays := (relays g)(i \<mapsto> r\<lparr>rl_dropped := socket_terminate s # rl_dropped r\<rparr>)\<rparr>
               else
                 let g1 = g\<lparr>relays := (relays g)(i \<mapsto>
                       r\<lparr>rl_upstream := Some n, rl_upstreams := (rl_upstreams r)(n \<mapsto> s), rl_phase := RelayRelaying\<rparr>)\<rparr>;
                     g2 = forward cfg i ClientPeer (ready_frame sessionId) False g1
                 in fold (upstream_event cfg i) buffered g2))"

subsection \<open>Revocation\<close>

text \<open>A registered closer shuts its relay down; \<open>revokeSignalingConnections\<close> is the registry's \<open>revoke\<close>.\<close>

definition run_closer :: "closer \<Rightarrow> gateway \<Rightarrow> gateway" where
  "run_closer c g = shutdown (fst c) 1008 ''session ended'' g"

definition gateway_revoke :: "string \<Rightarrow> gateway \<Rightarrow> gateway" where
  "gateway_revoke sessionId g = revoke registry (\<lambda>r g. g\<lparr>registry := r\<rparr>) run_closer sessionId g"

subsection \<open>All interleavings\<close>

text \<open>
  \<open>authorizes token auth\<close> says which authorisation the session service may answer for a token. A
  connector that is given an aborted signal rejects (for the program's connector: \<open>connect_aborted\<close>).
  The last rule is the network's doing: it drains and closes sockets.
\<close>

inductive gateway_step ::
  "gateway_options \<Rightarrow> (nat list \<Rightarrow> json option) \<Rightarrow> (string \<Rightarrow> signaling_authorization \<Rightarrow> bool) \<Rightarrow> gateway \<Rightarrow> gateway \<Rightarrow> bool"
  for cfg :: gateway_options and json_parse :: "nat list \<Rightarrow> json option"
    and authorizes :: "string \<Rightarrow> signaling_authorization \<Rightarrow> bool" where
  step_handle: "relays g i = None \<Longrightarrow> actions s = [] \<Longrightarrow> readyState s = OPEN \<Longrightarrow> bufferedAmount s = 0 \<Longrightarrow>
     gateway_step cfg json_parse authorizes g (g\<lparr>relays := (relays g)(i \<mapsto> new_relay s)\<rparr>)"
| step_message: "gateway_step cfg json_parse authorizes g (client_message cfg json_parse i data isBinary g)"
| step_close: "gateway_step cfg json_parse authorizes g (client_close i g)"
| step_error: "gateway_step cfg json_parse authorizes g (client_error i g)"
| step_timeout: "relays g i = Some r \<Longrightarrow> rl_timer r \<Longrightarrow>
     gateway_step cfg json_parse authorizes g (authentication_timeout i g)"
| step_write: "gateway_step cfg json_parse authorizes g (write_error i g)"
| step_authorized: "relays g i = Some r \<Longrightarrow> rl_attempts r n = Some (Authorizing token) \<Longrightarrow>
     (\<forall>auth. result = Inr auth \<longrightarrow> authorizes token auth) \<Longrightarrow>
     gateway_step cfg json_parse authorizes g (authorized i n result g)"
| step_connected: "relays g i = Some r \<Longrightarrow> rl_attempts r n = Some (ConnectingTo auth was_aborted) \<Longrightarrow>
     (was_aborted \<longrightarrow> isl result) \<Longrightarrow>
     gateway_step cfg json_parse authorizes g (connected cfg i n (auth_sessionId auth) result g)"
| step_upstream: "relays g i = Some r \<Longrightarrow> rl_upstreams r k \<noteq> None \<Longrightarrow>
     gateway_step cfg json_parse authorizes g (upstream_event cfg i e g)"
| step_revoke: "gateway_step cfg json_parse authorizes g (gateway_revoke sessionId g)"
| step_network: "relays g i = Some r \<Longrightarrow> peer_socket p r = Some s \<Longrightarrow> socket_later s t \<Longrightarrow>
     gateway_step cfg json_parse authorizes g (g\<lparr>relays := (relays g)(i \<mapsto> put_peer p t r)\<rparr>)"

inductive_cases gateway_stepE: "gateway_step cfg json_parse authorizes g h"

abbreviation gateway_reachable ::
  "gateway_options \<Rightarrow> (nat list \<Rightarrow> json option) \<Rightarrow> (string \<Rightarrow> signaling_authorization \<Rightarrow> bool) \<Rightarrow> gateway \<Rightarrow> bool" where
  "gateway_reachable cfg json_parse authorizes \<equiv>
     reachable (\<lambda>g. g = new_gateway) (gateway_step cfg json_parse authorizes)"

lemma connect_aborted: "isl (connect_start parse runtime True)"
  by (cases "validateTarget parse runtime") (simp_all add: connect_start_def)

end
