(* ===== verification/GatewayInvariant.thy ===== *)
theory GatewayInvariant
  imports Gateway
begin

text \<open>
  The invariant of the signaling gateway: what holds of every relay on its own
  (\<open>relay_ok\<close>), of a relay and the registry (\<open>enrolled\<close>), and that every step keeps it.
  Some parts hold only of a relay that made at most one attempt to connect.
\<close>

subsection \<open>The parts of the invariant\<close>

text \<open>\<open>due\<close>: the relay has just got its upstream and is about to send the ready frame.\<close>

definition greeted :: "(string \<Rightarrow> signaling_authorization \<Rightarrow> bool) \<Rightarrow> bool \<Rightarrow> relay \<Rightarrow> bool" where
  "greeted authorizes due r \<longleftrightarrow>
     (frames (rl_client r) = [] \<or> (\<exists>token auth. authorizes token auth
        \<and> hd (frames (rl_client r)) = (rawDataToBuffer (ready_frame (auth_sessionId auth)), False)))
     \<and> (frames (rl_client r) = [] \<longrightarrow> readyState (rl_client r) = OPEN \<longrightarrow> \<not> due \<longrightarrow> rl_upstreams r = Map.empty)"

definition phases_ok :: "relay \<Rightarrow> bool" where
  "phases_ok r \<longleftrightarrow>
     (rl_aborted r \<longrightarrow> rl_phase r \<in> {RelayClosed, RelayConnecting} \<and> readyState (rl_client r) \<noteq> OPEN)
     \<and> (rl_phase r = RelayClosed \<longrightarrow> rl_aborted r) \<and> (rl_phase r = RelayRelaying \<longrightarrow> rl_upstream r \<noteq> None)"

definition attempts_ok :: "(string \<Rightarrow> signaling_authorization \<Rightarrow> bool) \<Rightarrow> relay \<Rightarrow> bool" where
  "attempts_ok authorizes r \<longleftrightarrow>
     (\<forall>n a. rl_attempts r n = Some a \<longrightarrow> n < rl_next r \<and> rl_upstreams r n = None
        \<and> (\<forall>auth f. a = ConnectingTo auth f \<longrightarrow> (\<exists>token. authorizes token auth)))
     \<and> (\<forall>k s. rl_upstreams r k = Some s \<longrightarrow> k < rl_next r)
     \<and> (\<forall>k. rl_upstream r = Some k \<longrightarrow> rl_upstreams r k \<noteq> None)"

definition single_ok :: "relay \<Rightarrow> bool" where
  "single_ok r \<longleftrightarrow> (rl_next r \<le> 1 \<longrightarrow>
     (rl_phase r = RelayConnecting \<longrightarrow> (\<exists>auth. rl_attempts r 0 = Some (ConnectingTo auth (rl_aborted r))))
     \<and> (\<forall>k s. rl_upstreams r k = Some s \<longrightarrow> rl_upstream r = Some k
          \<and> (rl_aborted r \<longrightarrow> readyState s \<in> {CLOSING, CLOSED})))"

definition relay_ok :: "gateway_options \<Rightarrow> (string \<Rightarrow> signaling_authorization \<Rightarrow> bool) \<Rightarrow> bool \<Rightarrow> relay \<Rightarrow> bool" where
  "relay_ok cfg authorizes d r \<longleftrightarrow> greeted authorizes d r \<and> phases_ok r \<and> attempts_ok authorizes r \<and> single_ok r
     \<and> int (bufferedAmount (rl_client r)) \<le> maximumBufferedBytes cfg"

definition enrolled :: "nat \<Rightarrow> closer registry \<Rightarrow> relay \<Rightarrow> bool" where
  "enrolled i reg r \<longleftrightarrow>
     (\<forall>h. rl_unregister r = Some h \<longrightarrow> genuine h reg \<and> fst (reg_close h) = i)
     \<and> (\<forall>ref n. (i, n) \<in> set (set_members ref reg) \<longrightarrow> n < rl_next r \<and> (\<forall>t. rl_attempts r n \<noteq> Some (Authorizing t)))
     \<and> (rl_next r \<le> 1 \<longrightarrow> (\<forall>ref n. (i, n) \<in> set (set_members ref reg) \<longrightarrow>
          rl_phase r \<noteq> RelayClosed \<and> (\<exists>h. rl_unregister r = Some h \<and> reg_set h = ref \<and> reg_close h = (i, n))))"

definition gateway_inv :: "gateway_options \<Rightarrow> (string \<Rightarrow> signaling_authorization \<Rightarrow> bool) \<Rightarrow> nat set \<Rightarrow> gateway \<Rightarrow> bool" where
  "gateway_inv cfg authorizes X g \<longleftrightarrow> registry_inv (registry g)
     \<and> (\<forall>ref j n. (j, n) \<in> set (set_members ref (registry g)) \<longrightarrow> relays g j \<noteq> None)
     \<and> (\<forall>i r. relays g i = Some r \<longrightarrow> relay_ok cfg authorizes (i \<in> X) r \<and> enrolled i (registry g) r)"

lemmas relay_parts = greeted_def phases_ok_def attempts_ok_def single_ok_def

lemma gateway_invD:
  assumes "gateway_inv cfg authorizes X g" and "relays g i = Some r"
  shows "relay_ok cfg authorizes (i \<in> X) r" "enrolled i (registry g) r"
  using assms by (auto simp: gateway_inv_def)

lemma gateway_inv_update:
  assumes inv: "gateway_inv cfg authorizes X g" and r: "relay_ok cfg authorizes (i \<in> Y) r'" "enrolled i (registry g) r'"
    and Y: "insert i X = insert i Y"
  shows "gateway_inv cfg authorizes Y (g\<lparr>relays := (relays g)(i \<mapsto> r')\<rparr>)"
proof -
  have "relay_ok cfg authorizes (j \<in> Y) q" if "relays g j = Some q" "j \<noteq> i" for j q
  proof -
    have "(j \<in> Y) = (j \<in> X)" using Y that(2) by blast
    with gateway_invD(1) [OF inv that(1)] show ?thesis by (simp only:)
  qed
  with inv r show ?thesis by (auto simp: gateway_inv_def)
qed

lemma gateway_inv_drop:
  assumes inv: "gateway_inv cfg authorizes X g" and i: "\<And>r. relays g i = Some r \<Longrightarrow> relay_ok cfg authorizes False r"
  shows "gateway_inv cfg authorizes (X - {i}) g"
proof -
  have "relay_ok cfg authorizes (j \<in> X - {i}) q" if q: "relays g j = Some q" for j q
  proof (cases "j = i")
    case False
    then have "(j \<in> X - {i}) = (j \<in> X)" by blast
    with gateway_invD(1) [OF inv q] show ?thesis by (simp only:)
  qed (use i q in simp)
  with inv show ?thesis by (simp add: gateway_inv_def)
qed

subsection \<open>The registry\<close>

lemma set_members_register:
  assumes inv: "registry_inv reg"
  shows "set (set_members ref (snd (register sid c reg))) =
     (if ref = reg_set (fst (register sid c reg)) then insert c (set (set_members ref reg)) else set (set_members ref reg))"
proof (cases "jm_get (connections reg) sid")
  case None
  have "set_members (next_set reg) reg = []" using inv by (simp add: registry_inv_def)
  with None show ?thesis
    by (cases "ref = next_set reg") (simp_all add: register_def registry_simps)
next
  case (Some r)
  then show ?thesis by (cases "ref = r") (simp_all add: register_def registry_simps)
qed

lemma enrolled_unregister:
  assumes e: "enrolled i reg r" and h: "fst (reg_close h) \<noteq> i"
  shows "enrolled i (unregister h reg) r"
proof -
  have "(i, n) \<in> set (set_members ref (unregister h reg)) \<longleftrightarrow> (i, n) \<in> set (set_members ref reg)" for n ref
    using h by (cases "reg_close h") (auto simp: set_members_unregister)
  with e show ?thesis by (auto simp: enrolled_def genuine_unregister)
qed

lemma enrolled_register:
  assumes e: "enrolled i reg r" and inv: "registry_inv reg" and c: "fst c \<noteq> i"
  shows "enrolled i (snd (register sid c reg)) r"
proof -
  have "(i, n) \<in> set (set_members ref (snd (register sid c reg))) \<longleftrightarrow> (i, n) \<in> set (set_members ref reg)" for n ref
    using c by (cases c) (auto simp: set_members_register [OF inv])
  with e show ?thesis by (auto simp: enrolled_def genuine_register [OF inv])
qed

lemma enrolled_revoked: "enrolled i reg r \<Longrightarrow> enrolled i (reg\<lparr>connections := jm_delete sid (connections reg)\<rparr>) r"
  by (auto simp: enrolled_def genuine_revoked registry_simps)

subsection \<open>shutdown\<close>

lemma close_relay_simps [simp]:
  "rl_phase (close_relay n m r) = RelayClosed" "rl_aborted (close_relay n m r)" "rl_timer (close_relay n m r) = False"
  "rl_client (close_relay n m r) = closeSocket n m (rl_client r)" "rl_upstream (close_relay n m r) = rl_upstream r"
  "rl_unregister (close_relay n m r) = rl_unregister r" "rl_attempts (close_relay n m r) = rl_attempts r"
  "rl_next (close_relay n m r) = rl_next r" "rl_dropped (close_relay n m r) = rl_dropped r"
  "rl_upstreams (close_relay n m r) k =
     (if rl_upstream r = Some k then map_option (closeSocket n m) (rl_upstreams r k) else rl_upstreams r k)"
  by (auto simp: close_relay_def Let_def split: option.splits)

lemma closeSocket_closed: "readyState (closeSocket n m s) = CLOSING \<or> readyState (closeSocket n m s) = CLOSED"
  by (cases "readyState s") (auto simp: closeSocket_def socket_close_def socket_terminate_def)

lemma relay_ok_close:
  assumes r: "relay_ok cfg authorizes d r" shows "relay_ok cfg authorizes d' (close_relay n m r)"
proof -
  have "greeted authorizes d' (close_relay n m r)" "phases_ok (close_relay n m r)"
    using r by (auto simp: relay_ok_def greeted_def phases_ok_def socket_simps)
  moreover have "attempts_ok authorizes (close_relay n m r)"
    using r by (auto simp: relay_ok_def attempts_ok_def)
  moreover have "single_ok (close_relay n m r)"
    using r closeSocket_closed by (auto simp: relay_ok_def single_ok_def split: if_splits)
  ultimately show ?thesis using r by (simp add: relay_ok_def socket_simps)
qed

lemma enrolled_close:
  assumes e: "enrolled i reg r" and r: "rl_phase r \<noteq> RelayClosed"
  shows "enrolled i (case rl_unregister r of None \<Rightarrow> reg | Some h \<Rightarrow> unregister h reg) (close_relay n m r)"
proof (cases "rl_unregister r")
  case None
  with e show ?thesis by (auto simp: enrolled_def)
next
  case (Some h)
  with e show ?thesis by (fastforce simp: enrolled_def genuine_unregister set_members_unregister split: if_splits)
qed

lemma shutdown_inv:
  assumes inv: "gateway_inv cfg authorizes X g"
  shows "gateway_inv cfg authorizes (X - {i}) (shutdown i n m g)"
proof (cases "relays g i")
  case (Some r)
  note ok = gateway_invD [OF inv Some]
  show ?thesis
  proof (cases "rl_phase r = RelayClosed")
    case True
    with ok(1) have "relay_ok cfg authorizes False r" by (auto simp: relay_ok_def greeted_def phases_ok_def)
    with gateway_inv_drop [OF inv, of i] Some True show ?thesis by (simp add: shutdown_def)
  next
    case False
    define reg where "reg = (case rl_unregister r of None \<Rightarrow> registry g | Some h \<Rightarrow> unregister h (registry g))"
    have h: "genuine h (registry g)" "fst (reg_close h) = i" if "rl_unregister r = Some h" for h
      using ok(2) that by (auto simp: enrolled_def)
    have "registry_inv reg"
      using inv h unregister_inv by (auto simp: gateway_inv_def reg_def split: option.splits)
    moreover have "set (set_members ref reg) \<subseteq> set (set_members ref (registry g))" for ref
      by (auto simp: set_members_unregister reg_def split: option.splits)
    moreover have "enrolled j reg q" if "relays g j = Some q" "j \<noteq> i" for j q
      using gateway_invD(2) [OF inv that(1)] that(2) h enrolled_unregister by (auto simp: reg_def split: option.splits)
    moreover have "relays g j \<noteq> None" if "(j, n) \<in> set (set_members ref reg)" for ref j n
      using calculation(2) that inv unfolding gateway_inv_def by blast
    moreover have "shutdown i n m g = g\<lparr>registry := reg, relays := (relays g)(i \<mapsto> close_relay n m r)\<rparr>"
      using Some False by (simp add: shutdown_def reg_def)
    ultimately show ?thesis
      using inv relay_ok_close [OF ok(1)] enrolled_close [OF ok(2) False]
      unfolding gateway_inv_def by (simp add: reg_def [symmetric]) blast
  qed
qed (use gateway_inv_drop [OF inv, of i] in \<open>simp add: shutdown_def\<close>)

lemma shutdown_inv_empty: "gateway_inv cfg authorizes {} g \<Longrightarrow> gateway_inv cfg authorizes {} (shutdown i n m g)"
  using shutdown_inv [of cfg authorizes "{}"] by simp

subsection \<open>Updates of one relay\<close>

lemma enrolled_cong:
  assumes "enrolled i reg r" and "rl_unregister r' = rl_unregister r" "rl_next r' = rl_next r" "rl_phase r' = rl_phase r"
    and "\<And>n t. rl_attempts r' n = Some (Authorizing t) \<Longrightarrow> rl_attempts r n = Some (Authorizing t)"
  shows "enrolled i reg r'"
  using assms unfolding enrolled_def by metis

lemma put_client_ok:
  assumes r: "relay_ok cfg authorizes d r" and s: "frames s = frames (rl_client r)" "int (bufferedAmount s) \<le> maximumBufferedBytes cfg"
    "readyState s = OPEN \<Longrightarrow> readyState (rl_client r) = OPEN"
  shows "relay_ok cfg authorizes d (r\<lparr>rl_client := s\<rparr>)"
  using r s by (auto simp: relay_ok_def relay_parts)

lemma put_upstream_ok:
  assumes r: "relay_ok cfg authorizes d r" and u: "rl_upstreams r k = Some s"
    and t: "rl_aborted r \<Longrightarrow> readyState s \<in> {CLOSING, CLOSED} \<Longrightarrow> readyState t \<in> {CLOSING, CLOSED}"
  shows "relay_ok cfg authorizes d (r\<lparr>rl_upstreams := (rl_upstreams r)(k \<mapsto> t)\<rparr>)"
proof -
  have "greeted authorizes d (r\<lparr>rl_upstreams := (rl_upstreams r)(k \<mapsto> t)\<rparr>)"
    using r u by (auto simp: relay_ok_def greeted_def)
  moreover have "attempts_ok authorizes (r\<lparr>rl_upstreams := (rl_upstreams r)(k \<mapsto> t)\<rparr>)"
    using r u by (cases "rl_attempts r k") (auto simp: relay_ok_def attempts_ok_def)
  moreover have "single_ok (r\<lparr>rl_upstreams := (rl_upstreams r)(k \<mapsto> t)\<rparr>)"
  proof -
    have s: "single_ok r" using r by (simp add: relay_ok_def)
    have k: "rl_upstream r = Some k" "rl_aborted r \<Longrightarrow> readyState t \<in> {CLOSING, CLOSED}" if "rl_next r \<le> 1"
      using s u t that by (auto simp: single_ok_def)
    have "rl_upstream r = Some k' \<and> (rl_aborted r \<longrightarrow> readyState s' \<in> {CLOSING, CLOSED})"
      if "rl_next r \<le> 1" "((rl_upstreams r)(k \<mapsto> t)) k' = Some s'" for k' s'
    proof (cases "k' = k")
      case True
      with that(2) have "s' = t" by simp
      with True k [OF that(1)] show ?thesis by simp
    next
      case False
      with that s show ?thesis by (simp add: single_ok_def)
    qed
    with s show ?thesis by (simp add: single_ok_def)
  qed
  ultimately show ?thesis using r by (simp add: relay_ok_def phases_ok_def)
qed

text \<open>What may be sent to the client: a ready frame, or anything once the client was greeted.\<close>

definition may_send :: "(string \<Rightarrow> signaling_authorization \<Rightarrow> bool) \<Rightarrow> peer \<Rightarrow> raw_data \<Rightarrow> bool \<Rightarrow> relay \<Rightarrow> bool" where
  "may_send authorizes p data isBinary r \<longleftrightarrow>
     (p = ClientPeer \<longrightarrow> frames (rl_client r) \<noteq> []
        \<or> (\<exists>token auth. authorizes token auth \<and> data = ready_frame (auth_sessionId auth) \<and> \<not> isBinary))"

lemma frames_socket_send_ne [simp]: "frames (socket_send d b s) \<noteq> []"
  by (simp add: socket_simps)

lemma send_simps [simp]:
  "readyState (socket_send d b s) = readyState s"
  "bufferedAmount (socket_send d b s) = bufferedAmount s + rawDataByteLength d"
  by (simp_all add: socket_send_def)

lemma send_client_ok:
  assumes r: "relay_ok cfg authorizes d r" and may: "may_send authorizes ClientPeer data isBinary r"
    and room: "int (bufferedAmount (rl_client r) + rawDataByteLength data) \<le> maximumBufferedBytes cfg"
  shows "relay_ok cfg authorizes d' (r\<lparr>rl_client := socket_send data isBinary (rl_client r)\<rparr>)"
proof -
  have "greeted authorizes d' (r\<lparr>rl_client := socket_send data isBinary (rl_client r)\<rparr>)"
    using r may by (cases "frames (rl_client r)") (auto simp: relay_ok_def greeted_def may_send_def socket_simps)
  with r room show ?thesis by (auto simp: relay_ok_def phases_ok_def attempts_ok_def single_ok_def)
qed

lemma forward_inv:
  assumes inv: "gateway_inv cfg authorizes X g" and X: "i \<in> X \<longrightarrow> p = ClientPeer"
    and may: "\<And>r. relays g i = Some r \<Longrightarrow> readyState (rl_client r) = OPEN \<Longrightarrow> may_send authorizes p data isBinary r"
    and there: "\<And>r. relays g i = Some r \<Longrightarrow> peer_socket p r \<noteq> None"
  shows "gateway_inv cfg authorizes (X - {i}) (forward cfg i p data isBinary g)"
proof (cases "relays g i")
  case None
  with gateway_inv_drop [OF inv, of i] show ?thesis by (simp add: forward_def)
next
  case (Some r)
  note ok = gateway_invD [OF inv Some]
  obtain s where peer: "peer_socket p r = Some s" using there [OF Some] by blast
  show ?thesis
  proof (cases "readyState s \<noteq> OPEN \<or> int (bufferedAmount s + rawDataByteLength data) > maximumBufferedBytes cfg")
    case True
    then show ?thesis using shutdown_inv [OF inv] Some peer by (auto simp: forward_def)
  next
    case False
    have "relay_ok cfg authorizes (i \<in> X - {i}) (put_peer p (socket_send data isBinary s) r)"
    proof (cases p)
      case ClientPeer
      with peer False ok(1) may [OF Some] show ?thesis
        by (auto simp: put_peer_def peer_socket_def intro: send_client_ok)
    next
      case (UpstreamPeer k)
      with X have "i \<notin> X" by auto
      with UpstreamPeer peer ok(1) show ?thesis by (auto simp: put_peer_def peer_socket_def intro!: put_upstream_ok)
    qed
    moreover have "enrolled i (registry g) (put_peer p (socket_send data isBinary s) r)"
      by (rule enrolled_cong [OF ok(2)]) (auto simp: put_peer_def split: peer.splits)
    ultimately show ?thesis using Some peer False gateway_inv_update [OF inv, of i "X - {i}"]
      by (auto simp: forward_def)
  qed
qed

subsection \<open>Client messages and network changes\<close>

lemma relay_ok_attempt:
  assumes r: "relay_ok cfg authorizes d r" and p: "rl_phase r = RelayAuthenticating"
  shows "relay_ok cfg authorizes d
    (r\<lparr>rl_attempts := (rl_attempts r)(rl_next r \<mapsto> Authorizing token), rl_next := Suc (rl_next r)\<rparr>)"
proof -
  have up: "rl_upstreams r k = Some s \<Longrightarrow> k < rl_next r" for k s using r by (auto simp: relay_ok_def attempts_ok_def)
  then have "rl_upstreams r (rl_next r) = None" by (cases "rl_upstreams r (rl_next r)") auto
  then have "attempts_ok authorizes
      (r\<lparr>rl_attempts := (rl_attempts r)(rl_next r \<mapsto> Authorizing token), rl_next := Suc (rl_next r)\<rparr>)"
    using r by (auto simp: relay_ok_def attempts_ok_def less_Suc_eq)
  moreover have "rl_upstreams r k = None" if "rl_next r = 0" for k
    using up that by (cases "rl_upstreams r k") auto
  ultimately show ?thesis using r p by (auto simp: relay_ok_def greeted_def phases_ok_def single_ok_def)
qed

lemma enrolled_attempt:
  assumes e: "enrolled i reg r"
  shows "enrolled i reg (r\<lparr>rl_attempts := (rl_attempts r)(rl_next r \<mapsto> Authorizing token), rl_next := Suc (rl_next r)\<rparr>)"
proof -
  have "n < rl_next r" if "(i, n) \<in> set (set_members ref reg)" for ref n using e that by (simp add: enrolled_def)
  with e show ?thesis by (fastforce simp: enrolled_def)
qed

lemma client_message_inv:
  assumes inv: "gateway_inv cfg authorizes {} g"
  shows "gateway_inv cfg authorizes {} (client_message cfg json_parse i data isBinary g)"
proof (cases "relays g i")
  case (Some r)
  note ok = gateway_invD [OF inv Some]
  show ?thesis
  proof (cases "rl_phase r")
    case RelayAuthenticating
    then show ?thesis
      using Some shutdown_inv_empty [OF inv] relay_ok_attempt [OF ok(1)] enrolled_attempt [OF ok(2)]
        gateway_inv_update [OF inv, of i "{}"]
      by (cases "parseAuthenticationFrame json_parse data isBinary") (simp_all add: client_message_def)
  next
    case RelayRelaying
    then show ?thesis
    proof (cases "rl_upstream r")
      case (Some k)
      have "gateway_inv cfg authorizes ({} - {i}) (forward cfg i (UpstreamPeer k) data isBinary g)"
      proof (rule forward_inv [OF inv])
        show "peer_socket (UpstreamPeer k) q \<noteq> None" if "relays g i = Some q" for q
          using that ok(1) Some \<open>relays g i = Some r\<close> by (auto simp: peer_socket_def relay_ok_def attempts_ok_def)
      qed (simp_all add: may_send_def)
      with RelayRelaying Some \<open>relays g i = Some r\<close> show ?thesis by (simp add: client_message_def)
    qed (use inv Some in \<open>simp add: client_message_def\<close>)
  qed (use inv Some shutdown_inv_empty [OF inv] in \<open>simp_all add: client_message_def\<close>)
qed (use inv in \<open>simp add: client_message_def\<close>)

lemma network_inv:
  assumes inv: "gateway_inv cfg authorizes {} g" and r: "relays g i = Some r" "peer_socket p r = Some s"
    and later: "socket_later s t"
  shows "gateway_inv cfg authorizes {} (g\<lparr>relays := (relays g)(i \<mapsto> put_peer p t r)\<rparr>)"
proof (rule gateway_inv_update [OF inv])
  note ok = gateway_invD [OF inv r(1)]
  show "relay_ok cfg authorizes (i \<in> {}) (put_peer p t r)"
  proof (cases p)
    case ClientPeer
    have s: "s = rl_client r" using ClientPeer r(2) by (simp add: peer_socket_def)
    have "int (bufferedAmount t) \<le> maximumBufferedBytes cfg"
      using ok(1) later by (simp add: s relay_ok_def socket_later_def)
    then show ?thesis
      using put_client_ok [OF ok(1), of t] socket_later_frames [OF later] socket_later_not_open [OF later] ClientPeer
      by (auto simp: put_peer_def s)
  next
    case (UpstreamPeer k)
    then have "rl_upstreams r k = Some s" using r(2) by (simp add: peer_socket_def)
    from put_upstream_ok [OF ok(1) this, of t] later UpstreamPeer show ?thesis
      by (auto simp: put_peer_def socket_later_def)
  qed
  show "enrolled i (registry g) (put_peer p t r)"
    by (rule enrolled_cong [OF ok(2)]) (auto simp: put_peer_def split: peer.splits)
qed simp

subsection \<open>The continuations of connectUpstream\<close>

lemma shutdown_end_attempt: "shutdown i n m (end_attempt i k g) = end_attempt i k (shutdown i n m g)"
proof (cases "relays g i")
  case (Some r)
  have "close_relay n m (r\<lparr>rl_attempts := (rl_attempts r)(k := None)\<rparr>)
      = (close_relay n m r)\<lparr>rl_attempts := (rl_attempts r)(k := None)\<rparr>"
    by (cases "rl_upstream r") (simp_all add: close_relay_def Let_def)
  with Some show ?thesis by (cases "rl_unregister r") (simp_all add: shutdown_def end_attempt_def)
qed (simp add: shutdown_def end_attempt_def)

lemma shutdown_phase: "relays (shutdown i n m g) i = Some r \<Longrightarrow> rl_phase r = RelayClosed"
  by (auto simp: shutdown_def split: option.splits if_splits)

lemma relay_ok_end_attempt:
  assumes r: "relay_ok cfg authorizes d r"
    and p: "rl_phase r = RelayConnecting \<Longrightarrow> rl_next r \<le> 1 \<Longrightarrow> k \<noteq> 0"
  shows "relay_ok cfg authorizes d (r\<lparr>rl_attempts := (rl_attempts r)(k := None)\<rparr>)"
  using r p by (auto simp: relay_ok_def greeted_def phases_ok_def attempts_ok_def single_ok_def)

lemma enrolled_end_attempt: "enrolled i reg r \<Longrightarrow> enrolled i reg (r\<lparr>rl_attempts := (rl_attempts r)(k := None)\<rparr>)"
  by (rule enrolled_cong) (auto split: if_splits)

lemma fail_attempt_inv:
  assumes inv: "gateway_inv cfg authorizes {} g"
  shows "gateway_inv cfg authorizes {} (shutdown i n m (end_attempt i k g))"
proof -
  have inv': "gateway_inv cfg authorizes {} (shutdown i n m g)" by (rule shutdown_inv_empty [OF inv])
  show ?thesis
  proof (cases "relays (shutdown i n m g) i")
    case (Some r)
    note ok = gateway_invD [OF inv' Some]
    have "rl_phase r = RelayClosed" by (rule shutdown_phase [OF Some])
    then have "relay_ok cfg authorizes (i \<in> {}) (r\<lparr>rl_attempts := (rl_attempts r)(k := None)\<rparr>)"
      using relay_ok_end_attempt [OF ok(1)] by simp
    with gateway_inv_update [OF inv' _ enrolled_end_attempt [OF ok(2)]] Some show ?thesis
      unfolding shutdown_end_attempt by (simp add: end_attempt_def)
  next
    case None
    with inv' show ?thesis unfolding shutdown_end_attempt by (simp add: end_attempt_def)
  qed
qed

lemma relay_ok_authorized:
  assumes r: "relay_ok cfg authorizes d r" and n: "rl_attempts r n = Some (Authorizing token)" and auth: "authorizes token auth"
  shows "relay_ok cfg authorizes d (r\<lparr>rl_phase := RelayConnecting, rl_timer := False, rl_unregister := h,
      rl_attempts := (rl_attempts r)(n \<mapsto> ConnectingTo auth (rl_aborted r))\<rparr>)"
proof -
  have n': "n < rl_next r" "rl_upstreams r n = None" using r n by (auto simp: relay_ok_def attempts_ok_def)
  have "attempts_ok authorizes (r\<lparr>rl_phase := RelayConnecting, rl_timer := False, rl_unregister := h,
      rl_attempts := (rl_attempts r)(n \<mapsto> ConnectingTo auth (rl_aborted r))\<rparr>)"
    using r n' auth by (auto simp: relay_ok_def attempts_ok_def)
  then show ?thesis using r n' by (auto simp: relay_ok_def greeted_def phases_ok_def single_ok_def)
qed

lemma enrolled_authorized:
  assumes e: "enrolled i reg r" and inv: "registry_inv reg" and n: "rl_attempts r n = Some (Authorizing token)" "n < rl_next r"
  shows "enrolled i (snd (register sid (i, n) reg)) (r\<lparr>rl_phase := RelayConnecting, rl_timer := False,
      rl_unregister := Some (fst (register sid (i, n) reg)), rl_attempts := (rl_attempts r)(n \<mapsto> ConnectingTo auth f)\<rparr>)"
proof -
  let ?h = "fst (register sid (i, n) reg)"
  have old: "m < rl_next r" "rl_attempts r m \<noteq> Some (Authorizing t)" if "(i, m) \<in> set (set_members ref reg)" for ref m t
    using e that by (auto simp: enrolled_def)
  have new: "(i, m) \<in> set (set_members ref (snd (register sid (i, n) reg))) \<longleftrightarrow>
      (i, m) \<in> set (set_members ref reg) \<or> ref = reg_set ?h \<and> m = n" for ref m
    by (auto simp: set_members_register [OF inv])
  have only: "m = n \<and> ref = reg_set ?h"
    if "rl_next r \<le> 1" "(i, m) \<in> set (set_members ref (snd (register sid (i, n) reg)))" for m ref
  proof (cases "(i, m) \<in> set (set_members ref reg)")
    case True
    then have "m = n" using old(1) [OF True] that(1) n(2) by simp
    with old(2) [OF True, of token] n(1) show ?thesis by simp
  qed (use that(2) new in blast)
  have bound: "m < rl_next r" "m \<noteq> n \<Longrightarrow> rl_attempts r m \<noteq> Some (Authorizing t)"
    if "(i, m) \<in> set (set_members ref (snd (register sid (i, n) reg)))" for m ref t
    using that old n(2) unfolding new by blast+
  note handle = register_handle [OF inv, of sid "(i, n)"]
  have attempts: "((rl_attempts r)(n \<mapsto> ConnectingTo auth f)) m \<noteq> Some (Authorizing t)"
    if "(i, m) \<in> set (set_members ref (snd (register sid (i, n) reg)))" for m ref t
    using bound(2) [OF that, of t] by (cases "m = n") simp_all
  have the_handle: "reg_set ?h = ref" "n = m"
    if "rl_next r \<le> 1" "(i, m) \<in> set (set_members ref (snd (register sid (i, n) reg)))" for m ref
    using only [OF that] by simp_all
  show ?thesis
    unfolding enrolled_def
    by (intro conjI allI impI) (use handle bound(1) the_handle attempts in \<open>simp_all del: fun_upd_apply\<close>)
qed

lemma authorized_inv:
  assumes inv: "gateway_inv cfg authorizes {} g" and r: "relays g i = Some r" and n: "rl_attempts r n = Some (Authorizing token)"
    and auth: "\<forall>auth. result = Inr auth \<longrightarrow> authorizes token auth"
  shows "gateway_inv cfg authorizes {} (authorized i n result g)"
proof (cases result)
  case (Inl e)
  then show ?thesis using r fail_attempt_inv [OF inv] by (cases e) (simp_all add: authorized_def)
next
  case (Inr a)
  note ok = gateway_invD [OF inv r]
  have reg: "registry_inv (registry g)" using inv by (simp add: gateway_inv_def)
  let ?reg = "snd (register (auth_sessionId a) (i, n) (registry g))"
  let ?r = "r\<lparr>rl_phase := RelayConnecting, rl_timer := False,
      rl_unregister := Some (fst (register (auth_sessionId a) (i, n) (registry g))),
      rl_attempts := (rl_attempts r)(n \<mapsto> ConnectingTo a (rl_aborted r))\<rparr>"
  have "n < rl_next r" using ok(1) n by (auto simp: relay_ok_def attempts_ok_def)
  then have "enrolled i ?reg ?r" by (rule enrolled_authorized [OF ok(2) reg n])
  moreover have "relay_ok cfg authorizes (i \<in> {}) ?r" using relay_ok_authorized [OF ok(1) n] auth Inr by simp
  moreover have "enrolled j ?reg q" if "relays g j = Some q" "j \<noteq> i" for j q
    using gateway_invD(2) [OF inv that(1)] that(2) enrolled_register [OF _ reg] by simp
  moreover have "relays g j \<noteq> None \<or> j = i" if "(j, m) \<in> set (set_members ref ?reg)" for ref j m
    using that inv by (auto simp: gateway_inv_def set_members_register [OF reg] split: if_splits)
  moreover have "authorized i n result g = g\<lparr>registry := ?reg, relays := (relays g)(i \<mapsto> ?r)\<rparr>"
    using r Inr by (simp add: authorized_def split: prod.split)
  ultimately show ?thesis
    using inv register_inv [OF reg] unfolding gateway_inv_def by simp blast
qed

text \<open>A handler runs after its relay got an upstream, so the client has been greeted or is gone.\<close>

lemma upstream_event_inv:
  assumes inv: "gateway_inv cfg authorizes {} g" and up: "\<And>r. relays g i = Some r \<Longrightarrow> rl_upstreams r \<noteq> Map.empty"
  shows "gateway_inv cfg authorizes {} (upstream_event cfg i e g)"
proof (cases e)
  case (MessageEvent data isBinary)
  have "gateway_inv cfg authorizes ({} - {i}) (forward cfg i ClientPeer data isBinary g)"
  proof (rule forward_inv [OF inv])
    show "may_send authorizes ClientPeer data isBinary r" if "relays g i = Some r" "readyState (rl_client r) = OPEN" for r
      using gateway_invD(1) [OF inv that(1)] that(2) up [OF that(1)]
      by (auto simp: may_send_def relay_ok_def greeted_def)
  qed (simp_all add: peer_socket_def)
  with MessageEvent show ?thesis by (simp add: upstream_event_def)
qed (use shutdown_inv_empty [OF inv] in \<open>simp_all add: upstream_event_def\<close>)

lemma shutdown_upstreams:
  assumes "relays (shutdown i n m g) i = Some r'" shows "\<exists>r. relays g i = Some r \<and> (rl_upstreams r' = Map.empty \<longrightarrow> rl_upstreams r = Map.empty)"
proof -
  have "rl_upstreams r = Map.empty" if "rl_upstreams (close_relay n m r) = Map.empty" for r
  proof
    fix k
    from that have "rl_upstreams (close_relay n m r) k = None" by simp
    then show "rl_upstreams r k = None" by (simp split: if_splits)
  qed
  with assms show ?thesis by (auto simp: shutdown_def split: option.splits if_splits)
qed

lemma forward_upstreams:
  assumes "relays (forward cfg i p data b g) i = Some r'"
  shows "\<exists>r. relays g i = Some r \<and> (rl_upstreams r' = Map.empty \<longrightarrow> rl_upstreams r = Map.empty)"
  using assms
  by (auto simp: forward_def put_peer_def split: option.splits if_splits peer.splits dest!: shutdown_upstreams)

lemma upstream_event_upstreams:
  assumes "relays (upstream_event cfg i e g) i = Some r'"
  shows "\<exists>r. relays g i = Some r \<and> (rl_upstreams r' = Map.empty \<longrightarrow> rl_upstreams r = Map.empty)"
  using assms shutdown_upstreams forward_upstreams
  by (cases e) (simp_all add: upstream_event_def)

lemma upstream_events_inv:
  assumes "gateway_inv cfg authorizes {} g" and "\<And>r. relays g i = Some r \<Longrightarrow> rl_upstreams r \<noteq> Map.empty"
  shows "gateway_inv cfg authorizes {} (fold (upstream_event cfg i) es g)"
  using assms
proof (induction es arbitrary: g)
  case (Cons e es)
  have "rl_upstreams r \<noteq> Map.empty" if "relays (upstream_event cfg i e g) i = Some r" for r
    using upstream_event_upstreams [OF that] Cons.prems(2) by blast
  then show ?case using Cons.IH [OF upstream_event_inv [OF Cons.prems(1)]] Cons.prems(2) by simp
qed simp

lemma relay_ok_connected:
  assumes r: "relay_ok cfg authorizes d r" and n: "rl_attempts r n = Some (ConnectingTo auth f)" and a: "\<not> rl_aborted r"
  shows "relay_ok cfg authorizes True (r\<lparr>rl_attempts := (rl_attempts r)(n := None), rl_upstream := Some n,
      rl_upstreams := (rl_upstreams r)(n \<mapsto> s), rl_phase := RelayRelaying\<rparr>)"
proof -
  have n': "n < rl_next r" "rl_upstreams r n = None" using r n by (auto simp: relay_ok_def attempts_ok_def)
  have k: "k < rl_next r" if "rl_upstreams r k = Some t" for k t using r that by (auto simp: relay_ok_def attempts_ok_def)
  have "attempts_ok authorizes (r\<lparr>rl_attempts := (rl_attempts r)(n := None), rl_upstream := Some n,
      rl_upstreams := (rl_upstreams r)(n \<mapsto> s), rl_phase := RelayRelaying\<rparr>)"
    using r n' by (auto simp: relay_ok_def attempts_ok_def)
  moreover have "rl_upstreams r k = None" if "rl_next r \<le> 1" for k
  proof (cases "rl_upstreams r k")
    case (Some t)
    with k [OF Some] n'(1) that have "k = n" by simp
    with Some n'(2) show ?thesis by simp
  qed
  ultimately show ?thesis
    using r n' a by (auto simp: relay_ok_def greeted_def phases_ok_def single_ok_def)
qed

lemma connected_inv:
  assumes inv: "gateway_inv cfg authorizes {} g" and r: "relays g i = Some r"
    and n: "rl_attempts r n = Some (ConnectingTo auth was_aborted)" and fails: "was_aborted \<longrightarrow> isl result"
  shows "gateway_inv cfg authorizes {} (connected cfg i n (auth_sessionId auth) result g)"
proof (cases result)
  case (Inl e)
  then have "connected cfg i n (auth_sessionId auth) result g = shutdown i 1011 ''upstream unavailable'' (end_attempt i n g)"
    using r by (simp add: connected_def end_attempt_def Let_def)
  with fail_attempt_inv [OF inv] show ?thesis by (simp only:)
next
  case (Inr se)
  obtain s es where se: "se = (s, es)" by fastforce
  note ok = gateway_invD [OF inv r]
  let ?r0 = "r\<lparr>rl_attempts := (rl_attempts r)(n := None)\<rparr>"
  show ?thesis
  proof (cases "rl_aborted r")
    case True
    have ok0: "relay_ok cfg authorizes (i \<in> {}) ?r0"
      using relay_ok_end_attempt [OF ok(1)] ok(1) n True fails Inr by (auto simp: relay_ok_def single_ok_def)
    have "relay_ok cfg authorizes (i \<in> {}) (?r0\<lparr>rl_dropped := ds\<rparr>)" for ds
      using ok0 by (simp add: relay_ok_def greeted_def phases_ok_def attempts_ok_def single_ok_def)
    moreover have "enrolled i (registry g) (?r0\<lparr>rl_dropped := ds\<rparr>)" for ds
      by (rule enrolled_cong [OF enrolled_end_attempt [OF ok(2), of n]]) simp_all
    ultimately show ?thesis
      using gateway_inv_update [OF inv, of i "{}"] r Inr se True by (simp add: connected_def end_attempt_def Let_def)
  next
    case False
    let ?r = "?r0\<lparr>rl_upstream := Some n, rl_upstreams := (rl_upstreams r)(n \<mapsto> s), rl_phase := RelayRelaying\<rparr>"
    let ?g = "g\<lparr>relays := (relays g)(i \<mapsto> ?r)\<rparr>"
    have e: "enrolled i (registry g) ?r"
      using ok(2) unfolding enrolled_def by (auto split: if_splits)
    have "gateway_inv cfg authorizes {i} ?g"
      by (rule gateway_inv_update [OF inv]) (use relay_ok_connected [OF ok(1) n False] e in simp_all)
    then have "gateway_inv cfg authorizes ({i} - {i}) (forward cfg i ClientPeer (ready_frame (auth_sessionId auth)) False ?g)"
    proof (rule forward_inv)
      have "\<exists>token. authorizes token auth" using ok(1) n unfolding relay_ok_def attempts_ok_def by blast
      then show "may_send authorizes ClientPeer (ready_frame (auth_sessionId auth)) False q" for q
        by (auto simp: may_send_def)
    qed (simp_all add: peer_socket_def)
    then have g2: "gateway_inv cfg authorizes {} (forward cfg i ClientPeer (ready_frame (auth_sessionId auth)) False ?g)" by simp
    have "rl_upstreams q \<noteq> Map.empty"
      if "relays (forward cfg i ClientPeer (ready_frame (auth_sessionId auth)) False ?g) i = Some q" for q
      using forward_upstreams [OF that] by auto
    from upstream_events_inv [OF g2 this] show ?thesis
      using r Inr se False by (simp add: connected_def end_attempt_def Let_def)
  qed
qed

subsection \<open>Revocation and all steps\<close>

lemma close_each_inv:
  assumes "gateway_inv cfg authorizes {} g"
  shows "gateway_inv cfg authorizes {} (close_each registry run_closer ref cs g)"
  using assms
proof (induction cs arbitrary: g)
  case (Cons c cs)
  have "gateway_inv cfg authorizes {} (if c \<in> set (set_members ref (registry g)) then run_closer c g else g)"
    using Cons.prems shutdown_inv_empty by (simp add: run_closer_def)
  from Cons.IH [OF this] show ?case by simp
qed simp

lemma revoke_inv:
  assumes inv: "gateway_inv cfg authorizes {} g" shows "gateway_inv cfg authorizes {} (gateway_revoke sid g)"
proof (cases "jm_get (connections (registry g)) sid")
  case (Some ref)
  have "gateway_inv cfg authorizes {} (g\<lparr>registry := (registry g)\<lparr>connections := jm_delete sid (connections (registry g))\<rparr>\<rparr>)"
    using inv by (auto simp: gateway_inv_def revoked_inv enrolled_revoked registry_simps)
  from close_each_inv [OF this] Some show ?thesis by (simp add: gateway_revoke_def revoke_def)
qed (use inv in \<open>simp add: gateway_revoke_def revoke_def\<close>)

lemma relay_ok_new:
  assumes "actions s = []" "readyState s = OPEN" "bufferedAmount s = 0" "0 < maximumBufferedBytes cfg"
  shows "relay_ok cfg authorizes d (new_relay s)"
  using assms by (auto simp: relay_ok_def relay_parts new_relay_def frames_def map_filter_simps)

lemma step_inv:
  assumes pos: "0 < maximumBufferedBytes cfg" and inv: "gateway_inv cfg authorizes {} g"
    and step: "gateway_step cfg json_parse authorizes g g'"
  shows "gateway_inv cfg authorizes {} g'"
  using step
proof (cases rule: gateway_step.cases)
  case (step_handle i s)
  have none: "(i, n) \<notin> set (set_members ref (registry g))" for ref n
    using inv step_handle(2) unfolding gateway_inv_def by blast
  have "enrolled i (registry g) (new_relay s)"
    using none by (auto simp: enrolled_def new_relay_def)
  with gateway_inv_update [OF inv, of i "{}"] relay_ok_new [OF step_handle(3-5) pos] step_handle(1)
  show ?thesis by simp
next
  case (step_connected i r n auth was_aborted result)
  then show ?thesis using connected_inv [OF inv] by blast
next
  case (step_upstream i r k e)
  have "gateway_inv cfg authorizes {} (upstream_event cfg i e g)"
    by (rule upstream_event_inv [OF inv]) (use step_upstream in auto)
  with step_upstream(1) show ?thesis by simp
qed (use inv in \<open>auto simp: client_close_def client_error_def authentication_timeout_def write_error_def
    intro: client_message_inv shutdown_inv_empty authorized_inv revoke_inv network_inv\<close>)

lemma gateway_inv_new: "gateway_inv cfg authorizes {} new_gateway"
  using registry_inv_new by (auto simp: gateway_inv_def new_gateway_def new_registry_def set_members_def)

lemma new_gateway_options_Inr: "new_gateway_options t l = Inr cfg \<Longrightarrow> 0 < maximumBufferedBytes cfg"
  by (auto simp: new_gateway_options_def bind_result_Inr positiveInteger_Inr)

text \<open>A limit as the constructor accepts it.\<close>

interpretation gateway_system: step_invariant "\<lambda>g. g = new_gateway" "gateway_step cfg json_parse authorizes"
    "\<lambda>g. 0 < maximumBufferedBytes cfg \<longrightarrow> gateway_inv cfg authorizes {} g"
  for cfg :: gateway_options and json_parse :: "nat list \<Rightarrow> json option" and authorizes :: "string \<Rightarrow> signaling_authorization \<Rightarrow> bool"
  by unfold_locales (auto simp: gateway_inv_new intro: step_inv)

end
