(* ===== verification/GatewayProperties.thy ===== *)
theory GatewayProperties
  imports GatewayInvariant
begin

text \<open>
  The properties of the signaling gateway over every interleaving of its clients, upstreams, the
  session service's answers, the timers and revocations.
\<close>

lemma gateway_reachable_inv:
  "new_gateway_options t l = Inr cfg \<Longrightarrow> gateway_reachable cfg json_parse authorizes g \<Longrightarrow> gateway_inv cfg authorizes {} g"
  using gateway_system.reachable_inv [of cfg json_parse authorizes g] new_gateway_options_Inr by blast

text \<open>
  C20. In every interleaving, whatever a client receives begins with the ready frame of a session
  that the service authorised for a token; a relay that was shut down relays nothing and its
  client's socket is no longer open; a relaying relay has an upstream; and the frames queued for
  a client never exceed the configured limit.
\<close>

theorem clients_hear_ready_first:
  assumes cfg: "new_gateway_options t l = Inr cfg" and reach: "gateway_reachable cfg json_parse authorizes g"
    and r: "relays g i = Some r"
  shows "(frames (rl_client r) = [] \<or> (\<exists>token auth. authorizes token auth
      \<and> hd (frames (rl_client r)) = (rawDataToBuffer (ready_frame (auth_sessionId auth)), False)))
    \<and> (rl_aborted r \<longrightarrow> rl_phase r \<noteq> RelayRelaying \<and> readyState (rl_client r) \<noteq> OPEN)
    \<and> (rl_phase r = RelayRelaying \<longrightarrow> (\<exists>k s. rl_upstream r = Some k \<and> rl_upstreams r k = Some s))
    \<and> int (bufferedAmount (rl_client r)) \<le> maximumBufferedBytes cfg"
proof -
  have ok: "relay_ok cfg authorizes False r"
    using gateway_invD(1) [OF gateway_reachable_inv [OF cfg reach] r] by simp
  then have "greeted authorizes False r" "phases_ok r" "attempts_ok authorizes r" by (simp_all add: relay_ok_def)
  then have "frames (rl_client r) = [] \<or> (\<exists>token auth. authorizes token auth
      \<and> hd (frames (rl_client r)) = (rawDataToBuffer (ready_frame (auth_sessionId auth)), False))"
    and "rl_aborted r \<longrightarrow> rl_phase r \<noteq> RelayRelaying \<and> readyState (rl_client r) \<noteq> OPEN"
    and "rl_phase r = RelayRelaying \<longrightarrow> (\<exists>k s. rl_upstream r = Some k \<and> rl_upstreams r k = Some s)"
    unfolding greeted_def phases_ok_def attempts_ok_def by auto
  with ok show ?thesis unfolding relay_ok_def by blast
qed

subsection \<open>Silence after shutdown\<close>

definition silent_since :: "relay \<Rightarrow> relay \<Rightarrow> bool" where
  "silent_since r r' \<longleftrightarrow> rl_aborted r' \<and> frames (rl_client r') = frames (rl_client r)
     \<and> (\<forall>k. map_option frames (rl_upstreams r' k) = map_option frames (rl_upstreams r k))"

lemma silent_refl: "rl_aborted r \<Longrightarrow> silent_since r r"
  by (simp add: silent_since_def)

lemma silent_trans: "silent_since r s \<Longrightarrow> silent_since s t \<Longrightarrow> silent_since r t"
  by (simp add: silent_since_def)

definition stays_silent :: "nat \<Rightarrow> gateway \<Rightarrow> gateway \<Rightarrow> bool" where
  "stays_silent i g g' \<longleftrightarrow>
     (\<forall>r. relays g i = Some r \<longrightarrow> rl_aborted r \<longrightarrow> (\<exists>r'. relays g' i = Some r' \<and> silent_since r r'))"

lemma stays_silent_refl: "stays_silent i g g"
  by (simp add: stays_silent_def silent_refl)

lemma stays_silent_trans: "stays_silent i f g \<Longrightarrow> stays_silent i g h \<Longrightarrow> stays_silent i f h"
  unfolding stays_silent_def using silent_trans by (meson silent_since_def)

lemma silent_close: "silent_since r (close_relay n m r)"
  by (auto simp: silent_since_def socket_simps option.map_comp o_def)

lemma shutdown_silent: "stays_silent i g (shutdown j n m g)"
  by (auto simp: stays_silent_def shutdown_def silent_refl silent_close split: option.splits)

lemma forward_client_silent:
  assumes inv: "gateway_inv cfg authorizes {} g"
  shows "stays_silent i g (forward cfg j ClientPeer data b g)"
proof (cases "\<exists>r. relays g j = Some r \<and> readyState (rl_client r) = OPEN")
  case True
  then obtain r where r: "relays g j = Some r" "readyState (rl_client r) = OPEN" by blast
  have "\<not> rl_aborted r" using gateway_invD(1) [OF inv r(1)] r(2) by (auto simp: relay_ok_def phases_ok_def)
  then show ?thesis
    using r shutdown_silent [of i g j] silent_refl
    by (auto simp: stays_silent_def forward_def peer_socket_def split: if_splits)
next
  case False
  then have "forward cfg j ClientPeer data b g = g \<or> (\<exists>n m. forward cfg j ClientPeer data b g = shutdown j n m g)"
    by (auto simp: forward_def peer_socket_def split: option.splits)
  then show ?thesis using shutdown_silent stays_silent_refl by metis
qed

lemma upstream_event_silent:
  "gateway_inv cfg authorizes {} g \<Longrightarrow> stays_silent i g (upstream_event cfg j e g)"
  by (cases e) (simp_all add: upstream_event_def forward_client_silent shutdown_silent)

lemma close_each_silent: "stays_silent i g (close_each registry run_closer ref cs g)"
proof (induction cs arbitrary: g)
  case (Cons c cs)
  then show ?case
    using stays_silent_trans [OF shutdown_silent Cons] by (simp add: run_closer_def)
qed (simp add: stays_silent_refl)

lemma revoke_silent: "stays_silent i g (gateway_revoke sid g)"
proof (cases "jm_get (connections (registry g)) sid")
  case (Some ref)
  let ?g = "g\<lparr>registry := (registry g)\<lparr>connections := jm_delete sid (connections (registry g))\<rparr>\<rparr>"
  have "stays_silent i g ?g" by (simp add: stays_silent_def silent_refl)
  with close_each_silent have "stays_silent i g (close_each registry run_closer ref (set_members ref (registry g)) ?g)"
    by (rule stays_silent_trans [rotated])
  with Some show ?thesis by (simp add: gateway_revoke_def revoke_def)
qed (simp add: gateway_revoke_def revoke_def stays_silent_refl)

text \<open>An update that touches no socket, or a relay that was not shut down, is silent.\<close>

lemma update_silent:
  assumes "relays g j = Some r" and "rl_aborted r \<Longrightarrow> silent_since r r'"
  shows "stays_silent i g (g\<lparr>registry := reg, relays := (relays g)(j \<mapsto> r')\<rparr>)"
    and "stays_silent i g (g\<lparr>relays := (relays g)(j \<mapsto> r')\<rparr>)"
  using assms by (auto simp: stays_silent_def silent_refl)

lemma end_attempt_silent: "stays_silent i g (end_attempt j n g)"
  by (auto simp: stays_silent_def end_attempt_def silent_since_def split: option.splits)

lemma client_message_silent:
  assumes inv: "gateway_inv cfg authorizes {} g"
  shows "stays_silent i g (client_message cfg json_parse j data b g)"
proof (cases "relays g j")
  case (Some r)
  show ?thesis
  proof (cases "rl_aborted r")
    case True
    then have "rl_phase r \<in> {RelayClosed, RelayConnecting}"
      using gateway_invD(1) [OF inv Some] by (auto simp: relay_ok_def phases_ok_def)
    then show ?thesis using Some shutdown_silent stays_silent_refl by (auto simp: client_message_def)
  next
    case False
    have "stays_silent i g (forward cfg j (UpstreamPeer k) data b g)" for k
      using Some False shutdown_silent [of i g j] stays_silent_refl [of i g] update_silent(2) [OF Some]
      by (auto simp: forward_def split: option.splits)
    then show ?thesis
      using Some False shutdown_silent [of i g j] stays_silent_refl [of i g] update_silent(2) [OF Some]
      by (auto simp: client_message_def split: relay_phase.splits option.splits)
  qed
qed (simp add: client_message_def stays_silent_refl)

lemma authorized_silent: "relays g j = Some r \<Longrightarrow> stays_silent i g (authorized j n result g)"
proof (cases result)
  case (Inl e)
  assume "relays g j = Some r"
  then show ?thesis using Inl stays_silent_trans [OF end_attempt_silent shutdown_silent]
    by (cases e) (simp_all add: authorized_def)
next
  case (Inr auth)
  assume "relays g j = Some r"
  then show ?thesis using Inr by (auto simp: authorized_def silent_since_def split: prod.split intro!: update_silent(1))
qed

text \<open>Only the relay that connects changes, and it does nothing when it was shut down.\<close>

lemma shutdown_other: "j \<noteq> i \<Longrightarrow> relays (shutdown j n m g) i = relays g i"
  by (simp add: shutdown_def split: option.split)

lemma forward_other: "j \<noteq> i \<Longrightarrow> relays (forward cfg j p data b g) i = relays g i"
  by (auto simp: forward_def shutdown_other split: option.split)

lemma upstream_event_other: "j \<noteq> i \<Longrightarrow> relays (upstream_event cfg j e g) i = relays g i"
  by (cases e) (simp_all add: upstream_event_def forward_other shutdown_other)

lemma upstream_events_other: "j \<noteq> i \<Longrightarrow> relays (fold (upstream_event cfg j) es g) i = relays g i"
  by (induction es arbitrary: g) (simp_all add: upstream_event_other)

lemma connected_silent:
  assumes r: "relays g j = Some r"
  shows "stays_silent i g (connected cfg j n sid result g)"
proof (cases "i = j \<and> \<not> rl_aborted r")
  case True
  with r show ?thesis by (simp add: stays_silent_def)
next
  case False
  show ?thesis
  proof (cases result)
    case (Inl e)
    have "stays_silent i g (shutdown j 1011 ''upstream unavailable'' (end_attempt j n g))"
      by (rule stays_silent_trans [OF end_attempt_silent shutdown_silent])
    with Inl r show ?thesis by (simp add: connected_def Let_def end_attempt_def)
  next
    case (Inr se)
    obtain s es where se: "se = (s, es)" by fastforce
    show ?thesis
    proof (cases "rl_aborted r")
      case True
      with Inr se r show ?thesis
        by (auto simp: connected_def Let_def end_attempt_def silent_since_def intro!: update_silent(2))
    next
      case alive: False
      with False have "j \<noteq> i" by blast
      with Inr se r alive have "relays (connected cfg j n sid result g) i = relays g i"
        by (simp add: connected_def Let_def end_attempt_def upstream_events_other forward_other)
      then show ?thesis by (simp add: stays_silent_def silent_refl)
    qed
  qed
qed

lemma step_silent:
  assumes inv: "gateway_inv cfg authorizes {} g" and step: "gateway_step cfg json_parse authorizes g g'"
  shows "stays_silent i g g'"
  using step
proof (cases rule: gateway_step.cases)
  case (step_handle j s)
  then show ?thesis by (auto simp: stays_silent_def silent_refl)
next
  case (step_network j r p s t)
  have "silent_since r (put_peer p t r)" if "rl_aborted r"
    using step_network(3,4) that socket_later_frames [OF step_network(4)]
    by (auto simp: silent_since_def put_peer_def peer_socket_def split: peer.splits)
  with step_network show ?thesis using update_silent(2) by simp
qed (use inv in \<open>auto simp: client_close_def client_error_def authentication_timeout_def write_error_def
    intro: client_message_silent shutdown_silent authorized_silent connected_silent revoke_silent upstream_event_silent\<close>)

lemma steps_silent:
  assumes "(gateway_step cfg json_parse authorizes)\<^sup>*\<^sup>* g g'" and "0 < maximumBufferedBytes cfg" and "gateway_inv cfg authorizes {} g"
  shows "stays_silent i g g' \<and> gateway_inv cfg authorizes {} g'"
  using assms
proof (induction rule: rtranclp_induct)
  case (step h h')
  then show ?case using step_silent stays_silent_trans step_inv by blast
qed (simp add: stays_silent_refl)

text \<open>
  C21. A relay that was shut down stays silent: whatever happens afterwards, including answers of
  the session service or the container that arrive late, no further frame is written to its client
  or to any of its upstream sockets.
\<close>

theorem closed_relay_stays_silent:
  assumes cfg: "new_gateway_options t l = Inr cfg" and reach: "gateway_reachable cfg json_parse authorizes g"
    and r: "relays g i = Some r" "rl_aborted r" and run: "(gateway_step cfg json_parse authorizes)\<^sup>*\<^sup>* g g'"
  shows "\<exists>r'. relays g' i = Some r' \<and> rl_aborted r' \<and> frames (rl_client r') = frames (rl_client r)
    \<and> (\<forall>k. map_option frames (rl_upstreams r' k) = map_option frames (rl_upstreams r k))"
  using steps_silent [OF run new_gateway_options_Inr [OF cfg] gateway_reachable_inv [OF cfg reach], of i] r
  by (auto simp: stays_silent_def silent_since_def)

subsection \<open>Revocation\<close>

definition ended :: "relay \<Rightarrow> relay" where
  "ended r = (if rl_phase r = RelayClosed then r else close_relay 1008 ''session ended'' r)"

lemma ended_idem [simp]: "ended (ended r) = ended r"
  by (simp add: ended_def)

lemma run_closer_relays: "relays (run_closer c g) i = (if i = fst c then map_option ended (relays g i) else relays g i)"
  by (auto simp: run_closer_def shutdown_def ended_def split: option.splits)

lemma run_closer_members:
  assumes inv: "gateway_inv cfg authorizes {} g" and i: "i \<noteq> fst c"
  shows "(i, n) \<in> set (set_members ref (registry (run_closer c g))) \<longleftrightarrow> (i, n) \<in> set (set_members ref (registry g))"
proof (cases "relays g (fst c)")
  case (Some r)
  have "fst (reg_close h) = fst c" if "rl_unregister r = Some h" for h
    using gateway_invD(2) [OF inv Some] that by (auto simp: enrolled_def)
  then have "reg_close h \<noteq> (i, n)" if "rl_unregister r = Some h" for h using that i by fastforce
  with Some i show ?thesis
    by (auto simp: run_closer_def shutdown_def set_members_unregister split: option.splits)
qed (simp add: run_closer_def shutdown_def)

lemma close_each_relays:
  assumes "gateway_inv cfg authorizes {} g"
  shows "relays (close_each registry run_closer ref cs g) i =
    (if \<exists>n. (i, n) \<in> set cs \<and> (i, n) \<in> set (set_members ref (registry g)) then map_option ended (relays g i) else relays g i)"
  using assms
proof (induction cs arbitrary: g)
  case (Cons c cs)
  show ?case
  proof (cases "c \<in> set (set_members ref (registry g))")
    case True
    have inv: "gateway_inv cfg authorizes {} (run_closer c g)"
      using shutdown_inv_empty [OF Cons.prems] by (simp add: run_closer_def)
    have ih: "relays (close_each registry run_closer ref (c # cs) g) i =
        (if \<exists>n. (i, n) \<in> set cs \<and> (i, n) \<in> set (set_members ref (registry (run_closer c g)))
         then map_option ended (relays (run_closer c g) i) else relays (run_closer c g) i)"
      using Cons.IH [OF inv] True by simp
    show ?thesis
    proof (cases "i = fst c")
      case i: True
      then have "\<exists>n. (i, n) \<in> set (c # cs) \<and> (i, n) \<in> set (set_members ref (registry g))"
        using True by (intro exI [of _ "snd c"]) simp
      then show ?thesis unfolding ih by (simp add: run_closer_relays i option.map_comp o_def)
    next
      case False
      then have "(\<exists>n. (i, n) \<in> set (c # cs) \<and> (i, n) \<in> set (set_members ref (registry g))) \<longleftrightarrow>
          (\<exists>n. (i, n) \<in> set cs \<and> (i, n) \<in> set (set_members ref (registry (run_closer c g))))"
        using run_closer_members [OF Cons.prems False] True False by auto
      then show ?thesis unfolding ih by (simp only: run_closer_relays False if_False)
    qed
  next
    case False
    then have "(\<exists>n. (i, n) \<in> set (c # cs) \<and> (i, n) \<in> set (set_members ref (registry g))) \<longleftrightarrow>
        (\<exists>n. (i, n) \<in> set cs \<and> (i, n) \<in> set (set_members ref (registry g)))" by auto
    with False Cons.IH [OF Cons.prems] show ?thesis by simp
  qed
qed simp

lemma unregister_keeps_gone:
  "jm_get (connections r) sid = None \<Longrightarrow> jm_get (connections (unregister h r)) sid = None"
  by (simp add: unregister_def Let_def)

lemma close_each_gone:
  "jm_get (connections (registry g)) sid = None \<Longrightarrow>
   jm_get (connections (registry (close_each registry run_closer ref cs g))) sid = None"
proof (induction cs arbitrary: g)
  case (Cons c cs)
  have "jm_get (connections (registry (run_closer c g))) sid = None"
    using Cons.prems unregister_keeps_gone by (auto simp: run_closer_def shutdown_def split: option.splits)
  with Cons show ?case by simp
qed simp

text \<open>
  C22. Ending a session ends its relays and only those: revoking a session's connections shuts down
  every relay that is registered for it, closing an open client with code 1008 and the reason
  "session ended", leaves every other relay exactly as it was, and leaves nothing registered for
  the session.
\<close>

theorem revocation_ends_the_sessions_relays:
  assumes cfg: "new_gateway_options t l = Inr cfg" and reach: "gateway_reachable cfg json_parse authorizes g"
  shows "(\<forall>i n. (i, n) \<in> set (registered sid (registry g)) \<longrightarrow>
      (\<exists>r r'. relays g i = Some r \<and> relays (gateway_revoke sid g) i = Some r' \<and> rl_phase r' = RelayClosed
         \<and> readyState (rl_client r') \<noteq> OPEN
         \<and> (rl_phase r \<noteq> RelayClosed \<longrightarrow> readyState (rl_client r) = OPEN \<longrightarrow>
              actions (rl_client r') = actions (rl_client r) @ [CloseFrame 1008 ''session ended''])))
    \<and> (\<forall>i. (\<forall>n. (i, n) \<notin> set (registered sid (registry g))) \<longrightarrow> relays (gateway_revoke sid g) i = relays g i)
    \<and> registry_count sid (registry (gateway_revoke sid g)) = 0"
proof (cases "jm_get (connections (registry g)) sid")
  case None
  then show ?thesis by (simp add: gateway_revoke_def revoke_def registered_def registry_count_def)
next
  case (Some ref)
  note inv = gateway_reachable_inv [OF cfg reach]
  let ?g = "g\<lparr>registry := (registry g)\<lparr>connections := jm_delete sid (connections (registry g))\<rparr>\<rparr>"
  have rev: "gateway_revoke sid g = close_each registry run_closer ref (set_members ref (registry g)) ?g"
    using Some by (simp add: gateway_revoke_def revoke_def)
  have inv': "gateway_inv cfg authorizes {} ?g"
    using inv by (auto simp: gateway_inv_def revoked_inv enrolled_revoked registry_simps)
  have members: "registered sid (registry g) = set_members ref (registry g)" using Some by (simp add: registered_def)
  have after: "relays (gateway_revoke sid g) i =
      (if \<exists>n. (i, n) \<in> set (registered sid (registry g)) then map_option ended (relays g i) else relays g i)" for i
    unfolding rev close_each_relays [OF inv'] members by (simp add: registry_simps)
  have gone: "registry_count sid (registry (gateway_revoke sid g)) = 0"
    using close_each_gone [of ?g sid ref] unfolding rev by (simp add: registry_count_def)
  have closed: "\<exists>r r'. relays g i = Some r \<and> relays (gateway_revoke sid g) i = Some r' \<and> rl_phase r' = RelayClosed
         \<and> readyState (rl_client r') \<noteq> OPEN
         \<and> (rl_phase r \<noteq> RelayClosed \<longrightarrow> readyState (rl_client r) = OPEN \<longrightarrow>
              actions (rl_client r') = actions (rl_client r) @ [CloseFrame 1008 ''session ended''])"
    if n: "(i, n) \<in> set (registered sid (registry g))" for i n
  proof -
    obtain r where r: "relays g i = Some r" using inv n unfolding members gateway_inv_def by blast
    have "relays (gateway_revoke sid g) i = Some (ended r)" using after [of i] n r by auto
    moreover have "rl_phase r = RelayClosed \<Longrightarrow> readyState (rl_client r) \<noteq> OPEN"
      using gateway_invD(1) [OF inv r] by (auto simp: relay_ok_def phases_ok_def)
    ultimately show ?thesis
      using r by (auto simp: ended_def socket_simps closeSocket_def socket_close_def)
  qed
  show ?thesis using closed after gone by auto
qed

subsection \<open>Cleaning up\<close>

text \<open>
  A relay whose client sent at most one valid authentication frame cleans up completely: once
  it was shut down and its attempt to connect has ended, no closer of it is registered, and each
  of its sockets is closed or closing.
\<close>

lemma single_attempt_cleans_up:
  assumes cfg: "new_gateway_options t l = Inr cfg" and reach: "gateway_reachable cfg json_parse authorizes g"
    and r: "relays g i = Some r" and one: "rl_next r \<le> 1" and down: "rl_aborted r" and over: "\<forall>n. rl_attempts r n = None"
  shows "rl_phase r = RelayClosed \<and> readyState (rl_client r) \<noteq> OPEN
    \<and> (\<forall>sid n. (i, n) \<notin> set (registered sid (registry g)))
    \<and> (\<forall>k s. rl_upstreams r k = Some s \<longrightarrow> readyState s \<in> {CLOSING, CLOSED})"
proof -
  note ok = gateway_invD [OF gateway_reachable_inv [OF cfg reach] r]
  have phase: "rl_phase r = RelayClosed" "readyState (rl_client r) \<noteq> OPEN"
    using ok(1) one down over by (auto simp: relay_ok_def phases_ok_def single_ok_def)
  moreover have "(i, n) \<notin> set (set_members ref (registry g))" for ref n
    using ok(2) one phase unfolding enrolled_def by blast
  then have "(i, n) \<notin> set (registered sid (registry g))" for sid n
    by (simp add: registered_def split: option.splits)
  moreover have "readyState s \<in> {CLOSING, CLOSED}" if "rl_upstreams r k = Some s" for k s
    using ok(1) one down that unfolding relay_ok_def single_ok_def by blast
  ultimately show ?thesis by blast
qed

subsection \<open>Example runs\<close>

definition ex_limits :: gateway_options where
  "ex_limits = \<lparr>authenticationTimeoutMs = 5000, maximumBufferedBytes = 1048576\<rparr>"

lemma ex_limits: "new_gateway_options None None = Inr ex_limits"
  by (simp add: new_gateway_options_def or_else_def positiveInteger_def max_safe_integer_def ex_limits_def)

definition ex_token :: string where "ex_token = replicate 43 (CHR ''t'')"

definition ex_client_json :: "nat list \<Rightarrow> json option" where
  "ex_client_json bs =
     (if bs = [2] then Some (JObj [(''type'', JStr ''authenticate''), (''token'', JStr ex_token)]) else None)"

definition ex_authorization :: "string \<Rightarrow> signaling_authorization" where
  "ex_authorization sid = \<lparr>auth_sessionId = sid, auth_tenantId = ''acme'', auth_runtime =
     \<lparr>containerId = sid, containerName = sid, networkNamespace = sid, storageNamespace = sid,
      signalingEndpoint = ''ws://127.0.0.1:9000/internal/v1/signaling'', signalingSecret = [],
      tabControlEndpoint = []\<rparr>\<rparr>"

definition ex_authorizes :: "string \<Rightarrow> signaling_authorization \<Rightarrow> bool" where
  "ex_authorizes token auth \<longleftrightarrow> token = ex_token \<and> (auth = ex_authorization ''a'' \<or> auth = ex_authorization ''b'')"

definition ex_open :: socket where "ex_open = \<lparr>readyState = OPEN, bufferedAmount = 0, actions = []\<rparr>"

abbreviation ex_reachable :: "gateway \<Rightarrow> bool" where
  "ex_reachable \<equiv> gateway_reachable ex_limits ex_client_json ex_authorizes"

lemma ex_frame: "parseAuthenticationFrame ex_client_json (Bytes [2]) False = Some ex_token"
  by code_simp

lemma ex_ready: "rawDataByteLength (ready_frame ''a'') = 32" "rawDataByteLength (ready_frame ''b'') = 32"
  by code_simp+

definition ex_handled :: gateway where
  "ex_handled = new_gateway\<lparr>relays := (relays new_gateway)(0 \<mapsto> new_relay ex_open)\<rparr>"

definition ex_message :: "gateway \<Rightarrow> gateway" where
  "ex_message g = client_message ex_limits ex_client_json 0 (Bytes [2]) False g"

definition ex_connected :: "nat \<Rightarrow> string \<Rightarrow> gateway \<Rightarrow> gateway" where
  "ex_connected n sid g = connected ex_limits 0 n sid (Inr (ex_open, [])) g"

definition ex_authorized :: "nat \<Rightarrow> string \<Rightarrow> gateway \<Rightarrow> gateway" where
  "ex_authorized n sid g = authorized 0 n (Inr (ex_authorization sid)) g"

lemma ex_handled_reachable: "ex_reachable ex_handled"
  unfolding ex_handled_def
  by (rule reachable_step, rule reachable_init, rule refl, rule step_handle) (simp_all add: new_gateway_def ex_open_def)

lemma ex_message_reachable: "ex_reachable g \<Longrightarrow> ex_reachable (ex_message g)"
  unfolding ex_message_def by (erule reachable_step) (rule step_message)

lemma ex_close_reachable: "ex_reachable g \<Longrightarrow> ex_reachable (client_close 0 g)"
  by (erule reachable_step) (rule step_close)

lemma ex_authorized_reachable:
  assumes "ex_reachable g" "relays g 0 = Some r" "rl_attempts r n = Some (Authorizing ex_token)" "sid = ''a'' \<or> sid = ''b''"
  shows "ex_reachable (ex_authorized n sid g)"
  unfolding ex_authorized_def
  by (rule reachable_step [OF assms(1) step_authorized [OF assms(2,3)]]) (use assms(4) in \<open>auto simp: ex_authorizes_def\<close>)

lemma ex_connected_reachable:
  assumes "ex_reachable g" "relays g 0 = Some r" "rl_attempts r n = Some (ConnectingTo (ex_authorization sid) False)"
  shows "ex_reachable (ex_connected n sid g)"
proof -
  have "ex_reachable (connected ex_limits 0 n (auth_sessionId (ex_authorization sid)) (Inr (ex_open, [])) g)"
    by (rule reachable_step [OF assms(1) step_connected [OF assms(2,3)]]) simp
  then show ?thesis by (simp add: ex_connected_def ex_authorization_def)
qed

lemmas ex_run_simps = ex_handled_def ex_message_def ex_authorized_def ex_connected_def new_gateway_def new_relay_def
  client_message_def authorized_def connected_def end_attempt_def forward_def peer_socket_def put_peer_def
  client_close_def shutdown_def close_relay_def closeSocket_def socket_close_def socket_send_def ex_open_def
  ex_limits_def ex_frame ex_ready register_def unregister_def new_registry_def set_members_def js_add_def js_remove_def
  ex_authorization_def Let_def registered_def

text \<open>One client, one token: message, authorisation, connection, disconnection.\<close>

definition ex_waiting :: gateway where "ex_waiting = ex_authorized 0 ''a'' (ex_message ex_handled)"
definition ex_relaying :: gateway where "ex_relaying = ex_connected 0 ''a'' ex_waiting"
definition ex_ended :: gateway where "ex_ended = client_close 0 ex_relaying"

lemma ex_message_state:
  "relays (ex_message ex_handled) 0 = Some ((new_relay ex_open)\<lparr>rl_attempts := [0 \<mapsto> Authorizing ex_token], rl_next := 1\<rparr>)"
  by (simp add: ex_run_simps)

lemma ex_waiting_state:
  "\<exists>r. relays ex_waiting 0 = Some r \<and> rl_attempts r 0 = Some (ConnectingTo (ex_authorization ''a'') False)"
  by (simp add: ex_waiting_def ex_run_simps)

lemma ex_relaying_state:
  "\<exists>r. relays ex_relaying 0 = Some r \<and> rl_phase r = RelayRelaying \<and> rl_client r = socket_send (ready_frame ''a'') False ex_open"
  by (simp add: ex_relaying_def ex_waiting_def ex_run_simps)

lemma ex_relaying_registered: "registered ''a'' (registry ex_relaying) = [(0, 0)]"
  by (simp add: ex_relaying_def ex_waiting_def ex_run_simps)

lemma ex_ended_state:
  "\<exists>r. relays ex_ended 0 = Some r \<and> rl_aborted r \<and> rl_next r = 1 \<and> (\<forall>n. rl_attempts r n = None)
     \<and> rl_client r = closeSocket 1000 ''client disconnected'' (socket_send (ready_frame ''a'') False ex_open)"
  by (simp add: ex_ended_def ex_relaying_def ex_waiting_def ex_run_simps)

lemma ex_relaying_reachable: "ex_reachable ex_relaying"
proof -
  have "ex_reachable ex_waiting"
    unfolding ex_waiting_def
    by (rule ex_authorized_reachable [OF ex_message_reachable [OF ex_handled_reachable] ex_message_state]) simp_all
  with ex_waiting_state show ?thesis unfolding ex_relaying_def by (blast intro: ex_connected_reachable)
qed

lemma ex_ended_reachable: "ex_reachable ex_ended"
  unfolding ex_ended_def by (rule ex_close_reachable [OF ex_relaying_reachable])

theorem clients_hear_ready_first_witness:
  "\<exists>r. relays ex_relaying 0 = Some r \<and> frames (rl_client r) \<noteq> []
     \<and> (\<exists>token auth. ex_authorizes token auth
        \<and> hd (frames (rl_client r)) = (rawDataToBuffer (ready_frame (auth_sessionId auth)), False))"
proof -
  obtain r where r: "relays ex_relaying 0 = Some r" "rl_client r = socket_send (ready_frame ''a'') False ex_open"
    using ex_relaying_state by blast
  then have "frames (rl_client r) \<noteq> []" by simp
  with clients_hear_ready_first [OF ex_limits ex_relaying_reachable r(1)] r(1) show ?thesis by blast
qed

theorem closed_relay_stays_silent_witness:
  "\<exists>r'. relays (upstream_event ex_limits 0 (MessageEvent (Bytes [7]) True) ex_ended) 0 = Some r'
     \<and> frames (rl_client r') = [(rawDataToBuffer (ready_frame ''a''), False)]"
proof -
  obtain r where r: "relays ex_ended 0 = Some r" "rl_aborted r"
      "rl_client r = closeSocket 1000 ''client disconnected'' (socket_send (ready_frame ''a'') False ex_open)"
    using ex_ended_state by blast
  have "rl_upstreams r 0 \<noteq> None" using r(1) by (auto simp: ex_ended_def ex_relaying_def ex_waiting_def ex_run_simps)
  then have "(gateway_step ex_limits ex_client_json ex_authorizes)\<^sup>*\<^sup>* ex_ended
      (upstream_event ex_limits 0 (MessageEvent (Bytes [7]) True) ex_ended)"
    using step_upstream [OF r(1)] by blast
  from closed_relay_stays_silent [OF ex_limits ex_ended_reachable r(1,2) this]
  obtain r' where "relays (upstream_event ex_limits 0 (MessageEvent (Bytes [7]) True) ex_ended) 0 = Some r'"
    "frames (rl_client r') = frames (rl_client r)" by blast
  moreover have "frames ex_open = []" by (simp add: frames_def ex_open_def map_filter_simps)
  ultimately show ?thesis using r(3) by (auto simp: socket_simps)
qed

theorem revocation_ends_the_sessions_relays_witness:
  "\<exists>r'. relays (gateway_revoke ''a'' ex_relaying) 0 = Some r' \<and> rl_phase r' = RelayClosed
     \<and> registry_count ''a'' (registry (gateway_revoke ''a'' ex_relaying)) = 0"
  using revocation_ends_the_sessions_relays [OF ex_limits ex_relaying_reachable, of "''a''"] ex_relaying_registered by auto

lemma single_attempt_cleans_up_witness:
  "\<exists>r. relays ex_ended 0 = Some r \<and> rl_phase r = RelayClosed \<and> (\<forall>sid n. (0, n) \<notin> set (registered sid (registry ex_ended)))"
proof -
  obtain r where r: "relays ex_ended 0 = Some r" "rl_next r \<le> 1" "rl_aborted r" "\<forall>n. rl_attempts r n = None"
    using ex_ended_state by auto
  from single_attempt_cleans_up [OF ex_limits ex_ended_reachable r] r(1) show ?thesis by blast
qed

text \<open>
  The condition of a single attempt matters. While the first authorisation is pending the relay
  still accepts authentication frames, so a client with tokens of two sessions starts two
  attempts: after it disconnected and both attempts ended, the upstream socket of the first
  session is still open, and its closer is still registered.
\<close>

lemma second_authentication_leaks_upstream:
  "\<exists>g r s. gateway_reachable ex_limits ex_client_json ex_authorizes g
     \<and> relays g 0 = Some r \<and> rl_phase r = RelayClosed \<and> rl_aborted r \<and> (\<forall>n. rl_attempts r n = None)
     \<and> rl_upstreams r 0 = Some s \<and> readyState s = OPEN \<and> registered ''a'' (registry g) = [(0, 0)]"
proof -
  define g2 where "g2 = ex_message (ex_message ex_handled)"
  define g3 where "g3 = ex_authorized 0 ''a'' g2"
  define g4 where "g4 = ex_authorized 1 ''b'' g3"
  define g5 where "g5 = ex_connected 0 ''a'' g4"
  define g6 where "g6 = ex_connected 1 ''b'' g5"
  note runs = g2_def g3_def g4_def g5_def g6_def
  have r2: "\<exists>r. relays g2 0 = Some r \<and> rl_attempts r 0 = Some (Authorizing ex_token)"
    by (simp add: runs ex_run_simps)
  have r3: "\<exists>r. relays g3 0 = Some r \<and> rl_attempts r 1 = Some (Authorizing ex_token)"
    by (simp add: runs ex_run_simps)
  have r4: "\<exists>r. relays g4 0 = Some r \<and> rl_attempts r 0 = Some (ConnectingTo (ex_authorization ''a'') False)"
    by (simp add: runs ex_run_simps)
  have r5: "\<exists>r. relays g5 0 = Some r \<and> rl_attempts r 1 = Some (ConnectingTo (ex_authorization ''b'') False)"
    by (simp add: runs ex_run_simps)
  have "ex_reachable g2" unfolding g2_def by (intro ex_message_reachable ex_handled_reachable)
  with r2 have "ex_reachable g3" unfolding g3_def by (blast intro: ex_authorized_reachable)
  with r3 have "ex_reachable g4" unfolding g4_def by (blast intro: ex_authorized_reachable)
  with r4 have "ex_reachable g5" unfolding g5_def by (blast intro: ex_connected_reachable)
  with r5 have "ex_reachable g6" unfolding g6_def by (blast intro: ex_connected_reachable)
  then have "ex_reachable (client_close 0 g6)" by (rule ex_close_reachable)
  moreover have "\<exists>r s. relays (client_close 0 g6) 0 = Some r \<and> rl_phase r = RelayClosed \<and> rl_aborted r
     \<and> (\<forall>n. rl_attempts r n = None) \<and> rl_upstreams r 0 = Some s \<and> readyState s = OPEN
     \<and> registered ''a'' (registry (client_close 0 g6)) = [(0, 0)]"
    by (simp add: runs ex_run_simps)
  ultimately show ?thesis by blast
qed

end
