(* ===== verification/IceConfiguration.thy ===== *)
theory IceConfiguration
  imports TabControl "HOL-Library.Word"
begin

text \<open>
  \<open>session/supervisor.mjs\<close>, first part: the ICE servers. The configuration file is checked
  and parsed, and each TURN server becomes one URI for the native runtime. \<open>JSON.parse\<close> of
  the file's bytes is an argument; \<open>undefined\<close> is \<open>None\<close>.
\<close>

unbundle bit_operations_syntax

subsection \<open>isIP of node:net\<close>

text \<open>
  The library's two expressions, read as a grammar. An IPv4 address is four decimal octets
  without leading zeros. An IPv6 address has eight groups, or at most seven around one
  \<open>::\<close>; an IPv4 address may stand for the last two groups, and a zone may follow.
\<close>

definition is_octet :: "string \<Rightarrow> bool" where
  "is_octet s = (s \<noteq> [] \<and> length s \<le> 3 \<and> list_all is_digit s \<and> digits_value s \<le> 255
     \<and> (hd s = CHR ''0'' \<longrightarrow> length s = 1))"

definition is_ipv4 :: "string \<Rightarrow> bool" where
  "is_ipv4 s = (length (split_on (CHR ''.'') s) = 4 \<and> list_all is_octet (split_on (CHR ''.'') s))"

definition is_hex_char :: "char \<Rightarrow> bool" where
  "is_hex_char c = (is_digit c \<or> (97 \<le> code c \<and> code c \<le> 102) \<or> (65 \<le> code c \<and> code c \<le> 70))"

definition is_ipv6_group :: "string \<Rightarrow> bool" where
  "is_ipv6_group s = (s \<noteq> [] \<and> length s \<le> 4 \<and> list_all is_hex_char s)"

fun count_groups :: "bool \<Rightarrow> string list \<Rightarrow> nat option" where
  "count_groups v4 [] = Some 0"
| "count_groups v4 [g] = (if is_ipv6_group g then Some 1 else if v4 \<and> is_ipv4 g then Some 2 else None)"
| "count_groups v4 (g # h # gs) = (if is_ipv6_group g then map_option Suc (count_groups v4 (h # gs)) else None)"

definition ipv6_groups :: "bool \<Rightarrow> string \<Rightarrow> nat option" where
  "ipv6_groups v4 s = (if s = [] then Some 0 else count_groups v4 (split_on (CHR '':'') s))"

fun cut_double_colon :: "string \<Rightarrow> (string \<times> string) option" where
  "cut_double_colon (a # b # s) =
     (if a = CHR '':'' \<and> b = CHR '':'' then Some ([], s)
      else map_option (\<lambda>(l, r). (a # l, r)) (cut_double_colon (b # s)))"
| "cut_double_colon _ = None"

definition is_ipv6_address :: "string \<Rightarrow> bool" where
  "is_ipv6_address s =
     (case cut_double_colon s of
        None \<Rightarrow> s \<noteq> [] \<and> ipv6_groups True s = Some 8
      | Some (l, r) \<Rightarrow>
          (case (ipv6_groups False l, ipv6_groups True r) of
             (Some m, Some n) \<Rightarrow> m + n \<le> 7
           | _ \<Rightarrow> False))"

definition is_zone_char :: "char \<Rightarrow> bool" where
  "is_zone_char c = (is_alnum c \<or> c \<in> set ''-.:'')"

definition is_zone :: "string \<Rightarrow> bool" where
  "is_zone z = (z = [] \<or> (2 \<le> length z \<and> list_all is_zone_char (tl z)))"

definition is_ipv6 :: "string \<Rightarrow> bool" where
  "is_ipv6 s = (is_ipv6_address (takeWhile (\<lambda>c. c \<noteq> CHR ''%'') s) \<and> is_zone (dropWhile (\<lambda>c. c \<noteq> CHR ''%'') s))"

definition isIP :: "string \<Rightarrow> nat" where
  "isIP s = (if is_ipv4 s then 4 else if is_ipv6 s then 6 else 0)"

definition lower_char :: "char \<Rightarrow> char" where
  "lower_char c =
     (if is_upper c \<or> (192 \<le> code c \<and> code c \<le> 222 \<and> code c \<noteq> 215) then char_of (code c + 32) else c)"

definition toLowerCase :: "string \<Rightarrow> string" where
  "toLowerCase s = map lower_char s"

subsection \<open>Hosts, ports and credentials\<close>

definition is_host_label :: "string \<Rightarrow> bool" where
  "is_host_label l =
     (l \<noteq> [] \<and> length l \<le> 63 \<and> list_all (\<lambda>c. is_lower c \<or> is_digit c \<or> c = CHR ''-'') l
      \<and> hd l \<noteq> CHR ''-'' \<and> last l \<noteq> CHR ''-'')"

definition is_host_name :: "string \<Rightarrow> bool" where
  "is_host_name s = (1 \<le> length s \<and> length s \<le> 253 \<and> list_all is_host_label (split_on (CHR ''.'') s))"

definition assertObjectWithExactKeys :: "json \<Rightarrow> string list \<Rightarrow> string \<Rightarrow> thrown + unit" where
  "assertObjectWithExactKeys value keys label =
     (if \<not> json_object value \<or> sorted_keys value \<noteq> join_with '','' (sort_strings keys)
      then Inl (PlainError (label @ '' must contain only '' @ join_with '', '' keys)) else Inr ())"

definition invalid_ice_host :: thrown where
  "invalid_ice_host = PlainError ''ICE server host is invalid''"

definition validateIceHost :: "json option \<Rightarrow> thrown + string" where
  "validateIceHost value =
     (case value of
        Some (JStr s) \<Rightarrow>
          if length s < 1 \<or> length s > 253 then Inl invalid_ice_host
          else if isIP s = 4 \<or> isIP s = 6 then (if s \<noteq> toLowerCase s then Inl invalid_ice_host else Inr s)
          else if s \<noteq> toLowerCase s \<or> \<not> is_host_name s then Inl invalid_ice_host
          else Inr s
      | _ \<Rightarrow> Inl invalid_ice_host)"

definition validateIcePort :: "json option \<Rightarrow> thrown + int" where
  "validateIcePort value =
     (case value of
        Some (JNum (Integer n)) \<Rightarrow>
          if n < 1 \<or> n > 65535 then Inl (PlainError ''ICE server port must be between 1 and 65535'') else Inr n
      | _ \<Rightarrow> Inl (PlainError ''ICE server port must be between 1 and 65535''))"

text \<open>\<open>/^[\x21-\x7e]+$/\<close>, and the characters \<open>encodeURIComponent\<close> leaves but the code escapes.\<close>

definition is_printable :: "char \<Rightarrow> bool" where
  "is_printable c = (33 \<le> code c \<and> code c \<le> 126)"

definition escape_sub_delimiter :: "char \<Rightarrow> string" where
  "escape_sub_delimiter c = (if c \<in> set ''!()*'' \<or> code c = 39 then percent_byte (code c) else [c])"

definition encodeIceCredential :: "json option \<Rightarrow> string \<Rightarrow> nat \<Rightarrow> thrown + string" where
  "encodeIceCredential value label maximumLength =
     (case value of
        Some (JStr s) \<Rightarrow>
          if length s < 1 \<or> length s > maximumLength \<or> \<not> list_all is_printable s
          then Inl (PlainError (''TURN server '' @ label @ '' must contain printable ASCII without spaces''))
          else Inr (concat (map escape_sub_delimiter (encodeURIComponent s)))
      | _ \<Rightarrow> Inl (PlainError (''TURN server '' @ label @ '' must contain printable ASCII without spaces'')))"

definition serializeIceHost :: "string \<Rightarrow> string" where
  "serializeIceHost host = (if isIP host = 6 then ''['' @ host @ '']'' else host)"

subsection \<open>Servers\<close>

definition validateStunServer :: "json \<Rightarrow> thrown + string" where
  "validateStunServer value =
     bind_result (assertObjectWithExactKeys value [''host'', ''port''] ''STUN server'') (\<lambda>_.
     bind_result (validateIceHost (json_field value ''host'')) (\<lambda>host.
     bind_result (validateIcePort (json_field value ''port'')) (\<lambda>port.
     Inr (''stun://'' @ serializeIceHost host @ '':'' @ show_int port))))"

definition validateTurnServer :: "json \<Rightarrow> thrown + string" where
  "validateTurnServer value =
     bind_result (assertObjectWithExactKeys value [''host'', ''password'', ''port'', ''scheme'', ''username''] ''TURN server'') (\<lambda>_.
     case json_field value ''scheme'' of
       Some (JStr scheme) \<Rightarrow>
         if \<not> (scheme = ''turn'' \<or> scheme = ''turns'') then Inl (PlainError ''TURN server scheme must be turn or turns'')
         else
           bind_result (validateIceHost (json_field value ''host'')) (\<lambda>host.
           bind_result (validateIcePort (json_field value ''port'')) (\<lambda>port.
           bind_result (encodeIceCredential (json_field value ''username'') ''username'' 128) (\<lambda>username.
           bind_result (encodeIceCredential (json_field value ''password'') ''password'' 256) (\<lambda>password.
           Inr (scheme @ ''://'' @ username @ '':'' @ password @ ''@'' @ serializeIceHost host @ '':'' @ show_int port)))))
     | _ \<Rightarrow> Inl (PlainError ''TURN server scheme must be turn or turns''))"

record ice_configuration =
  stunServer :: string
  turnServers :: "string list"
  iceTransportPolicy :: string

definition expected_ice_keys :: "json \<Rightarrow> string list" where
  "expected_ice_keys parsed =
     (if json_field parsed ''stun_server'' = None then [''ice_transport_policy'', ''schema_version'', ''turn_servers'']
      else [''ice_transport_policy'', ''schema_version'', ''stun_server'', ''turn_servers''])"

definition parseIceServerConfiguration :: "(nat list \<Rightarrow> json option) \<Rightarrow> nat list \<Rightarrow> thrown + ice_configuration" where
  "parseIceServerConfiguration json_parse source =
     (case json_parse source of
        None \<Rightarrow> Inl (PlainError ''ICE server configuration must be valid JSON'')
      | Some parsed \<Rightarrow>
          if \<not> json_object parsed then Inl (PlainError ''ICE server configuration must be an object'')
          else if sorted_keys parsed \<noteq> join_with '','' (sort_strings (expected_ice_keys parsed))
          then Inl (PlainError ''ICE server configuration contains unsupported fields'')
          else if json_field parsed ''schema_version'' \<noteq> Some (JNum (Integer 1))
          then Inl (PlainError ''ICE server configuration schema_version must be 1'')
          else
            (case json_field parsed ''turn_servers'' of
               Some (JArr values) \<Rightarrow>
                 if length values < 1 \<or> length values > 4
                 then Inl (PlainError ''ICE server configuration must contain one to four TURN servers'')
                 else
                   bind_result (map_result validateTurnServer values) (\<lambda>servers.
                   if length (remdups servers) \<noteq> length servers
                   then Inl (PlainError ''ICE server configuration TURN servers must be unique'')
                   else
                     bind_result
                       (case json_field parsed ''stun_server'' of None \<Rightarrow> Inr [] | Some v \<Rightarrow> validateStunServer v)
                       (\<lambda>stun.
                       case json_field parsed ''ice_transport_policy'' of
                         Some (JStr policy) \<Rightarrow>
                           if policy \<notin> {''all'', ''relay''} then Inl (PlainError ''ICE transport policy must be all or relay'')
                           else Inr \<lparr>stunServer = stun, turnServers = servers, iceTransportPolicy = policy\<rparr>
                       | _ \<Rightarrow> Inl (PlainError ''ICE transport policy must be all or relay'')))
             | _ \<Rightarrow> Inl (PlainError ''ICE server configuration must contain one to four TURN servers'')))"

subsection \<open>The file\<close>

definition MAX_ICE_CONFIGURATION_BYTES :: int where
  "MAX_ICE_CONFIGURATION_BYTES = 16 * 1024"

record ice_metadata =
  meta_isFile :: bool
  meta_size :: int
  meta_uid :: int
  meta_gid :: int
  meta_mode :: "32 word"

definition validateIceServerFileMetadata :: "ice_metadata \<Rightarrow> thrown + unit" where
  "validateIceServerFileMetadata m =
     (if \<not> meta_isFile m then Inl (PlainError ''ICE server configuration must be a regular file'')
      else if meta_size m < 2 \<or> meta_size m > MAX_ICE_CONFIGURATION_BYTES
      then Inl (PlainError ''ICE server configuration has an unsafe size'')
      else if meta_uid m \<noteq> 0 \<or> meta_gid m \<noteq> 10001 \<or> meta_mode m AND 0x1FF \<noteq> 0x120
      then Inl (PlainError ''ICE server configuration must be owned by root:10001 with mode 0440'')
      else Inr ())"

text \<open>
  Opening the path without following a symbolic link either throws or yields the file's
  metadata and contents.
\<close>

definition loadIceServerConfiguration ::
  "(nat list \<Rightarrow> json option) \<Rightarrow> (string \<Rightarrow> thrown + ice_metadata \<times> nat list) \<Rightarrow> string \<Rightarrow> thrown + ice_configuration" where
  "loadIceServerConfiguration json_parse open_file filePath =
     bind_result (open_file filePath) (\<lambda>(metadata, contents).
     bind_result (validateIceServerFileMetadata metadata) (\<lambda>_.
     parseIceServerConfiguration json_parse contents))"

end
