(* ===== verification/Supervisor.thy ===== *)
theory Supervisor
  imports IceConfiguration
begin

text \<open>
  \<open>session/supervisor.mjs\<close>, second part: the container's configuration, the arguments of the
  native runtime, and the start and end of the supervisor process. The environment is a map
  from names to texts; the URL parser, the file and the installed GStreamer elements are
  arguments. The directories that \<open>main\<close> creates and its output are not modelled.
\<close>

type_synonym environment = "string \<Rightarrow> string option"

definition SECRET_VARIABLE :: string where "SECRET_VARIABLE = ''FIREBALL_INTERNAL_SIGNALING_SECRET''"
definition PROFILE_VARIABLE :: string where "PROFILE_VARIABLE = ''FIREBALL_STREAM_PROFILE''"
definition START_URL_VARIABLE :: string where "START_URL_VARIABLE = ''FIREBALL_START_URL''"
definition ICE_SERVERS_VARIABLE :: string where "ICE_SERVERS_VARIABLE = ''FIREBALL_ICE_SERVERS_FILE''"

lemmas variable_defs = SECRET_VARIABLE_def PROFILE_VARIABLE_def START_URL_VARIABLE_def ICE_SERVERS_VARIABLE_def

definition ICE_CONFIGURATION_PATH :: string where
  "ICE_CONFIGURATION_PATH = ''/run/fireball-secrets/ice-servers.json''"

text \<open>A field that an object does not have is undefined.\<close>

record stream_profile =
  profile_width :: "nat option"
  profile_height :: "nat option"
  profile_fps :: "nat option"
  profile_bitrate :: "nat option"

definition stream_profile_of :: "nat \<Rightarrow> nat \<Rightarrow> nat \<Rightarrow> nat \<Rightarrow> stream_profile" where
  "stream_profile_of w h f b =
     \<lparr>profile_width = Some w, profile_height = Some h, profile_fps = Some f, profile_bitrate = Some b\<rparr>"

definition PROFILE_CONFIGURATION :: "(string \<times> stream_profile) list" where
  "PROFILE_CONFIGURATION =
     [(''1080p30'', stream_profile_of 1920 1080 30 6000000),
      (''720p15'', stream_profile_of 1280 720 15 3000000),
      (''480p10'', stream_profile_of 854 480 10 1200000)]"

text \<open>
  Reading \<open>PROFILE_CONFIGURATION[name]\<close> also finds what every object inherits; none of these
  members has a field of a profile.
\<close>

definition OBJECT_PROTOTYPE_MEMBERS :: "string list" where
  "OBJECT_PROTOTYPE_MEMBERS =
     [''constructor'', ''__defineGetter__'', ''__defineSetter__'', ''hasOwnProperty'', ''__lookupGetter__'',
      ''__lookupSetter__'', ''isPrototypeOf'', ''propertyIsEnumerable'', ''toString'', ''valueOf'', ''__proto__'',
      ''toLocaleString'']"

definition inherited_member :: stream_profile where
  "inherited_member = \<lparr>profile_width = None, profile_height = None, profile_fps = None, profile_bitrate = None\<rparr>"

definition profile_named :: "string \<Rightarrow> stream_profile option" where
  "profile_named name =
     (case map_of PROFILE_CONFIGURATION name of
        Some p \<Rightarrow> Some p
      | None \<Rightarrow> if name \<in> set OBJECT_PROTOTYPE_MEMBERS then Some inherited_member else None)"

subsection \<open>parseConfiguration\<close>

definition validateIceConfigurationPath :: "string \<Rightarrow> thrown + string" where
  "validateIceConfigurationPath value =
     (if value \<noteq> ICE_CONFIGURATION_PATH
      then Inl (PlainError (''FIREBALL_ICE_SERVERS_FILE must be '' @ ICE_CONFIGURATION_PATH)) else Inr value)"

definition validateStartUrl :: "url_parser \<Rightarrow> string \<Rightarrow> thrown + string" where
  "validateStartUrl parse value =
     (case parse value of
        None \<Rightarrow> Inl (PlainError ''FIREBALL_START_URL must be an absolute URL'')
      | Some u \<Rightarrow>
          if url_username u \<noteq> [] \<or> url_password u \<noteq> []
          then Inl (PlainError ''FIREBALL_START_URL must not contain credentials'')
          else if url_protocol u = ''file:'' then
            (if url_href u \<noteq> INTERNAL_HOME
             then Inl (PlainError ''FIREBALL_START_URL may only use the packaged file route'') else Inr (url_href u))
          else if url_protocol u \<notin> {''http:'', ''https:''}
          then Inl (PlainError ''FIREBALL_START_URL scheme is unsupported'')
          else Inr (url_href u))"

record supervisor_configuration =
  sup_secret :: string
  sup_profileName :: string
  sup_profile :: stream_profile
  sup_startUrl :: string
  sup_ice :: ice_configuration

definition no_ice_servers :: ice_configuration where
  "no_ice_servers = \<lparr>stunServer = [], turnServers = [], iceTransportPolicy = ''all''\<rparr>"

definition parseConfiguration ::
  "url_parser \<Rightarrow> (string \<Rightarrow> thrown + ice_configuration) \<Rightarrow> environment \<Rightarrow> thrown + supervisor_configuration" where
  "parseConfiguration parse load env =
     (case env SECRET_VARIABLE of
        None \<Rightarrow> Inl (PlainError ''FIREBALL_INTERNAL_SIGNALING_SECRET must contain 256 bits in base64url form'')
      | Some secret \<Rightarrow>
          if \<not> is_credential secret
          then Inl (PlainError ''FIREBALL_INTERNAL_SIGNALING_SECRET must contain 256 bits in base64url form'')
          else
            let profileName = or_else (env PROFILE_VARIABLE) ''720p15'' in
            (case profile_named profileName of
               None \<Rightarrow> Inl (PlainError ''FIREBALL_STREAM_PROFILE is unsupported'')
             | Some profile \<Rightarrow>
                 bind_result (validateStartUrl parse (or_else (env START_URL_VARIABLE) INTERNAL_HOME)) (\<lambda>startUrl.
                 bind_result
                   (case env ICE_SERVERS_VARIABLE of
                      None \<Rightarrow> Inr no_ice_servers
                    | Some path \<Rightarrow> bind_result (validateIceConfigurationPath path) load)
                   (\<lambda>ice.
                   Inr \<lparr>sup_secret = secret, sup_profileName = profileName, sup_profile = profile,
                        sup_startUrl = startUrl, sup_ice = ice\<rparr>))))"

definition childEnvironment :: "environment \<Rightarrow> environment" where
  "childEnvironment env = env(SECRET_VARIABLE := None, ICE_SERVERS_VARIABLE := None)"

subsection \<open>The native runtime's arguments\<close>

definition show_field :: "nat option \<Rightarrow> string" where
  "show_field v = (case v of None \<Rightarrow> ''undefined'' | Some n \<Rightarrow> show_nat n)"

definition turn_servers_argument :: "string list \<Rightarrow> string" where
  "turn_servers_argument servers =
     (if servers = [] then []
      else ''<'' @ join_with '','' (map (\<lambda>server. [CHR 0x22] @ server @ [CHR 0x22]) servers) @ ''>'')"

text \<open>The URL goes through \<open>encodeUrl\<close>, which may throw.\<close>

definition runtimeArguments :: "url_parser \<Rightarrow> supervisor_configuration \<Rightarrow> string \<Rightarrow> tab_control_error + string list" where
  "runtimeArguments parse c initialTabId =
     (case encodeUrl parse (sup_startUrl c) of
        Inl e \<Rightarrow> Inl e
      | Inr url_hex \<Rightarrow> Inr
          [''--width'', show_field (profile_width (sup_profile c)),
           ''--height'', show_field (profile_height (sup_profile c)),
           ''--fps'', show_field (profile_fps (sup_profile c)),
           ''--bitrate'', show_field (profile_bitrate (sup_profile c)),
           ''--initial-tab-id'', initialTabId,
           ''--initial-url-hex'', url_hex,
           ''--stun-server'', stunServer (sup_ice c),
           ''--turn-servers'', turn_servers_argument (turnServers (sup_ice c)),
           ''--ice-policy'', iceTransportPolicy (sup_ice c),
           ''--control-output-fd'', ''3''])"

subsection \<open>main\<close>

definition required_elements :: "string list" where
  "required_elements =
     [''wpesrc'', ''input-selector'', ''webrtcsink'', ''openh264enc'', ''h264parse'', ''opusenc'', ''audiotestsrc'',
      ''audiomixer'', ''nicesrc'']"

definition preflight :: "(string \<Rightarrow> bool) \<Rightarrow> thrown + unit" where
  "preflight available =
     (case find (\<lambda>element. \<not> available element) required_elements of
        None \<Rightarrow> Inr ()
      | Some element \<Rightarrow> Inl (PlainError (''required GStreamer element is unavailable: '' @ element)))"

record launch =
  launch_command :: string
  launch_arguments :: "string list"
  launch_environment :: environment
  launch_configuration :: supervisor_configuration

fun thrown_message :: "thrown \<Rightarrow> string" where
  "thrown_message (Orchestrator e) = err_message e"
| "thrown_message (PlainError m) = m"

fun control_error_message :: "tab_control_error \<Rightarrow> string" where
  "control_error_message (TabControlError _ m) = m"
| "control_error_message (ControlFailure m) = m"

text \<open>\<open>main\<close> up to \<open>spawn\<close>; what it throws ends the process with the error's message.\<close>

definition main_launch ::
  "url_parser \<Rightarrow> (string \<Rightarrow> thrown + ice_configuration) \<Rightarrow> (string \<Rightarrow> bool) \<Rightarrow> environment \<Rightarrow> string \<Rightarrow> string + launch" where
  "main_launch parse load available env uuid =
     (case parseConfiguration parse load env of
        Inl e \<Rightarrow> Inl (thrown_message e)
      | Inr c \<Rightarrow>
          (case preflight available of
             Inl e \<Rightarrow> Inl (thrown_message e)
           | Inr _ \<Rightarrow>
               (case runtimeArguments parse c uuid of
                  Inl e \<Rightarrow> Inl (control_error_message e)
                | Inr args \<Rightarrow> Inr
                    \<lparr>launch_command = ''/usr/bin/fireball-session-runtime'', launch_arguments = args,
                     launch_environment = childEnvironment env, launch_configuration = c\<rparr>)))"

text \<open>
  The end of the process. \<open>shutdown\<close> waits for the proxy to close before it stops the
  driver, so it is cut in two; \<open>closing\<close> holds the exit code of the shutdown that waits.
\<close>

record main_state =
  main_driver :: native_driver
  shuttingDown :: bool
  main_closing :: "int option"
  killTimer :: bool
  exitCode :: "int option"

datatype main_event = ChildError | ChildExit | SigTerm | SigInt | ProxyClosed

definition main_shutdown :: "int \<Rightarrow> main_state \<Rightarrow> main_state" where
  "main_shutdown n s = (if shuttingDown s then s else s\<lparr>shuttingDown := True, main_closing := Some n\<rparr>)"

definition main_closed :: "main_state \<Rightarrow> main_state" where
  "main_closed s =
     (case main_closing s of
        None \<Rightarrow> s
      | Some n \<Rightarrow> s\<lparr>main_driver := driver_shutdown (main_driver s), main_closing := None,
                    killTimer := (killTimer s \<or> \<not> child_gone (main_driver s)), exitCode := Some n\<rparr>)"

fun main_step :: "main_event \<Rightarrow> main_state \<Rightarrow> main_state" where
  "main_step ChildError s = main_shutdown 1 s"
| "main_step ChildExit s =
     (let s' = s\<lparr>main_driver := (main_driver s)\<lparr>child_gone := True\<rparr>\<rparr>
      in if shuttingDown s' then s' else main_shutdown 1 s')"
| "main_step SigTerm s = main_shutdown 0 s"
| "main_step SigInt s = main_shutdown 0 s"
| "main_step ProxyClosed s = main_closed s"

end
