(* ===== verification/IceProperties.thy ===== *)
theory IceProperties
  imports IceConfiguration
begin

text \<open>
  What an accepted TURN server looks like: the characters of its parts, the way back from its
  URI to the configured values, and the limits of an accepted configuration.
\<close>

subsection \<open>Characters\<close>

definition is_host_char :: "char \<Rightarrow> bool" where
  "is_host_char c = (is_alnum c \<or> c \<in> set ''-.:%'')"

definition is_kept_char :: "char \<Rightarrow> bool" where
  "is_kept_char c = (is_alnum c \<or> c \<in> set ''-_.~'')"

definition is_encoded_char :: "char \<Rightarrow> bool" where
  "is_encoded_char c = (is_kept_char c \<or> c = CHR ''%'')"

definition is_uri_char :: "char \<Rightarrow> bool" where
  "is_uri_char c = (is_alnum c \<or> c \<in> set ''-_.~%:@/[]'')"

named_theorems ice_chars \<open>inclusions between the character classes of ICE URIs\<close>

lemma host_uri_char [ice_chars]: "is_host_char c \<Longrightarrow> is_uri_char c"
  by (auto simp: is_host_char_def is_uri_char_def)

lemma encoded_uri_char [ice_chars]: "is_encoded_char c \<Longrightarrow> is_uri_char c"
  by (auto simp: is_encoded_char_def is_kept_char_def is_uri_char_def)

lemma digit_uri_char [ice_chars]: "is_digit c \<Longrightarrow> is_uri_char c" "is_digit c \<Longrightarrow> is_host_char c"
  by (auto simp: is_uri_char_def is_host_char_def is_alnum_def)

lemma hex_host_char [ice_chars]: "is_hex_char c \<Longrightarrow> is_host_char c"
  by (auto simp: is_hex_char_def is_host_char_def is_alnum_def is_lower_def is_upper_def)

lemma zone_host_char [ice_chars]: "is_zone_char c \<Longrightarrow> is_host_char c"
  by (auto simp: is_zone_char_def is_host_char_def)

lemma list_all_split_on: "list_all (list_all P) (split_on sep s) \<Longrightarrow> P sep \<Longrightarrow> list_all P s"
  by (induction s) (auto split: if_splits list.splits)

lemma host_separator [simp]:
  "is_host_char (CHR ''-'')" "is_host_char (CHR ''.'')" "is_host_char (CHR '':'')" "is_host_char (CHR ''%'')"
  by (simp_all add: is_host_char_def)

lemma is_ipv4_chars: "is_ipv4 s \<Longrightarrow> list_all is_host_char s"
  by (rule list_all_split_on [of _ "CHR ''.''"])
    (auto simp: is_ipv4_def is_octet_def list_all_iff intro: ice_chars)

lemma is_ipv6_group_chars: "is_ipv6_group s \<Longrightarrow> list_all is_host_char s"
  by (auto simp: is_ipv6_group_def list_all_iff intro: ice_chars)

lemma count_groups_chars: "count_groups v4 gs = Some n \<Longrightarrow> list_all (list_all is_host_char) gs"
  by (induction v4 gs arbitrary: n rule: count_groups.induct)
    (auto split: if_splits simp: is_ipv6_group_chars is_ipv4_chars)

lemma ipv6_groups_chars: "ipv6_groups v4 s = Some n \<Longrightarrow> list_all is_host_char s"
  by (cases "s = []")
    (auto simp: ipv6_groups_def dest!: count_groups_chars intro: list_all_split_on [of _ "CHR '':''"])

lemma cut_double_colon_Some: "cut_double_colon s = Some (l, r) \<Longrightarrow> s = l @ ''::'' @ r"
  by (induction s arbitrary: l r rule: cut_double_colon.induct) (auto split: if_splits)

lemma is_ipv6_address_chars:
  assumes "is_ipv6_address s" shows "list_all is_host_char s"
proof (cases "cut_double_colon s")
  case None
  with assms show ?thesis by (auto simp: is_ipv6_address_def intro: ipv6_groups_chars)
next
  case (Some p)
  then obtain l r where p: "cut_double_colon s = Some (l, r)" by (cases p) auto
  with assms have "list_all is_host_char l" "list_all is_host_char r"
    by (auto simp: is_ipv6_address_def split: option.splits dest: ipv6_groups_chars)
  with cut_double_colon_Some [OF p] show ?thesis by simp
qed

lemma is_ipv6_chars:
  assumes "is_ipv6 s" shows "list_all is_host_char s"
proof -
  let ?p = "\<lambda>c. c \<noteq> CHR ''%''"
  have t: "list_all is_host_char (takeWhile ?p s)"
    using assms by (auto simp: is_ipv6_def intro: is_ipv6_address_chars)
  have d: "list_all is_host_char (dropWhile ?p s)"
  proof (cases "dropWhile ?p s")
    case (Cons c z)
    then have c: "c = CHR ''%''" using hd_dropWhile [of ?p s] by simp
    have "list_all is_zone_char z" using assms Cons by (auto simp: is_ipv6_def is_zone_def)
    with Cons c show ?thesis by (auto simp: list_all_iff intro: ice_chars)
  next
    case Nil
    show ?thesis unfolding Nil by simp
  qed
  have "list_all is_host_char (takeWhile ?p s @ dropWhile ?p s)"
    using t d unfolding list_all_append by simp
  then show ?thesis by (simp only: takeWhile_dropWhile_id)
qed

lemma is_host_name_chars: "is_host_name s \<Longrightarrow> list_all is_host_char s"
  by (rule list_all_split_on [of _ "CHR ''.''"])
    (auto simp: is_host_name_def is_host_label_def list_all_iff is_alnum_def is_host_char_def [of "_ :: char"])

lemma validateIceHost_Inr:
  assumes "validateIceHost v = Inr h"
  shows "v = Some (JStr h)" and "list_all is_host_char h"
  using assms
  by (auto simp: validateIceHost_def isIP_def split: option.splits json.splits if_splits
    intro: is_ipv4_chars is_ipv6_chars is_host_name_chars)

lemma validateIcePort_Inr: "validateIcePort v = Inr n \<longleftrightarrow> v = Some (JNum (Integer n)) \<and> 1 \<le> n \<and> n \<le> 65535"
  by (auto simp: validateIcePort_def split: option.splits json.splits number.splits)

subsection \<open>Credentials\<close>

lemma hex_digit_upper_kept: "b < 16 \<Longrightarrow> is_kept_char (hex_digit_upper b)"
  by (auto simp: is_kept_char_def hex_digit_upper_def is_alnum_def is_digit_def is_upper_def)

lemma escape_kept: "is_kept_char c \<Longrightarrow> escape_sub_delimiter c = [c]"
  by (auto simp: escape_sub_delimiter_def is_kept_char_def js_text_simps)

lemma escape_percent: "escape_sub_delimiter (CHR ''%'') = ''%''"
  by (simp add: escape_sub_delimiter_def code_def)

lemma percent_byte_encoded:
  assumes "b < 256" shows "list_all is_encoded_char (percent_byte b)"
    and "concat (map escape_sub_delimiter (percent_byte b)) = percent_byte b"
proof -
  have "b div 16 < 16" using assms by auto
  then show "list_all is_encoded_char (percent_byte b)"
    and "concat (map escape_sub_delimiter (percent_byte b)) = percent_byte b"
    by (simp_all add: percent_byte_def is_encoded_char_def hex_digit_upper_kept escape_percent escape_kept)
qed

definition ice_char :: "char \<Rightarrow> string" where
  "ice_char c = (if is_kept_char c then [c] else percent_byte (code c))"

lemma escape_encode_char:
  assumes "is_printable c"
  shows "concat (map escape_sub_delimiter (if is_unreserved c then [c] else concat (map percent_byte (utf8_char c)))) = ice_char c"
proof -
  have u: "utf8_char c = [code c]" and b: "code c < 256"
    using assms by (auto simp: is_printable_def utf8_char_def)
  show ?thesis
  proof (cases "is_kept_char c")
    case True
    then have "is_unreserved c" by (auto simp: is_kept_char_def is_unreserved_def)
    with True show ?thesis by (simp add: ice_char_def escape_kept)
  next
    case False
    show ?thesis
    proof (cases "is_unreserved c")
      case True
      with False have "c \<in> set ''!()*'' \<or> code c = 39" by (auto simp: is_kept_char_def is_unreserved_def)
      with True False show ?thesis by (simp add: ice_char_def escape_sub_delimiter_def)
    next
      case not: False
      with False u percent_byte_encoded(2) [OF b] show ?thesis by (simp add: ice_char_def)
    qed
  qed
qed

lemma escape_encode:
  "list_all is_printable s \<Longrightarrow> concat (map escape_sub_delimiter (encodeURIComponent s)) = concat (map ice_char s)"
proof (induction s)
  case (Cons c s)
  then have "concat (map escape_sub_delimiter (encodeURIComponent s)) = concat (map ice_char s)"
    and "is_printable c" by simp_all
  with escape_encode_char [of c] show ?case by (simp add: encodeURIComponent_def)
qed (simp add: encodeURIComponent_def)

lemma decode_ice_char:
  "is_printable c \<Longrightarrow> percent_decode (ice_char c @ t) = code c # percent_decode t"
  by (auto simp: ice_char_def is_printable_def percent_decode_byte is_kept_char_def js_text_simps)

lemma decode_ice_credential:
  "list_all is_printable s \<Longrightarrow> percent_decode (concat (map ice_char s)) = utf8 s"
proof (induction s)
  case (Cons c s)
  then have "percent_decode (concat (map ice_char (c # s))) = code c # utf8 s"
    by (simp add: decode_ice_char)
  moreover have "utf8_char c = [code c]" using Cons.prems by (simp add: is_printable_def utf8_char_def)
  ultimately show ?case by (simp add: utf8_def)
qed (simp add: utf8_def)

lemma encodeIceCredential_Inr:
  assumes "encodeIceCredential v l n = Inr u"
  obtains s where "v = Some (JStr s)" and "percent_decode u = utf8 s" and "list_all is_encoded_char u"
proof -
  obtain s where v: "v = Some (JStr s)" and p: "list_all is_printable s" and u: "u = concat (map ice_char s)"
    using assms by (auto simp: encodeIceCredential_def escape_encode split: option.splits json.splits if_splits)
  have "list_all is_encoded_char (ice_char c)" for c
    using percent_byte_encoded(1) [OF code_less [of c]] by (simp add: ice_char_def is_encoded_char_def)
  then have "list_all is_encoded_char u" by (auto simp: u list_all_iff)
  with v p u show thesis by (intro that [of s]) (simp_all add: decode_ice_credential)
qed

subsection \<open>URIs of TURN servers\<close>

text \<open>The part of a text before a separator that occurs in neither of two first parts.\<close>

lemma separated_eq:
  "u @ c # r = u' @ c # r' \<Longrightarrow> c \<notin> set u \<Longrightarrow> c \<notin> set u' \<Longrightarrow> u = u' \<and> r = r'"
proof (induction u arbitrary: u')
  case Nil
  then show ?case by (cases u') auto
next
  case (Cons a u)
  then show ?case by (cases u') auto
qed

lemma separated_last_eq:
  assumes "u @ c # r = u' @ c # r'" and "c \<notin> set r" and "c \<notin> set r'"
  shows "u = u' \<and> r = r'"
proof -
  have "rev r @ c # rev u = rev r' @ c # rev u'" using arg_cong [OF assms(1), of rev] by simp
  with assms(2,3) separated_eq [of "rev r" c "rev u" "rev r'" "rev u'"] show ?thesis by simp
qed

lemma serializeIceHost_inj:
  assumes "serializeIceHost h = serializeIceHost h'" and "list_all is_host_char h" and "list_all is_host_char h'"
  shows "h = h'"
proof -
  have b: "g' \<noteq> CHR ''['' # t" if "list_all is_host_char g'" for g' t
    using that by (auto simp: is_host_char_def js_text_simps)
  show ?thesis
  proof (cases "isIP h = 6"; cases "isIP h' = 6")
    assume "isIP h = 6" "isIP h' = 6"
    with assms(1) show ?thesis by (simp add: serializeIceHost_def)
  next
    assume "isIP h = 6" "isIP h' \<noteq> 6"
    with assms(1) b [OF assms(3), of "h @ '']''"] show ?thesis by (simp add: serializeIceHost_def)
  next
    assume "isIP h \<noteq> 6" "isIP h' = 6"
    with assms(1) b [OF assms(2), of "h' @ '']''"] show ?thesis by (simp add: serializeIceHost_def)
  next
    assume "isIP h \<noteq> 6" "isIP h' \<noteq> 6"
    with assms(1) show ?thesis by (simp add: serializeIceHost_def)
  qed
qed

definition turn_uri :: "string \<Rightarrow> string \<Rightarrow> string \<Rightarrow> string \<Rightarrow> int \<Rightarrow> string" where
  "turn_uri scheme username password host port =
     scheme @ ''://'' @ username @ '':'' @ password @ ''@'' @ serializeIceHost host @ '':'' @ show_int port"

lemma digit_chars:
  "char_of (48 :: nat) = CHR ''0''" "char_of (49 :: nat) = CHR ''1''" "char_of (50 :: nat) = CHR ''2''"
  "char_of (51 :: nat) = CHR ''3''" "char_of (52 :: nat) = CHR ''4''" "char_of (53 :: nat) = CHR ''5''"
  "char_of (54 :: nat) = CHR ''6''" "char_of (55 :: nat) = CHR ''7''" "char_of (56 :: nat) = CHR ''8''"
  "char_of (57 :: nat) = CHR ''9''"
  by code_simp+

lemma show_int_digits: "0 \<le> n \<Longrightarrow> list_all is_digit (show_int n)"
  by (simp add: show_int_def show_nat_digits)

lemma show_int_inj_nonneg: "show_int m = show_int n \<Longrightarrow> 0 \<le> m \<Longrightarrow> 0 \<le> n \<Longrightarrow> m = n"
  by (auto simp: show_int_def dest: show_nat_inj)

lemma encoded_no_separator: "list_all is_encoded_char u \<Longrightarrow> CHR '':'' \<notin> set u \<and> CHR ''@'' \<notin> set u"
  by (auto simp: list_all_iff is_encoded_char_def is_kept_char_def js_text_simps)

lemma digits_no_colon: "list_all is_digit u \<Longrightarrow> CHR '':'' \<notin> set u"
  by (auto simp: list_all_iff js_text_simps)

lemma turn_uri_inj:
  assumes eq: "turn_uri s u p h n = turn_uri s' u' p' h' n'"
    and s: "s \<in> {''turn'', ''turns''}" "s' \<in> {''turn'', ''turns''}"
    and enc: "list_all is_encoded_char u" "list_all is_encoded_char u'" "list_all is_encoded_char p" "list_all is_encoded_char p'"
    and host: "list_all is_host_char h" "list_all is_host_char h'"
    and port: "0 \<le> n" "0 \<le> n'"
  shows "s = s' \<and> u = u' \<and> p = p' \<and> h = h' \<and> n = n'"
proof -
  have "CHR '':'' \<notin> set s" "CHR '':'' \<notin> set s'" using s by auto
  with eq have 1: "s = s'" and "u @ CHR '':'' # (p @ ''@'' @ serializeIceHost h @ '':'' @ show_int n)
      = u' @ CHR '':'' # (p' @ ''@'' @ serializeIceHost h' @ '':'' @ show_int n')"
    using separated_eq [of s "CHR '':''" _ s'] by (auto simp: turn_uri_def)
  then have 2: "u = u'" and "p @ CHR ''@'' # (serializeIceHost h @ '':'' @ show_int n)
      = p' @ CHR ''@'' # (serializeIceHost h' @ '':'' @ show_int n')"
    using separated_eq [of u "CHR '':''" _ u'] encoded_no_separator enc(1,2) by auto
  then have 3: "p = p'" and r: "serializeIceHost h @ CHR '':'' # show_int n = serializeIceHost h' @ CHR '':'' # show_int n'"
    using separated_eq [of p "CHR ''@''" _ p'] encoded_no_separator enc(3,4) by auto
  have "serializeIceHost h = serializeIceHost h' \<and> show_int n = show_int n'"
    using separated_last_eq [OF r] digits_no_colon [OF show_int_digits] port by blast
  with 1 2 3 serializeIceHost_inj [OF _ host] show_int_inj_nonneg port show ?thesis by blast
qed

definition turn_fields :: "json \<Rightarrow> json option list" where
  "turn_fields v = map (json_field v) [''scheme'', ''username'', ''password'', ''host'', ''port'']"

lemma validateTurnServer_Inr:
  assumes "validateTurnServer v = Inr uri"
  obtains s u p h n user pass where "uri = turn_uri s u p h n" and "s \<in> {''turn'', ''turns''}"
    and "list_all is_encoded_char u" and "list_all is_encoded_char p" and "list_all is_host_char h" and "1 \<le> n" and "n \<le> 65535"
    and "percent_decode u = utf8 user" and "percent_decode p = utf8 pass"
    and "turn_fields v = [Some (JStr s), Some (JStr user), Some (JStr pass), Some (JStr h), Some (JNum (Integer n))]"
proof -
  obtain s h n u p where f: "json_field v ''scheme'' = Some (JStr s)" "s \<in> {''turn'', ''turns''}"
    and h: "validateIceHost (json_field v ''host'') = Inr h" and n: "validateIcePort (json_field v ''port'') = Inr n"
    and u: "encodeIceCredential (json_field v ''username'') ''username'' 128 = Inr u"
    and p: "encodeIceCredential (json_field v ''password'') ''password'' 256 = Inr p"
    and uri: "uri = turn_uri s u p h n"
    using assms
    by (auto simp: validateTurnServer_def turn_uri_def bind_result_Inr split: option.splits json.splits if_splits)
  obtain user where "json_field v ''username'' = Some (JStr user)" "percent_decode u = utf8 user" "list_all is_encoded_char u"
    using encodeIceCredential_Inr [OF u] by blast
  moreover obtain pass where "json_field v ''password'' = Some (JStr pass)" "percent_decode p = utf8 pass" "list_all is_encoded_char p"
    using encodeIceCredential_Inr [OF p] by blast
  ultimately show thesis
    using f uri validateIceHost_Inr [OF h] n unfolding validateIcePort_Inr
    by (intro that [of s u p h n user pass]) (simp_all add: turn_fields_def)
qed

lemma turn_uri_chars:
  assumes "s \<in> {''turn'', ''turns''}" "list_all is_encoded_char u" "list_all is_encoded_char p" "list_all is_host_char h" "1 \<le> n"
  shows "list_all is_uri_char (turn_uri s u p h n)"
proof -
  have "list_all is_uri_char (show_int n)"
    using show_int_digits [of n] assms(5) by (auto simp: list_all_iff intro: ice_chars)
  moreover have "list_all is_uri_char s" using assms(1) by (auto simp: is_uri_char_def js_text_simps)
  moreover have "is_uri_char (CHR '':'')" "is_uri_char (CHR ''/'')" "is_uri_char (CHR ''@'')" "is_uri_char (CHR ''['')" "is_uri_char (CHR '']'')"
    by (simp_all add: is_uri_char_def)
  ultimately show ?thesis
    using assms(2-4) by (auto simp: turn_uri_def serializeIceHost_def list_all_iff intro: ice_chars)
qed

lemma validateTurnServer_fields:
  assumes "validateTurnServer v = Inr a" and "validateTurnServer w = Inr b" and "turn_fields v = turn_fields w"
  shows "validateTurnServer v = validateTurnServer w"
proof -
  let ?exact = "\<lambda>x. assertObjectWithExactKeys x [''host'', ''password'', ''port'', ''scheme'', ''username''] ''TURN server''"
  have "?exact v = Inr ()" "?exact w = Inr ()"
    using assms(1,2) by (auto simp: validateTurnServer_def bind_result_Inr)
  moreover have "json_field v ''scheme'' = json_field w ''scheme''" "json_field v ''host'' = json_field w ''host''"
    "json_field v ''port'' = json_field w ''port''" "json_field v ''username'' = json_field w ''username''"
    "json_field v ''password'' = json_field w ''password''"
    using assms(3) by (simp_all add: turn_fields_def)
  ultimately show ?thesis unfolding validateTurnServer_def by (auto split: option.split json.split)
qed

subsection \<open>The list of servers in one argument\<close>

lemma map_result_Inr:
  "map_result f xs = Inr ys \<Longrightarrow> length ys = length xs \<and> (\<forall>y \<in> set ys. \<exists>x \<in> set xs. f x = Inr y)"
  by (induction xs arbitrary: ys) (fastforce simp: bind_result_Inr)+

fun quoted_parts :: "string list \<Rightarrow> string list" where
  "quoted_parts (_ # b # s) = b # quoted_parts s"
| "quoted_parts _ = []"

definition quote :: "string \<Rightarrow> string" where
  "quote s = [CHR 0x22] @ s @ [CHR 0x22]"

lemma uri_not_quote: "list_all is_uri_char s \<Longrightarrow> CHR 0x22 \<notin> set s"
  by (auto simp: list_all_iff is_uri_char_def js_text_simps)

lemma split_quote:
  "CHR 0x22 \<notin> set s \<Longrightarrow> split_on (CHR 0x22) (quote s @ t) = [] # s # split_on (CHR 0x22) t"
  by (simp add: quote_def split_on_append_sep split_on_no_sep)

lemma split_quoted_list:
  assumes "\<forall>s \<in> set ss. CHR 0x22 \<notin> set s" and "ss \<noteq> []"
  shows "\<exists>rest. split_on (CHR 0x22) (join_with '','' (map quote ss) @ ''>'') = [] # rest \<and> quoted_parts ([] # rest) = ss"
  using assms
proof (induction ss rule: induct_list012)
  case (2 s)
  then show ?case by (simp add: split_quote)
next
  case (3 s t ss)
  then obtain rest where r: "split_on (CHR 0x22) (join_with '','' (map quote (t # ss)) @ ''>'') = [] # rest"
    "quoted_parts ([] # rest) = t # ss" by auto
  have "split_on (CHR 0x22) (CHR '','' # join_with '','' (map quote (t # ss)) @ ''>'') = '','' # rest"
    using r(1) by simp
  moreover have "CHR 0x22 \<notin> set s" using "3.prems" by simp
  ultimately have "split_on (CHR 0x22) (join_with '','' (map quote (s # t # ss)) @ ''>'') = [] # s # '','' # rest"
    by (simp add: split_quote)
  moreover have "quoted_parts ('','' # rest) = t # ss" using r(2) by (cases rest) auto
  ultimately show ?case by auto
qed simp

end
