(* ===== verification/SupervisorProperties.thy ===== *)
theory SupervisorProperties
  imports Supervisor IceProperties
begin

text \<open>
  What an accepted container configuration means: TURN servers and their URIs determine each
  other, and the native runtime's arguments can be read back without loss. At the end, what
  the process's exit code says.
\<close>

subsection \<open>TURN servers\<close>

text \<open>
  C27. The URI of an accepted TURN server is faithful: it contains no character that could end
  the argument it is passed in, it consists of the configured scheme, host and port and of a
  user name and password that decode to the configured ones, and two accepted servers have the
  same URI only if they have the same five fields.
\<close>

theorem turn_server_uris_are_faithful:
  assumes "validateTurnServer v = Inr a" and "validateTurnServer w = Inr b"
  shows "list_all is_uri_char a
    \<and> (\<exists>s u p h n user pass. a = s @ ''://'' @ u @ '':'' @ p @ ''@'' @ serializeIceHost h @ '':'' @ show_int n
        \<and> turn_fields v = [Some (JStr s), Some (JStr user), Some (JStr pass), Some (JStr h), Some (JNum (Integer n))]
        \<and> percent_decode u = utf8 user \<and> percent_decode p = utf8 pass \<and> 1 \<le> n \<and> n \<le> 65535)
    \<and> (a = b \<longleftrightarrow> turn_fields v = turn_fields w)"
proof -
  obtain s u p h n user pass where a: "a = turn_uri s u p h n" "s \<in> {''turn'', ''turns''}"
    "list_all is_encoded_char u" "list_all is_encoded_char p" "list_all is_host_char h" "1 \<le> n" "n \<le> 65535"
    "percent_decode u = utf8 user" "percent_decode p = utf8 pass"
    "turn_fields v = [Some (JStr s), Some (JStr user), Some (JStr pass), Some (JStr h), Some (JNum (Integer n))]"
    using validateTurnServer_Inr [OF assms(1)] by metis
  obtain s' u' p' h' n' user' pass' where b: "b = turn_uri s' u' p' h' n'" "s' \<in> {''turn'', ''turns''}"
    "list_all is_encoded_char u'" "list_all is_encoded_char p'" "list_all is_host_char h'" "1 \<le> n'" "n' \<le> 65535"
    "percent_decode u' = utf8 user'" "percent_decode p' = utf8 pass'"
    "turn_fields w = [Some (JStr s'), Some (JStr user'), Some (JStr pass'), Some (JStr h'), Some (JNum (Integer n'))]"
    using validateTurnServer_Inr [OF assms(2)] by metis
  have fwd: "turn_fields v = turn_fields w" if eq: "a = b"
  proof -
    have "s = s' \<and> u = u' \<and> p = p' \<and> h = h' \<and> n = n'"
      using turn_uri_inj [OF eq [unfolded a(1) b(1)] a(2) b(2) a(3) b(3) a(4) b(4) a(5) b(5)] a(6) b(6) by simp
    with a(8-10) b(8-10) utf8_roundtrip show ?thesis by metis
  qed
  have bwd: "a = b" if "turn_fields v = turn_fields w"
  proof -
    have "validateTurnServer v = validateTurnServer w"
      by (rule validateTurnServer_fields [OF assms that])
    with assms show ?thesis by simp
  qed
  have "list_all is_uri_char a" using turn_uri_chars [OF a(2-6)] a(1) by simp
  with a(1,6-10) fwd bwd show ?thesis unfolding turn_uri_def by blast
qed

definition ex_turn :: "string \<Rightarrow> json" where
  "ex_turn user = JObj [(''scheme'', JStr ''turns''), (''host'', JStr ''2001:db8::7''), (''port'', JNum (Integer 5349)),
     (''username'', JStr user), (''password'', JStr ''p@ss:(1)'')]"

lemma ex_turn_parts:
  "isIP ''2001:db8::7'' = 6"
  "validateIceHost (Some (JStr ''2001:db8::7'')) = Inr ''2001:db8::7''"
  "encodeIceCredential (Some (JStr ''p@ss:(1)'')) ''password'' 256 = Inr ''p%40ss%3A%281%29''"
  "encodeIceCredential (Some (JStr ''a'')) ''username'' 128 = Inr ''a''"
  "encodeIceCredential (Some (JStr ''b/c'')) ''username'' 128 = Inr ''b%2Fc''"
  "assertObjectWithExactKeys (ex_turn user) [''host'', ''password'', ''port'', ''scheme'', ''username''] ''TURN server'' = Inr ()"
  by code_simp+

lemma ex_turn:
  "validateTurnServer (ex_turn ''a'') = Inr ''turns://a:p%40ss%3A%281%29@[2001:db8::7]:5349''"
  "validateTurnServer (ex_turn ''b/c'') = Inr ''turns://b%2Fc:p%40ss%3A%281%29@[2001:db8::7]:5349''"
  unfolding validateTurnServer_def ex_turn_parts(6)
  by (simp_all add: ex_turn_def ex_turn_parts validateIcePort_def serializeIceHost_def show_int_def show_nat.simps digit_chars)

theorem turn_server_uris_are_faithful_witness:
  "validateTurnServer (ex_turn ''a'') = Inr ''turns://a:p%40ss%3A%281%29@[2001:db8::7]:5349''
    \<and> turn_fields (ex_turn ''a'') \<noteq> turn_fields (ex_turn ''b/c'')"
  using turn_server_uris_are_faithful [OF ex_turn] ex_turn(1) by simp

subsection \<open>The runtime's arguments\<close>

text \<open>The value that follows a name in an argument list.\<close>

fun argument :: "string \<Rightarrow> string list \<Rightarrow> string option" where
  "argument name (k # v # args) = (if k = name then Some v else argument name args)"
| "argument name _ = None"

text \<open>
  The ICE arguments say what the environment and the file it names say: without a file no servers and no restriction;
  with it, one URI for each TURN server of the document, in order, its STUN server if it has one, and its policy.
\<close>

definition stun_of :: "json option \<Rightarrow> string \<Rightarrow> bool" where
  "stun_of v stun =
     (case v of
        None \<Rightarrow> stun = []
      | Some server \<Rightarrow>
          \<exists>h n. json_field server ''host'' = Some (JStr h) \<and> json_field server ''port'' = Some (JNum (Integer n))
            \<and> stun = ''stun://'' @ serializeIceHost h @ '':'' @ show_int n)"

definition document_ice :: "json \<Rightarrow> string \<Rightarrow> string list \<Rightarrow> string \<Rightarrow> bool" where
  "document_ice doc stun servers policy \<longleftrightarrow>
     (\<exists>values. json_field doc ''turn_servers'' = Some (JArr values) \<and> map validateTurnServer values = map Inr servers)
     \<and> stun_of (json_field doc ''stun_server'') stun
     \<and> json_field doc ''ice_transport_policy'' = Some (JStr policy) \<and> policy \<in> {''all'', ''relay''}"

definition environment_ice ::
  "(nat list \<Rightarrow> json option) \<Rightarrow> (string \<Rightarrow> thrown + ice_metadata \<times> nat list) \<Rightarrow> environment \<Rightarrow> string \<Rightarrow> string list \<Rightarrow> string \<Rightarrow> bool" where
  "environment_ice json_parse open_file env stun servers policy =
     (case env ICE_SERVERS_VARIABLE of
        None \<Rightarrow> stun = [] \<and> servers = [] \<and> policy = ''all''
      | Some path \<Rightarrow>
          path = ICE_CONFIGURATION_PATH
          \<and> (\<exists>m source doc. open_file path = Inr (m, source) \<and> validateIceServerFileMetadata m = Inr ()
              \<and> json_parse source = Some doc \<and> document_ice doc stun servers policy))"

text \<open>The four numbers of a stream profile, as texts.\<close>

definition profile_texts :: "string \<Rightarrow> string list" where
  "profile_texts name =
     (if name = ''1080p30'' then [''1920'', ''1080'', ''30'', ''6000000'']
      else if name = ''720p15'' then [''1280'', ''720'', ''15'', ''3000000'']
      else if name = ''480p10'' then [''854'', ''480'', ''10'', ''1200000'']
      else replicate 4 ''undefined'')"

lemma map_result_map: "map_result f xs = Inr ys \<Longrightarrow> map f xs = map Inr ys"
  by (induction xs arbitrary: ys) (auto simp: bind_result_Inr)

lemma validateStunServer_Inr: "validateStunServer v = Inr stun \<Longrightarrow> stun_of (Some v) stun"
  by (auto simp: validateStunServer_def stun_of_def bind_result_Inr validateIcePort_Inr dest: validateIceHost_Inr(1))

lemma parseIceServerConfiguration_Inr:
  assumes "parseIceServerConfiguration json_parse source = Inr ice"
  obtains doc where "turnServers ice \<noteq> []" and "length (turnServers ice) \<le> 4" and "distinct (turnServers ice)"
    and "\<forall>uri \<in> set (turnServers ice). \<exists>v. validateTurnServer v = Inr uri"
    and "json_parse source = Some doc" and "document_ice doc (stunServer ice) (turnServers ice) (iceTransportPolicy ice)"
proof -
  obtain doc where d: "json_parse source = Some doc"
    using assms by (cases "json_parse source") (auto simp: parseIceServerConfiguration_def)
  note body = assms [unfolded parseIceServerConfiguration_def d option.case]
  obtain vs where vs: "json_field doc ''turn_servers'' = Some (JArr vs)"
    using body by (cases "json_field doc ''turn_servers''") (auto split: json.splits if_splits)
  note body = body [unfolded vs option.case json.case]
  have v: "vs \<noteq> []" "length vs \<le> 4" using body by (simp_all split: if_splits)
  obtain servers where m': "map_result validateTurnServer vs = Inr servers"
    using body by (cases "map_result validateTurnServer vs") (simp_all split: if_splits)
  note body = body [unfolded m' bind_result.simps]
  have u': "length (remdups servers) = length servers" using body by (simp split: if_splits)
  obtain stun where st: "(case json_field doc ''stun_server'' of None \<Rightarrow> Inr [] | Some v \<Rightarrow> validateStunServer v) = Inr stun"
    using body by (cases "case json_field doc ''stun_server'' of None \<Rightarrow> Inr [] | Some v \<Rightarrow> validateStunServer v")
      (simp_all split: if_splits)
  note body = body [unfolded st bind_result.simps]
  obtain policy where pol: "json_field doc ''ice_transport_policy'' = Some (JStr policy)"
    using body by (cases "json_field doc ''ice_transport_policy''") (simp_all split: if_splits json.splits)
  note body = body [unfolded pol option.case json.case]
  have ice: "ice = \<lparr>stunServer = stun, turnServers = servers, iceTransportPolicy = policy\<rparr>"
    and pol2: "policy \<in> {''all'', ''relay''}"
    using body by (simp_all split: if_splits)
  have m: "map_result validateTurnServer vs = Inr (turnServers ice)"
    and u: "length (remdups (turnServers ice)) = length (turnServers ice)"
    and p: "iceTransportPolicy ice \<in> {''all'', ''relay''}"
    using m' u' pol2 by (simp_all add: ice)
  have "distinct (turnServers ice)" using u by (metis distinct_remdups length_remdups_eq)
  moreover have "stun_of (json_field doc ''stun_server'') stun"
    using st by (cases "json_field doc ''stun_server''") (simp_all add: stun_of_def validateStunServer_Inr [unfolded stun_of_def, simplified])
  then have "document_ice doc (stunServer ice) (turnServers ice) (iceTransportPolicy ice)"
    using vs map_result_map [OF m] pol pol2 by (simp add: document_ice_def ice)
  moreover have "turnServers ice \<noteq> [] \<and> length (turnServers ice) \<le> 4" using v map_result_Inr [OF m] by auto
  moreover have "\<forall>uri \<in> set (turnServers ice). \<exists>v. validateTurnServer v = Inr uri" using map_result_Inr [OF m] by blast
  ultimately show thesis using d by (intro that) simp_all
qed

lemma parseConfiguration_Inr:
  assumes "parseConfiguration parse (loadIceServerConfiguration json_parse open_file) env = Inr c"
  shows "env SECRET_VARIABLE = Some (sup_secret c)" and "is_credential (sup_secret c)"
    and "case env ICE_SERVERS_VARIABLE of
        None \<Rightarrow> sup_ice c = no_ice_servers
      | Some path \<Rightarrow> path = ICE_CONFIGURATION_PATH \<and> (\<exists>m source. open_file path = Inr (m, source)
          \<and> validateIceServerFileMetadata m = Inr () \<and> parseIceServerConfiguration json_parse source = Inr (sup_ice c))"
    and "profile_named (sup_profileName c) = Some (sup_profile c)" and "sup_profileName c = or_else (env PROFILE_VARIABLE) ''720p15''"
    and "\<exists>u. parse (or_else (env START_URL_VARIABLE) INTERNAL_HOME) = Some u \<and> url_username u = [] \<and> url_password u = []
      \<and> url_protocol u \<in> {''file:'', ''http:'', ''https:''} \<and> sup_startUrl c = url_href u"
  using assms
  by (auto simp: parseConfiguration_def loadIceServerConfiguration_def validateIceConfigurationPath_def validateStartUrl_def bind_result_Inr
      Let_def split: option.splits if_splits)

lemma configuration_ice:
  assumes "parseConfiguration parse (loadIceServerConfiguration json_parse open_file) env = Inr c"
  shows "environment_ice json_parse open_file env (stunServer (sup_ice c)) (turnServers (sup_ice c)) (iceTransportPolicy (sup_ice c))
    \<and> length (turnServers (sup_ice c)) \<le> 4 \<and> distinct (turnServers (sup_ice c))
    \<and> (\<forall>uri \<in> set (turnServers (sup_ice c)). \<exists>v. validateTurnServer v = Inr uri)"
proof (cases "env ICE_SERVERS_VARIABLE")
  case None
  with parseConfiguration_Inr(3) [OF assms] show ?thesis by (simp add: environment_ice_def no_ice_servers_def)
next
  case (Some path)
  with parseConfiguration_Inr(3) [OF assms] obtain m source where f: "path = ICE_CONFIGURATION_PATH" "open_file path = Inr (m, source)"
    "validateIceServerFileMetadata m = Inr ()" and ice: "parseIceServerConfiguration json_parse source = Inr (sup_ice c)" by auto
  from ice obtain doc where doc: "length (turnServers (sup_ice c)) \<le> 4" "distinct (turnServers (sup_ice c))"
    "\<forall>uri \<in> set (turnServers (sup_ice c)). \<exists>v. validateTurnServer v = Inr uri" "json_parse source = Some doc"
    "document_ice doc (stunServer (sup_ice c)) (turnServers (sup_ice c)) (iceTransportPolicy (sup_ice c))"
    by (rule parseIceServerConfiguration_Inr)
  have "environment_ice json_parse open_file env (stunServer (sup_ice c)) (turnServers (sup_ice c)) (iceTransportPolicy (sup_ice c))"
    unfolding environment_ice_def Some option.case
    by (intro conjI f(1) exI [of _ m] exI [of _ source] exI [of _ doc] f(2,3) doc(4,5))
  with doc show ?thesis by blast
qed

lemma profile_numbers:
  "show_nat 1920 = ''1920''" "show_nat 1080 = ''1080''" "show_nat 30 = ''30''" "show_nat 6000000 = ''6000000''"
  "show_nat 1280 = ''1280''" "show_nat 720 = ''720''" "show_nat 15 = ''15''" "show_nat 3000000 = ''3000000''"
  "show_nat 854 = ''854''" "show_nat 480 = ''480''" "show_nat 10 = ''10''" "show_nat 1200000 = ''1200000''"
  by (simp_all add: show_nat.simps digit_chars)

lemma profile_named_texts:
  assumes "profile_named name = Some p"
  shows "[show_field (profile_width p), show_field (profile_height p), show_field (profile_fps p), show_field (profile_bitrate p)]
    = profile_texts name"
proof -
  consider "name = ''1080p30''" | "name = ''720p15''" | "name = ''480p10''"
    | (other) "name \<notin> {''1080p30'', ''720p15'', ''480p10''}" by blast
  then show ?thesis
  proof cases
    case other
    then have "map_of PROFILE_CONFIGURATION name = None" by (simp add: PROFILE_CONFIGURATION_def)
    with assms have "p = inherited_member" by (simp add: profile_named_def split: if_splits)
    moreover have "profile_texts name = replicate 4 ''undefined''" using other by (simp add: profile_texts_def)
    ultimately show ?thesis by (simp add: inherited_member_def show_field_def eval_nat_numeral)
  qed (use assms in \<open>auto simp: profile_named_def PROFILE_CONFIGURATION_def stream_profile_of_def profile_texts_def
        show_field_def profile_numbers\<close>)
qed

lemma turn_servers_argument_parts:
  assumes "\<forall>s \<in> set servers. CHR 0x22 \<notin> set s"
  shows "quoted_parts (split_on (CHR 0x22) (turn_servers_argument servers)) = servers"
proof (cases "servers = []")
  case False
  obtain rest where "split_on (CHR 0x22) (join_with '','' (map quote servers) @ ''>'') = [] # rest"
    and "quoted_parts ([] # rest) = servers" using split_quoted_list [OF assms False] by blast
  moreover have "turn_servers_argument servers = CHR ''<'' # join_with '','' (map quote servers) @ ''>''"
    using False by (simp add: turn_servers_argument_def quote_def [abs_def])
  ultimately show ?thesis by (cases rest) auto
qed (simp add: turn_servers_argument_def)

lemma validated_uri_no_quote:
  assumes "validateTurnServer v = Inr uri" shows "CHR 0x22 \<notin> set uri"
proof -
  obtain s u p h n where "uri = turn_uri s u p h n" "s \<in> {''turn'', ''turns''}" "list_all is_encoded_char u"
    "list_all is_encoded_char p" "list_all is_host_char h" "(1 :: int) \<le> n"
    using validateTurnServer_Inr [OF assms] by metis
  then show ?thesis using turn_uri_chars uri_not_quote by simp
qed

lemma encodeUrl_Inr:
  assumes "encodeUrl parse url = Inr h"
  shows "\<exists>u. normalizeTabUrl parse (Some url) = Inr u \<and> h = to_hex (utf8 u)"
  using assms by (auto simp: encodeUrl_def split: sum.splits)

text \<open>
  C28. The arguments of the native runtime say what the environment and the ICE file say, whatever they hold: the four numbers are those of
  the stream profile the environment names (720p15 by default); the hexadecimal argument decodes to the normalised start page of the
  environment; the TURN servers read from the one argument they share are those of the document of the ICE file, one for one, at most four and
  different, and its STUN server and its transport policy are the document's, relay only included; without an ICE file there are no servers and the policy is all.
  The child process gets neither the signaling secret nor the path of the ICE file.
\<close>

theorem runtime_arguments_carry_the_configuration:
  assumes "parseConfiguration parse (loadIceServerConfiguration json_parse open_file) env = Inr c"
    and "runtimeArguments parse c tab = Inr args"
  shows "env SECRET_VARIABLE = Some (sup_secret c) \<and> is_credential (sup_secret c)
    \<and> childEnvironment env SECRET_VARIABLE = None \<and> childEnvironment env ICE_SERVERS_VARIABLE = None
    \<and> argument ''--initial-tab-id'' args = Some tab
    \<and> (\<exists>u v. parse (case env START_URL_VARIABLE of None \<Rightarrow> INTERNAL_HOME | Some page \<Rightarrow> page) = Some u
        \<and> url_username u = [] \<and> url_password u = [] \<and> url_protocol u \<in> {''file:'', ''http:'', ''https:''}
        \<and> normalizeTabUrl parse (Some (url_href u)) = Inr v
        \<and> map_option (\<lambda>h. utf8_decode (from_hex h)) (argument ''--initial-url-hex'' args) = Some v)
    \<and> map (\<lambda>name. argument name args) [''--width'', ''--height'', ''--fps'', ''--bitrate'']
        = map Some (profile_texts (case env PROFILE_VARIABLE of None \<Rightarrow> ''720p15'' | Some name \<Rightarrow> name))
    \<and> (\<exists>stun servers policy. environment_ice json_parse open_file env stun servers policy
        \<and> argument ''--stun-server'' args = Some stun
        \<and> map_option (\<lambda>a. quoted_parts (split_on (CHR 0x22) a)) (argument ''--turn-servers'' args) = Some servers
        \<and> argument ''--ice-policy'' args = Some policy
        \<and> length servers \<le> 4 \<and> distinct servers \<and> (\<forall>uri \<in> set servers. \<exists>v. validateTurnServer v = Inr uri))"
proof -
  note c = parseConfiguration_Inr [OF assms(1)]
  note ice = configuration_ice [OF assms(1)]
  obtain h where e: "encodeUrl parse (sup_startUrl c) = Inr h"
    and tab: "argument ''--initial-tab-id'' args = Some tab"
    and url: "argument ''--initial-url-hex'' args = Some h"
    and stun: "argument ''--stun-server'' args = Some (stunServer (sup_ice c))"
    and turn: "argument ''--turn-servers'' args = Some (turn_servers_argument (turnServers (sup_ice c)))"
    and policy: "argument ''--ice-policy'' args = Some (iceTransportPolicy (sup_ice c))"
    and profile: "map (\<lambda>name. argument name args) [''--width'', ''--height'', ''--fps'', ''--bitrate'']
      = map Some [show_field (profile_width (sup_profile c)), show_field (profile_height (sup_profile c)),
          show_field (profile_fps (sup_profile c)), show_field (profile_bitrate (sup_profile c))]"
    using assms(2) by (auto simp: runtimeArguments_def split: sum.splits)
  obtain v where v: "normalizeTabUrl parse (Some (sup_startUrl c)) = Inr v" "h = to_hex (utf8 v)"
    using encodeUrl_Inr [OF e] by blast
  have hex: "from_hex (to_hex (utf8 v)) = utf8 v"
    by (rule from_hex_to_hex) (auto intro: utf8_byte)
  have parts: "quoted_parts (split_on (CHR 0x22) (turn_servers_argument (turnServers (sup_ice c)))) = turnServers (sup_ice c)"
    using ice validated_uri_no_quote by (intro turn_servers_argument_parts) blast
  have page: "\<exists>u v. parse (case env START_URL_VARIABLE of None \<Rightarrow> INTERNAL_HOME | Some page \<Rightarrow> page) = Some u
        \<and> url_username u = [] \<and> url_password u = [] \<and> url_protocol u \<in> {''file:'', ''http:'', ''https:''}
        \<and> normalizeTabUrl parse (Some (url_href u)) = Inr v
        \<and> map_option (\<lambda>h. utf8_decode (from_hex h)) (argument ''--initial-url-hex'' args) = Some v"
    using c(6) [unfolded or_else_def] v url hex by (auto simp: utf8_roundtrip)
  have servers: "map_option (\<lambda>a. quoted_parts (split_on (CHR 0x22) a)) (argument ''--turn-servers'' args) = Some (turnServers (sup_ice c))"
    by (simp add: turn parts)
  show ?thesis
    unfolding profile profile_named_texts [OF c(4)] c(5) [unfolded or_else_def]
    by (intro conjI c(1,2) tab page refl exI [of _ "stunServer (sup_ice c)"] exI [of _ "turnServers (sup_ice c)"]
        exI [of _ "iceTransportPolicy (sup_ice c)"] stun servers policy ice [THEN conjunct1] ice [THEN conjunct2, THEN conjunct1]
        ice [THEN conjunct2, THEN conjunct2, THEN conjunct1] ice [THEN conjunct2, THEN conjunct2, THEN conjunct2])
      (simp_all add: childEnvironment_def)
qed

definition ex_ice_json :: json where
  "ex_ice_json = JObj [(''schema_version'', JNum (Integer 1)), (''turn_servers'', JArr [ex_turn ''a'', ex_turn ''b/c'']),
     (''ice_transport_policy'', JStr ''relay'')]"

definition ex_ice :: ice_configuration where
  "ex_ice = \<lparr>stunServer = [],
     turnServers = [''turns://a:p%40ss%3A%281%29@[2001:db8::7]:5349'', ''turns://b%2Fc:p%40ss%3A%281%29@[2001:db8::7]:5349''],
     iceTransportPolicy = ''relay''\<rparr>"

definition ex_env :: environment where
  "ex_env = [SECRET_VARIABLE \<mapsto> replicate 43 (CHR ''s''), ICE_SERVERS_VARIABLE \<mapsto> ICE_CONFIGURATION_PATH]"

definition ex_home :: url_parser where
  "ex_home v = (if v = INTERNAL_HOME then Some \<lparr>url_protocol = ''file:'', url_username = [], url_password = [], url_hostname = [],
     url_port = [], url_pathname = ''/usr/share/fireball-session/home.html'', url_search = [], url_hash = [], url_href = INTERNAL_HOME\<rparr> else None)"

definition ex_open :: "string \<Rightarrow> thrown + ice_metadata \<times> nat list" where
  "ex_open path = Inr (\<lparr>meta_isFile = True, meta_size = 300, meta_uid = 0, meta_gid = 10001, meta_mode = 0x8120\<rparr>, [])"

definition ex_configuration :: supervisor_configuration where
  "ex_configuration = \<lparr>sup_secret = replicate 43 (CHR ''s''), sup_profileName = ''720p15'',
     sup_profile = stream_profile_of 1280 720 15 3000000, sup_startUrl = INTERNAL_HOME, sup_ice = ex_ice\<rparr>"

lemma ex_ice_parsed: "parseIceServerConfiguration (\<lambda>_. Some ex_ice_json) bs = Inr ex_ice"
proof -
  have "sorted_keys ex_ice_json = join_with '','' (sort_strings (expected_ice_keys ex_ice_json))" by code_simp
  then show ?thesis
    by (simp add: parseIceServerConfiguration_def ex_ice_json_def [THEN arg_cong, of json_object]
        ex_ice_json_def [THEN arg_cong, of "\<lambda>j. json_field j _"] ex_turn ex_ice_def)
qed

lemma ex_configuration_parsed:
  "parseConfiguration ex_home (loadIceServerConfiguration (\<lambda>_. Some ex_ice_json) ex_open) ex_env = Inr ex_configuration"
proof -
  have "is_credential (replicate 43 (CHR ''s''))" and "validateStartUrl ex_home INTERNAL_HOME = Inr INTERNAL_HOME"
    and "ex_env SECRET_VARIABLE = Some (replicate 43 (CHR ''s''))" and "ex_env PROFILE_VARIABLE = None"
    and "ex_env START_URL_VARIABLE = None" and "ex_env ICE_SERVERS_VARIABLE = Some ICE_CONFIGURATION_PATH"
    by code_simp+
  moreover have "profile_named ''720p15'' = Some (stream_profile_of 1280 720 15 3000000)"
    by (simp add: profile_named_def PROFILE_CONFIGURATION_def)
  ultimately show ?thesis
    by (simp add: parseConfiguration_def or_else_def validateIceConfigurationPath_def loadIceServerConfiguration_def
        ex_open_def validateIceServerFileMetadata_def MAX_ICE_CONFIGURATION_BYTES_def ex_ice_parsed ex_configuration_def)
qed

definition ex_arguments :: "string list" where
  "ex_arguments = (case runtimeArguments ex_home ex_configuration ''tab'' of Inr args \<Rightarrow> args | Inl _ \<Rightarrow> [])"

lemma ex_arguments_made: "runtimeArguments ex_home ex_configuration ''tab'' = Inr ex_arguments"
  by (simp add: ex_arguments_def runtimeArguments_def encodeUrl_def normalizeTabUrl_def ex_configuration_def)

theorem runtime_arguments_carry_the_configuration_witness:
  "argument ''--ice-policy'' ex_arguments = Some ''relay'' \<and> argument ''--width'' ex_arguments = Some ''1280''
    \<and> childEnvironment ex_env SECRET_VARIABLE = None"
proof -
  note all = runtime_arguments_carry_the_configuration [OF ex_configuration_parsed ex_arguments_made]
  have ice: "ex_env ICE_SERVERS_VARIABLE = Some ICE_CONFIGURATION_PATH" "ex_env PROFILE_VARIABLE = None" by code_simp+
  have "policy = ''relay''" if "environment_ice (\<lambda>_. Some ex_ice_json) ex_open ex_env stun servers policy" for stun servers policy
    using that unfolding environment_ice_def ice option.case document_ice_def ex_ice_json_def by auto
  with all ice(2) show ?thesis by (auto simp: profile_texts_def)
qed

subsection \<open>Two smaller facts\<close>

text \<open>
  A profile name that every object inherits is accepted as a stream profile, and its sizes
  reach the runtime as the word \<open>undefined\<close>.
\<close>

lemma inherited_profile_is_accepted:
  "profile_named ''constructor'' = Some inherited_member \<and> show_field (profile_width inherited_member) = ''undefined''"
  by (simp add: profile_named_def PROFILE_CONFIGURATION_def OBJECT_PROTOTYPE_MEMBERS_def inherited_member_def show_field_def)

text \<open>The exit code is that of the first reason to stop, however many follow.\<close>

definition main_run :: "main_event list \<Rightarrow> main_state \<Rightarrow> main_state" where
  "main_run es s = fold main_step es s"

lemma main_step_stopping:
  assumes "shuttingDown s" and "main_closing s = Some n \<or> (main_closing s = None \<and> exitCode s = Some n)"
  shows "shuttingDown (main_step e s)
    \<and> (main_closing (main_step e s) = Some n \<or> (main_closing (main_step e s) = None \<and> exitCode (main_step e s) = Some n))"
  using assms by (cases e) (auto simp: main_shutdown_def main_closed_def Let_def split: option.split)

lemma exit_code_of_the_first_reason:
  assumes "\<not> shuttingDown s" and "e \<noteq> ProxyClosed"
  shows "exitCode (main_run (e # es @ [ProxyClosed]) s) = Some (if e \<in> {SigTerm, SigInt} then 0 else 1)"
proof -
  let ?n = "if e \<in> {SigTerm, SigInt} then 0 else 1 :: int"
  have first: "shuttingDown (main_step e s) \<and> main_closing (main_step e s) = Some ?n"
    using assms by (cases e) (auto simp: main_shutdown_def Let_def)
  have "shuttingDown (fold main_step es t) \<and> (main_closing (fold main_step es t) = Some ?n
      \<or> (main_closing (fold main_step es t) = None \<and> exitCode (fold main_step es t) = Some ?n))"
    if "shuttingDown t" "main_closing t = Some ?n \<or> (main_closing t = None \<and> exitCode t = Some ?n)" for t
    using that
  proof (induction es arbitrary: t)
    case (Cons a es)
    show ?case using Cons.IH [of "main_step a t"] main_step_stopping [OF Cons.prems, of a] by simp
  qed simp
  from this [of "main_step e s"] first show ?thesis
    by (auto simp: main_run_def main_closed_def split: option.split)
qed

end
