(* ===== verification/SignalingProxy.thy ===== *)
theory SignalingProxy
  imports Sockets
begin

text \<open>
  \<open>session/supervisor.mjs\<close>, third part: the WebSocket side of \<open>createSignalingProxy\<close>.
  Clients are numbered in the order they connect; the first to connect while no lease is
  active gets a lease, the others are refused. What an event handler does is one function of
  the state; what the network does to a socket is a step of its own. \<open>ls_received\<close> and
  \<open>ls_arrived\<close> record what came in from the client and from the native signaling server.
  Both sockets keep the default binary type of \<open>ws\<close>, so a message arrives as one buffer.
\<close>

subsection \<open>Frames\<close>

definition parseAuthenticationFrame :: "(nat list \<Rightarrow> json option) \<Rightarrow> nat list \<Rightarrow> bool \<Rightarrow> string \<Rightarrow> bool" where
  "parseAuthenticationFrame json_parse data isBinary expectedSecret =
     (if isBinary then False
      else case json_parse data of
          None \<Rightarrow> False
        | Some frame \<Rightarrow>
            if \<not> json_object frame \<or> sorted_keys frame \<noteq> ''secret,type''
              \<or> json_field frame ''type'' \<noteq> Some (JStr ''authenticate'')
            then False
            else (case string_field frame ''secret'' of
                None \<Rightarrow> False
              | Some actual \<Rightarrow> utf8 actual = utf8 expectedSecret))"

definition authenticated_frame :: raw_data where
  "authenticated_frame = Bytes (utf8 (json_stringify (JObj [(''type'', JStr ''authenticated'')])))"

fun rawDataLength :: "raw_data \<Rightarrow> nat" where
  "rawDataLength (Fragments fs) = foldl (\<lambda>total chunk. total + length chunk) 0 fs"
| "rawDataLength (Bytes bs) = length bs"

definition MAX_BUFFERED_BYTES :: nat where "MAX_BUFFERED_BYTES = 1024 * 1024"

text \<open>\<open>send\<close> on a socket that is no longer open only counts the bytes.\<close>

definition send_frame :: "raw_data \<Rightarrow> socket \<Rightarrow> socket" where
  "send_frame data s =
     (if readyState s = OPEN then socket_send data False s
      else s\<lparr>bufferedAmount := bufferedAmount s + rawDataLength data\<rparr>)"

subsection \<open>State\<close>

datatype lease_phase = LeaseAuthenticating | LeaseConnecting | LeaseRelaying | LeaseClosed

record lease =
  ls_client :: socket
  ls_upstream :: "socket option"
  ls_phase :: lease_phase
  ls_timer :: bool
  ls_received :: "(nat list \<times> bool) list"
  ls_arrived :: "(nat list \<times> bool) list"

record proxy =
  leases :: "nat \<Rightarrow> lease option"
  refused :: "nat \<Rightarrow> socket option"
  activeLease :: "nat option"
  next_client :: nat
  proxy_down :: bool
  uncaught :: bool

definition new_proxy :: proxy where
  "new_proxy = \<lparr>leases = \<lambda>_. None, refused = \<lambda>_. None, activeLease = None, next_client = 0,
     proxy_down = False, uncaught = False\<rparr>"

definition new_lease :: "socket \<Rightarrow> lease" where
  "new_lease client = \<lparr>ls_client = client, ls_upstream = None, ls_phase = LeaseAuthenticating, ls_timer = True,
     ls_received = [], ls_arrived = []\<rparr>"

definition new_socket :: socket where
  "new_socket = \<lparr>readyState = CONNECTING, bufferedAmount = 0, actions = []\<rparr>"

subsection \<open>shutdownLease and forward\<close>

definition close_lease :: "nat \<Rightarrow> string \<Rightarrow> lease \<Rightarrow> lease" where
  "close_lease n reason l =
     l\<lparr>ls_phase := LeaseClosed, ls_timer := False, ls_client := closeSocket n reason (ls_client l),
       ls_upstream := map_option (closeSocket n reason) (ls_upstream l)\<rparr>"

definition shutdownLease :: "nat \<Rightarrow> nat \<Rightarrow> string \<Rightarrow> proxy \<Rightarrow> proxy" where
  "shutdownLease i n reason p =
     (case leases p i of
        None \<Rightarrow> p
      | Some l \<Rightarrow>
          if ls_phase l = LeaseClosed then p
          else p\<lparr>activeLease := (if activeLease p = Some i then None else activeLease p),
                 leases := (leases p)(i \<mapsto> close_lease n reason l)\<rparr>)"

datatype side = ClientSide | UpstreamSide

fun side_socket :: "side \<Rightarrow> lease \<Rightarrow> socket option" where
  "side_socket ClientSide l = Some (ls_client l)"
| "side_socket UpstreamSide l = ls_upstream l"

fun put_side :: "side \<Rightarrow> socket \<Rightarrow> lease \<Rightarrow> lease" where
  "put_side ClientSide s l = l\<lparr>ls_client := s\<rparr>"
| "put_side UpstreamSide s l = l\<lparr>ls_upstream := Some s\<rparr>"

definition forward :: "nat \<Rightarrow> side \<Rightarrow> raw_data \<Rightarrow> bool \<Rightarrow> proxy \<Rightarrow> proxy" where
  "forward i to data isBinary p =
     (case leases p i of
        None \<Rightarrow> p
      | Some l \<Rightarrow>
          (case side_socket to l of
             None \<Rightarrow> p
           | Some destination \<Rightarrow>
               if readyState destination \<noteq> OPEN then shutdownLease i 1011 ''relay peer unavailable'' p
               else if bufferedAmount destination + rawDataLength data > MAX_BUFFERED_BYTES
               then shutdownLease i 1013 ''relay backpressure limit'' p
               else p\<lparr>leases := (leases p)(i \<mapsto> put_side to (socket_send data isBinary destination) l)\<rparr>))"

subsection \<open>Events\<close>

text \<open>An upgrade request for the route becomes a client; the other requests get a 404.\<close>

definition upgrade_route :: "string \<Rightarrow> bool" where
  "upgrade_route url = (url = ''/internal/v1/signaling'')"

definition connection :: "socket \<Rightarrow> proxy \<Rightarrow> proxy" where
  "connection client p =
     (let i = next_client p; p' = p\<lparr>next_client := Suc i\<rparr> in
      if activeLease p \<noteq> None
      then p'\<lparr>refused := (refused p)(i \<mapsto> closeSocket 1008 ''controller already connected'' client)\<rparr>
      else p'\<lparr>leases := (leases p)(i \<mapsto> new_lease client), activeLease := Some i\<rparr>)"

definition note_received :: "nat \<Rightarrow> nat list \<times> bool \<Rightarrow> proxy \<Rightarrow> proxy" where
  "note_received i m p = p\<lparr>leases := (leases p)(i := map_option (\<lambda>l. l\<lparr>ls_received := ls_received l @ [m]\<rparr>) (leases p i))\<rparr>"

definition note_arrived :: "nat \<Rightarrow> nat list \<times> bool \<Rightarrow> proxy \<Rightarrow> proxy" where
  "note_arrived i m p = p\<lparr>leases := (leases p)(i := map_option (\<lambda>l. l\<lparr>ls_arrived := ls_arrived l @ [m]\<rparr>) (leases p i))\<rparr>"

definition on_client_message ::
  "(nat list \<Rightarrow> json option) \<Rightarrow> string \<Rightarrow> nat \<Rightarrow> nat list \<Rightarrow> bool \<Rightarrow> proxy \<Rightarrow> proxy" where
  "on_client_message json_parse secret i data isBinary p =
     (case leases p i of
        None \<Rightarrow> p
      | Some l \<Rightarrow>
          (case ls_phase l of
             LeaseAuthenticating \<Rightarrow>
               if \<not> parseAuthenticationFrame json_parse data isBinary secret
               then shutdownLease i 1008 ''authentication failed'' p
               else p\<lparr>leases := (leases p)(i \<mapsto>
                      l\<lparr>ls_phase := LeaseConnecting, ls_timer := False, ls_upstream := Some new_socket\<rparr>)\<rparr>
           | LeaseConnecting \<Rightarrow> shutdownLease i 1008 ''wait for relay readiness'' p
           | LeaseRelaying \<Rightarrow> if ls_upstream l = None then p else forward i UpstreamSide (Bytes data) isBinary p
           | LeaseClosed \<Rightarrow> p))"

definition on_upstream_open :: "nat \<Rightarrow> proxy \<Rightarrow> proxy" where
  "on_upstream_open i p =
     (case leases p i of
        None \<Rightarrow> p
      | Some l \<Rightarrow>
          let l' = l\<lparr>ls_upstream := map_option (\<lambda>s. s\<lparr>readyState := OPEN\<rparr>) (ls_upstream l)\<rparr> in
          p\<lparr>leases := (leases p)(i \<mapsto>
             (if ls_phase l' \<noteq> LeaseConnecting then l'
              else l'\<lparr>ls_phase := LeaseRelaying, ls_client := send_frame authenticated_frame (ls_client l')\<rparr>))\<rparr>)"

definition on_upstream_message :: "nat \<Rightarrow> nat list \<Rightarrow> bool \<Rightarrow> proxy \<Rightarrow> proxy" where
  "on_upstream_message i data isBinary p =
     (case leases p i of
        None \<Rightarrow> p
      | Some l \<Rightarrow> if ls_phase l = LeaseRelaying then forward i ClientSide (Bytes data) isBinary p else p)"

definition authentication_timer :: "nat \<Rightarrow> proxy \<Rightarrow> proxy" where
  "authentication_timer i p =
     (case leases p i of
        None \<Rightarrow> p
      | Some l \<Rightarrow> if ls_timer l then shutdownLease i 1008 ''authentication timeout'' p else p)"

datatype lease_end = ClientClosed | ClientFailed | UpstreamClosed | UpstreamFailed | WriteFailed

fun lease_ended :: "lease_end \<Rightarrow> nat \<Rightarrow> proxy \<Rightarrow> proxy" where
  "lease_ended ClientClosed i p = shutdownLease i 1000 ''client disconnected'' p"
| "lease_ended ClientFailed i p = shutdownLease i 1011 ''client connection failed'' p"
| "lease_ended UpstreamClosed i p = shutdownLease i 1011 ''upstream closed'' p"
| "lease_ended UpstreamFailed i p = shutdownLease i 1011 ''upstream unavailable'' p"
| "lease_ended WriteFailed i p = shutdownLease i 1011 ''relay write failed'' p"

text \<open>
  The timer that \<open>closeSocket\<close> starts with the closing handshake, and an \<open>error\<close> event of
  a refused client, for which no listener was registered.
\<close>

definition force_close :: "nat \<Rightarrow> side \<Rightarrow> proxy \<Rightarrow> proxy" where
  "force_close i which p =
     (case leases p i of
        None \<Rightarrow> p
      | Some l \<Rightarrow>
          (case side_socket which l of
             None \<Rightarrow> p
           | Some s \<Rightarrow>
               if readyState s \<noteq> CLOSED then p\<lparr>leases := (leases p)(i \<mapsto> put_side which (socket_terminate s) l)\<rparr> else p))"

definition refused_error :: "nat \<Rightarrow> proxy \<Rightarrow> proxy" where
  "refused_error i p = (if refused p i = None then p else p\<lparr>uncaught := True\<rparr>)"

text \<open>The function \<open>close\<close> of the proxy, up to the closing of the servers.\<close>

definition terminate_lease :: "lease \<Rightarrow> lease" where
  "terminate_lease l = l\<lparr>ls_client := socket_terminate (ls_client l), ls_upstream := map_option socket_terminate (ls_upstream l)\<rparr>"

definition proxy_close :: "proxy \<Rightarrow> proxy" where
  "proxy_close p =
     (let p1 = (case activeLease p of
                  None \<Rightarrow> p
                | Some i \<Rightarrow> p\<lparr>leases := (leases p)(i := map_option terminate_lease (leases p i)), activeLease := None\<rparr>)
      in p1\<lparr>leases := (\<lambda>i. map_option (\<lambda>l. l\<lparr>ls_client := socket_terminate (ls_client l)\<rparr>) (leases p1 i)),
            refused := (\<lambda>i. map_option socket_terminate (refused p1 i)), proxy_down := True\<rparr>)"

subsection \<open>Steps\<close>

inductive proxy_step :: "(nat list \<Rightarrow> json option) \<Rightarrow> string \<Rightarrow> proxy \<Rightarrow> proxy \<Rightarrow> bool"
  for json_parse :: "nat list \<Rightarrow> json option" and secret :: string where
  connect: "upgrade_route url \<Longrightarrow> \<not> proxy_down p \<Longrightarrow> readyState client = OPEN \<Longrightarrow> actions client = [] \<Longrightarrow> bufferedAmount client = 0
     \<Longrightarrow> proxy_step json_parse secret p (connection client p)"
| client_message: "proxy_step json_parse secret p
     (on_client_message json_parse secret i data isBinary (note_received i (data, isBinary) p))"
| upstream_open: "leases p i = Some l \<Longrightarrow> ls_upstream l = Some s \<Longrightarrow> readyState s = CONNECTING
     \<Longrightarrow> proxy_step json_parse secret p (on_upstream_open i p)"
| upstream_message: "leases p i = Some l \<Longrightarrow> ls_upstream l = Some s \<Longrightarrow> readyState s \<noteq> CONNECTING
     \<Longrightarrow> proxy_step json_parse secret p (on_upstream_message i data isBinary (note_arrived i (data, isBinary) p))"
| timer: "proxy_step json_parse secret p (authentication_timer i p)"
| ended: "proxy_step json_parse secret p (lease_ended e i p)"
| force: "leases p i = Some l \<Longrightarrow> side_socket which l = Some s \<Longrightarrow> CloseFrame n reason \<in> set (actions s)
     \<Longrightarrow> proxy_step json_parse secret p (force_close i which p)"
| refused_fails: "proxy_step json_parse secret p (refused_error i p)"
| network: "leases p i = Some l \<Longrightarrow> side_socket which l = Some s \<Longrightarrow> socket_later s t
     \<Longrightarrow> proxy_step json_parse secret p (p\<lparr>leases := (leases p)(i \<mapsto> put_side which t l)\<rparr>)"
| refused_network: "refused p i = Some s \<Longrightarrow> socket_later s t \<Longrightarrow> proxy_step json_parse secret p (p\<lparr>refused := (refused p)(i \<mapsto> t)\<rparr>)"
| closing: "proxy_step json_parse secret p (proxy_close p)"

inductive_cases proxy_stepE: "proxy_step json_parse secret p q"

abbreviation proxy_reachable :: "(nat list \<Rightarrow> json option) \<Rightarrow> string \<Rightarrow> proxy \<Rightarrow> bool" where
  "proxy_reachable json_parse secret \<equiv> reachable (\<lambda>p. p = new_proxy) (proxy_step json_parse secret)"

end
