(* ===== verification/ProxyInvariant.thy ===== *)
theory ProxyInvariant
  imports SignalingProxy "HOL-Library.Sublist"
begin

text \<open>
  The invariant of the signaling proxy: what each lease has relayed is a prefix of what came
  in after the authentication, and at most one lease is not closed.
\<close>

definition greeting :: "nat list \<times> bool" where
  "greeting = (rawDataToBuffer authenticated_frame, False)"

definition relayed :: "(nat list \<Rightarrow> json option) \<Rightarrow> string \<Rightarrow> lease \<Rightarrow> bool" where
  "relayed json_parse secret l \<longleftrightarrow>
     (\<forall>s. ls_upstream l = Some s \<longrightarrow>
        ls_received l \<noteq> [] \<and> parseAuthenticationFrame json_parse (fst (hd (ls_received l))) (snd (hd (ls_received l))) secret
        \<and> prefix (frames s) (tl (ls_received l)) \<and> bufferedAmount s \<le> MAX_BUFFERED_BYTES)
     \<and> prefix (frames (ls_client l)) (greeting # ls_arrived l)
     \<and> (frames (ls_client l) \<noteq> [] \<longrightarrow> ls_upstream l \<noteq> None)
     \<and> bufferedAmount (ls_client l) \<le> MAX_BUFFERED_BYTES"

fun in_phase :: "lease_phase \<Rightarrow> lease \<Rightarrow> bool" where
  "in_phase LeaseAuthenticating l \<longleftrightarrow>
     ls_received l = [] \<and> ls_arrived l = [] \<and> ls_upstream l = None \<and> frames (ls_client l) = [] \<and> bufferedAmount (ls_client l) = 0"
| "in_phase LeaseConnecting l \<longleftrightarrow>
     (\<exists>s. ls_upstream l = Some s \<and> frames s = [] \<and> bufferedAmount s = 0 \<and> (readyState s = CONNECTING \<longrightarrow> ls_arrived l = []))
     \<and> length (ls_received l) = 1 \<and> frames (ls_client l) = [] \<and> bufferedAmount (ls_client l) = 0 \<and> \<not> ls_timer l"
| "in_phase LeaseRelaying l \<longleftrightarrow>
     (\<exists>s. ls_upstream l = Some s \<and> frames s = tl (ls_received l))
     \<and> (frames (ls_client l) = greeting # ls_arrived l \<or> readyState (ls_client l) \<noteq> OPEN) \<and> \<not> ls_timer l"
| "in_phase LeaseClosed l \<longleftrightarrow>
     readyState (ls_client l) \<in> {CLOSING, CLOSED} \<and> (\<forall>s. ls_upstream l = Some s \<longrightarrow> readyState s \<in> {CLOSING, CLOSED})
     \<and> \<not> ls_timer l"

definition lease_ok :: "(nat list \<Rightarrow> json option) \<Rightarrow> string \<Rightarrow> lease \<Rightarrow> bool" where
  "lease_ok json_parse secret l \<longleftrightarrow> relayed json_parse secret l \<and> in_phase (ls_phase l) l"

definition one_active :: "proxy \<Rightarrow> bool" where
  "one_active p \<longleftrightarrow>
     (\<forall>i. activeLease p = Some i \<longrightarrow> \<not> proxy_down p \<and> (\<exists>l. leases p i = Some l \<and> ls_phase l \<noteq> LeaseClosed))
     \<and> (\<not> proxy_down p \<longrightarrow> (\<forall>j l. leases p j = Some l \<and> ls_phase l \<noteq> LeaseClosed \<longrightarrow> activeLease p = Some j))"

definition proxy_inv :: "(nat list \<Rightarrow> json option) \<Rightarrow> string \<Rightarrow> proxy \<Rightarrow> bool" where
  "proxy_inv json_parse secret p \<longleftrightarrow>
     (\<forall>i l. leases p i = Some l \<longrightarrow> lease_ok json_parse secret l \<and> i < next_client p)
     \<and> one_active p
     \<and> (\<forall>i s. refused p i = Some s \<longrightarrow> frames s = [] \<and> readyState s \<in> {CLOSING, CLOSED})"

subsection \<open>Sockets\<close>

lemma not_open_closing: "readyState s \<noteq> OPEN \<Longrightarrow> readyState s \<noteq> CONNECTING \<Longrightarrow> readyState s \<in> {CLOSING, CLOSED}"
  by (cases "readyState s") auto

lemma closeSocket_ends: "readyState (closeSocket n r s) \<in> {CLOSING, CLOSED}"
  using not_open_closing closeSocket_state by blast

lemma terminate_ends: "readyState (socket_terminate s) \<in> {CLOSING, CLOSED}"
  using terminate_state(1) by auto

lemma socket_later_ends: "socket_later s t \<Longrightarrow> readyState s \<in> {CLOSING, CLOSED} \<Longrightarrow> readyState t \<in> {CLOSING, CLOSED}"
  by (auto simp: socket_later_def)

lemma bufferedAmount_send: "bufferedAmount (socket_send (Bytes d) b s) = bufferedAmount s + length d"
  by (simp add: socket_send_def)

lemma rawDataLength_eq: "rawDataLength d = rawDataByteLength d"
  by (cases d) simp_all

lemma frames_bufferedAmount: "frames (s\<lparr>bufferedAmount := n\<rparr>) = frames s"
  by (simp add: frames_def)

lemma frames_send_frame:
  "frames (send_frame d s) = (if readyState s = OPEN then frames s @ [(rawDataToBuffer d, False)] else frames s)"
  by (simp add: send_frame_def frames_send frames_bufferedAmount)

lemma send_frame_rest:
  "readyState (send_frame d s) = readyState s"
  "bufferedAmount (send_frame d s) = bufferedAmount s + rawDataLength d"
  by (simp_all add: send_frame_def socket_send_def rawDataLength_eq)

lemmas send_frame_simps = frames_send_frame send_frame_rest

subsection \<open>One lease\<close>

lemma relayed_close: "relayed json_parse secret l \<Longrightarrow> lease_ok json_parse secret (close_lease n r l)"
  using closeSocket_ends
  by (fastforce simp: lease_ok_def relayed_def close_lease_def socket_simps)

lemma relayed_received:
  "relayed json_parse secret l \<Longrightarrow> relayed json_parse secret (l\<lparr>ls_received := ls_received l @ [m]\<rparr>)"
  by (auto simp: relayed_def prefix_def tl_append split: list.splits)

lemma relayed_arrived:
  "relayed json_parse secret l \<Longrightarrow> relayed json_parse secret (l\<lparr>ls_arrived := ls_arrived l @ [m]\<rparr>)"
  by (auto simp: relayed_def) (metis append_Cons prefix_prefix)

lemma one_active_unique:
  "one_active p \<Longrightarrow> \<not> proxy_down p \<Longrightarrow> leases p j = Some l \<Longrightarrow> ls_phase l \<noteq> LeaseClosed \<Longrightarrow> activeLease p = Some j"
  unfolding one_active_def by blast

lemma one_active_lease:
  "one_active p \<Longrightarrow> activeLease p = Some i \<Longrightarrow> \<exists>l. leases p i = Some l \<and> ls_phase l \<noteq> LeaseClosed"
  unfolding one_active_def by blast

lemma one_active_update:
  assumes "one_active p" and "leases p i = Some l"
    and "leases q = (leases p)(i \<mapsto> l')" and "proxy_down q = proxy_down p"
    and "activeLease q = (if ls_phase l' = LeaseClosed \<and> activeLease p = Some i then None else activeLease p)"
    and "ls_phase l = LeaseClosed \<Longrightarrow> ls_phase l' = LeaseClosed"
  shows "one_active q"
  unfolding one_active_def
proof (intro conjI allI impI)
  fix k assume "activeLease q = Some k"
  then have k: "activeLease p = Some k" and ne: "\<not> (ls_phase l' = LeaseClosed \<and> k = i)" using assms(5) by (auto split: if_splits)
  then show "\<not> proxy_down q" using assms(1,4) by (simp add: one_active_def)
  obtain m where "leases p k = Some m" "ls_phase m \<noteq> LeaseClosed" using assms(1) k by (auto simp: one_active_def)
  with ne show "\<exists>m. leases q k = Some m \<and> ls_phase m \<noteq> LeaseClosed" by (cases "k = i") (simp_all add: assms(3))
next
  fix k m assume up: "\<not> proxy_down q" and m: "leases q k = Some m \<and> ls_phase m \<noteq> LeaseClosed"
  have "\<exists>m'. leases p k = Some m' \<and> ls_phase m' \<noteq> LeaseClosed"
  proof (cases "k = i")
    case True
    with m have "ls_phase l' \<noteq> LeaseClosed" by (simp add: assms(3))
    with True assms(2,6) show ?thesis by blast
  next
    case False
    with m show ?thesis by (simp add: assms(3))
  qed
  then have k: "activeLease p = Some k" using one_active_unique [OF assms(1)] up assms(4) by auto
  show "activeLease q = Some k"
  proof (cases "k = i")
    case True
    with m have "ls_phase l' \<noteq> LeaseClosed" by (simp add: assms(3))
    with k assms(5) show ?thesis by simp
  next
    case False
    with k assms(5) show ?thesis by simp
  qed
qed

lemma proxy_inv_update:
  assumes "proxy_inv json_parse secret p" and "leases p i = Some l" and "lease_ok json_parse secret l'"
    and "leases q = (leases p)(i \<mapsto> l')" and "one_active q" and "refused q = refused p" and "next_client q = next_client p"
  shows "proxy_inv json_parse secret q"
  unfolding proxy_inv_def
proof (intro conjI allI impI)
  fix k m assume m: "leases q k = Some m"
  show "lease_ok json_parse secret m"
    using m assms(1,3,4) by (cases "k = i") (auto simp: proxy_inv_def)
  show "k < next_client q"
    using m assms(1,2,4,7) by (cases "k = i") (auto simp: proxy_inv_def)
qed (use assms(1,5,6) in \<open>auto simp: proxy_inv_def\<close>)

lemma replace_lease:
  assumes "proxy_inv json_parse secret p" and "leases p i = Some l" and "lease_ok json_parse secret l'"
    and "ls_phase l' = LeaseClosed \<longleftrightarrow> ls_phase l = LeaseClosed"
  shows "proxy_inv json_parse secret (p\<lparr>leases := (leases p)(i \<mapsto> l')\<rparr>)"
proof (rule proxy_inv_update [OF assms(1,2,3)])
  have a: "one_active p" using assms(1) by (simp add: proxy_inv_def)
  show "one_active (p\<lparr>leases := (leases p)(i \<mapsto> l')\<rparr>)"
  proof (rule one_active_update [OF a assms(2)])
    show "activeLease (p\<lparr>leases := (leases p)(i \<mapsto> l')\<rparr>)
        = (if ls_phase l' = LeaseClosed \<and> activeLease p = Some i then None else activeLease p)"
      using one_active_lease [OF a, of i] assms(2,4) by fastforce
  qed (use assms(4) in simp_all)
qed simp_all

lemma close_lease_inv:
  assumes "proxy_inv json_parse secret p" and "leases p i = Some l" and "relayed json_parse secret l'"
    and "ls_phase l' = ls_phase l" and "ls_phase l \<noteq> LeaseClosed"
  shows "proxy_inv json_parse secret (shutdownLease i n r (p\<lparr>leases := (leases p)(i \<mapsto> l')\<rparr>))"
proof (rule proxy_inv_update [OF assms(1,2) relayed_close [OF assms(3)]])
  let ?q = "shutdownLease i n r (p\<lparr>leases := (leases p)(i \<mapsto> l')\<rparr>)"
  have a: "one_active p" using assms(1) by (simp add: proxy_inv_def)
  show l: "leases ?q = (leases p)(i \<mapsto> close_lease n r l')" and "refused ?q = refused p" and "next_client ?q = next_client p"
    using assms(4,5) by (simp_all add: shutdownLease_def)
  show "one_active ?q"
    by (rule one_active_update [OF a assms(2) l])
      (use assms(4,5) in \<open>simp_all add: shutdownLease_def close_lease_def\<close>)
qed

lemma shutdownLease_inv:
  assumes "proxy_inv json_parse secret p"
  shows "proxy_inv json_parse secret (shutdownLease i n r p)"
proof (cases "leases p i")
  case None
  with assms show ?thesis by (simp add: shutdownLease_def)
next
  case (Some l)
  have same: "p\<lparr>leases := (leases p)(i \<mapsto> l)\<rparr> = p" using Some by (simp add: fun_upd_idem)
  show ?thesis
  proof (cases "ls_phase l = LeaseClosed")
    case True
    with Some assms show ?thesis by (simp add: shutdownLease_def)
  next
    case False
    have "relayed json_parse secret l" using assms Some by (simp add: proxy_inv_def lease_ok_def)
    from close_lease_inv [OF assms Some this refl False, of n r] same show ?thesis by simp
  qed
qed

subsection \<open>Events\<close>

lemma lease_ok_at: "proxy_inv json_parse secret p \<Longrightarrow> leases p i = Some l \<Longrightarrow> lease_ok json_parse secret l"
  by (simp add: proxy_inv_def)

lemma note_received_eq:
  "note_received i m p = (case leases p i of None \<Rightarrow> p
     | Some l \<Rightarrow> p\<lparr>leases := (leases p)(i \<mapsto> l\<lparr>ls_received := ls_received l @ [m]\<rparr>)\<rparr>)"
  by (cases "leases p i") (simp_all add: note_received_def fun_upd_idem)

lemma note_arrived_eq:
  "note_arrived i m p = (case leases p i of None \<Rightarrow> p
     | Some l \<Rightarrow> p\<lparr>leases := (leases p)(i \<mapsto> l\<lparr>ls_arrived := ls_arrived l @ [m]\<rparr>)\<rparr>)"
  by (cases "leases p i") (simp_all add: note_arrived_def fun_upd_idem)

lemma forward_lease_inv:
  assumes "proxy_inv json_parse secret p" and "leases p i = Some l" and "relayed json_parse secret l'"
    and "ls_phase l' = LeaseRelaying" and "ls_phase l = LeaseRelaying" and "side_socket to l' = Some s"
    and sent: "readyState s = OPEN \<Longrightarrow> bufferedAmount s + length data \<le> MAX_BUFFERED_BYTES
      \<Longrightarrow> lease_ok json_parse secret (put_side to (socket_send (Bytes data) b s) l')"
  shows "proxy_inv json_parse secret (forward i to (Bytes data) b (p\<lparr>leases := (leases p)(i \<mapsto> l')\<rparr>))"
proof -
  have close: "proxy_inv json_parse secret (shutdownLease i n r (p\<lparr>leases := (leases p)(i \<mapsto> l')\<rparr>))" for n r
    by (rule close_lease_inv [OF assms(1-3)]) (simp_all add: assms(4,5))
  have phase: "ls_phase (put_side to s' l') = LeaseRelaying" for s' by (cases to) (simp_all add: assms(4))
  show ?thesis
  proof (cases "readyState s = OPEN \<and> bufferedAmount s + length data \<le> MAX_BUFFERED_BYTES")
    case True
    have "proxy_inv json_parse secret (p\<lparr>leases := (leases p)(i \<mapsto> put_side to (socket_send (Bytes data) b s) l')\<rparr>)"
      by (rule replace_lease [OF assms(1,2)]) (use True sent assms(5) phase in simp_all)
    with True assms(6) show ?thesis by (simp add: forward_def)
  next
    case False
    with close assms(6) show ?thesis by (auto simp: forward_def)
  qed
qed

lemma on_client_message_inv:
  assumes inv: "proxy_inv json_parse secret p"
  shows "proxy_inv json_parse secret (on_client_message json_parse secret i data b (note_received i (data, b) p))"
proof (cases "leases p i")
  case None
  with inv show ?thesis by (simp add: note_received_eq on_client_message_def)
next
  case (Some l)
  let ?l = "l\<lparr>ls_received := ls_received l @ [(data, b)]\<rparr>"
  let ?p = "p\<lparr>leases := (leases p)(i \<mapsto> ?l)\<rparr>"
  have noted: "note_received i (data, b) p = ?p" by (simp add: note_received_eq Some)
  have ok: "relayed json_parse secret l" and ph: "in_phase (ls_phase l) l"
    using lease_ok_at [OF inv Some] by (simp_all add: lease_ok_def)
  have rel: "relayed json_parse secret ?l" by (rule relayed_received [OF ok])
  have close: "proxy_inv json_parse secret (shutdownLease i n r ?p)" if "ls_phase l \<noteq> LeaseClosed" for n r
    by (rule close_lease_inv [OF inv Some rel]) (simp_all add: that)
  show ?thesis
  proof (cases "ls_phase l")
    case LeaseAuthenticating
    show ?thesis
    proof (cases "parseAuthenticationFrame json_parse data b secret")
      case True
      let ?n = "?l\<lparr>ls_phase := LeaseConnecting, ls_timer := False, ls_upstream := Some new_socket\<rparr>"
      have "lease_ok json_parse secret ?n"
        using rel ph True LeaseAuthenticating by (simp add: lease_ok_def relayed_def new_socket_def frames_def map_filter_simps)
      then have "proxy_inv json_parse secret (p\<lparr>leases := (leases p)(i \<mapsto> ?n)\<rparr>)"
        by (rule replace_lease [OF inv Some]) (simp add: LeaseAuthenticating)
      with True LeaseAuthenticating show ?thesis by (simp add: noted on_client_message_def)
    next
      case False
      with close LeaseAuthenticating show ?thesis by (simp add: noted on_client_message_def)
    qed
  next
    case LeaseConnecting
    with close show ?thesis by (simp add: noted on_client_message_def)
  next
    case LeaseRelaying
    then obtain s where s: "ls_upstream l = Some s" "frames s = tl (ls_received l)" using ph by auto
    have ne: "ls_received l \<noteq> []" using ok s(1) by (simp add: relayed_def)
    have "lease_ok json_parse secret (put_side UpstreamSide (socket_send (Bytes data) b s) ?l)"
      if "bufferedAmount s + length data \<le> MAX_BUFFERED_BYTES"
      using ok ph LeaseRelaying s ne that
      by (auto simp: lease_ok_def relayed_def socket_simps bufferedAmount_send)
    then have "proxy_inv json_parse secret (forward i UpstreamSide (Bytes data) b ?p)"
      by (intro forward_lease_inv [OF inv Some rel, of UpstreamSide s]) (simp_all add: LeaseRelaying s(1))
    with LeaseRelaying s(1) show ?thesis by (simp add: noted on_client_message_def)
  next
    case LeaseClosed
    have "lease_ok json_parse secret ?l" using rel ph LeaseClosed by (simp add: lease_ok_def)
    then have "proxy_inv json_parse secret ?p" by (rule replace_lease [OF inv Some]) simp
    with LeaseClosed show ?thesis by (simp add: noted on_client_message_def)
  qed
qed

lemma on_upstream_message_inv:
  assumes inv: "proxy_inv json_parse secret p" and Some: "leases p i = Some l"
    and up: "ls_upstream l = Some s" "readyState s \<noteq> CONNECTING"
  shows "proxy_inv json_parse secret (on_upstream_message i data b (note_arrived i (data, b) p))"
proof -
  let ?l = "l\<lparr>ls_arrived := ls_arrived l @ [(data, b)]\<rparr>"
  let ?p = "p\<lparr>leases := (leases p)(i \<mapsto> ?l)\<rparr>"
  have noted: "note_arrived i (data, b) p = ?p" by (simp add: note_arrived_eq Some)
  have ok: "relayed json_parse secret l" and ph: "in_phase (ls_phase l) l"
    using lease_ok_at [OF inv Some] by (simp_all add: lease_ok_def)
  have rel: "relayed json_parse secret ?l" by (rule relayed_arrived [OF ok])
  show ?thesis
  proof (cases "ls_phase l = LeaseRelaying")
    case True
    have "lease_ok json_parse secret (put_side ClientSide (socket_send (Bytes data) b (ls_client l)) ?l)"
      if "readyState (ls_client l) = OPEN" "bufferedAmount (ls_client l) + length data \<le> MAX_BUFFERED_BYTES"
      using ok ph True up that
      by (auto simp: lease_ok_def relayed_def socket_simps bufferedAmount_send)
    then have "proxy_inv json_parse secret (forward i ClientSide (Bytes data) b ?p)"
      by (intro forward_lease_inv [OF inv Some rel, of ClientSide "ls_client l"]) (simp_all add: True)
    with True show ?thesis by (simp add: noted on_upstream_message_def)
  next
    case False
    have "in_phase (ls_phase ?l) ?l" using ph up False by (cases "ls_phase l") auto
    then have "proxy_inv json_parse secret ?p"
      by (intro replace_lease [OF inv Some]) (simp_all add: lease_ok_def rel)
    with False show ?thesis by (simp add: noted on_upstream_message_def)
  qed
qed

lemma on_upstream_open_inv:
  assumes inv: "proxy_inv json_parse secret p" and Some: "leases p i = Some l"
    and up: "ls_upstream l = Some s" "readyState s = CONNECTING"
  shows "proxy_inv json_parse secret (on_upstream_open i p)"
proof -
  let ?l = "l\<lparr>ls_upstream := Some (s\<lparr>readyState := OPEN\<rparr>)\<rparr>"
  let ?r = "?l\<lparr>ls_phase := LeaseRelaying, ls_client := send_frame authenticated_frame (ls_client l)\<rparr>"
  have ok: "relayed json_parse secret l" and ph: "in_phase (ls_phase l) l"
    using lease_ok_at [OF inv Some] by (simp_all add: lease_ok_def)
  have fr: "frames (s\<lparr>readyState := OPEN\<rparr>) = frames s" by (simp add: frames_def)
  have rel: "relayed json_parse secret ?l" using ok up fr by (simp add: relayed_def)
  show ?thesis
  proof (cases "ls_phase l = LeaseConnecting")
    case True
    have "rawDataLength authenticated_frame \<le> 30" by code_simp
    then have short: "rawDataLength authenticated_frame \<le> MAX_BUFFERED_BYTES" by (simp add: MAX_BUFFERED_BYTES_def)
    have "length (ls_received l) = 1" using ph unfolding True by simp
    then have "tl (ls_received l) = []" by (cases "ls_received l") simp_all
    moreover have c: "frames s = []" "bufferedAmount s = 0" "ls_arrived l = []" "frames (ls_client l) = []"
      "bufferedAmount (ls_client l) = 0" "\<not> ls_timer l" using ph True up by simp_all
    ultimately have "in_phase LeaseRelaying ?r"
      using fr by (simp add: send_frame_simps greeting_def)
    moreover have "relayed json_parse secret ?r"
      using rel c fr short by (simp add: relayed_def send_frame_simps greeting_def)
    ultimately have "lease_ok json_parse secret ?r" by (simp add: lease_ok_def)
    then have "proxy_inv json_parse secret (p\<lparr>leases := (leases p)(i \<mapsto> ?r)\<rparr>)"
      by (rule replace_lease [OF inv Some]) (simp add: True)
    with True show ?thesis by (simp add: on_upstream_open_def Some up)
  next
    case False
    have "in_phase (ls_phase ?l) ?l" using ph up fr False by (cases "ls_phase l") auto
    then have "proxy_inv json_parse secret (p\<lparr>leases := (leases p)(i \<mapsto> ?l)\<rparr>)"
      by (intro replace_lease [OF inv Some]) (simp_all add: lease_ok_def rel)
    with False show ?thesis by (simp add: on_upstream_open_def Some up)
  qed
qed

text \<open>A socket that changes in ways that write nothing and do not open it.\<close>

lemma quiet_lease_ok:
  assumes lease: "lease_ok json_parse secret l" and side: "side_socket which l = Some s"
    and quiet: "frames t = frames s" "bufferedAmount t \<le> bufferedAmount s"
      "readyState t = readyState s \<or> readyState t \<in> {CLOSING, CLOSED}"
  shows "lease_ok json_parse secret (put_side which t l) \<and> ls_phase (put_side which t l) = ls_phase l"
proof -
  have ok: "relayed json_parse secret l" and ph: "in_phase (ls_phase l) l"
    using lease by (simp_all add: lease_ok_def)
  have phase: "ls_phase (put_side which t l) = ls_phase l" by (cases which) simp_all
  have "relayed json_parse secret (put_side which t l)"
    using ok side quiet by (cases which) (auto simp: relayed_def)
  moreover have "in_phase (ls_phase l) (put_side which t l)"
    using ph side quiet by (cases which; cases "ls_phase l") auto
  ultimately show ?thesis by (simp add: lease_ok_def phase)
qed

lemma quiet_socket_inv:
  assumes inv: "proxy_inv json_parse secret p" and Some: "leases p i = Some l" and side: "side_socket which l = Some s"
    and quiet: "frames t = frames s" "bufferedAmount t \<le> bufferedAmount s"
      "readyState t = readyState s \<or> readyState t \<in> {CLOSING, CLOSED}"
  shows "proxy_inv json_parse secret (p\<lparr>leases := (leases p)(i \<mapsto> put_side which t l)\<rparr>)"
  using quiet_lease_ok [OF lease_ok_at [OF inv Some] side quiet] by (intro replace_lease [OF inv Some]) simp_all

lemma terminated_lease_ok:
  assumes "lease_ok json_parse secret l"
  shows "lease_ok json_parse secret (l\<lparr>ls_client := socket_terminate (ls_client l)\<rparr>)"
    and "lease_ok json_parse secret (terminate_lease l)"
proof -
  have ended: "lease_ok json_parse secret (put_side which (socket_terminate s) m)"
    if "lease_ok json_parse secret m" "side_socket which m = Some s" for which s m
    using quiet_lease_ok [OF that, of "socket_terminate s"] terminate_ends [of s] by (simp add: socket_simps)
  let ?c = "l\<lparr>ls_client := socket_terminate (ls_client l)\<rparr>"
  show c: "lease_ok json_parse secret ?c" using ended [OF assms, of ClientSide] by simp
  show "lease_ok json_parse secret (terminate_lease l)"
  proof (cases "ls_upstream l")
    case None
    then have "terminate_lease l = ?c" by (simp add: terminate_lease_def)
    with c show ?thesis by simp
  next
    case (Some s)
    then have "terminate_lease l = put_side UpstreamSide (socket_terminate s) ?c" by (simp add: terminate_lease_def)
    with ended [OF c, of UpstreamSide s] Some show ?thesis by simp
  qed
qed

lemma proxy_close_inv:
  assumes "proxy_inv json_parse secret p"
  shows "proxy_inv json_parse secret (proxy_close p)"
proof -
  let ?p1 = "case activeLease p of None \<Rightarrow> p
    | Some i \<Rightarrow> p\<lparr>leases := (leases p)(i := map_option terminate_lease (leases p i)), activeLease := None\<rparr>"
  have ok1: "lease_ok json_parse secret l \<and> i < next_client p" if "leases ?p1 i = Some l" for i l
    using that assms terminated_lease_ok(2)
    by (auto simp: proxy_inv_def split: option.splits if_splits)
  have rest: "activeLease ?p1 = None" "next_client ?p1 = next_client p" "refused ?p1 = refused p"
    by (simp_all split: option.split)
  show ?thesis
    unfolding proxy_inv_def
  proof (intro conjI allI impI)
    fix i l assume "leases (proxy_close p) i = Some l"
    then obtain l0 where "leases ?p1 i = Some l0" "l = l0\<lparr>ls_client := socket_terminate (ls_client l0)\<rparr>"
      by (auto simp: proxy_close_def Let_def)
    with ok1 terminated_lease_ok(1) show "lease_ok json_parse secret l" "i < next_client (proxy_close p)"
      by (auto simp: proxy_close_def Let_def rest(2))
  next
    show "one_active (proxy_close p)" by (simp add: one_active_def proxy_close_def Let_def rest)
  next
    fix i s assume "refused (proxy_close p) i = Some s"
    then obtain s0 where "refused p i = Some s0" "s = socket_terminate s0" by (auto simp: proxy_close_def Let_def rest)
    with assms terminate_ends show "frames s = []" "readyState s \<in> {CLOSING, CLOSED}"
      by (auto simp: proxy_inv_def socket_simps)
  qed
qed

lemma connection_inv:
  assumes inv: "proxy_inv json_parse secret p" and "\<not> proxy_down p" and "actions client = []" and "bufferedAmount client = 0"
  shows "proxy_inv json_parse secret (connection client p)"
proof (cases "activeLease p")
  case None
  have closed: "ls_phase l = LeaseClosed" if "leases p j = Some l" for j l
    using one_active_unique [of p j l] that inv assms(2) None by (auto simp: proxy_inv_def)
  have ok: "lease_ok json_parse secret (new_lease client)"
    using assms(3,4) by (simp add: lease_ok_def relayed_def new_lease_def frames_def map_filter_simps)
  show ?thesis
    unfolding proxy_inv_def
  proof (intro conjI allI impI)
    fix i l assume "leases (connection client p) i = Some l"
    then show "lease_ok json_parse secret l" "i < next_client (connection client p)"
      using ok inv None by (auto simp: connection_def Let_def proxy_inv_def less_Suc_eq split: if_splits)
  next
    show "one_active (connection client p)"
      using None closed assms(2) by (auto simp: one_active_def connection_def Let_def new_lease_def split: if_splits)
  next
    fix i s assume "refused (connection client p) i = Some s"
    then show "frames s = []" "readyState s \<in> {CLOSING, CLOSED}"
      using inv None by (auto simp: connection_def Let_def proxy_inv_def)
  qed
next
  case (Some k)
  have f: "frames (closeSocket n r client) = []" for n r
    using assms(3) by (simp add: socket_simps) (simp add: frames_def map_filter_simps)
  show ?thesis
    unfolding proxy_inv_def
  proof (intro conjI allI impI)
    fix i l assume "leases (connection client p) i = Some l"
    then show "lease_ok json_parse secret l" "i < next_client (connection client p)"
      using inv Some by (auto simp: connection_def Let_def proxy_inv_def less_Suc_eq)
  next
    show "one_active (connection client p)"
      using inv Some by (simp add: proxy_inv_def one_active_def connection_def Let_def)
  next
    fix i s assume s: "refused (connection client p) i = Some s"
    show "frames s = []" "readyState s \<in> {CLOSING, CLOSED}"
      using s inv Some f closeSocket_ends [of 1008 "''controller already connected''" client]
      by (cases "i = next_client p"; fastforce simp: connection_def Let_def proxy_inv_def)+
  qed
qed

lemma proxy_inv_new: "proxy_inv json_parse secret new_proxy"
  by (simp add: proxy_inv_def one_active_def new_proxy_def)

lemma same_leases_inv:
  assumes "proxy_inv json_parse secret p" and "leases q = leases p" and "activeLease q = activeLease p"
    and "proxy_down q = proxy_down p" and "next_client q = next_client p"
    and "\<And>i s. refused q i = Some s \<Longrightarrow> frames s = [] \<and> readyState s \<in> {CLOSING, CLOSED}"
  shows "proxy_inv json_parse secret q"
  using assms(1,6) unfolding proxy_inv_def one_active_def assms(2-5) by blast

lemma refused_ends:
  "proxy_inv json_parse secret p \<Longrightarrow> refused p i = Some s \<Longrightarrow> frames s = [] \<and> readyState s \<in> {CLOSING, CLOSED}"
  unfolding proxy_inv_def by blast

lemma refused_update_inv:
  assumes "proxy_inv json_parse secret p" and "refused p i = Some s" and "socket_later s t"
  shows "proxy_inv json_parse secret (p\<lparr>refused := (refused p)(i \<mapsto> t)\<rparr>)"
proof (rule same_leases_inv [OF assms(1)])
  fix k u assume "refused (p\<lparr>refused := (refused p)(i \<mapsto> t)\<rparr>) k = Some u"
  then have "u = t \<or> refused p k = Some u" by (auto split: if_splits)
  then show "frames u = [] \<and> readyState u \<in> {CLOSING, CLOSED}"
    using refused_ends [OF assms(1)] assms(2) socket_later_ends [OF assms(3)] socket_later_frames [OF assms(3)] by metis
qed simp_all

lemma authentication_timer_cases:
  "authentication_timer i p = p \<or> authentication_timer i p = shutdownLease i 1008 ''authentication timeout'' p"
  by (simp add: authentication_timer_def split: option.split)

lemma proxy_inv_step:
  assumes "proxy_inv json_parse secret p" and "proxy_step json_parse secret p q"
  shows "proxy_inv json_parse secret q"
  using assms(2)
proof (cases rule: proxy_step.cases)
  case (timer i)
  with assms(1) shutdownLease_inv authentication_timer_cases show ?thesis by metis
next
  case (ended e i)
  with assms(1) shutdownLease_inv show ?thesis by (cases e) simp_all
next
  case (force i l which s n r)
  have "proxy_inv json_parse secret (p\<lparr>leases := (leases p)(i \<mapsto> put_side which (socket_terminate s) l)\<rparr>)"
    by (rule quiet_socket_inv [OF assms(1) force(2,3)]) (use terminate_ends [of s] in \<open>simp_all add: socket_simps\<close>)
  with force assms(1) show ?thesis by (simp add: force_close_def)
next
  case (refused_fails i)
  have "proxy_inv json_parse secret (p\<lparr>uncaught := True\<rparr>)"
    by (rule same_leases_inv [OF assms(1)]) (use refused_ends [OF assms(1)] in simp_all)
  with refused_fails assms(1) show ?thesis by (simp add: refused_error_def)
next
  case (network i l which s t)
  show ?thesis unfolding network(1)
    by (rule quiet_socket_inv [OF assms(1) network(2,3)])
      (use network(4) socket_later_frames in \<open>auto simp: socket_later_def\<close>)
next
  case (connect url client)
  show ?thesis unfolding connect(1) by (rule connection_inv [OF assms(1) connect(3,5,6)])
next
  case (client_message i data b)
  then show ?thesis by (simp only: on_client_message_inv [OF assms(1)])
next
  case (upstream_open i l s)
  show ?thesis unfolding upstream_open(1) by (rule on_upstream_open_inv [OF assms(1) upstream_open(2-4)])
next
  case (upstream_message i l s data b)
  show ?thesis unfolding upstream_message(1) by (rule on_upstream_message_inv [OF assms(1) upstream_message(2-4)])
next
  case (refused_network i s t)
  show ?thesis unfolding refused_network(1) by (rule refused_update_inv [OF assms(1) refused_network(2,3)])
next
  case closing
  then show ?thesis by (simp only: proxy_close_inv [OF assms(1)])
qed

interpretation signaling_proxy:
  step_invariant "\<lambda>p. p = new_proxy" "proxy_step json_parse secret" "proxy_inv json_parse secret"
  for json_parse secret
  by unfold_locales (simp_all add: proxy_inv_new proxy_inv_step)

end
