(* ===== verification/ProxyProperties.thy ===== *)
theory ProxyProperties
  imports ProxyInvariant Connector
begin

text \<open>
  What the container's signaling proxy promises: faithful relaying for one authenticated
  controller at a time, and a handshake that fits the orchestrator's connector.
\<close>

text \<open>
  C23. In every interleaving the proxy relays faithfully: nothing reaches a client before it
  presented the container's secret; from then on it receives the greeting followed by a prefix
  of what the native signaling server sent, and the native server receives a prefix of what the
  client sent after its secret, each message once, in order and unchanged; and at most 1 MiB is
  queued in either direction.
\<close>

theorem proxy_relays_faithfully:
  assumes "proxy_reachable json_parse secret p" and "leases p i = Some l"
  shows "prefix (frames (ls_client l)) (greeting # ls_arrived l)
    \<and> (frames (ls_client l) \<noteq> [] \<or> ls_upstream l \<noteq> None
        \<longrightarrow> ls_received l \<noteq> [] \<and> parseAuthenticationFrame json_parse (fst (hd (ls_received l))) (snd (hd (ls_received l))) secret)
    \<and> (\<forall>s. ls_upstream l = Some s \<longrightarrow> prefix (frames s) (tl (ls_received l)) \<and> bufferedAmount s \<le> 1048576)
    \<and> bufferedAmount (ls_client l) \<le> 1048576"
proof -
  have "relayed json_parse secret l"
    using lease_ok_at [OF signaling_proxy.reachable_inv [OF assms(1)] assms(2)] by (simp add: lease_ok_def)
  then show ?thesis by (auto simp: relayed_def MAX_BUFFERED_BYTES_def)
qed

text \<open>
  C24. The proxy serves one controller at a time: while it is up, two leases that are not closed
  are the same one and it is the active one; a client that connects meanwhile changes no lease
  and gets no frame; and the sockets of a closed lease are closed or closing.
\<close>

theorem proxy_serves_one_controller:
  assumes "proxy_reachable json_parse secret p"
  shows "(\<forall>i l. \<not> proxy_down p \<and> leases p i = Some l \<and> ls_phase l \<noteq> LeaseClosed \<longrightarrow> activeLease p = Some i)
    \<and> (activeLease p \<noteq> None \<longrightarrow> leases (connection client p) = leases p \<and> activeLease (connection client p) = activeLease p)
    \<and> (\<forall>k s. refused p k = Some s \<longrightarrow> frames s = [] \<and> readyState s \<in> {CLOSING, CLOSED})
    \<and> (\<forall>i l s. leases p i = Some l \<and> ls_phase l = LeaseClosed \<and> (s = ls_client l \<or> ls_upstream l = Some s)
        \<longrightarrow> readyState s \<in> {CLOSING, CLOSED})"
proof (intro conjI allI impI)
  note inv = signaling_proxy.reachable_inv [OF assms]
  have one: "one_active p" using inv by (simp add: proxy_inv_def)
  fix i l s
  show "activeLease p = Some i" if "\<not> proxy_down p \<and> leases p i = Some l \<and> ls_phase l \<noteq> LeaseClosed"
    using one_active_unique [OF one] that by blast
  show "leases (connection client p) = leases p" "activeLease (connection client p) = activeLease p" if "activeLease p \<noteq> None"
    using that by (auto simp: connection_def Let_def)
  show "frames s = []" "readyState s \<in> {CLOSING, CLOSED}" if "refused p i = Some s"
    using refused_ends [OF inv that] by blast+
  show "readyState s \<in> {CLOSING, CLOSED}"
    if l: "leases p i = Some l \<and> ls_phase l = LeaseClosed \<and> (s = ls_client l \<or> ls_upstream l = Some s)"
  proof -
    have "in_phase LeaseClosed l" using lease_ok_at [OF inv, of i l] l unfolding lease_ok_def by metis
    with l show ?thesis by auto
  qed
qed

subsection \<open>The handshake with the connector\<close>

lemma connector_sends_secret:
  "frames (hs_socket (handshake_event cfg json_parse secret HOpen new_handshake)) = [(rawDataToBuffer (secret_frame secret), False)]"
  by (simp add: new_handshake_def hs_onOpen_def frames_send) (simp add: frames_def map_filter_simps)

lemma secret_frame_accepted:
  assumes "json_parse bs = Some (JObj [(''type'', JStr ''authenticate''), (''secret'', JStr s)])"
  shows "parseAuthenticationFrame json_parse bs False secret \<longleftrightarrow> s = secret"
proof -
  have "sorted_keys (JObj [(''type'', JStr ''authenticate''), (''secret'', JStr s)]) = ''secret,type''" by code_simp
  moreover have "utf8 s = utf8 secret \<longleftrightarrow> s = secret" by (metis utf8_roundtrip)
  ultimately show ?thesis by (simp add: parseAuthenticationFrame_def assms string_field_def)
qed

text \<open>
  What \<open>JSON.parse\<close> does with the texts that \<open>JSON.stringify\<close> prints for flat objects: it reads them back. The law
  is stated for objects whose keys are words and whose values need no escapes.
\<close>

definition flat_object :: "(string \<times> string) list \<Rightarrow> json" where
  "flat_object fs = JObj (map (\<lambda>(k, v). (k, JStr v)) fs)"

definition plain_fields :: "(string \<times> string) list \<Rightarrow> bool" where
  "plain_fields fs \<longleftrightarrow> distinct (map fst fs) \<and> list_all (\<lambda>(k, v). k \<noteq> [] \<and> list_all is_lower k \<and> list_all is_base64url v) fs"

definition reads_flat_objects :: "(nat list \<Rightarrow> json option) \<Rightarrow> bool" where
  "reads_flat_objects json_parse \<longleftrightarrow>
     (\<forall>fs. plain_fields fs \<longrightarrow> json_parse (utf8 (json_stringify (flat_object fs))) = Some (flat_object fs))"

lemma connect_start_Inr:
  "connect_start parse runtime aborted = Inr h \<Longrightarrow> h = new_handshake \<and> is_credential (signalingSecret runtime)"
  by (auto simp: connect_start_def bind_result_Inr validateTarget_def split: option.splits if_splits)

lemma secret_frame_read:
  assumes json: "reads_flat_objects json_parse" and s: "is_credential s"
  shows "json_parse (rawDataToBuffer (secret_frame s)) = Some (JObj [(''type'', JStr ''authenticate''), (''secret'', JStr s)])"
proof -
  have "plain_fields [(''type'', ''authenticate''), (''secret'', s)]"
    using s by (simp add: plain_fields_def is_credential_def js_text_simps)
  from json [unfolded reads_flat_objects_def, rule_format, OF this] show ?thesis
    by (simp add: secret_frame_def flat_object_def)
qed

lemma authenticated_frame_read:
  assumes json: "reads_flat_objects json_parse"
  shows "json_parse (rawDataToBuffer authenticated_frame) = Some (JObj [(''type'', JStr ''authenticated'')])"
proof -
  have "plain_fields [(''type'', ''authenticated'')]" by (simp add: plain_fields_def js_text_simps)
  from json [unfolded reads_flat_objects_def, rule_format, OF this] show ?thesis
    by (simp add: authenticated_frame_def flat_object_def)
qed

text \<open>
  C25. The orchestrator's connector and the container's proxy authenticate each other with the
  secret they share, and only with it: once \<open>connect\<close> has begun for a runtime, the one frame the connector writes opens a lease that
  relays when the container's secret is the runtime's, and the one frame the proxy then writes completes the connector's handshake; with any other
  secret the lease is closed with code 1008 and nothing is written to the connector. The frames are those the two programs print; all
  that is assumed of \<open>JSON.parse\<close> is that it reads flat objects back as they were printed.
\<close>

theorem connector_and_proxy_shake_hands:
  assumes json: "reads_flat_objects json_parse"
    and start: "connect_start parse runtime aborted = Inr h0"
    and free: "activeLease p = None" and client: "readyState client = OPEN" "actions client = []"
  shows "let h = handshake_event cfg json_parse (signalingSecret runtime) HOpen h0;
             (data, isBinary) = hd (frames (hs_socket h));
             i = next_client p;
             p1 = on_client_message json_parse secret i data isBinary (connection client p);
             p2 = on_upstream_open i p1
         in length (frames (hs_socket h)) = 1
          \<and> (if signalingSecret runtime = secret
             then (\<exists>l reply kind. leases p2 i = Some l \<and> ls_phase l = LeaseRelaying \<and> frames (ls_client l) = [(reply, kind)]
                  \<and> hs_result (handshake_event cfg json_parse (signalingSecret runtime) (HMessage (Bytes reply) kind) h) = ConnectResolved)
             else (\<exists>l. leases p1 i = Some l \<and> ls_phase l = LeaseClosed \<and> ls_upstream l = None
                     \<and> actions (ls_client l) = [CloseFrame 1008 ''authentication failed'']))"
proof -
  let ?presented = "signalingSecret runtime"
  let ?h = "handshake_event cfg json_parse ?presented HOpen h0"
  let ?i = "next_client p" and ?data = "rawDataToBuffer (secret_frame ?presented)"
  let ?p1 = "on_client_message json_parse secret ?i ?data False (connection client p)"
  have h0: "h0 = new_handshake" and cred: "is_credential ?presented" using connect_start_Inr [OF start] by blast+
  have c: "leases (connection client p) ?i = Some (new_lease client)" by (simp add: connection_def free Let_def)
  have f: "frames client = []" using client(2) by (simp add: frames_def map_filter_simps)
  have parsed: "parseAuthenticationFrame json_parse ?data False secret \<longleftrightarrow> ?presented = secret"
    by (rule secret_frame_accepted [where s = ?presented]) (rule secret_frame_read [OF json cred])
  have accepted: "(\<exists>l. leases (on_upstream_open ?i ?p1) ?i = Some l \<and> ls_phase l = LeaseRelaying
      \<and> frames (ls_client l) = [(rawDataToBuffer authenticated_frame, False)])"
    if "?presented = secret"
    using parsed that client(1)
    by (simp add: on_client_message_def c new_lease_def on_upstream_open_def Let_def new_socket_def send_frame_simps f)
  have resolved: "hs_result (handshake_event cfg json_parse ?presented (HMessage (Bytes (rawDataToBuffer authenticated_frame)) False) ?h)
      = ConnectResolved"
    using authenticated_frame_read [OF json]
    by (simp add: h0 new_handshake_def hs_onOpen_def hs_onMessage_def isAuthenticatedFrame_def cleanupHandshake_def)
  have refusal: "(\<exists>l. leases ?p1 ?i = Some l \<and> ls_phase l = LeaseClosed \<and> ls_upstream l = None
      \<and> actions (ls_client l) = [CloseFrame 1008 ''authentication failed''])" if "?presented \<noteq> secret"
    using parsed that client
    by (simp add: on_client_message_def c new_lease_def shutdownLease_def close_lease_def closeSocket_def socket_close_def)
  have sent: "frames (hs_socket ?h) = [(?data, False)]" unfolding h0 by (rule connector_sends_secret)
  show ?thesis
  proof (cases "?presented = secret")
    case True
    with accepted obtain l where "leases (on_upstream_open ?i ?p1) ?i = Some l" "ls_phase l = LeaseRelaying"
      "frames (ls_client l) = [(rawDataToBuffer authenticated_frame, False)]" by blast
    then show ?thesis unfolding Let_def sent list.sel prod.case if_P [OF True]
      by (intro conjI exI [of _ l] exI [of _ "rawDataToBuffer authenticated_frame"] exI [of _ False] resolved) simp_all
  next
    case False
    then show ?thesis unfolding Let_def sent list.sel prod.case if_not_P [OF False]
      by (intro conjI refusal) simp_all
  qed
qed

subsection \<open>Witnesses\<close>

definition ex_secret :: string where "ex_secret = replicate 43 (CHR ''k'')"

text \<open>A reader of flat objects: every second of the pieces between quotation marks is a key or a value.\<close>

fun ex_fields :: "string list \<Rightarrow> (string \<times> json) list" where
  "ex_fields (_ # k # _ # v # rest) = (k, JStr v) # ex_fields rest"
| "ex_fields _ = []"

definition ex_frames :: "nat list \<Rightarrow> json option" where
  "ex_frames bs = Some (JObj (ex_fields (split_on (char_of (34 :: nat)) (utf8_decode bs))))"

lemma quote_plain:
  assumes "list_all (\<lambda>c. is_lower c \<or> is_base64url c) s"
  shows "json_quote s = char_of (34 :: nat) # s @ [char_of (34 :: nat)]" "char_of (34 :: nat) \<notin> set s"
proof -
  have "json_escape c = [c] \<and> c \<noteq> char_of (34 :: nat)" if "is_lower c \<or> is_base64url c" for c
    using that by (auto simp: json_escape_def js_text_simps)
  with assms have "concat (map json_escape s) = s \<and> char_of (34 :: nat) \<notin> set s" by (induction s) auto
  then show "json_quote s = char_of (34 :: nat) # s @ [char_of (34 :: nat)]" "char_of (34 :: nat) \<notin> set s"
    by (simp_all add: json_quote_def)
qed

definition ex_client :: socket where
  "ex_client = \<lparr>readyState = OPEN, bufferedAmount = 0, actions = []\<rparr>"

definition ex_connected :: proxy where "ex_connected = connection ex_client new_proxy"

definition ex_presented :: proxy where
  "ex_presented = on_client_message ex_frames ex_secret 0 (rawDataToBuffer (secret_frame ex_secret)) False
     (note_received 0 (rawDataToBuffer (secret_frame ex_secret), False) ex_connected)"

definition ex_relaying :: proxy where "ex_relaying = on_upstream_open 0 ex_presented"

lemma split_field:
  assumes "char_of (34 :: nat) \<notin> set lead" "plain_fields [(k, v)]"
  shows "split_on (char_of (34 :: nat)) (lead @ json_quote k @ '':'' @ json_quote v @ rest)
    = lead # k # '':'' # v # split_on (char_of (34 :: nat)) rest"
proof -
  let ?q = "char_of (34 :: nat)"
  have k: "json_quote k = ?q # k @ [?q]" "?q \<notin> set k" and v: "json_quote v = ?q # v @ [?q]" "?q \<notin> set v"
    using assms(2) by (auto simp: plain_fields_def list_all_iff intro!: quote_plain)
  have "?q \<notin> set '':''" by code_simp
  then have colon: "split_on ?q ('':'' @ ?q # t) = '':'' # split_on ?q t" for t
    unfolding split_on_append_sep by (simp add: split_on_no_sep)
  have "lead @ json_quote k @ '':'' @ json_quote v @ rest = lead @ ?q # k @ ?q # '':'' @ ?q # v @ ?q # rest"
    by (simp add: k(1) v(1))
  also have "split_on ?q \<dots> = lead # k # split_on ?q ('':'' @ ?q # v @ ?q # rest)"
    by (simp only: split_on_append_sep split_on_no_sep [OF assms(1)] split_on_no_sep [OF k(2)] append_Cons append_Nil)
  also have "\<dots> = lead # k # '':'' # v # split_on ?q rest"
    unfolding colon by (simp only: split_on_append_sep split_on_no_sep [OF v(2)] append_Cons append_Nil)
  finally show ?thesis .
qed

lemma split_fields:
  assumes "char_of (34 :: nat) \<notin> set lead" "list_all (\<lambda>f. plain_fields [f]) fs"
  shows "ex_fields (split_on (char_of (34 :: nat))
      (lead @ join_with '','' (map (\<lambda>(k, v). json_quote k @ '':'' @ json_stringify v) (map (\<lambda>(k, v). (k, JStr v)) fs)) @ ''}''))
    = map (\<lambda>(k, v). (k, JStr v)) fs"
  using assms
proof (induction fs arbitrary: lead)
  case Nil
  moreover have "char_of (34 :: nat) \<notin> set ''}''" by code_simp
  ultimately have "char_of (34 :: nat) \<notin> set (lead @ ''}'')" by (simp only: set_append Un_iff) blast
  then have "split_on (char_of (34 :: nat)) (lead @ ''}'') = [lead @ ''}'']" by (rule split_on_no_sep)
  then show ?case by simp
next
  case (Cons f fs)
  obtain k v where f: "f = (k, v)" by fastforce
  have field: "plain_fields [(k, v)]" and rest: "list_all (\<lambda>f. plain_fields [f]) fs" using Cons.prems(2) f by simp_all
  have seps: "char_of (34 :: nat) \<notin> set '',''" "char_of (34 :: nat) \<notin> set ''}''" by code_simp+
  show ?case
  proof (cases fs)
    case Nil
    then show ?thesis using split_field [OF Cons.prems(1) field, of "''}''"] f split_on_no_sep [OF seps(2)] by simp
  next
    case (Cons g gs)
    have "ex_fields (split_on (char_of (34 :: nat)) (lead @ json_quote k @ '':'' @ json_quote v @ '','' @ t @ ''}''))
        = (k, JStr v) # ex_fields (split_on (char_of (34 :: nat)) ('','' @ t @ ''}''))" for t
      using split_field [OF \<open>char_of (34 :: nat) \<notin> set lead\<close> field, of "'','' @ t @ ''}''"] by simp
    with Cons.IH [OF seps(1) rest] f Cons show ?thesis by simp
  qed
qed

lemma ex_frames_reads: "reads_flat_objects ex_frames"
  unfolding reads_flat_objects_def
proof (intro allI impI)
  fix fs assume "plain_fields fs"
  then have fields: "list_all (\<lambda>f. plain_fields [f]) fs" by (auto simp: plain_fields_def list_all_iff)
  have "char_of (34 :: nat) \<notin> set ''{''" by code_simp
  from split_fields [OF this fields] show "ex_frames (utf8 (json_stringify (flat_object fs))) = Some (flat_object fs)"
    by (simp add: ex_frames_def utf8_roundtrip flat_object_def)
qed

lemma ex_secret_credential: "is_credential ex_secret"
  by (simp add: is_credential_def ex_secret_def list_all_iff js_text_simps)

lemmas ex_frames_secret = secret_frame_read [OF ex_frames_reads ex_secret_credential]

lemma ex_parsed: "parseAuthenticationFrame ex_frames (rawDataToBuffer (secret_frame ex_secret)) False ex_secret"
  by (subst secret_frame_accepted [where s = ex_secret]) (simp_all add: ex_frames_secret)

lemma ex_client_simps: "frames ex_client = []" "readyState ex_client = OPEN" "bufferedAmount ex_client = 0" "actions ex_client = []"
  by (simp_all add: ex_client_def frames_def map_filter_simps)

lemma ex_presented_lease:
  "leases ex_presented 0 = Some (new_lease ex_client\<lparr>ls_received := [(rawDataToBuffer (secret_frame ex_secret), False)],
     ls_phase := LeaseConnecting, ls_timer := False, ls_upstream := Some new_socket\<rparr>)"
  by (simp add: ex_presented_def ex_connected_def note_received_eq connection_def Let_def new_proxy_def on_client_message_def
      new_lease_def ex_parsed)

lemma ex_relaying_lease:
  "\<exists>l. leases ex_relaying 0 = Some l \<and> frames (ls_client l) = [greeting] \<and> ls_phase l = LeaseRelaying
    \<and> ls_upstream l \<noteq> None"
  by (simp add: ex_relaying_def on_upstream_open_def ex_presented_lease new_lease_def new_socket_def Let_def send_frame_simps ex_client_simps
      greeting_def)

lemma ex_relaying_lease_reachable: "proxy_reachable ex_frames ex_secret ex_relaying"
proof -
  have "proxy_reachable ex_frames ex_secret new_proxy" by (rule reachable_init) simp
  then have "proxy_reachable ex_frames ex_secret ex_connected"
    unfolding ex_connected_def
    by (rule reachable_step) (rule connect [of "''/internal/v1/signaling''"], simp_all add: upgrade_route_def new_proxy_def ex_client_simps)
  then have "proxy_reachable ex_frames ex_secret ex_presented"
    unfolding ex_presented_def by (rule reachable_step) (rule client_message)
  then show ?thesis
    unfolding ex_relaying_def
    by (rule reachable_step) (rule upstream_open [OF ex_presented_lease, of new_socket], simp_all add: new_lease_def new_socket_def)
qed

theorem proxy_relays_faithfully_witness:
  "\<exists>l. leases ex_relaying 0 = Some l \<and> frames (ls_client l) = [greeting] \<and> ls_received l \<noteq> []
    \<and> parseAuthenticationFrame ex_frames (fst (hd (ls_received l))) (snd (hd (ls_received l))) ex_secret"
  using ex_relaying_lease proxy_relays_faithfully [OF ex_relaying_lease_reachable] by fastforce

theorem proxy_serves_one_controller_witness:
  "activeLease ex_relaying = Some 0 \<and> leases (connection ex_client ex_relaying) = leases ex_relaying"
proof -
  have up: "\<not> proxy_down ex_relaying"
    by (simp add: ex_relaying_def on_upstream_open_def ex_presented_lease Let_def)
      (simp add: ex_presented_def ex_connected_def note_received_eq connection_def new_proxy_def on_client_message_def
        new_lease_def Let_def ex_parsed)
  obtain l where "leases ex_relaying 0 = Some l" "ls_phase l = LeaseRelaying" using ex_relaying_lease by blast
  with up proxy_serves_one_controller [OF ex_relaying_lease_reachable, of ex_client] show ?thesis by fastforce
qed

definition ex_runtime :: runtime_resource where
  "ex_runtime = \<lparr>containerId = ''c'', containerName = ''n'', networkNamespace = ''n'', storageNamespace = ''s'',
     signalingEndpoint = ''ws://10.0.0.2:8890/internal/v1/signaling'', signalingSecret = ex_secret,
     tabControlEndpoint = ''http://10.0.0.2:8890''\<rparr>"

definition ex_url :: url_parser where
  "ex_url text = Some \<lparr>url_protocol = ''ws:'', url_username = [], url_password = [], url_hostname = ''10.0.0.2'', url_port = ''8890'',
     url_pathname = ''/internal/v1/signaling'', url_search = [], url_hash = [], url_href = text\<rparr>"

definition ex_limits :: connector where "ex_limits = \<lparr>connectTimeoutMs = 3000, maxPayloadBytes = 65536\<rparr>"

theorem connector_and_proxy_shake_hands_witness:
  "\<exists>reply kind. hs_result (handshake_event ex_limits ex_frames ex_secret (HMessage (Bytes reply) kind)
       (handshake_event ex_limits ex_frames ex_secret HOpen new_handshake)) = ConnectResolved"
proof -
  have start: "connect_start ex_url ex_runtime False = Inr new_handshake"
    by (simp add: connect_start_def validateTarget_def ex_url_def ex_runtime_def ex_secret_credential)
  have same: "signalingSecret ex_runtime = ex_secret" by (simp add: ex_runtime_def)
  have "activeLease new_proxy = None" by (simp add: new_proxy_def)
  from connector_and_proxy_shake_hands [OF ex_frames_reads start this ex_client_simps(2,4), of ex_limits ex_secret]
  show ?thesis unfolding same Let_def by (simp only: if_True refl split_beta) blast
qed

text \<open>
  A refused client has no \<open>error\<close> listener: a malformed frame from it, before its close
  handshake is through, is an uncaught exception that ends the supervisor.
\<close>

lemma refused_client_can_end_the_process:
  "uncaught (refused_error 1 (connection ex_client ex_connected))"
  by (simp add: refused_error_def ex_connected_def connection_def new_proxy_def Let_def)

end
