(* ===== verification/TabServer.thy ===== *)
theory TabServer
  imports TabControl DockerRuntime
begin

text \<open>
  \<open>session/supervisor.mjs\<close>, fourth part: the HTTP side of the signaling proxy, through which
  the orchestrator drives the tab controller. A request's body arrives in chunks; relative URLs
  are parsed by the argument \<open>parse_relative\<close>, which is \<open>new URL(text,
  "http://fireball.internal")\<close>. The fixed response headers are not modelled.
\<close>

record tab_request =
  rq_method :: string
  rq_url :: string
  rq_authorization :: "string option"
  rq_contentType :: "string option"
  rq_chunks :: "nat list list"

record tab_response =
  rs_status :: nat
  rs_body :: "json option"

definition sendJson :: "nat \<Rightarrow> json \<Rightarrow> tab_response" where
  "sendJson status body = \<lparr>rs_status = status, rs_body = Some body\<rparr>"

definition error_body :: "string \<Rightarrow> string \<Rightarrow> json" where
  "error_body c m = JObj [(''error'', JObj [(''code'', JStr c), (''message'', JStr m)])]"

definition internalRequestAuthorized :: "string option \<Rightarrow> string \<Rightarrow> bool" where
  "internalRequestAuthorized value secret =
     (case value of None \<Rightarrow> False | Some v \<Rightarrow> utf8 v = utf8 (''Bearer '' @ secret))"

subsection \<open>Bodies\<close>

definition requireEmptyBody :: "nat list list \<Rightarrow> tab_control_error + unit" where
  "requireEmptyBody chunks =
     (if list_all (\<lambda>chunk. chunk = []) chunks then Inr () else Inl (ControlFailure ''request body must be empty''))"

fun read_chunks :: "nat \<Rightarrow> nat list list \<Rightarrow> tab_control_error + nat list" where
  "read_chunks got [] = Inr []"
| "read_chunks got (chunk # chunks) =
     (if got + length chunk > 8 * 1024 then Inl (ControlFailure ''request body is too large'')
      else case read_chunks (got + length chunk) chunks of Inl e \<Rightarrow> Inl e | Inr rest \<Rightarrow> Inr (chunk @ rest))"

definition readJsonBody ::
  "(nat list \<Rightarrow> json option) \<Rightarrow> string list \<Rightarrow> string list \<Rightarrow> tab_request \<Rightarrow> tab_control_error + json" where
  "readJsonBody json_parse required optional rq =
     (if rq_contentType rq \<noteq> Some ''application/json'' then Inl (ControlFailure ''content type must be application/json'')
      else case read_chunks 0 (rq_chunks rq) of
          Inl e \<Rightarrow> Inl e
        | Inr bytes \<Rightarrow>
            (case json_parse bytes of
               None \<Rightarrow> Inl (ControlFailure ''request body must be valid JSON'')
             | Some body \<Rightarrow>
                 if \<not> json_object body then Inl (ControlFailure ''request body must be an object'')
                 else if list_ex (\<lambda>key. json_field body key = None) required
                   \<or> list_ex (\<lambda>key. key \<notin> set required \<union> set optional) (json_keys body)
                 then Inl (ControlFailure ''request body has invalid fields'')
                 else Inr body))"

text \<open>
  The field \<open>url\<close> as the controller reads it: a value that is not a text is refused exactly
  like a text that is too long, which stands for it here.
\<close>

definition url_argument :: "json \<Rightarrow> string" where
  "url_argument v = (case v of JStr s \<Rightarrow> s | _ \<Rightarrow> replicate 4097 (CHR '' ''))"

definition body_url :: "json \<Rightarrow> string option" where
  "body_url body = map_option url_argument (json_field body ''url'')"

subsection \<open>Routes\<close>

definition TABS_PATH :: string where "TABS_PATH = ''/internal/v1/tabs''"

text \<open>\<open>/^\/internal\/v1\/tabs\/([0-9a-f-]{36})(?:\/(active|navigation))?$/\<close>.\<close>

definition tab_route :: "string \<Rightarrow> (string \<times> string option) option" where
  "tab_route path =
     (let rest = drop (length TABS_PATH + 1) path; i = take 36 rest; tail = drop 36 rest in
      if \<not> starts_with (TABS_PATH @ ''/'') path \<or> \<not> is_uuid_text i then None
      else if tail = [] then Some (i, None)
      else if tail = ''/active'' then Some (i, Some ''active'')
      else if tail = ''/navigation'' then Some (i, Some ''navigation'')
      else None)"

definition view_json :: "tab_view \<Rightarrow> json" where
  "view_json t = JObj [(''id'', JStr (tab_id t)), (''url'', JStr (tab_url t)), (''createdAt'', JStr (tab_createdAt t)),
     (''active'', JBool (tab_active t))]"

definition tab_error_status :: "string \<Rightarrow> nat" where
  "tab_error_status c =
     (if c = ''TAB_NOT_FOUND'' then 404 else if c = ''TAB_URL_INVALID'' then 400
      else if c = ''TAB_LIMIT_REACHED'' \<or> c = ''TAB_MINIMUM_REACHED'' then 409 else 503)"

definition validation_failed :: tab_response where
  "validation_failed = sendJson 400 (error_body ''VALIDATION_FAILED'' ''request validation failed'')"

fun tab_error_response :: "tab_control_error \<Rightarrow> tab_response" where
  "tab_error_response (TabControlError c m) = sendJson (tab_error_status c) (error_body c m)"
| "tab_error_response (ControlFailure m) = validation_failed"

text \<open>How an operation's result becomes a response.\<close>

definition respond ::
  "('a \<Rightarrow> tab_response) \<Rightarrow> (tab_control_error + 'a) \<times> tab_controller \<Rightarrow> tab_response \<times> tab_controller" where
  "respond answer r = (case r of (Inl e, c) \<Rightarrow> (tab_error_response e, c) | (Inr a, c) \<Rightarrow> (answer a, c))"

definition tab_answer :: "nat \<Rightarrow> tab_view \<Rightarrow> tab_response" where
  "tab_answer status t = sendJson status (JObj [(''tab'', view_json t)])"

definition no_content :: "unit \<Rightarrow> tab_response" where
  "no_content u = \<lparr>rs_status = 204, rs_body = None\<rparr>"

text \<open>The body is read before the operation starts; what reading throws is answered at once.\<close>

definition with_body ::
  "(tab_control_error + 'b) \<Rightarrow> ('b \<Rightarrow> (tab_control_error + 'a) \<times> tab_controller) \<Rightarrow> tab_controller
   \<Rightarrow> (tab_control_error + 'a) \<times> tab_controller" where
  "with_body body operation c = (case body of Inl e \<Rightarrow> (Inl e, c) | Inr b \<Rightarrow> operation b)"

definition route_tab_request ::
  "url_parser \<Rightarrow> (nat list \<Rightarrow> json option) \<Rightarrow> tab_driver \<Rightarrow> string \<Rightarrow> string \<Rightarrow> string \<Rightarrow> tab_request \<Rightarrow> tab_controller
   \<Rightarrow> tab_response \<times> tab_controller" where
  "route_tab_request parse json_parse driver uuid createdAt pathname rq c =
     (let route = tab_route pathname; body_empty = requireEmptyBody (rq_chunks rq) in
      if rq_method rq = ''GET'' \<and> pathname = TABS_PATH then
        respond (\<lambda>tabs. sendJson 200 (JObj [(''tabs'', JArr (map view_json tabs))]))
          (with_body body_empty (\<lambda>_. (Inr (list_tabs c), c)) c)
      else if rq_method rq = ''POST'' \<and> pathname = TABS_PATH then
        respond (tab_answer 201)
          (with_body (readJsonBody json_parse [] [''url''] rq)
             (\<lambda>body. controller_create parse driver uuid createdAt (body_url body) c) c)
      else
        (case route of
           Some (i, Some ''active'') \<Rightarrow>
             if rq_method rq = ''PUT'' then
               respond (tab_answer 200) (with_body body_empty (\<lambda>_. controller_activate driver i c) c)
             else (sendJson 404 (error_body ''TAB_ROUTE_NOT_FOUND'' ''tab route not found''), c)
         | Some (i, Some _) \<Rightarrow>
             if rq_method rq = ''PUT'' then
               respond (tab_answer 200)
                 (with_body (readJsonBody json_parse [''url''] [] rq)
                    (\<lambda>body. controller_navigate parse driver i (body_url body) c) c)
             else (sendJson 404 (error_body ''TAB_ROUTE_NOT_FOUND'' ''tab route not found''), c)
         | Some (i, None) \<Rightarrow>
             if rq_method rq = ''DELETE'' then
               respond no_content (with_body body_empty (\<lambda>_. controller_remove driver i c) c)
             else (sendJson 404 (error_body ''TAB_ROUTE_NOT_FOUND'' ''tab route not found''), c)
         | None \<Rightarrow> (sendJson 404 (error_body ''TAB_ROUTE_NOT_FOUND'' ''tab route not found''), c)))"

text \<open>\<open>parse_relative\<close> yields the pathname and the query of the request's URL.\<close>

definition handleTabRequest ::
  "(string \<Rightarrow> (string \<times> string) option) \<Rightarrow> url_parser \<Rightarrow> (nat list \<Rightarrow> json option) \<Rightarrow> tab_driver \<Rightarrow> string \<Rightarrow> string \<Rightarrow> string
   \<Rightarrow> tab_request \<Rightarrow> tab_controller \<Rightarrow> tab_response \<times> tab_controller" where
  "handleTabRequest parse_relative parse json_parse driver uuid createdAt secret rq c =
     (if \<not> internalRequestAuthorized (rq_authorization rq) secret
      then (sendJson 401 (error_body ''INTERNAL_AUTH_REQUIRED'' ''authentication required''), c)
      else case parse_relative (rq_url rq) of
          None \<Rightarrow> (validation_failed, c)
        | Some (pathname, search) \<Rightarrow>
            if search \<noteq> [] then (validation_failed, c)
            else route_tab_request parse json_parse driver uuid createdAt pathname rq c)"

subsection \<open>The orchestrator's client on the other end\<close>

text \<open>
  The network between the orchestrator and a container as an exchange of the client: the
  request arrives as it was written, and the response comes back in one piece.
\<close>

fun method_name :: "http_method \<Rightarrow> string" where
  "method_name GET = ''GET''" | "method_name POST = ''POST''" | "method_name PUT = ''PUT''" | "method_name DELETE = ''DELETE''"

definition arriving_request :: "http_request \<Rightarrow> tab_request" where
  "arriving_request r = \<lparr>rq_method = method_name (http_method r), rq_url = http_path r,
     rq_authorization = map_of (http_headers r) ''authorization'', rq_contentType = map_of (http_headers r) ''content-type'',
     rq_chunks = (case http_payload r of None \<Rightarrow> [] | Some b \<Rightarrow> [utf8 b])\<rparr>"

definition written_response :: "tab_response \<Rightarrow> http_outcome" where
  "written_response r = HttpResponse (Some (rs_status r)) (case rs_body r of None \<Rightarrow> [] | Some b \<Rightarrow> [utf8 (json_stringify b)])"

definition supervisor_exchange ::
  "(string \<Rightarrow> (string \<times> string) option) \<Rightarrow> url_parser \<Rightarrow> (nat list \<Rightarrow> json option) \<Rightarrow> tab_driver \<Rightarrow> string \<Rightarrow> string \<Rightarrow> string
   \<Rightarrow> tab_controller exchange" where
  "supervisor_exchange parse_relative parse json_parse driver uuid createdAt secret r c =
     (case handleTabRequest parse_relative parse json_parse driver uuid createdAt secret (arriving_request r) c of
        (response, c') \<Rightarrow> (written_response response, c'))"

end
