(* ===== verification/TabWire.thy ===== *)
theory TabWire
  imports TabServer TabSpec
begin








subsection \<open>Requests\<close>














lemma url_fields [simp]: "url_argument (JStr u) = u"
  by (simp add: url_argument_def)









subsection \<open>Answers\<close>

































end
