(* ===== verification/App.thy ===== *)
theory App
  imports SessionService
begin

text \<open>
  \<open>src/app.ts\<close>: the orchestrator's HTTP interface. Fastify and its validator \<open>ajv\<close> are
  third-party code: the request arrives routed, with its body parsed or refused by Fastify, and
  \<open>ajv schema value\<close> is the value the validator passes on (it may coerce types and drop
  fields), or \<open>None\<close> when it rejects it. Logging is not modelled.
\<close>

subsection \<open>The interfaces the routes use\<close>

record runtime_adapter =
  rt_create :: "create_runtime_request \<Rightarrow> thrown + runtime_resource"
  rt_destroy :: "runtime_resource \<Rightarrow> thrown + unit"
  rt_inspect :: "runtime_resource \<Rightarrow> thrown + runtime_inspection"
  rt_reconcile :: "thrown + reconciliation_result"
  rt_listTabs :: "runtime_resource \<Rightarrow> thrown + tab_view list"
  rt_createTab :: "runtime_resource \<Rightarrow> string option \<Rightarrow> thrown + tab_view"
  rt_activateTab :: "runtime_resource \<Rightarrow> string \<Rightarrow> thrown + tab_view"
  rt_navigateTab :: "runtime_resource \<Rightarrow> string \<Rightarrow> string \<Rightarrow> thrown + tab_view"
  rt_deleteTab :: "runtime_resource \<Rightarrow> string \<Rightarrow> thrown + unit"

record 's session_api =
  api_create :: "tenant_context \<Rightarrow> 's \<Rightarrow> (thrown + create_session_result) \<times> 's"
  api_get :: "tenant_context \<Rightarrow> string \<Rightarrow> 's \<Rightarrow> (thrown + session_view) \<times> 's"
  api_issue :: "tenant_context \<Rightarrow> string \<Rightarrow> 's \<Rightarrow> (thrown + ticket_issue_result) \<times> 's"
  api_exchange :: "string \<Rightarrow> 's \<Rightarrow> (thrown + token_exchange_result) \<times> 's"
  api_listTabs :: "tenant_context \<Rightarrow> string \<Rightarrow> 's \<Rightarrow> (thrown + tab_view list) \<times> 's"
  api_createTab :: "tenant_context \<Rightarrow> string \<Rightarrow> string option \<Rightarrow> 's \<Rightarrow> (thrown + tab_view) \<times> 's"
  api_activateTab :: "tenant_context \<Rightarrow> string \<Rightarrow> string \<Rightarrow> 's \<Rightarrow> (thrown + tab_view) \<times> 's"
  api_navigateTab :: "tenant_context \<Rightarrow> string \<Rightarrow> string \<Rightarrow> string \<Rightarrow> 's \<Rightarrow> (thrown + tab_view) \<times> 's"
  api_deleteTab :: "tenant_context \<Rightarrow> string \<Rightarrow> string \<Rightarrow> 's \<Rightarrow> (thrown + unit) \<times> 's"
  api_burn :: "tenant_context \<Rightarrow> string \<Rightarrow> 's \<Rightarrow> (thrown + unit) \<times> 's"

text \<open>
  The session service as that interface; the clock's readings and the random values of one
  request are arguments.
\<close>

definition service_api ::
  "service_config \<Rightarrow> (string \<Rightarrow> string) \<Rightarrow> int \<Rightarrow> int \<Rightarrow> string \<Rightarrow> string \<Rightarrow> string \<Rightarrow> string \<Rightarrow> runtime_adapter
   \<Rightarrow> service session_api" where
  "service_api cfg hash now now' createdAt sid ticket token rt =
     \<lparr>api_create = create_session cfg hash now createdAt ticket sid (rt_create rt),
      api_get = get_session (rt_inspect rt),
      api_issue = issueSignalingTicket cfg hash now ticket (rt_inspect rt),
      api_exchange = exchangeSignalingTicket cfg hash now now' token (rt_inspect rt),
      api_listTabs = tab_operation (rt_inspect rt) (rt_listTabs rt),
      api_createTab = (\<lambda>ctx i url. tab_operation (rt_inspect rt) (\<lambda>r. rt_createTab rt r url) ctx i),
      api_activateTab = (\<lambda>ctx i tab. tab_operation (rt_inspect rt) (\<lambda>r. rt_activateTab rt r tab) ctx i),
      api_navigateTab = (\<lambda>ctx i tab url. tab_operation (rt_inspect rt) (\<lambda>r. rt_navigateTab rt r tab url) ctx i),
      api_deleteTab = (\<lambda>ctx i tab. tab_operation (rt_inspect rt) (\<lambda>r. rt_deleteTab rt r tab) ctx i),
      api_burn = burn_session (rt_destroy rt)\<rparr>"

subsection \<open>Schemas\<close>

record string_schema =
  ss_minLength :: "nat option"
  ss_maxLength :: "nat option"
  ss_pattern :: "string option"
  ss_format :: "string option"

record object_schema =
  os_required :: "string list"
  os_properties :: "(string \<times> string_schema) list"

definition uuid_schema :: string_schema where
  "uuid_schema = \<lparr>ss_minLength = None, ss_maxLength = None, ss_pattern = None, ss_format = Some ''uuid''\<rparr>"

definition sessionIdSchema :: object_schema where
  "sessionIdSchema = \<lparr>os_required = [''id''], os_properties = [(''id'', uuid_schema)]\<rparr>"

definition signalingTicketSchema :: object_schema where
  "signalingTicketSchema = \<lparr>os_required = [''ticket''],
     os_properties = [(''ticket'', \<lparr>ss_minLength = Some 43, ss_maxLength = Some 43,
       ss_pattern = Some ''^[A-Za-z0-9_-]+$'', ss_format = None\<rparr>)]\<rparr>"

definition sessionAndTabIdSchema :: object_schema where
  "sessionAndTabIdSchema = \<lparr>os_required = [''id'', ''tabId''], os_properties = [(''id'', uuid_schema), (''tabId'', uuid_schema)]\<rparr>"

definition optionalTabUrlSchema :: object_schema where
  "optionalTabUrlSchema = \<lparr>os_required = [],
     os_properties = [(''url'', \<lparr>ss_minLength = Some 1, ss_maxLength = Some 4096, ss_pattern = None, ss_format = None\<rparr>)]\<rparr>"

definition requiredTabUrlSchema :: object_schema where
  "requiredTabUrlSchema = optionalTabUrlSchema\<lparr>os_required := [''url'']\<rparr>"

subsection \<open>Routes\<close>

datatype api_route =
    Healthz | CreateSession | ExchangeTicket | GetSession | IssueTicket | ListSessionTabs | CreateSessionTab
  | ActivateSessionTab | NavigateSessionTab | DeleteSessionTab | BurnSession

definition route_table :: "(string \<times> string \<times> api_route) list" where
  "route_table =
     [(''GET'', ''/healthz'', Healthz),
      (''POST'', ''/orchestrator/v1/sessions'', CreateSession),
      (''POST'', ''/orchestrator/v1/signaling/tickets/exchange'', ExchangeTicket),
      (''GET'', ''/orchestrator/v1/sessions/:id'', GetSession),
      (''POST'', ''/orchestrator/v1/sessions/:id/signaling/tickets'', IssueTicket),
      (''GET'', ''/orchestrator/v1/sessions/:id/tabs'', ListSessionTabs),
      (''POST'', ''/orchestrator/v1/sessions/:id/tabs'', CreateSessionTab),
      (''PUT'', ''/orchestrator/v1/sessions/:id/tabs/:tabId/active'', ActivateSessionTab),
      (''PUT'', ''/orchestrator/v1/sessions/:id/tabs/:tabId/navigation'', NavigateSessionTab),
      (''DELETE'', ''/orchestrator/v1/sessions/:id/tabs/:tabId'', DeleteSessionTab),
      (''DELETE'', ''/orchestrator/v1/sessions/:id'', BurnSession)]"

fun params_schema :: "api_route \<Rightarrow> object_schema option" where
  "params_schema GetSession = Some sessionIdSchema"
| "params_schema IssueTicket = Some sessionIdSchema"
| "params_schema ListSessionTabs = Some sessionIdSchema"
| "params_schema CreateSessionTab = Some sessionIdSchema"
| "params_schema BurnSession = Some sessionIdSchema"
| "params_schema ActivateSessionTab = Some sessionAndTabIdSchema"
| "params_schema NavigateSessionTab = Some sessionAndTabIdSchema"
| "params_schema DeleteSessionTab = Some sessionAndTabIdSchema"
| "params_schema _ = None"

fun body_schema :: "api_route \<Rightarrow> object_schema option" where
  "body_schema ExchangeTicket = Some signalingTicketSchema"
| "body_schema CreateSessionTab = Some optionalTabUrlSchema"
| "body_schema NavigateSessionTab = Some requiredTabUrlSchema"
| "body_schema _ = None"

datatype incoming_body = NoBody | JsonBody json | UnreadableBody string

record api_request =
  ar_route :: api_route
  ar_params :: json
  ar_body :: incoming_body
  ar_authorization :: "string option"

datatype api_payload =
    EmptyPayload | SessionCreated create_session_result | TokenIssued token_exchange_result | SessionShown session_view
  | TicketIssued ticket_issue_result | TabsListed "tab_view list" | TabResult tab_view | ErrorPayload error_code string

record api_response =
  ap_status :: nat
  ap_payload :: api_payload

text \<open>A thrown validation error carries a field \<open>validation\<close>; any other error is what was thrown.\<close>

datatype api_error = ValidationError | Thrown thrown

fun error_reply :: "api_error \<Rightarrow> api_response" where
  "error_reply ValidationError = \<lparr>ap_status = 400, ap_payload = ErrorPayload VALIDATION_FAILED ''request validation failed''\<rparr>"
| "error_reply (Thrown (Orchestrator e)) = \<lparr>ap_status = err_statusCode e, ap_payload = ErrorPayload (err_code e) (err_message e)\<rparr>"
| "error_reply (Thrown (PlainError m)) = \<lparr>ap_status = 500, ap_payload = ErrorPayload RUNTIME_FAILURE ''internal orchestrator failure''\<rparr>"

definition replies :: "nat \<Rightarrow> ('a \<Rightarrow> api_payload) \<Rightarrow> (thrown + 'a) \<times> 's \<Rightarrow> (thrown + api_response) \<times> 's" where
  "replies status payload r =
     (case r of (Inl e, s) \<Rightarrow> (Inl e, s) | (Inr a, s) \<Rightarrow> (Inr \<lparr>ap_status = status, ap_payload = payload a\<rparr>, s))"

text \<open>A validated field read as a text; the schemas make it one.\<close>

definition text_field :: "json option \<Rightarrow> string \<Rightarrow> string" where
  "text_field v k = (case v of None \<Rightarrow> [] | Some j \<Rightarrow> or_else (string_field j k) [])"

definition body_url_field :: "json option \<Rightarrow> string option" where
  "body_url_field body = (case body of None \<Rightarrow> None | Some j \<Rightarrow> string_field j ''url'')"

fun with_tenant ::
  "api_route \<Rightarrow> 's session_api \<Rightarrow> json option \<Rightarrow> json option \<Rightarrow> tenant_context \<Rightarrow> 's \<Rightarrow> (thrown + api_response) \<times> 's" where
  "with_tenant CreateSession api params body ctx s = replies 201 SessionCreated (api_create api ctx s)"
| "with_tenant GetSession api params body ctx s = replies 200 SessionShown (api_get api ctx (text_field params ''id'') s)"
| "with_tenant IssueTicket api params body ctx s = replies 201 TicketIssued (api_issue api ctx (text_field params ''id'') s)"
| "with_tenant ListSessionTabs api params body ctx s = replies 200 TabsListed (api_listTabs api ctx (text_field params ''id'') s)"
| "with_tenant CreateSessionTab api params body ctx s =
     replies 201 TabResult (api_createTab api ctx (text_field params ''id'') (body_url_field body) s)"
| "with_tenant ActivateSessionTab api params body ctx s =
     replies 200 TabResult (api_activateTab api ctx (text_field params ''id'') (text_field params ''tabId'') s)"
| "with_tenant NavigateSessionTab api params body ctx s =
     replies 200 TabResult (api_navigateTab api ctx (text_field params ''id'') (text_field params ''tabId'') (text_field body ''url'') s)"
| "with_tenant DeleteSessionTab api params body ctx s =
     replies 204 (\<lambda>_. EmptyPayload) (api_deleteTab api ctx (text_field params ''id'') (text_field params ''tabId'') s)"
| "with_tenant BurnSession api params body ctx s =
     replies 204 (\<lambda>_. EmptyPayload) (api_burn api ctx (text_field params ''id'') s)"
| "with_tenant _ api params body ctx s = (Inr \<lparr>ap_status = 404, ap_payload = EmptyPayload\<rparr>, s)"

text \<open>The handlers: two public routes, the others start with \<open>authenticate\<close>.\<close>

definition run_handler ::
  "(string option \<Rightarrow> thrown + tenant_context) \<Rightarrow> 's session_api \<Rightarrow> api_route \<Rightarrow> string option \<Rightarrow> json option \<Rightarrow> json option
   \<Rightarrow> 's \<Rightarrow> (thrown + api_response) \<times> 's" where
  "run_handler auth api route header params body s =
     (case route of
        Healthz \<Rightarrow> (Inr \<lparr>ap_status = 204, ap_payload = EmptyPayload\<rparr>, s)
      | ExchangeTicket \<Rightarrow> replies 200 TokenIssued (api_exchange api (text_field body ''ticket'') s)
      | _ \<Rightarrow> (case auth header of
            Inl e \<Rightarrow> (Inl e, s)
          | Inr ctx \<Rightarrow> with_tenant route api params body ctx s))"

definition validated ::
  "(object_schema \<Rightarrow> json option \<Rightarrow> json option option) \<Rightarrow> object_schema option \<Rightarrow> json option \<Rightarrow> api_error + json option" where
  "validated ajv schema value =
     (case schema of
        None \<Rightarrow> Inr value
      | Some sch \<Rightarrow> (case ajv sch value of None \<Rightarrow> Inl ValidationError | Some v \<Rightarrow> Inr v))"

fun body_value :: "incoming_body \<Rightarrow> api_error + json option" where
  "body_value NoBody = Inr None"
| "body_value (JsonBody v) = Inr (Some v)"
| "body_value (UnreadableBody m) = Inl (Thrown (PlainError m))"

text \<open>A request: the body is parsed, parameters and body are validated, then the handler runs.\<close>

definition api_handle ::
  "(string option \<Rightarrow> thrown + tenant_context) \<Rightarrow> 's session_api \<Rightarrow> (object_schema \<Rightarrow> json option \<Rightarrow> json option option)
   \<Rightarrow> api_request \<Rightarrow> 's \<Rightarrow> api_response \<times> 's" where
  "api_handle auth api ajv rq s =
     (case body_value (ar_body rq) of
        Inl e \<Rightarrow> (error_reply e, s)
      | Inr raw \<Rightarrow>
          (case validated ajv (params_schema (ar_route rq)) (Some (ar_params rq)) of
             Inl e \<Rightarrow> (error_reply e, s)
           | Inr params \<Rightarrow>
               (case validated ajv (body_schema (ar_route rq)) raw of
                  Inl e \<Rightarrow> (error_reply e, s)
                | Inr body \<Rightarrow>
                    (case run_handler auth api (ar_route rq) (ar_authorization rq) params body s of
                       (Inl e, s') \<Rightarrow> (error_reply (Thrown e), s')
                     | (Inr r, s') \<Rightarrow> (r, s')))))"

subsection \<open>The WebSocket route\<close>

definition build_app :: "bool \<Rightarrow> string list option \<Rightarrow> thrown + unit" where
  "build_app signaling allowedOrigins =
     (if signaling \<and> (case allowedOrigins of None \<Rightarrow> True | Some origins \<Rightarrow> origins = [])
      then Inl (PlainError ''signaling origin allowlist is required'') else Inr ())"

text \<open>\<open>None\<close> lets the upgrade through to the gateway, \<open>Some\<close> is the reply that ends it.\<close>

definition signaling_preValidation :: "string list \<Rightarrow> string option \<Rightarrow> nat option" where
  "signaling_preValidation allowedOrigins origin =
     (case origin of None \<Rightarrow> Some 403 | Some v \<Rightarrow> if v \<notin> set allowedOrigins then Some 403 else None)"

end
