(* ===== verification/AppProperties.thy ===== *)
theory AppProperties
  imports App Auth
begin

text \<open>
  What the HTTP interface promises when it is put together with an authenticator and the
  session service: nothing happens for a request that is not authenticated, and what happens
  for one that is stays within its tenant.
\<close>

definition only_key :: "string \<Rightarrow> service \<Rightarrow> service \<Rightarrow> bool" where
  "only_key k s s' \<longleftrightarrow> (\<forall>k'. k' \<noteq> k \<longrightarrow> jm_get (sessions s') k' = jm_get (sessions s) k')"

named_theorems only_key_intros \<open>operations that touch the sessions under one key only\<close>

lemma only_key_refl [only_key_intros]: "only_key k s s"
  by (simp add: only_key_def)

lemma only_key_trans: "only_key k s s' \<Longrightarrow> only_key k s' s'' \<Longrightarrow> only_key k s s''"
  by (simp add: only_key_def)

lemma only_key_same: "sessions s' = sessions s \<Longrightarrow> only_key k s s'"
  by (simp add: only_key_def)

lemma only_key_set: "sessions s' = jm_set k v (sessions s) \<Longrightarrow> only_key k s s'"
  by (simp add: only_key_def)

lemma only_key_delete: "sessions s' = jm_delete k (sessions s) \<Longrightarrow> only_key k s s'"
  by (simp add: only_key_def)

lemma observe_only [only_key_intros]: "only_key k s (snd (observeRuntime inspect k r s))"
  by (auto simp: observeRuntime_def observe_start_def observe_finish_def Let_def revokeSignalingConnections_def only_key_def
      split: option.split sum.split runtime_inspection.split)

lemma observe_only_result: "observeRuntime inspect k r s = (a, s') \<Longrightarrow> only_key k s s'"
  by (metis observe_only snd_conv)

lemma create_only: "only_key (session_key (ctx_tenantId ctx) sid) s (snd (create_session cfg hash now at ticket sid rt ctx s))"
proof (cases "create_start cfg ctx sid s")
  case (Inl e)
  then show ?thesis by (simp add: create_session_def only_key_refl)
next
  case (Inr s1)
  have "sessions s1 = sessions s"
    using Inr by (auto simp: create_start_def reserve_def Let_def split: if_splits)
  moreover have "only_key (session_key (ctx_tenantId ctx) sid) s1 (snd (create_finish cfg hash now at ticket ctx sid out s1))" for out
  proof (cases out)
    case (Inl e)
    then show ?thesis by (intro only_key_same) (simp add: create_finish_def delete_reservation_def)
  next
    case (Inr rt)
    let ?k = "session_key (ctx_tenantId ctx) sid"
    let ?r = "\<lparr>rec_id = sid, rec_tenantId = ctx_tenantId ctx, rec_phase = Active, rec_createdAt = at, rec_quota = quota cfg,
        rec_runtime = rt, rec_failure = None\<rparr>"
    obtain issued s2 where rot: "rotateSignalingTicket cfg hash now ticket ?k (install_session ?k ?r s1) = (issued, s2)"
      by (cases "rotateSignalingTicket cfg hash now ticket ?k (install_session ?k ?r s1)")
    have "sessions s2 = jm_set ?k (next_ref s1, ?r) (sessions s1)"
      using arg_cong [OF rot, of "\<lambda>x. sessions (snd x)"] by (simp add: install_session_def)
    with Inr rot show ?thesis
      by (intro only_key_set [where v = "(next_ref s1, ?r)"])
        (cases issued; simp add: create_finish_def Let_def delete_reservation_def)
  qed
  ultimately show ?thesis
    using Inr by (simp add: create_session_def only_key_def)
qed

lemma get_only: "only_key (session_key (ctx_tenantId ctx) sid) s (snd (get_session inspect ctx sid s))"
  by (simp add: get_session_def only_key_refl observe_only_result split: sum.split prod.split)

lemma active_only_result: "activeRuntime inspect ctx sid s = (a, s') \<Longrightarrow> only_key (session_key (ctx_tenantId ctx) sid) s s'"
  by (auto simp: activeRuntime_def only_key_refl split: sum.splits prod.splits dest: observe_only_result)

lemma tab_only: "only_key (session_key (ctx_tenantId ctx) sid) s (snd (tab_operation inspect f ctx sid s))"
  by (simp add: tab_operation_def active_only_result split: sum.split prod.split)

lemma issue_only: "only_key (session_key (ctx_tenantId ctx) sid) s (snd (issueSignalingTicket cfg hash now ticket inspect ctx sid s))"
proof -
  have "only_key (session_key (ctx_tenantId ctx) sid) s (snd (issue_finish cfg hash now ticket (session_key (ctx_tenantId ctx) sid) r s'))"
    if "observeRuntime inspect (session_key (ctx_tenantId ctx) sid) q s = (a, s')" for q r a s'
    using observe_only_result [OF that] by (simp add: issue_finish_def only_key_def)
  then show ?thesis
    by (auto simp: issueSignalingTicket_def only_key_refl split: sum.split prod.split dest: observe_only_result)
qed

lemma burn_only: "only_key (session_key (ctx_tenantId ctx) sid) s (snd (burn_session destroy ctx sid s))"
  by (auto simp: burn_session_def burn_start_def burn_finish_def Let_def revokeSignalingConnections_def only_key_def
      split: option.split sum.split)

lemmas service_only = create_only get_only tab_only issue_only burn_only

subsection \<open>The API over the service\<close>

lemma snd_replies [simp]: "snd (replies status payload r) = snd r"
  by (cases r; cases "fst r") (auto simp: replies_def)

lemma with_tenant_only:
  "\<exists>i. only_key (session_key (ctx_tenantId ctx) i) s
     (snd (with_tenant route (service_api cfg hash now now' at sid ticket token rt) params body ctx s))"
  by (cases route) (auto simp: service_api_def intro: service_only only_key_refl)

definition public_route :: "api_route \<Rightarrow> bool" where
  "public_route route = (route = Healthz \<or> route = ExchangeTicket)"

lemma run_handler_private:
  "\<not> public_route route \<Longrightarrow> run_handler auth api route header params body s =
     (case auth header of Inl e \<Rightarrow> (Inl e, s) | Inr ctx \<Rightarrow> with_tenant route api params body ctx s)"
  by (cases "auth header"; cases route) (simp_all add: run_handler_def public_route_def)

lemma validated_Inl: "validated ajv sch v = Inl e \<Longrightarrow> e = ValidationError"
  by (auto simp: validated_def split: option.splits)

lemma body_value_Inl: "body_value b = Inl e \<Longrightarrow> ap_status (error_reply e) = 500"
  by (cases b) auto

context authenticator
begin

text \<open>A request that is not authenticated changes nothing, whatever its route's parameters.\<close>

lemma refused_request:
  assumes "authenticate (ar_authorization rq) = Inl e" and "\<not> public_route (ar_route rq)"
  shows "snd (api_handle authenticate api ajv rq s) = s \<and> ap_status (fst (api_handle authenticate api ajv rq s)) \<in> {400, 401, 500}"
proof -
  have "ap_status (error_reply (Thrown e)) = 401"
    using refusal [OF assms(1)] by (auto simp: auth_refusal_def orch_def)
  with assms show ?thesis
    by (auto simp: api_handle_def run_handler_private split: sum.split dest: validated_Inl body_value_Inl)
qed

lemma accepted_request:
  assumes "authenticate (ar_authorization rq) = Inr ctx" and "\<not> public_route (ar_route rq)"
    and "CHR '':'' \<notin> set t" and "t \<noteq> ctx_tenantId ctx"
  shows "jm_get (sessions (snd (api_handle authenticate (service_api cfg hash now now' at sid ticket token rt) ajv rq s))) (session_key t i)
    = jm_get (sessions s) (session_key t i)"
proof -
  have "session_key t i \<noteq> session_key (ctx_tenantId ctx) j" for j
    using session_key_inj [OF _ assms(3) tenant_no_colon [OF assms(1)]] assms(4) by blast
  then have k: "jm_get (sessions (snd (with_tenant (ar_route rq) (service_api cfg hash now now' at sid ticket token rt) params body ctx s)))
      (session_key t i) = jm_get (sessions s) (session_key t i)" for params body
    using with_tenant_only [of ctx s "ar_route rq" cfg hash now now' at sid ticket token rt params body]
    unfolding only_key_def by metis
  show ?thesis
    using k assms(1,2) by (simp add: api_handle_def run_handler_private split: sum.split prod.split) (metis snd_conv)
qed

end

text \<open>
  C29. An API request acts for its tenant only, with either authenticator: if its token is refused
  the service stays exactly as it was and the answer is 400, 401 or 500; if it is accepted, no
  session of another tenant changes, whatever the route, the parameters, the body and the
  runtime's answers are. The two public routes are the health check and the ticket exchange.
\<close>

theorem api_requests_act_for_their_tenant_only:
  assumes "auth = dev_authenticate \<or> auth = oidc_authenticate jwtVerify a" and "\<not> public_route (ar_route rq)"
  shows "let (answer, s') = api_handle auth (service_api cfg hash now now' at sid ticket token rt) ajv rq s in
    case auth (ar_authorization rq) of
      Inl e \<Rightarrow> s' = s \<and> ap_status answer \<in> {400, 401, 500}
    | Inr ctx \<Rightarrow> \<forall>t i. CHR '':'' \<notin> set t \<and> t \<noteq> ctx_tenantId ctx
        \<longrightarrow> jm_get (sessions s') (session_key t i) = jm_get (sessions s) (session_key t i)"
proof -
  have auth: "authenticator auth"
    using assms(1) dev.authenticator_axioms oidc.authenticator_axioms by blast
  show ?thesis
  proof (cases "auth (ar_authorization rq)")
    case (Inl e)
    with authenticator.refused_request [OF auth Inl assms(2)] show ?thesis by (simp add: case_prod_beta)
  next
    case (Inr ctx)
    with authenticator.accepted_request [OF auth Inr assms(2)] show ?thesis by (simp add: case_prod_beta)
  qed
qed

definition ex_globex :: service where
  "ex_globex = empty_service\<lparr>sessions := [(session_key ''globex'' ''s1'', (0, \<lparr>rec_id = ''s1'', rec_tenantId = ''globex'', rec_phase = Active,
     rec_createdAt = ''t'', rec_quota = \<lparr>memoryMiB = 1, cpuShares = 1, pids = 1\<rparr>,
     rec_runtime = \<lparr>containerId = [], containerName = [], networkNamespace = [], storageNamespace = [], signalingEndpoint = [],
       signalingSecret = [], tabControlEndpoint = []\<rparr>, rec_failure = None\<rparr>))]\<rparr>"

definition ex_burn_request :: api_request where
  "ex_burn_request = \<lparr>ar_route = BurnSession, ar_params = JObj [(''id'', JStr ''s1'')], ar_body = NoBody,
     ar_authorization = Some ''Bearer dev:acme:bob''\<rparr>"

theorem api_requests_act_for_their_tenant_only_witness:
  "\<forall>cfg hash rt. jm_get (sessions (snd (api_handle dev_authenticate (service_api cfg hash 0 0 [] [] [] [] rt) (\<lambda>_ v. Some v) ex_burn_request ex_globex)))
      (session_key ''globex'' ''s1'') \<noteq> None"
proof (intro allI)
  fix cfg hash rt
  have auth: "dev_authenticate (ar_authorization ex_burn_request) = Inr \<lparr>ctx_tenantId = ''acme'', ctx_subject = ''bob''\<rparr>"
    unfolding ex_burn_request_def by code_simp
  have route: "\<not> public_route (ar_route ex_burn_request)" by (simp add: ex_burn_request_def public_route_def)
  have "jm_get (sessions (snd (api_handle dev_authenticate (service_api cfg hash 0 0 [] [] [] [] rt) (\<lambda>_ v. Some v) ex_burn_request ex_globex)))
      (session_key ''globex'' ''s1'') = jm_get (sessions ex_globex) (session_key ''globex'' ''s1'')"
    using api_requests_act_for_their_tenant_only [of dev_authenticate undefined undefined, OF _ route, of cfg hash 0 0 "[]" "[]" "[]" "[]" rt
        "\<lambda>_ v. Some v" ex_globex] auth
    by (simp add: case_prod_beta)
  then show "jm_get (sessions (snd (api_handle dev_authenticate (service_api cfg hash 0 0 [] [] [] [] rt) (\<lambda>_ v. Some v) ex_burn_request ex_globex)))
      (session_key ''globex'' ''s1'') \<noteq> None"
    by (simp add: ex_globex_def jm_get_def)
qed

text \<open>A body that Fastify cannot read is answered as an internal failure, not as a client error.\<close>

lemma unreadable_body_is_internal_failure:
  "ar_body rq = UnreadableBody m \<Longrightarrow> api_handle auth api ajv rq s = (\<lparr>ap_status = 500,
     ap_payload = ErrorPayload RUNTIME_FAILURE ''internal orchestrator failure''\<rparr>, s)"
  by (simp add: api_handle_def)

end
