(* ===== verification/MainConfig.thy ===== *)
theory MainConfig
  imports App Auth DockerRuntime Gateway
begin

text \<open>
  \<open>src/main.ts\<close>: how the orchestrator reads its environment and puts its parts together. The
  environment is a map from names to texts; opening the seccomp profile, SHA-256, \<open>JSON.parse\<close>
  and the URL parser are arguments (\<open>parse_origin\<close> yields the \<open>origin\<close> of a URL beside its
  other fields). Reconciling and listening, which follow, belong to the runtime and to Fastify.
\<close>

type_synonym process_env = "string \<Rightarrow> string option"

definition isLoopback :: "string \<Rightarrow> bool" where
  "isLoopback value = (value = ''127.0.0.1'' \<or> value = ''::1'' \<or> value = ''localhost'')"

text \<open>\<open>Number.parseInt(text, 10)\<close>; \<open>None\<close> is not-a-number.\<close>

definition parse_int :: "string \<Rightarrow> int option" where
  "parse_int text =
     (let t = dropWhile is_space text;
          negative = (t \<noteq> [] \<and> hd t = CHR ''-'');
          u = (if t \<noteq> [] \<and> (hd t = CHR ''-'' \<or> hd t = CHR ''+'') then tl t else t);
          ds = takeWhile is_digit u
      in if ds = [] then None else Some (if negative then - int (digits_value ds) else int (digits_value ds)))"

definition environment_guard :: "string \<Rightarrow> string \<Rightarrow> thrown + unit" where
  "environment_guard nodeEnvironment host =
     (if nodeEnvironment = ''development'' \<and> \<not> isLoopback host
      then Inl (PlainError ''development authenticator may only bind to loopback'')
      else if nodeEnvironment \<noteq> ''development'' \<and> nodeEnvironment \<noteq> ''production''
      then Inl (PlainError ''NODE_ENV must be development or production'') else Inr ())"

definition requiredEnvironment :: "process_env \<Rightarrow> string \<Rightarrow> thrown + string" where
  "requiredEnvironment env name =
     (case env name of
        None \<Rightarrow> Inl (PlainError (name @ '' is required in production''))
      | Some raw \<Rightarrow>
          if trim raw = [] then Inl (PlainError (name @ '' is required in production'')) else Inr (trim raw))"

definition positiveEnvironment :: "process_env \<Rightarrow> string \<Rightarrow> int \<Rightarrow> thrown + number" where
  "positiveEnvironment env name fallback =
     (case env name of
        None \<Rightarrow> Inr (Integer fallback)
      | Some raw \<Rightarrow>
          if raw = [] \<or> \<not> is_digit (hd raw) \<or> hd raw = CHR ''0'' \<or> \<not> list_all is_digit (tl raw)
          then Inl (PlainError (name @ '' must be a positive integer''))
          else if \<not> isSafeInteger (Integer (int (digits_value raw)))
          then Inl (PlainError (name @ '' is outside the safe integer range''))
          else Inr (Integer (int (digits_value raw))))"

definition non_empty :: "string \<Rightarrow> string option" where
  "non_empty s = (if s = [] then None else Some s)"

definition optionalAppArmorProfile :: "process_env \<Rightarrow> string option" where
  "optionalAppArmorProfile env =
     (case env ''FIREBALL_SESSION_APPARMOR_PROFILE'' of None \<Rightarrow> None | Some v \<Rightarrow> non_empty (trim v))"

definition optionalIceServersFile :: "process_env \<Rightarrow> string option" where
  "optionalIceServersFile env = (case env ''FIREBALL_ICE_SERVERS_FILE'' of None \<Rightarrow> None | Some v \<Rightarrow> non_empty (trim v))"

definition sessionSeccompProfile ::
  "process_env \<Rightarrow> (string \<Rightarrow> bool \<Rightarrow> thrown + string) \<Rightarrow> string \<Rightarrow> thrown + string option" where
  "sessionSeccompProfile env read nodeEnvironment =
     bind_result
       (if nodeEnvironment = ''production''
        then bind_result (requiredEnvironment env ''FIREBALL_SESSION_SECCOMP_PROFILE'') (\<lambda>p. Inr (Some p))
        else Inr (case env ''FIREBALL_SESSION_SECCOMP_PROFILE'' of None \<Rightarrow> None | Some v \<Rightarrow> non_empty (trim v)))
       (\<lambda>path. case path of
          None \<Rightarrow> Inr None
        | Some p \<Rightarrow> bind_result (read p (nodeEnvironment = ''production'')) (\<lambda>profile. Inr (Some profile)))"

text \<open>\<open>/@sha256:[a-f0-9]{64}$/\<close>.\<close>

definition is_pinned_image :: "string \<Rightarrow> bool" where
  "is_pinned_image img =
     (let digest = rev (take 64 (rev img)); rest = drop 64 (rev img) in
      length digest = 64 \<and> list_all is_lower_hex digest \<and> take 8 rest = rev ''@sha256:'')"

definition sessionImage :: "process_env \<Rightarrow> string \<Rightarrow> thrown + string" where
  "sessionImage env nodeEnvironment =
     bind_result
       (if nodeEnvironment = ''production'' then requiredEnvironment env ''FIREBALL_SESSION_IMAGE''
        else Inr (or_else (env ''FIREBALL_SESSION_IMAGE'') ''fireball/session-wpe:0.1.0-dev.1''))
       (\<lambda>img.
          if nodeEnvironment = ''production'' \<and> \<not> is_pinned_image img
          then Inl (PlainError ''FIREBALL_SESSION_IMAGE must use an immutable sha256 digest in production'')
          else Inr img)"

subsection \<open>Origins\<close>

fun check_origins :: "(string \<Rightarrow> (string \<times> parsed_url) option) \<Rightarrow> bool \<Rightarrow> string list \<Rightarrow> thrown + unit" where
  "check_origins parse_origin production [] = Inr ()"
| "check_origins parse_origin production (value # values) =
     (case parse_origin value of
        None \<Rightarrow> Inl (PlainError ''FIREBALL_PUBLIC_ORIGINS contains an invalid URL'')
      | Some (origin, u) \<Rightarrow>
          if origin \<noteq> value \<or> url_username u \<noteq> [] \<or> url_password u \<noteq> []
            \<or> (production \<and> url_protocol u \<noteq> ''https:'')
            \<or> (\<not> production \<and> url_protocol u \<notin> {''http:'', ''https:''})
          then Inl (PlainError ''FIREBALL_PUBLIC_ORIGINS contains an unsafe origin'')
          else check_origins parse_origin production values)"

definition parseSignalingOrigins ::
  "process_env \<Rightarrow> (string \<Rightarrow> (string \<times> parsed_url) option) \<Rightarrow> string \<Rightarrow> thrown + string list" where
  "parseSignalingOrigins env parse_origin nodeEnvironment =
     bind_result
       (if nodeEnvironment = ''production'' then requiredEnvironment env ''FIREBALL_PUBLIC_ORIGINS''
        else Inr (or_else (env ''FIREBALL_PUBLIC_ORIGINS'') ''http://127.0.0.1:8787''))
       (\<lambda>raw.
          let origins = filter (\<lambda>v. v \<noteq> []) (map trim (split_on (CHR '','') raw)) in
          if origins = [] \<or> length origins > 8 \<or> length (remdups origins) \<noteq> length origins
          then Inl (PlainError ''FIREBALL_PUBLIC_ORIGINS must contain one to eight unique origins'')
          else bind_result (check_origins parse_origin (nodeEnvironment = ''production'') origins) (\<lambda>_. Inr origins))"

subsection \<open>Putting it together\<close>

datatype 'k configured_authenticator = DevelopmentAuth | OidcAuth "'k oidc"

definition createAuthenticator ::
  "process_env \<Rightarrow> url_parser \<Rightarrow> (parsed_url \<Rightarrow> 'k) \<Rightarrow> string \<Rightarrow> thrown + 'k configured_authenticator" where
  "createAuthenticator env parse createRemoteJWKSet nodeEnvironment =
     (if nodeEnvironment = ''development''
      then bind_result (new_development_authenticator nodeEnvironment) (\<lambda>_. Inr DevelopmentAuth)
      else
        bind_result (requiredEnvironment env ''FIREBALL_OIDC_ISSUER'') (\<lambda>issuer_url.
        bind_result (requiredEnvironment env ''FIREBALL_OIDC_AUDIENCE'') (\<lambda>aud.
        bind_result (requiredEnvironment env ''FIREBALL_OIDC_JWKS_URL'') (\<lambda>jwks.
        bind_result (new_oidc parse createRemoteJWKSet
            \<lparr>oidc_issuer = issuer_url, oidc_audience = aud, oidc_jwksUrl = jwks,
             oidc_tenantClaim = Some (or_else (env ''FIREBALL_OIDC_TENANT_CLAIM'') ''tenant_id''),
             oidc_algorithms = None, oidc_clockToleranceSeconds = None\<rparr> None)
          (\<lambda>a. Inr (OidcAuth a))))))"

definition main_docker_options ::
  "process_env \<Rightarrow> (string \<Rightarrow> bool \<Rightarrow> thrown + string) \<Rightarrow> string \<Rightarrow> thrown + docker_options" where
  "main_docker_options env read nodeEnvironment =
     bind_result (sessionImage env nodeEnvironment) (\<lambda>img.
     bind_result
       (if nodeEnvironment = ''production'' then requiredEnvironment env ''FIREBALL_INSTANCE_ID''
        else Inr (or_else (env ''FIREBALL_INSTANCE_ID'') ''development'')) (\<lambda>instance_id.
     bind_result (sessionSeccompProfile env read nodeEnvironment) (\<lambda>seccomp.
     bind_result (positiveEnvironment env ''FIREBALL_DOCKER_REQUEST_TIMEOUT_MS'' 30000) (\<lambda>timeout.
     bind_result (positiveEnvironment env ''FIREBALL_SESSION_HEALTH_ATTEMPTS'' 60) (\<lambda>attempts.
     bind_result (positiveEnvironment env ''FIREBALL_SESSION_HEALTH_INTERVAL_MS'' 1000) (\<lambda>interval.
     Inr \<lparr>opt_socketPath = or_else (env ''DOCKER_SOCKET'') ''/var/run/docker.sock'',
          opt_apiVersion = or_else (env ''DOCKER_API_VERSION'') ''1.47'', opt_image = img, opt_instanceId = instance_id,
          opt_appArmorProfile = optionalAppArmorProfile env, opt_seccompProfile = seccomp,
          opt_iceServersFile = optionalIceServersFile env, opt_requestTimeoutMs = Some timeout,
          opt_startupHealthAttempts = Some attempts, opt_startupHealthIntervalMs = Some interval\<rparr>))))))"

definition main_service_options :: "process_env \<Rightarrow> thrown + service_options" where
  "main_service_options env =
     bind_result (positiveEnvironment env ''FIREBALL_MAX_SESSIONS_PER_TENANT'' 1) (\<lambda>per_tenant.
     bind_result (positiveEnvironment env ''FIREBALL_MAX_SESSIONS'' 8) (\<lambda>n.
     bind_result (positiveEnvironment env ''FIREBALL_MAX_MEMORY_MIB'' 4096) (\<lambda>m.
     bind_result (positiveEnvironment env ''FIREBALL_MAX_CPU_SHARES'' 4096) (\<lambda>cpu.
     bind_result (positiveEnvironment env ''FIREBALL_MAX_PIDS'' 2048) (\<lambda>p.
     Inr \<lparr>opt_maximumSessionsPerTenant = Some per_tenant, opt_quota = None, opt_hostCapacity = Some (n, m, cpu, p),
          opt_pairingTicketTTLSeconds = None, opt_signalingTokenTTLSeconds = None\<rparr>)))))"

record 'k orchestrator =
  orch_runtime :: docker_runtime
  orch_service :: service_config
  orch_authenticator :: "'k configured_authenticator"
  orch_gateway :: gateway_options
  orch_connector :: connector
  orch_origins :: "string list"
  orch_host :: string
  orch_port :: "int option"

definition main_start ::
  "process_env \<Rightarrow> url_parser \<Rightarrow> (string \<Rightarrow> (string \<times> parsed_url) option) \<Rightarrow> (string \<Rightarrow> json option)
   \<Rightarrow> (string \<Rightarrow> bool \<Rightarrow> thrown + string) \<Rightarrow> (parsed_url \<Rightarrow> 'k) \<Rightarrow> thrown + 'k orchestrator" where
  "main_start env parse parse_origin json_text read createRemoteJWKSet =
     (let nodeEnvironment = or_else (env ''NODE_ENV'') ''development'';
          host = or_else (env ''FIREBALL_HOST'') ''127.0.0.1'';
          port = parse_int (or_else (env ''FIREBALL_PORT'') ''8787'') in
      bind_result (environment_guard nodeEnvironment host) (\<lambda>_.
      bind_result (main_docker_options env read nodeEnvironment) (\<lambda>opts.
      bind_result (new_docker_runtime json_text opts True) (\<lambda>docker.
      bind_result (main_service_options env) (\<lambda>service_opts.
      bind_result (new_service service_opts) (\<lambda>svc.
      bind_result (createAuthenticator env parse createRemoteJWKSet nodeEnvironment) (\<lambda>auth.
      bind_result (new_connector None None) (\<lambda>conn.
      bind_result (new_gateway_options None None) (\<lambda>gw.
      bind_result (parseSignalingOrigins env parse_origin nodeEnvironment) (\<lambda>origins.
      bind_result (build_app True (Some origins)) (\<lambda>_.
      Inr \<lparr>orch_runtime = docker, orch_service = svc, orch_authenticator = auth, orch_gateway = gw,
           orch_connector = conn, orch_origins = origins, orch_host = host, orch_port = port\<rparr>)))))))))))"

subsection \<open>What each part guarantees\<close>

lemma requiredEnvironment_Inr: "requiredEnvironment env n = Inr v \<longleftrightarrow> (\<exists>raw. env n = Some raw \<and> v = trim raw \<and> v \<noteq> [])"
  by (auto simp: requiredEnvironment_def split: option.splits)

lemma sessionImage_production:
  "sessionImage env ''production'' = Inr img \<Longrightarrow>
     is_pinned_image img \<and> (\<exists>raw. env ''FIREBALL_SESSION_IMAGE'' = Some raw \<and> img = trim raw)"
  by (auto simp: sessionImage_def bind_result_Inr requiredEnvironment_Inr split: if_splits)

lemma sessionSeccompProfile_production:
  "sessionSeccompProfile env read ''production'' = Inr p \<Longrightarrow>
     \<exists>raw profile. env ''FIREBALL_SESSION_SECCOMP_PROFILE'' = Some raw \<and> p = Some profile \<and> read (trim raw) True = Inr profile"
  by (auto simp: sessionSeccompProfile_def bind_result_Inr requiredEnvironment_Inr)

lemma check_origins_Inr:
  "check_origins parse_origin production vs = Inr u \<Longrightarrow> v \<in> set vs \<Longrightarrow>
     \<exists>url. parse_origin v = Some (v, url) \<and> url_username url = [] \<and> url_password url = []
       \<and> url_protocol url \<in> {''http:'', ''https:''} \<and> (production \<longrightarrow> url_protocol url = ''https:'')"
  by (induction vs) (auto split: option.splits if_splits)

lemma parseSignalingOrigins_Inr:
  assumes "parseSignalingOrigins env parse_origin e = Inr origins"
  shows "origins \<noteq> [] \<and> length origins \<le> 8 \<and> distinct origins
    \<and> check_origins parse_origin (e = ''production'') origins = Inr ()"
proof -
  have "origins \<noteq> [] \<and> length origins \<le> 8 \<and> length (remdups origins) = length origins
    \<and> check_origins parse_origin (e = ''production'') origins = Inr ()"
    using assms by (auto simp: parseSignalingOrigins_def bind_result_Inr Let_def split: if_splits)
  then show ?thesis by (metis distinct_remdups length_remdups_eq)
qed

lemma createAuthenticator_production:
  assumes "createAuthenticator env parse createRemoteJWKSet ''production'' = Inr auth"
  obtains a iss aud jwks where "auth = OidcAuth a"
    and "env ''FIREBALL_OIDC_ISSUER'' = Some iss" and "env ''FIREBALL_OIDC_AUDIENCE'' = Some aud"
    and "env ''FIREBALL_OIDC_JWKS_URL'' = Some jwks"
    and "new_oidc parse createRemoteJWKSet
        \<lparr>oidc_issuer = trim iss, oidc_audience = trim aud, oidc_jwksUrl = trim jwks,
         oidc_tenantClaim = Some (or_else (env ''FIREBALL_OIDC_TENANT_CLAIM'') ''tenant_id''),
         oidc_algorithms = None, oidc_clockToleranceSeconds = None\<rparr> None = Inr a"
  using assms by (auto simp: createAuthenticator_def bind_result_Inr requiredEnvironment_Inr)

lemma environment_guard_Inr:
  "environment_guard e host = Inr u \<longleftrightarrow> e = ''production'' \<or> e = ''development'' \<and> isLoopback host"
  by (auto simp: environment_guard_def)

end
