(* ===== verification/MainProperties.thy ===== *)
theory MainProperties
  imports MainConfig
begin

text \<open>
  What the startup of the orchestrator guarantees, whatever its environment holds: an accepted
  production configuration is the hardened one.
\<close>

subsection \<open>The profile that was read\<close>

text \<open>The reader the startup uses: opening a path yields the file or the error of \<open>open\<close>.\<close>

definition profile_reader ::
  "(nat list \<Rightarrow> string) \<Rightarrow> (nat list \<Rightarrow> json option) \<Rightarrow> (string \<Rightarrow> thrown + opened_file) \<Rightarrow> string \<Rightarrow> bool \<Rightarrow> thrown + string" where
  "profile_reader sha256 json_parse open_profile path requireRootOwner =
     readSessionSeccompProfile sha256 json_parse path requireRootOwner (open_profile path)"

definition reviewed_root_file :: "(nat list \<Rightarrow> string) \<Rightarrow> opened_file \<Rightarrow> bool" where
  "reviewed_root_file sha256 f =
     (sha256 (file_bytes f) = EXPECTED_PROFILE_SHA256 \<and> st_uid (stat_before f) = 0
      \<and> st_is_file (stat_before f) \<and> st_mode (stat_before f) AND 0x12 = 0 \<and> st_size (stat_before f) \<le> MAXIMUM_PROFILE_BYTES)"

lemma readSessionSeccompProfile_Inr:
  assumes "readSessionSeccompProfile sha256 json_parse path True file = Inr profile"
  obtains f document where "file = Inr f" and "reviewed_root_file sha256 f" and "safe_host_path path"
    and "json_parse (file_bytes f) = Some document" and "profile = json_stringify document"
    and "validateProfileShape document = Inr ()"
  using assms
  by (auto simp: readSessionSeccompProfile_def reviewed_root_file_def bind_result_Inr Let_def split: if_splits option.splits)

lemma main_docker_options_production:
  assumes "main_docker_options env (profile_reader sha256 json_parse open_profile) ''production'' = Inr opts"
  obtains img path f document where "env ''FIREBALL_SESSION_IMAGE'' = Some img" and "opt_image opts = trim img"
    and "is_pinned_image (opt_image opts)" and "env ''FIREBALL_SESSION_SECCOMP_PROFILE'' = Some path"
    and "opt_seccompProfile opts = Some (json_stringify document)"
    and "open_profile (trim path) = Inr f" and "reviewed_root_file sha256 f" and "json_parse (file_bytes f) = Some document"
    and "validateProfileShape document = Inr ()"
proof -
  from assms obtain seccomp img where img: "env ''FIREBALL_SESSION_IMAGE'' = Some img" "opt_image opts = trim img"
      "is_pinned_image (opt_image opts)"
    and s: "opt_seccompProfile opts = seccomp"
    and r: "sessionSeccompProfile env (profile_reader sha256 json_parse open_profile) ''production'' = Inr seccomp"
    by (auto simp: main_docker_options_def bind_result_Inr dest!: sessionImage_production)
  from sessionSeccompProfile_production [OF r] obtain path profile where "env ''FIREBALL_SESSION_SECCOMP_PROFILE'' = Some path"
    and "seccomp = Some profile" and read: "readSessionSeccompProfile sha256 json_parse (trim path) True (open_profile (trim path)) = Inr profile"
    by (auto simp: profile_reader_def)
  from read obtain f document where "open_profile (trim path) = Inr f" "reviewed_root_file sha256 f"
    "json_parse (file_bytes f) = Some document" "profile = json_stringify document" "validateProfileShape document = Inr ()"
    by (rule readSessionSeccompProfile_Inr)
  with img s \<open>env ''FIREBALL_SESSION_SECCOMP_PROFILE'' = Some path\<close> \<open>seccomp = Some profile\<close> show thesis
    by (intro that) simp_all
qed

lemma new_docker_runtime_Inr:
  assumes "new_docker_runtime json_text opts own = Inr d"
  shows "session_image d = opt_image opts \<and> seccompProfile d = opt_seccompProfile opts"
  using assms by (auto simp: new_docker_runtime_def bind_result_Inr)

text \<open>The authenticator of production verifies tokens against the endpoints that the environment names.\<close>

definition hardened_oidc :: "process_env \<Rightarrow> url_parser \<Rightarrow> (parsed_url \<Rightarrow> 'k) \<Rightarrow> 'k oidc \<Rightarrow> bool" where
  "hardened_oidc env parse mk a \<longleftrightarrow>
     (\<exists>iss aud jwks iss_url jwks_url.
        env ''FIREBALL_OIDC_ISSUER'' = Some iss \<and> env ''FIREBALL_OIDC_AUDIENCE'' = Some aud
        \<and> env ''FIREBALL_OIDC_JWKS_URL'' = Some jwks
        \<and> https_endpoint parse (trim iss) iss_url \<and> https_endpoint parse (trim jwks) jwks_url
        \<and> issuer a = trim iss \<and> audience a = trim (trim aud) \<and> audience a \<noteq> [] \<and> keyResolver a = mk jwks_url)
     \<and> tenantClaim a = (case env ''FIREBALL_OIDC_TENANT_CLAIM'' of None \<Rightarrow> ''tenant_id'' | Some claim \<Rightarrow> claim)
     \<and> set (algorithms a) = {''RS256'', ''PS256'', ''ES256''} \<and> clockToleranceSeconds a = 5"

lemma createAuthenticator_hardened:
  assumes "createAuthenticator env parse mk ''production'' = Inr auth"
  shows "\<exists>a. auth = OidcAuth a \<and> hardened_oidc env parse mk a"
proof -
  from assms obtain a iss aud jwks where auth: "auth = OidcAuth a"
    and env: "env ''FIREBALL_OIDC_ISSUER'' = Some iss" "env ''FIREBALL_OIDC_AUDIENCE'' = Some aud" "env ''FIREBALL_OIDC_JWKS_URL'' = Some jwks"
    and new: "new_oidc parse mk \<lparr>oidc_issuer = trim iss, oidc_audience = trim aud, oidc_jwksUrl = trim jwks,
         oidc_tenantClaim = Some (or_else (env ''FIREBALL_OIDC_TENANT_CLAIM'') ''tenant_id''),
         oidc_algorithms = None, oidc_clockToleranceSeconds = None\<rparr> None = Inr a"
    by (rule createAuthenticator_production)
  from new have "hardened_oidc env parse mk a"
    by (rule new_oidc_Inr) (auto simp: hardened_oidc_def env or_else_def DEFAULT_ALGORITHMS_def split: option.splits)
  with auth show ?thesis by blast
qed

lemma main_start_Inr:
  assumes "main_start env parse parse_origin json_text read mk = Inr started"
  obtains opts service_opts where "environment_guard (or_else (env ''NODE_ENV'') ''development'') (orch_host started) = Inr ()"
    and "main_docker_options env read (or_else (env ''NODE_ENV'') ''development'') = Inr opts"
    and "new_docker_runtime json_text opts True = Inr (orch_runtime started)"
    and "new_service service_opts = Inr (orch_service started)"
    and "createAuthenticator env parse mk (or_else (env ''NODE_ENV'') ''development'') = Inr (orch_authenticator started)"
    and "parseSignalingOrigins env parse_origin (or_else (env ''NODE_ENV'') ''development'') = Inr (orch_origins started)"
  using assms by (auto simp: main_start_def bind_result_Inr Let_def)

lemma createAuthenticator_development:
  "createAuthenticator env parse mk ''development'' = Inr auth \<Longrightarrow> auth = DevelopmentAuth"
  by (auto simp: createAuthenticator_def bind_result_Inr)

subsection \<open>The startup is safe\<close>

text \<open>
  C30. An environment the startup accepts is one of two. Either it is the development mode, with
  the development authenticator and bound to the loopback interface; or it is production, with an OIDC
  authenticator whose issuer and whose JWKS URL, the address its keys are fetched from, are the HTTPS URLs without credentials that the
  environment names, whose audience and tenant claim are the environment's, and which takes the three asymmetric algorithms only;
  with sessions that run the image the environment names, pinned by its digest, under the seccomp profile that was read from the
  path the environment names, a file owned by root with the reviewed checksum; and with HTTPS origins. In both, the signaling
  origins are one to eight distinct origins, without credentials, that are their own origin.
\<close>

theorem orchestrator_starts_safely:
  assumes start: "main_start env parse parse_origin json_text (profile_reader sha256 json_parse open_profile) mk = Inr started"
  shows "(or_else (env ''NODE_ENV'') ''development'' = ''development'' \<and> isLoopback (orch_host started)
        \<and> orch_authenticator started = DevelopmentAuth
      \<or> env ''NODE_ENV'' = Some ''production''
        \<and> (\<exists>a. orch_authenticator started = OidcAuth a \<and> hardened_oidc env parse mk a)
        \<and> (\<exists>img. env ''FIREBALL_SESSION_IMAGE'' = Some img \<and> session_image (orch_runtime started) = trim img)
        \<and> is_pinned_image (session_image (orch_runtime started))
        \<and> (\<exists>path f document. env ''FIREBALL_SESSION_SECCOMP_PROFILE'' = Some path
             \<and> open_profile (trim path) = Inr f \<and> reviewed_root_file sha256 f
             \<and> json_parse (file_bytes f) = Some document \<and> validateProfileShape document = Inr ()
             \<and> seccompProfile (orch_runtime started) = Some (json_stringify document))
        \<and> (\<forall>v \<in> set (orch_origins started). \<exists>url. parse_origin v = Some (v, url) \<and> url_protocol url = ''https:''))
    \<and> orch_origins started \<noteq> [] \<and> length (orch_origins started) \<le> 8 \<and> distinct (orch_origins started)
    \<and> (\<forall>v \<in> set (orch_origins started). \<exists>url. parse_origin v = Some (v, url) \<and> url_username url = []
         \<and> url_password url = [] \<and> url_protocol url \<in> {''http:'', ''https:''})"
proof -
  from start obtain opts service_opts
    where g: "environment_guard (or_else (env ''NODE_ENV'') ''development'') (orch_host started) = Inr ()"
      and o: "main_docker_options env (profile_reader sha256 json_parse open_profile) (or_else (env ''NODE_ENV'') ''development'') = Inr opts"
      and d: "new_docker_runtime json_text opts True = Inr (orch_runtime started)"
      and a: "createAuthenticator env parse mk (or_else (env ''NODE_ENV'') ''development'') = Inr (orch_authenticator started)"
      and v: "parseSignalingOrigins env parse_origin (or_else (env ''NODE_ENV'') ''development'') = Inr (orch_origins started)"
    by (rule main_start_Inr)
  note origins = parseSignalingOrigins_Inr [OF v]
  note each = check_origins_Inr [OF origins [THEN conjunct2, THEN conjunct2, THEN conjunct2]]
  note runtime = new_docker_runtime_Inr [OF d]
  have rest: "orch_origins started \<noteq> [] \<and> length (orch_origins started) \<le> 8 \<and> distinct (orch_origins started)
    \<and> (\<forall>v \<in> set (orch_origins started). \<exists>url. parse_origin v = Some (v, url) \<and> url_username url = []
         \<and> url_password url = [] \<and> url_protocol url \<in> {''http:'', ''https:''})"
    using origins each by blast
  from g consider (dev) "or_else (env ''NODE_ENV'') ''development'' = ''development''" "isLoopback (orch_host started)"
    | (production) "or_else (env ''NODE_ENV'') ''development'' = ''production''"
    by (auto simp: environment_guard_Inr)
  then show ?thesis
  proof cases
    case dev
    with a createAuthenticator_development [of env parse mk "orch_authenticator started"] rest show ?thesis by simp
  next
    case production
    then have e: "env ''NODE_ENV'' = Some ''production''" by (auto simp: or_else_def split: option.splits)
    from createAuthenticator_hardened [OF a [unfolded production]] obtain x
      where x: "orch_authenticator started = OidcAuth x" "hardened_oidc env parse mk x" by blast
    from main_docker_options_production [OF o [unfolded production]] obtain img path f document
      where i: "env ''FIREBALL_SESSION_IMAGE'' = Some img" "opt_image opts = trim img" "is_pinned_image (opt_image opts)"
        and p: "env ''FIREBALL_SESSION_SECCOMP_PROFILE'' = Some path" "opt_seccompProfile opts = Some (json_stringify document)"
        "open_profile (trim path) = Inr f" "reviewed_root_file sha256 f" "json_parse (file_bytes f) = Some document"
        "validateProfileShape document = Inr ()" .
    have secure: "\<forall>v \<in> set (orch_origins started). \<exists>url. parse_origin v = Some (v, url) \<and> url_protocol url = ''https:''"
      using each production by blast
    have image: "(\<exists>img. env ''FIREBALL_SESSION_IMAGE'' = Some img \<and> session_image (orch_runtime started) = trim img)
        \<and> is_pinned_image (session_image (orch_runtime started))"
      using i runtime by simp
    have profile: "\<exists>path f document. env ''FIREBALL_SESSION_SECCOMP_PROFILE'' = Some path
        \<and> open_profile (trim path) = Inr f \<and> reviewed_root_file sha256 f
        \<and> json_parse (file_bytes f) = Some document \<and> validateProfileShape document = Inr ()
        \<and> seccompProfile (orch_runtime started) = Some (json_stringify document)"
      using p runtime by (intro exI conjI) simp_all
    show ?thesis by (intro conjI disjI2 e image [THEN conjunct1] image [THEN conjunct2] profile secure rest [THEN conjunct1]
        rest [THEN conjunct2, THEN conjunct1] rest [THEN conjunct2, THEN conjunct2, THEN conjunct1] rest [THEN conjunct2, THEN conjunct2, THEN conjunct2] exI) (rule x)+
  qed
qed

subsection \<open>A production environment that starts\<close>

definition ex_env :: process_env where
  "ex_env n = map_of
     [(''NODE_ENV'', ''production''), (''FIREBALL_HOST'', ''0.0.0.0''), (''FIREBALL_INSTANCE_ID'', ''blue''),
      (''FIREBALL_SESSION_IMAGE'', ''registry.example/session@sha256:'' @ replicate 64 (CHR ''a'')),
      (''FIREBALL_SESSION_SECCOMP_PROFILE'', ''/etc/fireball/seccomp.json''),
      (''FIREBALL_OIDC_ISSUER'', ''https://issuer.example/''), (''FIREBALL_OIDC_AUDIENCE'', ''fireball-docker''),
      (''FIREBALL_OIDC_JWKS_URL'', ''https://issuer.example/''), (''FIREBALL_PUBLIC_ORIGINS'', ''https://browser.example, '')] n"

text \<open>A URL parser that knows two texts.\<close>

definition ex_https :: "string \<Rightarrow> string \<Rightarrow> parsed_url" where
  "ex_https v hostname = \<lparr>url_protocol = ''https:'', url_username = [], url_password = [], url_hostname = hostname,
     url_port = [], url_pathname = ''/'', url_search = [], url_hash = [], url_href = v\<rparr>"

definition ex_parse :: url_parser where
  "ex_parse v = (if v = ''https://issuer.example/'' then Some (ex_https v ''issuer.example'') else None)"

definition ex_origin :: "string \<Rightarrow> (string \<times> parsed_url) option" where
  "ex_origin v = (if v = ''https://browser.example'' then Some (v, ex_https v ''browser.example'') else None)"

definition ex_profile :: json where
  "ex_profile = JObj [(''defaultAction'', JStr ''SCMP_ACT_ERRNO''), (''defaultErrnoRet'', JNum (Integer 1)),
     (''archMap'', expected_arch_map), (''syscalls'', JArr (replicate 30 JNull))]"

definition ex_file :: opened_file where
  "ex_file =
     (let st = \<lparr>st_is_file = True, st_size = 2, st_uid = 0, st_mode = 0x1A4, st_dev = 1, st_ino = 7, st_mtimeMs = 5, st_ctimeMs = 5\<rparr>
      in \<lparr>stat_before = st, file_bytes = [123, 125], stat_after = st\<rparr>)"

definition ex_start :: "thrown + unit orchestrator" where
  "ex_start = main_start ex_env ex_parse ex_origin (\<lambda>_. Some ex_profile)
     (profile_reader (\<lambda>_. EXPECTED_PROFILE_SHA256) (\<lambda>_. Some ex_profile) (\<lambda>_. Inr ex_file)) (\<lambda>_. ())"

lemma show_one: "show_int 1 = ''1''"
proof -
  have "char_of (49 :: nat) = CHR ''1''" by code_simp
  then show ?thesis by (simp add: show_int_def show_nat.simps)
qed

definition harmless :: "string \<Rightarrow> bool" where
  "harmless s = (length s \<le> 200 \<and> CHR 0x00 \<notin> set s)"

lemma ex_quotes:
  "list_all (\<lambda>s. harmless (json_quote s))
     [''defaultAction'', ''SCMP_ACT_ERRNO'', ''defaultErrnoRet'', ''archMap'', ''architecture'', ''SCMP_ARCH_X86_64'',
      ''subArchitectures'', ''SCMP_ARCH_AARCH64'', ''syscalls'']"
  "harmless (join_with '','' (replicate 30 ''null''))"
  by code_simp+

lemma ex_profile_text:
  "json_stringify ex_profile \<noteq> []" "length (json_stringify ex_profile) \<le> 3000" "CHR 0x00 \<notin> set (json_stringify ex_profile)"
  using ex_quotes by (simp_all add: ex_profile_def expected_arch_map_def show_one harmless_def)

lemma ex_profile_shape: "validateProfileShape ex_profile = Inr ()"
  by (simp add: validateProfileShape_Inr ex_profile_def)


lemma ex_values:
  "requiredEnvironment ex_env ''FIREBALL_INSTANCE_ID'' = Inr ''blue''"
  "requiredEnvironment ex_env ''FIREBALL_SESSION_SECCOMP_PROFILE'' = Inr ''/etc/fireball/seccomp.json''"
  "sessionImage ex_env ''production'' = Inr (''registry.example/session@sha256:'' @ replicate 64 (CHR ''a''))"
  "parseSignalingOrigins ex_env ex_origin ''production'' = Inr [''https://browser.example'']"
  by code_simp+

lemma ex_accepted:
  "\<not> isl (createAuthenticator ex_env ex_parse (\<lambda>_. ()) ''production'')"
  "\<not> isl (main_service_options ex_env)"
  "case main_service_options ex_env of Inl _ \<Rightarrow> False | Inr o' \<Rightarrow> \<not> isl (new_service o')"
  "\<not> isl (new_connector None None)" "\<not> isl (new_gateway_options None None)"
  by code_simp+

lemma ex_path: "safe_host_path ''/etc/fireball/seccomp.json''" by code_simp

lemma ex_profile_read:
  "profile_reader (\<lambda>_. EXPECTED_PROFILE_SHA256) (\<lambda>_. Some ex_profile) (\<lambda>_. Inr ex_file) ''/etc/fireball/seccomp.json'' True
     = Inr (json_stringify ex_profile)"
  by (simp add: profile_reader_def readSessionSeccompProfile_def ex_file_def ex_profile_shape ex_path Let_def MAXIMUM_PROFILE_BYTES_def)

lemma ex_docker_options:
  "main_docker_options ex_env (profile_reader (\<lambda>_. EXPECTED_PROFILE_SHA256) (\<lambda>_. Some ex_profile) (\<lambda>_. Inr ex_file)) ''production''
   = Inr \<lparr>opt_socketPath = ''/var/run/docker.sock'', opt_apiVersion = ''1.47'',
       opt_image = ''registry.example/session@sha256:'' @ replicate 64 (CHR ''a''), opt_instanceId = ''blue'',
       opt_appArmorProfile = None, opt_seccompProfile = Some (json_stringify ex_profile), opt_iceServersFile = None,
       opt_requestTimeoutMs = Some (Integer 30000), opt_startupHealthAttempts = Some (Integer 60),
       opt_startupHealthIntervalMs = Some (Integer 1000)\<rparr>"
  unfolding main_docker_options_def sessionSeccompProfile_def
  by (simp add: ex_values ex_profile_read)
    (simp add: ex_env_def or_else_def positiveEnvironment_def optionalAppArmorProfile_def optionalIceServersFile_def)

lemma ex_docker:
  "\<exists>d. bind_result (main_docker_options ex_env
        (profile_reader (\<lambda>_. EXPECTED_PROFILE_SHA256) (\<lambda>_. Some ex_profile) (\<lambda>_. Inr ex_file)) ''production'')
      (\<lambda>opts. new_docker_runtime (\<lambda>_. Some ex_profile) opts True) = Inr d"
proof -
  have "is_numeric_version ''1.47''" "isSafeLabelValue ''blue''" "isAbsolute ''/var/run/docker.sock''"
    "trim (''registry.example/session@sha256:'' @ replicate 64 (CHR ''a'')) \<noteq> []" by code_simp+
  moreover have "\<not> 131072 < length (json_stringify ex_profile)" using ex_profile_text(2) by simp
  ultimately show ?thesis
    by (simp add: ex_docker_options new_docker_runtime_def check_def validateSeccompProfile_def ex_profile_text(1,3)
      ex_profile_shape or_else_def new_transport_def positiveInteger_def max_safe_integer_def)
qed

lemma ex_start_accepted: "\<exists>x. ex_start = Inr x \<and> orch_host x = ''0.0.0.0''"
proof -
  from ex_accepted obtain a s o' c g
    where a: "createAuthenticator ex_env ex_parse (\<lambda>_. ()) ''production'' = Inr a"
      and o': "main_service_options ex_env = Inr o'" and s: "new_service o' = Inr s"
      and c: "new_connector None None = Inr c" and g: "new_gateway_options None None = Inr g"
    by (auto simp: isl_def split: sum.splits) (metis Inr_inject sum.exhaust_sel)
  from ex_docker obtain d opts
    where d: "main_docker_options ex_env (profile_reader (\<lambda>_. EXPECTED_PROFILE_SHA256) (\<lambda>_. Some ex_profile) (\<lambda>_. Inr ex_file)) ''production''
        = Inr opts" "new_docker_runtime (\<lambda>_. Some ex_profile) opts True = Inr d"
    by (auto simp: bind_result_Inr)
  have e: "ex_env ''NODE_ENV'' = Some ''production''" "ex_env ''FIREBALL_HOST'' = Some ''0.0.0.0''" by code_simp+
  show ?thesis
    by (simp add: ex_start_def main_start_def Let_def or_else_def e a o' s c g d environment_guard_def ex_values build_app_def)
qed

theorem orchestrator_starts_safely_witness:
  "\<exists>x. ex_start = Inr x \<and> orch_host x = ''0.0.0.0'' \<and> orch_authenticator x \<noteq> DevelopmentAuth
     \<and> is_pinned_image (session_image (orch_runtime x)) \<and> seccompProfile (orch_runtime x) \<noteq> None"
proof -
  from ex_start_accepted obtain x where x: "ex_start = Inr x" "orch_host x = ''0.0.0.0''" by blast
  have e: "ex_env ''NODE_ENV'' = Some ''production''" by code_simp
  from orchestrator_starts_safely [OF x(1) [unfolded ex_start_def]] e x show ?thesis
    by (auto simp: or_else_def)
qed

end
