(* ===== verification/FileSystem.thy ===== *)
theory FileSystem
  imports Types "HOL-Library.Word"
begin

text \<open>
  What the deployment scripts use of Node's \<open>fs\<close> and \<open>path\<close> modules. A world holds the files,
  counts the calls made so far and remembers the file systems that nginx was reloaded with. A
  call fails on its own when the files demand it (no such file, already there, a directory), and
  it fails whenever the argument \<open>faults\<close> says so, for a reason the model does not track
  (permissions, a full disk); a copy that fails that way leaves any file or none at its
  destination.
  No other process changes the files during a call. What a symbolic link points to is only
  known as far as \<open>existsSync\<close> sees it.
\<close>

subsection \<open>Worlds and computations\<close>

datatype node = RegularFile string "32 word" | Directory | SymbolicLink bool

type_synonym files = "(string, node) js_map"

record world =
  files :: files
  calls :: nat
  reloads :: "files list"

datatype io_error = SystemError string string | InstallError string

fun io_message :: "io_error \<Rightarrow> string" where
  "io_message (SystemError c m) = m"
| "io_message (InstallError m) = m"

type_synonym 'a io = "world \<Rightarrow> (io_error + 'a) \<times> world"

definition io_return :: "'a \<Rightarrow> 'a io" where
  "io_return a w = (Inr a, w)"

definition io_throw :: "io_error \<Rightarrow> 'a io" where
  "io_throw e w = (Inl e, w)"

text \<open>What runs after a computation that returned, and what after one that threw.\<close>

definition io_then :: "'a io \<Rightarrow> ('a \<Rightarrow> 'b io) \<Rightarrow> (io_error \<Rightarrow> 'b io) \<Rightarrow> 'b io" where
  "io_then m f h w = (case m w of (Inr a, w') \<Rightarrow> f a w' | (Inl e, w') \<Rightarrow> h e w')"

definition io_bind :: "'a io \<Rightarrow> ('a \<Rightarrow> 'b io) \<Rightarrow> 'b io" where
  "io_bind m f = io_then m f io_throw"

definition io_finally :: "'a io \<Rightarrow> unit io \<Rightarrow> 'a io" where
  "io_finally m f = io_then m (\<lambda>a. io_bind f (\<lambda>_. io_return a)) (\<lambda>e. io_bind f (\<lambda>_. io_throw e))"

definition io_unless :: "bool \<Rightarrow> io_error \<Rightarrow> unit io" where
  "io_unless b e = (if b then io_return () else io_throw e)"

subsection \<open>Calls\<close>

type_synonym remains = "(string \<times> 32 word) option"
type_synonym faults = "nat \<Rightarrow> (string \<times> remains) option"

definition system_call ::
  "faults \<Rightarrow> (remains \<Rightarrow> files \<Rightarrow> files) \<Rightarrow> (files \<Rightarrow> io_error + 'a \<times> files) \<Rightarrow> 'a io" where
  "system_call faults damage operation w =
     (let w' = w\<lparr>calls := Suc (calls w)\<rparr> in
      case operation (files w) of
        Inl e \<Rightarrow> (Inl e, w')
      | Inr (a, fs) \<Rightarrow>
          (case faults (calls w) of
             Some (m, left) \<Rightarrow> (Inl (SystemError ''EIO'' m), w'\<lparr>files := damage left (files w)\<rparr>)
           | None \<Rightarrow> (Inr a, w'\<lparr>files := fs\<rparr>)))"

definition no_damage :: "remains \<Rightarrow> files \<Rightarrow> files" where
  "no_damage left fs = fs"

definition torn_copy :: "string \<Rightarrow> remains \<Rightarrow> files \<Rightarrow> files" where
  "torn_copy p left fs = (case left of None \<Rightarrow> jm_delete p fs | Some (c, m) \<Rightarrow> jm_set p (RegularFile c m) fs)"

definition trailing_slash :: "string \<Rightarrow> bool" where
  "trailing_slash p = (p \<noteq> [] \<and> last p = CHR ''/'')"

definition strip_slashes :: "string \<Rightarrow> string" where
  "strip_slashes p = rev (dropWhile (\<lambda>c. c = CHR ''/'') (rev p))"

text \<open>A path with a trailing slash only names a directory.\<close>

definition node_at :: "files \<Rightarrow> string \<Rightarrow> node option" where
  "node_at fs p =
     (if trailing_slash p then (if jm_get fs (strip_slashes p) = Some Directory then Some Directory else None)
      else jm_get fs p)"

definition no_entry :: io_error where
  "no_entry = SystemError ''ENOENT'' ''no such file or directory''"

definition is_directory :: io_error where
  "is_directory = SystemError ''EISDIR'' ''illegal operation on a directory''"

definition not_directory :: io_error where
  "not_directory = SystemError ''ENOTDIR'' ''not a directory''"

definition file_exists :: io_error where
  "file_exists = SystemError ''EEXIST'' ''file already exists''"

definition existsSync :: "string \<Rightarrow> bool io" where
  "existsSync p w = (Inr (case node_at (files w) p of None \<Rightarrow> False | Some (SymbolicLink resolves) \<Rightarrow> resolves | Some _ \<Rightarrow> True), w)"

definition lstatSync :: "faults \<Rightarrow> string \<Rightarrow> node io" where
  "lstatSync faults p = system_call faults no_damage
     (\<lambda>fs. case node_at fs p of None \<Rightarrow> Inl no_entry | Some n \<Rightarrow> Inr (n, fs))"

definition mkdirSync :: "faults \<Rightarrow> string \<Rightarrow> unit io" where
  "mkdirSync faults p = system_call faults no_damage
     (\<lambda>fs. if jm_get fs p \<noteq> None then Inl file_exists else Inr ((), jm_set p Directory fs))"

definition mkdtempSync :: "faults \<Rightarrow> string \<Rightarrow> string \<Rightarrow> string io" where
  "mkdtempSync faults random pre = system_call faults no_damage
     (\<lambda>fs. if jm_get fs (pre @ random) \<noteq> None then Inl file_exists
           else Inr (pre @ random, jm_set (pre @ random) Directory fs))"

definition has_children :: "files \<Rightarrow> string \<Rightarrow> bool" where
  "has_children fs p = list_ex (\<lambda>(q, _). starts_with (p @ ''/'') q) fs"

definition rmdirSync :: "faults \<Rightarrow> string \<Rightarrow> unit io" where
  "rmdirSync faults p = system_call faults no_damage
     (\<lambda>fs. case jm_get fs p of
        None \<Rightarrow> Inl no_entry
      | Some Directory \<Rightarrow>
          if has_children fs p then Inl (SystemError ''ENOTEMPTY'' ''directory not empty'') else Inr ((), jm_delete p fs)
      | Some _ \<Rightarrow> Inl not_directory)"

definition unlinkSync :: "faults \<Rightarrow> string \<Rightarrow> unit io" where
  "unlinkSync faults p = system_call faults no_damage
     (\<lambda>fs. case node_at fs p of
        None \<Rightarrow> Inl no_entry
      | Some Directory \<Rightarrow> Inl is_directory
      | Some _ \<Rightarrow> Inr ((), jm_delete p fs))"

text \<open>The copy takes over the mode; neither end is a symbolic link where the code copies.\<close>

definition copyFileSync :: "faults \<Rightarrow> string \<Rightarrow> string \<Rightarrow> unit io" where
  "copyFileSync faults source destination = system_call faults (torn_copy destination)
     (\<lambda>fs. case node_at fs source of
        Some (RegularFile content mode) \<Rightarrow>
          if trailing_slash destination then Inl not_directory
          else (case jm_get fs destination of
              None \<Rightarrow> Inr ((), jm_set destination (RegularFile content mode) fs)
            | Some (RegularFile _ _) \<Rightarrow> Inr ((), jm_set destination (RegularFile content mode) fs)
            | Some _ \<Rightarrow> Inl is_directory)
      | None \<Rightarrow> Inl no_entry
      | Some _ \<Rightarrow> Inl is_directory)"

definition chmodSync :: "faults \<Rightarrow> string \<Rightarrow> 32 word \<Rightarrow> unit io" where
  "chmodSync faults p mode = system_call faults no_damage
     (\<lambda>fs. case node_at fs p of
        Some (RegularFile content _) \<Rightarrow> Inr ((), jm_set p (RegularFile content mode) fs)
      | None \<Rightarrow> Inl no_entry
      | Some _ \<Rightarrow> Inr ((), fs))"

definition renameSync :: "faults \<Rightarrow> string \<Rightarrow> string \<Rightarrow> unit io" where
  "renameSync faults source destination = system_call faults no_damage
     (\<lambda>fs. case node_at fs source of
        None \<Rightarrow> Inl no_entry
      | Some n \<Rightarrow>
          if trailing_slash destination then Inl not_directory
          else if jm_get fs destination = Some Directory then Inl is_directory
          else Inr ((), jm_set destination n (jm_delete source fs)))"

subsection \<open>Paths\<close>

definition basename :: "string \<Rightarrow> string" where
  "basename p = rev (takeWhile (\<lambda>c. c \<noteq> CHR ''/'') (rev (strip_slashes p)))"

definition dirname :: "string \<Rightarrow> string" where
  "dirname p =
     (let up = rev (dropWhile (\<lambda>c. c \<noteq> CHR ''/'') (rev (strip_slashes p))) in
      if up = [] then ''.'' else if up = ''/'' then ''/'' else butlast up)"

definition join_path :: "string \<Rightarrow> string \<Rightarrow> string" where
  "join_path a b = normalize (a @ ''/'' @ b)"

definition resolve_path :: "string \<Rightarrow> string \<Rightarrow> string" where
  "resolve_path cwd p =
     (let q = strip_slashes (normalize (if isAbsolute p then p else cwd @ ''/'' @ p)) in if q = [] then ''/'' else q)"

subsection \<open>Weakest preconditions\<close>

definition wp :: "'a io \<Rightarrow> ('a \<Rightarrow> world \<Rightarrow> bool) \<Rightarrow> (io_error \<Rightarrow> world \<Rightarrow> bool) \<Rightarrow> world \<Rightarrow> bool" where
  "wp m Q E w = (case m w of (Inr a, w') \<Rightarrow> Q a w' | (Inl e, w') \<Rightarrow> E e w')"

named_theorems wp_simps \<open>weakest preconditions of the combinators and calls\<close>

lemma wp_return [wp_simps]: "wp (io_return a) Q E = Q a"
  by (simp add: fun_eq_iff wp_def io_return_def)

lemma wp_throw [wp_simps]: "wp (io_throw e) Q E = E e"
  by (simp add: fun_eq_iff wp_def io_throw_def)

lemma wp_then [wp_simps]: "wp (io_then m f h) Q E w = wp m (\<lambda>a. wp (f a) Q E) (\<lambda>e. wp (h e) Q E) w"
  by (auto simp: wp_def io_then_def split: prod.splits sum.splits)

lemma wp_bind [wp_simps]: "wp (io_bind m f) Q E w = wp m (\<lambda>a. wp (f a) Q E) E w"
  by (auto simp: wp_def io_bind_def io_then_def io_throw_def split: prod.splits sum.splits)

lemma wp_mono:
  "wp m Q E w \<Longrightarrow> (\<And>a w'. Q a w' \<Longrightarrow> Q' a w') \<Longrightarrow> (\<And>e w'. E e w' \<Longrightarrow> E' e w') \<Longrightarrow> wp m Q' E' w"
  by (auto simp: wp_def split: prod.splits sum.splits)

lemma wp_finally [wp_simps]:
  "wp (io_finally m f) Q E w = wp m (\<lambda>a. wp f (\<lambda>_. Q a) E) (\<lambda>e. wp f (\<lambda>_. E e) E) w"
  by (auto simp: wp_def io_finally_def io_bind_def io_then_def io_throw_def io_return_def split: prod.splits sum.splits)

lemma wp_unless [wp_simps]: "wp (io_unless b e) Q E w = (if b then Q () w else E e w)"
  by (simp add: io_unless_def wp_return wp_throw)

lemma wp_if [wp_simps]: "wp (if b then m else n) Q E w = (if b then wp m Q E w else wp n Q E w)"
  by simp

lemma wp_exists [wp_simps]:
  "wp (existsSync p) Q E w =
     Q (case node_at (files w) p of None \<Rightarrow> False | Some (SymbolicLink resolves) \<Rightarrow> resolves | Some _ \<Rightarrow> True) w"
  by (simp add: wp_def existsSync_def)

text \<open>
  A call either does its operation, or throws; when it throws the files are as before, or damaged
  as a failing call of its kind may damage them. Its postconditions must not look at the count.
\<close>

lemma wp_system_call:
  assumes "\<And>a fs w'. operation (files w) = Inr (a, fs) \<Longrightarrow> files w' = fs \<Longrightarrow> reloads w' = reloads w \<Longrightarrow> Q a w'"
    and "\<And>e w'. operation (files w) = Inl e \<Longrightarrow> files w' = files w \<Longrightarrow> reloads w' = reloads w \<Longrightarrow> E e w'"
    and "\<And>e a fs left w'. operation (files w) = Inr (a, fs) \<Longrightarrow> files w' = damage left (files w)
      \<Longrightarrow> reloads w' = reloads w \<Longrightarrow> E e w'"
  shows "wp (system_call faults damage operation) Q E w"
proof (cases "operation (files w)")
  case (Inl e)
  with assms(2) [OF Inl] show ?thesis by (simp add: wp_def system_call_def Let_def)
next
  case (Inr r)
  obtain a fs where r: "r = (a, fs)" by (cases r)
  show ?thesis
  proof (cases "faults (calls w)")
    case None
    with Inr r assms(1) [of a fs] show ?thesis by (simp add: wp_def system_call_def Let_def)
  next
    case (Some f)
    obtain m left where "f = (m, left)" by (cases f)
    with Inr r Some assms(3) [of a fs "w\<lparr>calls := Suc (calls w), files := damage left (files w)\<rparr>" left "SystemError ''EIO'' m"]
    show ?thesis by (simp add: wp_def system_call_def Let_def)
  qed
qed

subsection \<open>Normal absolute paths\<close>

definition proper_segment :: "string \<Rightarrow> bool" where
  "proper_segment s = (s \<noteq> [] \<and> s \<noteq> ''.'' \<and> s \<noteq> ''..'' \<and> CHR ''/'' \<notin> set s)"

definition abs_path :: "string list \<Rightarrow> string" where
  "abs_path ss = concat (map (\<lambda>s. CHR ''/'' # s) ss)"

lemma abs_path_simps [simp]:
  "abs_path [] = []" "abs_path (s # ss) = CHR ''/'' # s @ abs_path ss" "abs_path (ss @ ts) = abs_path ss @ abs_path ts"
  by (simp_all add: abs_path_def)

lemma abs_path_join: "ss \<noteq> [] \<Longrightarrow> CHR ''/'' # join_with ''/'' ss = abs_path ss"
  by (induction ss rule: induct_list012) auto

lemma split_abs_path: "list_all proper_segment ss \<Longrightarrow> split_on (CHR ''/'') (abs_path ss) = [] # ss"
proof (induction ss)
  case (Cons s ss)
  then have "split_on (CHR ''/'') (s @ abs_path ss) = s # ss"
    by (cases ss) (simp_all add: split_on_no_sep split_on_append_sep proper_segment_def)
  then show ?case by simp
qed simp

lemma normalize_proper:
  "list_all proper_segment ss \<Longrightarrow> foldl (normalize_segment above_allowed) stack ss = stack @ ss"
  by (induction ss arbitrary: stack) (auto simp: normalize_segment_def proper_segment_def)

lemma normalize_segments_proper: "list_all proper_segment (normalize_segments False p)"
proof -
  have "list_all proper_segment stack \<Longrightarrow> \<forall>s \<in> set ss. CHR ''/'' \<notin> set s
      \<Longrightarrow> list_all proper_segment (foldl (normalize_segment False) stack ss)" for stack ss
  proof (induction ss arbitrary: stack)
    case (Cons s ss)
    have "list_all proper_segment (butlast stack)"
      using Cons.prems(1) by (auto simp: list_all_iff dest: in_set_butlastD)
    moreover have "s \<noteq> [] \<Longrightarrow> s \<noteq> ''.'' \<Longrightarrow> s \<noteq> ''..'' \<Longrightarrow> proper_segment s"
      using Cons.prems(2) by (simp add: proper_segment_def)
    ultimately have "list_all proper_segment (normalize_segment False stack s)"
      using Cons.prems(1) by (simp add: normalize_segment_def)
    with Cons show ?case by simp
  qed simp
  from this [of "[]"] show ?thesis by (simp add: normalize_segments_def split_on_segment_no_sep)
qed

lemma last_abs_path: "list_all proper_segment ss \<Longrightarrow> ss \<noteq> [] \<Longrightarrow> last (abs_path ss) \<noteq> CHR ''/''"
  by (induction ss rule: rev_induct) (auto simp: proper_segment_def dest: last_in_set)

lemma normalize_abs_path:
  assumes "list_all proper_segment ss" and "ss \<noteq> []"
  shows "normalize (abs_path ss) = abs_path ss" and "normalize (CHR ''/'' # abs_path ss) = abs_path ss"
proof -
  have "normalize_segments False (abs_path ss) = ss" "normalize_segments False (CHR ''/'' # abs_path ss) = ss"
    using assms(1) by (simp_all add: normalize_segments_def split_abs_path normalize_proper normalize_segment_def)
  moreover have "abs_path ss \<noteq> []" "hd (abs_path ss) = CHR ''/''"
    using assms(2) by (cases ss; simp)+
  ultimately show "normalize (abs_path ss) = abs_path ss" "normalize (CHR ''/'' # abs_path ss) = abs_path ss"
    using last_abs_path [OF assms] assms(2) by (simp_all add: normalize_def isAbsolute_def Let_def abs_path_join)
qed

lemma normal_absolute_path:
  assumes "isAbsolute p" and "p \<noteq> ''/''" and "normalize p = p"
  obtains ss where "list_all proper_segment ss" and "ss \<noteq> []"
    and "p = abs_path ss @ (if trailing_slash p then ''/'' else [])"
proof -
  define ss where "ss = normalize_segments False p"
  from assms have ne: "p \<noteq> []" by (auto simp: isAbsolute_def)
  with assms(1) have "normalize p = (if ss = [] then ''/'' else ''/'' @ join_with ''/'' ss @ (if last p = CHR ''/'' then ''/'' else []))"
    by (simp add: normalize_def Let_def ss_def)
  with assms(3) have p: "(if ss = [] then ''/'' else ''/'' @ join_with ''/'' ss @ (if last p = CHR ''/'' then ''/'' else [])) = p"
    by metis
  with assms(2) have "ss \<noteq> []" by metis
  moreover from this p have "p = abs_path ss @ (if last p = CHR ''/'' then ''/'' else [])"
    by (metis abs_path_join append_Cons append_Nil)
  ultimately show thesis
    using normalize_segments_proper [of p] that [of ss] ne by (simp add: ss_def trailing_slash_def)
qed

lemma strip_abs_path:
  assumes "list_all proper_segment ss" and "ss \<noteq> []" and "tr = [] \<or> tr = ''/''"
  shows "strip_slashes (abs_path ss @ tr) = abs_path ss"
proof -
  have "hd (rev (abs_path ss)) \<noteq> CHR ''/''" "rev (abs_path ss) \<noteq> []"
    using last_abs_path [OF assms(1,2)] assms(2) by (auto simp: hd_rev) (cases ss; simp)
  then have "dropWhile (\<lambda>c. c = CHR ''/'') (rev (abs_path ss)) = rev (abs_path ss)"
    by (cases "rev (abs_path ss)") auto
  with assms(3) show ?thesis by (auto simp: strip_slashes_def)
qed

lemma path_parts:
  assumes "list_all proper_segment ss" and "proper_segment b" and "tr = [] \<or> tr = ''/''"
  shows "basename (abs_path (ss @ [b]) @ tr) = b" and "dirname (abs_path (ss @ [b]) @ tr) = (if ss = [] then ''/'' else abs_path ss)"
proof -
  have "list_all proper_segment (ss @ [b])" "ss @ [b] \<noteq> []" using assms by simp_all
  then have strip: "strip_slashes (abs_path (ss @ [b]) @ tr) = abs_path (ss @ [b])"
    using assms(3) by (rule strip_abs_path)
  have b: "\<And>c. c \<in> set (rev b) \<Longrightarrow> c \<noteq> CHR ''/''" using assms(2) by (auto simp: proper_segment_def)
  have rev: "rev (abs_path (ss @ [b])) = rev b @ CHR ''/'' # rev (abs_path ss)" by simp
  have up: "dropWhile (\<lambda>c. c \<noteq> CHR ''/'') (rev b @ CHR ''/'' # rev (abs_path ss)) = CHR ''/'' # rev (abs_path ss)"
    by (subst dropWhile_append2) (use b in auto)
  have down: "takeWhile (\<lambda>c. c \<noteq> CHR ''/'') (rev b @ CHR ''/'' # rev (abs_path ss)) = rev b"
    by (subst takeWhile_append2) (use b in auto)
  show "basename (abs_path (ss @ [b]) @ tr) = b"
    unfolding basename_def strip rev down by simp
  show "dirname (abs_path (ss @ [b]) @ tr) = (if ss = [] then ''/'' else abs_path ss)"
    unfolding dirname_def strip rev up by (cases "abs_path ss") (auto simp: Let_def butlast_append abs_path_def)
qed

lemma join_abs_path:
  assumes "list_all proper_segment ss" and "proper_segment b"
  shows "join_path (if ss = [] then ''/'' else abs_path ss) b = abs_path (ss @ [b])"
  using normalize_abs_path [of "ss @ [b]"] assms by (cases ss) (simp_all add: join_path_def)

end
