(* ===== verification/NginxInstall.thy ===== *)
theory NginxInstall
  imports FileSystem SeccompProfile
begin

text \<open>
  \<open>scripts/install-nginx-config.mjs\<close>: putting a rendered nginx configuration in place, with
  a lock against a second deployment and a rollback when nginx refuses it. The commands run are
  an argument: \<open>execute command args w\<close> is \<open>None\<close>, or the message of the error.
\<close>

type_synonym executor = "string \<Rightarrow> string list \<Rightarrow> world \<Rightarrow> string option"

definition run_command :: "executor \<Rightarrow> string \<Rightarrow> string list \<Rightarrow> unit io" where
  "run_command execute command args w =
     (let w' = w\<lparr>calls := Suc (calls w)\<rparr> in
      case execute command args w of Some m \<Rightarrow> (Inl (InstallError m), w') | None \<Rightarrow> (Inr (), w'))"

text \<open>A successful reload is remembered with the files nginx was reloaded with.\<close>

definition reload_nginx :: "executor \<Rightarrow> unit io" where
  "reload_nginx execute =
     io_bind (run_command execute ''systemctl'' [''reload'', ''nginx''])
       (\<lambda>_ w. (Inr (), w\<lparr>reloads := files w # reloads w\<rparr>))"

definition validateAndReload :: "executor \<Rightarrow> unit io" where
  "validateAndReload execute =
     io_bind (run_command execute ''nginx'' [''-t'']) (\<lambda>_.
     io_bind (reload_nginx execute) (\<lambda>_.
     run_command execute ''systemctl'' [''is-active'', ''--quiet'', ''nginx'']))"

definition DEFAULT_TARGET :: string where "DEFAULT_TARGET = ''/etc/nginx/conf.d/fireball.conf''"

definition is_regular :: "node \<Rightarrow> bool" where
  "is_regular n = (case n of RegularFile _ _ \<Rightarrow> True | _ \<Rightarrow> False)"

definition validateCandidate :: "faults \<Rightarrow> string \<Rightarrow> string \<Rightarrow> string io" where
  "validateCandidate faults cwd value =
     io_bind (io_unless (trim value \<noteq> []) (InstallError ''candidate path is required'')) (\<lambda>_.
     let candidate = resolve_path cwd value in
     io_bind (lstatSync faults candidate) (\<lambda>metadata.
     io_bind (io_unless (is_regular metadata) (InstallError ''candidate must be a regular file'')) (\<lambda>_.
     io_return candidate)))"

definition safe_target :: "string \<Rightarrow> bool" where
  "safe_target value = (isAbsolute value \<and> value \<noteq> ''/'' \<and> normalize value = value \<and> is_plain_absolute_path value
     \<and> basename value \<noteq> ''.'' \<and> basename value \<noteq> ''..'')"

definition validateTarget :: "string \<Rightarrow> string io" where
  "validateTarget value =
     io_bind (io_unless (safe_target value) (InstallError ''nginx target must be a safe absolute path''))
       (\<lambda>_. io_return value)"

text \<open>\<open>lockPath.slice(0, -5)\<close> is the target.\<close>

definition acquireDeploymentLock :: "faults \<Rightarrow> string \<Rightarrow> unit io" where
  "acquireDeploymentLock faults lockPath =
     io_then (mkdirSync faults lockPath) io_return
       (\<lambda>error. io_throw
          (case error of
             SystemError c _ \<Rightarrow>
               if c = ''EEXIST''
               then InstallError (''nginx deployment already in progress for '' @ take (length lockPath - 5) lockPath)
               else error
           | InstallError _ \<Rightarrow> error))"

definition unlink_existing :: "faults \<Rightarrow> string \<Rightarrow> unit io" where
  "unlink_existing faults p = io_bind (existsSync p) (\<lambda>there. if there then unlinkSync faults p else io_return ())"

definition cleanupTransaction :: "faults \<Rightarrow> string \<Rightarrow> string \<Rightarrow> string \<Rightarrow> unit io" where
  "cleanupTransaction faults transactionDirectory backupPath stagedPath =
     io_bind (unlink_existing faults backupPath) (\<lambda>_.
     io_bind (unlink_existing faults stagedPath) (\<lambda>_.
     rmdirSync faults transactionDirectory))"

text \<open>The part of the transaction before the target changes; it yields the previous mode.\<close>

definition node_mode :: "node \<Rightarrow> 32 word" where
  "node_mode n = (case n of RegularFile _ m \<Rightarrow> m | _ \<Rightarrow> 0)"

definition back_up :: "faults \<Rightarrow> string \<Rightarrow> string \<Rightarrow> 32 word io" where
  "back_up faults target backupPath =
     io_bind (lstatSync faults target) (\<lambda>metadata.
     io_bind (io_unless (is_regular metadata) (InstallError ''nginx target must be a regular file when it exists'')) (\<lambda>_.
     io_bind (copyFileSync faults target backupPath) (\<lambda>_.
     io_return (node_mode metadata AND 0x1FF))))"

definition stage :: "faults \<Rightarrow> bool \<Rightarrow> string \<Rightarrow> string \<Rightarrow> string \<Rightarrow> string \<Rightarrow> 32 word io" where
  "stage faults hadPrevious candidate target stagedPath backupPath =
     io_bind (if hadPrevious then back_up faults target backupPath else io_return 0x1A4) (\<lambda>previousMode.
     io_bind (copyFileSync faults candidate stagedPath) (\<lambda>_.
     io_bind (chmodSync faults stagedPath 0x1A4) (\<lambda>_.
     io_bind (renameSync faults stagedPath target) (\<lambda>_.
     io_return previousMode))))"

definition restore :: "faults \<Rightarrow> bool \<Rightarrow> 32 word \<Rightarrow> string \<Rightarrow> string \<Rightarrow> unit io" where
  "restore faults hadPrevious previousMode target backupPath =
     (if hadPrevious
      then io_bind (copyFileSync faults backupPath target) (\<lambda>_. chmodSync faults target previousMode)
      else unlink_existing faults target)"

definition installNginxConfigLocked ::
  "faults \<Rightarrow> executor \<Rightarrow> string \<Rightarrow> string \<Rightarrow> string \<Rightarrow> (string \<times> bool) io" where
  "installNginxConfigLocked faults execute random candidate target =
     io_bind (mkdtempSync faults random (join_path (dirname target) (''.'' @ basename target @ ''.txn-''))) (\<lambda>transactionDirectory.
     let stagedPath = join_path transactionDirectory ''candidate'';
         backupPath = join_path transactionDirectory ''previous'' in
     io_bind (existsSync target) (\<lambda>hadPrevious.
     io_then (stage faults hadPrevious candidate target stagedPath backupPath)
       (\<lambda>previousMode.
          io_then
            (io_bind (validateAndReload execute) (\<lambda>_.
             cleanupTransaction faults transactionDirectory backupPath stagedPath))
            (\<lambda>_. io_return (target, hadPrevious))
            (\<lambda>error.
               io_then
                 (io_bind (restore faults hadPrevious previousMode target backupPath) (\<lambda>_.
                  io_bind (validateAndReload execute) (\<lambda>_.
                  cleanupTransaction faults transactionDirectory backupPath stagedPath)))
                 (\<lambda>_. io_throw (InstallError (io_message error @ ''; nginx target restored to its previous state'')))
                 (\<lambda>rollbackError. io_throw (InstallError
                    (io_message error @ ''; nginx rollback incomplete: '' @ io_message rollbackError
                     @ ''; recovery files kept at '' @ transactionDirectory)))))
       (\<lambda>error. io_bind (cleanupTransaction faults transactionDirectory backupPath stagedPath) (\<lambda>_. io_throw error))))"

definition installNginxConfig ::
  "faults \<Rightarrow> executor \<Rightarrow> string \<Rightarrow> string \<Rightarrow> string \<Rightarrow> string \<Rightarrow> (string \<times> bool) io" where
  "installNginxConfig faults execute random cwd candidatePath targetPath =
     io_bind (validateCandidate faults cwd candidatePath) (\<lambda>candidate.
     io_bind (validateTarget targetPath) (\<lambda>target.
     io_bind (io_unless (resolve_path cwd candidate \<noteq> resolve_path cwd target)
       (InstallError ''candidate and target paths must differ'')) (\<lambda>_.
     let lockPath = target @ ''.lock'' in
     io_bind (acquireDeploymentLock faults lockPath) (\<lambda>_.
     io_finally (installNginxConfigLocked faults execute random candidate target)
       (rmdirSync faults lockPath)))))"

end
