(* ===== verification/NginxProperties.thy ===== *)
theory NginxProperties
  imports NginxInstall
begin

text \<open>
  The installation of an nginx configuration is a transaction, whatever call fails and whatever
  nginx answers: the weakest precondition of each part, and what the whole leaves behind.
\<close>

subsection \<open>The paths of a transaction\<close>

definition txn_path :: "string \<Rightarrow> string \<Rightarrow> string" where
  "txn_path random target = join_path (dirname target) (''.'' @ basename target @ ''.txn-'') @ random"

definition staged_path :: "string \<Rightarrow> string \<Rightarrow> string" where
  "staged_path random target = txn_path random target @ ''/candidate''"

definition backup_path :: "string \<Rightarrow> string \<Rightarrow> string" where
  "backup_path random target = txn_path random target @ ''/previous''"

lemma transaction_paths:
  assumes "safe_target t" and "CHR ''/'' \<notin> set r" and "length r = 6"
  shows "join_path (txn_path r t) ''candidate'' = staged_path r t"
    and "join_path (txn_path r t) ''previous'' = backup_path r t"
    and "distinct [t, t @ ''.lock'', txn_path r t, staged_path r t, backup_path r t]"
    and "\<not> trailing_slash (staged_path r t)" and "\<not> trailing_slash (backup_path r t)"
proof -
  obtain us where us: "list_all proper_segment us" "us \<noteq> []"
    and tu: "t = abs_path us @ (if trailing_slash t then ''/'' else [])"
    using assms(1) normal_absolute_path [of t] by (auto simp: safe_target_def)
  define ss b tr where "ss = butlast us" and "b = last us" and "tr = (if trailing_slash t then ''/'' else ([] :: string))"
  have u: "us = ss @ [b]" using us(2) by (simp add: ss_def b_def)
  have ss: "list_all proper_segment ss" and b: "proper_segment b" using us(1) u by simp_all
  have tr: "tr = [] \<or> tr = ''/''" by (simp add: tr_def)
  have t: "t = abs_path (ss @ [b]) @ tr" using tu u by (simp add: tr_def)
  define x where "x = ''.'' @ b @ ''.txn-''"
  have x: "proper_segment x" "proper_segment (x @ r)"
    using b assms(2) by (auto simp: x_def proper_segment_def)
  have "join_path (dirname t) x = abs_path (ss @ [x])"
    unfolding t path_parts(2) [OF ss b tr] by (rule join_abs_path [OF ss x(1)])
  then have txn: "txn_path r t = abs_path (ss @ [x @ r])"
    unfolding txn_path_def t path_parts(1) [OF ss b tr] by (simp add: x_def)
  have sub: "join_path (txn_path r t) s = txn_path r t @ ''/'' @ s" if "proper_segment s" for s
    using join_abs_path [of "ss @ [x @ r]" s] ss x that unfolding txn by (auto split: if_splits)
  show "join_path (txn_path r t) ''candidate'' = staged_path r t" "join_path (txn_path r t) ''previous'' = backup_path r t"
    using sub [of "''candidate''"] sub [of "''previous''"] by (simp_all add: staged_path_def backup_path_def proper_segment_def)
  have "length (txn_path r t) = length (abs_path ss) + length b + 13"
    unfolding txn by (simp add: x_def assms(3))
  moreover have "length t \<le> length (abs_path ss) + length b + 2" unfolding t using tr by auto
  ultimately have len: "length t + 11 \<le> length (txn_path r t)" by simp
  have ne: "p \<noteq> q" if "length p < length q" for p q :: string using that by auto
  show "distinct [t, t @ ''.lock'', txn_path r t, staged_path r t, backup_path r t]"
    using len by (auto simp: staged_path_def backup_path_def dest!: arg_cong [where f = length])
  show "\<not> trailing_slash (staged_path r t)" "\<not> trailing_slash (backup_path r t)"
    by (simp_all add: staged_path_def backup_path_def trailing_slash_def)
qed

subsection \<open>Weakest preconditions of the calls\<close>

lemma node_at_Some: "node_at fs p = Some n \<Longrightarrow> n \<noteq> Directory \<Longrightarrow> \<not> trailing_slash p \<and> jm_get fs p = Some n"
  by (auto simp: node_at_def split: if_splits)

lemma node_at_plain: "\<not> trailing_slash p \<Longrightarrow> node_at fs p = jm_get fs p"
  by (simp add: node_at_def)

definition file_or_none :: "node option \<Rightarrow> bool" where
  "file_or_none n = (case n of None \<Rightarrow> True | Some (RegularFile _ _) \<Rightarrow> True | _ \<Rightarrow> False)"

lemma file_or_none_simps [simp]:
  "file_or_none None" "file_or_none (Some (RegularFile c m))" "\<not> file_or_none (Some (SymbolicLink b))"
  by (simp_all add: file_or_none_def)

lemma get_torn_copy: "jm_get (torn_copy p left fs) q = (if q = p then map_option (\<lambda>(c, m). RegularFile c m) left else jm_get fs q)"
  by (cases left) (auto simp: torn_copy_def)

lemma get_torn_other: "q \<noteq> p \<Longrightarrow> jm_get (torn_copy p left fs) q = jm_get fs q"
  by (simp add: get_torn_copy)

lemma torn_elsewhere: "jm_get (torn_copy p left fs) q \<noteq> jm_get fs q \<Longrightarrow> q = p"
  using get_torn_other by blast

lemma file_or_none_torn: "file_or_none (jm_get (torn_copy p left fs) p)"
  by (cases left) (auto simp: torn_copy_def)

lemma wp_lstat:
  assumes "\<And>n w'. node_at (files w) p = Some n \<Longrightarrow> files w' = files w \<Longrightarrow> reloads w' = reloads w \<Longrightarrow> Q n w'"
    and "\<And>e w'. files w' = files w \<Longrightarrow> reloads w' = reloads w \<Longrightarrow> E e w'"
  shows "wp (lstatSync faults p) Q E w"
  unfolding lstatSync_def
  by (rule wp_system_call) (auto simp: no_damage_def intro!: assms split: option.splits)

lemma wp_copy:
  assumes "\<And>c m w'. node_at (files w) s = Some (RegularFile c m) \<Longrightarrow> \<not> trailing_slash d
      \<Longrightarrow> files w' = jm_set d (RegularFile c m) (files w) \<Longrightarrow> reloads w' = reloads w \<Longrightarrow> Q () w'"
    and "\<And>e left w'. files w' = files w \<or> files w' = torn_copy d left (files w) \<and> node_at (files w) s \<noteq> None
      \<Longrightarrow> reloads w' = reloads w \<Longrightarrow> E e w'"
  shows "wp (copyFileSync faults s d) Q E w"
  unfolding copyFileSync_def
  by (rule wp_system_call) (auto intro: assms split: option.splits node.splits if_splits)

lemma wp_chmod:
  assumes "\<And>c m' w'. node_at (files w) p = Some (RegularFile c m') \<Longrightarrow> files w' = jm_set p (RegularFile c m) (files w)
      \<Longrightarrow> reloads w' = reloads w \<Longrightarrow> Q () w'"
    and "\<And>e w'. files w' = files w \<Longrightarrow> reloads w' = reloads w \<Longrightarrow> E e w'"
    and "\<exists>c m'. node_at (files w) p = Some (RegularFile c m')"
  shows "wp (chmodSync faults p m) Q E w"
  unfolding chmodSync_def
  by (rule wp_system_call) (use assms(3) in \<open>auto simp: no_damage_def intro: assms(1,2)\<close>)

lemma wp_rename:
  assumes "\<And>n w'. node_at (files w) s = Some n \<Longrightarrow> \<not> trailing_slash d \<Longrightarrow> jm_get (files w) d \<noteq> Some Directory
      \<Longrightarrow> files w' = jm_set d n (jm_delete s (files w)) \<Longrightarrow> reloads w' = reloads w \<Longrightarrow> Q () w'"
    and "\<And>e w'. files w' = files w \<Longrightarrow> reloads w' = reloads w \<Longrightarrow> E e w'"
  shows "wp (renameSync faults s d) Q E w"
  unfolding renameSync_def
  by (rule wp_system_call) (auto simp: no_damage_def intro: assms split: option.splits if_splits)

lemma wp_unlink_existing:
  assumes "\<And>w'. jm_get (files w') p = None \<or> node_at (files w) p = Some (SymbolicLink False) \<or> trailing_slash p
      \<Longrightarrow> files w' = files w \<or> files w' = jm_delete p (files w) \<Longrightarrow> reloads w' = reloads w \<Longrightarrow> Q () w'"
    and "\<And>e w'. files w' = files w \<Longrightarrow> reloads w' = reloads w \<Longrightarrow> E e w'"
  shows "wp (unlink_existing faults p) Q E w"
proof (cases "node_at (files w) p = None \<or> node_at (files w) p = Some (SymbolicLink False)")
  case True
  then show ?thesis using assms(1) [of w]
    by (auto simp: unlink_existing_def wp_simps node_at_def split: if_splits)
next
  case False
  have "\<And>w'. files w' = jm_delete p (files w) \<Longrightarrow> reloads w' = reloads w \<Longrightarrow> Q () w'"
    by (rule assms(1)) auto
  then have "wp (unlinkSync faults p) Q E w"
    unfolding unlinkSync_def
    by (intro wp_system_call) (auto simp: no_damage_def intro: assms(2) split: option.splits node.splits)
  with False show ?thesis
    by (auto simp: unlink_existing_def wp_simps split: option.splits node.splits)
qed

lemma wp_rmdir:
  assumes "\<And>w'. files w' = jm_delete p (files w) \<Longrightarrow> reloads w' = reloads w \<Longrightarrow> Q () w'"
    and "\<And>e w'. files w' = files w \<Longrightarrow> reloads w' = reloads w \<Longrightarrow> E e w'"
  shows "wp (rmdirSync faults p) Q E w"
  unfolding rmdirSync_def
  by (rule wp_system_call) (auto simp: no_damage_def intro: assms split: option.splits node.splits if_splits)

lemma wp_run:
  assumes "\<And>w'. files w' = files w \<Longrightarrow> reloads w' = reloads w \<Longrightarrow> Q () w'"
    and "\<And>e w'. files w' = files w \<Longrightarrow> reloads w' = reloads w \<Longrightarrow> E e w'"
  shows "wp (run_command execute c args) Q E w"
  by (auto simp: wp_def run_command_def Let_def intro: assms split: option.splits)

lemma wp_mkdtemp:
  assumes "\<And>w'. jm_get (files w) (pre @ r) = None \<Longrightarrow> files w' = jm_set (pre @ r) Directory (files w)
      \<Longrightarrow> reloads w' = reloads w \<Longrightarrow> Q (pre @ r) w'"
    and "\<And>e w'. files w' = files w \<Longrightarrow> reloads w' = reloads w \<Longrightarrow> E e w'"
  shows "wp (mkdtempSync faults r pre) Q E w"
  unfolding mkdtempSync_def
  by (rule wp_system_call) (auto simp: no_damage_def intro: assms split: if_splits)

lemma wp_step: "wp (\<lambda>w. (Inr a, f w)) Q E w = Q a (f w)"
  by (simp add: wp_def)

lemma wp_reload:
  assumes "\<And>w'. files w' = files w \<Longrightarrow> reloads w' = files w # reloads w \<Longrightarrow> Q () w'"
    and "\<And>e w'. files w' = files w \<Longrightarrow> E e w'"
  shows "wp (validateAndReload execute) Q E w"
  unfolding validateAndReload_def reload_nginx_def wp_bind wp_step
  by (intro wp_run) (auto intro: assms)

subsection \<open>Weakest preconditions of the parts\<close>

definition same_files :: "files \<Rightarrow> string set \<Rightarrow> world \<Rightarrow> bool" where
  "same_files fs ps w = (\<forall>p \<in> ps. jm_get (files w) p = jm_get fs p)"

lemma wp_cleanup:
  assumes plain: "\<not> trailing_slash b" "\<not> trailing_slash s"
    and nodes: "file_or_none (jm_get (files w) b)" "file_or_none (jm_get (files w) s)"
    and ok: "\<And>w'. same_files (files w) (- {x, b, s}) w' \<Longrightarrow> jm_get (files w') x = None \<Longrightarrow> jm_get (files w') b = None
      \<Longrightarrow> jm_get (files w') s = None \<Longrightarrow> reloads w' = reloads w \<Longrightarrow> Q () w'"
    and err: "\<And>e w'. same_files (files w) (- {x, b, s}) w' \<Longrightarrow> jm_get (files w') b \<in> {None, jm_get (files w) b}
      \<Longrightarrow> jm_get (files w') s \<in> {None, jm_get (files w) s} \<Longrightarrow> reloads w' = reloads w \<Longrightarrow> E e w'"
  shows "wp (cleanupTransaction faults x b s) Q E w"
  unfolding cleanupTransaction_def wp_bind
proof (rule wp_unlink_existing, goal_cases)
  case (1 w1)
  then have b: "jm_get (files w1) b = None" using plain nodes by (auto simp: node_at_plain)
  have same1: "same_files (files w) (- {x, b, s}) w1" using 1 by (auto simp: same_files_def)
  have s1: "file_or_none (jm_get (files w1) s)" using 1 nodes by (auto split: if_splits)
  have s1': "jm_get (files w1) s \<in> {None, jm_get (files w) s}" using 1 by auto
  show ?case
  proof (rule wp_unlink_existing, goal_cases)
    case (1 w2)
    then have gone: "jm_get (files w2) s = None" "jm_get (files w2) b = None"
      using plain s1 b by (auto simp: node_at_plain)
    moreover have "same_files (files w) (- {x, b, s}) w2" using 1 same1 by (auto simp: same_files_def split: if_splits)
    ultimately show ?case
      using 1 \<open>reloads w1 = reloads w\<close> by (intro wp_rmdir ok err) (auto simp: same_files_def)
  next
    case (2 e w2)
    with same1 b s1' \<open>reloads w1 = reloads w\<close> show ?case by (intro err) (auto simp: same_files_def)
  qed
next
  case (2 e w1)
  then show ?case by (intro err) (auto simp: same_files_def)
qed

text \<open>What a backup must hold, and with which mode it comes back.\<close>

definition backed_up :: "bool \<Rightarrow> node option \<Rightarrow> node option \<Rightarrow> 32 word \<Rightarrow> bool" where
  "backed_up had previous backup pm =
     (if had then backup = previous \<and> (\<exists>c m. previous = Some (RegularFile c m) \<and> pm = m AND 0x1FF)
      else backup = None)"

lemma wp_back_up:
  assumes plain: "\<not> trailing_slash b" and none: "jm_get (files w) b = None" and ne: "b \<noteq> t"
    and ok: "\<And>pm w'. same_files (files w) (- {b}) w' \<Longrightarrow> backed_up True (jm_get (files w) t) (jm_get (files w') b) pm
      \<Longrightarrow> reloads w' = reloads w \<Longrightarrow> Q pm w'"
    and err: "\<And>e w'. same_files (files w) (- {b}) w' \<Longrightarrow> file_or_none (jm_get (files w') b) \<Longrightarrow> reloads w' = reloads w \<Longrightarrow> E e w'"
  shows "wp (back_up faults t b) Q E w"
  unfolding back_up_def wp_bind
proof (rule wp_lstat, goal_cases)
  case (1 n w1)
  have "wp (copyFileSync faults t b) (\<lambda>_. Q (node_mode n AND 0x1FF)) E w1" if "is_regular n"
  proof (rule wp_copy, goal_cases)
    case (1 c m w2)
    with \<open>node_at (files w) t = Some n\<close> \<open>files w1 = files w\<close> have n: "n = RegularFile c m" by simp
    then have "jm_get (files w) t = Some (RegularFile c m)"
      using \<open>node_at (files w) t = Some n\<close> node_at_Some by blast
    with 1 n \<open>files w1 = files w\<close> \<open>reloads w1 = reloads w\<close> show ?case
      by (intro ok) (auto simp: same_files_def backed_up_def node_mode_def)
  next
    case (2 e left w2)
    with \<open>files w1 = files w\<close> \<open>reloads w1 = reloads w\<close> none show ?case
      by (intro err) (auto simp: same_files_def file_or_none_torn get_torn_other split: if_splits dest: torn_elsewhere)
  qed
  with 1 none show ?case
    by (auto simp: wp_simps intro!: err simp: same_files_def)
next
  case (2 e w1)
  with none show ?case by (intro err) (auto simp: same_files_def)
qed


text \<open>Before the rename the target is untouched; after it the target is the candidate.\<close>

definition installed :: "string \<Rightarrow> node option" where
  "installed new = Some (RegularFile new 0x1A4)"

lemma wp_stage_rest:
  assumes plain: "\<not> trailing_slash s" and ne: "distinct [t, s, c]" and none: "jm_get (files w) s = None"
    and cand: "node_at (files w) c = Some (RegularFile new m)"
    and ok: "\<And>w'. same_files (files w) (- {t, s}) w' \<Longrightarrow> jm_get (files w') t = installed new \<Longrightarrow> jm_get (files w') s = None
      \<Longrightarrow> \<not> trailing_slash t \<Longrightarrow> jm_get (files w) t \<noteq> Some Directory \<Longrightarrow> reloads w' = reloads w \<Longrightarrow> Q pm w'"
    and err: "\<And>e w'. same_files (files w) (- {s}) w' \<Longrightarrow> file_or_none (jm_get (files w') s) \<Longrightarrow> reloads w' = reloads w \<Longrightarrow> E e w'"
  shows "wp (io_bind (copyFileSync faults c s) (\<lambda>_. io_bind (chmodSync faults s 0x1A4) (\<lambda>_.
      io_bind (renameSync faults s t) (\<lambda>_. io_return pm)))) Q E w"
  unfolding wp_bind wp_return
proof (rule wp_copy, goal_cases)
  case (1 c' m' w1)
  with cand have f1: "files w1 = jm_set s (RegularFile new m) (files w)" by simp
  have s1: "node_at (files w1) s = Some (RegularFile new m)" using plain f1 by (simp add: node_at_plain)
  show ?case
  proof (rule wp_chmod, goal_cases)
    case (1 c2 m2 w2)
    with s1 have f2: "files w2 = jm_set s (RegularFile new 0x1A4) (files w1)" by simp
    show ?case
    proof (rule wp_rename, goal_cases)
      case (1 n w3)
      with f2 plain have "n = RegularFile new 0x1A4" by (simp add: node_at_plain)
      with 1 f1 f2 ne \<open>reloads w1 = reloads w\<close> \<open>reloads w2 = reloads w1\<close> show ?case
        by (intro ok) (auto simp: same_files_def installed_def)
    next
      case (2 e w3)
      with f1 f2 \<open>reloads w1 = reloads w\<close> \<open>reloads w2 = reloads w1\<close> show ?case
        by (intro err) (auto simp: same_files_def)
    qed
  next
    case (2 e w2)
    with f1 \<open>reloads w1 = reloads w\<close> show ?case by (intro err) (auto simp: same_files_def)
  next
    case 3
    with s1 show ?case by blast
  qed
next
  case (2 e left w1)
  with none show ?case
    by (intro err) (auto simp: same_files_def file_or_none_torn dest: torn_elsewhere)
qed

definition exists_at :: "files \<Rightarrow> string \<Rightarrow> bool" where
  "exists_at fs p = (case node_at fs p of None \<Rightarrow> False | Some (SymbolicLink resolves) \<Rightarrow> resolves | Some _ \<Rightarrow> True)"

lemma wp_stage:
  assumes plain: "\<not> trailing_slash s" "\<not> trailing_slash b" and ne: "distinct [t, s, b, c]"
    and none: "jm_get (files w) s = None" "jm_get (files w) b = None"
    and cand: "jm_get (files w) c = Some (RegularFile new m)" "\<not> trailing_slash c"
    and ok: "\<And>pm w'. same_files (files w) (- {t, s, b}) w' \<Longrightarrow> jm_get (files w') t = installed new \<Longrightarrow> jm_get (files w') s = None
      \<Longrightarrow> \<not> trailing_slash t \<Longrightarrow> jm_get (files w) t \<noteq> Some Directory
      \<Longrightarrow> backed_up had (jm_get (files w) t) (jm_get (files w') b) pm \<Longrightarrow> reloads w' = reloads w \<Longrightarrow> Q pm w'"
    and err: "\<And>e w'. same_files (files w) (- {s, b}) w' \<Longrightarrow> file_or_none (jm_get (files w') s)
      \<Longrightarrow> file_or_none (jm_get (files w') b) \<Longrightarrow> reloads w' = reloads w \<Longrightarrow> E e w'"
  shows "wp (stage faults had c t s b) Q E w"
proof (cases had)
  case True
  show ?thesis unfolding stage_def if_P [OF True]
  proof (subst wp_bind, rule wp_back_up, goal_cases)
    case (4 pm w1)
    then have same: "\<And>p. p \<noteq> b \<Longrightarrow> jm_get (files w1) p = jm_get (files w) p" by (auto simp: same_files_def)
    show ?case
    proof (rule wp_stage_rest [where new = new and m = m], goal_cases)
      case (5 w2)
      with 4 True ne show ?case by (intro ok) (auto simp: same_files_def)
    next
      case (6 e w2)
      with 4 ne show ?case by (intro err) (auto simp: same_files_def backed_up_def)
    qed (use ne none cand same plain in \<open>auto simp: node_at_plain\<close>)
  next
    case (5 e w1)
    with none ne show ?case by (intro err) (auto simp: same_files_def)
  qed (use plain none ne in auto)
next
  case False
  show ?thesis unfolding stage_def if_not_P [OF False]
  proof (subst wp_bind, subst wp_return, rule wp_stage_rest [where new = new and m = m], goal_cases)
    case (5 w2)
    with False none ne show ?case by (intro ok) (auto simp: same_files_def backed_up_def)
  next
    case (6 e w2)
    with none ne show ?case by (intro err) (auto simp: same_files_def)
  qed (use ne none cand plain in \<open>auto simp: node_at_plain\<close>)
qed

definition restored :: "node option \<Rightarrow> node option" where
  "restored previous = (case previous of Some (RegularFile c m) \<Rightarrow> Some (RegularFile c (m AND 0x1FF)) | _ \<Rightarrow> None)"

lemma wp_restore:
  assumes plain: "\<not> trailing_slash t" and ne: "b \<noteq> t" and old: "file_or_none old" "had = (old \<noteq> None)"
    and backup: "backed_up had old (jm_get (files w) b) pm" and target: "file_or_none (jm_get (files w) t)"
    and ok: "\<And>w'. same_files (files w) (- {t}) w' \<Longrightarrow> jm_get (files w') t = restored old \<Longrightarrow> reloads w' = reloads w \<Longrightarrow> Q () w'"
    and err: "\<And>e w'. same_files (files w) (- {t}) w' \<Longrightarrow> reloads w' = reloads w \<Longrightarrow> E e w'"
  shows "wp (restore faults had pm t b) Q E w"
proof (cases had)
  case True
  with backup obtain c m where b: "jm_get (files w) b = Some (RegularFile c m)" "old = Some (RegularFile c m)" "pm = m AND 0x1FF"
    by (auto simp: backed_up_def)
  show ?thesis unfolding restore_def if_P [OF True] wp_bind
  proof (rule wp_copy, goal_cases)
    case (1 c' m' w1)
    then have "RegularFile c' m' = RegularFile c m" using b node_at_Some by fastforce
    with 1 have f1: "files w1 = jm_set t (RegularFile c m) (files w)" by simp
    show ?case
    proof (rule wp_chmod, goal_cases)
      case (1 c2 m2 w2)
      with f1 plain have "c2 = c" by (simp add: node_at_plain)
      with 1 f1 b \<open>reloads w1 = reloads w\<close> show ?case
        by (intro ok) (auto simp: same_files_def restored_def)
    next
      case (2 e w2)
      with f1 \<open>reloads w1 = reloads w\<close> show ?case by (intro err) (auto simp: same_files_def)
    next
      case 3
      with f1 plain show ?case by (simp add: node_at_plain)
    qed
  next
    case (2 e left w1)
    then show ?case by (intro err) (auto simp: same_files_def dest: torn_elsewhere)
  qed
next
  case False
  show ?thesis unfolding restore_def if_not_P [OF False]
    by (rule wp_unlink_existing; (rule ok err)?)
      (use False old plain target in \<open>auto simp: same_files_def restored_def node_at_plain split: if_splits\<close>)
qed


subsection \<open>The transaction\<close>

text \<open>\<open>running w t n\<close>: nginx was last reloaded when the node \<open>n\<close> was at \<open>t\<close>.\<close>

definition running :: "world \<Rightarrow> string \<Rightarrow> node option \<Rightarrow> bool" where
  "running w t n = (case reloads w of [] \<Rightarrow> False | fs # _ \<Rightarrow> jm_get fs t = n)"

definition said :: "io_error \<Rightarrow> string \<Rightarrow> bool" where
  "said e text' = (\<exists>m. e = InstallError (m @ text'))"

text \<open>How the target and the backup may be left when the installation fails.\<close>

definition left_safe :: "node option \<Rightarrow> string \<Rightarrow> string \<Rightarrow> string \<Rightarrow> io_error \<Rightarrow> world \<Rightarrow> bool" where
  "left_safe old new r t e w =
     (jm_get (files w) t = old
      \<or> jm_get (files w) t = restored old \<and> running w t (restored old)
          \<and> said e ''; nginx target restored to its previous state''
      \<or> said e (''; recovery files kept at '' @ txn_path r t)
          \<and> (jm_get (files w) (backup_path r t) = old
             \<or> jm_get (files w) t = restored old \<and> running w t (restored old)
             \<or> jm_get (files w) t = installed new \<and> running w t (installed new)))"

lemma wp_roll_back:
  assumes plain: "\<not> trailing_slash t" "\<not> trailing_slash b" "\<not> trailing_slash s" and ne: "distinct [t, x, s, b]"
    and old: "file_or_none old" "had = (old \<noteq> None)"
    and backup: "backed_up had old (jm_get (files w) b) pm" and target: "file_or_none (jm_get (files w) t)"
    and staged: "jm_get (files w) s = None"
    and ok: "\<And>w'. same_files (files w) (- {t, x, s, b}) w' \<Longrightarrow> jm_get (files w') t = restored old \<Longrightarrow> running w' t (restored old) \<Longrightarrow> Q () w'"
    and err: "\<And>e w'. same_files (files w) (- {t, x, s, b}) w' \<Longrightarrow> jm_get (files w') b = old
        \<or> jm_get (files w') t = restored old \<and> running w' t (restored old) \<Longrightarrow> E e w'"
  shows "wp (io_bind (restore faults had pm t b) (\<lambda>_. io_bind (validateAndReload execute) (\<lambda>_.
      cleanupTransaction faults x b s))) Q E w"
proof -
  have b: "jm_get (files w) b = old" "file_or_none (jm_get (files w) b)"
    using backup old by (auto simp: backed_up_def split: if_splits)
  show ?thesis unfolding wp_bind
  proof (rule wp_restore [where old = old], goal_cases)
    case (7 w1)
    then have f1: "same_files (files w) (- {t}) w1" "jm_get (files w1) t = restored old" by simp_all
    show ?case
    proof (rule wp_reload, goal_cases)
      case (1 w2)
      then have run2: "running w2 t (restored old)" using f1 by (simp add: running_def)
      show ?case
      proof (rule wp_cleanup, goal_cases)
        case (5 w3)
        with 1 f1 run2 ne show ?case by (intro ok) (auto simp: same_files_def running_def)
      next
        case (6 e w3)
        with 1 f1 run2 ne show ?case by (intro err) (auto simp: same_files_def running_def)
      qed (use plain 1 f1 b staged ne in \<open>auto simp: same_files_def\<close>)
    next
      case (2 e w2)
      with f1 b ne show ?case by (intro err) (auto simp: same_files_def)
    qed
  next
    case (8 e w1)
    with b ne show ?case by (intro err) (auto simp: same_files_def)
  qed (use plain ne old backup target in auto)
qed

lemma wp_lost_backup:
  assumes "\<not> trailing_slash b" and "jm_get (files w) b = None" and "had"
    and err: "\<And>e w'. files w' = files w \<Longrightarrow> reloads w' = reloads w \<Longrightarrow> E e w'"
  shows "wp (io_bind (restore faults had pm t b) f) Q E w"
  using assms by (auto simp: wp_simps restore_def node_at_plain intro!: wp_copy err)

lemma wp_after_failure:
  assumes plain: "\<not> trailing_slash t" "\<not> trailing_slash b" "\<not> trailing_slash s" and ne: "distinct [t, x, s, b]"
    and x: "x = txn_path r t" and b: "b = backup_path r t" and old: "file_or_none old" "had = (old \<noteq> None)"
    and same: "same_files fs (- {t, x, s, b}) w" and now: "jm_get (files w) t = installed new" "jm_get (files w) s = None"
    and backup: "backed_up had old (jm_get (files w) b) pm
      \<or> had \<and> jm_get (files w) b = None \<and> running w t (installed new)"
  shows "wp (io_then
      (io_bind (restore faults had pm t b) (\<lambda>_. io_bind (validateAndReload execute) (\<lambda>_. cleanupTransaction faults x b s)))
      (\<lambda>_. io_throw (InstallError (io_message error @ ''; nginx target restored to its previous state'')))
      (\<lambda>rollbackError. io_throw (InstallError (io_message error @ ''; nginx rollback incomplete: ''
         @ io_message rollbackError @ ''; recovery files kept at '' @ x))))
    Q (\<lambda>e w'. same_files fs (- {t, x, s, b}) w' \<and> left_safe old new r t e w') w"
proof -
  have kept: "said (InstallError (io_message error @ ''; nginx rollback incomplete: '' @ io_message e
      @ ''; recovery files kept at '' @ x)) (''; recovery files kept at '' @ txn_path r t)" for e
    unfolding said_def x by (metis append.assoc)
  have restored: "said (InstallError (io_message error @ ''; nginx target restored to its previous state''))
      ''; nginx target restored to its previous state''"
    by (auto simp: said_def)
  have trans: "same_files fs (- {t, x, s, b}) w'" if "same_files (files w) (- {t, x, s, b}) w'" for w'
    using that same by (auto simp: same_files_def)
  from backup show ?thesis
  proof
    assume "backed_up had old (jm_get (files w) b) pm"
    then show ?thesis
      using now restored kept trans
      by (subst wp_then, intro wp_roll_back [OF plain ne old]) (auto simp: wp_throw left_safe_def installed_def b)
  next
    assume gone: "had \<and> jm_get (files w) b = None \<and> running w t (installed new)"
    then show ?thesis
      using now kept same plain(2)
      by (subst wp_then, intro wp_lost_backup) (auto simp: wp_throw left_safe_def same_files_def running_def)
  qed
qed

lemma wp_locked:
  assumes t: "safe_target t" and r: "CHR ''/'' \<notin> set r" "length r = 6"
    and fresh: "jm_get (files w) (staged_path r t) = None" "jm_get (files w) (backup_path r t) = None"
    and cand: "jm_get (files w) c = Some (RegularFile new m)" "\<not> trailing_slash c" and other: "c \<noteq> t"
    and old: "file_or_none (jm_get (files w) t)"
  shows "wp (installNginxConfigLocked faults execute r c t)
    (\<lambda>(t', replaced) w'. t' = t \<and> replaced = (jm_get (files w) t \<noteq> None)
        \<and> same_files (files w) (- {t, txn_path r t, staged_path r t, backup_path r t}) w'
        \<and> jm_get (files w') t = installed new \<and> running w' t (installed new)
        \<and> jm_get (files w') (txn_path r t) = None \<and> jm_get (files w') (staged_path r t) = None
        \<and> jm_get (files w') (backup_path r t) = None)
    (\<lambda>e w'. same_files (files w) (- {t, txn_path r t, staged_path r t, backup_path r t}) w'
        \<and> left_safe (jm_get (files w) t) new r t e w') w"
proof -
  define x s b where "x = txn_path r t" and "s = staged_path r t" and "b = backup_path r t"
  define old where "old = jm_get (files w) t"
  note paths = transaction_paths [OF t r, folded x_def s_def b_def]
  have ne: "distinct [t, x, s, b]" using paths(3) by auto
  have plain: "\<not> trailing_slash s" "\<not> trailing_slash b" by (fact paths(4), fact paths(5))
  have cs: "c \<noteq> s" "c \<noteq> b" using cand(1) fresh by (auto simp: s_def b_def)
  have old': "file_or_none old" using old by (simp add: old_def)
  have prefix: "join_path (dirname t) (''.'' @ basename t @ ''.txn-'') @ r = x" by (simp add: x_def txn_path_def)
  have backup_b: "backup_path r t = b" by (simp add: b_def)
  show ?thesis
    unfolding installNginxConfigLocked_def old_def [symmetric] x_def [symmetric] s_def [symmetric] b_def [symmetric]
  proof (subst wp_bind, rule wp_mkdtemp, unfold prefix Let_def paths, goal_cases)
    case (2 e w1)
    then show ?case by (simp add: same_files_def left_safe_def old_def)
  next
    case (1 w1)
    define had where "had = exists_at (files w1) t"
    have f1: "same_files (files w) (- {x}) w1" "jm_get (files w1) t = old" "jm_get (files w1) c = Some (RegularFile new m)"
      "jm_get (files w1) s = None" "jm_get (files w1) b = None"
      using 1 ne cs cand fresh by (auto simp: same_files_def old_def s_def b_def)
    show ?case
    proof (subst wp_bind, subst wp_exists, fold exists_at_def had_def, subst wp_then, rule wp_stage [where new = new and m = m],
        goal_cases)
      case (8 pm w2)
      have had: "had = (old \<noteq> None)"
        using \<open>\<not> trailing_slash t\<close> f1(2) old'
        by (auto simp: had_def exists_at_def node_at_plain file_or_none_def split: node.splits option.splits)
      have f2: "same_files (files w) (- {t, x, s, b}) w2" using 8 f1(1) by (auto simp: same_files_def)
      have b2: "backed_up had old (jm_get (files w2) b) pm" using 8 f1(2) by simp
      note failure = wp_after_failure [OF 8(4) plain(2,1) ne x_def b_def old' had]
      show ?case
      proof (subst wp_then, subst wp_bind, rule wp_reload, goal_cases)
        case (1 w3)
        then have run3: "running w3 t (installed new)" using 8 by (simp add: running_def)
        show ?case
        proof (rule wp_cleanup, goal_cases)
          case (5 w4)
          with 1 8 f2 run3 ne had show ?case by (auto simp: wp_simps same_files_def running_def)
        next
          case (6 e w4)
          then have f4: "jm_get (files w4) t = installed new" "running w4 t (installed new)"
            "same_files (files w) (- {t, x, s, b}) w4" "jm_get (files w4) s = None"
            using 1 8 f2 run3 ne by (auto simp: same_files_def running_def)
          moreover have "backed_up had old (jm_get (files w4) b) pm \<or> had \<and> jm_get (files w4) b = None"
            using 6 1 b2 by (auto simp: backed_up_def)
          ultimately show ?case by (intro failure) auto
        qed (use plain 1 8 f1 ne had old' b2 in \<open>auto simp: backed_up_def split: if_splits\<close>)
      next
        case (2 e w3)
        with 8 f2 b2 show ?case by (intro failure) (auto simp: same_files_def)
      qed
    next
      case (9 e w2)
      have "jm_get (files w2) t = old" using 9(1) f1(2) ne by (auto simp: same_files_def)
      then have f2: "same_files (files w) (- {t, x, s, b}) w2" "jm_get (files w2) t = old"
        using 9(1) f1(1) by (auto simp: same_files_def)
      show ?case
        by (subst wp_bind, subst wp_throw, rule wp_cleanup)
          (use 9 f2 plain ne in \<open>auto simp: same_files_def left_safe_def\<close>)
    qed (use plain ne cs other f1 cand in auto)
  qed
qed


subsection \<open>The whole installation\<close>

definition candidate_content :: "files \<Rightarrow> string \<Rightarrow> string \<Rightarrow> string \<Rightarrow> bool" where
  "candidate_content fs cwd path new = (\<exists>m. jm_get fs (resolve_path cwd path) = Some (RegularFile new m))"

text \<open>The configuration is at the target, or kept, or the new one is at the target and loaded.\<close>

definition configuration_kept :: "node option \<Rightarrow> string \<Rightarrow> string \<Rightarrow> string \<Rightarrow> world \<Rightarrow> bool" where
  "configuration_kept old new r t w =
     (jm_get (files w) t = old \<or> jm_get (files w) t = restored old \<and> running w t (restored old)
      \<or> jm_get (files w) (backup_path r t) = old \<or> jm_get (files w) t = installed new \<and> running w t (installed new))"

lemma left_safe_kept: "left_safe old new r t e w \<Longrightarrow> configuration_kept old new r t w"
  by (auto simp: left_safe_def configuration_kept_def)

definition outcome_ok :: "files \<Rightarrow> string \<Rightarrow> string \<Rightarrow> string \<Rightarrow> string \<Rightarrow> string \<times> bool \<Rightarrow> world \<Rightarrow> bool" where
  "outcome_ok fs cwd path r t result w =
     (result = (t, jm_get fs t \<noteq> None) \<and> same_files fs (- {t}) w
      \<and> (\<exists>new. candidate_content fs cwd path new \<and> jm_get (files w) t = installed new \<and> running w t (installed new)))"

definition outcome_failed :: "files \<Rightarrow> string \<Rightarrow> string \<Rightarrow> string \<Rightarrow> string \<Rightarrow> io_error \<Rightarrow> world \<Rightarrow> bool" where
  "outcome_failed fs cwd path r t e w =
     (same_files fs UNIV w
      \<or> same_files fs (- {t, t @ ''.lock'', txn_path r t, staged_path r t, backup_path r t}) w
        \<and> (\<exists>new. candidate_content fs cwd path new
             \<and> (left_safe (jm_get fs t) new r t e w
                \<or> jm_get (files w) (t @ ''.lock'') = Some Directory \<and> configuration_kept (jm_get fs t) new r t w)))"

lemma wp_mkdir:
  assumes "\<And>w'. jm_get (files w) p = None \<Longrightarrow> files w' = jm_set p Directory (files w) \<Longrightarrow> reloads w' = reloads w \<Longrightarrow> Q () w'"
    and "\<And>e w'. files w' = files w \<Longrightarrow> reloads w' = reloads w \<Longrightarrow> E e w'"
  shows "wp (mkdirSync faults p) Q E w"
  unfolding mkdirSync_def
  by (rule wp_system_call) (auto simp: no_damage_def intro: assms split: if_splits)

lemma wp_lock:
  assumes "\<And>w'. jm_get (files w) p = None \<Longrightarrow> files w' = jm_set p Directory (files w) \<Longrightarrow> reloads w' = reloads w \<Longrightarrow> Q () w'"
    and "\<And>e w'. files w' = files w \<Longrightarrow> E e w'"
  shows "wp (acquireDeploymentLock faults p) Q E w"
  unfolding acquireDeploymentLock_def wp_then wp_return wp_throw
  by (rule wp_mkdir) (auto intro: assms)

lemma wp_candidate:
  assumes "\<And>new m w'. jm_get (files w) (resolve_path cwd path) = Some (RegularFile new m)
      \<Longrightarrow> \<not> trailing_slash (resolve_path cwd path) \<Longrightarrow> files w' = files w \<Longrightarrow> Q (resolve_path cwd path) w'"
    and "\<And>e w'. files w' = files w \<Longrightarrow> E e w'"
  shows "wp (validateCandidate faults cwd path) Q E w"
proof -
  let ?c = "resolve_path cwd path"
  have "wp (lstatSync faults ?c) (\<lambda>n w'. if is_regular n then Q ?c w' else E (InstallError ''candidate must be a regular file'') w') E w"
  proof (rule wp_lstat, goal_cases)
    case (1 n w')
    then show ?case using node_at_Some [OF 1(1)] by (cases n) (auto simp: is_regular_def intro: assms)
  next
    case (2 e w')
    then show ?case by (intro assms(2))
  qed
  then show ?thesis
    unfolding validateCandidate_def Let_def wp_bind wp_unless wp_return by (simp add: assms(2))
qed

lemma wp_installation:
  assumes t: "safe_target t" and r: "CHR ''/'' \<notin> set r" "length r = 6"
    and fresh: "\<forall>p. starts_with (txn_path r t) p \<longrightarrow> jm_get (files w) p = None"
    and old: "file_or_none (jm_get (files w) t)"
  shows "wp (installNginxConfig faults execute r cwd path t)
    (\<lambda>result w'. jm_get (files w) (t @ ''.lock'') = None \<and> outcome_ok (files w) cwd path r t result w')
    (\<lambda>e w'. (jm_get (files w) (t @ ''.lock'') \<noteq> None \<longrightarrow> same_files (files w) UNIV w')
        \<and> outcome_failed (files w) cwd path r t e w') w"
proof -
  define c l where "c = resolve_path cwd path" and "l = t @ ''.lock''"
  define x s b where "x = txn_path r t" and "s = staged_path r t" and "b = backup_path r t"
  note paths = transaction_paths(3) [OF t r, folded x_def s_def b_def l_def]
  have none: "jm_get (files w) x = None" "jm_get (files w) s = None" "jm_get (files w) b = None"
    using fresh by (simp_all add: x_def s_def b_def starts_with_def staged_path_def backup_path_def)
  show ?thesis unfolding installNginxConfig_def validateTarget_def Let_def l_def [symmetric] c_def [symmetric]
  proof (subst wp_bind, rule wp_candidate, goal_cases)
    case (2 e w1)
    then show ?case by (simp add: outcome_failed_def same_files_def)
  next
    case (1 new m w1)
    note cand = 1 [folded c_def]
    have unchanged: "outcome_failed (files w) cwd path r t e w'" if "files w' = files w1" for e w'
      using that cand(3) by (simp add: outcome_failed_def same_files_def)
    show ?case
    proof (cases "resolve_path cwd c = resolve_path cwd t")
      case True
      then show ?thesis using t unchanged cand(3) by (simp add: wp_simps c_def same_files_def)
    next
      case False
      then have ct: "c \<noteq> t" by auto
      have "wp (io_bind (acquireDeploymentLock faults l) (\<lambda>_. io_finally (installNginxConfigLocked faults execute r c t)
          (rmdirSync faults l)))
        (\<lambda>result w'. jm_get (files w) l = None \<and> outcome_ok (files w) cwd path r t result w')
        (\<lambda>e w'. (jm_get (files w) l \<noteq> None \<longrightarrow> same_files (files w) UNIV w')
            \<and> outcome_failed (files w) cwd path r t e w') w1"
      proof (subst wp_bind, rule wp_lock, goal_cases)
        case (2 e w2)
        then show ?case using unchanged cand(3) by (simp add: same_files_def)
      next
        case (1 w2)
        have l: "jm_get (files w) l = None" and f2: "files w2 = jm_set l Directory (files w)" using 1 cand(3) by simp_all
        have cl: "c \<noteq> l" using cand(1) l by auto
        have at2: "jm_get (files w2) t = jm_get (files w) t" "jm_get (files w2) s = None" "jm_get (files w2) b = None"
          "jm_get (files w2) c = Some (RegularFile new m)"
          using f2 none cand(1) cl paths by auto
        have content: "candidate_content (files w) cwd path new" using cand(1) by (auto simp: candidate_content_def c_def)
        have locked: "jm_get (files w3) l = Some Directory" "same_files (files w) (- {t, l, x, s, b}) w3"
          if "same_files (files w2) (- {t, x, s, b}) w3" for w3
          using that f2 paths by (auto simp: same_files_def)
        show ?case
        proof (subst wp_finally, rule wp_mono [OF wp_locked [OF t r, where w = w2 and c = c and new = new and m = m]], goal_cases)
          case (7 result w3)
          then have done3: "result = (t, jm_get (files w) t \<noteq> None)" "jm_get (files w3) t = installed new"
              "running w3 t (installed new)" "jm_get (files w3) x = None" "jm_get (files w3) s = None" "jm_get (files w3) b = None"
            and same3: "same_files (files w2) (- {t, x, s, b}) w3"
            using at2(1) by (auto simp: x_def s_def b_def split: prod.splits)
          show ?case
          proof (rule wp_rmdir, goal_cases)
            case (1 w4)
            have "same_files (files w) (- {t}) w4"
              using 1 locked(2) [OF same3] done3 none l by (auto simp: same_files_def)
            with 1 done3 l content paths show ?case by (auto simp: outcome_ok_def running_def)
          next
            case (2 e w4)
            with locked [OF same3] done3 l content show ?case
              by (auto simp: outcome_failed_def configuration_kept_def running_def same_files_def
                  l_def [symmetric] x_def [symmetric] s_def [symmetric] b_def [symmetric])
          qed
        next
          case (8 e w3)
          then have safe3: "left_safe (jm_get (files w) t) new r t e w3" and same3: "same_files (files w2) (- {t, x, s, b}) w3"
            using at2(1) by (simp_all add: x_def s_def b_def)
          note kept3 = left_safe_kept [OF safe3]
          show ?case
          proof (rule wp_rmdir, goal_cases)
            case (1 w4)
            with safe3 paths have "left_safe (jm_get (files w) t) new r t e w4"
              by (auto simp: left_safe_def running_def b_def [symmetric])
            moreover have "same_files (files w) (- {t, l, x, s, b}) w4"
              using 1 locked [OF same3] by (auto simp: same_files_def)
            ultimately show ?case using l content
              by (auto simp: outcome_failed_def l_def [symmetric] x_def [symmetric] s_def [symmetric] b_def [symmetric])
          next
            case (2 e' w4)
            with kept3 have "configuration_kept (jm_get (files w) t) new r t w4"
              by (simp add: configuration_kept_def running_def)
            with 2 locked [OF same3] l content show ?case
              by (auto simp: outcome_failed_def same_files_def
                  l_def [symmetric] x_def [symmetric] s_def [symmetric] b_def [symmetric])
          qed
        qed (use at2 old ct cand(2) in \<open>simp_all add: s_def b_def\<close>)
      qed
      with False t show ?thesis by (simp add: wp_simps c_def l_def)
    qed
  qed
qed


text \<open>
  C32. Installing an nginx configuration is a transaction, whichever call fails and whatever the
  commands answer. If it returns, the target is the candidate with mode 0644, nginx was reloaded
  with it and no other file has changed. If it throws, either nothing has changed, or the
  previous file is back (with its permission bits) and nginx was reloaded with it, or the
  message names the recovery directory and the previous file is kept there unless it or the new
  one is in place and loaded; only the lock can stay behind when its own removal fails. While
  another deployment holds the lock nothing changes at all.
\<close>

theorem installation_keeps_a_configuration:
  assumes "safe_target t" and "CHR ''/'' \<notin> set r" and "length r = 6"
    and "\<forall>p. starts_with (txn_path r t) p \<longrightarrow> jm_get (files w) p = None"
    and "jm_get (files w) t = old" and "old = None \<or> (\<exists>c m. old = Some (RegularFile c m))"
    and "installNginxConfig faults execute r cwd path t w = (result, w')"
  shows "(jm_get (files w) (t @ ''.lock'') \<noteq> None \<longrightarrow> isl result \<and> same_files (files w) UNIV w')
    \<and> (case result of
        Inr res \<Rightarrow> res = (t, old \<noteq> None) \<and> same_files (files w) (- {t}) w'
          \<and> (\<exists>new m. jm_get (files w) (resolve_path cwd path) = Some (RegularFile new m)
               \<and> jm_get (files w') t = Some (RegularFile new 0x1A4) \<and> running w' t (Some (RegularFile new 0x1A4)))
      | Inl e \<Rightarrow> same_files (files w) UNIV w'
          \<or> same_files (files w) (- {t, t @ ''.lock'', txn_path r t, staged_path r t, backup_path r t}) w'
            \<and> (\<exists>new m. jm_get (files w) (resolve_path cwd path) = Some (RegularFile new m)
                \<and> (left_safe old new r t e w'
                   \<or> jm_get (files w') (t @ ''.lock'') = Some Directory \<and> configuration_kept old new r t w')))"
proof -
  have "file_or_none (jm_get (files w) t)" using assms(5,6) by auto
  from wp_installation [OF assms(1-4) this, where faults = faults and execute = execute and cwd = cwd and path = path]
  show ?thesis
    using assms(5,7)
    unfolding wp_def outcome_ok_def outcome_failed_def candidate_content_def installed_def
    by (cases result; simp; blast)
qed

definition ex_disk :: files where
  "ex_disk = [(''/n/f'', RegularFile ''old'' 0x180), (''/c'', RegularFile ''new'' 0x1B4)]"

text \<open>\<open>nginx -t\<close> refuses the new file, every other command succeeds.\<close>

definition ex_execute :: executor where
  "ex_execute command args w =
     (if command = ''nginx'' \<and> jm_get (files w) ''/n/f'' = Some (RegularFile ''new'' 0x1A4) then Some ''refused'' else None)"

definition ex_installed :: "(io_error + string \<times> bool) \<times> world" where
  "ex_installed = installNginxConfig (\<lambda>_. None) ex_execute ''AbCdEf'' ''/'' ''/c'' ''/n/f''
     \<lparr>files = ex_disk, calls = 0, reloads = []\<rparr>"

lemma ex_installed_result:
  "fst ex_installed = Inl (InstallError ''refused; nginx target restored to its previous state'')"
  "jm_get (files (snd ex_installed)) ''/n/f'' = Some (RegularFile ''old'' 0x180)"
  by code_simp+

theorem installation_keeps_a_configuration_witness:
  "fst ex_installed = Inl (InstallError ''refused; nginx target restored to its previous state'')
   \<and> jm_get (files (snd ex_installed)) ''/n/f'' = Some (RegularFile ''old'' 0x180)
   \<and> jm_get (files (snd ex_installed)) ''/c'' = Some (RegularFile ''new'' 0x1B4)"
proof -
  have t: "safe_target ''/n/f''" by code_simp
  have x: "txn_path ''AbCdEf'' ''/n/f'' = ''/n/.f.txn-AbCdEf''" by code_simp
  have fresh: "\<forall>p. starts_with (txn_path ''AbCdEf'' ''/n/f'') p
      \<longrightarrow> jm_get (files \<lparr>files = ex_disk, calls = 0, reloads = []\<rparr>) p = None"
    unfolding x by (auto simp: ex_disk_def jm_get_def starts_with_def)
  have old: "jm_get (files \<lparr>files = ex_disk, calls = 0, reloads = []\<rparr>) ''/n/f'' = Some (RegularFile ''old'' 0x180)"
    by (simp add: ex_disk_def jm_get_def)
  from installation_keeps_a_configuration [OF t _ _ fresh old, where faults = "\<lambda>_. None" and execute = ex_execute
      and cwd = "''/''" and path = "''/c''" and result = "fst ex_installed" and w' = "snd ex_installed"]
  have "same_files ex_disk (- {''/n/f'', ''/n/f.lock'', txn_path ''AbCdEf'' ''/n/f'', staged_path ''AbCdEf'' ''/n/f'',
      backup_path ''AbCdEf'' ''/n/f''}) (snd ex_installed) \<or> same_files ex_disk UNIV (snd ex_installed)"
    using prod.collapse [of ex_installed, symmetric] unfolding ex_installed_result(1)
    by (auto simp: ex_installed_def [symmetric])
  then have "jm_get (files (snd ex_installed)) ''/c'' = jm_get ex_disk ''/c''"
    by (auto simp: same_files_def x staged_path_def backup_path_def)
  then show ?thesis using ex_installed_result by (simp add: ex_disk_def jm_get_def)
qed

subsection \<open>Two messages that are not true\<close>

text \<open>
  When the removal of the transaction's directory fails after a successful reload, the backup has
  been deleted; the rollback that follows fails for that, and names recovery files that are not
  there. A dangling symbolic link at the target is replaced, and not put back by the rollback.
\<close>

lemma recovery_files_already_deleted:
  "case installNginxConfig (\<lambda>n. if n = 12 then Some (''busy'', None) else None) (\<lambda>_ _ _. None) ''AbCdEf'' ''/'' ''/c'' ''/n/f''
      \<lparr>files = ex_disk, calls = 0, reloads = []\<rparr> of
     (Inl e, w) \<Rightarrow> io_message e = ''busy; nginx rollback incomplete: no such file or directory; recovery files kept at /n/.f.txn-AbCdEf''
       \<and> jm_get (files w) ''/n/.f.txn-AbCdEf/previous'' = None \<and> jm_get (files w) ''/n/f'' = Some (RegularFile ''new'' 0x1A4)
   | (Inr _, _) \<Rightarrow> False"
  by code_simp

lemma dangling_link_not_restored:
  "case installNginxConfig (\<lambda>_. None) ex_execute ''AbCdEf'' ''/'' ''/c'' ''/n/f''
      \<lparr>files = [(''/n/f'', SymbolicLink False), (''/c'', RegularFile ''new'' 0x1B4)], calls = 0, reloads = []\<rparr> of
     (Inl e, w) \<Rightarrow> io_message e = ''refused; nginx target restored to its previous state'' \<and> jm_get (files w) ''/n/f'' = None
   | (Inr _, _) \<Rightarrow> False"
  by code_simp

end
