(* ===== verification/NginxConfig.thy ===== *)
theory NginxConfig
  imports IceConfiguration SeccompProfile
begin

text \<open>
  \<open>scripts/render-nginx-config.mjs\<close>: the nginx configuration is a template in which four
  tokens are replaced, one after the other, by checked values of the environment. The checks
  leave no dollar sign in a value, so \<open>replaceAll\<close> finds no replacement pattern in it.
\<close>

subsection \<open>Checked values\<close>

definition required_variable :: "(string \<Rightarrow> string option) \<Rightarrow> string \<Rightarrow> thrown + string" where
  "required_variable environment name =
     (case environment name of
        None \<Rightarrow> Inl (PlainError (name @ '' is required''))
      | Some raw \<Rightarrow> if trim raw = [] then Inl (PlainError (name @ '' is required'')) else Inr (trim raw))"

definition validatePublicHost :: "string \<Rightarrow> thrown + string" where
  "validatePublicHost value =
     (if length value > 253 \<or> value \<noteq> toLowerCase value \<or> CHR ''.'' \<notin> set value
        \<or> \<not> list_all is_host_label (split_on (CHR ''.'') value)
      then Inl (PlainError ''FIREBALL_PUBLIC_HOST must be a lowercase DNS hostname'') else Inr value)"

definition validateAbsolutePath :: "string \<Rightarrow> string \<Rightarrow> thrown + string" where
  "validateAbsolutePath value label =
     (if length value > 4096 \<or> \<not> starts_with ''/'' value \<or> \<not> is_plain_absolute_path value
        \<or> ''..'' \<in> set (split_on (CHR ''/'') value)
      then Inl (PlainError (''TLS '' @ label @ '' path is unsafe'')) else Inr value)"

definition validatePort :: "string \<Rightarrow> thrown + string" where
  "validatePort value =
     (if \<not> is_canonical_numeral 4 value \<or> digits_value value > 65535
      then Inl (PlainError ''FIREBALL_UPSTREAM_PORT must be a TCP port'') else Inr (show_nat (digits_value value)))"

subsection \<open>Replacing\<close>

text \<open>\<open>s.replaceAll(token, value)\<close> for a token that is not empty.\<close>

fun replaceAll :: "string \<Rightarrow> string \<Rightarrow> string \<Rightarrow> string" where
  "replaceAll token value [] = []"
| "replaceAll token value (c # cs) =
     (if starts_with token (c # cs) then value @ replaceAll token value (drop (length token - 1) cs)
      else c # replaceAll token value cs)"

text \<open>\<open>[A-Z_]\<close>, and \<open>/\{\{[A-Z_]+\}\}/\<close> at some position.\<close>

definition is_token_letter :: "char \<Rightarrow> bool" where
  "is_token_letter c = (is_upper c \<or> c = CHR ''_'')"

definition token_at :: "string \<Rightarrow> bool" where
  "token_at s =
     (starts_with ''{{'' s \<and> takeWhile is_token_letter (drop 2 s) \<noteq> []
      \<and> starts_with ''}}'' (dropWhile is_token_letter (drop 2 s)))"

fun unresolved :: "string \<Rightarrow> bool" where
  "unresolved [] = False"
| "unresolved (c # cs) = (token_at (c # cs) \<or> unresolved cs)"

definition replacements :: "string \<Rightarrow> string \<Rightarrow> string \<Rightarrow> string \<Rightarrow> (string \<times> string) list" where
  "replacements host certificate key port =
     [(''{{PUBLIC_HOST}}'', host), (''{{TLS_CERTIFICATE}}'', certificate), (''{{TLS_CERTIFICATE_KEY}}'', key),
      (''{{UPSTREAM_PORT}}'', port)]"

definition renderNginxConfig :: "(string \<Rightarrow> string option) \<Rightarrow> string \<Rightarrow> thrown + string" where
  "renderNginxConfig environment template =
     bind_result (bind_result (required_variable environment ''FIREBALL_PUBLIC_HOST'') validatePublicHost) (\<lambda>host.
     bind_result (bind_result (required_variable environment ''FIREBALL_TLS_CERTIFICATE'')
       (\<lambda>v. validateAbsolutePath v ''certificate'')) (\<lambda>certificate.
     bind_result (bind_result (required_variable environment ''FIREBALL_TLS_CERTIFICATE_KEY'')
       (\<lambda>v. validateAbsolutePath v ''certificate key'')) (\<lambda>key.
     if certificate = key then Inl (PlainError ''TLS certificate and key paths must differ'')
     else bind_result (validatePort (or_else (environment ''FIREBALL_UPSTREAM_PORT'') ''8787'')) (\<lambda>port.
       let result = foldl (\<lambda>s (token, value). replaceAll token value s) template (replacements host certificate key port) in
       if unresolved result then Inl (PlainError ''nginx template contains an unresolved token'') else Inr result))))"

subsection \<open>The reference: one pass over the template\<close>

fun expand :: "(string \<times> string) list \<Rightarrow> string \<Rightarrow> string" where
  "expand rs [] = []"
| "expand rs (c # cs) =
     (case find (\<lambda>(t, v). starts_with t (c # cs)) rs of
        Some (t, v) \<Rightarrow> v @ expand rs (drop (length t - 1) cs)
      | None \<Rightarrow> c # expand rs cs)"

definition token_form :: "string \<Rightarrow> bool" where
  "token_form t = (\<exists>n. t = ''{{'' @ n @ ''}}'' \<and> n \<noteq> [] \<and> list_all is_token_letter n)"

definition braces :: "char set" where "braces = {CHR ''{'', CHR ''}''}"

text \<open>A value has no brace, and something that no token contains.\<close>

definition safe_value :: "string \<Rightarrow> bool" where
  "safe_value v = ((\<forall>c \<in> set v. c \<notin> braces) \<and> (\<exists>c \<in> set v. \<not> is_token_letter c))"

text \<open>What is left of a token behind its first brace.\<close>

definition token_tail :: "string \<Rightarrow> bool" where
  "token_tail u = (u = [] \<or> last u = CHR ''}'' \<and> CHR ''{'' \<notin> set (tl u) \<and> (\<forall>c \<in> set u. is_token_letter c \<or> c \<in> braces))"

lemma token_tail_tl: "token_tail (d # u) \<Longrightarrow> token_tail u"
  by (cases u) (auto simp: token_tail_def)

lemma token_form_parts:
  assumes "token_form t"
  obtains u where "t = CHR ''{'' # u" and "token_tail u" and "u \<noteq> []"
proof -
  from assms obtain n where n: "t = ''{{'' @ n @ ''}}''" "list_all is_token_letter n" by (auto simp: token_form_def)
  have "CHR ''{'' \<notin> set n" using n(2) by (auto simp: list_all_iff is_token_letter_def js_text_simps)
  with n that [of "''{'' @ n @ ''}}''"] show thesis by (auto simp: token_tail_def braces_def list_all_iff)
qed

lemma starts_with_Cons [simp]: "starts_with (d # u) (e # x) = (d = e \<and> starts_with u x)"
  by (auto simp: starts_with_def)

lemma starts_with_simps [simp]: "starts_with [] x" "starts_with (d # u) [] = False"
  by (auto simp: starts_with_def)

lemma starts_with_append: "starts_with u (v @ x) \<Longrightarrow> length u \<le> length v \<and> set u \<subseteq> set v \<or> set v \<subseteq> set u"
proof (induction v arbitrary: u)
  case (Cons a v)
  then show ?case by (cases u) auto
qed simp

lemma tail_not_in_value:
  assumes "token_tail u" and "u \<noteq> []" and "safe_value v"
  shows "\<not> starts_with u (v @ x)"
proof
  assume s: "starts_with u (v @ x)"
  have last: "CHR ''}'' \<in> set u" using assms(1,2) last_in_set by (fastforce simp: token_tail_def)
  from starts_with_append [OF s] show False
    using assms last by (auto simp: token_tail_def safe_value_def braces_def)
qed

lemma tail_not_at_token:
  assumes "token_tail u" and "u \<noteq> []" and "token_form t" and "starts_with t x"
  shows "\<not> starts_with u x"
proof
  assume u: "starts_with u x"
  from assms(3) obtain n where t: "t = CHR ''{'' # CHR ''{'' # n" by (auto simp: token_form_def)
  with assms(4) obtain y where x: "x = CHR ''{'' # CHR ''{'' # y"
    by (cases x; cases "tl x") auto
  from u x assms(1,2) show False by (cases u; cases "tl u") (auto simp: token_tail_def)
qed

lemma find_found: "find P rs = Some r \<Longrightarrow> r \<in> set rs \<and> P r"
  by (induction rs) (auto split: if_splits)

lemma find_snoc: "find P (rs @ [r]) = (case find P rs of None \<Rightarrow> if P r then Some r else None | Some r' \<Rightarrow> Some r')"
  by (induction rs) auto

lemma expand_tail:
  assumes "\<forall>(t, v) \<in> set rs. token_form t \<and> safe_value v" and "token_tail u"
  shows "(starts_with u (expand rs x) = starts_with u x)
    \<and> (starts_with u x \<longrightarrow> drop (length u) (expand rs x) = expand rs (drop (length u) x))"
  using assms(2)
proof (induction u arbitrary: x)
  case (Cons d u)
  show ?case
  proof (cases x)
    case x: (Cons e y)
    show ?thesis
    proof (cases "find (\<lambda>(t, v). starts_with t x) rs")
      case None
      with Cons.IH [OF token_tail_tl [OF Cons.prems], of y] show ?thesis by (auto simp: x)
    next
      case (Some r)
      obtain t v where r: "r = (t, v)" by (cases r)
      with Some have "(t, v) \<in> set rs" "starts_with t x" by (auto dest: find_found)
      with assms(1) have "token_form t" "safe_value v" by auto
      with tail_not_in_value [OF Cons.prems] tail_not_at_token [OF Cons.prems _ _ \<open>starts_with t x\<close>]
      show ?thesis using Some r by (auto simp: x)
    qed
  qed simp
qed simp

lemma replaceAll_value:
  assumes "token_form t" and "safe_value w"
  shows "replaceAll t v (w @ x) = w @ replaceAll t v x"
proof -
  from assms(1) obtain n where t: "t = CHR ''{'' # n" by (auto simp: token_form_def)
  have "\<forall>c \<in> set w. c \<noteq> CHR ''{''" using assms(2) by (auto simp: safe_value_def braces_def)
  then show ?thesis by (induction w) (auto simp: t)
qed

lemma replaceAll_expand:
  assumes rs: "\<forall>(t, v) \<in> set rs. token_form t \<and> safe_value v" and t: "token_form t"
  shows "replaceAll t v (expand rs s) = expand (rs @ [(t, v)]) s"
proof (induction s rule: length_induct)
  case (1 s)
  obtain u where u: "t = CHR ''{'' # u" "token_tail u" using token_form_parts [OF t] by metis
  show ?case
  proof (cases s)
    case s: (Cons c cs)
    have shorter: "replaceAll t v (expand rs (drop k cs)) = expand (rs @ [(t, v)]) (drop k cs)" for k
      using 1 s by (metis drop_0 le_imp_less_Suc length_Cons length_drop diff_le_self)
    show ?thesis
    proof (cases "find (\<lambda>(t, v). starts_with t s) rs")
      case None
      with shorter [of 0] shorter [of "length u"] expand_tail [OF rs u(2), of cs] show ?thesis
        by (auto simp: s find_snoc u)
    next
      case (Some r)
      obtain t' w where r: "r = (t', w)" by (cases r)
      with find_found [OF Some] rs have "safe_value w" by auto
      from replaceAll_value [OF t this] shorter Some r show ?thesis by (simp add: s find_snoc)
    qed
  qed simp
qed

subsection \<open>The checked values are safe\<close>

lemma path_char_brace: "is_path_char c \<Longrightarrow> c \<notin> braces"
  by (auto simp: braces_def js_text_simps)

lemma host_label_char: "is_host_label l \<Longrightarrow> c \<in> set l \<Longrightarrow> is_lower c \<or> is_digit c \<or> c = CHR ''-''"
  by (auto simp: is_host_label_def list_all_iff)

lemma in_split: "c \<in> set s \<Longrightarrow> c \<noteq> sep \<Longrightarrow> \<exists>p \<in> set (split_on sep s). c \<in> set p"
  by (induction s) (auto split: list.splits)

lemma label_char_brace: "is_lower c \<or> is_digit c \<or> c = CHR ''-'' \<Longrightarrow> c \<notin> braces"
  by (auto simp: braces_def js_text_simps)

lemma dot_no_letter: "\<not> is_token_letter CHR ''.''" "CHR ''.'' \<notin> braces"
  by (simp_all add: is_token_letter_def braces_def js_text_simps)

lemma safe_host:
  assumes "validatePublicHost v = Inr h"
  shows "h = v \<and> safe_value v"
proof -
  from assms have h: "h = v" "CHR ''.'' \<in> set v" "list_all is_host_label (split_on (CHR ''.'') v)"
    unfolding validatePublicHost_def by (simp_all split: if_splits)
  have "c \<notin> braces" if c: "c \<in> set v" for c
  proof (cases "c = CHR ''.''")
    case False
    from in_split [OF c False] obtain l where l: "l \<in> set (split_on (CHR ''.'') v)" "c \<in> set l" by blast
    from h(3) l(1) have "is_host_label l" unfolding list_all_iff by blast
    from label_char_brace [OF host_label_char [OF this l(2)]] show ?thesis .
  qed (simp only: dot_no_letter not_False_eq_True)
  with h(1,2) dot_no_letter(1) show ?thesis unfolding safe_value_def by blast
qed

lemma safe_path: "validateAbsolutePath v l = Inr p \<Longrightarrow> p = v \<and> safe_value v \<and> is_plain_absolute_path v"
proof -
  assume "validateAbsolutePath v l = Inr p"
  then have p: "p = v" "is_plain_absolute_path v" by (auto simp: validateAbsolutePath_def split: if_splits)
  then obtain cs where v: "v = CHR ''/'' # cs" "list_all is_path_char cs"
    by (cases v) (auto simp: is_plain_absolute_path_def)
  then have "\<forall>c \<in> set v. c \<notin> braces" using path_char_brace by (auto simp: list_all_iff) (simp add: braces_def)
  with p v show ?thesis by (auto simp: safe_value_def is_token_letter_def js_text_simps)
qed

lemma digit_no_letter: "is_digit c \<Longrightarrow> \<not> is_token_letter c" "is_digit c \<Longrightarrow> c \<notin> braces"
  by (auto simp: is_token_letter_def braces_def js_text_simps)

lemma safe_port:
  assumes "validatePort v = Inr p"
  shows "safe_value p \<and> (\<exists>n \<le> 65535. p = show_nat n)"
proof -
  from assms have p: "p = show_nat (digits_value v)" "digits_value v \<le> 65535"
    unfolding validatePort_def by (simp_all split: if_splits)
  have d: "\<forall>c \<in> set p. is_digit c" using show_nat_digits p(1) by (simp add: list_all_iff)
  have "p \<noteq> []" unfolding p(1) by (subst show_nat.simps) simp
  then obtain c where "c \<in> set p" by (cases p) auto
  with d digit_no_letter have "safe_value p" unfolding safe_value_def by blast
  with p show ?thesis by blast
qed

lemma token_formI: "t = ''{{'' @ n @ ''}}'' \<Longrightarrow> n \<noteq> [] \<Longrightarrow> list_all is_token_letter n \<Longrightarrow> token_form t"
  by (auto simp: token_form_def)

lemma token_names:
  "list_all is_token_letter ''PUBLIC_HOST''" "list_all is_token_letter ''TLS_CERTIFICATE''"
  "list_all is_token_letter ''TLS_CERTIFICATE_KEY''" "list_all is_token_letter ''UPSTREAM_PORT''"
  by code_simp+

lemma tokens_form: "list_all (\<lambda>(t, v). token_form t) (replacements h c k p)"
  using token_formI [OF _ _ token_names(1)] token_formI [OF _ _ token_names(2)]
    token_formI [OF _ _ token_names(3)] token_formI [OF _ _ token_names(4)]
  by (simp add: replacements_def)

lemma expand_none: "expand [] s = s"
  by (induction s) auto

lemma replaced_is_expanded:
  assumes "safe_value h" and "safe_value c" and "safe_value k" and "safe_value p"
  shows "foldl (\<lambda>s (token, value). replaceAll token value s) s (replacements h c k p) = expand (replacements h c k p) s"
proof -
  have "foldl (\<lambda>s (token, value). replaceAll token value s) (expand rs s) qs = expand (rs @ qs) s"
    if "\<forall>(t, v) \<in> set (rs @ qs). token_form t \<and> safe_value v" for rs qs
    using that
  proof (induction qs arbitrary: rs)
    case (Cons q qs)
    obtain t v where "q = (t, v)" by (cases q)
    with Cons.IH [of "rs @ [q]"] Cons.prems replaceAll_expand [of rs t v s] show ?case by auto
  qed simp
  from this [of "[]" "replacements h c k p"] tokens_form [of h c k p] assms show ?thesis
    by (simp add: expand_none) (simp add: replacements_def)
qed

subsection \<open>Rendering\<close>

text \<open>
  C36. When \<open>renderNginxConfig\<close> returns a configuration, it is the template with the tokens
  substituted in one pass: no value is searched for tokens again, although the code replaces one
  token after the other in the whole text. The host is a lowercase name with a dot and at most 253 characters, the
  certificate and its key are two different absolute paths without a parent segment, the
  port is a decimal numeral up to 65535, no value holds a brace, and no token is left.
\<close>

theorem rendered_config_is_one_substitution:
  assumes "renderNginxConfig environment template = Inr out"
  shows "\<exists>host certificate key port.
      out = expand (replacements host certificate key (show_nat port)) template \<and> \<not> unresolved out
    \<and> length host \<le> 253 \<and> CHR ''.'' \<in> set host \<and> toLowerCase host = host
    \<and> certificate \<noteq> key \<and> port \<le> 65535
    \<and> (\<forall>path \<in> {certificate, key}. is_plain_absolute_path path \<and> ''..'' \<notin> set (split_on (CHR ''/'') path))
    \<and> (\<forall>v \<in> {host, certificate, key, show_nat port}. \<forall>c \<in> set v. c \<notin> braces)"
proof -
  from assms obtain host certificate key p h' c' k' where
    host: "validatePublicHost h' = Inr host" and certificate: "validateAbsolutePath c' ''certificate'' = Inr certificate"
    and key: "validateAbsolutePath k' ''certificate key'' = Inr key"
    and port: "validatePort (or_else (environment ''FIREBALL_UPSTREAM_PORT'') ''8787'') = Inr p"
    and differ: "certificate \<noteq> key"
    and out: "out = foldl (\<lambda>s (token, value). replaceAll token value s) template (replacements host certificate key p)"
      "\<not> unresolved out"
    unfolding renderNginxConfig_def Let_def by (auto simp: bind_result_Inr split: if_splits)
  from safe_port [OF port] obtain n where p: "p = show_nat n" "n \<le> 65535" "safe_value p" by blast
  note safe = safe_host [OF host] safe_path [OF certificate] safe_path [OF key]
  with replaced_is_expanded p(3) out(1)
  have e: "out = expand (replacements host certificate key p) template" by blast
  have h: "length host \<le> 253 \<and> CHR ''.'' \<in> set host \<and> toLowerCase host = host"
    using host unfolding validatePublicHost_def by (simp split: if_splits)
  have paths: "''..'' \<notin> set (split_on (CHR ''/'') certificate)" "''..'' \<notin> set (split_on (CHR ''/'') key)"
    using certificate key unfolding validateAbsolutePath_def by (simp_all split: if_splits)
  have b: "\<forall>v \<in> {host, certificate, key, show_nat n}. \<forall>c \<in> set v. c \<notin> braces"
    using safe p unfolding safe_value_def by blast
  show ?thesis
    by (intro exI [of _ host] exI [of _ certificate] exI [of _ key] exI [of _ n] conjI)
      (use e h paths b safe differ out(2) p in \<open>simp_all\<close>)
qed

definition nginx_environment :: "string \<Rightarrow> string option" where
  "nginx_environment name =
     (if name = ''FIREBALL_PUBLIC_HOST'' then Some ''a.b ''
      else if name = ''FIREBALL_TLS_CERTIFICATE'' then Some ''/c''
      else if name = ''FIREBALL_TLS_CERTIFICATE_KEY'' then Some ''/k''
      else if name = ''FIREBALL_UPSTREAM_PORT'' then Some ''8'' else None)"

lemma example_rendered:
  "renderNginxConfig nginx_environment ''on {{UPSTREAM_PORT}};'' = Inr ''on 8;''"
proof -
  have v: "bind_result (required_variable nginx_environment ''FIREBALL_PUBLIC_HOST'') validatePublicHost = Inr ''a.b''"
    "bind_result (required_variable nginx_environment ''FIREBALL_TLS_CERTIFICATE'')
       (\<lambda>v. validateAbsolutePath v ''certificate'') = Inr ''/c''"
    "bind_result (required_variable nginx_environment ''FIREBALL_TLS_CERTIFICATE_KEY'')
       (\<lambda>v. validateAbsolutePath v ''certificate key'') = Inr ''/k''"
    "or_else (nginx_environment ''FIREBALL_UPSTREAM_PORT'') ''8787'' = ''8''"
    by code_simp+
  have "is_canonical_numeral 4 ''8''" "char_of (56 :: nat) = CHR ''8''" by code_simp+
  then have p: "validatePort ''8'' = Inr ''8''"
    by (simp add: validatePort_def digits_value_def js_text_simps show_nat.simps [of 8])
  have "foldl (\<lambda>s (token, value). replaceAll token value s) ''on {{UPSTREAM_PORT}};'' (replacements ''a.b'' ''/c'' ''/k'' ''8'') = ''on 8;''"
    "\<not> unresolved ''on 8;''"
    by code_simp+
  then show ?thesis unfolding renderNginxConfig_def Let_def by (simp add: v p)
qed

theorem rendered_config_is_one_substitution_witness:
  "\<exists>host certificate key port.
      ''on 8;'' = expand (replacements host certificate key (show_nat port)) ''on {{UPSTREAM_PORT}};'' \<and> certificate \<noteq> key"
  using rendered_config_is_one_substitution [OF example_rendered] by blast

end
