(* ===== verification/Assertions.thy ===== *)
theory Assertions
  imports Types
begin

text \<open>
  What the release scripts use of the language around \<open>node:assert/strict\<close>: assertions that throw,
  property access on values that may be \<open>null\<close> or \<open>undefined\<close>, truth values, strict deep
  equality of JSON values (the order of properties does not matter), array methods whose
  callback may throw, and \<open>JSON.stringify(value, null, 2)\<close>. The message of an assertion without one of its own
  is not modelled.
\<close>

type_synonym bytes = "nat list"

definition failed_assertion :: string where
  "failed_assertion = ''assertion failed''"

definition assert_that :: "bool \<Rightarrow> string \<Rightarrow> thrown + unit" where
  "assert_that b message = (if b then Inr () else Inl (PlainError message))"

definition type_error :: thrown where
  "type_error = PlainError ''TypeError''"

text \<open>\<open>value.key\<close>, where \<open>None\<close> is \<open>undefined\<close>.\<close>

definition get_property :: "json option \<Rightarrow> string \<Rightarrow> thrown + json option" where
  "get_property value key =
     (case value of None \<Rightarrow> Inl type_error | Some v \<Rightarrow> if v = JNull then Inl type_error else Inr (json_field v key))"

definition truthy :: "json option \<Rightarrow> bool" where
  "truthy value = (value \<notin> {None, Some JNull, Some (JBool False), Some (JNum (Integer 0)), Some (JStr [])})"

definition elements :: "json option \<Rightarrow> json list" where
  "elements value = (case value of Some (JArr vs) \<Rightarrow> vs | _ \<Rightarrow> [])"

text \<open>\<open>value[0]\<close>, for a value that is neither null nor undefined.\<close>

fun index_zero :: "json \<Rightarrow> json option" where
  "index_zero (JArr (v # vs)) = Some v"
| "index_zero (JStr (c # cs)) = Some (JStr [c])"
| "index_zero v = json_field v ''0''"

text \<open>\<open>text.includes(part)\<close>.\<close>

fun occurs_in :: "string \<Rightarrow> string \<Rightarrow> bool" where
  "occurs_in p [] = (p = [])"
| "occurs_in p (c # cs) = (starts_with p (c # cs) \<or> occurs_in p cs)"

definition is_array :: "json option \<Rightarrow> bool" where
  "is_array value = (case value of Some (JArr _) \<Rightarrow> True | _ \<Rightarrow> False)"

subsection \<open>Deep equality\<close>

fun deep_equal :: "json \<Rightarrow> json \<Rightarrow> bool" where
  "deep_equal (JArr vs) (JArr ws) = list_all2 deep_equal vs ws"
| "deep_equal (JObj fs) (JObj gs) =
     (length fs = length gs
      \<and> list_all (\<lambda>(k, v). case map_of gs k of None \<Rightarrow> False | Some w \<Rightarrow> deep_equal v w) fs)"
| "deep_equal v w = (v = w)"

text \<open>Values as the language has them: no object has two properties of one name.\<close>

fun js_value :: "json \<Rightarrow> bool" where
  "js_value (JArr vs) = list_all js_value vs"
| "js_value (JObj fs) = (distinct (map fst fs) \<and> list_all (\<lambda>(k, v). js_value v) fs)"
| "js_value _ = True"

lemma deep_equal_refl: "js_value v \<Longrightarrow> deep_equal v v"
proof (induction v)
  case (JArr vs)
  then show ?case by (auto simp: list_all_iff intro!: list.rel_refl_strong)
next
  case (JObj fs)
  have "case map_of fs k of None \<Rightarrow> False | Some w \<Rightarrow> deep_equal v w" if "(k, v) \<in> set fs" for k v
    using that JObj by (fastforce simp: list_all_iff)
  then show ?case by (auto simp: list_all_iff)
qed auto

subsection \<open>Array methods\<close>

text \<open>\<open>some\<close> stops at the first element that satisfies the test, \<open>filter\<close> visits all.\<close>

fun some_result :: "('a \<Rightarrow> thrown + bool) \<Rightarrow> 'a list \<Rightarrow> thrown + bool" where
  "some_result p [] = Inr False"
| "some_result p (x # xs) = bind_result (p x) (\<lambda>b. if b then Inr True else some_result p xs)"

fun filter_result :: "('a \<Rightarrow> thrown + bool) \<Rightarrow> 'a list \<Rightarrow> thrown + 'a list" where
  "filter_result p [] = Inr []"
| "filter_result p (x # xs) =
     bind_result (p x) (\<lambda>b. bind_result (filter_result p xs) (\<lambda>ys. Inr (if b then x # ys else ys)))"

lemma some_result_True: "some_result p xs = Inr True \<Longrightarrow> \<exists>x \<in> set xs. p x = Inr True"
  by (induction xs) (auto simp: bind_result_Inr split: if_splits)

lemma some_result_False: "some_result p xs = Inr False \<longleftrightarrow> (\<forall>x \<in> set xs. p x = Inr False)"
  by (induction xs) (auto simp: bind_result_Inr split: if_splits)

lemma filter_result_Inr:
  "filter_result p xs = Inr ys \<Longrightarrow> (\<forall>x \<in> set xs. \<exists>b. p x = Inr b) \<and> ys = filter (\<lambda>x. p x = Inr True) xs"
  by (induction xs arbitrary: ys) (auto simp: bind_result_Inr split: if_splits)

lemma filter_result_I:
  "\<forall>x \<in> set xs. p x = Inr (P x) \<Longrightarrow> filter_result p xs = Inr (filter P xs)"
  by (induction xs) auto

fun all_asserted :: "('a \<Rightarrow> thrown + unit) \<Rightarrow> 'a list \<Rightarrow> thrown + unit" where
  "all_asserted f [] = Inr ()"
| "all_asserted f (x # xs) = bind_result (f x) (\<lambda>_. all_asserted f xs)"

lemma all_asserted_Inr: "all_asserted f xs = Inr u \<longleftrightarrow> (\<forall>x \<in> set xs. f x = Inr ())"
  by (induction xs) (auto simp: bind_result_Inr)

lemma elements_member: "x \<in> set (elements v) \<longleftrightarrow> (\<exists>vs. v = Some (JArr vs) \<and> x \<in> set vs)"
  by (auto simp: elements_def split: option.splits json.splits)

lemma assert_that_Inr [simp]: "assert_that b m = Inr u \<longleftrightarrow> b"
  by (simp add: assert_that_def)

lemma assert_that_True [simp]: "assert_that True m = Inr ()"
  by (simp add: assert_that_def)

lemma get_property_Inr [simp]:
  "get_property value k = Inr r \<longleftrightarrow> (\<exists>v. value = Some v \<and> v \<noteq> JNull \<and> r = json_field v k)"
  by (auto simp: get_property_def split: option.splits)

subsection \<open>Serialising with an indentation of two\<close>

definition line_break :: "nat \<Rightarrow> string" where
  "line_break n = CHR 0x0A # replicate n (CHR '' '')"

fun json_pretty :: "nat \<Rightarrow> json \<Rightarrow> string" where
  "json_pretty n (JArr vs) =
     (if vs = [] then ''[]''
      else ''['' @ line_break (n + 2) @ join_with ('','' @ line_break (n + 2)) (map (json_pretty (n + 2)) vs)
        @ line_break n @ '']'')"
| "json_pretty n (JObj fs) =
     (if fs = [] then ''{}''
      else ''{'' @ line_break (n + 2)
        @ join_with ('','' @ line_break (n + 2)) (map (\<lambda>(k, v). json_quote k @ '': '' @ json_pretty (n + 2) v) fs)
        @ line_break n @ ''}'')"
| "json_pretty n v = json_stringify v"

definition serialized :: "json \<Rightarrow> string" where
  "serialized document = json_pretty 0 document @ [CHR 0x0A]"

end
