(* ===== verification/SeccompBuilder.thy ===== *)
theory SeccompBuilder
  imports Assertions SeccompProfile
begin

text \<open>
  \<open>scripts/seccomp-profile.mjs\<close>: how the reviewed profile is derived from the pinned Moby profile,
  written with its provenance, and checked against both. SHA-256, \<open>JSON.parse\<close> and the
  decoding of bytes are arguments; a download is what the two \<open>fetch\<close> calls gave.
\<close>

subsection \<open>The pinned documents and the added rules\<close>

definition upstream_sha256 :: string where
  "upstream_sha256 = ''536529b665dd0972c37bfb569f5d4ac8a53592e7b00752bc39ff063ca9864c74''"

definition license_sha256 :: string where
  "license_sha256 = ''cfc7749b96f63bd31c3c42b5c471bf756814053e847c10f3eb003417bc523d30''"

definition upstream :: json where
  "upstream = JObj
     [(''repository'', JStr ''https://github.com/moby/profiles''),
      (''raw_url'', JStr ''https://raw.githubusercontent.com/moby/profiles/f9bc03ec19b2dc4c091449b08e88f85c0caa9f0b/seccomp/default.json''),
      (''commit'', JStr ''f9bc03ec19b2dc4c091449b08e88f85c0caa9f0b''),
      (''path'', JStr ''seccomp/default.json''),
      (''sha256'', JStr upstream_sha256),
      (''license'', JObj
        [(''spdx'', JStr ''Apache-2.0''),
         (''path'', JStr ''LICENSE''),
         (''raw_url'', JStr ''https://raw.githubusercontent.com/moby/profiles/f9bc03ec19b2dc4c091449b08e88f85c0caa9f0b/LICENSE''),
         (''sha256'', JStr license_sha256)])]"

definition supportedArchMap :: json where
  "supportedArchMap = JArr
     [JObj [(''architecture'', JStr ''SCMP_ARCH_X86_64''), (''subArchitectures'', JNull)],
      JObj [(''architecture'', JStr ''SCMP_ARCH_AARCH64''), (''subArchitectures'', JNull)]]"

definition bubblewrapCloneFlags :: "json list" where
  "bubblewrapCloneFlags = [JNum (Integer 0x54020011), JNum (Integer 0x5c020011), JNum (Integer 0x1c020011)]"

definition equal_first_argument :: "json \<Rightarrow> json" where
  "equal_first_argument flags =
     JArr [JObj [(''index'', JNum (Integer 0)), (''value'', flags), (''op'', JStr ''SCMP_CMP_EQ'')]]"

definition namespaceSetupRules :: "json list" where
  "namespaceSetupRules =
     [JObj [(''names'', JArr [JStr ''mount'', JStr ''pivot_root'', JStr ''umount2'']),
        (''action'', JStr ''SCMP_ACT_ALLOW''),
        (''comment'', JStr ''Fireball: permit bubblewrap to construct the nested WebKit mount namespace'')],
      JObj [(''names'', JArr [JStr ''unshare'']),
        (''action'', JStr ''SCMP_ACT_ALLOW''),
        (''args'', equal_first_argument (JNum (Integer 0x10000000))),
        (''comment'', JStr ([CHR ''F''] @ ''ireball: permit bubblewrap'' @ [CHR 0x27] @ ''s exact second-level CLONE_NEWUSER setup'')),
        (''includes'', JObj [(''arches'', JArr [JStr ''amd64'', JStr ''arm64''])])]]
     @ map (\<lambda>flags. JObj [(''names'', JArr [JStr ''clone'']),
        (''action'', JStr ''SCMP_ACT_ALLOW''),
        (''args'', equal_first_argument flags),
        (''comment'', JStr ''Fireball: permit one exact WPE bubblewrap namespace flag set''),
        (''includes'', JObj [(''arches'', JArr [JStr ''amd64'', JStr ''arm64''])])]) bubblewrapCloneFlags"

subsection \<open>Reading rules\<close>

text \<open>\<open>rule.names?.includes(syscall)\<close> as a condition; a string has an \<open>includes\<close> too.\<close>

definition names_include :: "json \<Rightarrow> string \<Rightarrow> thrown + bool" where
  "names_include rule syscall =
     bind_result (get_property (Some rule) ''names'') (\<lambda>names.
       case names of
         None \<Rightarrow> Inr False
       | Some JNull \<Rightarrow> Inr False
       | Some (JArr vs) \<Rightarrow> Inr (JStr syscall \<in> set vs)
       | Some (JStr s) \<Rightarrow> Inr (occurs_in syscall s)
       | Some _ \<Rightarrow> Inl type_error)"

text \<open>\<open>rule.action === action && guard && rule.names?.includes(syscall) && rest\<close>.\<close>

definition rule_matches :: "json \<Rightarrow> string \<Rightarrow> bool \<Rightarrow> string \<Rightarrow> bool \<Rightarrow> thrown + bool" where
  "rule_matches rule action guard syscall rest =
     bind_result (get_property (Some rule) ''action'') (\<lambda>a.
       if a = Some (JStr action) \<and> guard
       then bind_result (names_include rule syscall) (\<lambda>n. Inr (n \<and> rest))
       else Inr False)"

definition hasUnconditionalAllow :: "json \<Rightarrow> string \<Rightarrow> thrown + bool" where
  "hasUnconditionalAllow document syscall =
     some_result (\<lambda>rule. rule_matches rule ''SCMP_ACT_ALLOW'' True syscall
         (\<not> truthy (json_field rule ''args'') \<and> \<not> truthy (json_field rule ''includes'')))
       (elements (json_field document ''syscalls''))"

text \<open>\<open>args[0]?.op\<close> and its like.\<close>

definition first_argument :: "json \<Rightarrow> string \<Rightarrow> json option" where
  "first_argument rule key =
     Option.bind (Option.bind (json_field rule ''args'') index_zero) (\<lambda>v. json_field v key)"

definition exact_flag_sets :: "json \<Rightarrow> string \<Rightarrow> thrown + json option list" where
  "exact_flag_sets profile syscall =
     bind_result (filter_result (\<lambda>rule. rule_matches rule ''SCMP_ACT_ALLOW'' True syscall (truthy (json_field rule ''args'')))
         (elements (json_field profile ''syscalls'')))
       (\<lambda>rules. Inr (map (\<lambda>rule. first_argument rule ''value'')
          (filter (\<lambda>rule. first_argument rule ''op'' = Some (JStr ''SCMP_CMP_EQ'')) rules)))"

definition not_unconditional :: "json \<Rightarrow> string \<Rightarrow> thrown + unit" where
  "not_unconditional document syscall =
     bind_result (hasUnconditionalAllow document syscall) (\<lambda>b. assert_that (\<not> b) failed_assertion)"

subsection \<open>Building\<close>

definition validateBase :: "json \<Rightarrow> thrown + unit" where
  "validateBase document =
     bind_result (get_property (Some document) ''defaultAction'') (\<lambda>action.
     bind_result (assert_that (action = Some (JStr ''SCMP_ACT_ERRNO'')) failed_assertion) (\<lambda>_.
     bind_result (assert_that (json_field document ''defaultErrnoRet'' = Some (JNum (Integer 1))) failed_assertion) (\<lambda>_.
     bind_result (assert_that (is_array (json_field document ''syscalls'')) failed_assertion) (\<lambda>_.
     bind_result (assert_that (30 \<le> length (elements (json_field document ''syscalls''))) failed_assertion) (\<lambda>_.
     bind_result (some_result (\<lambda>rule. rule_matches rule ''SCMP_ACT_ERRNO''
         (json_field rule ''errnoRet'' = Some (JNum (Integer 38))) ''clone3'' True)
       (elements (json_field document ''syscalls''))) (\<lambda>clone3.
     bind_result (assert_that clone3 failed_assertion) (\<lambda>_.
     bind_result (not_unconditional document ''clone'') (\<lambda>_.
     all_asserted (not_unconditional document) [''mount'', ''pivot_root'', ''umount2'', ''unshare'', ''setns'']))))))))"

definition validateDerivative :: "json \<Rightarrow> json \<Rightarrow> thrown + unit" where
  "validateDerivative profile base =
     (let calls = elements (json_field profile ''syscalls''); n = length namespaceSetupRules in
     bind_result (assert_that (json_field profile ''defaultAction'' = Some (JStr ''SCMP_ACT_ERRNO'')) failed_assertion) (\<lambda>_.
     bind_result (assert_that (case json_field profile ''archMap'' of None \<Rightarrow> False | Some m \<Rightarrow> deep_equal m supportedArchMap)
       failed_assertion) (\<lambda>_.
     bind_result (assert_that (deep_equal (JArr (take n calls)) (JArr namespaceSetupRules)) failed_assertion) (\<lambda>_.
     bind_result (assert_that (deep_equal (JArr (drop n calls)) (JArr (elements (json_field base ''syscalls'')))) failed_assertion) (\<lambda>_.
     bind_result (all_asserted (not_unconditional profile) [''clone'', ''clone3'', ''unshare'', ''setns'']) (\<lambda>_.
     bind_result (exact_flag_sets profile ''clone'') (\<lambda>clone.
     bind_result (assert_that (clone = map Some bubblewrapCloneFlags) failed_assertion) (\<lambda>_.
     bind_result (exact_flag_sets profile ''unshare'') (\<lambda>unshare.
     assert_that (unshare = [Some (JNum (Integer 0x10000000))]) failed_assertion)))))))))"

text \<open>Assigning a property keeps its place, or appends it; a clone of a JSON value is the value.\<close>

fun set_property :: "string \<Rightarrow> json \<Rightarrow> json \<Rightarrow> json" where
  "set_property k v (JObj fs) =
     JObj (if k \<in> fst ` set fs then map (\<lambda>(k', w). if k' = k then (k', v) else (k', w)) fs else fs @ [(k, v)])"
| "set_property k v document = document"

definition buildProfile :: "json \<Rightarrow> thrown + json" where
  "buildProfile base =
     bind_result (validateBase base) (\<lambda>_.
       let profile = set_property ''syscalls''
             (JArr (namespaceSetupRules @ elements (json_field base ''syscalls'')))
             (set_property ''archMap'' supportedArchMap base) in
       bind_result (validateDerivative profile base) (\<lambda>_. Inr profile))"

subsection \<open>Generating and checking the files\<close>

type_synonym store = "string \<Rightarrow> bytes option"

definition upstreamPath :: string where "upstreamPath = ''deploy/seccomp/moby-default.json''"
definition profilePath :: string where "profilePath = ''deploy/seccomp/fireball-session.json''"
definition provenancePath :: string where "provenancePath = ''deploy/seccomp/fireball-session.provenance.json''"
definition licensePath :: string where "licensePath = ''deploy/seccomp/LICENSE-MOBY-PROFILES-APACHE-2.0''"

lemmas path_defs = upstreamPath_def profilePath_def provenancePath_def licensePath_def

datatype write_outcome = Written | NoDirectory string | WriteFails string bytes | RenameFails string

definition atomicWrite :: "write_outcome \<Rightarrow> string \<Rightarrow> bytes \<Rightarrow> store \<Rightarrow> (thrown + unit) \<times> store" where
  "atomicWrite outcome url content s =
     (let temporary = url @ ''.tmp'' in
      case outcome of
        Written \<Rightarrow> (Inr (), s(temporary := None, url := Some content))
      | NoDirectory e \<Rightarrow> (Inl (PlainError e), s)
      | WriteFails e part \<Rightarrow> (Inl (PlainError e), s(temporary := Some part))
      | RenameFails e \<Rightarrow> (Inl (PlainError e), s(temporary := Some content)))"

fun atomic_writes :: "(write_outcome \<times> string \<times> bytes) list \<Rightarrow> store \<Rightarrow> (thrown + unit) \<times> store" where
  "atomic_writes [] s = (Inr (), s)"
| "atomic_writes ((outcome, url, content) # ws) s =
     (case atomicWrite outcome url content s of
        (Inr _, t) \<Rightarrow> atomic_writes ws t
      | (Inl e, t) \<Rightarrow> (Inl e, t))"

definition platforms :: json where "platforms = JArr [JStr ''linux/amd64'', JStr ''linux/arm64'']"
definition unshare_flags :: json where "unshare_flags = JArr [JNum (Integer 0x10000000)]"
definition setup_syscalls :: json where "setup_syscalls = JArr [JStr ''mount'', JStr ''pivot_root'', JStr ''umount2'']"
definition not_allowed :: json where "not_allowed = JArr [JStr ''clone3'', JStr ''setns'']"

definition provenance :: "string \<Rightarrow> json" where
  "provenance checksum = JObj
     [(''schema_version'', JNum (Integer 1)),
      (''upstream'', upstream),
      (''supported_platforms'', platforms),
      (''policy'', JObj
        [(''default_action'', JStr ''SCMP_ACT_ERRNO''),
         (''exact_clone_flag_sets'', JArr bubblewrapCloneFlags),
         (''exact_unshare_flag_sets'', unshare_flags),
         (''namespace_setup_syscalls'', setup_syscalls),
         (''explicitly_not_allowed'', not_allowed),
         (''pid_namespace'', JStr ''tenant-container''),
         (''proc_mount'', JStr ''read-only bind of container procfs'')]),
      (''generated_profile_sha256'', JStr checksum)]"

text \<open>A response whose body was read: \<open>ok\<close>, \<open>status\<close> and the bytes.\<close>

type_synonym download = "bool \<times> nat \<times> bytes"

definition derive_profile ::
  "(bytes \<Rightarrow> string) \<Rightarrow> (bytes \<Rightarrow> json option) \<Rightarrow> thrown + download \<times> download \<Rightarrow> thrown + bytes \<times> bytes \<times> json" where
  "derive_profile sha256 json_parse downloads =
     bind_result downloads (\<lambda>((ok, status, raw), (licenseOk, licenseStatus, rawLicense)).
     bind_result (assert_that ok (''failed to download pinned Moby profile ('' @ show_nat status @ '')'')) (\<lambda>_.
     bind_result (assert_that licenseOk (''failed to download pinned Moby license ('' @ show_nat licenseStatus @ '')'')) (\<lambda>_.
     bind_result (assert_that (sha256 raw = upstream_sha256) ''pinned Moby profile checksum mismatch'') (\<lambda>_.
     bind_result (assert_that (sha256 rawLicense = license_sha256) ''pinned Moby license checksum mismatch'') (\<lambda>_.
     case json_parse raw of
       None \<Rightarrow> Inl (PlainError ''invalid JSON'')
     | Some base \<Rightarrow> bind_result (buildProfile base) (\<lambda>profile. Inr (raw, rawLicense, profile)))))))"

definition generate ::
  "(bytes \<Rightarrow> string) \<Rightarrow> (bytes \<Rightarrow> json option) \<Rightarrow> thrown + download \<times> download \<Rightarrow> (nat \<Rightarrow> write_outcome) \<Rightarrow> store
   \<Rightarrow> (thrown + unit) \<times> store" where
  "generate sha256 json_parse downloads outcomes s =
     (case derive_profile sha256 json_parse downloads of
        Inl e \<Rightarrow> (Inl e, s)
      | Inr (raw, rawLicense, profile) \<Rightarrow>
          let profileContent = utf8 (serialized profile) in
          atomic_writes
            [(outcomes 0, upstreamPath, raw),
             (outcomes 1, profilePath, profileContent),
             (outcomes 2, provenancePath, utf8 (serialized (provenance (sha256 profileContent)))),
             (outcomes 3, licensePath, rawLicense)] s)"

definition deep_property :: "json option \<Rightarrow> string \<Rightarrow> json \<Rightarrow> thrown + unit" where
  "deep_property value key expected =
     bind_result (get_property value key) (\<lambda>found.
       assert_that (case found of None \<Rightarrow> False | Some v \<Rightarrow> deep_equal v expected) failed_assertion)"

definition check_provenance :: "json \<Rightarrow> string \<Rightarrow> thrown + unit" where
  "check_provenance document checksum =
     bind_result (assert_that (document \<noteq> JNull) ''TypeError'') (\<lambda>_.
     bind_result (assert_that (sort_strings (json_keys document) =
         [''generated_profile_sha256'', ''policy'', ''schema_version'', ''supported_platforms'', ''upstream''])
       failed_assertion) (\<lambda>_.
     bind_result (all_asserted (\<lambda>(key, expected). deep_property (Some document) key expected)
       [(''schema_version'', JNum (Integer 1)), (''upstream'', upstream), (''supported_platforms'', platforms),
        (''generated_profile_sha256'', JStr checksum)]) (\<lambda>_.
     all_asserted (\<lambda>(key, expected). deep_property (json_field document ''policy'') key expected)
       [(''exact_clone_flag_sets'', JArr bubblewrapCloneFlags), (''exact_unshare_flag_sets'', unshare_flags),
        (''namespace_setup_syscalls'', setup_syscalls), (''explicitly_not_allowed'', not_allowed),
        (''pid_namespace'', JStr ''tenant-container''), (''proc_mount'', JStr ''read-only bind of container procfs'')])))"

definition check_files ::
  "(bytes \<Rightarrow> string) \<Rightarrow> (bytes \<Rightarrow> json option) \<Rightarrow> (bytes \<Rightarrow> string) \<Rightarrow> store \<Rightarrow> thrown + unit" where
  "check_files sha256 json_parse to_text s =
     (case (s upstreamPath, s profilePath, s provenancePath, s licensePath) of
        (Some rawBase, Some rawProfile, Some rawProvenance, Some rawLicense) \<Rightarrow>
          bind_result (assert_that (sha256 rawBase = upstream_sha256) ''vendored Moby profile checksum changed'') (\<lambda>_.
          bind_result (assert_that (sha256 rawLicense = license_sha256) ''vendored Moby license checksum changed'') (\<lambda>_.
          case json_parse rawBase of
            None \<Rightarrow> Inl (PlainError ''invalid JSON'')
          | Some base \<Rightarrow>
              bind_result (buildProfile base) (\<lambda>expectedProfile.
              let expectedContent = serialized expectedProfile in
              bind_result (assert_that (to_text rawProfile = expectedContent) ''generated seccomp profile is stale'') (\<lambda>_.
              case json_parse rawProvenance of
                None \<Rightarrow> Inl (PlainError ''invalid JSON'')
              | Some document \<Rightarrow> check_provenance document (sha256 (utf8 expectedContent))))))
      | _ \<Rightarrow> Inl (PlainError ''ENOENT''))"

end
