(* ===== verification/SeccompBuilderProperties.thy ===== *)
theory SeccompBuilderProperties
  imports SeccompBuilder
begin

text \<open>
  What \<open>scripts/seccomp-profile.mjs\<close> guarantees: a profile it builds is one the orchestrator's own
  reader accepts, and the files it generates pass its own check.
\<close>

subsection \<open>Reading a passed assertion\<close>












subsection \<open>Built profiles\<close>








definition example_base :: json where
  "example_base = JObj
     [(''defaultAction'', JStr ''SCMP_ACT_ERRNO''), (''defaultErrnoRet'', JNum (Integer 1)),
      (''syscalls'', JArr (JObj [(''names'', JArr [JStr ''clone3'']), (''action'', JStr ''SCMP_ACT_ERRNO''),
         (''errnoRet'', JNum (Integer 38))] # replicate 29 (JObj [])))]"

definition example_profile :: json where
  "example_profile = (case buildProfile example_base of Inr profile \<Rightarrow> profile | Inl _ \<Rightarrow> JNull)"

lemma example_built: "buildProfile example_base = Inr example_profile"
proof -
  have "case buildProfile example_base of Inr _ \<Rightarrow> True | Inl _ \<Rightarrow> False" by code_simp
  then show ?thesis by (simp add: example_profile_def split: sum.splits)
qed


subsection \<open>Generated files\<close>

lemma atomic_writes_Inr:
  "atomic_writes ws s = (Inr u, t) \<Longrightarrow>
   t = foldl (\<lambda>s (outcome, url, content). s(url @ ''.tmp'' := None, url := Some content)) s ws"
  by (induction ws arbitrary: s) (auto simp: atomicWrite_def Let_def split: write_outcome.splits)

lemma distinct_paths:
  "upstreamPath \<noteq> profilePath" "upstreamPath \<noteq> provenancePath" "upstreamPath \<noteq> licensePath" "profilePath \<noteq> provenancePath"
  "profilePath \<noteq> licensePath" "provenancePath \<noteq> licensePath"
  by (simp_all add: path_defs)

lemma not_temporary:
  "p \<in> {upstreamPath, profilePath, provenancePath, licensePath} \<Longrightarrow> p \<noteq> q @ ''.tmp''"
proof
  assume "p \<in> {upstreamPath, profilePath, provenancePath, licensePath}" and "p = q @ ''.tmp''"
  then have "last p \<in> {CHR ''n'', CHR ''0''}" and "last p = CHR ''p''" by (auto simp: path_defs)
  then show False by simp
qed

text \<open>Whatever fails, a file that is replaced is replaced whole.\<close>

lemma atomic_writes_whole:
  "atomic_writes ws s = (r, t) \<Longrightarrow> \<forall>(_, url, _) \<in> set ws. p \<noteq> url @ ''.tmp'' \<Longrightarrow>
   t p = s p \<or> (\<exists>outcome content. (outcome, p, content) \<in> set ws \<and> t p = Some content)"
proof (induction ws arbitrary: s)
  case (Cons w ws)
  obtain outcome url content where w: "w = (outcome, url, content)" by (cases w)
  from Cons.prems Cons.IH show ?case
    by (fastforce simp: w atomicWrite_def Let_def split: write_outcome.splits if_splits)
qed simp

lemma provenance_checks: "check_provenance (provenance c) c = Inr ()"
proof -
  have keys: "sort_strings (json_keys (provenance c)) =
      [''generated_profile_sha256'', ''policy'', ''schema_version'', ''supported_platforms'', ''upstream'']"
  proof -
    have "json_keys (provenance c) = [''schema_version'', ''upstream'', ''supported_platforms'', ''policy'', ''generated_profile_sha256'']"
      by (simp add: provenance_def)
    moreover have "sort_strings [''schema_version'', ''upstream'', ''supported_platforms'', ''policy'', ''generated_profile_sha256''] =
      [''generated_profile_sha256'', ''policy'', ''schema_version'', ''supported_platforms'', ''upstream'']" by code_simp
    ultimately show ?thesis by simp
  qed
  have equal: "deep_equal v v" if "v \<in> {upstream, platforms, unshare_flags, setup_syscalls, not_allowed, JArr bubblewrapCloneFlags}" for v
  proof -
    have "js_value v"
      using that by (auto simp: upstream_def platforms_def unshare_flags_def setup_syscalls_def not_allowed_def bubblewrapCloneFlags_def)
    then show ?thesis by (rule deep_equal_refl)
  qed
  show ?thesis unfolding check_provenance_def keys
    by (simp add: deep_property_def get_property_def equal del: deep_equal.simps(1,2))
      (simp add: provenance_def equal del: deep_equal.simps(1,2))
qed

text \<open>
  When \<open>generate\<close> succeeds, \<open>check\<close> passes on the files it leaves: the vendored
  documents have the pinned checksums, the profile is the one built from the vendored base, and the
  provenance names it. When it fails, whatever call it fails in, each of the four files is the old one or the
  complete new one. Decoding is assumed to invert UTF-8, and \<open>JSON.parse\<close> the serialisation of the provenance.
\<close>

lemma generated_files_pass_the_check:
  assumes "generate sha256 json_parse downloads outcomes s = (r, t)"
    and "\<And>text. to_text (utf8 text) = text"
    and "\<And>profile. let document = provenance (sha256 (utf8 (serialized profile))) in
      json_parse (utf8 (serialized document)) = Some document"
  shows "(r = Inr () \<longrightarrow> check_files sha256 json_parse to_text t = Inr ())
    \<and> (\<forall>p \<in> {upstreamPath, profilePath, provenancePath, licensePath}.
         t p = s p \<or> (\<exists>raw rawLicense profile. derive_profile sha256 json_parse downloads = Inr (raw, rawLicense, profile)
           \<and> t p = Some (if p = upstreamPath then raw else if p = licensePath then rawLicense
               else if p = profilePath then utf8 (serialized profile)
               else utf8 (serialized (provenance (sha256 (utf8 (serialized profile))))))))"
proof (cases "derive_profile sha256 json_parse downloads")
  case (Inl e)
  with assms(1) show ?thesis by (auto simp: generate_def)
next
  case (Inr d)
  obtain raw rawLicense profile where d: "derive_profile sha256 json_parse downloads = Inr (raw, rawLicense, profile)"
    using Inr by (cases d) auto
  let ?content = "utf8 (serialized profile)"
  let ?writes = "[(outcomes 0, upstreamPath, raw), (outcomes 1, profilePath, ?content),
      (outcomes 2, provenancePath, utf8 (serialized (provenance (sha256 ?content)))), (outcomes 3, licensePath, rawLicense)]"
  from assms(1) d have written: "atomic_writes ?writes s = (r, t)" by (simp add: generate_def Let_def)
  note paths = distinct_paths distinct_paths [symmetric] not_temporary [of upstreamPath] not_temporary [of profilePath]
    not_temporary [of provenancePath] not_temporary [of licensePath]
  have whole: "t p = s p \<or> (\<exists>outcome content. (outcome, p, content) \<in> set ?writes \<and> t p = Some content)"
    if "p \<in> {upstreamPath, profilePath, provenancePath, licensePath}" for p
    by (rule atomic_writes_whole [OF written]) (use that not_temporary in auto)
  have "check_files sha256 json_parse to_text t = Inr ()" if "r = Inr ()"
  proof -
    from d obtain base where pinned: "sha256 raw = upstream_sha256" "sha256 rawLicense = license_sha256"
      "json_parse raw = Some base" "buildProfile base = Inr profile"
      unfolding derive_profile_def by (auto simp: bind_result_Inr split: option.splits)
    have "t upstreamPath = Some raw" "t profilePath = Some ?content" "t licensePath = Some rawLicense"
      "t provenancePath = Some (utf8 (serialized (provenance (sha256 ?content))))"
      unfolding atomic_writes_Inr [OF written [unfolded that]] by (simp_all add: paths)
    with pinned assms(2) assms(3) [of profile] provenance_checks show ?thesis by (simp add: check_files_def Let_def)
  qed
  moreover have "t p = s p \<or>
      t p = Some (if p = upstreamPath then raw else if p = licensePath then rawLicense
               else if p = profilePath then ?content else utf8 (serialized (provenance (sha256 ?content))))"
    if "p \<in> {upstreamPath, profilePath, provenancePath, licensePath}" for p
    using whole [OF that]
    by (simp only: list.set insert_iff empty_iff prod.inject) (elim disjE exE conjE; simp add: paths)
  ultimately show ?thesis using d by simp
qed

definition example_hash :: "bytes \<Rightarrow> string" where
  "example_hash b = (if b = [7] then upstream_sha256 else license_sha256)"

definition example_parse :: "bytes \<Rightarrow> json option" where
  "example_parse b = Some (if b = [7] then example_base else provenance license_sha256)"

lemma serialized_not_seven: "utf8 (serialized d) \<noteq> [7]"
proof
  assume "utf8 (serialized d) = [7]"
  moreover have "last (utf8 (serialized d)) = 10" by (simp add: serialized_def utf8_def utf8_char_def code_def)
  ultimately show False by simp
qed

lemma example_pinned:
  "derive_profile example_hash example_parse (Inr ((True, 200, [7]), (True, 200, [3]))) = Inr ([7], [3], example_profile)"
  by (simp add: derive_profile_def example_hash_def example_parse_def example_built)

lemma generated_files_pass_the_check_witness:
  "\<exists>t. generate example_hash example_parse (Inr ((True, 200, [7]), (True, 200, [3]))) (\<lambda>_. Written) (\<lambda>_. None) = (Inr (), t)
     \<and> check_files example_hash example_parse utf8_decode t = Inr ()"
proof -
  obtain t where t: "generate example_hash example_parse (Inr ((True, 200, [7]), (True, 200, [3]))) (\<lambda>_. Written) (\<lambda>_. None)
      = (Inr (), t)"
    by (auto simp add: generate_def example_pinned Let_def atomicWrite_def)
  have "let document = provenance (example_hash (utf8 (serialized profile))) in
      example_parse (utf8 (serialized document)) = Some document" for profile
    by (simp add: example_hash_def example_parse_def serialized_not_seven)
  from generated_files_pass_the_check [OF t utf8_roundtrip this] t show ?thesis by blast
qed

end
