(* ===== verification/CandidateEvidence.thy ===== *)
theory CandidateEvidence
  imports Assertions FileSystem
begin

text \<open>
  \<open>scripts/session-candidate-evidence.mjs\<close>: the records that bind a released image to its
  source. SHA-256, \<open>JSON.parse\<close>, \<open>Date\<close>, \<open>Number(text)\<close> and the opened files are the fields of an environment;
  a file is what the two \<open>fstat\<close> calls and the read saw of it, and reading it twice gives the same.
\<close>

record descriptor_stat =
  ds_isFile :: bool
  ds_dev :: int
  ds_ino :: int
  ds_size :: int
  ds_mtimeNs :: int
  ds_ctimeNs :: int

record opened_evidence =
  ev_before :: descriptor_stat
  ev_bytes :: bytes
  ev_after :: descriptor_stat

record evidence_environment =
  env_sha256 :: "bytes \<Rightarrow> string"
  env_parse :: "bytes \<Rightarrow> json option"
  env_iso :: "string \<Rightarrow> string option"
  env_number :: "string \<Rightarrow> number"
  env_now :: string
  env_cwd :: string
  env_open :: "string \<Rightarrow> thrown + opened_evidence"

subsection \<open>Patterns\<close>

definition matches_sha256 :: "string \<Rightarrow> bool" where
  "matches_sha256 s = (starts_with ''sha256:'' s \<and> length s = 71 \<and> list_all is_lower_hex (drop 7 s))"

definition matches_commit :: "string \<Rightarrow> bool" where
  "matches_commit s = (length s = 40 \<and> list_all is_lower_hex s)"

definition matches_repository :: "string \<Rightarrow> bool" where
  "matches_repository s =
     (let owner = takeWhile is_label_char s; rest = dropWhile is_label_char s in
      owner \<noteq> [] \<and> starts_with ''/'' rest \<and> tl rest \<noteq> [] \<and> list_all is_label_char (tl rest))"

definition is_image_char :: "char \<Rightarrow> bool" where
  "is_image_char c = (is_lower c \<or> is_digit c \<or> c \<in> {CHR ''_'', CHR ''.'', CHR ''-''})"

definition matches_image :: "string \<Rightarrow> bool" where
  "matches_image s =
     (starts_with ''ghcr.io/'' s \<and>
      (let owner = takeWhile is_image_char (drop 8 s); rest = dropWhile is_image_char (drop 8 s) in
       owner \<noteq> [] \<and> starts_with ''/'' rest \<and> tl rest \<noteq> []
       \<and> list_all (\<lambda>c. is_image_char c \<or> c = CHR ''/'') (tl rest)))"

definition matches_safe_file :: "string \<Rightarrow> bool" where
  "matches_safe_file s =
     (s \<noteq> [] \<and> length s \<le> 128 \<and> (is_lower (hd s) \<or> is_digit (hd s)) \<and> list_all is_image_char (tl s))"

definition matches_spdx_version :: "string \<Rightarrow> bool" where
  "matches_spdx_version s = (starts_with ''SPDX-2.'' s \<and> drop 7 s \<noteq> [] \<and> list_all is_digit (drop 7 s))"

definition PLATFORM_ORDER :: "string list" where
  "PLATFORM_ORDER = [''linux/amd64'', ''linux/arm64'']"

definition INDEX_MEDIA_TYPES :: "string list" where
  "INDEX_MEDIA_TYPES =
     [''application/vnd.oci.image.index.v1+json'', ''application/vnd.docker.distribution.manifest.list.v2+json'']"

definition MANIFEST_MEDIA_TYPES :: "string list" where
  "MANIFEST_MEDIA_TYPES =
     [''application/vnd.oci.image.manifest.v1+json'', ''application/vnd.docker.distribution.manifest.v2+json'']"

subsection \<open>Checks of single values\<close>

text \<open>\<open>document.key\<close> for a document that was checked to be an object.\<close>

definition member :: "json option \<Rightarrow> string \<Rightarrow> json option" where
  "member document key = Option.bind document (\<lambda>d. json_field d key)"

definition keys_of :: "json option \<Rightarrow> string list" where
  "keys_of document = (case document of None \<Rightarrow> [] | Some d \<Rightarrow> json_keys d)"

definition is_object :: "json option \<Rightarrow> bool" where
  "is_object document = (case document of None \<Rightarrow> False | Some d \<Rightarrow> json_object d)"

definition exactKeys :: "json option \<Rightarrow> string list \<Rightarrow> string \<Rightarrow> thrown + unit" where
  "exactKeys document expected label =
     bind_result (assert_that (is_object document) (label @ '' must be an object'')) (\<lambda>_.
     assert_that (sort_strings (keys_of document) = sort_strings expected) (label @ '' has unexpected fields''))"

definition is_control :: "char \<Rightarrow> bool" where
  "is_control c = (code c < 32 \<or> code c = 127)"

definition nonEmptyString :: "json option \<Rightarrow> string \<Rightarrow> int \<Rightarrow> thrown + string" where
  "nonEmptyString v label limit =
     (case v of
        Some (JStr s) \<Rightarrow>
          bind_result (assert_that (0 < length s \<and> int (length s) \<le> limit \<and> trim s = s) (label @ '' is invalid'')) (\<lambda>_.
          bind_result (assert_that (\<not> list_ex is_control s) (label @ '' contains control characters'')) (\<lambda>_. Inr s))
      | _ \<Rightarrow> Inl (PlainError (label @ '' must be a string'')))"

definition matching :: "thrown + string \<Rightarrow> (string \<Rightarrow> bool) \<Rightarrow> string \<Rightarrow> thrown + unit" where
  "matching r pattern message = bind_result r (\<lambda>s. assert_that (pattern s) message)"

definition positiveInteger_member :: "json option \<Rightarrow> string \<Rightarrow> thrown + unit" where
  "positiveInteger_member v label =
     assert_that (case v of Some (JNum n) \<Rightarrow> isSafeInteger n \<and> (case n of Integer i \<Rightarrow> i > 0 | NonInteger \<Rightarrow> False) | _ \<Rightarrow> False)
       (label @ '' must be a positive integer'')"

definition digest :: "json option \<Rightarrow> string \<Rightarrow> thrown + unit" where
  "digest v label = matching (nonEmptyString v label 71) matches_sha256 (label @ '' must be a canonical SHA-256 digest'')"

definition platformParts :: "json option \<Rightarrow> thrown + string \<times> string" where
  "platformParts platform =
     (case platform of
        Some (JStr p) \<Rightarrow> if p \<in> set PLATFORM_ORDER then Inr (''linux'', drop 6 p) else Inl (PlainError ''unsupported platform'')
      | _ \<Rightarrow> Inl (PlainError ''unsupported platform''))"

definition is_string_of :: "json option \<Rightarrow> string list \<Rightarrow> bool" where
  "is_string_of v ss = (case v of Some (JStr s) \<Rightarrow> s \<in> set ss | _ \<Rightarrow> False)"

subsection \<open>Reading files\<close>

definition stableRead :: "evidence_environment \<Rightarrow> string \<Rightarrow> int \<Rightarrow> thrown + bytes" where
  "stableRead env path maximumBytes =
     (let resolved = resolve_path (env_cwd env) path in
      bind_result (env_open env resolved) (\<lambda>f.
        let before = ev_before f; after = ev_after f in
        bind_result (assert_that (ds_isFile before) (resolved @ '' must be a regular file'')) (\<lambda>_.
        bind_result (assert_that (0 < ds_size before \<and> ds_size before \<le> maximumBytes) (resolved @ '' has an invalid size'')) (\<lambda>_.
        bind_result (assert_that (ds_dev after = ds_dev before \<and> ds_ino after = ds_ino before \<and> ds_size after = ds_size before
          \<and> ds_mtimeNs after = ds_mtimeNs before \<and> ds_ctimeNs after = ds_ctimeNs before)
          (resolved @ '' changed while it was read'')) (\<lambda>_.
        bind_result (assert_that (int (length (ev_bytes f)) = ds_size before) (resolved @ '' was not read completely'')) (\<lambda>_.
        Inr (ev_bytes f)))))))"

definition parse_bytes :: "evidence_environment \<Rightarrow> bytes \<Rightarrow> thrown + json" where
  "parse_bytes env content = (case env_parse env content of None \<Rightarrow> Inl (PlainError ''invalid JSON'') | Some d \<Rightarrow> Inr d)"

definition parseJsonFile :: "evidence_environment \<Rightarrow> string \<Rightarrow> int \<Rightarrow> thrown + bytes \<times> json" where
  "parseJsonFile env path maximumBytes =
     bind_result (stableRead env path maximumBytes) (\<lambda>content.
     bind_result (parse_bytes env content) (\<lambda>document. Inr (content, document)))"

definition sha256 :: "evidence_environment \<Rightarrow> bytes \<Rightarrow> string" where
  "sha256 env content = ''sha256:'' @ env_sha256 env content"

subsection \<open>Platform records\<close>

definition validateSpdxDocument :: "json \<Rightarrow> thrown + unit" where
  "validateSpdxDocument document =
     (let d = Some document in
      bind_result (assert_that (is_object d) ''SBOM must be an object'') (\<lambda>_.
      bind_result (matching (nonEmptyString (member d ''spdxVersion'') ''SBOM spdxVersion'' 32) matches_spdx_version failed_assertion) (\<lambda>_.
      bind_result (assert_that (member d ''dataLicense'' = Some (JStr ''CC0-1.0'')) ''SBOM dataLicense must be CC0-1.0'') (\<lambda>_.
      bind_result (assert_that (member d ''SPDXID'' = Some (JStr ''SPDXRef-DOCUMENT'')) ''SBOM SPDXID is invalid'') (\<lambda>_.
      bind_result (nonEmptyString (member d ''name'') ''SBOM name'' 512) (\<lambda>_.
      assert_that (is_array (member d ''packages'') \<and> elements (member d ''packages'') \<noteq> []) ''SBOM must contain packages''))))))"

definition validate_blob :: "json option \<Rightarrow> string \<Rightarrow> thrown + unit" where
  "validate_blob blob label =
     bind_result (exactKeys blob [''mediaType'', ''digest'', ''size''] label) (\<lambda>_.
     bind_result (digest (member blob ''digest'') (label @ '' digest'')) (\<lambda>_.
     positiveInteger_member (member blob ''size'') (label @ '' size'')))"

definition validatePlatformManifest :: "json \<Rightarrow> string \<Rightarrow> thrown + unit" where
  "validatePlatformManifest document expectedPlatform =
     (let d = Some document in
      bind_result (exactKeys d [''schemaVersion'', ''mediaType'', ''config'', ''layers''] ''platform manifest'') (\<lambda>_.
      bind_result (assert_that (member d ''schemaVersion'' = Some (JNum (Integer 2))) ''platform manifest schemaVersion must be 2'') (\<lambda>_.
      bind_result (assert_that (is_string_of (member d ''mediaType'') MANIFEST_MEDIA_TYPES) ''unsupported platform manifest mediaType'') (\<lambda>_.
      bind_result (validate_blob (member d ''config'') ''platform manifest config'') (\<lambda>_.
      bind_result (assert_that (is_array (member d ''layers'') \<and> elements (member d ''layers'') \<noteq> [])
        ''platform manifest must contain layers'') (\<lambda>_.
      bind_result (all_asserted (\<lambda>layer. validate_blob (Some layer) ''platform manifest layer'') (elements (member d ''layers''))) (\<lambda>_.
      bind_result (platformParts (Some (JStr expectedPlatform))) (\<lambda>_. Inr ()))))))))"

definition validatePlatformRecord :: "json \<Rightarrow> thrown + json" where
  "validatePlatformRecord record =
     (let r = Some record; m = member r ''manifest''; b = member r ''sbom'' in
      bind_result (exactKeys r [''schema_version'', ''image'', ''source_commit'', ''platform'', ''digest'', ''manifest'', ''sbom'']
        ''platform record'') (\<lambda>_.
      bind_result (assert_that (member r ''schema_version'' = Some (JNum (Integer 1))) failed_assertion) (\<lambda>_.
      bind_result (matching (nonEmptyString (member r ''image'') ''image'' 512) matches_image
        ''image must be a canonical lowercase GHCR name'') (\<lambda>_.
      bind_result (matching (nonEmptyString (member r ''source_commit'') ''source_commit'' 40) matches_commit failed_assertion) (\<lambda>_.
      bind_result (platformParts (member r ''platform'')) (\<lambda>_.
      bind_result (digest (member r ''digest'') ''platform digest'') (\<lambda>_.
      bind_result (exactKeys m [''file'', ''sha256'', ''size''] ''manifest identity'') (\<lambda>_.
      bind_result (matching (nonEmptyString (member m ''file'') ''manifest file'' 128) matches_safe_file failed_assertion) (\<lambda>_.
      bind_result (assert_that (member m ''sha256'' = member r ''digest'') ''manifest checksum must equal platform digest'') (\<lambda>_.
      bind_result (positiveInteger_member (member m ''size'') ''manifest size'') (\<lambda>_.
      bind_result (exactKeys b [''file'', ''sha256'', ''size''] ''SBOM identity'') (\<lambda>_.
      bind_result (matching (nonEmptyString (member b ''file'') ''SBOM file'' 128) matches_safe_file failed_assertion) (\<lambda>_.
      bind_result (digest (member b ''sha256'') ''SBOM checksum'') (\<lambda>_.
      bind_result (positiveInteger_member (member b ''size'') ''SBOM size'') (\<lambda>_. Inr record)))))))))))))))"

definition file_identity :: "string \<Rightarrow> string \<Rightarrow> nat \<Rightarrow> json" where
  "file_identity file checksum n =
     JObj [(''file'', JStr file), (''sha256'', JStr checksum), (''size'', JNum (Integer (int n)))]"

definition createPlatformRecord ::
  "evidence_environment \<Rightarrow> string \<Rightarrow> string \<Rightarrow> string \<Rightarrow> string \<Rightarrow> string \<Rightarrow> string \<Rightarrow> thrown + json" where
  "createPlatformRecord env image_name sourceCommit platform manifestPath sbomPath expectedDigest =
     bind_result (matching (nonEmptyString (Some (JStr image_name)) ''image'' 512) matches_image failed_assertion) (\<lambda>_.
     bind_result (matching (nonEmptyString (Some (JStr sourceCommit)) ''source commit'' 40) matches_commit failed_assertion) (\<lambda>_.
     bind_result (digest (Some (JStr expectedDigest)) ''expected digest'') (\<lambda>_.
     bind_result (parseJsonFile env manifestPath (8 * 1024 * 1024)) (\<lambda>(manifest, document).
     bind_result (validatePlatformManifest document platform) (\<lambda>_.
     bind_result (assert_that (sha256 env manifest = expectedDigest)
       ''registry manifest bytes do not match the expected digest'') (\<lambda>_.
     bind_result (parseJsonFile env sbomPath (16 * 1024 * 1024)) (\<lambda>(sbom, sbomDocument).
     bind_result (validateSpdxDocument sbomDocument) (\<lambda>_.
     validatePlatformRecord (JObj
       [(''schema_version'', JNum (Integer 1)), (''image'', JStr image_name), (''source_commit'', JStr sourceCommit),
        (''platform'', JStr platform), (''digest'', JStr expectedDigest),
        (''manifest'', file_identity (basename manifestPath) expectedDigest (length manifest)),
        (''sbom'', file_identity (basename sbomPath) (sha256 env sbom) (length sbom))])))))))))"

subsection \<open>The index\<close>

text \<open>A value inside a template literal: an array prints its elements.\<close>

fun to_text :: "json \<Rightarrow> string" where
  "to_text JNull = ''null''"
| "to_text (JBool b) = (if b then ''true'' else ''false'')"
| "to_text (JNum n) = show_number n"
| "to_text (JStr s) = s"
| "to_text (JArr vs) = join_with '','' (map (\<lambda>v. if v = JNull then [] else to_text v) vs)"
| "to_text (JObj _) = ''[object Object]''"

definition template_text :: "json option \<Rightarrow> string" where
  "template_text v = (case v of None \<Rightarrow> ''undefined'' | Some w \<Rightarrow> to_text w)"

fun check_descriptors :: "json list \<Rightarrow> json list \<Rightarrow> string list \<Rightarrow> thrown + string list" where
  "check_descriptors records [] seen = Inr seen"
| "check_descriptors records (descriptor # ds) seen =
     (let d = Some descriptor in
      bind_result (exactKeys d [''mediaType'', ''digest'', ''size'', ''platform''] ''OCI index descriptor'') (\<lambda>_.
      bind_result (assert_that (is_string_of (member d ''mediaType'') MANIFEST_MEDIA_TYPES) ''unsupported OCI descriptor mediaType'') (\<lambda>_.
      bind_result (digest (member d ''digest'') ''OCI descriptor digest'') (\<lambda>_.
      bind_result (positiveInteger_member (member d ''size'') ''OCI descriptor size'') (\<lambda>_.
      bind_result (exactKeys (member d ''platform'') [''architecture'', ''os''] ''OCI descriptor platform'') (\<lambda>_.
      let platform = template_text (member (member d ''platform'') ''os'') @ ''/''
            @ template_text (member (member d ''platform'') ''architecture'') in
      bind_result (platformParts (Some (JStr platform))) (\<lambda>_.
      bind_result (assert_that (platform \<notin> set seen) (''duplicate OCI platform '' @ platform)) (\<lambda>_.
      case find (\<lambda>candidate. json_field candidate ''platform'' = Some (JStr platform)) records of
        None \<Rightarrow> Inl (PlainError (''missing platform record for '' @ platform))
      | Some record \<Rightarrow>
          bind_result (assert_that (member d ''digest'' = json_field record ''digest'')
            (''OCI descriptor digest mismatch for '' @ platform)) (\<lambda>_.
          check_descriptors records ds (seen @ [platform]))))))))))"

definition validateIndex :: "json \<Rightarrow> json list \<Rightarrow> thrown + unit" where
  "validateIndex document platformRecords =
     (let d = Some document; manifests = member d ''manifests'' in
      bind_result (exactKeys d [''schemaVersion'', ''mediaType'', ''manifests''] ''OCI index'') (\<lambda>_.
      bind_result (assert_that (member d ''schemaVersion'' = Some (JNum (Integer 2))) ''OCI index schemaVersion must be 2'') (\<lambda>_.
      bind_result (assert_that (is_string_of (member d ''mediaType'') INDEX_MEDIA_TYPES) ''unsupported OCI index mediaType'') (\<lambda>_.
      bind_result (assert_that (is_array manifests) ''OCI index manifests must be an array'') (\<lambda>_.
      bind_result (assert_that (length (elements manifests) = length PLATFORM_ORDER)
        ''OCI index must contain exactly two platform manifests'') (\<lambda>_.
      bind_result (check_descriptors platformRecords (elements manifests) []) (\<lambda>seen.
      assert_that (sort_strings seen = sort_strings PLATFORM_ORDER) failed_assertion)))))))"

subsection \<open>Candidate evidence\<close>

definition run_url :: "string \<Rightarrow> string \<Rightarrow> string \<Rightarrow> string" where
  "run_url repository run attempt =
     ''https://github.com/'' @ repository @ ''/actions/runs/'' @ run @ ''/attempts/'' @ attempt"

definition validateWorkflow :: "json option \<Rightarrow> string \<Rightarrow> string \<Rightarrow> thrown + unit" where
  "validateWorkflow workflow repository sourceCommit =
     bind_result (exactKeys workflow [''name'', ''run_id'', ''run_attempt'', ''url''] ''workflow'') (\<lambda>_.
     bind_result (assert_that (member workflow ''name'' = Some (JStr ''session-candidate'')) failed_assertion) (\<lambda>_.
     bind_result (positiveInteger_member (member workflow ''run_id'') ''workflow run_id'') (\<lambda>_.
     bind_result (positiveInteger_member (member workflow ''run_attempt'') ''workflow run_attempt'') (\<lambda>_.
     bind_result (assert_that (member workflow ''url'' =
         Some (JStr (run_url repository (template_text (member workflow ''run_id'')) (template_text (member workflow ''run_attempt'')))))
       ''workflow URL is not bound to the repository and run identity'') (\<lambda>_.
     assert_that (matches_commit sourceCommit) failed_assertion)))))"

definition string_value :: "json option \<Rightarrow> string" where
  "string_value v = (case v of Some (JStr s) \<Rightarrow> s | _ \<Rightarrow> [])"

definition validateCandidateEvidence :: "evidence_environment \<Rightarrow> json \<Rightarrow> thrown + json" where
  "validateCandidateEvidence env evidence =
     (let e = Some evidence; img = member e ''image''; commit = member e ''source_commit'';
          ix = member img ''index''; records = elements (member img ''platforms'') in
      bind_result (exactKeys e [''schema_version'', ''release_status'', ''repository'', ''source_commit'', ''created_at'', ''workflow'', ''image'']
        ''candidate evidence'') (\<lambda>_.
      bind_result (assert_that (member e ''schema_version'' = Some (JNum (Integer 1))) failed_assertion) (\<lambda>_.
      bind_result (assert_that (member e ''release_status'' = Some (JStr ''candidate'')) failed_assertion) (\<lambda>_.
      bind_result (matching (nonEmptyString (member e ''repository'') ''repository'' 512) matches_repository failed_assertion) (\<lambda>_.
      bind_result (matching (nonEmptyString commit ''source_commit'' 40) matches_commit failed_assertion) (\<lambda>_.
      bind_result (nonEmptyString (member e ''created_at'') ''created_at'' 32) (\<lambda>createdAt.
      bind_result (assert_that (env_iso env createdAt = Some createdAt) ''created_at must be canonical ISO-8601 UTC'') (\<lambda>_.
      bind_result (validateWorkflow (member e ''workflow'') (string_value (member e ''repository'')) (string_value commit)) (\<lambda>_.
      bind_result (exactKeys img [''name'', ''candidate_tag'', ''index_digest'', ''index'', ''platforms''] ''candidate image'') (\<lambda>_.
      bind_result (matching (nonEmptyString (member img ''name'') ''image name'' 512) matches_image failed_assertion) (\<lambda>_.
      bind_result (assert_that (member img ''candidate_tag'' = Some (JStr (''candidate-'' @ string_value commit)))
        ''candidate tag must be source-bound'') (\<lambda>_.
      bind_result (digest (member img ''index_digest'') ''index digest'') (\<lambda>_.
      bind_result (exactKeys ix [''file'', ''sha256'', ''size''] ''index identity'') (\<lambda>_.
      bind_result (matching (nonEmptyString (member ix ''file'') ''index file'' 128) matches_safe_file failed_assertion) (\<lambda>_.
      bind_result (assert_that (member ix ''sha256'' = member img ''index_digest'') ''index checksum must equal index digest'') (\<lambda>_.
      bind_result (positiveInteger_member (member ix ''size'') ''index size'') (\<lambda>_.
      bind_result (assert_that (is_array (member img ''platforms'') \<and> length records = 2)
        ''exactly two platform records are required'') (\<lambda>_.
      bind_result (all_asserted (\<lambda>record. bind_result (validatePlatformRecord record) (\<lambda>_. Inr ())) records) (\<lambda>_.
      bind_result (assert_that (map (\<lambda>record. json_field record ''platform'') records = map (Some \<circ> JStr) PLATFORM_ORDER)
        ''platform records must use canonical order'') (\<lambda>_.
      bind_result (all_asserted (\<lambda>record.
          bind_result (assert_that (json_field record ''image'' = member img ''name'') failed_assertion) (\<lambda>_.
          assert_that (json_field record ''source_commit'' = commit) failed_assertion)) records) (\<lambda>_.
      bind_result (assert_that (card (set (map (\<lambda>record. json_field record ''digest'') records)) = 2)
        ''platform digests must differ'') (\<lambda>_. Inr evidence))))))))))))))))))))))"

text \<open>\<open>PLATFORM_ORDER.indexOf(platform)\<close> of a record that was checked.\<close>

definition platform_index :: "json \<Rightarrow> nat" where
  "platform_index record =
     (if json_field record ''platform'' = Some (JStr ''linux/amd64'') then 0 else 1)"

definition createCandidateEvidence ::
  "evidence_environment \<Rightarrow> string \<Rightarrow> string \<Rightarrow> string \<Rightarrow> string \<Rightarrow> string \<Rightarrow> string \<Rightarrow> string list \<Rightarrow> string option
   \<Rightarrow> thrown + json" where
  "createCandidateEvidence env repository sourceCommit runId runAttempt image_name indexPath platformRecordPaths createdAt =
     bind_result (assert_that (length platformRecordPaths = 2) ''exactly two platform record paths are required'') (\<lambda>_.
     bind_result (map_result (\<lambda>path. bind_result (parseJsonFile env path (64 * 1024)) (\<lambda>(_, document). validatePlatformRecord document))
       platformRecordPaths) (\<lambda>unsorted.
     let records = sort_key platform_index unsorted in
     bind_result (parseJsonFile env indexPath (8 * 1024 * 1024)) (\<lambda>(content, document).
     bind_result (validateIndex document records) (\<lambda>_.
     let indexDigest = sha256 env content; run = env_number env runId; attempt = env_number env runAttempt in
     validateCandidateEvidence env (JObj
       [(''schema_version'', JNum (Integer 1)), (''release_status'', JStr ''candidate''), (''repository'', JStr repository),
        (''source_commit'', JStr sourceCommit), (''created_at'', JStr (or_else createdAt (env_now env))),
        (''workflow'', JObj
          [(''name'', JStr ''session-candidate''), (''run_id'', JNum run), (''run_attempt'', JNum attempt),
           (''url'', JStr (run_url repository (show_number run) (show_number attempt)))]),
        (''image'', JObj
          [(''name'', JStr image_name), (''candidate_tag'', JStr (''candidate-'' @ sourceCommit)),
           (''index_digest'', JStr indexDigest), (''index'', file_identity (basename indexPath) indexDigest (length content)),
           (''platforms'', JArr records)])])))))"

definition check_artifact :: "evidence_environment \<Rightarrow> string \<Rightarrow> json option \<Rightarrow> int \<Rightarrow> thrown + unit" where
  "check_artifact env directory identity maximumBytes =
     (let file = string_value (member identity ''file''); path = join_path directory file in
      bind_result (assert_that (dirname (resolve_path (env_cwd env) path) = directory)
        ''artifact path escapes its platform directory'') (\<lambda>_.
      bind_result (stableRead env path maximumBytes) (\<lambda>content.
      bind_result (assert_that (member identity ''size'' = Some (JNum (Integer (int (length content)))))
        (''artifact size mismatch for '' @ file)) (\<lambda>_.
      assert_that (member identity ''sha256'' = Some (JStr (sha256 env content))) (''artifact checksum mismatch for '' @ file)))))"

definition validateEvidenceFiles :: "evidence_environment \<Rightarrow> string \<Rightarrow> string \<Rightarrow> string \<Rightarrow> thrown + json" where
  "validateEvidenceFiles env evidencePath indexPath artifactDirectory =
     bind_result (parseJsonFile env evidencePath (256 * 1024)) (\<lambda>(_, document).
     bind_result (validateCandidateEvidence env document) (\<lambda>evidence.
     let img = member (Some evidence) ''image''; records = elements (member img ''platforms'') in
     bind_result (stableRead env indexPath (8 * 1024 * 1024)) (\<lambda>index.
     bind_result (assert_that (member img ''index_digest'' = Some (JStr (sha256 env index)))
       ''evidence does not match OCI index bytes'') (\<lambda>_.
     bind_result (parse_bytes env index) (\<lambda>indexDocument.
     bind_result (validateIndex indexDocument records) (\<lambda>_.
     bind_result (all_asserted (\<lambda>record.
         let directory = join_path (resolve_path (env_cwd env) artifactDirectory)
               (drop 6 (string_value (json_field record ''platform''))) in
         bind_result (check_artifact env directory (json_field record ''manifest'') (8 * 1024 * 1024)) (\<lambda>_.
         check_artifact env directory (json_field record ''sbom'') (16 * 1024 * 1024))) records) (\<lambda>_. Inr evidence)))))))"

subsection \<open>The command line\<close>

definition matches_argument_name :: "string \<Rightarrow> bool" where
  "matches_argument_name s =
     (starts_with ''--'' s \<and> drop 2 s \<noteq> [] \<and> list_all (\<lambda>c. is_lower c \<or> is_digit c \<or> c = CHR ''-'') (drop 2 s))"

fun argumentMap :: "string list \<Rightarrow> (string \<times> string) list \<Rightarrow> thrown + (string \<times> string) list" where
  "argumentMap [] result = Inr result"
| "argumentMap [key] result =
     bind_result (assert_that (matches_argument_name key) ''invalid argument name'') (\<lambda>_.
     Inl (PlainError (''missing value for '' @ key)))"
| "argumentMap (key # v # rest) result =
     bind_result (assert_that (matches_argument_name key) ''invalid argument name'') (\<lambda>_.
     bind_result (assert_that (map_of result key = None) (''duplicate argument '' @ key)) (\<lambda>_.
     argumentMap rest (result @ [(key, v)])))"

definition required_argument :: "(string \<times> string) list \<Rightarrow> string \<Rightarrow> thrown + string" where
  "required_argument args key =
     (case map_of args key of None \<Rightarrow> Inl (PlainError (''missing '' @ key)) | Some v \<Rightarrow> Inr v)"

text \<open>What a command does when it succeeds: it writes a new file, prints a line, or nothing.\<close>

datatype effect = WriteNew string string | Print string | NoEffect

definition evidence_main :: "evidence_environment \<Rightarrow> string list \<Rightarrow> thrown + effect" where
  "evidence_main env argv =
     bind_result (argumentMap (drop 1 argv) []) (\<lambda>args.
     let need = required_argument args; command = (case argv of [] \<Rightarrow> [] | c # _ \<Rightarrow> c) in
     if command = ''platform'' then
       bind_result (need ''--image'') (\<lambda>image_name. bind_result (need ''--source-commit'') (\<lambda>commit.
       bind_result (need ''--platform'') (\<lambda>platform. bind_result (need ''--manifest'') (\<lambda>manifest.
       bind_result (need ''--sbom'') (\<lambda>sbom. bind_result (need ''--expected-digest'') (\<lambda>expected.
       bind_result (createPlatformRecord env image_name commit platform manifest sbom expected) (\<lambda>record.
       bind_result (need ''--output'') (\<lambda>out. Inr (WriteNew out (serialized record))))))))))
     else if command = ''candidate'' then
       bind_result (need ''--repository'') (\<lambda>repository. bind_result (need ''--source-commit'') (\<lambda>commit.
       bind_result (need ''--run-id'') (\<lambda>run. bind_result (need ''--run-attempt'') (\<lambda>attempt.
       bind_result (need ''--image'') (\<lambda>image_name. bind_result (need ''--index'') (\<lambda>index.
       bind_result (need ''--amd64-record'') (\<lambda>amd64. bind_result (need ''--arm64-record'') (\<lambda>arm64.
       bind_result (createCandidateEvidence env repository commit run attempt image_name index [amd64, arm64]
         (map_of args ''--created-at'')) (\<lambda>evidence.
       bind_result (need ''--output'') (\<lambda>out. Inr (WriteNew out (serialized evidence))))))))))))
     else if command = ''validate'' then
       bind_result (need ''--evidence'') (\<lambda>evidence. bind_result (need ''--index'') (\<lambda>index.
       bind_result (need ''--artifact-directory'') (\<lambda>directory.
       bind_result (validateEvidenceFiles env evidence index directory) (\<lambda>_. Inr NoEffect))))
     else if command = ''digest'' then
       bind_result (need ''--record'') (\<lambda>path. bind_result (parseJsonFile env path (64 * 1024)) (\<lambda>(_, document).
       bind_result (validatePlatformRecord document) (\<lambda>record.
       Inr (Print (string_value (json_field record ''digest'') @ [CHR 0x0A])))))
     else if command = ''index-digest'' then
       bind_result (need ''--evidence'') (\<lambda>path. bind_result (parseJsonFile env path (256 * 1024)) (\<lambda>(_, document).
       bind_result (validateCandidateEvidence env document) (\<lambda>evidence.
       Inr (Print (string_value (member (json_field evidence ''image'') ''index_digest'') @ [CHR 0x0A])))))
     else Inl (PlainError
       ''usage: session-candidate-evidence.mjs platform|candidate|validate|digest|index-digest [options]''))"

end
