(* ===== verification/EvidenceProperties.thy ===== *)
theory EvidenceProperties
  imports CandidateEvidence
begin

text \<open>
  What \<open>scripts/session-candidate-evidence.mjs\<close> establishes: evidence that was validated
  against files binds the index, both platform manifests and the SBOMs by their digests, and
  evidence that the script's own commands created is accepted.
\<close>

subsection \<open>Validated values\<close>

lemma matching_Inr: "matching r p m = Inr u \<longleftrightarrow> (\<exists>s. r = Inr s \<and> p s)"
  by (auto simp: matching_def bind_result_Inr)

lemma nonEmptyString_Inr:
  "nonEmptyString v l n = Inr s \<longleftrightarrow>
     v = Some (JStr s) \<and> 0 < length s \<and> int (length s) \<le> n \<and> trim s = s \<and> \<not> list_ex is_control s"
  by (auto simp: nonEmptyString_def bind_result_Inr split: option.splits json.splits)

lemma digest_Inr: "digest v l = Inr u \<Longrightarrow> \<exists>s. v = Some (JStr s) \<and> matches_sha256 s"
  by (auto simp: digest_def matching_Inr nonEmptyString_Inr)

lemma platformParts_Inr:
  "platformParts v = Inr p \<longleftrightarrow> (\<exists>s \<in> set PLATFORM_ORDER. v = Some (JStr s) \<and> p = (''linux'', drop 6 s))"
  by (auto simp: platformParts_def split: option.splits json.splits)

lemmas result_simps = bind_result_Inr matching_Inr nonEmptyString_Inr platformParts_Inr all_asserted_Inr

lemma member_Some [simp]: "member (Some d) k = json_field d k"
  by (simp add: member_def)

lemma validatePlatformRecord_Inr:
  assumes "validatePlatformRecord r = Inr r'"
  shows "r' = r \<and> (\<exists>p \<in> set PLATFORM_ORDER. json_field r ''platform'' = Some (JStr p))
    \<and> (\<exists>d. json_field r ''digest'' = Some (JStr d) \<and> matches_sha256 d)
    \<and> (\<exists>f. member (json_field r ''manifest'') ''file'' = Some (JStr f) \<and> matches_safe_file f)
    \<and> member (json_field r ''manifest'') ''sha256'' = json_field r ''digest''
    \<and> (\<exists>f. member (json_field r ''sbom'') ''file'' = Some (JStr f) \<and> matches_safe_file f)"
  using assms unfolding validatePlatformRecord_def Let_def result_simps assert_that_Inr member_Some
  by (elim exE conjE) (auto dest: digest_Inr)

lemma stableRead_limit: "stableRead env path n = Inr c \<Longrightarrow> n \<le> m \<Longrightarrow> stableRead env path m = Inr c"
  unfolding stableRead_def Let_def by (auto simp: bind_result_Inr)

lemma parseJsonFile_Inr:
  "parseJsonFile env path n = Inr (c, d) \<longleftrightarrow> stableRead env path n = Inr c \<and> env_parse env c = Some d"
  by (auto simp: parseJsonFile_def parse_bytes_def bind_result_Inr split: option.splits)

subsection \<open>The index names both platforms\<close>

definition descriptor_platform :: "json \<Rightarrow> string" where
  "descriptor_platform d =
     template_text (member (json_field d ''platform'') ''os'') @ ''/''
     @ template_text (member (json_field d ''platform'') ''architecture'')"

lemma check_descriptors_Inr:
  assumes "check_descriptors records ds seen = Inr seen'" and "distinct seen"
  shows "seen' = seen @ map descriptor_platform ds \<and> distinct seen'
    \<and> (\<forall>d \<in> set ds. descriptor_platform d \<in> set PLATFORM_ORDER
       \<and> (\<exists>record \<in> set records. json_field record ''platform'' = Some (JStr (descriptor_platform d))
            \<and> json_field d ''digest'' = json_field record ''digest''))"
  using assms
proof (induction ds arbitrary: seen)
  case (Cons d ds)
  from Cons.prems(1) obtain entry where d: "descriptor_platform d \<in> set PLATFORM_ORDER" "descriptor_platform d \<notin> set seen"
      "find (\<lambda>candidate. json_field candidate ''platform'' = Some (JStr (descriptor_platform d))) records = Some entry"
      "json_field d ''digest'' = json_field entry ''digest''"
      "check_descriptors records ds (seen @ [descriptor_platform d]) = Inr seen'"
    by (auto simp: Let_def result_simps descriptor_platform_def split: option.splits)
  from d(3) have "entry \<in> set records" "json_field entry ''platform'' = Some (JStr (descriptor_platform d))"
    by (auto simp: find_Some_iff)
  moreover have "distinct (seen @ [descriptor_platform d])" using Cons.prems(2) d(2) by simp
  note IH = Cons.IH [OF d(5) this]
  moreover from IH have "seen' = seen @ map descriptor_platform (d # ds)" by simp
  moreover from IH have "distinct seen'" by blast
  ultimately show ?case using d(1,4) by (simp only: set_simps) blast
qed simp

lemma validateIndex_Inr:
  assumes "validateIndex document records = Inr u"
    and "map (\<lambda>r. json_field r ''platform'') records = map (Some \<circ> JStr) PLATFORM_ORDER"
    and "record \<in> set records"
  shows "\<exists>d \<in> set (elements (json_field document ''manifests'')).
    json_field record ''platform'' = Some (JStr (descriptor_platform d)) \<and> json_field d ''digest'' = json_field record ''digest''"
proof -
  let ?ds = "elements (json_field document ''manifests'')"
  from assms(1) obtain seen where ds: "length ?ds = 2" "check_descriptors records ?ds [] = Inr seen"
    unfolding validateIndex_def Let_def by (auto simp: bind_result_Inr PLATFORM_ORDER_def)
  note checked = check_descriptors_Inr [OF ds(2)]
  then have "distinct (map descriptor_platform ?ds)" "set (map descriptor_platform ?ds) \<subseteq> set PLATFORM_ORDER" by auto
  moreover have "card (set (map descriptor_platform ?ds)) = card (set PLATFORM_ORDER)"
    using ds(1) distinct_card [OF calculation(1)] by (simp add: PLATFORM_ORDER_def)
  ultimately have all: "set (map descriptor_platform ?ds) = set PLATFORM_ORDER" by (intro card_subset_eq) auto
  from assms(2,3) obtain p where p: "p \<in> set PLATFORM_ORDER" "json_field record ''platform'' = Some (JStr p)"
    by (auto simp: PLATFORM_ORDER_def)
  with all have "p \<in> descriptor_platform ` set ?ds" by simp
  then obtain d where d: "d \<in> set ?ds" "descriptor_platform d = p" by blast
  with checked obtain r where r: "r \<in> set records" "json_field r ''platform'' = Some (JStr p)"
    "json_field d ''digest'' = json_field r ''digest''" by auto
  have "distinct (map (\<lambda>r. json_field r ''platform'') records)" using assms(2) by (simp add: PLATFORM_ORDER_def)
  then have "inj_on (\<lambda>r. json_field r ''platform'') (set records)" by (simp add: distinct_map)
  from inj_onD [OF this _ r(1) assms(3)] r(2) p(2) have "r = record" by simp
  with d p r show ?thesis by auto
qed

lemma validateCandidateEvidence_Inr:
  assumes "validateCandidateEvidence env e = Inr e'"
  shows "e' = e" and "validateCandidateEvidence env e = Inr e"
    and "map (\<lambda>r. json_field r ''platform'') (elements (member (json_field e ''image'') ''platforms'')) = map (Some \<circ> JStr) PLATFORM_ORDER"
    and "\<forall>r \<in> set (elements (member (json_field e ''image'') ''platforms'')).
      validatePlatformRecord r = Inr r \<and> json_field r ''image'' = member (json_field e ''image'') ''name''
      \<and> json_field r ''source_commit'' = json_field e ''source_commit''"
    and "\<exists>d. member (json_field e ''image'') ''index_digest'' = Some (JStr d) \<and> matches_sha256 d"
    and "\<exists>c. json_field e ''source_commit'' = Some (JStr c) \<and> matches_commit c
      \<and> member (json_field e ''image'') ''candidate_tag'' = Some (JStr (''candidate-'' @ c))"
proof -
  show e: "e' = e" using assms unfolding validateCandidateEvidence_def Let_def by (auto simp: bind_result_Inr)
  with assms show "validateCandidateEvidence env e = Inr e" by simp
  show "map (\<lambda>r. json_field r ''platform'') (elements (member (json_field e ''image'') ''platforms'')) = map (Some \<circ> JStr) PLATFORM_ORDER"
    using assms unfolding validateCandidateEvidence_def Let_def by (auto simp: bind_result_Inr)
  show "\<forall>r \<in> set (elements (member (json_field e ''image'') ''platforms'')).
      validatePlatformRecord r = Inr r \<and> json_field r ''image'' = member (json_field e ''image'') ''name''
      \<and> json_field r ''source_commit'' = json_field e ''source_commit''"
    using assms unfolding validateCandidateEvidence_def Let_def
    by (auto simp: bind_result_Inr all_asserted_Inr dest: validatePlatformRecord_Inr)
  show "\<exists>d. member (json_field e ''image'') ''index_digest'' = Some (JStr d) \<and> matches_sha256 d"
    using assms unfolding validateCandidateEvidence_def Let_def by (auto simp: bind_result_Inr dest: digest_Inr)
  show "\<exists>c. json_field e ''source_commit'' = Some (JStr c) \<and> matches_commit c
      \<and> member (json_field e ''image'') ''candidate_tag'' = Some (JStr (''candidate-'' @ c))"
    using assms unfolding validateCandidateEvidence_def Let_def by (auto simp: result_simps string_value_def)
qed

subsection \<open>Validated files\<close>

lemma check_artifact_Inr:
  assumes "check_artifact env directory identity n = Inr u"
  shows "let path = join_path directory (string_value (member identity ''file'')) in
    dirname (resolve_path (env_cwd env) path) = directory
    \<and> (\<exists>content. stableRead env path n = Inr content \<and> member identity ''sha256'' = Some (JStr (sha256 env content))
         \<and> member identity ''size'' = Some (JNum (Integer (int (length content)))))"
  using assms unfolding check_artifact_def Let_def by (auto simp: bind_result_Inr)

text \<open>Where the artifacts of a platform lie, and that a file there has the recorded digest.\<close>

definition platform_directory :: "evidence_environment \<Rightarrow> string \<Rightarrow> json \<Rightarrow> string" where
  "platform_directory env artifactDirectory r =
     join_path (resolve_path (env_cwd env) artifactDirectory) (drop 6 (string_value (json_field r ''platform'')))"

definition artifact_matches :: "evidence_environment \<Rightarrow> string \<Rightarrow> json option \<Rightarrow> int \<Rightarrow> bool" where
  "artifact_matches env directory identity n =
     (case stableRead env (join_path directory (string_value (member identity ''file''))) n of
        Inl _ \<Rightarrow> False
      | Inr content \<Rightarrow> member identity ''sha256'' = Some (JStr (sha256 env content)))"

text \<open>
  C33. When \<open>validateEvidenceFiles\<close> accepts, the evidence names exactly the platforms
  \<open>linux/amd64\<close> and \<open>linux/arm64\<close>, of one image and one commit, which its tag names;
  the index file has the recorded digest and lists, for either platform, the digest of its record; in the platform's
  directory lies a manifest with that very digest, and an SBOM with the recorded one.
\<close>

theorem accepted_evidence_binds_the_files:
  assumes "validateEvidenceFiles env evidencePath indexPath artifactDirectory = Inr evidence"
  shows "\<exists>img records commit index document.
      json_field evidence ''image'' = Some img \<and> records = elements (json_field img ''platforms'')
    \<and> map (\<lambda>r. json_field r ''platform'') records = [Some (JStr ''linux/amd64''), Some (JStr ''linux/arm64'')]
    \<and> json_field evidence ''source_commit'' = Some (JStr commit) \<and> matches_commit commit
    \<and> json_field img ''candidate_tag'' = Some (JStr (''candidate-'' @ commit))
    \<and> stableRead env indexPath (8 * 1024 * 1024) = Inr index \<and> env_parse env index = Some document
    \<and> json_field img ''index_digest'' = Some (JStr (sha256 env index))
    \<and> (\<forall>r \<in> set records.
          json_field r ''image'' = json_field img ''name'' \<and> json_field r ''source_commit'' = Some (JStr commit)
        \<and> (\<exists>d \<in> set (elements (json_field document ''manifests'')).
              json_field r ''platform'' = Some (JStr (descriptor_platform d))
            \<and> json_field d ''digest'' = member (json_field r ''manifest'') ''sha256'')
        \<and> artifact_matches env (platform_directory env artifactDirectory r) (json_field r ''manifest'') (8 * 1024 * 1024)
        \<and> artifact_matches env (platform_directory env artifactDirectory r) (json_field r ''sbom'') (16 * 1024 * 1024))"
proof -
  let ?image = "json_field evidence ''image''"
  let ?records = "elements (member ?image ''platforms'')"
  from assms obtain document index where valid: "validateCandidateEvidence env evidence = Inr evidence"
    and index: "stableRead env indexPath (8 * 1024 * 1024) = Inr index" "env_parse env index = Some document"
      "member ?image ''index_digest'' = Some (JStr (sha256 env index))" "validateIndex document ?records = Inr ()"
    and artifacts: "\<forall>r \<in> set ?records.
        check_artifact env (platform_directory env artifactDirectory r) (json_field r ''manifest'') (8 * 1024 * 1024) = Inr ()
      \<and> check_artifact env (platform_directory env artifactDirectory r) (json_field r ''sbom'') (16 * 1024 * 1024) = Inr ()"
    unfolding validateEvidenceFiles_def Let_def platform_directory_def
    by (auto simp: bind_result_Inr all_asserted_Inr parse_bytes_def split: option.splits dest: validateCandidateEvidence_Inr(1,2))
  note checked = validateCandidateEvidence_Inr [OF valid]
  from checked(6) obtain commit where commit: "json_field evidence ''source_commit'' = Some (JStr commit)" "matches_commit commit"
    "member ?image ''candidate_tag'' = Some (JStr (''candidate-'' @ commit))" by blast
  from commit(3) obtain img where img: "?image = Some img" by (cases ?image) (auto simp: member_def)
  have one: "json_field r ''image'' = json_field img ''name'' \<and> json_field r ''source_commit'' = Some (JStr commit)
        \<and> (\<exists>d \<in> set (elements (json_field document ''manifests'')).
              json_field r ''platform'' = Some (JStr (descriptor_platform d))
            \<and> json_field d ''digest'' = member (json_field r ''manifest'') ''sha256'')
        \<and> artifact_matches env (platform_directory env artifactDirectory r) (json_field r ''manifest'') (8 * 1024 * 1024)
        \<and> artifact_matches env (platform_directory env artifactDirectory r) (json_field r ''sbom'') (16 * 1024 * 1024)"
    if r: "r \<in> set ?records" for r
  proof -
    from checked(4) r have "validatePlatformRecord r = Inr r" "json_field r ''image'' = json_field img ''name''"
      "json_field r ''source_commit'' = Some (JStr commit)" by (auto simp: img commit(1))
    moreover from validatePlatformRecord_Inr [OF this(1)]
    have "member (json_field r ''manifest'') ''sha256'' = json_field r ''digest''" by blast
    moreover note validateIndex_Inr [OF index(4) checked(3) r]
    moreover from artifacts r check_artifact_Inr
    have "artifact_matches env (platform_directory env artifactDirectory r) (json_field r ''manifest'') (8 * 1024 * 1024)"
      "artifact_matches env (platform_directory env artifactDirectory r) (json_field r ''sbom'') (16 * 1024 * 1024)"
      unfolding artifact_matches_def Let_def by fastforce+
    ultimately show ?thesis by metis
  qed
  from one commit index checked(3) show ?thesis
    unfolding img member_Some by (intro exI conjI) (auto simp: PLATFORM_ORDER_def)
qed

subsection \<open>Created evidence\<close>

lemma resolve_abs_path:
  assumes "list_all proper_segment ss" and "ss \<noteq> []"
  shows "resolve_path cwd (abs_path ss) = abs_path ss"
proof -
  have "isAbsolute (abs_path ss)" using assms(2) by (cases ss) (simp_all add: isAbsolute_def)
  moreover have "abs_path ss \<noteq> []" using assms(2) by (cases ss) simp_all
  ultimately show ?thesis
    using normalize_abs_path(1) [OF assms] strip_abs_path [OF assms, of "[]"] by (simp add: resolve_path_def)
qed

lemma createPlatformRecord_Inr:
  assumes "createPlatformRecord env image_name commit platform manifestPath sbomPath expected = Inr r"
  shows "\<exists>m s. stableRead env manifestPath (8 * 1024 * 1024) = Inr m \<and> stableRead env sbomPath (16 * 1024 * 1024) = Inr s
    \<and> sha256 env m = expected
    \<and> r = JObj [(''schema_version'', JNum (Integer 1)), (''image'', JStr image_name), (''source_commit'', JStr commit),
        (''platform'', JStr platform), (''digest'', JStr expected),
        (''manifest'', file_identity (basename manifestPath) expected (length m)),
        (''sbom'', file_identity (basename sbomPath) (sha256 env s) (length s))]"
  using assms unfolding createPlatformRecord_def
  by (auto simp: bind_result_Inr parseJsonFile_Inr split: prod.splits dest!: validatePlatformRecord_Inr)

lemma check_artifactI:
  "stableRead env (join_path directory file) n = Inr content \<Longrightarrow>
   dirname (resolve_path (env_cwd env) (join_path directory file)) = directory \<Longrightarrow>
   check_artifact env directory (Some (file_identity file (sha256 env content) (length content))) n = Inr ()"
  by (simp add: check_artifact_def file_identity_def string_value_def)

lemma created_record_artifacts:
  assumes created: "createPlatformRecord env image_name commit (''linux/'' @ arch) (abs_path (ds @ [arch, m]))
      (abs_path (ds @ [arch, b])) expected = Inr r"
    and ds: "list_all proper_segment ds" "ds \<noteq> []"
    and proper: "proper_segment arch" "proper_segment m" "proper_segment b"
  shows "check_artifact env (platform_directory env (abs_path ds) r) (json_field r ''manifest'') (8 * 1024 * 1024) = Inr ()
    \<and> check_artifact env (platform_directory env (abs_path ds) r) (json_field r ''sbom'') (16 * 1024 * 1024) = Inr ()"
proof -
  let ?dir = "abs_path (ds @ [arch])"
  have segs: "list_all proper_segment (ds @ [arch])" using ds proper by simp
  have joined: "join_path ?dir f = abs_path (ds @ [arch, f])" "basename (abs_path (ds @ [arch, f])) = f"
    "resolve_path (env_cwd env) (abs_path (ds @ [arch, f])) = abs_path (ds @ [arch, f])"
    "dirname (abs_path (ds @ [arch, f])) = ?dir" if "proper_segment f" for f
    using join_abs_path [OF segs that] path_parts [OF segs that, of "[]"]
      resolve_abs_path [of "ds @ [arch, f]"] segs that by simp_all
  from createPlatformRecord_Inr [OF created] obtain mb sb where
    read: "stableRead env (abs_path (ds @ [arch, m])) (8 * 1024 * 1024) = Inr mb"
      "stableRead env (abs_path (ds @ [arch, b])) (16 * 1024 * 1024) = Inr sb" "sha256 env mb = expected"
    and r: "json_field r ''platform'' = Some (JStr (''linux/'' @ arch))"
      "json_field r ''manifest'' = Some (file_identity (basename (abs_path (ds @ [arch, m]))) expected (length mb))"
      "json_field r ''sbom'' = Some (file_identity (basename (abs_path (ds @ [arch, b]))) (sha256 env sb) (length sb))"
    by auto
  have dir: "platform_directory env (abs_path ds) r = ?dir"
    using join_abs_path [OF ds(1) proper(1)] resolve_abs_path [OF ds, of "env_cwd env"] ds(2)
    by (simp add: platform_directory_def string_value_def r)
  show ?thesis
    unfolding dir r joined(2) [OF proper(2)] joined(2) [OF proper(3)] read(3) [symmetric]
    by (intro conjI check_artifactI) (use read(1,2) joined(1,3,4) proper(2,3) in \<open>simp_all del: abs_path_simps\<close>)
qed

lemma createCandidateEvidence_Inr:
  assumes "createCandidateEvidence env repository commit run attempt image_name indexPath paths at = Inr ev"
  obtains unsorted content document where
    "list_all2 (\<lambda>path r. \<exists>c. parseJsonFile env path (64 * 1024) = Inr (c, r)) paths unsorted"
    and "stableRead env indexPath (8 * 1024 * 1024) = Inr content" and "env_parse env content = Some document"
    and "validateIndex document (sort_key platform_index unsorted) = Inr ()"
    and "validateCandidateEvidence env ev = Inr ev"
    and "elements (member (json_field ev ''image'') ''platforms'') = sort_key platform_index unsorted"
    and "member (json_field ev ''image'') ''index_digest'' = Some (JStr (sha256 env content))"
proof -
  from assms obtain unsorted content document ev' where
    u: "map_result (\<lambda>path. bind_result (parseJsonFile env path (64 * 1024)) (\<lambda>(_, document). validatePlatformRecord document)) paths = Inr unsorted"
    and f: "parseJsonFile env indexPath (8 * 1024 * 1024) = Inr (content, document)"
      "validateIndex document (sort_key platform_index unsorted) = Inr ()"
    and e: "validateCandidateEvidence env ev' = Inr ev"
      "elements (member (json_field ev' ''image'') ''platforms'') = sort_key platform_index unsorted"
      "member (json_field ev' ''image'') ''index_digest'' = Some (JStr (sha256 env content))"
    unfolding createCandidateEvidence_def Let_def by (auto simp: bind_result_Inr elements_def)
  have "list_all2 (\<lambda>path r. \<exists>c. parseJsonFile env path (64 * 1024) = Inr (c, r)) paths unsorted"
    using u unfolding map_result_list_all2
    by (rule list_all2_mono) (auto simp: bind_result_Inr dest: validatePlatformRecord_Inr)
  with f e validateCandidateEvidence_Inr(1,2) [OF e(1)] that show thesis by (auto simp: parseJsonFile_Inr)
qed

text \<open>
  C35. The commands fit together: when \<open>createPlatformRecord\<close> made a record of either platform from the files in
  its directory, and \<open>createCandidateEvidence\<close> read the two records, in whichever order,
  and made the evidence, then \<open>validateEvidenceFiles\<close> accepts that evidence against the same files.
\<close>

theorem created_evidence_is_accepted:
  assumes "createPlatformRecord env image1 commit1 ''linux/amd64'' (abs_path (ds @ [''amd64'', m1])) (abs_path (ds @ [''amd64'', b1])) d1 = Inr r1"
    and "createPlatformRecord env image2 commit2 ''linux/arm64'' (abs_path (ds @ [''arm64'', m2])) (abs_path (ds @ [''arm64'', b2])) d2 = Inr r2"
    and "list_all proper_segment (ds @ [m1, b1, m2, b2])" and "ds \<noteq> []"
    and "parseJsonFile env p1 (64 * 1024) = Inr (c1, r1)" and "parseJsonFile env p2 (64 * 1024) = Inr (c2, r2)"
    and "paths = [p1, p2] \<or> paths = [p2, p1]"
    and "createCandidateEvidence env repository commit run attempt image_name indexPath paths at = Inr evidence"
    and "parseJsonFile env evidencePath (256 * 1024) = Inr (c, evidence)"
  shows "validateEvidenceFiles env evidencePath indexPath (abs_path ds) = Inr evidence"
proof -
  have r: "json_field r1 ''platform'' = Some (JStr ''linux/amd64'')" "json_field r2 ''platform'' = Some (JStr ''linux/arm64'')"
    using createPlatformRecord_Inr [OF assms(1)] createPlatformRecord_Inr [OF assms(2)] by auto
  obtain unsorted content document where
    u: "list_all2 (\<lambda>path r. \<exists>c. parseJsonFile env path (64 * 1024) = Inr (c, r)) paths unsorted"
    and ev: "stableRead env indexPath (8 * 1024 * 1024) = Inr content" "env_parse env content = Some document"
      "validateIndex document (sort_key platform_index unsorted) = Inr ()" "validateCandidateEvidence env evidence = Inr evidence"
      "elements (member (json_field evidence ''image'') ''platforms'') = sort_key platform_index unsorted"
      "member (json_field evidence ''image'') ''index_digest'' = Some (JStr (sha256 env content))"
    by (rule createCandidateEvidence_Inr [OF assms(8)])
  from u assms(5-7) have "unsorted = [r1, r2] \<or> unsorted = [r2, r1]" by (auto simp: list_all2_Cons1)
  then have sorted: "sort_key platform_index unsorted = [r1, r2]" using r by (auto simp: platform_index_def)
  note artifacts = created_record_artifacts [of env image1 commit1 "''amd64''"] created_record_artifacts [of env image2 commit2 "''arm64''"]
  have "\<forall>r \<in> {r1, r2}. check_artifact env (platform_directory env (abs_path ds) r) (json_field r ''manifest'') (8 * 1024 * 1024) = Inr ()
      \<and> check_artifact env (platform_directory env (abs_path ds) r) (json_field r ''sbom'') (16 * 1024 * 1024) = Inr ()"
    using artifacts(1) [of ds m1 b1 d1 r1] artifacts(2) [of ds m2 b2 d2 r2] assms(1-4)
    by (simp add: proper_segment_def del: abs_path_simps)
  then show ?thesis
    using ev assms(9) unfolding validateEvidenceFiles_def Let_def
    by (simp add: sorted parse_bytes_def platform_directory_def)
qed

subsection \<open>An example release\<close>

definition example_digest :: "char \<Rightarrow> string" where
  "example_digest c = ''sha256:'' @ replicate 64 c"

definition example_blob :: json where
  "example_blob = JObj [(''mediaType'', JStr ''t''), (''digest'', JStr (example_digest (CHR ''a''))), (''size'', JNum (Integer 1))]"

definition example_manifest :: json where
  "example_manifest = JObj [(''schemaVersion'', JNum (Integer 2)), (''mediaType'', JStr ''application/vnd.oci.image.manifest.v1+json''),
     (''config'', example_blob), (''layers'', JArr [example_blob])]"

definition example_sbom :: json where
  "example_sbom = JObj [(''spdxVersion'', JStr ''SPDX-2.3''), (''dataLicense'', JStr ''CC0-1.0''), (''SPDXID'', JStr ''SPDXRef-DOCUMENT''),
     (''name'', JStr ''n''), (''packages'', JArr [JNull])]"

definition example_commit :: string where "example_commit = replicate 40 (CHR ''a'')"

definition example_record :: "string \<Rightarrow> string \<Rightarrow> json" where
  "example_record platform checksum = JObj
     [(''schema_version'', JNum (Integer 1)), (''image'', JStr ''ghcr.io/o/i''), (''source_commit'', JStr example_commit),
      (''platform'', JStr platform), (''digest'', JStr checksum),
      (''manifest'', file_identity ''m'' checksum 1), (''sbom'', file_identity ''b'' (example_digest (CHR ''c'')) 1)]"

definition example_descriptor :: "string \<Rightarrow> string \<Rightarrow> json" where
  "example_descriptor arch checksum = JObj
     [(''mediaType'', JStr ''application/vnd.oci.image.manifest.v1+json''), (''digest'', JStr checksum), (''size'', JNum (Integer 1)),
      (''platform'', JObj [(''architecture'', JStr arch), (''os'', JStr ''linux'')])]"

definition example_index :: json where
  "example_index = JObj [(''schemaVersion'', JNum (Integer 2)), (''mediaType'', JStr ''application/vnd.oci.image.index.v1+json''),
     (''manifests'', JArr [example_descriptor ''amd64'' (example_digest (CHR ''a'')), example_descriptor ''arm64'' (example_digest (CHR ''b''))])]"

definition example_records :: "json list" where
  "example_records = [example_record ''linux/amd64'' (example_digest (CHR ''a'')), example_record ''linux/arm64'' (example_digest (CHR ''b''))]"

definition example_evidence :: json where
  "example_evidence = JObj
       [(''schema_version'', JNum (Integer 1)), (''release_status'', JStr ''candidate''), (''repository'', JStr ''o/r''),
        (''source_commit'', JStr example_commit), (''created_at'', JStr ''2026''),
        (''workflow'', JObj
          [(''name'', JStr ''session-candidate''), (''run_id'', JNum (Integer 1)), (''run_attempt'', JNum (Integer 1)),
           (''url'', JStr ''https://github.com/o/r/actions/runs/1/attempts/1'')]),
        (''image'', JObj
          [(''name'', JStr ''ghcr.io/o/i''), (''candidate_tag'', JStr (''candidate-'' @ example_commit)),
           (''index_digest'', JStr (example_digest (CHR ''c''))), (''index'', file_identity ''i'' (example_digest (CHR ''c'')) 1),
           (''platforms'', JArr example_records)])]"

text \<open>Every file holds one byte, which says what it parses to.\<close>

definition example_stat :: descriptor_stat where
  "example_stat = \<lparr>ds_isFile = True, ds_dev = 1, ds_ino = 1, ds_size = 1, ds_mtimeNs = 0, ds_ctimeNs = 0\<rparr>"

definition example_files :: "(string \<times> nat) list" where
  "example_files =
     [(''/a/amd64/m'', 2), (''/a/arm64/m'', 3), (''/a/amd64/b'', 4), (''/a/arm64/b'', 4), (''/i'', 5), (''/p'', 6), (''/q'', 7), (''/e'', 8)]"

definition example_environment :: evidence_environment where
  "example_environment =
     \<lparr>env_sha256 = (\<lambda>b. replicate 64 (if b = [2] then CHR ''a'' else if b = [3] then CHR ''b'' else CHR ''c'')),
      env_parse = (\<lambda>b. map_of [([2], example_manifest), ([3], example_manifest), ([4], example_sbom), ([5], example_index),
        ([6], example_record ''linux/amd64'' (example_digest (CHR ''a''))), ([7], example_record ''linux/arm64'' (example_digest (CHR ''b''))),
        ([8], example_evidence)] b),
      env_iso = Some, env_number = (\<lambda>_. Integer 1), env_now = ''2026'', env_cwd = ''/'',
      env_open = (\<lambda>path. case map_of example_files path of None \<Rightarrow> Inl (PlainError ''ENOENT'')
        | Some n \<Rightarrow> Inr \<lparr>ev_before = example_stat, ev_bytes = [n], ev_after = example_stat\<rparr>)\<rparr>"

lemma exactKeys_object: "map fst fs = ks \<Longrightarrow> exactKeys (Some (JObj fs)) ks l = Inr ()"
  by (simp add: exactKeys_def is_object_def keys_of_def)

lemma trim_same: "s \<noteq> [] \<Longrightarrow> \<not> is_space (hd s) \<Longrightarrow> \<not> is_space (last s) \<Longrightarrow> trim s = s"
proof -
  assume s: "s \<noteq> []" "\<not> is_space (hd s)" "\<not> is_space (last s)"
  have "dropWhile is_space t = t" if "t \<noteq> []" "\<not> is_space (hd t)" for t using that by (cases t) auto
  with s show ?thesis by (simp add: trim_def hd_rev)
qed

lemma hex_plain: "is_lower_hex c \<Longrightarrow> \<not> is_space c \<and> \<not> is_control c"
  by (auto simp: is_space_def is_control_def js_text_simps)

lemma replicate_parts: "0 < n \<Longrightarrow> hd (replicate n c) = c \<and> last (replicate n c) = c"
  by (cases n) (auto simp: last_replicate)

lemma example_digest_ok:
  assumes "is_lower_hex c" shows "digest (Some (JStr (example_digest c))) l = Inr ()"
proof -
  have "\<not> is_space (CHR ''s'')" "\<not> list_ex is_control ''sha256:''" by code_simp+
  moreover have "trim (example_digest c) = example_digest c"
    by (rule trim_same) (use calculation hex_plain [OF assms] in \<open>simp_all add: example_digest_def\<close>)
  ultimately have "nonEmptyString (Some (JStr (example_digest c))) l 71 = Inr (example_digest c)"
    unfolding nonEmptyString_Inr using hex_plain [OF assms] by (auto simp: example_digest_def list_ex_iff)
  moreover have "matches_sha256 (example_digest c)"
    using assms by (simp add: matches_sha256_def example_digest_def starts_with_def list_all_iff)
  ultimately show ?thesis by (simp add: digest_def matching_def)
qed

lemma example_commit_ok:
  "nonEmptyString (Some (JStr example_commit)) l 40 = Inr example_commit" "matches_commit example_commit"
proof -
  have a: "is_lower_hex (CHR ''a'')" by code_simp
  have "trim example_commit = example_commit"
    by (rule trim_same) (use hex_plain [OF a] replicate_parts in \<open>simp_all add: example_commit_def\<close>)
  then show "nonEmptyString (Some (JStr example_commit)) l 40 = Inr example_commit" "matches_commit example_commit"
    unfolding nonEmptyString_Inr using hex_plain [OF a] a
    by (auto simp: example_commit_def list_ex_iff matches_commit_def list_all_iff)
qed

lemma example_texts:
  "nonEmptyString (Some (JStr ''ghcr.io/o/i'')) l 512 = Inr ''ghcr.io/o/i''" "nonEmptyString (Some (JStr ''m'')) l 128 = Inr ''m''"
  "nonEmptyString (Some (JStr ''b'')) l 128 = Inr ''b''" "nonEmptyString (Some (JStr ''i'')) l 128 = Inr ''i''"
  "nonEmptyString (Some (JStr ''o/r'')) l 512 = Inr ''o/r''" "nonEmptyString (Some (JStr ''2026'')) l 32 = Inr ''2026''"
  "nonEmptyString (Some (JStr ''SPDX-2.3'')) l 32 = Inr ''SPDX-2.3''" "nonEmptyString (Some (JStr ''n'')) l 512 = Inr ''n''"
  "is_lower_hex (CHR ''a'')" "is_lower_hex (CHR ''b'')" "is_lower_hex (CHR ''c'')"
  "matches_image ''ghcr.io/o/i''" "matches_safe_file ''m''" "matches_safe_file ''b''" "matches_safe_file ''i''" "matches_repository ''o/r''"
  "matches_spdx_version ''SPDX-2.3''"
  by code_simp+

lemma example_one: "show_int 1 = ''1''"
proof -
  have "char_of (49 :: nat) = CHR ''1''" by code_simp
  then show ?thesis by (simp add: show_int_def show_nat.simps [of 1] show_nat.simps [of "Suc 0"])
qed

lemmas example_simps =
  exactKeys_object example_digest_ok example_commit_ok example_texts example_one matching_def
  positiveInteger_member_def max_safe_integer_def

lemma example_read:
  "stableRead example_environment ''/a/amd64/m'' 8388608 = Inr [2]" "stableRead example_environment ''/a/arm64/m'' 8388608 = Inr [3]"
  "stableRead example_environment ''/a/amd64/b'' 16777216 = Inr [4]" "stableRead example_environment ''/a/arm64/b'' 16777216 = Inr [4]"
  "stableRead example_environment ''/i'' 8388608 = Inr [5]" "stableRead example_environment ''/p'' 65536 = Inr [6]"
  "stableRead example_environment ''/q'' 65536 = Inr [7]" "stableRead example_environment ''/e'' 262144 = Inr [8]"
  by code_simp+

lemma example_parse:
  "env_parse example_environment [2] = Some example_manifest" "env_parse example_environment [3] = Some example_manifest"
  "env_parse example_environment [4] = Some example_sbom" "env_parse example_environment [5] = Some example_index"
  "env_parse example_environment [6] = Some (example_record ''linux/amd64'' (example_digest (CHR ''a'')))"
  "env_parse example_environment [7] = Some (example_record ''linux/arm64'' (example_digest (CHR ''b'')))"
  "env_parse example_environment [8] = Some example_evidence"
  "sha256 example_environment [2] = example_digest (CHR ''a'')" "sha256 example_environment [3] = example_digest (CHR ''b'')"
  "sha256 example_environment [4] = example_digest (CHR ''c'')" "sha256 example_environment [5] = example_digest (CHR ''c'')"
  by (simp_all add: example_environment_def sha256_def example_digest_def)

lemma example_names:
  "basename ''/a/amd64/m'' = ''m''" "basename ''/a/arm64/m'' = ''m''" "basename ''/a/amd64/b'' = ''b''"
  "basename ''/a/arm64/b'' = ''b''" "basename ''/i'' = ''i''"
  by code_simp+

lemma example_documents:
  "validatePlatformManifest example_manifest ''linux/amd64'' = Inr ()" "validatePlatformManifest example_manifest ''linux/arm64'' = Inr ()"
  "validateSpdxDocument example_sbom = Inr ()"
  by (simp_all add: validatePlatformManifest_def validate_blob_def validateSpdxDocument_def example_manifest_def example_blob_def
      example_sbom_def example_simps is_string_of_def MANIFEST_MEDIA_TYPES_def is_array_def elements_def platformParts_def
      PLATFORM_ORDER_def is_object_def)

lemma example_record_ok:
  "is_lower_hex c \<Longrightarrow> platform \<in> set PLATFORM_ORDER \<Longrightarrow>
   validatePlatformRecord (example_record platform (example_digest c)) = Inr (example_record platform (example_digest c))"
  by (simp add: validatePlatformRecord_def example_record_def file_identity_def example_simps platformParts_def)

lemma example_platforms:
  "createPlatformRecord example_environment ''ghcr.io/o/i'' example_commit ''linux/amd64'' ''/a/amd64/m'' ''/a/amd64/b'' (example_digest (CHR ''a''))
     = Inr (example_record ''linux/amd64'' (example_digest (CHR ''a'')))"
  "createPlatformRecord example_environment ''ghcr.io/o/i'' example_commit ''linux/arm64'' ''/a/arm64/m'' ''/a/arm64/b'' (example_digest (CHR ''b''))
     = Inr (example_record ''linux/arm64'' (example_digest (CHR ''b'')))"
  using example_record_ok [of "CHR ''a''" "''linux/amd64''"] example_record_ok [of "CHR ''b''" "''linux/arm64''"]
  by (simp_all add: createPlatformRecord_def parseJsonFile_def parse_bytes_def example_read example_parse example_names example_documents
      example_simps PLATFORM_ORDER_def example_record_def)

lemma example_index_ok: "validateIndex example_index example_records = Inr ()"
proof -
  have "template_text (Some (JStr s)) = s" for s by (simp add: template_text_def)
  moreover have "is_array (Some (JArr vs))" "elements (Some (JArr vs)) = vs" for vs by (simp_all add: is_array_def elements_def)
  ultimately show ?thesis
    unfolding validateIndex_def example_index_def example_records_def
    by (simp add: example_simps example_descriptor_def example_record_def is_string_of_def MANIFEST_MEDIA_TYPES_def INDEX_MEDIA_TYPES_def
        platformParts_def PLATFORM_ORDER_def)
qed

lemma example_evidence_ok: "validateCandidateEvidence example_environment example_evidence = Inr example_evidence"
proof -
  have url: "run_url ''o/r'' ''1'' ''1'' = ''https://github.com/o/r/actions/runs/1/attempts/1''" by (simp add: run_url_def)
  have workflow: "validateWorkflow (json_field example_evidence ''workflow'') ''o/r'' example_commit = Inr ()"
    by (simp add: validateWorkflow_def example_evidence_def example_simps url template_text_def)
  have records: "all_asserted (\<lambda>record. bind_result (validatePlatformRecord record) (\<lambda>_. Inr ())) example_records = Inr ()"
    by (simp add: example_records_def example_record_ok example_texts PLATFORM_ORDER_def)
  have fields: "map (\<lambda>record. json_field record ''platform'') example_records = map (Some \<circ> JStr) PLATFORM_ORDER"
    "length example_records = 2"
    "card (set (map (\<lambda>record. json_field record ''digest'') example_records)) = 2"
    "\<forall>r \<in> set example_records. json_field r ''image'' = Some (JStr ''ghcr.io/o/i'') \<and> json_field r ''source_commit'' = Some (JStr example_commit)"
    by (simp_all add: example_records_def example_record_def PLATFORM_ORDER_def example_digest_def)
  have same: "all_asserted (\<lambda>record.
      bind_result (assert_that (json_field record ''image'' = Some (JStr ''ghcr.io/o/i'')) failed_assertion) (\<lambda>_.
      assert_that (json_field record ''source_commit'' = Some (JStr example_commit)) failed_assertion)) example_records = Inr ()"
    using fields(4) by (simp add: all_asserted_Inr)
  have iso: "env_iso example_environment ''2026'' = Some ''2026''" by (simp add: example_environment_def)
  from workflow show ?thesis
    unfolding validateCandidateEvidence_def Let_def
    by (simp add: example_evidence_def example_simps file_identity_def string_value_def is_array_def elements_def
        records fields(1-3) [simplified] fields(1-3) same iso)
qed

lemma example_created:
  "createCandidateEvidence example_environment ''o/r'' example_commit ''1'' ''1'' ''ghcr.io/o/i'' ''/i'' [''/q'', ''/p''] None
     = Inr example_evidence"
proof -
  have ranks: "platform_index (example_record ''linux/arm64'' d) = 1" "platform_index (example_record ''linux/amd64'' d) = 0" for d
    by (simp_all add: platform_index_def example_record_def)
  have host: "env_number example_environment ''1'' = Integer 1" "env_now example_environment = ''2026''"
    "or_else None x = x" for x :: string
    by (simp_all add: example_environment_def or_else_def)
  have url: "run_url ''o/r'' ''1'' ''1'' = ''https://github.com/o/r/actions/runs/1/attempts/1''" by (simp add: run_url_def)
  have ev: "JObj
       [(''schema_version'', JNum (Integer 1)), (''release_status'', JStr ''candidate''), (''repository'', JStr ''o/r''),
        (''source_commit'', JStr example_commit), (''created_at'', JStr ''2026''),
        (''workflow'', JObj
          [(''name'', JStr ''session-candidate''), (''run_id'', JNum (Integer 1)), (''run_attempt'', JNum (Integer 1)),
           (''url'', JStr (run_url ''o/r'' ''1'' ''1''))]),
        (''image'', JObj
          [(''name'', JStr ''ghcr.io/o/i''), (''candidate_tag'', JStr (''candidate-'' @ example_commit)),
           (''index_digest'', JStr (example_digest (CHR ''c''))), (''index'', file_identity ''i'' (example_digest (CHR ''c'')) 1),
           (''platforms'', JArr example_records)])] = example_evidence"
    by (simp add: example_evidence_def url)
  have parsed: "parseJsonFile example_environment ''/i'' 8388608 = Inr ([5], example_index)"
    "parseJsonFile example_environment ''/p'' 65536 = Inr ([6], example_record ''linux/amd64'' (example_digest (CHR ''a'')))"
    "parseJsonFile example_environment ''/q'' 65536 = Inr ([7], example_record ''linux/arm64'' (example_digest (CHR ''b'')))"
    by (simp_all add: parseJsonFile_Inr example_read example_parse)
  have ok: "validatePlatformRecord (example_record ''linux/amd64'' (example_digest (CHR ''a''))) = Inr (example_record ''linux/amd64'' (example_digest (CHR ''a'')))"
    "validatePlatformRecord (example_record ''linux/arm64'' (example_digest (CHR ''b''))) = Inr (example_record ''linux/arm64'' (example_digest (CHR ''b'')))"
    by (simp_all add: example_record_ok example_texts PLATFORM_ORDER_def)
  show ?thesis
    unfolding createCandidateEvidence_def Let_def
    using ev example_evidence_ok
    by (simp add: parsed ok ranks host example_one example_names example_index_ok example_parse(11) example_records_def [symmetric])
qed

theorem created_evidence_is_accepted_witness:
  "validateEvidenceFiles example_environment ''/e'' ''/i'' (abs_path [''a'']) = Inr example_evidence"
proof -
  have parsed: "parseJsonFile example_environment ''/p'' (64 * 1024) = Inr ([6], example_record ''linux/amd64'' (example_digest (CHR ''a'')))"
    "parseJsonFile example_environment ''/q'' (64 * 1024) = Inr ([7], example_record ''linux/arm64'' (example_digest (CHR ''b'')))"
    "parseJsonFile example_environment ''/e'' (256 * 1024) = Inr ([8], example_evidence)"
    by (simp_all add: parseJsonFile_Inr example_read example_parse)
  have paths: "abs_path ([''a''] @ [arch, f]) = ''/a/'' @ arch @ ''/'' @ f" for arch f by simp
  from example_platforms parsed example_created show ?thesis
    by (intro created_evidence_is_accepted [where env = example_environment and ds = "[''a'']" and ?m1.0 = "''m''" and ?b1.0 = "''b''"
          and ?m2.0 = "''m''" and ?b2.0 = "''b''" and paths = "[''/q'', ''/p'']" and ?p1.0 = "''/p''" and ?p2.0 = "''/q''"])
      (simp_all add: paths proper_segment_def)
qed

lemma example_accepted:
  "validateEvidenceFiles example_environment ''/e'' ''/i'' ''/a'' = Inr example_evidence"
proof -
  have paths: "''/a/amd64/m'' = abs_path ([''a''] @ [''amd64'', ''m''])" "''/a/amd64/b'' = abs_path ([''a''] @ [''amd64'', ''b''])"
    "''/a/arm64/m'' = abs_path ([''a''] @ [''arm64'', ''m''])" "''/a/arm64/b'' = abs_path ([''a''] @ [''arm64'', ''b''])"
    "''linux/amd64'' = ''linux/'' @ ''amd64''" "''linux/arm64'' = ''linux/'' @ ''arm64''" "''/a'' = abs_path [''a'']" by simp_all
  have segments: "list_all proper_segment [''a'']" "[''a''] \<noteq> []" "proper_segment ''m''" "proper_segment ''b''"
    "proper_segment ''amd64''" "proper_segment ''arm64''" by (simp_all add: proper_segment_def)
  have artifacts: "\<forall>r \<in> set example_records.
      check_artifact example_environment (platform_directory example_environment ''/a'' r) (json_field r ''manifest'') (8 * 1024 * 1024) = Inr ()
    \<and> check_artifact example_environment (platform_directory example_environment ''/a'' r) (json_field r ''sbom'') (16 * 1024 * 1024) = Inr ()"
    using created_record_artifacts [OF example_platforms(1) [unfolded paths] segments(1,2,5,3,4)]
      created_record_artifacts [OF example_platforms(2) [unfolded paths] segments(1,2,6,3,4)]
    by (simp add: example_records_def)
  have fields: "elements (member (json_field example_evidence ''image'') ''platforms'') = example_records"
    "member (json_field example_evidence ''image'') ''index_digest'' = Some (JStr (example_digest (CHR ''c'')))"
    by (simp_all add: example_evidence_def elements_def)
  have parsed: "parseJsonFile example_environment ''/e'' (256 * 1024) = Inr ([8], example_evidence)"
    "stableRead example_environment ''/i'' (8 * 1024 * 1024) = Inr [5]"
    by (simp_all add: parseJsonFile_Inr example_read example_parse)
  have checked: "all_asserted (\<lambda>r.
      bind_result (check_artifact example_environment (platform_directory example_environment ''/a'' r) (json_field r ''manifest'') (8 * 1024 * 1024))
        (\<lambda>_. check_artifact example_environment (platform_directory example_environment ''/a'' r) (json_field r ''sbom'') (16 * 1024 * 1024)))
      example_records = Inr ()"
    using artifacts by (simp add: all_asserted_Inr)
  show ?thesis
    unfolding validateEvidenceFiles_def Let_def parsed bind_result.simps prod.case example_evidence_ok member_Some fields
      parse_bytes_def example_parse option.case example_index_ok assert_that_True
    using checked by (simp add: platform_directory_def)
qed

theorem accepted_evidence_binds_the_files_witness:
  "\<exists>img records. json_field example_evidence ''image'' = Some img \<and> records = elements (json_field img ''platforms'')
    \<and> map (\<lambda>r. json_field r ''platform'') records = [Some (JStr ''linux/amd64''), Some (JStr ''linux/arm64'')]"
  using accepted_evidence_binds_the_files [OF example_accepted] by (elim exE conjE, intro exI conjI) assumption+

end
