(* ===== verification/BrowserState.thy ===== *)
theory BrowserState
  imports Types
begin

text \<open>
  \<open>scripts/fixtures/browser-state-server.mjs\<close>: the server of the browser-state gate, which hands
  the gate's commands to a page in the session's browser and takes the page's reports. A request
  has its effect in one piece when its body has arrived, so any order of requests is a sequence of
  steps. The text of the page is an argument; the supervisor's process, which the script starts beside the server, is a
  state machine of its own.
\<close>

type_synonym 'a attempt = "(nat \<times> string) + 'a"

fun attempt_bind :: "'a attempt \<Rightarrow> ('a \<Rightarrow> 'b attempt) \<Rightarrow> 'b attempt" where
  "attempt_bind (Inl e) f = Inl e"
| "attempt_bind (Inr a) f = f a"

lemma attempt_bind_Inr [simp]: "attempt_bind r f = Inr b \<longleftrightarrow> (\<exists>a. r = Inr a \<and> f a = Inr b)"
  by (cases r) auto

lemma attempt_bind_Inl: "attempt_bind r f = Inl e \<longleftrightarrow> r = Inl e \<or> (\<exists>a. r = Inr a \<and> f a = Inl e)"
  by (cases r) auto

definition require :: "bool \<Rightarrow> nat \<Rightarrow> string \<Rightarrow> unit attempt" where
  "require b status message = (if b then Inr () else Inl (status, message))"

lemma require_Inr [simp]: "require b n m = Inr u \<longleftrightarrow> b"
  by (simp add: require_def)

subsection \<open>Commands and reports\<close>

text \<open>\<open>/^[a-z]+-[a-f0-9]{24}$/\<close>.\<close>

definition is_marker :: "string \<Rightarrow> bool" where
  "is_marker s =
     (let rest = dropWhile is_lower s in
      takeWhile is_lower s \<noteq> [] \<and> starts_with ''-'' rest \<and> length (tl rest) = 24 \<and> list_all is_lower_hex (tl rest))"

definition is_sequence :: "json option \<Rightarrow> bool" where
  "is_sequence v =
     (case v of
        Some (JNum n) \<Rightarrow> isSafeInteger n \<and> (case n of Integer i \<Rightarrow> 0 \<le> i | NonInteger \<Rightarrow> False)
      | _ \<Rightarrow> False)"

definition sequence_of :: "json \<Rightarrow> int" where
  "sequence_of v = (case json_field v ''sequence'' of Some (JNum (Integer i)) \<Rightarrow> i | _ \<Rightarrow> 0)"

definition validateCommand :: "json \<Rightarrow> json attempt" where
  "validateCommand v =
     (let sequence = (''sequence'', JNum (Integer (sequence_of v))) in
      if \<not> json_object v \<or> \<not> is_sequence (json_field v ''sequence'') then Inl (400, ''invalid command sequence'')
      else if json_field v ''action'' = Some (JStr ''observe'') \<and> sorted_keys v = ''action,sequence''
      then Inr (JObj [sequence, (''action'', JStr ''observe'')])
      else if json_field v ''action'' = Some (JStr ''seed'') \<and> sorted_keys v = ''action,marker,sequence''
      then (case string_field v ''marker'' of
              Some m \<Rightarrow>
                if is_marker m then Inr (JObj [sequence, (''action'', JStr ''seed''), (''marker'', JStr m)])
                else Inl (400, ''invalid browser-state command'')
            | None \<Rightarrow> Inl (400, ''invalid browser-state command''))
      else Inl (400, ''invalid browser-state command''))"

definition marker_fields :: "string list" where
  "marker_fields = [''cookieMarker'', ''localStorageMarker'', ''serviceWorkerMarker'']"

definition is_boolean :: "json option \<Rightarrow> bool" where
  "is_boolean v = (case v of Some (JBool _) \<Rightarrow> True | _ \<Rightarrow> False)"

definition validateReport :: "json \<Rightarrow> json attempt" where
  "validateReport v =
     attempt_bind (require (json_object v \<and> sorted_keys v =
         ''cookieMarker,error,localStorageMarker,schemaVersion,sequence,serviceWorkerMarker,serviceWorkerRegistered,serviceWorkerSupported'')
       400 ''invalid browser-state report shape'') (\<lambda>_.
     attempt_bind (require (json_field v ''schemaVersion'' = Some (JNum (Integer 1)) \<and> is_sequence (json_field v ''sequence'')
         \<and> list_all (\<lambda>k. string_field v k \<noteq> None) marker_fields
         \<and> is_boolean (json_field v ''serviceWorkerSupported'') \<and> is_boolean (json_field v ''serviceWorkerRegistered'')
         \<and> (case string_field v ''error'' of None \<Rightarrow> False | Some e \<Rightarrow> length e \<le> 256))
       400 ''invalid browser-state report values'') (\<lambda>_.
     attempt_bind (require (list_all (\<lambda>k. case string_field v k of None \<Rightarrow> False | Some m \<Rightarrow> m = [] \<or> is_marker m) marker_fields)
       400 ''invalid browser-state report marker'') (\<lambda>_. Inr v)))"

subsection \<open>Requests\<close>

definition MAX_DOCUMENT_BYTES :: nat where "MAX_DOCUMENT_BYTES = 8 * 1024"

text \<open>The chunks of a body as they arrive, and the error that may end the stream.\<close>

fun read_chunks :: "nat \<Rightarrow> nat list list \<Rightarrow> string option \<Rightarrow> nat list attempt" where
  "read_chunks n [] e = (case e of None \<Rightarrow> Inr [] | Some m \<Rightarrow> Inl (500, m))"
| "read_chunks n (c # cs) e =
     (if n + length c > MAX_DOCUMENT_BYTES then Inl (413, ''request body too large'')
      else attempt_bind (read_chunks (n + length c) cs e) (\<lambda>rest. Inr (c @ rest)))"

definition readJson :: "(nat list \<Rightarrow> json option) \<Rightarrow> nat list list \<Rightarrow> string option \<Rightarrow> json attempt" where
  "readJson json_parse chunks e =
     attempt_bind (read_chunks 0 chunks e) (\<lambda>content.
       case json_parse content of None \<Rightarrow> Inl (400, ''request body must be valid JSON'') | Some v \<Rightarrow> Inr v)"

datatype body = Page | WorkerScript string | Document json | Text string | Empty

record state_server =
  gate_command :: json
  gate_report :: "json option"

text \<open>A request: its method, what \<open>new URL\<close> makes of its target (path and \<open>marker\<close>), its body.\<close>

record gate_request =
  gr_method :: string
  gr_url :: "(string \<times> string option) option"
  gr_chunks :: "nat list list"
  gr_broken :: "string option"

definition initial_server :: state_server where
  "initial_server = \<lparr>gate_command = JObj [(''sequence'', JNum (Integer 0)), (''action'', JStr ''observe'')], gate_report = None\<rparr>"

definition take_command :: "json \<Rightarrow> state_server \<Rightarrow> ((nat \<times> body) \<times> state_server) attempt" where
  "take_command v s =
     attempt_bind (validateCommand v) (\<lambda>next_command.
     attempt_bind (require (sequence_of next_command > sequence_of (gate_command s)) 409 ''command sequence must advance'') (\<lambda>_.
     Inr ((200, Document next_command), s\<lparr>gate_command := next_command, gate_report := None\<rparr>)))"

definition take_report :: "json \<Rightarrow> state_server \<Rightarrow> ((nat \<times> body) \<times> state_server) attempt" where
  "take_report v s =
     attempt_bind (validateReport v) (\<lambda>next_report.
     attempt_bind (require (sequence_of next_report = sequence_of (gate_command s)) 409 ''report sequence is stale'') (\<lambda>_.
     Inr ((204, Empty), s\<lparr>gate_report := Some next_report\<rparr>)))"

definition route :: "(nat list \<Rightarrow> json option) \<Rightarrow> gate_request \<Rightarrow> state_server \<Rightarrow> ((nat \<times> body) \<times> state_server) attempt" where
  "route json_parse req s =
     (case gr_url req of
        None \<Rightarrow> Inl (500, ''Invalid URL'')
      | Some (pathname, marker) \<Rightarrow>
          let verb = gr_method req; document = readJson json_parse (gr_chunks req) (gr_broken req) in
          if verb = ''GET'' \<and> pathname = ''/'' then Inr ((200, Page), s)
          else if verb = ''GET'' \<and> pathname = ''/state-worker.js'' then
            attempt_bind (require (is_marker (or_else marker [])) 400 ''invalid worker marker'') (\<lambda>_.
            Inr ((200, WorkerScript (or_else marker [])), s))
          else if verb = ''GET'' \<and> pathname = ''/command'' then Inr ((200, Document (gate_command s)), s)
          else if verb = ''POST'' \<and> pathname = ''/command'' then attempt_bind document (\<lambda>v. take_command v s)
          else if verb = ''GET'' \<and> pathname = ''/report'' then
            (case gate_report s of None \<Rightarrow> Inl (404, ''report unavailable'') | Some r \<Rightarrow> Inr ((200, Document r), s))
          else if verb = ''POST'' \<and> pathname = ''/report'' then attempt_bind document (\<lambda>v. take_report v s)
          else Inl (404, ''not found''))"

definition handle_request ::
  "(nat list \<Rightarrow> json option) \<Rightarrow> gate_request \<Rightarrow> state_server \<Rightarrow> (nat \<times> body) \<times> state_server" where
  "handle_request json_parse req s =
     (case route json_parse req s of
        Inr result \<Rightarrow> result
      | Inl (status, message) \<Rightarrow> ((status, Text (message @ [CHR 0x0A])), s))"

inductive state_step :: "(nat list \<Rightarrow> json option) \<Rightarrow> state_server \<Rightarrow> state_server \<Rightarrow> bool"
  for json_parse :: "nat list \<Rightarrow> json option" where
  request: "handle_request json_parse req s = (reply, t) \<Longrightarrow> state_step json_parse s t"

inductive_cases state_step_cases: "state_step json_parse s t"

subsection \<open>Responses\<close>

definition securityHeaders :: "(string \<times> string) list" where
  "securityHeaders =
     [(''cache-control'', ''no-store''), (''referrer-policy'', ''no-referrer''), (''x-content-type-options'', ''nosniff'')]"

definition worker_source :: "string \<Rightarrow> string" where
  "worker_source marker =
     [CHR 0x22] @ ''use strict'' @ [CHR 0x22] @ '';const marker='' @ json_quote marker
     @ '';self.addEventListener('' @ [CHR 0x22] @ ''message'' @ [CHR 0x22]
     @ '',(event)=>{if(event.data?.type==='' @ [CHR 0x22] @ ''fireball-state-marker'' @ [CHR 0x22]
     @ ''&&event.ports[0])event.ports[0].postMessage({marker});});''"

fun body_bytes :: "nat list \<Rightarrow> body \<Rightarrow> nat list" where
  "body_bytes page_bytes Page = page_bytes"
| "body_bytes page_bytes (WorkerScript marker) = utf8 (worker_source marker)"
| "body_bytes page_bytes (Document v) = utf8 (json_stringify v)"
| "body_bytes page_bytes (Text s) = utf8 s"
| "body_bytes page_bytes Empty = []"

fun content_type :: "body \<Rightarrow> string" where
  "content_type Page = ''text/html; charset=utf-8''"
| "content_type (WorkerScript marker) = ''text/javascript; charset=utf-8''"
| "content_type (Document v) = ''application/json; charset=utf-8''"
| "content_type (Text s) = ''text/plain; charset=utf-8''"
| "content_type Empty = []"

fun extra_headers :: "body \<Rightarrow> (string \<times> string) list" where
  "extra_headers Page =
     [(''content-security-policy'',
       ''default-src '' @ [CHR 0x27] @ ''none'' @ [CHR 0x27] @ ''; script-src '' @ [CHR 0x27] @ ''unsafe-inline'' @ [CHR 0x27]
       @ ''; connect-src '' @ [CHR 0x27] @ ''self'' @ [CHR 0x27] @ ''; worker-src '' @ [CHR 0x27] @ ''self'' @ [CHR 0x27] @ '';'')]"
| "extra_headers (WorkerScript marker) = [(''service-worker-allowed'', ''/'')]"
| "extra_headers _ = []"

text \<open>What \<open>respond\<close> writes; the answer to a report has no body and only the security headers.\<close>

definition written_headers :: "nat list \<Rightarrow> body \<Rightarrow> (string \<times> string) list" where
  "written_headers page_bytes reply =
     (if reply = Empty then securityHeaders
      else securityHeaders @ extra_headers reply
        @ [(''content-length'', show_nat (length (body_bytes page_bytes reply))), (''content-type'', content_type reply)])"

subsection \<open>The supervisor's process\<close>

text \<open>
  \<open>fx_running\<close> is whether the supervisor has neither an exit code nor a signal; \<open>process.once\<close> and
  \<open>supervisor.once\<close> deliver an event at most once. \<open>fx_exitCode\<close> is \<open>process.exitCode\<close>.
\<close>

record fixture =
  fx_shuttingDown :: bool
  fx_running :: bool
  fx_serverOpen :: bool
  fx_signals :: "string list"
  fx_exitCode :: "int option"
  fx_heard :: "string list"

definition started_fixture :: fixture where
  "started_fixture = \<lparr>fx_shuttingDown = False, fx_running = True, fx_serverOpen = True, fx_signals = [], fx_exitCode = None,
     fx_heard = []\<rparr>"

definition fixture_shutdown :: "string \<Rightarrow> fixture \<Rightarrow> fixture" where
  "fixture_shutdown signal f =
     (if fx_shuttingDown f then f
      else f\<lparr>fx_shuttingDown := True, fx_signals := (if fx_running f then fx_signals f @ [signal] else fx_signals f),
             fx_serverOpen := False\<rparr>)"

datatype fixture_event = Terminated | Interrupted | SupervisorError | SupervisorExit "int option" "string option"

fun event_name :: "fixture_event \<Rightarrow> string" where
  "event_name Terminated = ''SIGTERM''"
| "event_name Interrupted = ''SIGINT''"
| "event_name SupervisorError = ''error''"
| "event_name (SupervisorExit n signal) = ''exit''"

definition exit_code :: "int option \<Rightarrow> string option \<Rightarrow> int" where
  "exit_code n signal = (case n of Some c \<Rightarrow> c | None \<Rightarrow> if signal \<noteq> None then 1 else 0)"

fun handle_event :: "fixture_event \<Rightarrow> fixture \<Rightarrow> fixture" where
  "handle_event Terminated f = fixture_shutdown ''SIGTERM'' f"
| "handle_event Interrupted f = fixture_shutdown ''SIGINT'' f"
| "handle_event SupervisorError f = (fixture_shutdown ''SIGKILL'' f)\<lparr>fx_exitCode := Some 1\<rparr>"
| "handle_event (SupervisorExit n signal) f =
     f\<lparr>fx_running := False, fx_serverOpen := False, fx_exitCode := Some (exit_code n signal)\<rparr>"

definition fixture_event :: "fixture_event \<Rightarrow> fixture \<Rightarrow> fixture" where
  "fixture_event e f =
     (if event_name e \<in> set (fx_heard f) then f else handle_event e (f\<lparr>fx_heard := event_name e # fx_heard f\<rparr>))"

lemma fixture_shutdown_signals:
  "(fx_signals f = [] \<or> fx_shuttingDown f) \<and> length (fx_signals f) \<le> 1 \<Longrightarrow>
   (fx_signals (fixture_event e f) = [] \<or> fx_shuttingDown (fixture_event e f)) \<and> length (fx_signals (fixture_event e f)) \<le> 1"
  by (cases e) (auto simp: fixture_event_def fixture_shutdown_def)

text \<open>Whatever happens, the supervisor is signalled at most once.\<close>

lemma fixture_signals_once: "length (fx_signals (fold fixture_event es started_fixture)) \<le> 1"
proof -
  have "(fx_signals (fold fixture_event es f) = [] \<or> fx_shuttingDown (fold fixture_event es f))
      \<and> length (fx_signals (fold fixture_event es f)) \<le> 1"
    if "(fx_signals f = [] \<or> fx_shuttingDown f) \<and> length (fx_signals f) \<le> 1" for f
    using that by (induction es arbitrary: f) (simp_all only: fold_simps fixture_shutdown_signals)
  then show ?thesis by (simp add: started_fixture_def)
qed

subsection \<open>Reports answer the current command\<close>

definition command_ok :: "json \<Rightarrow> bool" where
  "command_ok c = (\<exists>i \<ge> 0. i \<le> max_safe_integer \<and>
     (c = JObj [(''sequence'', JNum (Integer i)), (''action'', JStr ''observe'')]
      \<or> (\<exists>m. is_marker m \<and> c = JObj [(''sequence'', JNum (Integer i)), (''action'', JStr ''seed''), (''marker'', JStr m)])))"

definition report_ok :: "state_server \<Rightarrow> bool" where
  "report_ok s = (case gate_report s of None \<Rightarrow> True
     | Some r \<Rightarrow> validateReport r = Inr r \<and> sequence_of r = sequence_of (gate_command s))"

lemma is_sequence_Some:
  "is_sequence v \<longleftrightarrow> (\<exists>i. v = Some (JNum (Integer i)) \<and> 0 \<le> i \<and> i \<le> max_safe_integer)"
  by (auto simp: is_sequence_def max_safe_integer_def split: option.splits json.splits number.splits)

lemma validateCommand_ok: "validateCommand v = Inr c \<Longrightarrow> command_ok c"
  unfolding validateCommand_def Let_def command_ok_def
  by (auto simp: is_sequence_Some sequence_of_def split: if_splits option.splits)

lemma validateReport_same: "validateReport v = Inr r \<Longrightarrow> validateReport r = Inr r"
  by (auto simp: validateReport_def)

text \<open>What one request can do to the server.\<close>

definition request_effect :: "state_server \<Rightarrow> state_server \<Rightarrow> bool" where
  "request_effect s t =
     (t = s
      \<or> command_ok (gate_command t) \<and> sequence_of (gate_command s) < sequence_of (gate_command t) \<and> gate_report t = None
      \<or> gate_command t = gate_command s \<and> gate_report t \<noteq> None \<and> report_ok t)"

lemma take_command_effect: "take_command v s = Inr (reply, t) \<Longrightarrow> request_effect s t"
  by (auto simp: take_command_def request_effect_def dest: validateCommand_ok)

lemma take_report_effect: "take_report v s = Inr (reply, t) \<Longrightarrow> request_effect s t"
  by (auto simp: take_report_def request_effect_def report_ok_def dest: validateReport_same)

lemma route_effect: "route json_parse req s = Inr (reply, t) \<Longrightarrow> request_effect s t"
  unfolding route_def Let_def
  by (auto split: option.splits if_splits dest!: take_command_effect take_report_effect) (auto simp: request_effect_def)

lemma step_effect: "state_step json_parse s t \<Longrightarrow> request_effect s t"
  by (erule state_step_cases) (auto simp: handle_request_def request_effect_def dest: route_effect [unfolded request_effect_def] split: sum.splits)

definition server_inv :: "state_server \<Rightarrow> bool" where
  "server_inv s = (command_ok (gate_command s) \<and> report_ok s)"

lemma initial_server_inv: "server_inv initial_server"
  by (auto simp: server_inv_def command_ok_def report_ok_def initial_server_def max_safe_integer_def)

interpretation state_server_system: step_invariant "\<lambda>s. s = initial_server" "state_step json_parse" server_inv
  for json_parse :: "nat list \<Rightarrow> json option"
  using initial_server_inv
  by unfold_locales (auto simp: server_inv_def request_effect_def report_ok_def dest!: step_effect)

lemma sequences_only_grow: "(state_step json_parse)\<^sup>*\<^sup>* s t \<Longrightarrow> sequence_of (gate_command s) \<le> sequence_of (gate_command t)"
  by (induction rule: rtranclp_induct) (auto dest!: step_effect simp: request_effect_def)

lemma read_chunks_status: "read_chunks n cs e = Inl (status, m) \<Longrightarrow> status \<in> {413, 500}"
  by (induction n cs e rule: read_chunks.induct) (auto simp: attempt_bind_Inl split: option.splits if_splits)

lemma validate_status:
  "validateCommand v = Inl (status, m) \<Longrightarrow> status = 400" "validateReport v = Inl (status, m) \<Longrightarrow> status = 400"
  by (auto simp: validateCommand_def Let_def validateReport_def attempt_bind_Inl require_def split: option.splits if_splits)

lemma request_status:
  "(case route json_parse req s of Inl (status, m) \<Rightarrow> status \<in> {400, 404, 409, 413, 500}
    | Inr ((status, reply), t) \<Rightarrow> status \<in> {200, 204})"
proof (cases "route json_parse req s")
  case (Inl e)
  obtain status m where e: "e = (status, m)" by (cases e)
  have document: "readJson json_parse cs b = Inl (status, m) \<Longrightarrow> status \<in> {400, 413, 500}" for cs b
    unfolding readJson_def by (auto simp: attempt_bind_Inl split: option.splits dest: read_chunks_status)
  have taken: "take_command v s = Inl (status, m) \<Longrightarrow> status \<in> {400, 409}" "take_report v s = Inl (status, m) \<Longrightarrow> status \<in> {400, 409}" for v
    unfolding take_command_def take_report_def
    by (auto simp: attempt_bind_Inl require_def dest: validate_status split: if_splits)
  from Inl show ?thesis
    unfolding e route_def Let_def
    by (auto simp: attempt_bind_Inl require_def split: option.splits if_splits dest: document taken)
next
  case (Inr r)
  then show ?thesis
    unfolding route_def Let_def
    by (auto simp: take_command_def take_report_def split: option.splits if_splits)
qed

text \<open>
  Whatever requests the server of the browser-state gate gets, in any order, its command is a
  well-formed one and the report it holds is well-formed and answers that very command, whose sequence number never
  decreases; so a report that \<open>GET /report\<close> returns was made for the current command. A refused
  request is answered with 400, 404, 409, 413 or 500 and changes nothing.
\<close>

lemma reports_answer_the_current_command:
  assumes "reachable (\<lambda>s. s = initial_server) (state_step json_parse) s"
    and "handle_request json_parse req s = ((status, reply), t)"
  shows "command_ok (gate_command s) \<and> sequence_of (gate_command s) \<le> sequence_of (gate_command t)
    \<and> (gate_command t \<noteq> gate_command s \<longrightarrow> sequence_of (gate_command s) < sequence_of (gate_command t) \<and> gate_report t = None)
    \<and> (\<forall>r. gate_report s = Some r \<longrightarrow> validateReport r = Inr r \<and> sequence_of r = sequence_of (gate_command s))
    \<and> (status \<in> {200, 204} \<or> status \<in> {400, 404, 409, 413, 500} \<and> t = s)
    \<and> (gr_method req = ''GET'' \<longrightarrow> t = s)"
proof (intro conjI)
  from assms(1) have inv: "server_inv s" by (rule state_server_system.reachable_inv)
  then show "command_ok (gate_command s)" by (simp add: server_inv_def)
  from inv show "\<forall>r. gate_report s = Some r \<longrightarrow> validateReport r = Inr r \<and> sequence_of r = sequence_of (gate_command s)"
    by (auto simp: server_inv_def report_ok_def)
  have "request_effect s t" by (rule step_effect) (rule state_step.request [OF assms(2)])
  then show "sequence_of (gate_command s) \<le> sequence_of (gate_command t)"
    and "gate_command t \<noteq> gate_command s \<longrightarrow> sequence_of (gate_command s) < sequence_of (gate_command t) \<and> gate_report t = None"
    by (auto simp: request_effect_def)
  show "status \<in> {200, 204} \<or> status \<in> {400, 404, 409, 413, 500} \<and> t = s"
    using assms(2) request_status [of json_parse req s] by (auto simp: handle_request_def split: sum.splits)
  show "gr_method req = ''GET'' \<longrightarrow> t = s"
    using assms(2) unfolding handle_request_def route_def Let_def by (auto split: sum.splits option.splits if_splits)
qed

definition example_request :: gate_request where
  "example_request = \<lparr>gr_method = ''POST'', gr_url = Some (''/command'', None), gr_chunks = [[7], [8]], gr_broken = None\<rparr>"

definition example_document :: "nat list \<Rightarrow> json option" where
  "example_document b =
     (if b = [7, 8] then Some (JObj [(''action'', JStr ''observe''), (''sequence'', JNum (Integer 3))]) else None)"

definition example_command :: json where
  "example_command = JObj [(''sequence'', JNum (Integer 3)), (''action'', JStr ''observe'')]"

lemma example_handled:
  "handle_request example_document example_request initial_server =
     ((200, Document example_command), \<lparr>gate_command = example_command, gate_report = None\<rparr>)"
proof -
  have "readJson example_document [[7], [8]] None = Inr (JObj [(''action'', JStr ''observe''), (''sequence'', JNum (Integer 3))])"
    by (simp add: readJson_def example_document_def MAX_DOCUMENT_BYTES_def)
  moreover have "sorted_keys (JObj [(''action'', JStr ''observe''), (''sequence'', JNum (Integer 3))]) = ''action,sequence''" by code_simp
  ultimately show ?thesis
    by (simp add: handle_request_def route_def example_request_def take_command_def validateCommand_def is_sequence_def sequence_of_def
        max_safe_integer_def initial_server_def example_command_def require_def)
qed

lemma reports_answer_the_current_command_witness:
  "command_ok (gate_command initial_server) \<and> sequence_of (gate_command initial_server) < sequence_of example_command"
  using reports_answer_the_current_command [OF reachable_init example_handled]
  by (simp add: initial_server_def example_command_def)

end
