(* ===== verification/Polling.thy ===== *)
theory Polling
  imports Assertions
begin

text \<open>
  The loops with which the gates of \<open>scripts/real-*.mjs\<close> and \<open>session/container-smoke.mjs\<close> wait:
  until a deadline has passed on the clock, or for a number of attempts. A probe takes some time and a
  delay lasts at least as long as asked for (\<open>late\<close> is by how much it is longer), so the clock, which nobody
  sets back, advances in every round. A loop with a deadline is a partial function of the clock; that it returns
  is a theorem.
\<close>

subsection \<open>The clock\<close>

record 'e gate_world =
  gw_now :: int
  gw_rest :: 'e

type_synonym ('e, 'a) timed = "'e \<Rightarrow> 'a \<times> nat \<times> 'e"

definition run_timed :: "('e, 'a) timed \<Rightarrow> 'e gate_world \<Rightarrow> 'a \<times> 'e gate_world" where
  "run_timed p w = (case p (gw_rest w) of (a, ms, e) \<Rightarrow> (a, \<lparr>gw_now = gw_now w + int ms, gw_rest = e\<rparr>))"

definition delay :: "('e \<Rightarrow> nat) \<Rightarrow> nat \<Rightarrow> 'e gate_world \<Rightarrow> 'e gate_world" where
  "delay late ms w = w\<lparr>gw_now := gw_now w + int ms + int (late (gw_rest w))\<rparr>"

lemma run_timed_now: "gw_now w \<le> gw_now (snd (run_timed p w))"
  by (simp add: run_timed_def split: prod.splits)

lemma delay_now: "gw_now w + int ms \<le> gw_now (delay late ms w)"
  by (simp add: delay_def)

subsection \<open>Loops with a deadline\<close>

text \<open>
  \<open>while (Date.now() < deadline)\<close>: the probe answers \<open>Some\<close> to leave the loop. The state \<open>'w\<close> holds the
  loop's variables besides the world.
\<close>

partial_function (option) poll_until ::
  "('w \<Rightarrow> int) \<Rightarrow> ('w \<Rightarrow> 'r option \<times> 'w) \<Rightarrow> ('w \<Rightarrow> 'w) \<Rightarrow> int \<Rightarrow> 'w \<Rightarrow> ('r option \<times> 'w) option" where
  "poll_until now probe sleep deadline w =
     (if now w < deadline
      then (case fst (probe w) of
              Some r \<Rightarrow> Some (Some r, snd (probe w))
            | None \<Rightarrow> poll_until now probe sleep deadline (sleep (snd (probe w))))
      else Some (None, w))"

definition poll_round :: "('w \<Rightarrow> 'r option \<times> 'w) \<Rightarrow> ('w \<Rightarrow> 'w) \<Rightarrow> 'w \<Rightarrow> 'w" where
  "poll_round probe sleep w = sleep (snd (probe w))"

text \<open>
  What a loop with a deadline does: after \<open>n\<close> fruitless rounds, of at least \<open>period\<close> milliseconds each, it ends either
  with the answer of the next probe, or with none because the deadline has passed.
\<close>

definition polled ::
  "('w \<Rightarrow> int) \<Rightarrow> ('w \<Rightarrow> 'r option \<times> 'w) \<Rightarrow> ('w \<Rightarrow> 'w) \<Rightarrow> nat \<Rightarrow> nat \<Rightarrow> 'w \<Rightarrow> nat \<Rightarrow> 'r option \<times> 'w \<Rightarrow> bool" where
  "polled now probe sleep period timeout w n out \<longleftrightarrow>
     (let v = (\<lambda>k. (poll_round probe sleep ^^ k) w); deadline = now w + int timeout in
      n * period < timeout + period
      \<and> (\<forall>k < n. now (v k) < deadline \<and> fst (probe (v k)) = None)
      \<and> (if now (v n) < deadline then out = probe (v n) \<and> fst out \<noteq> None else out = (None, v n)))"

locale deadline_loop =
  fixes now :: "'w \<Rightarrow> int" and probe :: "'w \<Rightarrow> 'r option \<times> 'w" and sleep :: "'w \<Rightarrow> 'w" and period :: nat
  assumes probe_time: "now w \<le> now (snd (probe w))"
    and sleep_time: "now w + int period \<le> now (sleep w)"
    and period: "0 < period"
begin

lemma round_time: "now w + int period \<le> now (poll_round probe sleep w)"
  using probe_time [of w] sleep_time [of "snd (probe w)"] by (simp add: poll_round_def)

lemma rounds_time: "now w + int (n * period) \<le> now ((poll_round probe sleep ^^ n) w)"
proof (induction n)
  case (Suc n)
  with round_time [of "(poll_round probe sleep ^^ n) w"] show ?case by (simp add: algebra_simps)
qed simp

text \<open>The loop stops after some number \<open>n\<close> of rounds, in the state that many rounds lead to.\<close>

definition stops_after :: "int \<Rightarrow> 'w \<Rightarrow> nat \<Rightarrow> bool" where
  "stops_after deadline w n =
     (let v = (poll_round probe sleep ^^ n) w in
      (\<forall>k < n. now ((poll_round probe sleep ^^ k) w) < deadline \<and> fst (probe ((poll_round probe sleep ^^ k) w)) = None)
      \<and> (deadline \<le> now v \<or> fst (probe v) \<noteq> None))"

lemma poll_until_stops:
  "stops_after deadline w n \<Longrightarrow>
   poll_until now probe sleep deadline w =
     (let v = (poll_round probe sleep ^^ n) w in if now v < deadline then Some (probe v) else Some (None, v))"
proof (induction n arbitrary: w)
  case 0
  then show ?case
    by (auto simp: stops_after_def poll_until.simps [of _ _ _ _ w] Let_def split: option.splits) (metis prod.collapse)
next
  case (Suc n)
  have shift: "(poll_round probe sleep ^^ Suc k) w = (poll_round probe sleep ^^ k) (poll_round probe sleep w)" for k
    by (simp add: funpow_swap1)
  from Suc.prems have first: "now w < deadline" "fst (probe w) = None"
    unfolding stops_after_def by (metis funpow_0 zero_less_Suc)+
  have "stops_after deadline (poll_round probe sleep w) n"
    using Suc.prems unfolding stops_after_def Let_def shift by (metis Suc_less_eq shift)
  moreover have "poll_until now probe sleep deadline w = poll_until now probe sleep deadline (poll_round probe sleep w)"
    by (subst poll_until.simps) (simp add: first poll_round_def)
  ultimately show ?case unfolding shift by (simp only: Suc.IH)
qed

lemma some_round_stops: "\<exists>n. stops_after deadline w n \<and> int (n * period) < max 0 (deadline - now w) + int period"
proof -
  let ?stop = "\<lambda>n. deadline \<le> now ((poll_round probe sleep ^^ n) w) \<or> fst (probe ((poll_round probe sleep ^^ n) w)) \<noteq> None"
  have "?stop (nat (max 0 (deadline - now w)))"
  proof -
    let ?n = "nat (max 0 (deadline - now w))"
    have "?n \<le> ?n * period" using period by simp
    then have "int ?n \<le> int (?n * period)" by (simp only: of_nat_le_iff)
    moreover have "deadline \<le> now w + int ?n" by simp
    ultimately show ?thesis using rounds_time [of w ?n] by linarith
  qed
  then have least: "?stop (LEAST n. ?stop n)" and before: "\<forall>k < (LEAST n. ?stop n). \<not> ?stop k"
    by (rule LeastI) (blast dest: not_less_Least)
  obtain n where n: "?stop n" "\<forall>k < n. \<not> ?stop k" using least before by blast
  then have "stops_after deadline w n" unfolding stops_after_def Let_def by auto
  moreover have "int (n * period) < max 0 (deadline - now w) + int period"
  proof (cases n)
    case 0
    with period show ?thesis by simp
  next
    case (Suc m)
    with n(2) rounds_time [of w m] have "now w + int (m * period) < deadline" by auto
    with Suc show ?thesis by (simp add: algebra_simps)
  qed
  ultimately show ?thesis by blast
qed

lemma poll_until_polled:
  "\<exists>n out. polled now probe sleep period timeout w n out \<and> poll_until now probe sleep (now w + int timeout) w = Some out"
proof -
  let ?deadline = "now w + int timeout"
  obtain n where n: "stops_after ?deadline w n" "int (n * period) < max 0 (?deadline - now w) + int period"
    using some_round_stops by blast
  let ?v = "(poll_round probe sleep ^^ n) w"
  let ?out = "if now ?v < ?deadline then probe ?v else (None, ?v)"
  have "n * period < timeout + period" using n(2) by linarith
  with n(1) have "polled now probe sleep period timeout w n ?out"
    by (auto simp: polled_def stops_after_def Let_def)
  moreover have "poll_until now probe sleep ?deadline w = Some ?out"
    using poll_until_stops [OF n(1)] by (simp add: Let_def)
  ultimately show ?thesis by blast
qed

end

subsection \<open>The loops of the gates\<close>

text \<open>
  \<open>real-media-gate.mjs\<close>: the probe throws, or answers \<open>undefined\<close> or \<open>false\<close> (\<open>None\<close>), or a
  value. \<open>None\<close> as the result of the whole would mean that the loop does not return.
\<close>

definition media_probe :: "('e, thrown + 'a option) timed \<Rightarrow> 'e gate_world \<Rightarrow> (thrown + 'a) option \<times> 'e gate_world" where
  "media_probe probe w =
     (case run_timed probe w of
        (Inl e, w') \<Rightarrow> (Some (Inl e), w')
      | (Inr None, w') \<Rightarrow> (None, w')
      | (Inr (Some a), w') \<Rightarrow> (Some (Inr a), w'))"

definition media_waitFor ::
  "('e \<Rightarrow> nat) \<Rightarrow> ('e, thrown + 'a option) timed \<Rightarrow> nat \<Rightarrow> string \<Rightarrow> 'e gate_world \<Rightarrow> ((thrown + 'a) \<times> 'e gate_world) option" where
  "media_waitFor late probe timeout message w =
     map_option (\<lambda>(r, w'). (case r of Some a \<Rightarrow> a | None \<Rightarrow> Inl (PlainError message), w'))
       (poll_until gw_now (media_probe probe) (delay late 250) (gw_now w + int timeout) w)"

text \<open>\<open>real-turn-gate.mjs\<close>: the probe answers a boolean.\<close>

definition turn_probe :: "('e, thrown + bool) timed \<Rightarrow> 'e gate_world \<Rightarrow> (thrown + unit) option \<times> 'e gate_world" where
  "turn_probe probe w =
     (case run_timed probe w of
        (Inl e, w') \<Rightarrow> (Some (Inl e), w')
      | (Inr b, w') \<Rightarrow> (if b then Some (Inr ()) else None, w'))"

definition turn_waitFor ::
  "('e \<Rightarrow> nat) \<Rightarrow> ('e, thrown + bool) timed \<Rightarrow> nat \<Rightarrow> string \<Rightarrow> 'e gate_world \<Rightarrow> ((thrown + unit) \<times> 'e gate_world) option" where
  "turn_waitFor late probe timeout message w =
     map_option (\<lambda>(r, w'). (case r of Some a \<Rightarrow> a | None \<Rightarrow> Inl (PlainError message), w'))
       (poll_until gw_now (turn_probe probe) (delay late 100) (gw_now w + int timeout) w)"

text \<open>
  \<open>real-browser-state-gate.mjs\<close>: what \<open>spawnSync\<close> gives; without a process there is no status and there are no
  texts. The loop's variable is the diagnostic.
\<close>

record spawned =
  sp_status :: "int option"
  sp_stdout :: "string option"
  sp_stderr :: "string option"

definition report_probe ::
  "(string \<Rightarrow> json option) \<Rightarrow> ('e, spawned) timed \<Rightarrow> int \<Rightarrow> string \<times> 'e gate_world
   \<Rightarrow> (thrown + json) option \<times> string \<times> 'e gate_world" where
  "report_probe json_of fetch sequence dw =
     (case dw of (diagnostic, w) \<Rightarrow>
        case run_timed fetch w of (out, w') \<Rightarrow>
          if sp_status out = Some 0 then
            (case sp_stdout out of
               None \<Rightarrow> (Some (Inl type_error), diagnostic, w')
             | Some text \<Rightarrow>
                 (case json_of text of
                    None \<Rightarrow> (None, take 256 text, w')
                  | Some document \<Rightarrow>
                      if document = JNull then (None, take 256 text, w')
                      else if json_field document ''sequence'' = Some (JNum (Integer sequence)) then (Some (Inr document), diagnostic, w')
                      else (None, json_stringify document, w')))
          else
            (case sp_stderr out of
               None \<Rightarrow> (Some (Inl type_error), diagnostic, w')
             | Some text \<Rightarrow> (None, take 256 text, w')))"

definition waitForReport ::
  "('e \<Rightarrow> nat) \<Rightarrow> (string \<Rightarrow> json option) \<Rightarrow> ('e, spawned) timed \<Rightarrow> int \<Rightarrow> 'e gate_world
   \<Rightarrow> ((thrown + json) \<times> 'e gate_world) option" where
  "waitForReport late json_of fetch sequence w =
     map_option (\<lambda>(r, diagnostic, w').
         (case r of
            Some a \<Rightarrow> a
          | None \<Rightarrow> Inl (PlainError (''browser-state report '' @ show_int sequence @ '' timed out: '' @ diagnostic)), w'))
       (poll_until (gw_now \<circ> snd) (report_probe json_of fetch sequence) (map_prod id (delay late 200))
         (gw_now w + 30000) (''report unavailable'', w))"

lemma probes_now:
  "gw_now w \<le> gw_now (snd (media_probe p w))" "gw_now w \<le> gw_now (snd (turn_probe q w))"
  "gw_now (snd x) \<le> gw_now (snd (snd (report_probe json_of f n x)))"
  using run_timed_now [of w p] run_timed_now [of w q] run_timed_now [of "snd x" f]
  by (auto simp: media_probe_def turn_probe_def report_probe_def split: prod.splits sum.splits option.splits)

interpretation media_loop: deadline_loop gw_now "media_probe p" "delay late 250" 250
  for p :: "('e, thrown + 'a option) timed" and late :: "'e \<Rightarrow> nat"
  using probes_now(1) delay_now [of _ 250] by unfold_locales simp_all

interpretation turn_loop: deadline_loop gw_now "turn_probe p" "delay late 100" 100
  for p :: "('e, thrown + bool) timed" and late :: "'e \<Rightarrow> nat"
  using probes_now(2) delay_now [of _ 100] by unfold_locales simp_all

interpretation report_loop: deadline_loop "gw_now \<circ> snd" "report_probe json_of p n" "map_prod id (delay late 200)" 200
  for p :: "('e, spawned) timed" and late :: "'e \<Rightarrow> nat" and json_of :: "string \<Rightarrow> json option" and n :: int
  using probes_now(3) delay_now [of _ 200] by unfold_locales simp_all

subsection \<open>Loops with a number of attempts\<close>

fun for_attempts :: "nat \<Rightarrow> ('w \<Rightarrow> 'r option \<times> 'w) \<Rightarrow> ('w \<Rightarrow> 'w) \<Rightarrow> 'w \<Rightarrow> 'r option \<times> 'w" where
  "for_attempts 0 probe sleep w = (None, w)"
| "for_attempts (Suc n) probe sleep w =
     (case probe w of
        (Some r, w') \<Rightarrow> (Some r, w')
      | (None, w') \<Rightarrow> for_attempts n probe sleep (sleep w'))"

text \<open>\<open>session/container-smoke.mjs\<close>: the state of the container with the state of its health check.\<close>

definition healthy_probe :: "('e, thrown + string) timed \<Rightarrow> 'e gate_world \<Rightarrow> (thrown + unit) option \<times> 'e gate_world" where
  "healthy_probe containerHealth w =
     (case run_timed containerHealth w of
        (Inl e, w') \<Rightarrow> (Some (Inl e), w')
      | (Inr state, w') \<Rightarrow>
          (if state = ''running healthy'' then Some (Inr ())
           else if \<not> starts_with ''running '' state
           then Some (Inl (PlainError (''session container stopped before healthy: '' @ state)))
           else if state = ''running unhealthy'' \<or> state = ''running missing''
           then Some (Inl (PlainError (''session container health check failed: '' @ state)))
           else None, w'))"

definition smoke_waitForHealthy :: "('e \<Rightarrow> nat) \<Rightarrow> ('e, thrown + string) timed \<Rightarrow> 'e gate_world \<Rightarrow> (thrown + unit) \<times> 'e gate_world" where
  "smoke_waitForHealthy late containerHealth w =
     (case for_attempts 120 (healthy_probe containerHealth) (delay late 1000) w of
        (Some r, w') \<Rightarrow> (r, w')
      | (None, w') \<Rightarrow> (Inl (PlainError ''session container did not become healthy within 120 seconds''), w'))"

text \<open>\<open>real-nginx-tls-gate.mjs\<close>: a response is its status and its body.\<close>

definition health_probe ::
  "('e, thrown + nat \<times> string) timed \<Rightarrow> string \<times> 'e gate_world \<Rightarrow> (nat \<times> string) option \<times> string \<times> 'e gate_world" where
  "health_probe requestTls dw =
     (case dw of (diagnostic, w) \<Rightarrow>
        case run_timed requestTls w of
          (Inl e, w') \<Rightarrow> (None, errorMessage e, w')
        | (Inr (status, text), w') \<Rightarrow>
            if status = 204 then (Some (status, text), diagnostic, w') else (None, show_nat status @ '': '' @ text, w'))"

definition waitForHealth ::
  "('e \<Rightarrow> nat) \<Rightarrow> ('e, thrown + nat \<times> string) timed \<Rightarrow> 'e gate_world \<Rightarrow> (thrown + nat \<times> string) \<times> 'e gate_world" where
  "waitForHealth late requestTls w =
     (case for_attempts 100 (health_probe requestTls) (map_prod id (delay late 100)) (''TLS endpoint unavailable'', w) of
        (Some r, _, w') \<Rightarrow> (Inr r, w')
      | (None, diagnostic, w') \<Rightarrow> (Inl (PlainError (''Nginx TLS health check timed out: '' @ diagnostic)), w'))"

text \<open>The process has ended when its file cannot be read; the loop gives up without an error.\<close>

definition waitForNginxExit :: "('e \<Rightarrow> nat) \<Rightarrow> ('e, thrown + string) timed \<Rightarrow> 'e gate_world \<Rightarrow> 'e gate_world" where
  "waitForNginxExit late readPid w =
     snd (for_attempts 50 (\<lambda>w. case run_timed readPid w of (r, w') \<Rightarrow> (if isl r then Some () else None, w')) (delay late 100) w)"

text \<open>\<open>real-restart-crash-gate.mjs\<close>: \<open>JSON.parse(docker(...))[0]\<close>; a missing state prints as \<open>undefined\<close>.\<close>

definition stopped_probe ::
  "(string \<Rightarrow> json option) \<Rightarrow> ('e, thrown + string) timed \<Rightarrow> string \<times> 'e gate_world \<Rightarrow> (thrown + json) option \<times> string \<times> 'e gate_world" where
  "stopped_probe json_of inspect dw =
     (case dw of (diagnostic, w) \<Rightarrow>
        case run_timed inspect w of
          (Inl e, w') \<Rightarrow> (Some (Inl e), diagnostic, w')
        | (Inr text, w') \<Rightarrow>
            (case json_of text of
               None \<Rightarrow> (Some (Inl (PlainError ''invalid JSON'')), diagnostic, w')
             | Some document \<Rightarrow>
                 let inspected = (if document = JNull then None else index_zero document) in
                 if inspected = None \<or> inspected = Some JNull then (Some (Inl type_error), diagnostic, w')
                 else
                   let state = Option.bind inspected (\<lambda>v. json_field v ''State'');
                       d = (case state of None \<Rightarrow> ''undefined'' | Some s \<Rightarrow> json_stringify s) in
                   (if Option.bind state (\<lambda>s. json_field s ''Running'') = Some (JBool False)
                    then map_option Inr inspected else None, d, w')))"

definition waitForContainerStopped ::
  "('e \<Rightarrow> nat) \<Rightarrow> (string \<Rightarrow> json option) \<Rightarrow> ('e, thrown + string) timed \<Rightarrow> 'e gate_world \<Rightarrow> (thrown + json) \<times> 'e gate_world" where
  "waitForContainerStopped late json_of inspect w =
     (case for_attempts 100 (stopped_probe json_of inspect) (map_prod id (delay late 200)) (''container state unavailable'', w) of
        (Some r, _, w') \<Rightarrow> (r, w')
      | (None, diagnostic, w') \<Rightarrow> (Inl (PlainError (''pipeline crash did not stop the container: '' @ diagnostic)), w'))"

text \<open>\<open>real-isolation-gate.mjs\<close>: until the marker is among the command lines.\<close>

definition marker_probe :: "('e, thrown + string) timed \<Rightarrow> string \<Rightarrow> 'e gate_world \<Rightarrow> (thrown + string) option \<times> 'e gate_world" where
  "marker_probe processCommandLines marker w =
     (case run_timed processCommandLines w of
        (Inl e, w') \<Rightarrow> (Some (Inl e), w')
      | (Inr text, w') \<Rightarrow> (if occurs_in marker text then Some (Inr text) else None, w'))"

definition waitForProcessMarker ::
  "('e \<Rightarrow> nat) \<Rightarrow> ('e, thrown + string) timed \<Rightarrow> string \<Rightarrow> 'e gate_world \<Rightarrow> (thrown + string) \<times> 'e gate_world" where
  "waitForProcessMarker late processCommandLines marker w =
     (case for_attempts 50 (marker_probe processCommandLines marker) (delay late 100) w of
        (Some r, w') \<Rightarrow> (r, w')
      | (None, w') \<Rightarrow> (Inl (PlainError ''tenant process marker did not start''), w'))"

lemma for_attempts_Some: "for_attempts n probe sleep w = (Some r, w') \<Longrightarrow> \<exists>v. probe v = (Some r, w')"
  by (induction n probe sleep w rule: for_attempts.induct) (auto split: prod.splits option.splits)

lemma for_attempts_None:
  "for_attempts n probe sleep w = (None, w') \<Longrightarrow>
   w' = (poll_round probe sleep ^^ n) w \<and> (\<forall>k < n. fst (probe ((poll_round probe sleep ^^ k) w)) = None)"
proof (induction n probe sleep w rule: for_attempts.induct)
  case (2 n probe sleep w)
  from "2.prems" obtain v where v: "probe w = (None, v)" "for_attempts n probe sleep (sleep v) = (None, w')"
    by (auto split: prod.splits option.splits)
  note IH = "2.IH" [OF v(1) [symmetric] refl v(2)]
  have "poll_round probe sleep w = sleep v" by (simp add: poll_round_def v(1))
  with IH v(1) show ?case by (auto simp: funpow_swap1 less_Suc_eq_0_disj)
qed simp

subsection \<open>They end\<close>

text \<open>
  C37. The gates' loops with a deadline return, whatever their probes do: they end after at most
  \<open>timeout div period + 1\<close> fruitless rounds, with the answer of the first probe that has one, or with
  the timeout's error, and the latter only when the deadline has passed.
\<close>

theorem deadline_loops_return:
  "(\<exists>n out. polled gw_now (media_probe p) (delay late 250) 250 timeout w n out
      \<and> media_waitFor late p timeout message w
          = Some (case fst out of Some a \<Rightarrow> a | None \<Rightarrow> Inl (PlainError message), snd out))
   \<and> (\<exists>n out. polled gw_now (turn_probe q) (delay late' 100) 100 timeout' v n out
      \<and> turn_waitFor late' q timeout' message' v
          = Some (case fst out of Some a \<Rightarrow> a | None \<Rightarrow> Inl (PlainError message'), snd out))
   \<and> (\<exists>n out. polled (gw_now \<circ> snd) (report_probe json_of f k) (map_prod id (delay late'' 200)) 200 30000
        (''report unavailable'', u) n out
      \<and> waitForReport late'' json_of f k u
          = Some (case fst out of
                    Some a \<Rightarrow> a
                  | None \<Rightarrow> Inl (PlainError (''browser-state report '' @ show_int k @ '' timed out: '' @ fst (snd out))),
                  snd (snd out)))"
proof (intro conjI)
  obtain n out where "polled gw_now (media_probe p) (delay late 250) 250 timeout w n out"
    "poll_until gw_now (media_probe p) (delay late 250) (gw_now w + int timeout) w = Some out"
    using media_loop.poll_until_polled [of p late timeout w] by blast
  then show "\<exists>n out. polled gw_now (media_probe p) (delay late 250) 250 timeout w n out
      \<and> media_waitFor late p timeout message w
          = Some (case fst out of Some a \<Rightarrow> a | None \<Rightarrow> Inl (PlainError message), snd out)"
    by (intro exI [of _ n] exI [of _ out]) (simp add: media_waitFor_def split_beta)
next
  obtain n out where "polled gw_now (turn_probe q) (delay late' 100) 100 timeout' v n out"
    "poll_until gw_now (turn_probe q) (delay late' 100) (gw_now v + int timeout') v = Some out"
    using turn_loop.poll_until_polled [of q late' timeout' v] by blast
  then show "\<exists>n out. polled gw_now (turn_probe q) (delay late' 100) 100 timeout' v n out
      \<and> turn_waitFor late' q timeout' message' v
          = Some (case fst out of Some a \<Rightarrow> a | None \<Rightarrow> Inl (PlainError message'), snd out)"
    by (intro exI [of _ n] exI [of _ out]) (simp add: turn_waitFor_def split_beta)
next
  obtain n out where "polled (gw_now \<circ> snd) (report_probe json_of f k) (map_prod id (delay late'' 200)) 200 30000
        (''report unavailable'', u) n out"
    "poll_until (gw_now \<circ> snd) (report_probe json_of f k) (map_prod id (delay late'' 200)) (gw_now u + 30000)
        (''report unavailable'', u) = Some out"
    using report_loop.poll_until_polled [of json_of f k late'' 30000 "(''report unavailable'', u)"] by auto
  then show "\<exists>n out. polled (gw_now \<circ> snd) (report_probe json_of f k) (map_prod id (delay late'' 200)) 200 30000
        (''report unavailable'', u) n out
      \<and> waitForReport late'' json_of f k u
          = Some (case fst out of
                    Some a \<Rightarrow> a
                  | None \<Rightarrow> Inl (PlainError (''browser-state report '' @ show_int k @ '' timed out: '' @ fst (snd out))),
                  snd (snd out))"
    by (intro exI [of _ n] exI [of _ out]) (simp add: waitForReport_def split_beta)
qed

end
