(* ===== verification/MediaBridge.thy ===== *)
theory MediaBridge
  imports SignalingProxy "HOL-Library.Sublist"
begin

text \<open>
  \<open>scripts/real-media-gate.mjs\<close>, its WebSocket server: a browser that connects takes the armed
  credential and gets a bridge to the orchestrator's public relay. The bridge presents the token, waits for the
  ready frame of the right session, and then relays in both directions. Bridges are numbered in the order they
  are made; what the network does to a socket is a step of its own. \<open>mb_received\<close> and \<open>mb_arrived\<close> record
  what came in from the browser and from the relay, \<open>ms_armed\<close> and \<open>ms_used\<close> the credentials.
\<close>

subsection \<open>One bridge\<close>

record media_credential =
  mc_token :: string
  mc_sessionId :: string

record media_bridge =
  mb_browser :: socket
  mb_upstream :: socket
  mb_credential :: media_credential
  mb_ready :: bool
  mb_closed :: bool
  mb_queue :: "(nat list \<times> bool) list"
  mb_public :: bool
  mb_opened :: bool
  mb_received :: "(nat list \<times> bool) list"
  mb_arrived :: "(nat list \<times> bool) list"

definition new_bridge :: "socket \<Rightarrow> media_credential \<Rightarrow> media_bridge" where
  "new_bridge browser credential =
     \<lparr>mb_browser = browser, mb_upstream = new_socket, mb_credential = credential, mb_ready = False, mb_closed = False,
      mb_queue = [], mb_public = True, mb_opened = False, mb_received = [], mb_arrived = []\<rparr>"

definition bridge_shutdown :: "nat \<Rightarrow> string \<Rightarrow> media_bridge \<Rightarrow> media_bridge" where
  "bridge_shutdown n reason b =
     (if mb_closed b then b
      else b\<lparr>mb_closed := True, mb_public := False, mb_browser := closeSocket n reason (mb_browser b),
             mb_upstream := closeSocket n reason (mb_upstream b)\<rparr>)"

datatype bridge_side = BrowserSide | PublicSide

fun bridge_socket :: "bridge_side \<Rightarrow> media_bridge \<Rightarrow> socket" where
  "bridge_socket BrowserSide b = mb_browser b"
| "bridge_socket PublicSide b = mb_upstream b"

fun put_socket :: "bridge_side \<Rightarrow> socket \<Rightarrow> media_bridge \<Rightarrow> media_bridge" where
  "put_socket BrowserSide s b = b\<lparr>mb_browser := s\<rparr>"
| "put_socket PublicSide s b = b\<lparr>mb_upstream := s\<rparr>"

definition bridge_forward :: "bridge_side \<Rightarrow> nat list \<times> bool \<Rightarrow> media_bridge \<Rightarrow> media_bridge" where
  "bridge_forward to m b =
     (let destination = bridge_socket to b in
      if readyState destination \<noteq> OPEN then bridge_shutdown 1011 ''media bridge peer unavailable'' b
      else if bufferedAmount destination + length (fst m) > 1024 * 1024
      then bridge_shutdown 1013 ''media bridge backpressure limit'' b
      else put_socket to (socket_send (Bytes (fst m)) (snd m) destination) b)"

definition browser_message :: "nat list \<times> bool \<Rightarrow> media_bridge \<Rightarrow> media_bridge" where
  "browser_message m b =
     (if \<not> mb_ready b
      then (if length (mb_queue b) \<ge> 16 then bridge_shutdown 1013 ''media bridge buffer exceeded'' b
            else b\<lparr>mb_queue := mb_queue b @ [m]\<rparr>)
      else bridge_forward PublicSide m b)"

definition authenticate_frame :: "media_credential \<Rightarrow> nat list" where
  "authenticate_frame credential =
     utf8 (json_stringify (JObj [(''type'', JStr ''authenticate''), (''token'', JStr (mc_token credential))]))"

definition public_open :: "media_bridge \<Rightarrow> media_bridge" where
  "public_open b =
     b\<lparr>mb_opened := True,
       mb_upstream := socket_send (Bytes (authenticate_frame (mb_credential b))) False ((mb_upstream b)\<lparr>readyState := OPEN\<rparr>)\<rparr>"

definition is_ready_frame :: "json \<Rightarrow> media_credential \<Rightarrow> bool" where
  "is_ready_frame frame credential \<longleftrightarrow>
     json_object frame \<and> sorted_keys frame = ''sessionId,type''
     \<and> json_field frame ''type'' = Some (JStr ''ready'')
     \<and> json_field frame ''sessionId'' = Some (JStr (mc_sessionId credential))"

definition public_message :: "(nat list \<Rightarrow> json option) \<Rightarrow> nat list \<times> bool \<Rightarrow> media_bridge \<Rightarrow> media_bridge" where
  "public_message json_parse m b =
     (if \<not> mb_ready b
      then (if snd m then bridge_shutdown 1008 ''public relay ready frame was binary'' b
            else
              (case json_parse (fst m) of
                 None \<Rightarrow> bridge_shutdown 1008 ''public relay ready frame was invalid'' b
               | Some frame \<Rightarrow>
                   if \<not> is_ready_frame frame (mb_credential b)
                   then bridge_shutdown 1008 ''public relay session identity mismatch'' b
                   else fold (bridge_forward PublicSide) (mb_queue b) (b\<lparr>mb_ready := True, mb_queue := []\<rparr>)))
      else bridge_forward BrowserSide m b)"

datatype bridge_end = BrowserGone | BrowserError | PublicGone | PublicError | BridgeWriteFailed

fun bridge_ended :: "bridge_end \<Rightarrow> media_bridge \<Rightarrow> media_bridge" where
  "bridge_ended BrowserGone b = bridge_shutdown 1000 ''browser disconnected'' b"
| "bridge_ended BrowserError b = bridge_shutdown 1011 ''browser bridge failed'' b"
| "bridge_ended PublicGone b = bridge_shutdown 1008 ''public relay closed'' b"
| "bridge_ended PublicError b = bridge_shutdown 1011 ''public relay failed'' b"
| "bridge_ended BridgeWriteFailed b = bridge_shutdown 1011 ''media bridge write failed'' b"

subsection \<open>The server\<close>

record media_server =
  bridgeCredential :: "media_credential option"
  latestBridge :: "nat option"
  ms_bridges :: "nat \<Rightarrow> media_bridge option"
  browserSockets :: "nat list"
  ms_next :: nat
  ms_refused :: "socket list"
  ms_armed :: "media_credential list"
  ms_used :: "media_credential list"

definition new_media_server :: media_server where
  "new_media_server = \<lparr>bridgeCredential = None, latestBridge = None, ms_bridges = \<lambda>_. None, browserSockets = [],
     ms_next = 0, ms_refused = [], ms_armed = [], ms_used = []\<rparr>"

definition accepts_upgrade :: "string option \<Rightarrow> string \<Rightarrow> string option \<Rightarrow> bool" where
  "accepts_upgrade pageOrigin url origin \<longleftrightarrow> \<not> (url \<noteq> ''/signaling'' \<or> origin \<noteq> pageOrigin)"

definition armBridge :: "media_credential \<Rightarrow> media_server \<Rightarrow> (thrown + unit) \<times> media_server" where
  "armBridge credential s =
     (if bridgeCredential s \<noteq> None then (Inl (PlainError ''media bridge already has pending credentials''), s)
      else (Inr (), s\<lparr>bridgeCredential := Some credential, latestBridge := None, ms_armed := ms_armed s @ [credential]\<rparr>))"

definition bridge_connection :: "socket \<Rightarrow> media_server \<Rightarrow> media_server" where
  "bridge_connection client s =
     (case bridgeCredential s of
        None \<Rightarrow> s\<lparr>ms_refused := socket_close 1008 ''media bridge is not armed'' client # ms_refused s\<rparr>
      | Some credential \<Rightarrow>
          s\<lparr>bridgeCredential := None, browserSockets := js_add (ms_next s) (browserSockets s),
            ms_bridges := (ms_bridges s)(ms_next s \<mapsto> new_bridge client credential),
            latestBridge := Some (ms_next s), ms_next := Suc (ms_next s), ms_used := ms_used s @ [credential]\<rparr>)"

definition on_bridge :: "nat \<Rightarrow> (media_bridge \<Rightarrow> media_bridge) \<Rightarrow> media_server \<Rightarrow> media_server" where
  "on_bridge i f s = s\<lparr>ms_bridges := (ms_bridges s)(i := map_option f (ms_bridges s i))\<rparr>"

text \<open>\<open>bridge.closed.finally(...)\<close>, and the cleaning up at the end of the script.\<close>

definition forget_browser :: "nat \<Rightarrow> media_server \<Rightarrow> media_server" where
  "forget_browser i s = s\<lparr>browserSockets := filter (\<lambda>j. j \<noteq> i) (browserSockets s)\<rparr>"

definition terminate_bridge :: "bool \<Rightarrow> media_bridge \<Rightarrow> media_bridge" where
  "terminate_bridge listed b =
     b\<lparr>mb_browser := (if listed then socket_terminate (mb_browser b) else mb_browser b),
       mb_upstream := (if mb_public b then socket_terminate (mb_upstream b) else mb_upstream b)\<rparr>"

definition terminate_media :: "media_server \<Rightarrow> media_server" where
  "terminate_media s =
     s\<lparr>bridgeCredential := None,
       ms_bridges := (\<lambda>i. map_option (terminate_bridge (i \<in> set (browserSockets s))) (ms_bridges s i))\<rparr>"

subsection \<open>Steps\<close>

inductive media_step :: "(nat list \<Rightarrow> json option) \<Rightarrow> string option \<Rightarrow> media_server \<Rightarrow> media_server \<Rightarrow> bool"
  for json_parse :: "nat list \<Rightarrow> json option" and pageOrigin :: "string option" where
  media_arm: "media_step json_parse pageOrigin s (snd (armBridge credential s))"
| media_connect: "accepts_upgrade pageOrigin url origin \<Longrightarrow> readyState client = OPEN \<Longrightarrow> actions client = []
     \<Longrightarrow> bufferedAmount client = 0 \<Longrightarrow> media_step json_parse pageOrigin s (bridge_connection client s)"
| media_browser: "media_step json_parse pageOrigin s
     (on_bridge i (\<lambda>b. browser_message m (b\<lparr>mb_received := mb_received b @ [m]\<rparr>)) s)"
| media_open: "ms_bridges s i = Some b \<Longrightarrow> readyState (mb_upstream b) = CONNECTING
     \<Longrightarrow> media_step json_parse pageOrigin s (on_bridge i public_open s)"
| media_public: "ms_bridges s i = Some b \<Longrightarrow> mb_opened b \<Longrightarrow> media_step json_parse pageOrigin s
     (on_bridge i (\<lambda>b. public_message json_parse m (b\<lparr>mb_arrived := mb_arrived b @ [m]\<rparr>)) s)"
| media_ended: "media_step json_parse pageOrigin s (on_bridge i (bridge_ended e) s)"
| media_network: "ms_bridges s i = Some b \<Longrightarrow> socket_later (bridge_socket which b) t
     \<Longrightarrow> media_step json_parse pageOrigin s (on_bridge i (put_socket which t) s)"
| media_forget: "ms_bridges s i = Some b \<Longrightarrow> mb_closed b \<Longrightarrow> media_step json_parse pageOrigin s (forget_browser i s)"
| media_finally: "media_step json_parse pageOrigin s (terminate_media s)"

inductive_cases media_stepE: "media_step json_parse pageOrigin s t"

abbreviation media_reachable :: "(nat list \<Rightarrow> json option) \<Rightarrow> string option \<Rightarrow> media_server \<Rightarrow> bool" where
  "media_reachable json_parse pageOrigin \<equiv> reachable (\<lambda>s. s = new_media_server) (media_step json_parse pageOrigin)"

subsection \<open>The invariant of a bridge\<close>

definition greeted :: "(nat list \<Rightarrow> json option) \<Rightarrow> media_bridge \<Rightarrow> bool" where
  "greeted json_parse b \<longleftrightarrow>
     (\<exists>data rest frame. mb_arrived b = (data, False) # rest \<and> json_parse data = Some frame
        \<and> is_ready_frame frame (mb_credential b))"

definition bridge_limit :: "media_credential \<Rightarrow> nat" where
  "bridge_limit credential = max (1024 * 1024) (length (authenticate_frame credential))"

definition bridge_sent :: "(nat list \<Rightarrow> json option) \<Rightarrow> media_bridge \<Rightarrow> bool" where
  "bridge_sent json_parse b \<longleftrightarrow>
     prefix (frames (mb_upstream b)) ((authenticate_frame (mb_credential b), False) # mb_received b)
     \<and> prefix (frames (mb_browser b)) (tl (mb_arrived b))
     \<and> (frames (mb_browser b) = [] \<and> length (frames (mb_upstream b)) \<le> 1 \<or> greeted json_parse b)
     \<and> length (mb_queue b) \<le> 16
     \<and> bufferedAmount (mb_upstream b) \<le> bridge_limit (mb_credential b) \<and> bufferedAmount (mb_browser b) \<le> 1024 * 1024
     \<and> (mb_opened b = (frames (mb_upstream b) \<noteq> [])) \<and> (mb_opened b \<or> bufferedAmount (mb_upstream b) = 0)"

definition socket_ended :: "socket \<Rightarrow> bool" where
  "socket_ended s \<longleftrightarrow> readyState s = CLOSING \<or> readyState s = CLOSED"

definition bridge_phase :: "(nat list \<Rightarrow> json option) \<Rightarrow> media_bridge \<Rightarrow> bool" where
  "bridge_phase json_parse b \<longleftrightarrow>
     (if mb_closed b then socket_ended (mb_browser b) \<and> socket_ended (mb_upstream b)
      else if mb_ready b
      then greeted json_parse b \<and> mb_queue b = [] \<and> readyState (mb_upstream b) \<noteq> CONNECTING
        \<and> frames (mb_upstream b) = (authenticate_frame (mb_credential b), False) # mb_received b
        \<and> frames (mb_browser b) = tl (mb_arrived b)
      else mb_queue b = mb_received b \<and> mb_arrived b = [] \<and> length (frames (mb_upstream b)) \<le> 1
        \<and> (readyState (mb_upstream b) = CONNECTING \<longrightarrow> frames (mb_upstream b) = [])
        \<and> (mb_opened b \<or> readyState (mb_upstream b) \<noteq> OPEN) \<and> frames (mb_browser b) = [])"

definition bridge_ok :: "(nat list \<Rightarrow> json option) \<Rightarrow> media_bridge \<Rightarrow> bool" where
  "bridge_ok json_parse b \<longleftrightarrow> bridge_sent json_parse b \<and> bridge_phase json_parse b"

named_theorems bridge_simps

lemma frames_open [bridge_simps]: "frames (s\<lparr>readyState := r\<rparr>) = frames s"
  by (simp add: frames_def)

lemma socket_send_rest [bridge_simps]:
  "bufferedAmount (socket_send (Bytes d) x s) = bufferedAmount s + length d" "readyState (socket_send d' x s) = readyState s"
  by (simp_all add: socket_send_def)

lemma socket_ended_iff: "socket_ended s \<longleftrightarrow> readyState s \<noteq> OPEN \<and> readyState s \<noteq> CONNECTING"
  by (cases "readyState s") (auto simp: socket_ended_def)

lemma socket_ended_calls [bridge_simps]: "socket_ended (closeSocket n r s)" "socket_ended (socket_terminate s)"
  by (simp_all add: socket_ended_iff socket_simps)

lemma socket_ended_later: "socket_ended s \<Longrightarrow> socket_later s t \<Longrightarrow> socket_ended t"
  by (auto simp: socket_ended_def socket_later_def)

lemma bridge_ok_sent: "bridge_ok json_parse b \<Longrightarrow> bridge_sent json_parse b"
  by (simp add: bridge_ok_def)

lemma closed_ends: "bridge_ok json_parse b \<Longrightarrow> mb_closed b \<Longrightarrow>
    socket_ended (mb_browser b) \<and> socket_ended (mb_upstream b)"
  by (simp add: bridge_ok_def bridge_phase_def)

lemma shutdown_ok:
  assumes "bridge_sent json_parse b"
    and "mb_closed b \<Longrightarrow> socket_ended (mb_browser b) \<and> socket_ended (mb_upstream b)"
  shows "bridge_ok json_parse (bridge_shutdown n r b)"
  using assms
  by (auto simp: bridge_ok_def bridge_sent_def bridge_phase_def bridge_shutdown_def greeted_def socket_simps bridge_simps)

text \<open>A bridge that still has \<open>q\<close> of its queue to forward.\<close>

definition flushing :: "(nat list \<Rightarrow> json option) \<Rightarrow> (nat list \<times> bool) list \<Rightarrow> media_bridge \<Rightarrow> bool" where
  "flushing json_parse q b \<longleftrightarrow>
     bridge_sent json_parse b \<and> greeted json_parse b \<and> mb_queue b = [] \<and> mb_ready b \<and> mb_opened b
     \<and> (if mb_closed b then socket_ended (mb_browser b) \<and> socket_ended (mb_upstream b)
        else readyState (mb_upstream b) \<noteq> CONNECTING
          \<and> frames (mb_upstream b) @ q = (authenticate_frame (mb_credential b), False) # mb_received b
          \<and> frames (mb_browser b) = tl (mb_arrived b))"

lemma flushing_Nil: "flushing json_parse [] b \<Longrightarrow> bridge_ok json_parse b"
  by (auto simp: flushing_def bridge_ok_def bridge_phase_def)

lemma flushing_shutdown: "flushing json_parse q b \<Longrightarrow> flushing json_parse q' (bridge_shutdown n r b)"
  by (auto simp: flushing_def bridge_sent_def bridge_shutdown_def greeted_def socket_simps bridge_simps split: if_splits)

lemma flushing_forward:
  assumes "flushing json_parse (m # q) b"
  shows "flushing json_parse q (bridge_forward PublicSide m b)"
proof (cases "readyState (mb_upstream b) \<noteq> OPEN \<or> bufferedAmount (mb_upstream b) + length (fst m) > 1024 * 1024")
  case True
  then show ?thesis using flushing_shutdown [OF assms] by (auto simp: bridge_forward_def Let_def)
next
  case False
  then have eq: "bridge_forward PublicSide m b = b\<lparr>mb_upstream := socket_send (Bytes (fst m)) (snd m) (mb_upstream b)\<rparr>"
    by (simp add: bridge_forward_def)
  have open_: "\<not> mb_closed b" using False assms by (auto simp: flushing_def socket_ended_iff)
  then have up: "frames (mb_upstream b) @ m # q = (authenticate_frame (mb_credential b), False) # mb_received b"
    using assms by (simp add: flushing_def)
  then have "prefix (frames (mb_upstream b) @ [m]) ((authenticate_frame (mb_credential b), False) # mb_received b)"
    by (metis append.assoc append_Cons append_Nil prefixI)
  with False assms open_ up show ?thesis
    by (auto simp: eq flushing_def bridge_sent_def greeted_def bridge_limit_def socket_simps bridge_simps)
qed

lemma flush_ok: "flushing json_parse q b \<Longrightarrow> bridge_ok json_parse (fold (bridge_forward PublicSide) q b)"
  by (induction q arbitrary: b) (simp_all add: flushing_Nil flushing_forward)

lemma browser_message_ok:
  assumes ok: "bridge_ok json_parse b"
  shows "bridge_ok json_parse (browser_message m (b\<lparr>mb_received := mb_received b @ [m]\<rparr>))"
proof -
  let ?b = "b\<lparr>mb_received := mb_received b @ [m]\<rparr>"
  have "prefix (frames (mb_upstream b)) ((authenticate_frame (mb_credential b), False) # mb_received b @ [m])"
    using ok unfolding bridge_ok_def bridge_sent_def by (metis append_Cons prefix_prefix)
  then have sent: "bridge_sent json_parse ?b"
    using ok by (auto simp: bridge_ok_def bridge_sent_def greeted_def)
  have ends: "mb_closed ?b \<Longrightarrow> socket_ended (mb_browser ?b) \<and> socket_ended (mb_upstream ?b)"
    using closed_ends [OF ok] by simp
  note down = shutdown_ok [OF sent ends]
  show ?thesis
  proof (cases "mb_ready b")
    case False
    then show ?thesis
    proof (cases "length (mb_queue b) \<ge> 16")
      case True
      with False down show ?thesis by (simp add: browser_message_def)
    next
      case short: False
      have "bridge_sent json_parse (?b\<lparr>mb_queue := mb_queue b @ [m]\<rparr>)"
        using sent short by (auto simp: bridge_sent_def greeted_def)
      moreover have "bridge_phase json_parse (?b\<lparr>mb_queue := mb_queue b @ [m]\<rparr>)"
        using ok False by (auto simp: bridge_ok_def bridge_phase_def)
      ultimately show ?thesis using short False by (simp add: browser_message_def bridge_ok_def)
    qed
  next
    case ready: True
    show ?thesis
    proof (cases "mb_closed b")
      case True
      then have "readyState (mb_upstream b) \<noteq> OPEN" using closed_ends [OF ok] by (simp add: socket_ended_iff)
      then show ?thesis using down ready by (simp add: browser_message_def bridge_forward_def)
    next
      case False
      then have "flushing json_parse [m] ?b"
        using ok sent ready by (auto simp: flushing_def bridge_ok_def bridge_phase_def bridge_sent_def greeted_def)
      from flush_ok [OF this] ready show ?thesis by (simp add: browser_message_def)
    qed
  qed
qed

lemma public_open_ok:
  assumes ok: "bridge_ok json_parse b" and c: "readyState (mb_upstream b) = CONNECTING"
  shows "bridge_ok json_parse (public_open b)"
proof -
  have o: "\<not> mb_closed b" using closed_ends [OF ok] c by (auto simp: socket_ended_iff)
  then have r: "\<not> mb_ready b" using ok c by (auto simp: bridge_ok_def bridge_phase_def)
  then have e: "frames (mb_upstream b) = []" using ok c o by (simp add: bridge_ok_def bridge_phase_def)
  then show ?thesis using ok o r
    by (auto simp: bridge_ok_def bridge_phase_def bridge_sent_def public_open_def greeted_def bridge_simps socket_simps bridge_limit_def)
qed

lemma public_message_ok:
  assumes ok: "bridge_ok json_parse b" and opened: "mb_opened b"
  shows "bridge_ok json_parse (public_message json_parse m (b\<lparr>mb_arrived := mb_arrived b @ [m]\<rparr>))"
proof -
  let ?b = "b\<lparr>mb_arrived := mb_arrived b @ [m]\<rparr>"
  have more: "greeted json_parse b \<Longrightarrow> greeted json_parse ?b" "greeted json_parse b \<Longrightarrow> tl (mb_arrived ?b) = tl (mb_arrived b) @ [m]"
    by (auto simp: greeted_def)
  have sent: "bridge_sent json_parse ?b"
    using ok more unfolding bridge_ok_def bridge_sent_def by auto
  have ends: "mb_closed ?b \<Longrightarrow> socket_ended (mb_browser ?b) \<and> socket_ended (mb_upstream ?b)"
    using closed_ends [OF ok] by simp
  note down = shutdown_ok [OF sent ends]
  show ?thesis
  proof (cases "mb_ready b")
    case ready: True
    show ?thesis
    proof (cases "mb_closed b \<or> readyState (mb_browser b) \<noteq> OPEN \<or> bufferedAmount (mb_browser b) + length (fst m) > 1024 * 1024")
      case True
      then have "readyState (mb_browser b) \<noteq> OPEN \<or> bufferedAmount (mb_browser b) + length (fst m) > 1024 * 1024"
        using closed_ends [OF ok] by (auto simp: socket_ended_iff)
      then show ?thesis using down ready by (auto simp: public_message_def bridge_forward_def Let_def)
    next
      case False
      with ok ready have g: "greeted json_parse b" and f: "frames (mb_browser b) = tl (mb_arrived b)"
        by (auto simp: bridge_ok_def bridge_phase_def)
      have "bridge_ok json_parse (?b\<lparr>mb_browser := socket_send (Bytes (fst m)) (snd m) (mb_browser b)\<rparr>)"
        using False ready ok sent more [OF g] g f
        by (auto simp: bridge_ok_def bridge_phase_def bridge_sent_def greeted_def socket_simps bridge_simps)
      with False ready show ?thesis by (simp add: public_message_def bridge_forward_def)
    qed
  next
    case False
    show ?thesis
    proof (cases "snd m \<or> json_parse (fst m) = None \<or> \<not> is_ready_frame (the (json_parse (fst m))) (mb_credential b)")
      case True
      with False down show ?thesis by (auto simp: public_message_def split: option.splits)
    next
      case accepted: False
      let ?c = "?b\<lparr>mb_ready := True, mb_queue := []\<rparr>"
      have eq: "public_message json_parse m ?b = fold (bridge_forward PublicSide) (mb_queue b) ?c"
        using accepted False by (auto simp: public_message_def)
      show ?thesis
      proof (cases "mb_closed b")
        case True
        have ended: "socket_ended (mb_upstream b)" using closed_ends [OF ok True] by simp
        have "fold (bridge_forward PublicSide) q ?c = ?c" for q
          using ended True by (induction q) (auto simp: bridge_forward_def bridge_shutdown_def socket_ended_iff)
        moreover have "bridge_ok json_parse ?c"
          using sent ends True by (auto simp add: bridge_ok_def bridge_sent_def bridge_phase_def greeted_def)
        ultimately show ?thesis by (simp add: eq)
      next
        case open_: False
        with False ok have w: "mb_queue b = mb_received b" "mb_arrived b = []" "frames (mb_browser b) = []"
          "length (frames (mb_upstream b)) \<le> 1" "readyState (mb_upstream b) = CONNECTING \<longrightarrow> frames (mb_upstream b) = []"
          by (auto simp: bridge_ok_def bridge_phase_def)
        have p: "prefix (frames (mb_upstream b)) ((authenticate_frame (mb_credential b), False) # mb_received b)"
          and ne: "frames (mb_upstream b) \<noteq> []"
          using ok opened by (auto simp: bridge_ok_def bridge_sent_def)
        then have f: "frames (mb_upstream b) = [(authenticate_frame (mb_credential b), False)]"
          using w(4) by (cases "frames (mb_upstream b)") auto
        obtain d where m: "m = (d, False)" "json_parse d \<noteq> None" "is_ready_frame (the (json_parse d)) (mb_credential b)"
          using accepted by (cases m) auto
        then have "greeted json_parse ?c" using w(2) by (auto simp: greeted_def)
        then have "flushing json_parse (mb_queue b) ?c"
          using sent open_ w f opened by (auto simp: flushing_def bridge_sent_def)
        from flush_ok [OF this] show ?thesis by (simp add: eq)
      qed
    qed
  qed
qed

lemma bridge_ended_ok: "bridge_ok json_parse b \<Longrightarrow> bridge_ok json_parse (bridge_ended e b)"
  using shutdown_ok [OF bridge_ok_sent closed_ends] by (cases e) simp_all

lemma terminate_bridge_ok: "bridge_ok json_parse b \<Longrightarrow> bridge_ok json_parse (terminate_bridge listed b)"
  by (auto simp: bridge_ok_def bridge_sent_def bridge_phase_def terminate_bridge_def greeted_def socket_simps bridge_simps)

lemma network_ok:
  assumes ok: "bridge_ok json_parse b" and later: "socket_later (bridge_socket which b) t"
  shows "bridge_ok json_parse (put_socket which t b)"
proof -
  have f: "frames t = frames (bridge_socket which b)" "bufferedAmount t \<le> bufferedAmount (bridge_socket which b)"
    "readyState t = readyState (bridge_socket which b) \<or> socket_ended t"
    "socket_ended (bridge_socket which b) \<Longrightarrow> socket_ended t"
    using later by (simp_all add: socket_later_frames socket_ended_later) (auto simp: socket_later_def socket_ended_def)
  then show ?thesis using ok
    by (cases which) (auto simp: bridge_ok_def bridge_sent_def bridge_phase_def greeted_def socket_ended_iff)
qed

subsection \<open>The invariant of the server\<close>

definition media_inv :: "(nat list \<Rightarrow> json option) \<Rightarrow> media_server \<Rightarrow> bool" where
  "media_inv json_parse s \<longleftrightarrow>
     (\<forall>i b. ms_bridges s i = Some b \<longrightarrow> bridge_ok json_parse b \<and> i < ms_next s \<and> mb_credential b = ms_used s ! i)
     \<and> length (ms_used s) = ms_next s
     \<and> subseq (ms_used s @ (case bridgeCredential s of None \<Rightarrow> [] | Some c \<Rightarrow> [c])) (ms_armed s)"

lemma shutdown_keeps [bridge_simps]:
  "mb_credential (bridge_shutdown n r b) = mb_credential b" "mb_opened (bridge_shutdown n r b) = mb_opened b"
  by (simp_all add: bridge_shutdown_def)

lemma put_socket_keeps [bridge_simps]:
  "mb_credential (put_socket which t b) = mb_credential b" "mb_opened (put_socket which t b) = mb_opened b"
  by (cases which, simp_all)+

lemma forward_keeps [bridge_simps]:
  "mb_credential (bridge_forward to m b) = mb_credential b" "mb_opened (bridge_forward to m b) = mb_opened b"
  by (simp_all add: bridge_forward_def Let_def bridge_simps)

lemma fold_forward_keeps [bridge_simps]:
  "mb_credential (fold (bridge_forward to) q b) = mb_credential b" "mb_opened (fold (bridge_forward to) q b) = mb_opened b"
  by (induction q arbitrary: b) (simp_all add: bridge_simps)

lemma handlers_keep [bridge_simps]:
  "mb_opened (public_message json_parse m b) = mb_opened b"
  "mb_credential (browser_message m b) = mb_credential b" "mb_credential (public_open b) = mb_credential b"
  "mb_credential (public_message json_parse m b) = mb_credential b" "mb_credential (terminate_bridge listed b) = mb_credential b"
  by (simp_all add: browser_message_def public_open_def public_message_def terminate_bridge_def bridge_simps
      split: option.splits)

lemma bridge_ended_credential [bridge_simps]: "mb_credential (bridge_ended e b) = mb_credential b"
  by (cases e) (simp_all add: bridge_simps)

lemma on_bridge_inv:
  assumes "media_inv json_parse s"
    and "\<And>b. ms_bridges s i = Some b \<Longrightarrow> bridge_ok json_parse b \<Longrightarrow> bridge_ok json_parse (f b) \<and> mb_credential (f b) = mb_credential b"
  shows "media_inv json_parse (on_bridge i f s)"
  using assms unfolding media_inv_def on_bridge_def by (auto split: if_splits)

lemma new_bridge_ok:
  "readyState client = OPEN \<Longrightarrow> actions client = [] \<Longrightarrow> bufferedAmount client = 0 \<Longrightarrow> bridge_ok json_parse (new_bridge client c)"
  by (simp add: bridge_ok_def bridge_sent_def bridge_phase_def new_bridge_def new_socket_def frames_def map_filter_simps)

lemma media_inv_used: "media_inv json_parse s \<Longrightarrow> subseq (ms_used s) (ms_armed s)"
  unfolding media_inv_def using subseq_order.trans [OF prefix_imp_subseq [OF prefixI [OF refl]]] by blast

lemma media_step_inv:
  assumes step: "media_step json_parse pageOrigin s t" and inv: "media_inv json_parse s"
  shows "media_inv json_parse t"
  using step
proof cases
  case (media_arm credential)
  then show ?thesis using inv
    by (auto simp: media_inv_def armBridge_def intro!: list_emb_append_mono)
next
  case (media_connect url origin client)
  show ?thesis
  proof (cases "bridgeCredential s")
    case None
    with media_connect inv show ?thesis by (simp add: media_inv_def bridge_connection_def)
  next
    case (Some c)
    with media_connect inv new_bridge_ok [of client json_parse c] show ?thesis
      by (auto simp: media_inv_def bridge_connection_def nth_append new_bridge_def intro: less_SucI split: if_splits)
  qed
next
  case (media_browser i m)
  then show ?thesis using on_bridge_inv [OF inv] browser_message_ok by (simp add: bridge_simps)
next
  case (media_open i b)
  then show ?thesis using on_bridge_inv [OF inv, of i public_open] public_open_ok by (auto simp: bridge_simps)
next
  case (media_public i b m)
  then show ?thesis using on_bridge_inv [OF inv, of i] public_message_ok by (auto simp: bridge_simps)
next
  case (media_ended i e)
  then show ?thesis using on_bridge_inv [OF inv] bridge_ended_ok by (simp add: bridge_simps)
next
  case (media_network i b which x)
  then show ?thesis using on_bridge_inv [OF inv, of i "put_socket which x"] network_ok by (auto simp: bridge_simps)
next
  case (media_forget i b)
  then show ?thesis using inv by (simp add: media_inv_def forget_browser_def)
next
  case media_finally
  have "subseq (ms_used s) (ms_armed s)" using inv by (rule media_inv_used)
  with media_finally inv show ?thesis
    by (auto simp: media_inv_def terminate_media_def terminate_bridge_ok bridge_simps)
qed

interpretation media: step_invariant "\<lambda>s. s = new_media_server" "media_step json_parse pageOrigin" "media_inv json_parse"
  for json_parse :: "nat list \<Rightarrow> json option" and pageOrigin :: "string option"
proof unfold_locales
  show "s = new_media_server \<Longrightarrow> media_inv json_parse s" for s
    by (simp add: media_inv_def new_media_server_def)
qed (rule media_step_inv)

subsection \<open>What a bridge does\<close>

text \<open>
  C31. In every reachable state of the media gate's server each bridge was opened with a credential of its own, in the
  order in which credentials were armed. The relay has got the bridge's authentication frame and then a prefix of
  the browser's frames, the browser a prefix of what followed the relay's ready frame; nothing but the authentication
  is sent either way before a ready frame for the session of the credential has come; while the bridge is open after
  that, nothing is lost, not even frames sent before it; at most 16 frames wait; what waits in a socket is bounded; and the
  sockets of a closed bridge have ended.
\<close>

theorem media_bridge_relays_faithfully:
  assumes "media_reachable json_parse pageOrigin s" and b: "ms_bridges s i = Some b"
  shows "i < length (ms_used s) \<and> mb_credential b = ms_used s ! i \<and> subseq (ms_used s) (ms_armed s)
    \<and> prefix (frames (mb_upstream b)) ((authenticate_frame (mb_credential b), False) # mb_received b)
    \<and> prefix (frames (mb_browser b)) (tl (mb_arrived b))
    \<and> (frames (mb_browser b) = [] \<and> length (frames (mb_upstream b)) \<le> 1 \<or> greeted json_parse b)
    \<and> (mb_closed b \<or> \<not> mb_ready b
       \<or> frames (mb_upstream b) = (authenticate_frame (mb_credential b), False) # mb_received b
         \<and> frames (mb_browser b) = tl (mb_arrived b))
    \<and> length (mb_queue b) \<le> 16
    \<and> bufferedAmount (mb_upstream b) \<le> bridge_limit (mb_credential b) \<and> bufferedAmount (mb_browser b) \<le> 1024 * 1024
    \<and> (\<not> mb_closed b \<or> socket_ended (mb_browser b) \<and> socket_ended (mb_upstream b))"
proof -
  have inv: "media_inv json_parse s" using media.reachable_inv assms(1) by blast
  then have ok: "bridge_sent json_parse b" "bridge_phase json_parse b" and "i < length (ms_used s)" "mb_credential b = ms_used s ! i"
    using b by (auto simp: media_inv_def bridge_ok_def)
  moreover have "subseq (ms_used s) (ms_armed s)" using inv by (rule media_inv_used)
  ultimately show ?thesis by (auto simp: bridge_sent_def bridge_phase_def)
qed

definition ex_media_credential :: media_credential where
  "ex_media_credential = \<lparr>mc_token = ''t'', mc_sessionId = ''s''\<rparr>"

definition ex_media_client :: socket where
  "ex_media_client = \<lparr>readyState = OPEN, bufferedAmount = 0, actions = []\<rparr>"

definition ex_media_parse :: "nat list \<Rightarrow> json option" where
  "ex_media_parse data = (if data = [9] then Some (JObj [(''type'', JStr ''ready''), (''sessionId'', JStr ''s'')]) else None)"

definition ex_media_state :: media_server where
  "ex_media_state =
     on_bridge 0 (\<lambda>b. public_message ex_media_parse ([8], True) (b\<lparr>mb_arrived := mb_arrived b @ [([8], True)]\<rparr>))
       (on_bridge 0 (\<lambda>b. public_message ex_media_parse ([9], False) (b\<lparr>mb_arrived := mb_arrived b @ [([9], False)]\<rparr>))
         (on_bridge 0 (\<lambda>b. browser_message ([7], True) (b\<lparr>mb_received := mb_received b @ [([7], True)]\<rparr>))
           (on_bridge 0 public_open (bridge_connection ex_media_client (snd (armBridge ex_media_credential new_media_server))))))"

lemmas ex_media_defs = ex_media_state_def ex_media_client_def ex_media_credential_def ex_media_parse_def new_media_server_def
  armBridge_def bridge_connection_def on_bridge_def new_bridge_def new_socket_def public_open_def browser_message_def
  public_message_def is_ready_frame_def bridge_forward_def socket_send_def

lemma ex_media_reachable: "media_reachable ex_media_parse None ex_media_state"
proof -
  let ?r = "media_reachable ex_media_parse None"
  let ?s1 = "snd (armBridge ex_media_credential new_media_server)"
  let ?s2 = "bridge_connection ex_media_client ?s1"
  let ?s3 = "on_bridge 0 public_open ?s2"
  have "?r new_media_server" by (rule reachable_init) simp
  then have r1: "?r ?s1" using media_arm by (rule reachable_step)
  have "accepts_upgrade None ''/signaling'' None" by (simp add: accepts_upgrade_def)
  then have "media_step ex_media_parse None ?s1 ?s2" by (rule media_connect) (simp_all add: ex_media_client_def)
  with r1 have r2: "?r ?s2" by (rule reachable_step)
  obtain b where b: "ms_bridges ?s2 0 = Some b" "readyState (mb_upstream b) = CONNECTING"
    by (simp add: ex_media_defs)
  have r3: "?r ?s3" by (rule reachable_step [OF r2 media_open [OF b]])
  let ?s4 = "on_bridge 0 (\<lambda>b. browser_message ([7], True) (b\<lparr>mb_received := mb_received b @ [([7], True)]\<rparr>)) ?s3"
  have "media_step ex_media_parse None ?s3 ?s4" by (rule media_browser)
  with r3 have r4: "?r ?s4" by (rule reachable_step)
  obtain c where c: "ms_bridges ?s4 0 = Some c" "mb_opened c" by (simp add: ex_media_defs)
  let ?s5 = "on_bridge 0 (\<lambda>b. public_message ex_media_parse ([9], False) (b\<lparr>mb_arrived := mb_arrived b @ [([9], False)]\<rparr>)) ?s4"
  obtain d where d: "ms_bridges ?s5 0 = Some d" "mb_opened d"
    using c by (simp add: on_bridge_def [of _ _ ?s4] bridge_simps)
  have "media_step ex_media_parse None ?s4 ?s5" using c by (rule media_public)
  with r4 have r5: "?r ?s5" by (rule reachable_step)
  have "media_step ex_media_parse None ?s5 ex_media_state"
    unfolding ex_media_state_def using d by (rule media_public)
  with r5 show ?thesis by (rule reachable_step)
qed

theorem media_bridge_relays_faithfully_witness:
  "\<exists>b. ms_bridges ex_media_state 0 = Some b \<and> \<not> mb_closed b
     \<and> frames (mb_upstream b) = [(authenticate_frame ex_media_credential, False), ([7], True)]
     \<and> frames (mb_browser b) = [([8], True)]"
proof -
  let ?b = "the (ms_bridges ex_media_state 0)"
  have "sorted_keys (JObj [(''type'', JStr ''ready''), (''sessionId'', JStr ''s'')]) = ''sessionId,type''" by code_simp
  moreover have "length (authenticate_frame \<lparr>mc_token = ''t'', mc_sessionId = ''s''\<rparr>) = 35" by code_simp
  ultimately have b: "ms_bridges ex_media_state 0 = Some ?b" and "\<not> mb_closed ?b" "mb_ready ?b" "mb_credential ?b = ex_media_credential"
    "mb_received ?b = [([7], True)]" "mb_arrived ?b = [([9], False), ([8], True)]"
    by (simp_all add: ex_media_defs Let_def)
  with media_bridge_relays_faithfully [OF ex_media_reachable b] show ?thesis by auto
qed

end
