(* ===== verification/Commands.thy ===== *)
theory Commands
  imports Assertions
begin

text \<open>
  How the gates run a command: \<open>spawnSync\<close> gives the process's status and texts, or an error when there is no
  process or it did not end in time. \<open>sr_status\<close> is \<open>None\<close> for a process that a signal ended. The functions
  \<open>docker\<close> and \<open>command\<close> of the gates differ only in what a failure says.
\<close>

record spawn_result =
  sr_error :: "thrown option"
  sr_status :: "int option"
  sr_stdout :: "string option"
  sr_stderr :: "string option"

text \<open>\<open>[result.stdout, result.stderr].filter(Boolean).join("").trim()\<close>\<close>

definition command_output :: "spawn_result \<Rightarrow> string" where
  "command_output result = trim (concat (map (case_option [] id) [sr_stdout result, sr_stderr result]))"

definition status_text :: "int option \<Rightarrow> string" where
  "status_text status = (case status of None \<Rightarrow> ''null'' | Some n \<Rightarrow> show_int n)"

definition finish_command :: "string \<Rightarrow> bool \<Rightarrow> spawn_result \<Rightarrow> thrown + string" where
  "finish_command what allowFailure result =
     (case sr_error result of
        Some e \<Rightarrow> Inl e
      | None \<Rightarrow>
          if sr_status result \<noteq> Some 0 \<and> \<not> allowFailure
          then Inl (PlainError (what @ '' failed ('' @ status_text (sr_status result) @ ''): '' @ command_output result))
          else Inr (command_output result))"

text \<open>\<open>docker(arguments_, options)\<close>, where \<open>arguments_[0]\<close> exists in every call.\<close>

definition docker_command :: "(string list \<Rightarrow> spawn_result) \<Rightarrow> string list \<Rightarrow> bool \<Rightarrow> thrown + string" where
  "docker_command spawn args allowFailure =
     finish_command (''docker '' @ hd args) allowFailure (spawn args)"

definition assertCommand :: "string \<Rightarrow> spawn_result \<Rightarrow> thrown + unit" where
  "assertCommand name result =
     (case sr_error result of
        Some e \<Rightarrow> Inl e
      | None \<Rightarrow> if sr_status result \<noteq> Some 0 then Inl (PlainError (name @ '' is unavailable'')) else Inr ())"

lemma finish_command_Inr:
  "finish_command what allow result = Inr out \<longleftrightarrow>
   sr_error result = None \<and> (allow \<or> sr_status result = Some 0) \<and> out = command_output result"
  by (auto simp: finish_command_def split: option.splits)

end
