(* ===== verification/MediaGate.thy ===== *)
theory MediaGate
  imports IceProperties SeccompProfile Commands
begin

text \<open>
  \<open>scripts/real-media-gate.mjs\<close>: the checks of its arguments and of the browser's ICE configuration, with which
  the gate is started by \<open>real-turn-gate.mjs\<close>.
\<close>

subsection \<open>Patterns\<close>

text \<open>\<open>/^[A-Za-z0-9][A-Za-z0-9._/@:-]{0,254}$/\<close> and \<open>/^[A-Za-z0-9][A-Za-z0-9_.-]{0,127}$/\<close>\<close>

definition matches_image_argument :: "string \<Rightarrow> bool" where
  "matches_image_argument s =
     (1 \<le> length s \<and> length s \<le> 255 \<and> is_alnum (hd s) \<and> list_all (\<lambda>c. is_path_char c \<or> c = CHR ''@'' \<or> c = CHR '':'') (tl s))"

definition matches_profile_name :: "string \<Rightarrow> bool" where
  "matches_profile_name s = (1 \<le> length s \<and> length s \<le> 128 \<and> is_alnum (hd s) \<and> list_all is_label_char (tl s))"

text \<open>\<open>\d{m,n}\<close>, and \<open>/^turn:(?:\d{1,3}\.){3}\d{1,3}:\d{1,5}\?transport=udp$/\<close>\<close>

definition digits_between :: "nat \<Rightarrow> nat \<Rightarrow> string \<Rightarrow> bool" where
  "digits_between m n s = (m \<le> length s \<and> length s \<le> n \<and> list_all is_digit s)"

definition matches_turn_url :: "string \<Rightarrow> bool" where
  "matches_turn_url s =
     (starts_with ''turn:'' s \<and>
      (case split_on (CHR '':'') (takeWhile (\<lambda>c. c \<noteq> CHR ''?'') (drop 5 s)) of
         [host, port] \<Rightarrow>
           length (split_on (CHR ''.'') host) = 4 \<and> list_all (digits_between 1 3) (split_on (CHR ''.'') host)
           \<and> digits_between 1 5 port
       | _ \<Rightarrow> False)
      \<and> dropWhile (\<lambda>c. c \<noteq> CHR ''?'') (drop 5 s) = ''?transport=udp'')"

definition base64url_between :: "nat \<Rightarrow> nat \<Rightarrow> string \<Rightarrow> bool" where
  "base64url_between m n s = (m \<le> length s \<and> length s \<le> n \<and> list_all is_base64url s)"

subsection \<open>The browser's ICE configuration\<close>

definition validateSafeAbsolutePath :: "string option \<Rightarrow> string \<Rightarrow> thrown + unit" where
  "validateSafeAbsolutePath value name =
     (case value of
        None \<Rightarrow> Inl (PlainError (name @ '' must be a safe absolute path''))
      | Some s \<Rightarrow>
          if \<not> isAbsolute s \<or> normalize s \<noteq> s \<or> \<not> is_plain_absolute_path s \<or> length s > 4096
          then Inl (PlainError (name @ '' must be a safe absolute path''))
          else Inr ())"

definition string_matching :: "(string \<Rightarrow> bool) \<Rightarrow> json option \<Rightarrow> bool" where
  "string_matching matches value = (case value of Some (JStr s) \<Rightarrow> matches s | _ \<Rightarrow> False)"

definition parseBrowserIceConfiguration :: "(string \<Rightarrow> json option) \<Rightarrow> string \<Rightarrow> thrown + json" where
  "parseBrowserIceConfiguration json_of source =
     (case json_of source of
        None \<Rightarrow> Inl (PlainError ''browser ICE configuration is not valid JSON'')
      | Some document \<Rightarrow>
          let servers = elements (json_field document ''iceServers'') in
          if \<not> json_object document \<or> sorted_keys document \<noteq> ''iceServers,iceTransportPolicy''
            \<or> json_field document ''iceTransportPolicy'' \<noteq> Some (JStr ''relay'')
            \<or> \<not> is_array (json_field document ''iceServers'') \<or> length servers \<noteq> 1
          then Inl (PlainError ''browser ICE configuration shape is invalid'')
          else
            let server = hd servers; urls = elements (json_field server ''urls'') in
            if \<not> json_object server \<or> sorted_keys server \<noteq> ''credential,urls,username''
              \<or> \<not> string_matching (base64url_between 16 128) (json_field server ''username'')
              \<or> \<not> string_matching (base64url_between 32 256) (json_field server ''credential'')
              \<or> \<not> is_array (json_field server ''urls'') \<or> length urls \<noteq> 1
              \<or> \<not> string_matching matches_turn_url (Some (hd urls))
            then Inl (PlainError ''browser TURN server configuration is invalid'')
            else Inr document)"

subsection \<open>The arguments\<close>

record media_arguments =
  ma_image :: "string option"
  ma_platform :: "string option"
  ma_appArmorProfile :: "string option"
  ma_seccompProfilePath :: "string option"
  ma_iceServersFile :: "string option"
  ma_browserIceFile :: "string option"
  ma_expectRelay :: "string option"
  ma_turnProbeHost :: "string option"
  ma_turnProbePort :: "string option"

definition expectRelay :: "media_arguments \<Rightarrow> bool" where
  "expectRelay a = (ma_expectRelay a = Some ''1'')"

definition optional_matches :: "(string \<Rightarrow> bool) \<Rightarrow> string option \<Rightarrow> bool" where
  "optional_matches matches value = (case value of None \<Rightarrow> False | Some s \<Rightarrow> matches s)"

definition relay_guard :: "media_arguments \<Rightarrow> thrown + unit" where
  "relay_guard a =
     (if expectRelay a
      then
        bind_result (validateSafeAbsolutePath (ma_iceServersFile a) ''FIREBALL_SMOKE_ICE_SERVERS_FILE'') (\<lambda>_.
        bind_result (validateSafeAbsolutePath (ma_browserIceFile a) ''FIREBALL_SMOKE_BROWSER_ICE_FILE'') (\<lambda>_.
        if \<not> optional_matches (\<lambda>s. isIP s = 4) (ma_turnProbeHost a)
        then Inl (PlainError ''FIREBALL_SMOKE_TURN_PROBE_HOST must be an IPv4 address'')
        else if \<not> optional_matches (is_canonical_numeral 4) (ma_turnProbePort a)
        then Inl (PlainError ''FIREBALL_SMOKE_TURN_PROBE_PORT must be a canonical port'')
        else if digits_value (case_option [] id (ma_turnProbePort a)) > 65535
        then Inl (PlainError ''FIREBALL_SMOKE_TURN_PROBE_PORT is out of range'')
        else Inr ()))
      else if ma_iceServersFile a \<noteq> None \<or> ma_browserIceFile a \<noteq> None \<or> ma_turnProbeHost a \<noteq> None \<or> ma_turnProbePort a \<noteq> None
      then Inl (PlainError ''TURN files require FIREBALL_SMOKE_EXPECT_RELAY=1'')
      else Inr ())"

definition media_guard :: "media_arguments \<Rightarrow> thrown + unit" where
  "media_guard a =
     (if \<not> optional_matches matches_image_argument (ma_image a)
      then Inl (PlainError ''usage: node real-media-gate.mjs <image> <linux/amd64|linux/arm64>'')
      else if ma_platform a \<notin> {Some ''linux/amd64'', Some ''linux/arm64''}
      then Inl (PlainError ''real media gate platform is unsupported'')
      else if \<not> optional_matches matches_profile_name (ma_appArmorProfile a)
      then Inl (PlainError ''FIREBALL_SMOKE_APPARMOR_PROFILE is required'')
      else if \<not> optional_matches is_plain_absolute_path (ma_seccompProfilePath a)
      then Inl (PlainError ''FIREBALL_SMOKE_SECCOMP_PROFILE must be a safe absolute path'')
      else relay_guard a)"

text \<open>The configuration the page is made with; reading the file may throw.\<close>

definition media_ice_configuration ::
  "(string \<Rightarrow> json option) \<Rightarrow> (string \<Rightarrow> thrown + string) \<Rightarrow> media_arguments \<Rightarrow> thrown + json" where
  "media_ice_configuration json_of readFile a =
     bind_result (media_guard a) (\<lambda>_.
       if expectRelay a
       then bind_result (readFile (case_option [] id (ma_browserIceFile a))) (parseBrowserIceConfiguration json_of)
       else Inr (JObj [(''iceServers'', JArr [])]))"

end
