(* ===== verification/TurnGate.thy ===== *)
theory TurnGate
  imports MediaGate Polling FileSystem
begin

text \<open>
  \<open>scripts/real-turn-gate.mjs\<close>: it writes a TURN server's configuration and two ICE documents, one for the
  session's supervisor and one for the browser, starts the server, opens the firewall for it, runs the media gate and
  takes everything back. The world outside answers through the fields of an oracle; the log holds the calls with
  whether they succeeded.
\<close>

subsection \<open>The documents\<close>

record turn_settings =
  turn_hostIp :: string
  turn_listeningPort :: nat
  turn_relayPortStart :: nat
  turn_username :: string
  turn_password :: string
  turn_suffix :: string
  turn_temporaryRoot :: string
  turn_image :: string
  turn_platform :: string

text \<open>The two ports from random bytes: 16 and 8 bits.\<close>

definition listening_port :: "nat \<Rightarrow> nat" where
  "listening_port random16 = 37000 + random16 mod 1000"

definition relay_port_start :: "nat \<Rightarrow> nat" where
  "relay_port_start random8 = 49200 + random8 mod 50"

definition turn_path :: "turn_settings \<Rightarrow> string \<Rightarrow> string" where
  "turn_path t name = join_path (turn_temporaryRoot t) name"

definition installedIcePath :: "turn_settings \<Rightarrow> string" where
  "installedIcePath t = ''/tmp/fireball-turn-'' @ turn_suffix t @ ''.json''"

definition turnConfiguration :: "turn_settings \<Rightarrow> string" where
  "turnConfiguration t = join_with [CHR 0x0A]
     [''listening-ip='' @ turn_hostIp t,
      ''relay-ip='' @ turn_hostIp t,
      ''listening-port='' @ show_nat (turn_listeningPort t),
      ''min-port='' @ show_nat (turn_relayPortStart t),
      ''max-port='' @ show_nat (turn_relayPortStart t + 40),
      ''fingerprint'',
      ''lt-cred-mech'',
      ''user='' @ turn_username t @ '':'' @ turn_password t,
      ''realm=fireball-gate.invalid'',
      ''stale-nonce=60'',
      ''max-allocate-lifetime=120'',
      ''permission-lifetime=60'',
      ''channel-lifetime=60'',
      ''total-quota=8'',
      ''user-quota=8'',
      ''max-bps=10000000'',
      ''no-cli'',
      ''no-tls'',
      ''no-dtls'',
      ''no-tcp'',
      ''no-tcp-relay'',
      ''no-multicast-peers'',
      ''no-software-attribute'',
      ''verbose'',
      ''simple-log'',
      ''no-stdout-log'',
      ''userdb='' @ turn_path t ''turndb'',
      ''pidfile='' @ turn_path t ''turnserver.pid'',
      ''log-file='' @ turn_path t ''turnserver.log'',
      []]"

definition sessionIceConfiguration :: "turn_settings \<Rightarrow> json" where
  "sessionIceConfiguration t = JObj
     [(''schema_version'', JNum (Integer 1)),
      (''turn_servers'', JArr [JObj
         [(''scheme'', JStr ''turn''),
          (''host'', JStr (turn_hostIp t)),
          (''port'', JNum (Integer (int (turn_listeningPort t)))),
          (''username'', JStr (turn_username t)),
          (''password'', JStr (turn_password t))]]),
      (''ice_transport_policy'', JStr ''relay'')]"

definition browserIceConfiguration :: "turn_settings \<Rightarrow> json" where
  "browserIceConfiguration t = JObj
     [(''iceServers'', JArr [JObj
         [(''urls'', JArr [JStr (''turn:'' @ turn_hostIp t @ '':'' @ show_nat (turn_listeningPort t) @ ''?transport=udp'')]),
          (''username'', JStr (turn_username t)),
          (''credential'', JStr (turn_password t))]]),
      (''iceTransportPolicy'', JStr ''relay'')]"

definition firewallRuleArguments :: "turn_settings \<Rightarrow> string \<Rightarrow> string list" where
  "firewallRuleArguments t action =
     [action, ''INPUT''] @ (if action = ''-I'' then [''1''] else [])
     @ [''-i'', ''br+'', ''-p'', ''udp'', ''--dport'', show_nat (turn_listeningPort t), ''-m'', ''comment'',
        ''--comment'', ''fireball-turn-gate-'' @ turn_suffix t, ''-j'', ''ACCEPT'']"

text \<open>
  The arguments and the environment that the media gate is spawned with; the profiles are those the TURN gate itself
  was given.
\<close>

definition gate_arguments :: "turn_settings \<Rightarrow> string option \<Rightarrow> string option \<Rightarrow> media_arguments" where
  "gate_arguments t appArmorProfile seccompProfilePath =
     \<lparr>ma_image = Some (turn_image t), ma_platform = Some (turn_platform t), ma_appArmorProfile = appArmorProfile,
      ma_seccompProfilePath = seccompProfilePath, ma_iceServersFile = Some (installedIcePath t),
      ma_browserIceFile = Some (turn_path t ''browser-ice.json''), ma_expectRelay = Some ''1'',
      ma_turnProbeHost = Some (turn_hostIp t), ma_turnProbePort = Some (show_nat (turn_listeningPort t))\<rparr>"

text \<open>\<open>output\<close> is what \<open>command("ip", ...)\<close> returned.\<close>

definition primaryIPv4Address :: "(string \<Rightarrow> json option) \<Rightarrow> string \<Rightarrow> thrown + string" where
  "primaryIPv4Address json_of output =
     (case json_of output of
        None \<Rightarrow> Inl (PlainError ''ip route returned invalid JSON'')
      | Some routes \<Rightarrow>
          (case Option.bind (if routes = JNull then None else index_zero routes) (\<lambda>route. json_field route ''prefsrc'') of
             Some (JStr address) \<Rightarrow>
               if isIP address \<noteq> 4 \<or> starts_with ''127.'' address \<or> starts_with ''169.254.'' address
               then Inl (PlainError ''runner has no routable primary IPv4 address for coturn'')
               else Inr address
           | _ \<Rightarrow> Inl (PlainError ''runner has no routable primary IPv4 address for coturn'')))"

subsection \<open>The world of the transaction\<close>

datatype turn_call =
    WriteFile string string
  | RunCommand string "string list"
  | KillProcess string string
  | ReadFile string
  | RemoveTree string

text \<open>
  The oracle: what a command gives, what a call on a file gives, an \<open>error\<close> event of the server that is delivered
  while the script awaits something, whether the children are running, how the media gate ends, the time a probe
  takes, and what happens while the script waits for the server to end.
\<close>

record 'e turn_oracle =
  or_spawn :: "string \<Rightarrow> string list \<Rightarrow> 'e \<Rightarrow> spawn_result \<times> 'e"
  or_file :: "turn_call \<Rightarrow> 'e \<Rightarrow> (thrown + string) \<times> 'e"
  or_error :: "'e \<Rightarrow> thrown option"
  or_serverRunning :: "'e \<Rightarrow> bool"
  or_gateRunning :: "'e \<Rightarrow> bool"
  or_gateResult :: "'e \<Rightarrow> (int option \<times> string option) \<times> 'e"
  or_time :: "'e \<Rightarrow> nat"
  or_late :: "'e \<Rightarrow> nat"
  or_race :: "'e \<Rightarrow> 'e"

record 'e turn_state =
  ts_failure :: "thrown option"
  ts_firewall :: bool
  ts_server :: bool
  ts_listening :: bool
  ts_gate :: bool
  ts_log :: "(turn_call \<times> bool) list"
  ts_env :: 'e

type_synonym ('e, 'a) turn = "'e turn_state \<Rightarrow> (thrown + 'a) \<times> 'e turn_state"

definition turn_start :: "'e \<Rightarrow> 'e turn_state" where
  "turn_start e = \<lparr>ts_failure = None, ts_firewall = False, ts_server = False, ts_listening = False, ts_gate = False,
     ts_log = [], ts_env = e\<rparr>"

definition turn_bind :: "('e, 'a) turn \<Rightarrow> ('a \<Rightarrow> ('e, 'b) turn) \<Rightarrow> ('e, 'b) turn" where
  "turn_bind m f s = (case m s of (Inl e, s') \<Rightarrow> (Inl e, s') | (Inr a, s') \<Rightarrow> f a s')"

definition turn_then :: "('e, 'a) turn \<Rightarrow> ('e, 'b) turn \<Rightarrow> ('e, 'b) turn" where
  "turn_then m n = turn_bind m (\<lambda>_. n)"

definition turn_modify :: "('e turn_state \<Rightarrow> 'e turn_state) \<Rightarrow> ('e, unit) turn" where
  "turn_modify f s = (Inr (), f s)"

text \<open>\<open>turnserver.once("error", ...)\<close>, delivered while the script awaits.\<close>

definition deliver_error :: "'e turn_oracle \<Rightarrow> 'e turn_state \<Rightarrow> 'e turn_state" where
  "deliver_error w s =
     (if \<not> ts_listening s then s
      else (case or_error w (ts_env s) of None \<Rightarrow> s | Some e \<Rightarrow> s\<lparr>ts_failure := Some e, ts_listening := False\<rparr>))"

definition turn_command :: "'e turn_oracle \<Rightarrow> string \<Rightarrow> string list \<Rightarrow> bool \<Rightarrow> ('e, string) turn" where
  "turn_command w name args allowFailure s =
     (case or_spawn w name args (ts_env s) of
        (result, e) \<Rightarrow>
          let r = finish_command name allowFailure result in
          (r, s\<lparr>ts_env := e, ts_log := ts_log s @ [(RunCommand name args, \<not> isl r)]\<rparr>))"

definition file_call :: "'e turn_oracle \<Rightarrow> turn_call \<Rightarrow> ('e, string) turn" where
  "file_call w c s =
     (case or_file w c (ts_env s) of
        (r, e) \<Rightarrow> (r, deliver_error w (s\<lparr>ts_env := e, ts_log := ts_log s @ [(c, \<not> isl r)]\<rparr>)))"

definition kill_process :: "string \<Rightarrow> string \<Rightarrow> 'e turn_state \<Rightarrow> 'e turn_state" where
  "kill_process process signal s = s\<lparr>ts_log := ts_log s @ [(KillProcess process signal, True)]\<rparr>"

subsection \<open>The try block\<close>

definition turn_prepare :: "'e turn_oracle \<Rightarrow> turn_settings \<Rightarrow> ('e, unit) turn" where
  "turn_prepare w t =
     turn_then (file_call w (WriteFile (turn_path t ''turnserver.conf'') (turnConfiguration t)))
     (turn_then (file_call w (WriteFile (turn_path t ''session-ice.json'') (serialized (sessionIceConfiguration t))))
     (turn_then (file_call w (WriteFile (turn_path t ''browser-ice.json'') (serialized (browserIceConfiguration t))))
     (turn_then (turn_command w ''sudo'' [''install'', ''-o'', ''root'', ''-g'', ''10001'', ''-m'', ''0440'',
         turn_path t ''session-ice.json'', installedIcePath t] False)
     (turn_modify (\<lambda>s. s\<lparr>ts_server := True, ts_listening := True\<rparr>)))))"

definition listener_probe :: "'e turn_oracle \<Rightarrow> turn_settings \<Rightarrow> ('e turn_state, thrown + bool) timed" where
  "listener_probe w t s =
     (let s1 = deliver_error w s in
      case ts_failure s1 of
        Some e \<Rightarrow> (Inl e, 0, s1)
      | None \<Rightarrow>
          if \<not> or_serverRunning w (ts_env s1)
          then (Inl (PlainError ''coturn exited before opening its listener''), 0, s1)
          else
            (case turn_command w ''ss'' [''-H'', ''-lun''] True s1 of
               (Inl e, s2) \<Rightarrow> (Inl e, or_time w (ts_env s1), s2)
             | (Inr sockets, s2) \<Rightarrow>
                 (Inr (list_ex (occurs_in (turn_hostIp t @ '':'' @ show_nat (turn_listeningPort t)))
                    (split_on (CHR 0x0A) sockets)), or_time w (ts_env s1), s2)))"

definition wait_listener ::
  "'e turn_oracle \<Rightarrow> turn_settings \<Rightarrow> int \<Rightarrow> 'e turn_state \<Rightarrow> ((thrown + unit) \<times> 'e turn_state) option" where
  "wait_listener w t clock s =
     map_option (\<lambda>(r, g). (r, gw_rest g))
       (turn_waitFor (\<lambda>s. or_late w (ts_env s)) (listener_probe w t) 10000 ''coturn did not open its UDP listener''
         \<lparr>gw_now = clock, gw_rest = s\<rparr>)"

definition insert_rule :: "turn_settings \<Rightarrow> turn_call" where
  "insert_rule t = RunCommand ''sudo'' (''iptables'' # firewallRuleArguments t ''-I'')"

definition delete_rule :: "turn_settings \<Rightarrow> turn_call" where
  "delete_rule t = RunCommand ''sudo'' (''iptables'' # firewallRuleArguments t ''-D'')"

definition gate_outcome :: "int option \<times> string option \<Rightarrow> thrown + unit" where
  "gate_outcome result =
     (if fst result = Some 0 then Inr ()
      else Inl (PlainError (''relay-only media gate exited with ''
        @ (case result of (Some n, _) \<Rightarrow> show_int n | (None, Some signal) \<Rightarrow> signal | (None, None) \<Rightarrow> ''unknown status''))))"

definition await_gate :: "'e turn_oracle \<Rightarrow> ('e, unit) turn" where
  "await_gate w s =
     (case or_gateResult w (ts_env s) of
        (result, e) \<Rightarrow> (gate_outcome result, deliver_error w (s\<lparr>ts_env := e\<rparr>)))"

definition turn_measure :: "'e turn_oracle \<Rightarrow> turn_settings \<Rightarrow> ('e, unit) turn" where
  "turn_measure w t =
     turn_then (turn_command w ''sudo'' (''iptables'' # firewallRuleArguments t ''-I'') False)
     (turn_then (turn_modify (\<lambda>s. s\<lparr>ts_firewall := True\<rparr>))
     (turn_then (turn_command w ''turnutils_uclient''
        [''-y'', ''-c'', ''-X'', ''-g'', ''-m'', ''1'', ''-n'', ''1'', ''-p'', show_nat (turn_listeningPort t),
         ''-u'', turn_username t, ''-w'', turn_password t, turn_hostIp t] False)
     (turn_then (turn_modify (\<lambda>s. s\<lparr>ts_gate := True\<rparr>)) (await_gate w))))"

definition turn_try :: "'e turn_oracle \<Rightarrow> turn_settings \<Rightarrow> int \<Rightarrow> 'e turn_state \<Rightarrow> ((thrown + unit) \<times> 'e turn_state) option" where
  "turn_try w t clock s =
     (case turn_prepare w t s of
        (Inl e, s1) \<Rightarrow> Some (Inl e, s1)
      | (Inr _, s1) \<Rightarrow>
          map_option (\<lambda>(r, s2). case r of Inl e \<Rightarrow> (Inl e, s2) | Inr _ \<Rightarrow> turn_measure w t s2) (wait_listener w t clock s1))"

subsection \<open>The catch and finally blocks\<close>

text \<open>The log that \<open>reportCoturnLog\<close> reads is printed, with the credentials replaced; reading may fail.\<close>

definition turn_catch :: "'e turn_oracle \<Rightarrow> turn_settings \<Rightarrow> (thrown + unit) \<times> 'e turn_state \<Rightarrow> 'e turn_state" where
  "turn_catch w t rs =
     (case rs of
        (Inr _, s) \<Rightarrow> s
      | (Inl e, s) \<Rightarrow> snd (file_call w (ReadFile (turn_path t ''turnserver.log'')) (s\<lparr>ts_failure := Some e\<rparr>)))"

definition stop_gate :: "'e turn_oracle \<Rightarrow> 'e turn_state \<Rightarrow> 'e turn_state" where
  "stop_gate w s = (if ts_gate s \<and> or_gateRunning w (ts_env s) then kill_process ''mediaGate'' ''SIGTERM'' s else s)"

definition stop_server :: "'e turn_oracle \<Rightarrow> 'e turn_state \<Rightarrow> 'e turn_state" where
  "stop_server w s =
     (if ts_server s \<and> or_serverRunning w (ts_env s)
      then
        let s1 = kill_process ''turnserver'' ''SIGTERM'' s;
            s2 = deliver_error w (s1\<lparr>ts_env := or_race w (ts_env s1)\<rparr>)
        in if or_serverRunning w (ts_env s2) then kill_process ''turnserver'' ''SIGKILL'' s2 else s2
      else s)"

definition cleanup_failure :: "thrown option \<Rightarrow> thrown \<Rightarrow> thrown" where
  "cleanup_failure failure e =
     (let cleanup = ''scoped firewall cleanup failed: '' @ errorMessage e in
      case failure of None \<Rightarrow> PlainError cleanup | Some f \<Rightarrow> PlainError (errorMessage f @ ''; '' @ cleanup))"

definition close_firewall :: "'e turn_oracle \<Rightarrow> turn_settings \<Rightarrow> 'e turn_state \<Rightarrow> 'e turn_state" where
  "close_firewall w t s =
     (if \<not> ts_firewall s then s
      else
        (case turn_command w ''sudo'' (''iptables'' # firewallRuleArguments t ''-D'') False s of
           (Inr _, s1) \<Rightarrow> s1
         | (Inl e, s1) \<Rightarrow> s1\<lparr>ts_failure := Some (cleanup_failure (ts_failure s1) e)\<rparr>))"

definition remove_installed :: "turn_settings \<Rightarrow> string list" where
  "remove_installed t = [''rm'', ''-f'', installedIcePath t]"

text \<open>The last two calls may throw; an exception of a \<open>finally\<close> block replaces the failure.\<close>

definition turn_finally :: "'e turn_oracle \<Rightarrow> turn_settings \<Rightarrow> ('e, unit) turn" where
  "turn_finally w t s =
     (case turn_then (turn_command w ''sudo'' (remove_installed t) True) (file_call w (RemoveTree (turn_temporaryRoot t)))
             (close_firewall w t (stop_server w (stop_gate w s))) of
        (Inl e, s1) \<Rightarrow> (Inl e, s1)
      | (Inr _, s1) \<Rightarrow> (case ts_failure s1 of Some e \<Rightarrow> (Inl e, s1) | None \<Rightarrow> (Inr (), s1)))"

definition turn_transaction ::
  "'e turn_oracle \<Rightarrow> turn_settings \<Rightarrow> int \<Rightarrow> 'e \<Rightarrow> ((thrown + unit) \<times> 'e turn_state) option" where
  "turn_transaction w t clock e =
     map_option (\<lambda>rs. turn_finally w t (turn_catch w t rs)) (turn_try w t clock (turn_start e))"

end
