(* ===== verification/TurnProperties.thy ===== *)
theory TurnProperties
  imports TurnGate
begin

text \<open>
  What the TURN gate does: the documents it makes are accepted by those who read them, and its transaction takes
  everything back.
\<close>

subsection \<open>The documents are accepted\<close>

lemma length_split_on: "Suc (length s) = sum_list (map (\<lambda>x. Suc (length x)) (split_on sep s))"
proof (induction s)
  case (Cons c s)
  then show ?case by (cases "split_on sep s") auto
qed simp

lemma ipv4_host:
  assumes "is_ipv4 s"
  shows "list_all (\<lambda>c. is_digit c \<or> c = CHR ''.'') s" and "s \<noteq> [] \<and> length s \<le> 253"
proof -
  let ?parts = "split_on (CHR ''.'') s"
  have four: "length ?parts = 4" and octets: "\<forall>x \<in> set ?parts. is_octet x"
    using assms by (simp_all add: is_ipv4_def list_all_iff)
  have parts: "\<exists>a b c d. ?parts = [a, b, c, d]"
    using four by (auto simp: length_Suc_conv numeral_eq_Suc)
  then obtain a b c d where abcd: "?parts = [a, b, c, d]" by blast
  have "length x \<le> 3 \<and> x \<noteq> []" if "x \<in> set ?parts" for x using octets that by (simp add: is_octet_def)
  then have "length a \<le> 3" "length b \<le> 3" "length c \<le> 3" "length d \<le> 3" by (simp_all add: abcd)
  with length_split_on [of s "CHR ''.''"] have "length s \<le> 253" by (simp add: abcd)
  moreover have "s \<noteq> []" using four by auto
  ultimately show "s \<noteq> [] \<and> length s \<le> 253" by simp
  show "list_all (\<lambda>c. is_digit c \<or> c = CHR ''.'') s"
    by (rule list_all_split_on [of _ "CHR ''.''"]) (use octets in \<open>auto simp: list_all_iff is_octet_def\<close>)
qed

lemma digit_lower: "is_digit c \<or> c = CHR ''.'' \<Longrightarrow> lower_char c = c"
  by (auto simp: lower_char_def js_text_simps)

lemma ipv4_lower: "is_ipv4 s \<Longrightarrow> toLowerCase s = s"
  using ipv4_host(1) [of s] unfolding toLowerCase_def by (intro map_idI) (auto simp: list_all_iff digit_lower)

lemma isIP_4: "isIP s = 4 \<longleftrightarrow> is_ipv4 s"
  by (simp add: isIP_def)

lemma validateIceHost_ipv4: "is_ipv4 s \<Longrightarrow> validateIceHost (Some (JStr s)) = Inr s"
  using ipv4_host(2) [of s] ipv4_lower [of s] by (simp add: validateIceHost_def isIP_def)

lemma show_nat_length: "n < 10 ^ Suc k \<Longrightarrow> 1 \<le> length (show_nat n) \<and> length (show_nat n) \<le> Suc k"
proof (induction k arbitrary: n)
  case 0
  then show ?case by (subst (1 2) show_nat.simps) simp
next
  case (Suc k)
  then have "n div 10 < 10 ^ Suc k" by simp
  with Suc.IH show ?case by (subst (1 2) show_nat.simps) auto
qed

lemma port_text: "digits_between 1 5 (show_nat (listening_port r))"
proof -
  have "listening_port r < 10 ^ Suc 4" by (simp add: listening_port_def)
  from show_nat_length [OF this] show ?thesis by (simp add: digits_between_def show_nat_digits)
qed

lemma base64url_printable: "is_base64url c \<Longrightarrow> is_printable c \<and> ice_char c = [c]"
  by (auto simp: js_text_simps is_printable_def ice_char_def is_kept_char_def)

lemma encode_base64url:
  assumes "list_all is_base64url s" and "s \<noteq> []" and "length s \<le> n"
  shows "encodeIceCredential (Some (JStr s)) label n = Inr s"
proof -
  have p: "list_all is_printable s" using assms(1) base64url_printable by (auto simp: list_all_iff)
  have "concat (map ice_char s) = s" using assms(1) base64url_printable by (induction s) auto
  with p assms escape_encode [OF p] show ?thesis by (simp add: encodeIceCredential_def)
qed

lemma ipv4_parts:
  assumes "is_ipv4 s"
  shows "length (split_on (CHR ''.'') s) = 4 \<and> list_all (digits_between 1 3) (split_on (CHR ''.'') s)"
  using assms by (auto simp: is_ipv4_def is_octet_def digits_between_def list_all_iff Suc_le_eq)

lemma takeWhile_all: "\<forall>x \<in> set xs. P x \<Longrightarrow> \<not> P y \<Longrightarrow> takeWhile P (xs @ y # ys) = xs \<and> dropWhile P (xs @ y # ys) = y # ys"
  by (induction xs) auto

lemma turn_url_matches:
  assumes host: "is_ipv4 host" and port: "digits_between 1 5 port"
  shows "matches_turn_url (''turn:'' @ host @ '':'' @ port @ ''?transport=udp'')"
proof -
  let ?body = "host @ '':'' @ port"
  have digits: "list_all is_digit port" using port by (simp add: digits_between_def)
  have "\<forall>c \<in> set ?body. c \<noteq> CHR ''?''"
    using ipv4_host(1) [OF host] digits by (auto simp: list_all_iff is_digit_def code_def)
  from takeWhile_all [OF this, of "CHR ''?''" "''transport=udp''"]
  have cut: "takeWhile (\<lambda>c. c \<noteq> CHR ''?'') (?body @ ''?transport=udp'') = ?body"
    "dropWhile (\<lambda>c. c \<noteq> CHR ''?'') (?body @ ''?transport=udp'') = ''?transport=udp''" by simp_all
  have "CHR '':'' \<notin> set host" "CHR '':'' \<notin> set port"
    using ipv4_host(1) [OF host] digits by (auto simp: list_all_iff is_digit_def code_def)
  then have "split_on (CHR '':'') ?body = [host, port]"
    by (simp add: split_on_append_sep split_on_no_sep)
  with cut ipv4_parts [OF host] port show ?thesis by (simp add: matches_turn_url_def starts_with_def)
qed

lemma primaryIPv4Address_Inr: "primaryIPv4Address json_of out = Inr a \<Longrightarrow> is_ipv4 a"
  by (auto simp: primaryIPv4Address_def isIP_4 split: option.splits json.splits if_splits)

lemma document_keys:
  "sorted_keys (sessionIceConfiguration t) = ''ice_transport_policy,schema_version,turn_servers''"
  "sorted_keys (browserIceConfiguration t) = ''iceServers,iceTransportPolicy''"
  "sorted_keys (JObj [(''urls'', a), (''username'', b), (''credential'', c)]) = ''credential,urls,username''"
  "sorted_keys (JObj [(''scheme'', a), (''host'', b), (''port'', c), (''username'', d), (''password'', e)])
     = ''host,password,port,scheme,username''"
proof -
  have "join_with '','' (sort_strings [''schema_version'', ''turn_servers'', ''ice_transport_policy''])
      = ''ice_transport_policy,schema_version,turn_servers''" by code_simp
  then show "sorted_keys (sessionIceConfiguration t) = ''ice_transport_policy,schema_version,turn_servers''"
    by (simp add: sorted_keys_def sessionIceConfiguration_def)
  have "join_with '','' (sort_strings [''iceServers'', ''iceTransportPolicy'']) = ''iceServers,iceTransportPolicy''" by code_simp
  then show "sorted_keys (browserIceConfiguration t) = ''iceServers,iceTransportPolicy''"
    by (simp add: sorted_keys_def browserIceConfiguration_def)
  have "join_with '','' (sort_strings [''urls'', ''username'', ''credential'']) = ''credential,urls,username''" by code_simp
  then show "sorted_keys (JObj [(''urls'', a), (''username'', b), (''credential'', c)]) = ''credential,urls,username''"
    by (simp add: sorted_keys_def)
  have "join_with '','' (sort_strings [''scheme'', ''host'', ''port'', ''username'', ''password''])
      = ''host,password,port,scheme,username''" by code_simp
  then show "sorted_keys (JObj [(''scheme'', a), (''host'', b), (''port'', c), (''username'', d), (''password'', e)])
     = ''host,password,port,scheme,username''" by (simp add: sorted_keys_def)
qed

lemma expected_keys:
  "join_with '','' (sort_strings [''ice_transport_policy'', ''schema_version'', ''turn_servers''])
     = ''ice_transport_policy,schema_version,turn_servers''"
  "join_with '','' (sort_strings [''host'', ''password'', ''port'', ''scheme'', ''username''])
     = ''host,password,port,scheme,username''"
  by code_simp+

lemma show_nat_hd: "0 < n \<Longrightarrow> hd (show_nat n) \<noteq> CHR ''0''"
proof (induction n rule: show_nat.induct)
  case (1 n)
  show ?case
  proof (cases "n < 10")
    case True
    have "char_of (48 + n) \<noteq> CHR ''0''"
    proof
      assume "char_of (48 + n) = CHR ''0''"
      then have "48 + n = code (CHR ''0'')" using True code_char_of [of "48 + n"] by simp
      with 1(2) show False by (simp add: code_def)
    qed
    with True show ?thesis by (subst show_nat.simps) simp
  next
    case False
    then have "hd (show_nat (n div 10)) \<noteq> CHR ''0''" by (intro "1.IH") simp_all
    moreover have "show_nat (n div 10) \<noteq> []" by (subst show_nat.simps) simp
    ultimately show ?thesis using False by (subst show_nat.simps) simp
  qed
qed

lemma port_matches: "is_canonical_numeral 4 (show_nat (listening_port r)) \<and> digits_value (show_nat (listening_port r)) \<le> 65535"
proof -
  have "0 < listening_port r" "listening_port r \<le> 65535" by (simp_all add: listening_port_def)
  moreover from this port_text [of r] show_nat_hd [of "listening_port r"]
  have "is_canonical_numeral 4 (show_nat (listening_port r))"
    by (cases "show_nat (listening_port r)") (simp_all add: is_canonical_numeral_def digits_between_def)
  ultimately show ?thesis by (simp add: digits_value_show_nat)
qed

lemma hex_path_char: "is_lower_hex c \<Longrightarrow> is_path_char c \<and> c \<noteq> CHR ''/''"
  by (auto simp: js_text_simps)

lemma installed_path_safe:
  assumes "list_all is_lower_hex (turn_suffix t)" and "length (turn_suffix t) = 12"
  shows "validateSafeAbsolutePath (Some (installedIcePath t)) name = Inr ()"
proof -
  let ?file = "''fireball-turn-'' @ turn_suffix t @ ''.json''"
  have path: "installedIcePath t = ''/tmp/'' @ ?file" by (simp add: installedIcePath_def)
  have noslash: "CHR ''/'' \<notin> set ?file" using assms(1) by (auto simp: list_all_iff dest: hex_path_char)
  have "split_on (CHR ''/'') (''/tmp/'' @ ?file) = split_on (CHR ''/'') ''/tmp'' @ split_on (CHR ''/'') ?file"
    using split_on_append_sep [of "CHR ''/''" "''/tmp''" ?file] by simp
  then have "split_on (CHR ''/'') (installedIcePath t) = [[], ''tmp'', ?file]"
    using split_on_no_sep [OF noslash] by (simp add: path)
  then have segments: "normalize_segments a (installedIcePath t) = [''tmp'', ?file]" for a
    by (simp add: normalize_segments_def normalize_segment_def)
  have "normalize (installedIcePath t) = installedIcePath t"
    unfolding normalize_def segments Let_def by (simp add: path isAbsolute_def)
  moreover have "is_plain_absolute_path (installedIcePath t)"
    using assms(1) by (auto simp: is_plain_absolute_path_def path list_all_iff js_text_simps)
  ultimately show ?thesis using assms(2) by (simp add: validateSafeAbsolutePath_def path isAbsolute_def)
qed

text \<open>
  C38. The two documents the TURN gate makes from a routable primary address, a port of its range and random
  credentials mean the same server to their readers: the supervisor's parser accepts the session's document, with the one
  TURN URI of that server, relay only and without STUN, as the preflight of the media gate demands; the
  media gate accepts the browser's document as it is, and the environment it is started with.
\<close>

theorem turn_documents_are_accepted:
  assumes "primaryIPv4Address json_of route = Inr (turn_hostIp t)" and port: "turn_listeningPort t = listening_port r"
    and user: "length (turn_username t) = 24" "list_all is_base64url (turn_username t)"
    and pass: "length (turn_password t) = 43" "list_all is_base64url (turn_password t)"
    and parse: "json_parse (utf8 (serialized (sessionIceConfiguration t))) = Some (sessionIceConfiguration t)"
      "json_of (serialized (browserIceConfiguration t)) = Some (browserIceConfiguration t)"
    and suffix: "list_all is_lower_hex (turn_suffix t)" "length (turn_suffix t) = 12"
    and root: "validateSafeAbsolutePath (Some (turn_path t ''browser-ice.json'')) ''FIREBALL_SMOKE_BROWSER_ICE_FILE'' = Inr ()"
  shows "parseIceServerConfiguration json_parse (utf8 (serialized (sessionIceConfiguration t))) = Inr
      \<lparr>stunServer = [],
       turnServers = [''turn://'' @ turn_username t @ '':'' @ turn_password t @ ''@'' @ turn_hostIp t @ '':''
         @ show_nat (turn_listeningPort t)],
       iceTransportPolicy = ''relay''\<rparr>
    \<and> parseBrowserIceConfiguration json_of (serialized (browserIceConfiguration t)) = Inr (browserIceConfiguration t)
    \<and> relay_guard (gate_arguments t appArmorProfile seccompProfilePath) = Inr ()"
proof (intro conjI)
  have host: "is_ipv4 (turn_hostIp t)" using assms(1) by (rule primaryIPv4Address_Inr)
  have range: "1 \<le> int (turn_listeningPort t)" "int (turn_listeningPort t) \<le> 65535"
    by (simp_all add: port listening_port_def)
  have credentials: "encodeIceCredential (Some (JStr (turn_username t))) l 128 = Inr (turn_username t)"
    "encodeIceCredential (Some (JStr (turn_password t))) l 256 = Inr (turn_password t)" for l
    using user pass by (auto intro!: encode_base64url)
  have server: "validateTurnServer (JObj
         [(''scheme'', JStr ''turn''), (''host'', JStr (turn_hostIp t)), (''port'', JNum (Integer (int (turn_listeningPort t)))),
          (''username'', JStr (turn_username t)), (''password'', JStr (turn_password t))])
      = Inr (''turn://'' @ turn_username t @ '':'' @ turn_password t @ ''@'' @ turn_hostIp t @ '':'' @ show_nat (turn_listeningPort t))"
    using range validateIceHost_ipv4 [OF host] host
    by (simp add: validateTurnServer_def assertObjectWithExactKeys_def document_keys expected_keys validateIcePort_def
        credentials serializeIceHost_def isIP_def show_int_def)
  show "parseIceServerConfiguration json_parse (utf8 (serialized (sessionIceConfiguration t))) = Inr
      \<lparr>stunServer = [],
       turnServers = [''turn://'' @ turn_username t @ '':'' @ turn_password t @ ''@'' @ turn_hostIp t @ '':''
         @ show_nat (turn_listeningPort t)],
       iceTransportPolicy = ''relay''\<rparr>"
    using server document_keys(1) [of t] unfolding parseIceServerConfiguration_def parse
    by (simp add: expected_ice_keys_def expected_keys sessionIceConfiguration_def)
  show "parseBrowserIceConfiguration json_of (serialized (browserIceConfiguration t)) = Inr (browserIceConfiguration t)"
    using turn_url_matches [OF host port_text [of r]] user pass document_keys(2) [of t]
    unfolding parseBrowserIceConfiguration_def parse
    by (simp add: browserIceConfiguration_def document_keys elements_def is_array_def
        string_matching_def base64url_between_def port)
  show "relay_guard (gate_arguments t appArmorProfile seccompProfilePath) = Inr ()"
    using installed_path_safe [OF suffix] root host port_matches [of r]
    by (simp add: relay_guard_def gate_arguments_def expectRelay_def optional_matches_def isIP_def port)
qed

subsection \<open>The transaction\<close>























text \<open>A removal that cannot be spawned replaces the failure of the try block, and leaves the directory with the credentials.\<close>

lemma removal_error_replaces_failure:
  assumes "or_spawn w ''sudo'' (remove_installed t) (ts_env (close_firewall w t (stop_server w (stop_gate w s)))) = (result, e)"
    and "sr_error result = Some x"
  shows "fst (turn_finally w t s) = Inl x
    \<and> ts_log (snd (turn_finally w t s))
        = ts_log (close_firewall w t (stop_server w (stop_gate w s))) @ [(RunCommand ''sudo'' (remove_installed t), False)]"
  using assms by (simp add: turn_finally_def turn_then_def turn_bind_def turn_command_def finish_command_def)

definition ex_turn :: turn_settings where
  "ex_turn = \<lparr>turn_hostIp = ''10.0.0.5'', turn_listeningPort = listening_port 0, turn_relayPortStart = relay_port_start 0,
     turn_username = replicate 24 (CHR ''u''), turn_password = replicate 43 (CHR ''p''), turn_suffix = ''0a1b2c3d4e5f'',
     turn_temporaryRoot = ''/tmp/fireball-turn-gate-x'', turn_image = ''image'', turn_platform = ''linux/amd64''\<rparr>"

definition ex_route :: json where
  "ex_route = JArr [JObj [(''dst'', JStr ''198.18.0.1''), (''prefsrc'', JStr ''10.0.0.5'')]]"

definition ex_json_of :: "string \<Rightarrow> json option" where
  "ex_json_of text = (if text = [] then Some ex_route else Some (browserIceConfiguration ex_turn))"

theorem turn_documents_are_accepted_witness:
  "\<exists>cfg. parseIceServerConfiguration (\<lambda>_. Some (sessionIceConfiguration ex_turn)) (utf8 (serialized (sessionIceConfiguration ex_turn)))
      = Inr cfg \<and> length (turnServers cfg) = 1 \<and> iceTransportPolicy cfg = ''relay'' \<and> stunServer cfg = []
    \<and> parseBrowserIceConfiguration ex_json_of (serialized (browserIceConfiguration ex_turn)) = Inr (browserIceConfiguration ex_turn)"
proof -
  have "isIP ''10.0.0.5'' = 4" by code_simp
  then have 1: "primaryIPv4Address ex_json_of [] = Inr (turn_hostIp ex_turn)"
    by (simp add: primaryIPv4Address_def ex_json_of_def ex_route_def ex_turn_def starts_with_def)
  have 2: "turn_listeningPort ex_turn = listening_port 0" by (simp add: ex_turn_def)
  have 3: "length (turn_username ex_turn) = 24" "list_all is_base64url (turn_username ex_turn)"
    "length (turn_password ex_turn) = 43" "list_all is_base64url (turn_password ex_turn)"
    by (simp_all add: ex_turn_def list_all_iff js_text_simps)
  have 4: "ex_json_of (serialized (browserIceConfiguration ex_turn)) = Some (browserIceConfiguration ex_turn)"
    by (simp add: ex_json_of_def serialized_def)
  have 5: "list_all is_lower_hex (turn_suffix ex_turn)" "length (turn_suffix ex_turn) = 12"
    by (simp_all add: ex_turn_def js_text_simps)
  have "turn_path ex_turn ''browser-ice.json'' = join_path ''/tmp/fireball-turn-gate-x'' ''browser-ice.json''"
    by (simp add: turn_path_def ex_turn_def)
  moreover have "join_path ''/tmp/fireball-turn-gate-x'' ''browser-ice.json'' = ''/tmp/fireball-turn-gate-x/browser-ice.json''"
    by code_simp
  moreover have "normalize ''/tmp/fireball-turn-gate-x/browser-ice.json'' = ''/tmp/fireball-turn-gate-x/browser-ice.json''"
    by code_simp
  ultimately have 6: "validateSafeAbsolutePath (Some (turn_path ex_turn ''browser-ice.json'')) ''FIREBALL_SMOKE_BROWSER_ICE_FILE'' = Inr ()"
    by (simp add: validateSafeAbsolutePath_def isAbsolute_def is_plain_absolute_path_def js_text_simps)
  note accepted = turn_documents_are_accepted [OF 1 2 3 refl 4 5 6]
  show ?thesis
    by (rule exI, rule conjI [OF accepted [THEN conjunct1]]) (simp add: accepted [THEN conjunct2, THEN conjunct1])
qed

end
