(* ===== verification/ContainerGate.thy ===== *)
theory ContainerGate
  imports DockerRuntime MediaGate
begin

text \<open>
  \<open>scripts/real-isolation-gate.mjs\<close>: how it finds the containers of its sessions and what it demands of each. The
  documents are those of \<open>docker inspect\<close>; \<open>None\<close> is \<open>undefined\<close>.
\<close>

subsection \<open>Finding the containers\<close>

definition management_filters :: "string \<Rightarrow> string list" where
  "management_filters managedInstance =
     [''--filter'', ''label=dev.fireball.managed=true'', ''--filter'', ''label=dev.fireball.instance='' @ managedInstance]"

text \<open>\<open>split("\n").filter(Boolean)\<close>\<close>

definition output_lines :: "string \<Rightarrow> string list" where
  "output_lines text = filter (\<lambda>l. l \<noteq> []) (split_on (CHR 0x0A) text)"

definition managedContainers ::
  "(string list \<Rightarrow> spawn_result) \<Rightarrow> (string \<Rightarrow> json option) \<Rightarrow> string \<Rightarrow> thrown + json" where
  "managedContainers spawn json_of managedInstance =
     bind_result (docker_command spawn ([''ps'', ''--all'', ''--quiet''] @ management_filters managedInstance) False) (\<lambda>listing.
       let ids = output_lines listing in
       if length ids = 0 then Inr (JArr [])
       else
         bind_result (docker_command spawn (''inspect'' # ids) False) (\<lambda>text.
           case json_of text of None \<Rightarrow> Inl (PlainError ''invalid JSON'') | Some document \<Rightarrow> Inr document))"

definition managedNetworks :: "(string list \<Rightarrow> spawn_result) \<Rightarrow> string \<Rightarrow> thrown + string list" where
  "managedNetworks spawn managedInstance =
     map_sum id output_lines
       (docker_command spawn ([''network'', ''ls'', ''--quiet''] @ management_filters managedInstance) False)"



subsection \<open>The boundary of a container\<close>











subsection \<open>The secret and the endpoint\<close>





subsection \<open>The runtime's containers pass\<close>











end
