(* ===== verification/Openh264.thy ===== *)
theory Openh264
  imports Assertions FileSystem
begin

text \<open>
  \<open>scripts/install-firefox-openh264.mjs\<close>: the checks of its manifest and arguments, and the installation of the codec
  that the media gate's browser uses. Downloads, commands and calls on files answer through an oracle; the log holds
  the calls that change files with whether they succeeded.
\<close>

subsection \<open>Patterns\<close>

definition all_of :: "(char \<Rightarrow> bool) \<Rightarrow> string \<Rightarrow> bool" where
  "all_of p s = (s \<noteq> [] \<and> list_all p s)"

text \<open>\<open>/^\d+\.\d+\.\d+$/\<close> and \<open>/^FIREFOX_\d+_\d+_\d+_RELEASE$/\<close>\<close>

definition matches_version :: "string \<Rightarrow> bool" where
  "matches_version s =
     (length (split_on (CHR ''.'') s) = 3 \<and> list_all (all_of is_digit) (split_on (CHR ''.'') s))"

definition matches_release :: "string \<Rightarrow> bool" where
  "matches_release s =
     (case split_on (CHR ''_'') s of
        [a, b, c, d, e] \<Rightarrow> a = ''FIREFOX'' \<and> all_of is_digit b \<and> all_of is_digit c \<and> all_of is_digit d \<and> e = ''RELEASE''
      | _ \<Rightarrow> False)"

text \<open>\<open>/^https:\/\/ciscobinary\.openh264\.org\/[A-Za-z0-9.-]+\.zip$/\<close> and \<open>/^[a-f0-9]{128}$/\<close>\<close>

definition matches_codec_url :: "string \<Rightarrow> bool" where
  "matches_codec_url s =
     (let start = ''https://ciscobinary.openh264.org/''; rest = drop (length start) s; name = take (length rest - 4) rest in
      starts_with start s \<and> 4 < length rest \<and> drop (length rest - 4) rest = ''.zip''
      \<and> list_all (\<lambda>c. is_alnum c \<or> c = CHR ''.'' \<or> c = CHR ''-'') name)"

definition matches_sha512 :: "string \<Rightarrow> bool" where
  "matches_sha512 s = (length s = 128 \<and> list_all is_lower_hex s)"

subsection \<open>The manifest\<close>

text \<open>\<open>assert.match\<close> throws for a value that is not a text.\<close>

definition assert_match :: "(string \<Rightarrow> bool) \<Rightarrow> json option \<Rightarrow> thrown + unit" where
  "assert_match matches value =
     assert_that (case value of Some (JStr s) \<Rightarrow> matches s | _ \<Rightarrow> False) failed_assertion"

text \<open>\<open>assert.deepEqual(Object.keys(value).sort(), keys)\<close>; null and undefined have no keys.\<close>

definition assert_keys :: "json option \<Rightarrow> string list \<Rightarrow> thrown + unit" where
  "assert_keys value keys =
     (case value of
        None \<Rightarrow> Inl type_error
      | Some v \<Rightarrow> if v = JNull then Inl type_error else assert_that (sort_strings (json_keys v) = keys) failed_assertion)"

definition assert_equal :: "json option \<Rightarrow> json \<Rightarrow> thrown + unit" where
  "assert_equal actual expected = assert_that (actual = Some expected) failed_assertion"

definition entries :: "json option \<Rightarrow> (string \<times> json) list" where
  "entries value = (case value of Some (JObj fs) \<Rightarrow> fs | _ \<Rightarrow> [])"

definition valid_size :: "json option \<Rightarrow> bool" where
  "valid_size value = (case value of Some (JNum (Integer n)) \<Rightarrow> 0 < n \<and> n \<le> 1024 * 1024 | _ \<Rightarrow> False)"

definition validateArtifact :: "string \<times> json \<Rightarrow> thrown + unit" where
  "validateArtifact entry =
     (case entry of (platform, artifact) \<Rightarrow>
        all_asserted id
          [assert_keys (Some artifact) [''sha512'', ''size'', ''url''],
           assert_match matches_codec_url (json_field artifact ''url''),
           assert_that (valid_size (json_field artifact ''size'')) failed_assertion,
           assert_match matches_sha512 (json_field artifact ''sha512''),
           (if platform = ''linux/amd64'' then assert_match (occurs_in ''-linux64-'') (json_field artifact ''url'') else Inr ()),
           (if platform = ''linux/arm64'' then assert_match (occurs_in ''-linux64-aarch64-'') (json_field artifact ''url'') else Inr ())])"

text \<open>A property of the source is read only after its keys were checked, so that it is an object then.\<close>

definition validateManifest :: "json \<Rightarrow> thrown + unit" where
  "validateManifest document =
     (let source = json_field document ''source''; artifacts = json_field document ''artifacts'' in
      bind_result (assert_keys (Some document) [''artifacts'', ''plugin_version'', ''schema_version'', ''source'']) (\<lambda>_.
      bind_result (assert_equal (json_field document ''schema_version'') (JNum (Integer 1))) (\<lambda>_.
      bind_result (assert_match matches_version (json_field document ''plugin_version'')) (\<lambda>_.
      bind_result (assert_keys source [''path'', ''ref'', ''repository'']) (\<lambda>_.
      bind_result (assert_equal (Option.bind source (\<lambda>v. json_field v ''repository'')) (JStr ''mozilla-firefox/firefox'')) (\<lambda>_.
      bind_result (assert_match matches_release (Option.bind source (\<lambda>v. json_field v ''ref''))) (\<lambda>_.
      bind_result (assert_equal (Option.bind source (\<lambda>v. json_field v ''path''))
        (JStr ''toolkit/content/gmp-sources/openh264.json'')) (\<lambda>_.
      bind_result (assert_keys artifacts [''linux/amd64'', ''linux/arm64'']) (\<lambda>_.
      all_asserted validateArtifact (entries artifacts))))))))))"

subsection \<open>The arguments\<close>

definition install_usage :: thrown where
  "install_usage =
     PlainError ''usage: install-firefox-openh264.mjs install <linux/amd64|linux/arm64> <absolute-output-path>''"

text \<open>The artifact of the platform and the canonical output path; a missing platform is the text \<open>undefined\<close>.\<close>

definition codec_arguments :: "string \<Rightarrow> json \<Rightarrow> string option \<Rightarrow> string option \<Rightarrow> thrown + json \<times> string" where
  "codec_arguments cwd manifest platform outputArgument =
     (case map_of (entries (json_field manifest ''artifacts'')) (case platform of None \<Rightarrow> ''undefined'' | Some p \<Rightarrow> p) of
        None \<Rightarrow> Inl install_usage
      | Some artifact \<Rightarrow>
          (case outputArgument of
             None \<Rightarrow> Inl (PlainError ''OpenH264 output must be a safe absolute path'')
           | Some path \<Rightarrow>
               if \<not> starts_with ''/'' path \<or> CHR 0x00 \<in> set path
               then Inl (PlainError ''OpenH264 output must be a safe absolute path'')
               else
                 let outputRoot = resolve_path cwd path in
                 if outputRoot \<noteq> path \<or> outputRoot = ''/'' \<or> outputRoot = dirname outputRoot
                 then Inl (PlainError ''OpenH264 output path must already be canonical and non-root'')
                 else Inr (artifact, outputRoot)))"

subsection \<open>The installation\<close>

datatype codec_call =
    MakeDirectory string
  | WriteArchive string bytes
  | ExtractArchive string string
  | ChangeMode string
  | RemoveFile string
  | RenameTo string string
  | RemoveStaging string

record codec_response =
  cr_ok :: bool
  cr_url :: string
  cr_status :: nat
  cr_length :: number
  cr_body :: "thrown + bytes"

record codec_stat =
  cs_isFile :: bool
  cs_isSymbolicLink :: bool
  cs_size :: int

record 'e codec_oracle =
  co_sha512 :: "bytes \<Rightarrow> string"
  co_call :: "codec_call \<Rightarrow> 'e \<Rightarrow> (thrown + unit) \<times> 'e"
  co_mkdtemp :: "string \<Rightarrow> 'e \<Rightarrow> (thrown + string) \<times> 'e"
  co_fetch :: "string \<Rightarrow> 'e \<Rightarrow> (thrown + codec_response) \<times> 'e"
  co_list :: "string \<Rightarrow> 'e \<Rightarrow> (thrown + string) \<times> 'e"
  co_lstat :: "string \<Rightarrow> 'e \<Rightarrow> (thrown + codec_stat) \<times> 'e"

record 'e codec_state =
  cd_log :: "(codec_call \<times> bool) list"
  cd_env :: 'e

type_synonym ('e, 'a) codec = "'e codec_state \<Rightarrow> (thrown + 'a) \<times> 'e codec_state"

definition codec_bind :: "('e, 'a) codec \<Rightarrow> ('a \<Rightarrow> ('e, 'b) codec) \<Rightarrow> ('e, 'b) codec" where
  "codec_bind m f s = (case m s of (Inl e, s') \<Rightarrow> (Inl e, s') | (Inr a, s') \<Rightarrow> f a s')"

definition codec_check :: "thrown + 'a \<Rightarrow> ('e, 'a) codec" where
  "codec_check r s = (r, s)"

definition ask :: "('e \<Rightarrow> (thrown + 'a) \<times> 'e) \<Rightarrow> ('e, 'a) codec" where
  "ask f s = (case f (cd_env s) of (r, e) \<Rightarrow> (r, s\<lparr>cd_env := e\<rparr>))"

definition change :: "'e codec_oracle \<Rightarrow> codec_call \<Rightarrow> ('e, unit) codec" where
  "change w c s =
     (case co_call w c (cd_env s) of (r, e) \<Rightarrow> (r, s\<lparr>cd_env := e, cd_log := cd_log s @ [(c, \<not> isl r)]\<rparr>))"

definition validateInstalledFile :: "'e codec_oracle \<Rightarrow> string \<Rightarrow> ('e, unit) codec" where
  "validateInstalledFile w path =
     codec_bind (ask (co_lstat w path)) (\<lambda>stat.
       codec_check (assert_that (cs_isFile stat \<and> \<not> cs_isSymbolicLink stat \<and> 0 < cs_size stat \<and> cs_size stat \<le> 8 * 1024 * 1024)
         (''unsafe OpenH264 archive member: '' @ path)))"

text \<open>\<open>missing\<close> stands for an error with the code \<open>ENOENT\<close>.\<close>

definition assertMissing :: "(string \<Rightarrow> (bool \<times> thrown) + codec_stat) \<Rightarrow> string \<Rightarrow> thrown + unit" where
  "assertMissing lstat path =
     (case lstat path of
        Inl (missing, e) \<Rightarrow> if missing then Inr () else Inl e
      | Inr _ \<Rightarrow> Inl (PlainError ''OpenH264 output path already exists''))"

definition artifact_text :: "json \<Rightarrow> string \<Rightarrow> string" where
  "artifact_text artifact key = (case json_field artifact key of Some (JStr s) \<Rightarrow> s | _ \<Rightarrow> [])"

definition artifact_size :: "json \<Rightarrow> int" where
  "artifact_size artifact = (case json_field artifact ''size'' of Some (JNum (Integer n)) \<Rightarrow> n | _ \<Rightarrow> 0)"

definition check_response :: "(bytes \<Rightarrow> string) \<Rightarrow> json \<Rightarrow> codec_response \<Rightarrow> thrown + bytes" where
  "check_response sha512 artifact response =
     (if \<not> cr_ok response \<or> cr_url response \<noteq> artifact_text artifact ''url''
      then Inl (PlainError (''OpenH264 download failed with HTTP '' @ show_nat (cr_status response)))
      else if cr_length response \<noteq> Integer (artifact_size artifact)
      then Inl (PlainError (''OpenH264 Content-Length mismatch: expected '' @ show_int (artifact_size artifact) @ '', got ''
        @ (case cr_length response of Integer n \<Rightarrow> show_int n | NonInteger \<Rightarrow> ''NaN'')))
      else
        bind_result (cr_body response) (\<lambda>content.
          if int (length content) \<noteq> artifact_size artifact
          then Inl (PlainError (''OpenH264 size mismatch: expected '' @ show_int (artifact_size artifact) @ '', got ''
            @ show_nat (length content)))
          else if sha512 content \<noteq> artifact_text artifact ''sha512'' then Inl (PlainError ''OpenH264 SHA-512 mismatch'')
          else Inr content))"

definition archive_members :: "string list" where
  "archive_members = [''gmpopenh264.info'', ''libgmpopenh264.so'']"

definition install_body :: "'e codec_oracle \<Rightarrow> string \<Rightarrow> json \<Rightarrow> string \<Rightarrow> string \<Rightarrow> ('e, string) codec" where
  "install_body w version artifact outputRoot staging =
     (let archive = join_path staging ''openh264.zip'';
          extracted = join_path (join_path staging ''gmp-gmpopenh264'') version in
      codec_bind (ask (co_fetch w (artifact_text artifact ''url''))) (\<lambda>response.
      codec_bind (codec_check (check_response (co_sha512 w) artifact response)) (\<lambda>content.
      codec_bind (change w (WriteArchive archive content)) (\<lambda>_.
      codec_bind (ask (co_list w archive)) (\<lambda>listing.
      codec_bind (codec_check (assert_that
        (sort_strings (filter (\<lambda>l. l \<noteq> []) (split_on (CHR 0x0A) listing)) = archive_members) failed_assertion)) (\<lambda>_.
      codec_bind (change w (MakeDirectory extracted)) (\<lambda>_.
      codec_bind (change w (ExtractArchive archive extracted)) (\<lambda>_.
      codec_bind (validateInstalledFile w (join_path extracted ''gmpopenh264.info'')) (\<lambda>_.
      codec_bind (validateInstalledFile w (join_path extracted ''libgmpopenh264.so'')) (\<lambda>_.
      codec_bind (change w (ChangeMode (join_path extracted ''gmpopenh264.info''))) (\<lambda>_.
      codec_bind (change w (ChangeMode (join_path extracted ''libgmpopenh264.so''))) (\<lambda>_.
      codec_bind (change w (RemoveFile archive)) (\<lambda>_.
      codec_bind (change w (RenameTo staging outputRoot)) (\<lambda>_.
      codec_check (Inr (join_path (join_path outputRoot ''gmp-gmpopenh264'') version))))))))))))))))"

definition installArtifact :: "'e codec_oracle \<Rightarrow> string \<Rightarrow> json \<Rightarrow> string \<Rightarrow> ('e, string) codec" where
  "installArtifact w version artifact outputRoot =
     (let parent = dirname outputRoot in
      codec_bind (change w (MakeDirectory parent)) (\<lambda>_.
      codec_bind (ask (co_mkdtemp w (join_path parent ''.fireball-openh264-''))) (\<lambda>staging s.
        case install_body w version artifact outputRoot staging s of
          (r, s1) \<Rightarrow>
            (case change w (RemoveStaging staging) s1 of
               (Inl e, s2) \<Rightarrow> (Inl e, s2)
             | (Inr _, s2) \<Rightarrow> (r, s2)))))"

subsection \<open>Only a verified archive is installed\<close>

definition is_installation :: "codec_call \<times> bool \<Rightarrow> bool" where
  "is_installation entry = (case entry of (RenameTo source target, True) \<Rightarrow> True | _ \<Rightarrow> False)"

lemma check_response_Inr:
  "check_response sha512 artifact response = Inr content \<longleftrightarrow>
     cr_ok response \<and> cr_url response = artifact_text artifact ''url'' \<and> cr_length response = Integer (artifact_size artifact)
     \<and> cr_body response = Inr content \<and> int (length content) = artifact_size artifact
     \<and> sha512 content = artifact_text artifact ''sha512''"
  by (auto simp: check_response_def bind_result_Inr split: if_splits)

text \<open>What holds of the result and of the log after a run, whatever the oracle answers.\<close>

definition codec_ok :: "('e, 'a) codec \<Rightarrow> (thrown + 'a \<Rightarrow> (codec_call \<times> bool) list \<Rightarrow> bool) \<Rightarrow> (codec_call \<times> bool) list \<Rightarrow> bool" where
  "codec_ok m P log = (\<forall>e. case m \<lparr>cd_log = log, cd_env = e\<rparr> of (r, s) \<Rightarrow> P r (cd_log s))"

lemma codec_ok_D:
  assumes "codec_ok m P (cd_log s)" and "m s = (r, s')"
  shows "P r (cd_log s')"
proof -
  have "s = \<lparr>cd_log = cd_log s, cd_env = cd_env s\<rparr>" by simp
  with assms show ?thesis unfolding codec_ok_def by (metis case_prod_conv)
qed

lemma codec_ok_bind:
  "codec_ok m (\<lambda>r log. case r of Inl e \<Rightarrow> P (Inl e) log | Inr a \<Rightarrow> codec_ok (f a) P log) log \<Longrightarrow> codec_ok (codec_bind m f) P log"
  unfolding codec_ok_def [of "codec_bind m f"]
proof
  fix e assume ok: "codec_ok m (\<lambda>r log. case r of Inl e \<Rightarrow> P (Inl e) log | Inr a \<Rightarrow> codec_ok (f a) P log) log"
  obtain r s where run: "m \<lparr>cd_log = log, cd_env = e\<rparr> = (r, s)" by fastforce
  from ok run have after: "case r of Inl e \<Rightarrow> P (Inl e) (cd_log s) | Inr a \<Rightarrow> codec_ok (f a) P (cd_log s)"
    unfolding codec_ok_def [of m] by (metis (no_types, lifting) case_prod_conv)
  show "case codec_bind m f \<lparr>cd_log = log, cd_env = e\<rparr> of (r, s) \<Rightarrow> P r (cd_log s)"
  proof (cases r)
    case (Inl x)
    with run after show ?thesis by (simp add: codec_bind_def)
  next
    case (Inr a)
    obtain r' s' where rest: "f a s = (r', s')" by fastforce
    have "codec_ok (f a) P (cd_log s)" using after Inr by simp
    then have "P r' (cd_log s')" using rest by (rule codec_ok_D)
    with run rest Inr show ?thesis by (simp add: codec_bind_def)
  qed
qed

lemma codec_ok_check: "P r log \<Longrightarrow> codec_ok (codec_check r) P log"
  by (simp add: codec_ok_def codec_check_def)

lemma codec_ok_bind_ask:
  "(\<And>e. P (Inl e) log) \<Longrightarrow> (\<And>a. codec_ok (f a) P log) \<Longrightarrow> codec_ok (codec_bind (ask q) f) P log"
  by (rule codec_ok_bind) (simp add: codec_ok_def [of "ask q"] ask_def split: prod.splits sum.splits)

lemma codec_ok_bind_check:
  "(\<And>e. P (Inl e) log) \<Longrightarrow> (\<And>a. r = Inr a \<Longrightarrow> codec_ok (f a) P log) \<Longrightarrow> codec_ok (codec_bind (codec_check r) f) P log"
  by (rule codec_ok_bind, rule codec_ok_check) (simp split: sum.splits)

lemma codec_ok_bind_change:
  "(\<And>e. P (Inl e) (log @ [(c, False)])) \<Longrightarrow> codec_ok (f ()) P (log @ [(c, True)]) \<Longrightarrow> codec_ok (codec_bind (change w c) f) P log"
  by (rule codec_ok_bind) (simp add: codec_ok_def [of "change w c"] change_def split: prod.splits sum.splits)

lemma codec_ok_bind_file:
  "(\<And>e. P (Inl e) log) \<Longrightarrow> codec_ok (f ()) P log \<Longrightarrow> codec_ok (codec_bind (validateInstalledFile w p) f) P log"
  unfolding validateInstalledFile_def
  by (rule codec_ok_bind, rule codec_ok_bind_ask) (auto intro!: codec_ok_check split: sum.splits)

lemmas codec_rules = codec_ok_bind_ask codec_ok_bind_check codec_ok_bind_change codec_ok_bind_file codec_ok_check

definition verified_archive :: "'e codec_oracle \<Rightarrow> json \<Rightarrow> string \<Rightarrow> (codec_call \<times> bool) list \<Rightarrow> bool" where
  "verified_archive w artifact staging log \<longleftrightarrow>
     (\<exists>content. (WriteArchive (join_path staging ''openh264.zip'') content, True) \<in> set log
        \<and> int (length content) = artifact_size artifact \<and> co_sha512 w content = artifact_text artifact ''sha512'')"

definition installed_state ::
  "'e codec_oracle \<Rightarrow> json \<Rightarrow> string \<Rightarrow> string \<Rightarrow> bool \<Rightarrow> (codec_call \<times> bool) list \<Rightarrow> bool" where
  "installed_state w artifact outputRoot staging failed log \<longleftrightarrow>
     (if failed then filter is_installation log = []
      else \<exists>pre. log = pre @ [(RenameTo staging outputRoot, True)] \<and> filter is_installation pre = []
        \<and> verified_archive w artifact staging pre)"

lemma install_body_ok:
  assumes "filter is_installation log = []"
  shows "codec_ok (install_body w version artifact outputRoot staging)
    (\<lambda>r log'. installed_state w artifact outputRoot staging (isl r) log') log"
  unfolding install_body_def Let_def
  by (intro codec_rules)
    (use assms in \<open>auto simp: installed_state_def is_installation_def verified_archive_def check_response_Inr\<close>)

text \<open>
  An installation that returns has moved a staging directory to the output path whose archive had the size and the
  checksum of the manifest; one that throws has not, unless only the removal of the staging directory failed
  afterwards. The staging directory is removed in either case.
\<close>

lemma installed_archive_is_verified:
  fixes w :: "'e codec_oracle"
  assumes run: "installArtifact w version artifact outputRoot \<lparr>cd_log = [], cd_env = e\<rparr> = (r, s)"
  shows "cd_log s = [(MakeDirectory (dirname outputRoot), False)] \<and> isl r
    \<or> cd_log s = [(MakeDirectory (dirname outputRoot), True)] \<and> isl r
    \<or> (\<exists>staging log failed b. cd_log s = log @ [(RemoveStaging staging, b)]
         \<and> installed_state w artifact outputRoot staging failed log \<and> isl r = (failed \<or> \<not> b))"
proof -
  let ?Q = "\<lambda>r log. log = [(MakeDirectory (dirname outputRoot), False)] \<and> isl r
    \<or> log = [(MakeDirectory (dirname outputRoot), True)] \<and> isl r
    \<or> (\<exists>staging log' failed b. log = log' @ [(RemoveStaging staging, b)]
         \<and> installed_state w artifact outputRoot staging failed log' \<and> isl r = (failed \<or> \<not> b))"
  let ?last = "\<lambda>staging s. case install_body w version artifact outputRoot staging s of
          (r, s1) \<Rightarrow>
            (case change w (RemoveStaging staging) s1 of
               (Inl e, s2) \<Rightarrow> (Inl e, s2)
             | (Inr _, s2) \<Rightarrow> (r, s2))"
  have "codec_ok (?last staging) ?Q [(MakeDirectory (dirname outputRoot), True)]" for staging
    unfolding codec_ok_def [of "?last staging"]
  proof
    fix e :: 'e
    let ?s = "\<lparr>cd_log = [(MakeDirectory (dirname outputRoot), True)], cd_env = e\<rparr>"
    obtain r1 s1 where body: "install_body w version artifact outputRoot staging ?s = (r1, s1)" by fastforce
    have "codec_ok (install_body w version artifact outputRoot staging)
        (\<lambda>r log'. installed_state w artifact outputRoot staging (isl r) log') (cd_log ?s)"
      by (rule install_body_ok) (simp add: is_installation_def)
    then have st: "installed_state w artifact outputRoot staging (isl r1) (cd_log s1)"
      using body by (rule codec_ok_D)
    obtain r2 s2 where removal: "change w (RemoveStaging staging) s1 = (r2, s2)" by fastforce
    then have "cd_log s2 = cd_log s1 @ [(RemoveStaging staging, \<not> isl r2)]"
      by (auto simp: change_def split: prod.splits)
    with st body removal show "case ?last staging ?s of (r, s) \<Rightarrow> ?Q r (cd_log s)"
      by (cases r2) (simp_all, blast+)
  qed
  then have "codec_ok (installArtifact w version artifact outputRoot) ?Q []"
    unfolding installArtifact_def Let_def by (intro codec_ok_bind_change codec_ok_bind_ask) simp_all
  then have "codec_ok (installArtifact w version artifact outputRoot) ?Q (cd_log \<lparr>cd_log = [], cd_env = e\<rparr>)" by simp
  then show ?thesis using run by (rule codec_ok_D)
qed

text \<open>The pattern of the 64-bit Intel archive also admits the one for ARM.\<close>

definition aarch64_artifact :: json where
  "aarch64_artifact = JObj
     [(''url'', JStr ''https://ciscobinary.openh264.org/openh264-linux64-aarch64-0.zip''), (''size'', JNum (Integer 1)),
      (''sha512'', JStr (replicate 128 (CHR ''a'')))]"

lemma aarch64_archive_accepted_for_amd64: "validateArtifact (''linux/amd64'', aarch64_artifact) = Inr ()"
proof -
  let ?url = "''https://ciscobinary.openh264.org/openh264-linux64-aarch64-0.zip''"
  have "sort_strings [''url'', ''size'', ''sha512''] = [''sha512'', ''size'', ''url'']" "matches_codec_url ?url"
    "occurs_in ''-linux64-'' ?url"
    by code_simp+
  moreover have "matches_sha512 (replicate 128 (CHR ''a''))" by (simp add: matches_sha512_def list_all_iff js_text_simps)
  ultimately show ?thesis
    unfolding validateArtifact_def prod.case all_asserted_Inr
    by (simp add: assert_keys_def assert_match_def valid_size_def aarch64_artifact_def)
qed

end
