(* ===== verification/HealthCheck.thy ===== *)
theory HealthCheck
  imports Types
begin

text \<open>
  \<open>session/healthcheck.mjs\<close>, which the container's health check runs: it connects to both ports and fails
  when one of the two connections does. A socket's events and its timer are the inputs of a probe. A timer that
  fires destroys the socket with an error, which then comes as the socket's \<open>error\<close> event.
\<close>

datatype port_event = Connected | Failed string | TimerFired

datatype settled = Pending | Resolved | Rejected string

record port_probe =
  pp_port :: nat
  pp_timer :: bool
  pp_connected :: bool
  pp_failed :: bool
  pp_destroyed :: "string option list"
  pp_settled :: settled

definition start_probe :: "nat \<Rightarrow> port_probe" where
  "start_probe port = \<lparr>pp_port = port, pp_timer = True, pp_connected = False, pp_failed = False, pp_destroyed = [], pp_settled = Pending\<rparr>"

text \<open>A promise is settled by the first call.\<close>

definition settle :: "settled \<Rightarrow> port_probe \<Rightarrow> port_probe" where
  "settle r p = (if pp_settled p = Pending then p\<lparr>pp_settled := r\<rparr> else p)"

fun probe_event :: "port_event \<Rightarrow> port_probe \<Rightarrow> port_probe" where
  "probe_event Connected p =
     (if pp_connected p then p
      else settle Resolved (p\<lparr>pp_connected := True, pp_timer := False, pp_destroyed := pp_destroyed p @ [None]\<rparr>))"
| "probe_event (Failed message) p =
     (if pp_failed p then p else settle (Rejected message) (p\<lparr>pp_failed := True, pp_timer := False\<rparr>))"
| "probe_event TimerFired p =
     (if \<not> pp_timer p then p
      else p\<lparr>pp_timer := False,
             pp_destroyed := pp_destroyed p @ [Some (''port '' @ show_nat (pp_port p) @ '' timed out'')]\<rparr>)"

definition targets :: "nat list" where
  "targets = [8443, 8444]"

type_synonym health_check = "(nat \<Rightarrow> port_probe) \<times> settled"

definition start_check :: health_check where
  "start_check = (start_probe, Pending)"

text \<open>
  \<open>Promise.all\<close>: rejected with the first rejection, resolved once all are. An event is one of a port's socket.
\<close>

definition check_event :: "nat \<times> port_event \<Rightarrow> health_check \<Rightarrow> health_check" where
  "check_event e c =
     (case (e, c) of
        ((port, event), (probes, result)) \<Rightarrow>
          let probes' = probes(port := probe_event event (probes port)) in
          (probes',
           if result \<noteq> Pending then result
           else (case pp_settled (probes' port) of
                   Rejected message \<Rightarrow> if port \<in> set targets then Rejected message else Pending
                 | _ \<Rightarrow> if list_all (\<lambda>t. pp_settled (probes' t) = Resolved) targets then Resolved else Pending)))"

definition health_exit :: "settled \<Rightarrow> (int \<times> string) option" where
  "health_exit result =
     (case result of
        Pending \<Rightarrow> None
      | Resolved \<Rightarrow> Some (0, [])
      | Rejected message \<Rightarrow> Some (1, ''fireball-session healthcheck failed: '' @ message @ [CHR 0x0A]))"

lemma settle_final: "pp_settled p \<noteq> Pending \<Longrightarrow> pp_settled (probe_event e p) = pp_settled p"
  by (cases e) (simp_all add: settle_def)

lemma resolved_connected:
  "(pp_settled p = Resolved \<Longrightarrow> pp_connected p) \<Longrightarrow> pp_settled (probe_event e p) = Resolved \<Longrightarrow> pp_connected (probe_event e p)"
  by (cases e) (auto simp: settle_def split: if_splits)

text \<open>A check that succeeds has connected to every port; one that has ended keeps its result.\<close>

definition check_ok :: "health_check \<Rightarrow> bool" where
  "check_ok c \<longleftrightarrow>
     (\<forall>t. pp_settled (fst c t) = Resolved \<longrightarrow> pp_connected (fst c t))
     \<and> (snd c = Resolved \<longrightarrow> list_all (\<lambda>t. pp_settled (fst c t) = Resolved) targets)"

lemma check_ok_step:
  assumes "check_ok c" shows "check_ok (check_event e c)"
proof -
  obtain port event probes result where ec: "e = (port, event)" "c = (probes, result)" by (metis prod.collapse)
  let ?probes = "probes(port := probe_event event (probes port))"
  have connected: "\<forall>t. pp_settled (?probes t) = Resolved \<longrightarrow> pp_connected (?probes t)"
    using assms ec resolved_connected [of "probes port" event] by (auto simp: check_ok_def)
  have "list_all (\<lambda>t. pp_settled (?probes t) = Resolved) targets" if "result = Resolved"
    using that assms ec settle_final [of "probes port" event] by (auto simp: list_all_iff check_ok_def)
  with connected show ?thesis by (auto simp: ec check_event_def check_ok_def Let_def split: settled.splits if_splits)
qed

lemma check_ok_fold: "check_ok c \<Longrightarrow> check_ok (fold check_event es c)"
  by (induction es arbitrary: c) (simp_all add: check_ok_step)

lemma healthy_ports_connected:
  assumes "health_exit (snd (fold check_event es start_check)) = Some (0, [])"
  shows "list_all (\<lambda>t. pp_connected (fst (fold check_event es start_check) t)) targets"
proof -
  have "check_ok start_check" by (simp add: check_ok_def start_check_def start_probe_def)
  then have "check_ok (fold check_event es start_check)" by (rule check_ok_fold)
  moreover have "snd (fold check_event es start_check) = Resolved"
    using assms by (auto simp: health_exit_def split: settled.splits)
  ultimately show ?thesis by (auto simp: list_all_iff check_ok_def)
qed

lemma ended_check_stays: "snd c \<noteq> Pending \<Longrightarrow> snd (fold check_event es c) = snd c"
proof (induction es arbitrary: c)
  case (Cons e es)
  have "snd (check_event e c) = snd c" using Cons.prems by (auto simp: check_event_def Let_def split: prod.splits)
  with Cons show ?case by simp
qed simp

end
