(* ===== verification/Spec2Isabelle.thy ===== *)
theory Spec2Isabelle
  imports SessionProperties TabProperties DockerProperties Auth GatewayProperties SupervisorProperties
    ProxyProperties TabWire AppProperties MainProperties NginxProperties NginxConfig SeccompBuilderProperties
    EvidenceProperties BrowserState Polling MediaBridge TurnProperties ContainerGate
    Openh264 HealthCheck
begin

text \<open>
  fireball-docker runs one browser per tenant session in a container of its own. The program has
  two halves, both modelled here from their TypeScript and JavaScript sources.

  The orchestrator (\<open>src/\<close>). \<open>app.ts\<close> takes HTTP requests, authenticates them and calls
  the session service; the session service creates and destroys containers through a runtime
  adapter, the Docker one in production; it issues one-time pairing tickets and signaling
  tokens. A browser then opens a WebSocket at the signaling gateway, presents its token, and is
  relayed by the upstream connector to the container of its session. Destroying a session
  revokes its credentials and, through the connection registry, its relays. \<open>main.ts\<close> puts
  these together from the environment.

  The supervisor (\<open>session/\<close>), which runs in each container. It checks its configuration,
  starts the native browser process with it, talks to that process over a line protocol
  (\<open>tab-control.mjs\<close>), serves the orchestrator's tab requests over HTTP, and relays the
  orchestrator's WebSocket to the native signaling server.

  \<^bold>\<open>Theories.\<close>
  \<^item> Prelude, JsText, Types: JavaScript's \<open>Map\<close>, \<open>Set\<close>, numbers and JSON; its text
    functions (UTF-8, percent-encoding, decimals, \<open>JSON.stringify\<close>, \<open>split\<close>, \<open>trim\<close>, paths);
    \<open>domain/types.ts\<close> and \<open>domain/errors.ts\<close>. A thrown value is \<open>Inl\<close> of the type
    \<open>thrown\<close>. The locales \<open>dictionary\<close> and \<open>step_invariant\<close> are interpreted by every
    component that has a map or a step relation.
  \<^item> SessionService: \<open>domain/session-service.ts\<close>, each method cut at its \<open>await\<close>s.
    SessionInvariant relates its five maps; SessionSystem lets any number of methods interleave
    (\<open>service_step\<close>); SessionQuota is the invariant of the limits; SessionProperties states
    what the service promises in every reachable state and of every method.
  \<^item> TabSpec: the contract of a session's tabs, a locale. RuntimeTabs
    (\<open>runtime/in-memory-runtime.ts\<close>) and TabControl (\<open>session/tab-control.mjs\<close>, with the
    driver as a state machine \<open>driver_step\<close>) both fulfil it; TabProperties draws from that
    that they agree.
  \<^item> DockerTransport, SeccompProfile, DockerRuntime: the runtime adapter over the Docker
    Engine (\<open>runtime/docker-engine-transport.ts\<close>, \<open>seccomp-profile.ts\<close>,
    \<open>docker-engine-runtime.ts\<close>), with the world of the transport passed explicitly;
    DockerProperties looks at the history of requests: rollback, reconciliation, inspection.
  \<^item> Auth: \<open>auth/\<close>, two authenticators and their contract, the locale
    \<open>authenticator\<close>.
  \<^item> Sockets, Registry, Connector, Gateway: \<open>signaling/\<close>. A socket is a record of its
    ready state and of what was done to it; the registry fulfils the locale
    \<open>live_connections\<close>; the connector's handshake is a function of its list of events; the
    gateway is the relation \<open>gateway_step\<close> over all relays. GatewayInvariant and
    GatewayProperties hold in every interleaving.
  \<^item> IceConfiguration, Supervisor, SignalingProxy, TabServer: \<open>session/supervisor.mjs\<close> in
    four parts. IceProperties and SupervisorProperties show that accepted configurations reach
    the native process unchanged; ProxyInvariant and ProxyProperties are about the relation
    \<open>proxy_step\<close>.
  \<^item> App, MainConfig: \<open>app.ts\<close> and \<open>main.ts\<close>, with AppProperties and MainProperties.

  \<^item> FileSystem, NginxInstall, NginxConfig: \<open>scripts/install-nginx-config.mjs\<close> over a world of files in
    which every call may fail, and \<open>scripts/render-nginx-config.mjs\<close>. NginxProperties proves the
    transaction with weakest preconditions, NginxConfig that replacing token by token is one substitution.
  \<^item> Assertions, SeccompBuilder, CandidateEvidence: \<open>scripts/seccomp-profile.mjs\<close>, which derives the
    profile the orchestrator installs, and \<open>scripts/session-candidate-evidence.mjs\<close>, which binds a
    released image to its source. SeccompBuilderProperties and EvidenceProperties show what an accepted
    document guarantees, and that the documents the scripts make are accepted.
  \<^item> BrowserState: \<open>scripts/fixtures/browser-state-server.mjs\<close>, its requests as the
    relation \<open>state_step\<close>; a report it holds answers its current command in every reachable state.
  \<^item> Commands, Polling: what the end-to-end gates \<open>scripts/real-*.mjs\<close> share, commands that
    are run and waiting until a deadline has passed or attempts are used up; the locale
    \<open>deadline_loop\<close> has the argument why the loops end.
  \<^item> MediaBridge, MediaGate: \<open>scripts/real-media-gate.mjs\<close>, its WebSocket bridges to the public relay as the
    relation \<open>media_step\<close> with its invariant, and the checks of its arguments and of the browser's ICE document.
  \<^item> TurnGate, TurnProperties: \<open>scripts/real-turn-gate.mjs\<close>, a transaction whose calls may all fail, with the
    documents it makes.
  \<^item> Openh264, HealthCheck: \<open>scripts/install-firefox-openh264.mjs\<close>, which installs only an archive with the
    manifest's checksum, and \<open>session/healthcheck.mjs\<close>.
  \<^item> ContainerGate: what \<open>scripts/real-isolation-gate.mjs\<close> demands of a container.

  \<^bold>\<open>Where components meet.\<close> TabWire composes the Docker runtime's HTTP client with the
  supervisor's request handler and the tab controller; ProxyProperties composes the connector
  with the container's proxy; GatewayProperties runs the gateway's closers from the registry;
  AppProperties composes the HTTP interface with the authenticators and the session service;
  MainProperties composes the startup with every constructor; SeccompBuilderProperties runs the
  orchestrator's reader on the profile the builder makes; TurnProperties runs the supervisor's and the
  media gate's readers on the documents of the TURN gate; ContainerGate puts the containers that DockerRuntime asks for
  before the isolation gate.

  \<^bold>\<open>Loops.\<close> Every loop of the code is a structural recursion: over the list it visits, or
  for health checks over the number of attempts the configuration allows; only the printing of decimals and
  the replacement of tokens recurse on a smaller number or a shorter text. A loop that waits for the clock is a
  \<open>partial_function (option)\<close>; that it returns is \<open>deadline_loops_return\<close>. No fuel is used by the model.
  Long-lived behaviour is an inductive step relation and the theorems quantify over all
  reachable states.

  \<^bold>\<open>Parameters.\<close> Code that is not in the repository is an argument: SHA-256, random
  values, UUIDs and clocks, \<open>JSON.parse\<close>, the URL parser, \<open>jwtVerify\<close> of jose, Fastify's
  routing and its validator ajv, the Docker Engine's answers, the sockets of ws (their events
  are steps), files (what \<open>stat\<close> and the read saw), downloads, the commands a script runs, and the answers of the
  native process.

  \<^bold>\<open>Not modelled.\<close> The generated type declarations \<open>generated/xanhtab-v1.ts\<close>; logging;
  the passing of time between the runtime's health checks; what the end-to-end gates \<open>scripts/real-*.mjs\<close> do
  beyond the parts named above (requests, sockets and browsers they drive, whose answers they compare);
  \<open>scripts/check-*.mjs\<close>, which search the repository's files for fixed texts; \<open>scripts/sync-xanhtab-contract.mjs\<close> and most of the container's
  smoke test, which copy files and drive other programs; the native runtime and its wrapper, which are written in C++ and C.
\<close>

end
